(* ===== verification/Corvus_Prelude.thy ===== *)
theory Corvus_Prelude
  imports Complex_Main "HOL-Library.Char_ord" "HOL-Library.List_Lexorder" "HOL-Library.Sublist"
begin

text \<open>
  Shared vocabulary of the development: Python exceptions as values, the state-and-error
  type of the server's coroutines with its invariant calculus, JSON values with the Python
  operations the sources apply to them (truthiness, \<^verbatim>\<open>or\<close>, \<^verbatim>\<open>str\<close>, \<^verbatim>\<open>int\<close>, \<^verbatim>\<open>dict.get\<close>,
  iteration), the conversions pydantic applies to declared fields, and the table operations
  behind the SQL statements of \<^verbatim>\<open>server/db.py\<close>.

  Strings are lists of characters and stand for ASCII text, so that the length of a string
  is also the length of its UTF-8 encoding.  Instants are microseconds since the epoch.
\<close>

named_theorems act_simps \<open>unfolding the state-and-error combinators\<close>
named_theorems pres_intro \<open>introduction rules for invariant preservation\<close>
named_theorems table_simps \<open>lookup and key facts of the table operations\<close>

section \<open>Results and actions\<close>

datatype exc = KeyError | TypeError | AttributeError | ValueError | ValidationError
  | RuntimeError | IntegrityError | ProgrammingError | InvalidTag | CodecError | TimeoutError
  | CancelledError | OSError | FileNotFoundError | OverflowError | ToolExecutionError | TerminalToolError

type_synonym 'a res = "exc + 'a"

type_synonym ('s, 'a) act = "'s \<Rightarrow> 'a res \<times> 's"

fun bindE :: "'a res \<Rightarrow> ('a \<Rightarrow> 'b res) \<Rightarrow> 'b res" where
  "bindE (Inl e) f = Inl e"
| "bindE (Inr x) f = f x"

definition ret :: "'a \<Rightarrow> ('s, 'a) act" where
  "ret x = (\<lambda>s. (Inr x, s))"

definition raise :: "exc \<Rightarrow> ('s, 'a) act" where
  "raise e = (\<lambda>s. (Inl e, s))"

definition liftR :: "'a res \<Rightarrow> ('s, 'a) act" where
  "liftR r = (\<lambda>s. (r, s))"

definition getS :: "('s \<Rightarrow> 'a) \<Rightarrow> ('s, 'a) act" where
  "getS f = (\<lambda>s. (Inr (f s), s))"

definition modS :: "('s \<Rightarrow> 's) \<Rightarrow> ('s, unit) act" where
  "modS f = (\<lambda>s. (Inr (), f s))"

definition bindA :: "('s, 'a) act \<Rightarrow> ('a \<Rightarrow> ('s, 'b) act) \<Rightarrow> ('s, 'b) act" where
  "bindA m f = (\<lambda>s. case m s of (r, s') \<Rightarrow> (case r of Inl e \<Rightarrow> (Inl e, s') | Inr x \<Rightarrow> f x s'))"

definition thenA :: "('s, 'a) act \<Rightarrow> ('s, 'b) act \<Rightarrow> ('s, 'b) act" where
  "thenA m k = bindA m (\<lambda>_. k)"

text \<open>\<^verbatim>\<open>if cond: action\<close> with nothing in the other branch.\<close>

definition whenA :: "bool \<Rightarrow> ('s, unit) act \<Rightarrow> ('s, unit) act" where
  "whenA b m = (if b then m else ret ())"

lemma bindE_eq_Inr [simp]: "bindE r f = Inr y \<longleftrightarrow> (\<exists>x. r = Inr x \<and> f x = Inr y)"
  by (cases r) auto

lemma bindE_InrE:
  assumes "bindE r f = Inr y"
  obtains x where "r = Inr x" and "f x = Inr y"
  using assms by (cases r) auto

lemma bindE_cong [fundef_cong]: "r = r' \<Longrightarrow> (\<And>x. r' = Inr x \<Longrightarrow> f x = g x) \<Longrightarrow> bindE r f = bindE r' g"
  by (cases r') auto

lemma ret_apply [simp, act_simps]: "ret x s = (Inr x, s)"
  by (simp add: ret_def)

lemma raise_apply [simp, act_simps]: "raise e s = (Inl e, s)"
  by (simp add: raise_def)

lemma liftR_apply [simp, act_simps]: "liftR r s = (r, s)"
  by (simp add: liftR_def)

lemma getS_apply [simp, act_simps]: "getS f s = (Inr (f s), s)"
  by (simp add: getS_def)

lemma modS_apply [simp, act_simps]: "modS f s = (Inr (), f s)"
  by (simp add: modS_def)

lemma bindA_Inr [simp, act_simps]: "m s = (Inr x, s') \<Longrightarrow> bindA m f s = f x s'"
  by (simp add: bindA_def)

lemma bindA_Inl [simp, act_simps]: "m s = (Inl e, s') \<Longrightarrow> bindA m f s = (Inl e, s')"
  by (simp add: bindA_def)

lemma thenA_Inr [simp, act_simps]: "m s = (Inr x, s') \<Longrightarrow> thenA m k s = k s'"
  by (simp add: thenA_def)

lemma thenA_Inl [simp, act_simps]: "m s = (Inl e, s') \<Longrightarrow> thenA m k s = (Inl e, s')"
  by (simp add: thenA_def)

lemma bindA_InrE:
  assumes "bindA m f s = (Inr y, t)"
  obtains x s' where "m s = (Inr x, s')" and "f x s' = (Inr y, t)"
  using assms by (auto simp: bindA_def split: prod.splits sum.splits)

lemma thenA_InrE:
  assumes "thenA m k s = (Inr y, t)"
  obtains x s' where "m s = (Inr x, s')" and "k s' = (Inr y, t)"
  using assms by (auto simp: thenA_def elim: bindA_InrE)

section \<open>Preservation of a state predicate by an action\<close>

text \<open>
  An action may raise after it has written: the SQL statements before the exception are
  committed.  Preservation therefore speaks of the final state whether the action returned
  or raised.
\<close>

definition preserves :: "('s \<Rightarrow> bool) \<Rightarrow> ('s, 'a) act \<Rightarrow> bool" where
  "preserves P m \<longleftrightarrow> (\<forall>s. P s \<longrightarrow> P (snd (m s)))"

lemma preservesI: "(\<And>s. P s \<Longrightarrow> P (snd (m s))) \<Longrightarrow> preserves P m"
  by (simp add: preserves_def)

lemma preservesD: "preserves P m \<Longrightarrow> P s \<Longrightarrow> P (snd (m s))"
  by (simp add: preserves_def)

lemma preserves_ret [pres_intro]: "preserves P (ret x)"
  by (simp add: preserves_def)

lemma preserves_raise [pres_intro]: "preserves P (raise e)"
  by (simp add: preserves_def)

lemma preserves_liftR [pres_intro]: "preserves P (liftR r)"
  by (simp add: preserves_def)

lemma preserves_getS [pres_intro]: "preserves P (getS f)"
  by (simp add: preserves_def)

lemma preserves_modS: "(\<And>s. P s \<Longrightarrow> P (f s)) \<Longrightarrow> preserves P (modS f)"
  by (simp add: preserves_def)

lemma preserves_bindA [pres_intro]:
  "preserves P m \<Longrightarrow> (\<And>x. preserves P (f x)) \<Longrightarrow> preserves P (bindA m f)"
  by (fastforce simp: preserves_def bindA_def split: prod.splits sum.splits)

lemma preserves_thenA [pres_intro]:
  "preserves P m \<Longrightarrow> preserves P k \<Longrightarrow> preserves P (thenA m k)"
  by (simp add: thenA_def preserves_bindA)

lemma preserves_whenA [pres_intro]: "(b \<Longrightarrow> preserves P m) \<Longrightarrow> preserves P (whenA b m)"
  by (simp add: whenA_def preserves_ret)

lemma preserves_if [pres_intro]:
  "(b \<Longrightarrow> preserves P m) \<Longrightarrow> (\<not> b \<Longrightarrow> preserves P n) \<Longrightarrow> preserves P (if b then m else n)"
  by simp

lemma preserves_case_option [pres_intro]:
  "(x = None \<Longrightarrow> preserves P m) \<Longrightarrow> (\<And>y. x = Some y \<Longrightarrow> preserves P (f y)) \<Longrightarrow>
    preserves P (case x of None \<Rightarrow> m | Some y \<Rightarrow> f y)"
  by (cases x) simp_all

lemma preserves_case_sum [pres_intro]:
  "(\<And>e. r = Inl e \<Longrightarrow> preserves P (f e)) \<Longrightarrow> (\<And>x. r = Inr x \<Longrightarrow> preserves P (g x)) \<Longrightarrow>
    preserves P (case r of Inl e \<Rightarrow> f e | Inr x \<Rightarrow> g x)"
  by (cases r) simp_all

lemma preserves_case_prod [pres_intro]:
  "(\<And>a b. p = (a, b) \<Longrightarrow> preserves P (f a b)) \<Longrightarrow> preserves P (case p of (a, b) \<Rightarrow> f a b)"
  by (cases p) simp

lemma preserves_let [pres_intro]: "preserves P (f x) \<Longrightarrow> preserves P (let y = x in f y)"
  by simp

lemma preserves_liftR_bind:
  "(\<And>x. r = Inr x \<Longrightarrow> preserves P (f x)) \<Longrightarrow> preserves P (bindA (liftR r) f)"
  by (cases r) (auto simp: preserves_def bindA_def)

lemma preserves_getS_bind:
  "(\<And>x. preserves P (f x)) \<Longrightarrow> preserves P (bindA (getS g) f)"
  by (simp add: preserves_def)

text \<open>An action that never changes the component \<open>f\<close> of the state.\<close>

definition keeps :: "('s \<Rightarrow> 'c) \<Rightarrow> ('s, 'a) act \<Rightarrow> bool" where
  "keeps f m \<longleftrightarrow> (\<forall>c. preserves (\<lambda>s. f s = c) m)"

lemma keepsD: "keeps f m \<Longrightarrow> f (snd (m s)) = f s"
  by (simp add: keeps_def preserves_def)

lemma keepsI: "(\<And>c. preserves (\<lambda>s. f s = c) m) \<Longrightarrow> keeps f m"
  by (simp add: keeps_def)

lemma keeps_pres [pres_intro]: "keeps f m \<Longrightarrow> preserves (\<lambda>s. f s = c) m"
  by (simp add: keeps_def)

section \<open>Loops over lists\<close>

fun forA :: "'a list \<Rightarrow> ('a \<Rightarrow> ('s, unit) act) \<Rightarrow> ('s, unit) act" where
  "forA [] f = ret ()"
| "forA (x # xs) f = thenA (f x) (forA xs f)"

lemma preserves_forA [pres_intro]: "(\<And>x. x \<in> set xs \<Longrightarrow> preserves P (f x)) \<Longrightarrow> preserves P (forA xs f)"
  by (induction xs) (simp_all add: preserves_ret preserves_thenA)

fun mapE :: "('a \<Rightarrow> 'b res) \<Rightarrow> 'a list \<Rightarrow> 'b list res" where
  "mapE f [] = Inr []"
| "mapE f (x # xs) = bindE (f x) (\<lambda>y. bindE (mapE f xs) (\<lambda>ys. Inr (y # ys)))"

lemma mapE_Inr_length: "mapE f xs = Inr ys \<Longrightarrow> length ys = length xs"
  by (induction xs arbitrary: ys) auto

lemma mapE_Inr_map: "(\<And>x. x \<in> set xs \<Longrightarrow> f x = Inr (g x)) \<Longrightarrow> mapE f xs = Inr (map g xs)"
  by (induction xs) auto

end
