(* ===== verification/Tables.thy ===== *)
theory Tables
  imports Corvus_Prelude
begin

text \<open>
  SQL tables as lists of rows in insertion order, with the statements the sources use:
  \<^verbatim>\<open>SELECT ... WHERE key = ?\<close>, \<^verbatim>\<open>INSERT\<close> (which fails on a duplicate primary key),
  \<^verbatim>\<open>INSERT ... ON CONFLICT DO UPDATE / DO NOTHING\<close>, \<^verbatim>\<open>UPDATE ... WHERE\<close>, \<^verbatim>\<open>DELETE ... WHERE\<close>
  and \<^verbatim>\<open>ORDER BY ... LIMIT\<close>.  The locale \<open>keyed_table\<close> is the contract of a table with a
  primary key; \<open>Database\<close> interpretes it for its tables.
\<close>

definition lookup_row :: "('r \<Rightarrow> 'k) \<Rightarrow> 'k \<Rightarrow> 'r list \<Rightarrow> 'r option" where
  "lookup_row key k rows = List.find (\<lambda>r. key r = k) rows"

definition has_row :: "('r \<Rightarrow> 'k) \<Rightarrow> 'k \<Rightarrow> 'r list \<Rightarrow> bool" where
  "has_row key k rows \<longleftrightarrow> list_ex (\<lambda>r. key r = k) rows"

definition insert_row :: "('r \<Rightarrow> 'k) \<Rightarrow> 'r \<Rightarrow> 'r list \<Rightarrow> 'r list res" where
  "insert_row key new rows = (if has_row key (key new) rows then Inl IntegrityError else Inr (rows @ [new]))"

text \<open>\<open>merge old new\<close> is the row an \<^verbatim>\<open>ON CONFLICT DO UPDATE\<close> leaves; \<open>old\<close> itself for \<^verbatim>\<open>DO NOTHING\<close>.\<close>

definition upsert_row :: "('r \<Rightarrow> 'k) \<Rightarrow> ('r \<Rightarrow> 'r \<Rightarrow> 'r) \<Rightarrow> 'r \<Rightarrow> 'r list \<Rightarrow> 'r list" where
  "upsert_row key merge new rows =
     (if has_row key (key new) rows
      then map (\<lambda>r. if key r = key new then merge r new else r) rows
      else rows @ [new])"

definition update_rows :: "('r \<Rightarrow> bool) \<Rightarrow> ('r \<Rightarrow> 'r) \<Rightarrow> 'r list \<Rightarrow> 'r list" where
  "update_rows P f rows = map (\<lambda>r. if P r then f r else r) rows"

definition delete_rows :: "('r \<Rightarrow> bool) \<Rightarrow> 'r list \<Rightarrow> 'r list" where
  "delete_rows P rows = filter (\<lambda>r. \<not> P r) rows"

text \<open>\<^verbatim>\<open>cursor.rowcount\<close> of the two statements above.\<close>

definition row_count :: "('r \<Rightarrow> bool) \<Rightarrow> 'r list \<Rightarrow> nat" where
  "row_count P rows = length (filter P rows)"

text \<open>The primary key constraint.\<close>

definition keys_ok :: "('r \<Rightarrow> 'k) \<Rightarrow> 'r list \<Rightarrow> bool" where
  "keys_ok key rows \<longleftrightarrow> distinct (map key rows)"

section \<open>Facts about a single table\<close>

lemma lookup_row_Nil [simp]: "lookup_row key k [] = None"
  by (simp add: lookup_row_def)

lemma lookup_row_Cons [simp]:
  "lookup_row key k (r # rows) = (if key r = k then Some r else lookup_row key k rows)"
  by (simp add: lookup_row_def)

lemma lookup_row_SomeD:
  "lookup_row key k rows = Some r \<Longrightarrow> r \<in> set rows \<and> key r = k"
  by (induction rows) (auto split: if_splits)

lemma lookup_row_None_iff [table_simps]: "lookup_row key k rows = None \<longleftrightarrow> k \<notin> key ` set rows"
  by (induction rows) auto

lemma has_row_iff [table_simps]: "has_row key k rows \<longleftrightarrow> k \<in> key ` set rows"
  by (auto simp: has_row_def list_ex_iff)

lemma has_row_lookup: "has_row key k rows \<longleftrightarrow> (\<exists>r. lookup_row key k rows = Some r)"
  using lookup_row_None_iff [of key k rows] by (auto simp: has_row_iff)

lemma lookup_row_append:
  "lookup_row key k (xs @ ys) =
     (case lookup_row key k xs of None \<Rightarrow> lookup_row key k ys | Some r \<Rightarrow> Some r)"
  by (induction xs) auto

lemma lookup_row_in: "keys_ok key rows \<Longrightarrow> r \<in> set rows \<Longrightarrow> lookup_row key (key r) rows = Some r"
  by (induction rows) (auto simp: keys_ok_def)

lemma keys_ok_Nil [simp]: "keys_ok key []"
  by (simp add: keys_ok_def)

lemma keys_ok_unique: "keys_ok key rows \<Longrightarrow> r \<in> set rows \<Longrightarrow> r' \<in> set rows \<Longrightarrow> key r = key r' \<Longrightarrow> r = r'"
  by (metis lookup_row_in option.inject)

lemma keys_ok_snoc [table_simps]:
  "keys_ok key (rows @ [r]) \<longleftrightarrow> keys_ok key rows \<and> \<not> has_row key (key r) rows"
  by (auto simp: keys_ok_def has_row_iff)

lemma insert_row_Inr [table_simps]:
  "insert_row key new rows = Inr rows' \<longleftrightarrow> \<not> has_row key (key new) rows \<and> rows' = rows @ [new]"
  by (auto simp: insert_row_def)

lemma keys_ok_insert: "keys_ok key rows \<Longrightarrow> insert_row key new rows = Inr rows' \<Longrightarrow> keys_ok key rows'"
  by (simp add: table_simps)

lemma lookup_insert:
  assumes "insert_row key new rows = Inr rows'"
  shows "lookup_row key k rows' = (if k = key new then Some new else lookup_row key k rows)"
proof -
  from assms have fresh: "lookup_row key (key new) rows = None" and rows': "rows' = rows @ [new]"
    by (simp_all add: insert_row_Inr has_row_iff lookup_row_None_iff)
  then show ?thesis by (auto simp: lookup_row_append split: option.splits)
qed

lemma map_key_update: "(\<And>r. key (f r) = key r) \<Longrightarrow> map key (update_rows P f rows) = map key rows"
  by (simp add: update_rows_def)

lemma keys_ok_update: "(\<And>r. key (f r) = key r) \<Longrightarrow> keys_ok key (update_rows P f rows) = keys_ok key rows"
  by (simp add: keys_ok_def map_key_update)

lemma keys_ok_delete: "keys_ok key rows \<Longrightarrow> keys_ok key (delete_rows P rows)"
  by (induction rows) (auto simp: keys_ok_def delete_rows_def)

lemma set_delete_rows [simp]: "set (delete_rows P rows) = {r \<in> set rows. \<not> P r}"
  by (auto simp: delete_rows_def)

lemma row_count_pos: "0 < row_count P rows \<longleftrightarrow> (\<exists>r \<in> set rows. P r)"
  by (auto simp: row_count_def filter_empty_conv)

lemma row_count_delete: "row_count P rows + length (delete_rows P rows) = length rows"
  by (simp add: row_count_def delete_rows_def sum_length_filter_compl)

lemma lookup_row_update:
  assumes "\<And>r. key (f r) = key r"
  shows "lookup_row key k (update_rows P f rows) =
           map_option (\<lambda>r. if P r then f r else r) (lookup_row key k rows)"
  by (induction rows) (auto simp: update_rows_def assms)

lemma lookup_row_delete_key: "lookup_row key k (delete_rows (\<lambda>r. key r = k') rows) =
    (if k = k' then None else lookup_row key k rows)"
  by (induction rows) (auto simp: delete_rows_def)

section \<open>The contract of a table with a primary key\<close>

locale keyed_table =
  fixes key :: "'r \<Rightarrow> 'k"
    and merge :: "'r \<Rightarrow> 'r \<Rightarrow> 'r"
  assumes key_merge: "key new = key old \<Longrightarrow> key (merge old new) = key old"
begin

lemma map_key_upsert:
  "map key (upsert_row key merge new rows) =
     (if has_row key (key new) rows then map key rows else map key rows @ [key new])"
proof -
  have "key (if key r = key new then merge r new else r) = key r" for r
    using key_merge [of new r] by (cases "key r = key new") auto
  then have "map (\<lambda>r. key (if key r = key new then merge r new else r)) rows = map key rows"
    by (intro map_cong refl)
  then show ?thesis by (simp add: upsert_row_def comp_def)
qed

lemma keys_ok_upsert: "keys_ok key rows \<Longrightarrow> keys_ok key (upsert_row key merge new rows)"
  by (auto simp: keys_ok_def map_key_upsert has_row_iff)

lemma lookup_upsert_same:
  "lookup_row key (key new) (upsert_row key merge new rows) =
     Some (case lookup_row key (key new) rows of None \<Rightarrow> new | Some old \<Rightarrow> merge old new)"
proof (cases "has_row key (key new) rows")
  case True
  then have "lookup_row key (key new) (map (\<lambda>r. if key r = key new then merge r new else r) rows) =
      Some (case lookup_row key (key new) rows of None \<Rightarrow> new | Some old \<Rightarrow> merge old new)"
    by (induction rows) (auto simp: has_row_def key_merge)
  with True show ?thesis by (simp add: upsert_row_def)
next
  case False
  then have "lookup_row key (key new) rows = None" by (simp add: table_simps)
  with False show ?thesis by (simp add: upsert_row_def lookup_row_append)
qed

lemma lookup_upsert_other:
  assumes "k \<noteq> key new"
  shows "lookup_row key k (upsert_row key merge new rows) = lookup_row key k rows"
proof (cases "has_row key (key new) rows")
  case True
  have "lookup_row key k (map (\<lambda>r. if key r = key new then merge r new else r) rows) = lookup_row key k rows"
  proof (induction rows)
    case (Cons r rows)
    then show ?case using key_merge [of new r] assms by auto
  qed simp
  with True show ?thesis by (simp add: upsert_row_def)
next
  case False
  with assms show ?thesis by (simp add: upsert_row_def lookup_row_append split: option.splits)
qed

lemma length_upsert:
  "length (upsert_row key merge new rows) = length rows + (if has_row key (key new) rows then 0 else 1)"
  by (simp add: upsert_row_def)

lemma upsert_keeps_keys: "k \<in> key ` set rows \<Longrightarrow> k \<in> key ` set (upsert_row key merge new rows)"
proof -
  assume "k \<in> key ` set rows"
  then have "k \<in> set (map key (upsert_row key merge new rows))"
    by (auto simp: map_key_upsert)
  then show ?thesis by simp
qed

end

section \<open>ORDER BY\<close>

text \<open>\<open>ORDER BY k\<close> and \<open>ORDER BY k DESC\<close>: rows with equal keys stay in table order.\<close>

definition order_by :: "('r \<Rightarrow> 'k :: linorder) \<Rightarrow> 'r list \<Rightarrow> 'r list" where
  "order_by k rows = sort_key k rows"

definition order_by_desc :: "('r \<Rightarrow> int) \<Rightarrow> 'r list \<Rightarrow> 'r list" where
  "order_by_desc k rows = sort_key (\<lambda>r. - k r) rows"

lemma set_order_by [simp]: "set (order_by k rows) = set rows" "set (order_by_desc f rows) = set rows"
  by (simp_all add: order_by_def order_by_desc_def)

lemma length_order_by [simp]: "length (order_by k rows) = length rows" "length (order_by_desc f rows) = length rows"
  by (simp_all add: order_by_def order_by_desc_def)

lemma sorted_order_by_desc: "sorted_wrt (\<lambda>r r'. f r \<ge> f r') (order_by_desc f rows)"
proof -
  have "sorted (map (\<lambda>r. - f r) (order_by_desc f rows))"
    by (simp add: order_by_desc_def)
  then show ?thesis by (simp add: sorted_wrt_map)
qed

end
