(* ===== verification/Py_Values.thy ===== *)
theory Py_Values
  imports Corvus_Prelude
begin

text \<open>
  JSON values as the sources see them after \<^verbatim>\<open>json.loads\<close>, and the Python operations applied
  to them.  A dictionary is an association list in insertion order; its keys are distinct.
  A float is carried with the text \<^verbatim>\<open>repr\<close> gives for it, since \<^verbatim>\<open>str\<close> of a float is used only to
  pass that text on.
\<close>

datatype json = JNull | JBool bool | JInt int | JFloat real string | JStr string
  | JArr "json list" | JObj "(string \<times> json) list"

type_synonym obj = "(string \<times> json) list"

section \<open>Dictionaries\<close>

text \<open>\<^verbatim>\<open>d.get(k)\<close>, \<^verbatim>\<open>d.get(k, v)\<close>, \<^verbatim>\<open>k in d\<close> and \<^verbatim>\<open>d[k] = v\<close> on a dictionary.\<close>

definition oget :: "obj \<Rightarrow> string \<Rightarrow> json" where
  "oget d k = (case map_of d k of None \<Rightarrow> JNull | Some v \<Rightarrow> v)"

definition oget_or :: "obj \<Rightarrow> string \<Rightarrow> json \<Rightarrow> json" where
  "oget_or d k v0 = (case map_of d k of None \<Rightarrow> v0 | Some v \<Rightarrow> v)"

definition ohas :: "obj \<Rightarrow> string \<Rightarrow> bool" where
  "ohas d k \<longleftrightarrow> map_of d k \<noteq> None"

fun oset :: "string \<Rightarrow> 'v \<Rightarrow> (string \<times> 'v) list \<Rightarrow> (string \<times> 'v) list" where
  "oset k v [] = [(k, v)]"
| "oset k v ((k', v') # d) = (if k' = k then (k, v) # d else (k', v') # oset k v d)"

text \<open>\<^verbatim>\<open>d.update(e)\<close> and the display \<^verbatim>\<open>{**d, **e}\<close>.\<close>

definition omerge :: "(string \<times> 'v) list \<Rightarrow> (string \<times> 'v) list \<Rightarrow> (string \<times> 'v) list" where
  "omerge d e = fold (\<lambda>(k, v) acc. oset k v acc) e d"

lemma map_of_oset [simp]: "map_of (oset k v d) = (map_of d)(k \<mapsto> v)"
  by (induction d) (auto simp: fun_eq_iff)

lemma keys_oset: "set (map fst (oset k v d)) = insert k (set (map fst d))"
proof (induction d)
  case (Cons p d)
  then show ?case by (cases p) auto
qed simp

lemma distinct_oset: "distinct (map fst d) \<Longrightarrow> distinct (map fst (oset k v d))"
proof (induction d)
  case (Cons p d)
  then show ?case using keys_oset [of k v d] by (cases p) auto
qed simp

lemma map_of_omerge: "distinct (map fst e) \<Longrightarrow> map_of (omerge d e) = map_of d ++ map_of e"
proof (induction e arbitrary: d)
  case (Cons p e)
  obtain k v where p: "p = (k, v)" by (cases p)
  from Cons.prems p have k: "k \<notin> dom (map_of e)" and e: "distinct (map fst e)"
    by (auto simp: dom_map_of_conv_image_fst)
  have "map_of (omerge d (p # e)) = map_of (oset k v d) ++ map_of e"
    using Cons.IH [OF e, of "oset k v d"] by (simp only: omerge_def p fold_simps prod.case o_apply)
  also have "\<dots> = map_of d ++ map_of (p # e)"
    using k by (auto simp: p map_add_def fun_eq_iff split: option.splits)
  finally show ?case .
qed (simp add: omerge_def)

lemma distinct_omerge: "distinct (map fst d) \<Longrightarrow> distinct (map fst (omerge d e))"
  unfolding omerge_def by (induction e arbitrary: d) (auto simp: distinct_oset)

lemma oget_oset [simp]: "oget (oset k v d) k' = (if k' = k then v else oget d k')"
  by (simp add: oget_def)

section \<open>Strings\<close>

definition ascii_lower :: "char \<Rightarrow> char" where
  "ascii_lower c =
     (case map_of (zip ''ABCDEFGHIJKLMNOPQRSTUVWXYZ'' ''abcdefghijklmnopqrstuvwxyz'') c of
        None \<Rightarrow> c | Some d \<Rightarrow> d)"

definition lower :: "string \<Rightarrow> string" where
  "lower s = map ascii_lower s"

definition py_space :: "char \<Rightarrow> bool" where
  "py_space c \<longleftrightarrow> (of_char c :: nat) \<in> {9, 10, 11, 12, 13, 28, 29, 30, 31, 32}"

definition strip :: "string \<Rightarrow> string" where
  "strip s = rev (dropWhile py_space (rev (dropWhile py_space s)))"

text \<open>\<^verbatim>\<open>s.startswith(p)\<close>, \<^verbatim>\<open>s.endswith(p)\<close> and \<^verbatim>\<open>p in s\<close> are the library's \<open>prefix\<close>,
  \<open>suffix\<close> and \<open>sublist\<close>.  \<^verbatim>\<open>s.split(":", 1)\<close> on a string that holds the separator.\<close>

definition split_once :: "char \<Rightarrow> string \<Rightarrow> string \<times> string" where
  "split_once c s = (takeWhile (\<lambda>d. d \<noteq> c) s, drop 1 (dropWhile (\<lambda>d. d \<noteq> c) s))"

lemma split_once_join: "c \<in> set s \<Longrightarrow> fst (split_once c s) @ c # snd (split_once c s) = s"
proof (induction s)
  case (Cons d s)
  then show ?case by (cases "d = c") (auto simp: split_once_def)
qed simp

lemma split_once_append: "c \<notin> set a \<Longrightarrow> split_once c (a @ c # b) = (a, b)"
proof -
  assume "c \<notin> set a"
  then have "\<forall>x \<in> set a. x \<noteq> c" by auto
  then show ?thesis by (simp add: split_once_def takeWhile_append2 dropWhile_append2)
qed

fun join :: "string \<Rightarrow> string list \<Rightarrow> string" where
  "join sep [] = []"
| "join sep [x] = x"
| "join sep (x # y # xs) = x @ sep @ join sep (y # xs)"

section \<open>Numbers as text\<close>

fun nat_str :: "nat \<Rightarrow> string" where
  "nat_str n = (if n < 10 then [''0123456789'' ! n]
                else nat_str (n div 10) @ [''0123456789'' ! (n mod 10)])"

declare nat_str.simps [simp del]

definition int_str :: "int \<Rightarrow> string" where
  "int_str i = (if i < 0 then ''-'' @ nat_str (nat (- i)) else nat_str (nat i))"

definition digit_val :: "char \<Rightarrow> nat option" where
  "digit_val c = map_of (zip ''0123456789'' [0..<10]) c"

text \<open>Digits with single underscores between them, as \<^verbatim>\<open>int\<close> accepts them; the flag records
  that the last character was a digit.\<close>

fun parse_digits :: "bool \<Rightarrow> nat \<Rightarrow> string \<Rightarrow> nat option" where
  "parse_digits after_digit acc [] = (if after_digit then Some acc else None)"
| "parse_digits after_digit acc (c # cs) =
     (case digit_val c of
        Some d \<Rightarrow> parse_digits True (10 * acc + d) cs
      | None \<Rightarrow> if c = CHR ''_'' \<and> after_digit then parse_digits False acc cs else None)"

definition parse_int :: "string \<Rightarrow> int option" where
  "parse_int s =
     (case strip s of
        [] \<Rightarrow> None
      | c # cs \<Rightarrow>
          if c = CHR ''-'' then map_option (\<lambda>n. - int n) (parse_digits False 0 cs)
          else if c = CHR ''+'' then map_option int (parse_digits False 0 cs)
          else map_option int (parse_digits False 0 (c # cs)))"

text \<open>\<^verbatim>\<open>float(s)\<close> on a decimal literal with an optional fraction and exponent.  The names of infinities
  and of NaN are refused here: the model's numbers are reals.\<close>

definition parse_fraction :: "string \<Rightarrow> real option" where
  "parse_fraction s = map_option (\<lambda>n. of_nat n / 10 ^ length (filter (\<lambda>c. c \<noteq> CHR ''_'') s)) (parse_digits False 0 s)"

definition parse_mantissa :: "string \<Rightarrow> real option" where
  "parse_mantissa s =
     (if CHR ''.'' \<notin> set s then map_option of_nat (parse_digits False 0 s)
      else case split_once (CHR ''.'') s of (whole, rest) \<Rightarrow>
        if whole = [] then parse_fraction rest
        else if rest = [] then map_option of_nat (parse_digits False 0 whole)
        else Option.bind (parse_digits False 0 whole) (\<lambda>n. map_option (\<lambda>f. of_nat n + f) (parse_fraction rest)))"

definition parse_unsigned :: "string \<Rightarrow> real option" where
  "parse_unsigned s =
     (let t = map (\<lambda>c. if c = CHR ''E'' then CHR ''e'' else c) s in
      if CHR ''e'' \<notin> set t then parse_mantissa t
      else case split_once (CHR ''e'') t of (mantissa, ex) \<Rightarrow>
        if ex = [] \<or> py_space (hd ex) then None
        else Option.bind (parse_mantissa mantissa) (\<lambda>x.
          map_option (\<lambda>i. if 0 \<le> i then x * 10 ^ nat i else x / 10 ^ nat (- i)) (parse_int ex)))"

definition parse_float :: "string \<Rightarrow> real option" where
  "parse_float s =
     (case strip s of
        [] \<Rightarrow> None
      | c # cs \<Rightarrow>
          if c = CHR ''-'' then map_option uminus (parse_unsigned cs)
          else if c = CHR ''+'' then parse_unsigned cs
          else parse_unsigned (c # cs))"

text \<open>The text of an integer is read back as that integer.\<close>

lemma digit_val_nth: "d < 10 \<Longrightarrow> digit_val (''0123456789'' ! d) = Some d"
proof -
  have "\<forall>d \<in> set [0..<10]. digit_val (''0123456789'' ! d) = Some d" by code_simp
  then show "d < 10 \<Longrightarrow> digit_val (''0123456789'' ! d) = Some d" by simp
qed

lemma digit_char: "d < 10 \<Longrightarrow> \<not> py_space (''0123456789'' ! d) \<and> ''0123456789'' ! d \<noteq> CHR ''-'' \<and> ''0123456789'' ! d \<noteq> CHR ''+''"
proof -
  have "\<forall>d \<in> set [0..<10]. \<not> py_space (''0123456789'' ! d) \<and> ''0123456789'' ! d \<noteq> CHR ''-'' \<and> ''0123456789'' ! d \<noteq> CHR ''+''" by code_simp
  then show "d < 10 \<Longrightarrow> \<not> py_space (''0123456789'' ! d) \<and> ''0123456789'' ! d \<noteq> CHR ''-'' \<and> ''0123456789'' ! d \<noteq> CHR ''+''" by simp
qed

lemma parse_digits_fold:
  "\<forall>c \<in> set xs. digit_val c \<noteq> None \<Longrightarrow> xs \<noteq> [] \<or> b \<Longrightarrow>
    parse_digits b acc xs = Some (foldl (\<lambda>n c. 10 * n + the (digit_val c)) acc xs)"
  by (induction xs arbitrary: b acc) auto

lemma nat_str_digits: "\<forall>c \<in> set (nat_str n). \<exists>d < 10. c = ''0123456789'' ! d"
proof (induction n rule: nat_str.induct)
  case (1 n)
  then show ?case by (subst nat_str.simps) (auto intro: exI [of _ "n mod 10"])
qed

lemma nat_str_ne: "nat_str n \<noteq> []"
  by (subst nat_str.simps) simp

lemma fold_nat_str: "foldl (\<lambda>n c. 10 * n + the (digit_val c)) 0 (nat_str n) = n"
proof (induction n rule: nat_str.induct)
  case (1 n)
  then show ?case by (subst nat_str.simps) (simp add: digit_val_nth)
qed

lemma parse_nat_str: "parse_digits b 0 (nat_str n) = Some n"
proof -
  have "\<forall>c \<in> set (nat_str n). digit_val c \<noteq> None" using nat_str_digits digit_val_nth by fastforce
  then show ?thesis by (simp add: parse_digits_fold nat_str_ne fold_nat_str)
qed

lemma dropWhile_head: "xs \<noteq> [] \<Longrightarrow> \<not> P (hd xs) \<Longrightarrow> dropWhile P xs = xs"
  by (cases xs) auto

lemma strip_id: "xs \<noteq> [] \<Longrightarrow> \<forall>c \<in> set xs. \<not> py_space c \<Longrightarrow> strip xs = xs"
  by (simp add: strip_def dropWhile_head hd_rev last_in_set)

lemma parse_int_str: "parse_int (int_str i) = Some i"
proof -
  have ns: "\<forall>c \<in> set (nat_str n). \<not> py_space c \<and> c \<noteq> CHR ''-'' \<and> c \<noteq> CHR ''+''" for n
    using nat_str_digits digit_char by fastforce
  have "\<not> py_space (CHR ''-'')" by code_simp
  with ns have st: "strip (CHR ''-'' # nat_str n) = CHR ''-'' # nat_str n" "strip (nat_str n) = nat_str n" for n
    by (simp_all add: strip_id nat_str_ne)
  show ?thesis
  proof (cases "i < 0")
    case True
    then show ?thesis using st(1) [of "nat (- i)"] parse_nat_str [of False] by (simp add: parse_int_def int_str_def)
  next
    case False
    obtain c cs where c: "nat_str (nat i) = c # cs" using nat_str_ne by (cases "nat_str (nat i)") auto
    with ns [of "nat i"] have "c \<noteq> CHR ''-''" "c \<noteq> CHR ''+''" by auto
    with False c show ?thesis
      using st(2) [of "nat i"] parse_nat_str [of False "nat i"] by (simp add: parse_int_def int_str_def)
  qed
qed
section \<open>Instants\<close>

type_synonym time = int

abbreviation seconds :: "int \<Rightarrow> time" where
  "seconds n \<equiv> n * 1000000"

abbreviation minutes :: "int \<Rightarrow> time" where
  "minutes n \<equiv> n * 60000000"

abbreviation hours :: "int \<Rightarrow> time" where
  "hours n \<equiv> n * 3600000000"

text \<open>The proleptic Gregorian date of a day number counted from 1970-01-01: year, month, day.\<close>

definition civil_of_days :: "int \<Rightarrow> int \<times> int \<times> int" where
  "civil_of_days days =
     (let z = days + 719468;
          era = z div 146097;
          doe = z mod 146097;
          yoe = (doe - doe div 1460 + doe div 36524 - doe div 146096) div 365;
          doy = doe - (365 * yoe + yoe div 4 - yoe div 100);
          mp = (5 * doy + 2) div 153;
          d = doy - (153 * mp + 2) div 5 + 1;
          m = (if mp < 10 then mp + 3 else mp - 9);
          y = yoe + era * 400 + (if m \<le> 2 then 1 else 0)
      in (y, m, d))"

text \<open>\<open>pad w n\<close> is \<^verbatim>\<open>n\<close> in decimal with leading zeros to width \<open>w\<close>.\<close>

definition pad :: "nat \<Rightarrow> int \<Rightarrow> string" where
  "pad w n = (let s = nat_str (nat n) in replicate (w - length s) (CHR ''0'') @ s)"

text \<open>\<^verbatim>\<open>datetime.isoformat()\<close> of an aware UTC datetime: the microseconds are omitted when zero.\<close>

definition isoformat :: "time \<Rightarrow> string" where
  "isoformat t =
     (let days = t div 86400000000; us = t mod 86400000000;
          (y, m, d) = civil_of_days days;
          micro = us mod 1000000; sec = us div 1000000
      in pad 4 y @ ''-'' @ pad 2 m @ ''-'' @ pad 2 d @ ''T''
         @ pad 2 (sec div 3600) @ '':'' @ pad 2 (sec div 60 mod 60) @ '':'' @ pad 2 (sec mod 60)
         @ (if micro = 0 then [] else ''.'' @ pad 6 micro) @ ''+00:00'')"

section \<open>Operations on values\<close>

fun truthy :: "json \<Rightarrow> bool" where
  "truthy JNull = False"
| "truthy (JBool b) = b"
| "truthy (JInt i) = (i \<noteq> 0)"
| "truthy (JFloat r t) = (r \<noteq> 0)"
| "truthy (JStr s) = (s \<noteq> [])"
| "truthy (JArr xs) = (xs \<noteq> [])"
| "truthy (JObj d) = (d \<noteq> [])"

text \<open>\<^verbatim>\<open>a or b\<close>\<close>

definition py_or :: "json \<Rightarrow> json \<Rightarrow> json" where
  "py_or a b = (if truthy a then a else b)"

text \<open>\<^verbatim>\<open>==\<close>: numbers and booleans compare by value, everything else by structure.\<close>

fun json_num :: "json \<Rightarrow> real option" where
  "json_num (JBool b) = Some (if b then 1 else 0)"
| "json_num (JInt i) = Some (of_int i)"
| "json_num (JFloat r t) = Some r"
| "json_num _ = None"

definition py_eq :: "json \<Rightarrow> json \<Rightarrow> bool" where
  "py_eq a b = (case (json_num a, json_num b) of (Some x, Some y) \<Rightarrow> x = y | _ \<Rightarrow> a = b)"

text \<open>A value bound to a parameter compared with a text column: numbers compare by their text,
  \<^verbatim>\<open>NULL\<close> equals nothing, lists and dictionaries cannot be bound.\<close>

fun sql_text :: "json \<Rightarrow> string option res" where
  "sql_text JNull = Inr None"
| "sql_text (JBool b) = Inr (Some (if b then ''1'' else ''0''))"
| "sql_text (JInt i) = Inr (Some (int_str i))"
| "sql_text (JFloat r t) = Inr (Some t)"
| "sql_text (JStr s) = Inr (Some s)"
| "sql_text (JArr _) = Inl ProgrammingError"
| "sql_text (JObj _) = Inl ProgrammingError"

definition hex_digit :: "nat \<Rightarrow> char" where
  "hex_digit n = ''0123456789abcdef'' ! n"

definition escape_char :: "char \<Rightarrow> char \<Rightarrow> string" where
  "escape_char q c =
     (let n = of_char c :: nat in
      if c = q \<or> n = 92 then [char_of (92 :: nat), c]
      else if n = 10 then [char_of (92 :: nat), CHR ''n'']
      else if n = 13 then [char_of (92 :: nat), CHR ''r'']
      else if n = 9 then [char_of (92 :: nat), CHR ''t'']
      else if n < 32 \<or> n \<ge> 127
        then [char_of (92 :: nat), CHR ''x'', hex_digit (n div 16), hex_digit (n mod 16)]
      else [c])"

definition single_quote :: char where
  "single_quote = char_of (39 :: nat)"

definition double_quote :: char where
  "double_quote = char_of (34 :: nat)"

definition quote_str :: "string \<Rightarrow> string" where
  "quote_str s =
     (let q = (if single_quote \<in> set s \<and> double_quote \<notin> set s then double_quote else single_quote)
      in q # concat (map (escape_char q) s) @ [q])"

fun py_repr :: "json \<Rightarrow> string" where
  "py_repr JNull = ''None''"
| "py_repr (JBool b) = (if b then ''True'' else ''False'')"
| "py_repr (JInt i) = int_str i"
| "py_repr (JFloat r t) = t"
| "py_repr (JStr s) = quote_str s"
| "py_repr (JArr xs) = ''['' @ join '', '' (map py_repr xs) @ '']''"
| "py_repr (JObj d) = ''{'' @ join '', '' (map (\<lambda>(k, v). quote_str k @ '': '' @ py_repr v) d) @ ''}''"

definition py_str :: "json \<Rightarrow> string" where
  "py_str j = (case j of JStr s \<Rightarrow> s | _ \<Rightarrow> py_repr j)"

lemma py_str_JStr [simp]: "py_str (JStr s) = s"
  by (simp add: py_str_def)

text \<open>\<^verbatim>\<open>int(v)\<close>\<close>

fun py_int :: "json \<Rightarrow> int res" where
  "py_int (JInt i) = Inr i"
| "py_int (JBool b) = Inr (if b then 1 else 0)"
| "py_int (JFloat r t) = Inr (if r < 0 then \<lceil>r\<rceil> else \<lfloor>r\<rfloor>)"
| "py_int (JStr s) = (case parse_int s of None \<Rightarrow> Inl ValueError | Some i \<Rightarrow> Inr i)"
| "py_int _ = Inl TypeError"

text \<open>\<^verbatim>\<open>float(v)\<close>\<close>

fun py_float :: "json \<Rightarrow> real res" where
  "py_float (JInt i) = Inr (of_int i)"
| "py_float (JBool b) = Inr (if b then 1 else 0)"
| "py_float (JFloat r t) = Inr r"
| "py_float (JStr s) = (case parse_float s of None \<Rightarrow> Inl ValueError | Some r \<Rightarrow> Inr r)"
| "py_float _ = Inl TypeError"

text \<open>\<^verbatim>\<open>v.get(k)\<close> and \<^verbatim>\<open>v.get(k, w)\<close> on a value that may not be a dictionary.\<close>

fun jget :: "json \<Rightarrow> string \<Rightarrow> json \<Rightarrow> json res" where
  "jget (JObj d) k v0 = Inr (oget_or d k v0)"
| "jget _ k v0 = Inl AttributeError"

text \<open>Iteration over a value, and \<^verbatim>\<open>set(v)\<close>.\<close>

fun py_iter :: "json \<Rightarrow> json list res" where
  "py_iter (JArr xs) = Inr xs"
| "py_iter (JStr s) = Inr (map (\<lambda>c. JStr [c]) s)"
| "py_iter (JObj d) = Inr (map (JStr \<circ> fst) d)"
| "py_iter _ = Inl TypeError"

fun hashable :: "json \<Rightarrow> bool" where
  "hashable (JArr _) = False"
| "hashable (JObj _) = False"
| "hashable _ = True"

definition py_set :: "json \<Rightarrow> json list res" where
  "py_set v = bindE (py_iter v) (\<lambda>xs. if list_all hashable xs then Inr xs else Inl TypeError)"

lemma py_set_JArr_strs: "py_set (JArr (map JStr xs)) = Inr (map JStr xs)"
  by (simp add: py_set_def list_all_iff)

text \<open>An optional string as the value \<^verbatim>\<open>str | None\<close> has in a dictionary.\<close>

definition jopt :: "string option \<Rightarrow> json" where
  "jopt s = (case s of None \<Rightarrow> JNull | Some t \<Rightarrow> JStr t)"

text \<open>\<^verbatim>\<open>str(v) if v else None\<close>\<close>

definition str_if :: "json \<Rightarrow> string option" where
  "str_if v = (if truthy v then Some (py_str v) else None)"

text \<open>Truthiness of an optional string: absent and empty are both false.\<close>

definition opt_truthy :: "string option \<Rightarrow> bool" where
  "opt_truthy s \<longleftrightarrow> s \<noteq> None \<and> s \<noteq> Some []"

section \<open>The conversions pydantic applies to declared fields\<close>

text \<open>Lax mode of pydantic 2: a \<^verbatim>\<open>str\<close> field takes only strings; \<^verbatim>\<open>int\<close>, \<^verbatim>\<open>bool\<close> convert the
  documented alternatives; everything else is a validation error.\<close>

fun pyd_str :: "json \<Rightarrow> string res" where
  "pyd_str (JStr s) = Inr s"
| "pyd_str _ = Inl ValidationError"

fun pyd_int :: "json \<Rightarrow> int res" where
  "pyd_int (JInt i) = Inr i"
| "pyd_int (JBool b) = Inr (if b then 1 else 0)"
| "pyd_int (JFloat r t) = (if r = of_int \<lfloor>r\<rfloor> then Inr \<lfloor>r\<rfloor> else Inl ValidationError)"
| "pyd_int (JStr s) = (case parse_int s of None \<Rightarrow> Inl ValidationError | Some i \<Rightarrow> Inr i)"
| "pyd_int _ = Inl ValidationError"

fun pyd_bool :: "json \<Rightarrow> bool res" where
  "pyd_bool (JBool b) = Inr b"
| "pyd_bool (JInt i) = (if i = 0 then Inr False else if i = 1 then Inr True else Inl ValidationError)"
| "pyd_bool (JFloat r t) = (if r = 0 then Inr False else if r = 1 then Inr True else Inl ValidationError)"
| "pyd_bool (JStr s) =
     (if lower s \<in> set [''0'', ''off'', ''f'', ''false'', ''n'', ''no''] then Inr False
      else if lower s \<in> set [''1'', ''on'', ''t'', ''true'', ''y'', ''yes''] then Inr True
      else Inl ValidationError)"
| "pyd_bool _ = Inl ValidationError"

fun pyd_dict :: "json \<Rightarrow> obj res" where
  "pyd_dict (JObj d) = Inr d"
| "pyd_dict _ = Inl ValidationError"

fun pyd_list :: "(json \<Rightarrow> 'a res) \<Rightarrow> json \<Rightarrow> 'a list res" where
  "pyd_list f (JArr xs) = mapE f xs"
| "pyd_list f _ = Inl ValidationError"

fun pyd_opt :: "(json \<Rightarrow> 'a res) \<Rightarrow> json \<Rightarrow> 'a option res" where
  "pyd_opt f JNull = Inr None"
| "pyd_opt f v = bindE (f v) (\<lambda>x. Inr (Some x))"

text \<open>A declared field: required, or with a default used when the key is absent.\<close>

definition pyd_req :: "(json \<Rightarrow> 'a res) \<Rightarrow> obj \<Rightarrow> string \<Rightarrow> 'a res" where
  "pyd_req f d k = (case map_of d k of None \<Rightarrow> Inl ValidationError | Some v \<Rightarrow> f v)"

definition pyd_def :: "(json \<Rightarrow> 'a res) \<Rightarrow> 'a \<Rightarrow> obj \<Rightarrow> string \<Rightarrow> 'a res" where
  "pyd_def f x d k = (case map_of d k of None \<Rightarrow> Inr x | Some v \<Rightarrow> f v)"

definition pyd_range :: "int \<Rightarrow> int option \<Rightarrow> json \<Rightarrow> int res" where
  "pyd_range lo hi v = bindE (pyd_int v)
     (\<lambda>i. if lo \<le> i \<and> (case hi of None \<Rightarrow> True | Some h \<Rightarrow> i \<le> h) then Inr i else Inl ValidationError)"

lemma pyd_range_bounds:
  "pyd_range lo hi v = Inr i \<Longrightarrow> lo \<le> i \<and> (\<forall>h. hi = Some h \<longrightarrow> i \<le> h)"
  by (auto simp: pyd_range_def split: if_splits option.splits)

end
