(* ===== verification/Protocol.thy ===== *)
theory Protocol
  imports Py_Values
begin

text \<open>
  The framework message of \<^verbatim>\<open>protocol/models.py\<close> and the error factory of \<^verbatim>\<open>protocol/errors.py\<close>.
  Enumerations are datatypes; the function \<open>..._value\<close> gives the string value of a member and
  \<open>..._of\<close> the member with a given value.  UUIDs are strings.

  What the code takes from its surroundings during one operation is the record \<open>env\<close>: the
  instant \<^verbatim>\<open>datetime.now(UTC)\<close>, the identifiers \<^verbatim>\<open>uuid4()\<close> draws (named by the place that draws
  them), the three conversions of pydantic that the models leave to it, the text of a pydantic
  error, the text \<^verbatim>\<open>repr\<close> gives for a float that was read from a literal, and the SHA-256 digest.
\<close>

type_synonym uuid = string

record env =
  now :: time
  uuid4 :: "string \<Rightarrow> uuid"
  pyd_uuid :: "json \<Rightarrow> uuid res"
  pyd_datetime :: "json \<Rightarrow> time res"
  pyd_datetime_text :: "time \<Rightarrow> string"
  validation_text :: string
  float_repr :: "string \<Rightarrow> string"
  sha256 :: "string \<Rightarrow> nat list"

text \<open>\<^verbatim>\<open>hashlib.sha256(...).hexdigest()\<close>\<close>

definition hexdigest :: "nat list \<Rightarrow> string" where
  "hexdigest bs = concat (map (\<lambda>b. [hex_digit (b div 16), hex_digit (b mod 16)]) bs)"

section \<open>Enumerations\<close>

datatype engine_id = LOOP | ENGINE1 | ENGINE2 | ENGINE3 | ENGINE4 | CORVUS_NODE

fun engine_value :: "engine_id \<Rightarrow> string" where
  "engine_value LOOP = ''loop''"
| "engine_value ENGINE1 = ''engine1''"
| "engine_value ENGINE2 = ''engine2''"
| "engine_value ENGINE3 = ''engine3''"
| "engine_value ENGINE4 = ''engine4''"
| "engine_value CORVUS_NODE = ''corvus_node''"

datatype message_class = REQUEST | RESPONSE | EVENT | ERROR | SYSTEM

fun class_value :: "message_class \<Rightarrow> string" where
  "class_value REQUEST = ''request''"
| "class_value RESPONSE = ''response''"
| "class_value EVENT = ''event''"
| "class_value ERROR = ''error''"
| "class_value SYSTEM = ''system''"

datatype destination_type = TO_ENGINE | TO_LOOP | CORVUS_SERVER | BROADCAST

fun dest_value :: "destination_type \<Rightarrow> string" where
  "dest_value TO_ENGINE = ''engine''"
| "dest_value TO_LOOP = ''loop''"
| "dest_value CORVUS_SERVER = ''corvus_server''"
| "dest_value BROADCAST = ''broadcast''"

datatype triggered_by = USER_INPUT | AGENT_INITIATED | TOOL_RESULT | TOOL_APPROVAL
  | MEMORY_RESULT | LLM_RESULT | BY_SYSTEM

fun trigger_value :: "triggered_by \<Rightarrow> string" where
  "trigger_value USER_INPUT = ''user_input''"
| "trigger_value AGENT_INITIATED = ''agent_initiated''"
| "trigger_value TOOL_RESULT = ''tool_result''"
| "trigger_value TOOL_APPROVAL = ''tool_approval''"
| "trigger_value MEMORY_RESULT = ''memory_result''"
| "trigger_value LLM_RESULT = ''llm_result''"
| "trigger_value BY_SYSTEM = ''system''"

datatype scope = LOCAL | CROSS_AGENT | EXTERNAL

fun scope_value :: "scope \<Rightarrow> string" where
  "scope_value LOCAL = ''local''"
| "scope_value CROSS_AGENT = ''cross_agent''"
| "scope_value EXTERNAL = ''external''"

text \<open>\<^verbatim>\<open>EngineId(s)\<close> and its like: the member with that value, an error otherwise.\<close>

definition enum_of :: "('e \<Rightarrow> string) \<Rightarrow> 'e list \<Rightarrow> exc \<Rightarrow> string \<Rightarrow> 'e res" where
  "enum_of value members err s =
     (case List.find (\<lambda>m. value m = s) members of None \<Rightarrow> Inl err | Some m \<Rightarrow> Inr m)"

definition engines :: "engine_id list" where
  "engines = [LOOP, ENGINE1, ENGINE2, ENGINE3, ENGINE4, CORVUS_NODE]"

definition engine_of :: "string \<Rightarrow> engine_id res" where
  "engine_of = enum_of engine_value engines ValueError"

lemma engine_of_value [simp]: "engine_of (engine_value e) = Inr e"
  by (cases e) (simp_all add: engine_of_def enum_of_def engines_def)

section \<open>Messages\<close>

record message_source =
  src_agent_id :: string
  src_engine :: engine_id
  src_vm_id :: string

record message_destination =
  dst_type :: destination_type
  dst_target :: string

record message_tags =
  tag_triggered_by :: triggered_by
  tag_origin_correlation_id :: "uuid option"
  tag_requested_capability :: "string option"
  tag_scope :: scope

record message_security =
  sec_may_leave_vm :: bool
  sec_requires_elevation :: bool
  sec_risk_score :: int

record framework_message =
  msg_id :: uuid
  msg_correlation_id :: uuid
  msg_sequence :: int
  msg_timestamp :: time
  msg_source :: message_source
  msg_destination :: message_destination
  msg_class :: message_class
  msg_type :: string
  msg_tags :: message_tags
  msg_security :: message_security
  msg_payload :: obj

abbreviation m_agent :: "framework_message \<Rightarrow> string" where
  "m_agent m \<equiv> src_agent_id (msg_source m)"

abbreviation m_engine :: "framework_message \<Rightarrow> engine_id" where
  "m_engine m \<equiv> src_engine (msg_source m)"

abbreviation m_vm :: "framework_message \<Rightarrow> string" where
  "m_vm m \<equiv> src_vm_id (msg_source m)"

abbreviation pget :: "framework_message \<Rightarrow> string \<Rightarrow> json" where
  "pget m k \<equiv> oget (msg_payload m) k"

definition default_security :: message_security where
  "default_security = \<lparr>sec_may_leave_vm = False, sec_requires_elevation = False, sec_risk_score = 1\<rparr>"

text \<open>\<^verbatim>\<open>MessageTags(triggered_by=t, origin_correlation_id=o)\<close> with the declared defaults.\<close>

definition mk_tags :: "triggered_by \<Rightarrow> uuid option \<Rightarrow> message_tags" where
  "mk_tags t oc = \<lparr>tag_triggered_by = t, tag_origin_correlation_id = oc,
                  tag_requested_capability = None, tag_scope = LOCAL\<rparr>"

text \<open>The constructor call with the declared defaults; \<open>site\<close> names the call for its fresh id.\<close>

definition new_message ::
  "env \<Rightarrow> string \<Rightarrow> message_source \<Rightarrow> message_destination \<Rightarrow> message_class \<Rightarrow> string \<Rightarrow> uuid
   \<Rightarrow> message_tags \<Rightarrow> obj \<Rightarrow> framework_message" where
  "new_message e site src dst cls typ corr tags payload =
     \<lparr>msg_id = uuid4 e site, msg_correlation_id = corr, msg_sequence = 0, msg_timestamp = now e,
      msg_source = src, msg_destination = dst, msg_class = cls, msg_type = typ,
      msg_tags = tags, msg_security = default_security, msg_payload = payload\<rparr>"

text \<open>\<^verbatim>\<open>tags.origin_correlation_id or correlation_id\<close>: the root of the turn a message belongs to.\<close>

definition origin_id :: "framework_message \<Rightarrow> uuid" where
  "origin_id m = (case tag_origin_correlation_id (msg_tags m) of None \<Rightarrow> msg_correlation_id m | Some u \<Rightarrow> u)"

section \<open>Errors\<close>

datatype error_layer = LNODE | LSERVER | LPOLICY

fun layer_value :: "error_layer \<Rightarrow> string" where
  "layer_value LNODE = ''node''"
| "layer_value LSERVER = ''server''"
| "layer_value LPOLICY = ''policy''"

datatype error_code = NODE_VALIDATION_FAILED | NODE_ORIGIN_SPOOF | NODE_CAPABILITY_DENIED
  | NODE_RATE_LIMITED | NODE_HANDSHAKE_INCOMPLETE | NODE_ROUTING_FAILED
  | SERVER_SESSION_INVALID | SERVER_CORRELATION_INVALID | SERVER_CORRELATION_EXPIRED
  | SERVER_RBAC_DENIED | SERVER_ELEVATION_REQUIRED | SERVER_GRANT_DENIED
  | SERVER_QUOTA_EXCEEDED | SERVER_ROUTING_FAILED | SERVER_INTERNAL_ERROR

fun code_value :: "error_code \<Rightarrow> string" where
  "code_value NODE_VALIDATION_FAILED = ''NODE_VALIDATION_FAILED''"
| "code_value NODE_ORIGIN_SPOOF = ''NODE_ORIGIN_SPOOF''"
| "code_value NODE_CAPABILITY_DENIED = ''NODE_CAPABILITY_DENIED''"
| "code_value NODE_RATE_LIMITED = ''NODE_RATE_LIMITED''"
| "code_value NODE_HANDSHAKE_INCOMPLETE = ''NODE_HANDSHAKE_INCOMPLETE''"
| "code_value NODE_ROUTING_FAILED = ''NODE_ROUTING_FAILED''"
| "code_value SERVER_SESSION_INVALID = ''SERVER_SESSION_INVALID''"
| "code_value SERVER_CORRELATION_INVALID = ''SERVER_CORRELATION_INVALID''"
| "code_value SERVER_CORRELATION_EXPIRED = ''SERVER_CORRELATION_EXPIRED''"
| "code_value SERVER_RBAC_DENIED = ''SERVER_RBAC_DENIED''"
| "code_value SERVER_ELEVATION_REQUIRED = ''SERVER_ELEVATION_REQUIRED''"
| "code_value SERVER_GRANT_DENIED = ''SERVER_GRANT_DENIED''"
| "code_value SERVER_QUOTA_EXCEEDED = ''SERVER_QUOTA_EXCEEDED''"
| "code_value SERVER_ROUTING_FAILED = ''SERVER_ROUTING_FAILED''"
| "code_value SERVER_INTERNAL_ERROR = ''SERVER_INTERNAL_ERROR''"

definition make_error_message ::
  "env \<Rightarrow> error_code \<Rightarrow> error_layer \<Rightarrow> string \<Rightarrow> bool \<Rightarrow> string \<Rightarrow> string \<Rightarrow> uuid \<Rightarrow> engine_id
   \<Rightarrow> obj \<Rightarrow> uuid option \<Rightarrow> framework_message" where
  "make_error_message e code layer text recoverable agent_id vm_id corr target details original =
     (let payload =
            [(''code'', JStr (code_value code)), (''layer'', JStr (layer_value layer)),
             (''message'', JStr text), (''recoverable'', JBool recoverable),
             (''details'', JObj details)]
            @ (case original of None \<Rightarrow> [] | Some u \<Rightarrow> [(''original_message_id'', JStr u)])
      in new_message e ''error''
           \<lparr>src_agent_id = agent_id, src_engine = CORVUS_NODE,
            src_vm_id = (if vm_id = [] then ''server'' else vm_id)\<rparr>
           \<lparr>dst_type = TO_ENGINE, dst_target = engine_value target\<rparr>
           ERROR ''error'' corr (mk_tags BY_SYSTEM None) payload)"

text \<open>The code an error message carries.\<close>

definition error_code_of :: "framework_message \<Rightarrow> json" where
  "error_code_of m = pget m ''code''"

lemma make_error_message_code [simp]:
  "error_code_of (make_error_message e code layer text r a v c tgt d orig) = JStr (code_value code)"
  by (simp add: error_code_of_def make_error_message_def new_message_def oget_def)

lemma make_error_message_class [simp]:
  "msg_class (make_error_message e code layer text r a v c tgt d orig) = ERROR"
  "msg_correlation_id (make_error_message e code layer text r a v c tgt d orig) = c"
  by (simp_all add: make_error_message_def new_message_def Let_def)

lemma code_value_inject [simp]: "code_value c = code_value c' \<longleftrightarrow> c = c'"
  by (cases c; cases c') simp_all

section \<open>Serialisation\<close>

text \<open>\<^verbatim>\<open>model_dump(mode="json")\<close>: with \<^verbatim>\<open>by_alias\<close> the key of the message class is \<^verbatim>\<open>class\<close>.\<close>

definition dump_message :: "env \<Rightarrow> bool \<Rightarrow> framework_message \<Rightarrow> obj" where
  "dump_message e by_alias m =
     [(''version'', JStr ''2.0''),
      (''id'', JStr (msg_id m)),
      (''correlation_id'', JStr (msg_correlation_id m)),
      (''sequence'', JInt (msg_sequence m)),
      (''timestamp'', JStr (pyd_datetime_text e (msg_timestamp m))),
      (''source'', JObj [(''agent_id'', JStr (m_agent m)), (''engine'', JStr (engine_value (m_engine m))),
                        (''vm_id'', JStr (m_vm m))]),
      (''destination'', JObj [(''type'', JStr (dest_value (dst_type (msg_destination m)))),
                             (''target'', JStr (dst_target (msg_destination m)))]),
      (if by_alias then ''class'' else ''message_class'', JStr (class_value (msg_class m))),
      (''type'', JStr (msg_type m)),
      (''tags'', JObj [(''triggered_by'', JStr (trigger_value (tag_triggered_by (msg_tags m)))),
                      (''origin_correlation_id'', jopt (tag_origin_correlation_id (msg_tags m))),
                      (''requested_capability'', jopt (tag_requested_capability (msg_tags m))),
                      (''scope'', JStr (scope_value (tag_scope (msg_tags m))))]),
      (''security'', JObj [(''may_leave_vm'', JBool (sec_may_leave_vm (msg_security m))),
                          (''requires_elevation'', JBool (sec_requires_elevation (msg_security m))),
                          (''risk_score'', JInt (sec_risk_score (msg_security m)))]),
      (''payload'', JObj (msg_payload m))]"

definition pyd_enum :: "('e \<Rightarrow> string) \<Rightarrow> 'e list \<Rightarrow> json \<Rightarrow> 'e res" where
  "pyd_enum value members v = bindE (pyd_str v) (enum_of value members ValidationError)"

definition validate_source :: "json \<Rightarrow> message_source res" where
  "validate_source v = bindE (pyd_dict v) (\<lambda>d.
     bindE (pyd_req pyd_str d ''agent_id'') (\<lambda>a.
     bindE (pyd_req (pyd_enum engine_value engines) d ''engine'') (\<lambda>en.
     bindE (pyd_req pyd_str d ''vm_id'') (\<lambda>vm.
     Inr \<lparr>src_agent_id = a, src_engine = en, src_vm_id = vm\<rparr>))))"

definition validate_destination :: "json \<Rightarrow> message_destination res" where
  "validate_destination v = bindE (pyd_dict v) (\<lambda>d.
     bindE (pyd_req (pyd_enum dest_value [TO_ENGINE, TO_LOOP, CORVUS_SERVER, BROADCAST]) d ''type'') (\<lambda>t.
     bindE (pyd_req pyd_str d ''target'') (\<lambda>tgt.
     Inr \<lparr>dst_type = t, dst_target = tgt\<rparr>)))"

definition validate_tags :: "env \<Rightarrow> json \<Rightarrow> message_tags res" where
  "validate_tags e v = bindE (pyd_dict v) (\<lambda>d.
     bindE (pyd_req (pyd_enum trigger_value [USER_INPUT, AGENT_INITIATED, TOOL_RESULT, TOOL_APPROVAL,
              MEMORY_RESULT, LLM_RESULT, BY_SYSTEM]) d ''triggered_by'') (\<lambda>t.
     bindE (pyd_def (pyd_opt (pyd_uuid e)) None d ''origin_correlation_id'') (\<lambda>oc.
     bindE (pyd_def (pyd_opt pyd_str) None d ''requested_capability'') (\<lambda>rc.
     bindE (pyd_def (pyd_enum scope_value [LOCAL, CROSS_AGENT, EXTERNAL]) LOCAL d ''scope'') (\<lambda>sc.
     Inr \<lparr>tag_triggered_by = t, tag_origin_correlation_id = oc, tag_requested_capability = rc,
         tag_scope = sc\<rparr>)))))"

definition validate_security :: "json \<Rightarrow> message_security res" where
  "validate_security v = bindE (pyd_dict v) (\<lambda>d.
     bindE (pyd_def pyd_bool False d ''may_leave_vm'') (\<lambda>l.
     bindE (pyd_def pyd_bool False d ''requires_elevation'') (\<lambda>el.
     bindE (pyd_def (pyd_range 1 (Some 5)) 1 d ''risk_score'') (\<lambda>rs.
     Inr \<lparr>sec_may_leave_vm = l, sec_requires_elevation = el, sec_risk_score = rs\<rparr>))))"

definition validate_version :: "json \<Rightarrow> string res" where
  "validate_version v = (if v = JStr ''2.0'' then Inr ''2.0'' else Inl ValidationError)"

text \<open>\<^verbatim>\<open>FrameworkMessage.model_validate(d)\<close>: the class may be given by its alias or by its field
  name, as \<^verbatim>\<open>populate_by_name\<close> allows; the alias is looked up first.\<close>

definition validate_message :: "env \<Rightarrow> obj \<Rightarrow> framework_message res" where
  "validate_message e d =
     bindE (pyd_def validate_version ''2.0'' d ''version'') (\<lambda>_.
     bindE (pyd_def (pyd_uuid e) (uuid4 e ''validated_id'') d ''id'') (\<lambda>i.
     bindE (pyd_def (pyd_uuid e) (uuid4 e ''validated_correlation_id'') d ''correlation_id'') (\<lambda>c.
     bindE (pyd_def pyd_int 0 d ''sequence'') (\<lambda>sq.
     bindE (pyd_def (pyd_datetime e) (now e) d ''timestamp'') (\<lambda>ts.
     bindE (pyd_req validate_source d ''source'') (\<lambda>src.
     bindE (pyd_req validate_destination d ''destination'') (\<lambda>dst.
     bindE (pyd_req (pyd_enum class_value [REQUEST, RESPONSE, EVENT, ERROR, SYSTEM]) d
              (if ohas d ''class'' then ''class'' else ''message_class'')) (\<lambda>cls.
     bindE (pyd_req pyd_str d ''type'') (\<lambda>ty.
     bindE (pyd_req (validate_tags e) d ''tags'') (\<lambda>tg.
     bindE (pyd_def validate_security default_security d ''security'') (\<lambda>sc.
     bindE (pyd_def pyd_dict [] d ''payload'') (\<lambda>p.
     Inr \<lparr>msg_id = i, msg_correlation_id = c, msg_sequence = sq, msg_timestamp = ts,
         msg_source = src, msg_destination = dst, msg_class = cls, msg_type = ty, msg_tags = tg,
         msg_security = sc, msg_payload = p\<rparr>))))))))))))"

lemma pyd_enum_engine: "pyd_enum engine_value engines (JStr (engine_value en)) = Inr en"
  by (cases en) (simp_all add: pyd_enum_def enum_of_def engines_def)

lemma pyd_enum_dest:
  "pyd_enum dest_value [TO_ENGINE, TO_LOOP, CORVUS_SERVER, BROADCAST] (JStr (dest_value dt)) = Inr dt"
  by (cases dt) (simp_all add: pyd_enum_def enum_of_def)

lemma pyd_enum_trigger:
  "pyd_enum trigger_value [USER_INPUT, AGENT_INITIATED, TOOL_RESULT, TOOL_APPROVAL,
      MEMORY_RESULT, LLM_RESULT, BY_SYSTEM] (JStr (trigger_value tb)) = Inr tb"
  by (cases tb) (simp_all add: pyd_enum_def enum_of_def)

lemma pyd_enum_scope: "pyd_enum scope_value [LOCAL, CROSS_AGENT, EXTERNAL] (JStr (scope_value sc)) = Inr sc"
  by (cases sc) (simp_all add: pyd_enum_def enum_of_def)

lemma pyd_enum_class:
  "pyd_enum class_value [REQUEST, RESPONSE, EVENT, ERROR, SYSTEM] (JStr (class_value cl)) = Inr cl"
  by (cases cl) (simp_all add: pyd_enum_def enum_of_def)

lemmas pyd_enum_value = pyd_enum_engine pyd_enum_dest pyd_enum_trigger pyd_enum_scope pyd_enum_class

text \<open>What the conversions left to pydantic satisfy: the text of a UUID and the JSON text of a
  datetime are read back as the same value.\<close>

definition pydantic_ok :: "env \<Rightarrow> bool" where
  "pydantic_ok e \<longleftrightarrow> (\<forall>u. pyd_uuid e (JStr u) = Inr u)
     \<and> (\<forall>t. pyd_datetime e (JStr (pyd_datetime_text e t)) = Inr t)"

lemma pyd_opt_jopt:
  "pyd_opt pyd_str (jopt s) = Inr s"
  "pydantic_ok e \<Longrightarrow> pyd_opt (pyd_uuid e) (jopt s) = Inr s"
  by (cases s; simp add: jopt_def pydantic_ok_def)+

lemma validate_source_dump:
  "validate_source (JObj [(''agent_id'', JStr a), (''engine'', JStr (engine_value en)), (''vm_id'', JStr v)])
     = Inr \<lparr>src_agent_id = a, src_engine = en, src_vm_id = v\<rparr>"
  by (simp add: validate_source_def pyd_req_def pyd_enum_value)

lemma validate_destination_dump:
  "validate_destination (JObj [(''type'', JStr (dest_value t)), (''target'', JStr g)])
     = Inr \<lparr>dst_type = t, dst_target = g\<rparr>"
  by (simp add: validate_destination_def pyd_req_def pyd_enum_value)

lemma validate_tags_dump:
  "pydantic_ok e \<Longrightarrow>
   validate_tags e (JObj [(''triggered_by'', JStr (trigger_value t)), (''origin_correlation_id'', jopt oc),
       (''requested_capability'', jopt rc), (''scope'', JStr (scope_value sc))])
     = Inr \<lparr>tag_triggered_by = t, tag_origin_correlation_id = oc, tag_requested_capability = rc,
           tag_scope = sc\<rparr>"
  by (simp add: validate_tags_def pyd_req_def pyd_def_def pyd_enum_value pyd_opt_jopt)

lemma validate_security_dump:
  "1 \<le> r \<Longrightarrow> r \<le> 5 \<Longrightarrow>
   validate_security (JObj [(''may_leave_vm'', JBool l), (''requires_elevation'', JBool el),
       (''risk_score'', JInt r)])
     = Inr \<lparr>sec_may_leave_vm = l, sec_requires_elevation = el, sec_risk_score = r\<rparr>"
  by (simp add: validate_security_def pyd_def_def pyd_range_def)

text \<open>The risk score constraint of \<^verbatim>\<open>MessageSecurity\<close>.\<close>

definition message_ok :: "framework_message \<Rightarrow> bool" where
  "message_ok m \<longleftrightarrow> 1 \<le> sec_risk_score (msg_security m) \<and> sec_risk_score (msg_security m) \<le> 5"

lemma message_ok_new [simp]: "message_ok (new_message e site src dst cls typ corr tags payload)"
  by (simp add: message_ok_def new_message_def default_security_def)

lemma validate_dump_message:
  assumes "pydantic_ok e" and "message_ok m"
  shows "validate_message e (dump_message e by_alias m) = Inr m"
proof -
  from assms(1) have u: "\<And>x. pyd_uuid e (JStr x) = Inr x"
    and t: "\<And>x. pyd_datetime e (JStr (pyd_datetime_text e x)) = Inr x"
    by (auto simp: pydantic_ok_def)
  from assms(2) have r: "1 \<le> sec_risk_score (msg_security m)" "sec_risk_score (msg_security m) \<le> 5"
    by (simp_all add: message_ok_def)
  show ?thesis
    unfolding validate_message_def dump_message_def
    by (cases by_alias)
       (simp_all add: pyd_def_def pyd_req_def u t validate_version_def ohas_def
          validate_source_dump validate_destination_dump validate_tags_dump [OF assms(1)]
          validate_security_dump [OF r] pyd_enum_value)
qed

text \<open>A validated message satisfies the declared constraint.\<close>

lemma validate_security_ok: "validate_security v = Inr sc \<Longrightarrow> 1 \<le> sec_risk_score sc \<and> sec_risk_score sc \<le> 5"
  by (auto simp: validate_security_def pyd_def_def dest!: pyd_range_bounds split: option.splits)

lemma validate_message_security:
  assumes "validate_message e d = Inr m"
  shows "pyd_def validate_security default_security d ''security'' = Inr (msg_security m)"
  using assms unfolding validate_message_def by (elim bindE_eq_Inr [THEN iffD1, elim_format] exE conjE) (simp, metis framework_message.select_convs(10))

lemma default_security_range [simp]: "sec_risk_score default_security = 1"
  by (simp add: default_security_def)

lemma validate_message_ok:
  assumes "validate_message e d = Inr m"
  shows "message_ok m"
proof (cases "map_of d ''security''")
  case None
  with validate_message_security [OF assms] have "msg_security m = default_security"
    by (simp add: pyd_def_def)
  then show ?thesis by (simp add: message_ok_def)
next
  case (Some v)
  with validate_message_security [OF assms] have "validate_security v = Inr (msg_security m)"
    by (simp add: pyd_def_def)
  then show ?thesis by (simp add: message_ok_def validate_security_ok)
qed

end
