(* ===== verification/Policy_Models.thy ===== *)
theory Policy_Models
  imports Protocol
begin

text \<open>
  The rule contract of \<^verbatim>\<open>policy/models.py\<close>.  A normalised rule is a dictionary without null
  entries, so a field of the record is \<open>None\<close> exactly when the dictionary lacks the key.
\<close>

datatype pattern = PStr string | PList "string list"

record rule_subject =
  sub_role :: "pattern option"
  sub_agent_id :: "pattern option"
  sub_user_id :: "pattern option"
  sub_groups :: "pattern option"
  sub_identity_channel :: "pattern option"
  sub_auth_method :: "pattern option"

record rule_object =
  ob_agent_id :: "pattern option"
  ob_engine :: "pattern option"
  ob_target_agent :: "pattern option"

record rule_action =
  ac_type :: "pattern option"

text \<open>A signal is a Python number, a boolean or absent; anything else an override may supply is
  kept as it is.\<close>

datatype signal = SNone | SBool bool | SInt int | SFloat real | SOther json

record signal_comparator =
  cmp_gt :: "real option"
  cmp_gte :: "real option"
  cmp_lt :: "real option"
  cmp_lte :: "real option"
  cmp_eq :: "signal option"

datatype signal_condition = SigValue signal | SigCompare signal_comparator

record rule_condition =
  cd_correlation_chain_valid :: "bool option"
  cd_triggered_by :: "string option"
  cd_scope :: "pattern option"
  cd_has_valid_grant :: "bool option"
  cd_provider :: "pattern option"
  cd_model :: "pattern option"
  cd_identity_verified :: "bool option"
  cd_dangerous_action :: "bool option"
  cd_tool_name :: "pattern option"
  cd_tool_risk_level :: "pattern option"
  cd_tool_execution_mode :: "pattern option"
  cd_provider_tools_requested :: "bool option"
  cd_daily_token_limit :: "int option"
  cd_rate_limit_rpm :: "int option"
  cd_message_rate_anomaly :: "signal_condition option"
  cd_repeated_grant_denials :: "signal_condition option"
  cd_cross_agent_scope_spike :: "signal_condition option"
  cd_tool_pattern_deviation :: "signal_condition option"

datatype effect = Allow | Deny | Elevate

record policy_rule =
  ru_id :: string
  ru_priority :: int
  ru_subject :: rule_subject
  ru_object :: rule_object
  ru_action :: rule_action
  ru_condition :: rule_condition
  ru_effect :: effect
  ru_else :: bool  \<comment> \<open>whether \<^verbatim>\<open>else: elevate\<close> is present\<close>

text \<open>The declared constraints of \<^verbatim>\<open>RuleCondition\<close> and the validator \<^verbatim>\<open>id_not_empty\<close>.\<close>

definition nonneg :: "int option \<Rightarrow> bool" where
  "nonneg x \<longleftrightarrow> (case x of None \<Rightarrow> True | Some i \<Rightarrow> 0 \<le> i)"

definition normalize_rule :: "policy_rule \<Rightarrow> policy_rule res" where
  "normalize_rule r =
     (if strip (ru_id r) = [] then Inl ValidationError
      else if \<not> nonneg (cd_daily_token_limit (ru_condition r)) then Inl ValidationError
      else if \<not> nonneg (cd_rate_limit_rpm (ru_condition r)) then Inl ValidationError
      else Inr r)"

lemma normalize_rule_Inr: "normalize_rule r = Inr r' \<Longrightarrow> r' = r \<and> strip (ru_id r) \<noteq> []"
  by (auto simp: normalize_rule_def split: if_splits)

text \<open>The resolution of a sender's identity.\<close>

record identity_resolution =
  ir_user_id :: "string option"
  ir_role :: string
  ir_groups :: "string list"
  ir_privileges :: "string list"
  ir_allowed_agents :: "string list"
  ir_identity_channel :: string
  ir_identity_alias :: "string option"
  ir_identity_verified :: bool
  ir_auth_method :: string
  ir_reason :: string

definition default_identity :: identity_resolution where
  "default_identity =
     \<lparr>ir_user_id = None, ir_role = ''anonymous'', ir_groups = [], ir_privileges = [],
      ir_allowed_agents = [], ir_identity_channel = ''unknown'', ir_identity_alias = None,
      ir_identity_verified = False, ir_auth_method = ''none'', ir_reason = ''unresolved''\<rparr>"

end
