(* ===== verification/Embeddings.thy ===== *)
theory Embeddings
  imports Protocol
begin

text \<open>
  The bag-of-words embedding of \<^verbatim>\<open>memory/embeddings.py\<close>: every token's digest bumps sixteen
  coordinates, and the vector is divided by its Euclidean nrm.  Floats are real numbers.
\<close>

definition EMBEDDING_DIM :: nat where
  "EMBEDDING_DIM = 384"

definition token_char :: "char \<Rightarrow> bool" where
  "token_char c \<longleftrightarrow> c \<in> set ''abcdefghijklmnopqrstuvwxyz0123456789''"

text \<open>\<^verbatim>\<open>re.findall(r"[a-z0-9]+", s)\<close>: the maximal runs, read with the current run reversed.\<close>

fun find_tokens :: "string \<Rightarrow> string \<Rightarrow> string list" where
  "find_tokens run [] = (if run = [] then [] else [rev run])"
| "find_tokens run (c # cs) =
     (if token_char c then find_tokens (c # run) cs
      else if run = [] then find_tokens [] cs
      else rev run # find_tokens [] cs)"

fun bump_pairs :: "nat \<Rightarrow> nat list \<Rightarrow> real list \<Rightarrow> real list" where
  "bump_pairs dimn (hi # lo # ds) vec =
     (let i = (256 * hi + lo) mod dimn in bump_pairs dimn ds (vec[i := vec ! i + 1]))"
| "bump_pairs dimn _ vec = vec"

definition embed_text :: "env \<Rightarrow> nat \<Rightarrow> string \<Rightarrow> real list" where
  "embed_text e dimn text =
     (let tokens = find_tokens [] (lower text);
          vec = fold (\<lambda>tok v. bump_pairs dimn (sha256 e tok) v) tokens (replicate dimn 0);
          nrm = sqrt (\<Sum>x \<leftarrow> vec. x * x)
      in if tokens = [] then replicate dimn 0
         else if nrm = 0 then vec
         else map (\<lambda>x. x / nrm) vec)"

lemma length_bump_pairs [simp]: "length (bump_pairs dimn ds vec) = length vec"
  by (induction dimn ds vec rule: bump_pairs.induct) (simp_all add: Let_def)

lemma length_fold_bump: "length (fold (\<lambda>tok v. bump_pairs dimn (f tok) v) toks vec) = length vec"
  by (induction toks arbitrary: vec) simp_all

lemma length_embed_text: "length (embed_text e dimn text) = dimn"
  by (simp add: embed_text_def Let_def length_fold_bump)

text \<open>No coordinate is negative, and the sum of squares of a scaled vector is one.\<close>

lemma bump_pairs_nonneg:
  "\<forall>x \<in> set vec. 0 \<le> x \<Longrightarrow> 0 < length vec \<Longrightarrow> dimn = length vec \<Longrightarrow> \<forall>x \<in> set (bump_pairs dimn ds vec). 0 \<le> x"
proof (induction dimn ds vec rule: bump_pairs.induct)
  case (1 dimn hi lo ds vec)
  let ?i = "(256 * hi + lo) mod dimn"
  have i: "?i < length vec" using "1.prems" by simp
  have "\<forall>x \<in> set (vec[?i := vec ! ?i + 1]). 0 \<le> x"
  proof
    fix x assume "x \<in> set (vec[?i := vec ! ?i + 1])"
    then have "x = vec ! ?i + 1 \<or> x \<in> set vec" using set_update_subset_insert by fast
    moreover have "0 \<le> vec ! ?i" using "1.prems"(1) i by (metis nth_mem)
    ultimately show "0 \<le> x" using "1.prems"(1) by auto
  qed
  then show ?case using "1.IH" [OF refl] "1.prems" by (simp add: Let_def)
qed simp_all

lemma sum_squares_scaled:
  fixes vec :: "real list"
  assumes "n \<noteq> 0"
  shows "(\<Sum>x \<leftarrow> map (\<lambda>x. x / n) vec. x * x) = (\<Sum>x \<leftarrow> vec. x * x) / (n * n)"
  by (induction vec) (simp_all add: add_divide_distrib)

lemma sum_squares_nonneg: "0 \<le> (\<Sum>x \<leftarrow> (vec :: real list). x * x)"
  by (induction vec) simp_all

lemma embed_text_unit:
  "embed_text e dimn text = replicate dimn 0 \<or> (\<Sum>x \<leftarrow> embed_text e dimn text. x * x) = 1
     \<or> (\<Sum>x \<leftarrow> embed_text e dimn text. x * x) = 0"
proof -
  let ?v = "fold (\<lambda>tok v. bump_pairs dimn (sha256 e tok) v) (find_tokens [] (lower text)) (replicate dimn 0)"
  let ?n = "sqrt (\<Sum>x \<leftarrow> ?v. x * x)"
  show ?thesis
  proof (cases "find_tokens [] (lower text) = [] \<or> ?n = 0")
    case True
    then show ?thesis by (auto simp: embed_text_def Let_def)
  next
    case False
    then have "(\<Sum>x \<leftarrow> map (\<lambda>x. x / ?n) ?v. x * x) = (\<Sum>x \<leftarrow> ?v. x * x) / (?n * ?n)"
      by (intro sum_squares_scaled) simp
    also have "?n * ?n = (\<Sum>x \<leftarrow> ?v. x * x)"
      by (simp add: sum_squares_nonneg)
    finally show ?thesis using False by (auto simp: embed_text_def Let_def)
  qed
qed

end
