(* ===== verification/Database.thy ===== *)
theory Database
  imports Tables Policy_Models Embeddings
begin

text \<open>
  The SQLite store of \<^verbatim>\<open>server/db.py\<close> and the embedding table of \<^verbatim>\<open>memory/vec_store.py\<close>.  The
  database is the record \<open>db\<close> with one list of rows per table; JSON columns hold the values
  they encode.  Statements that can fail (an \<^verbatim>\<open>INSERT\<close> on an existing primary key) are actions
  that raise; queries are functions of the state.  The components above extend the record
  with their in-memory state, so every operation here is polymorphic in the extension.

  Timestamps the server writes are kept as instants: the text \<^verbatim>\<open>isoformat\<close> gives for a UTC
  instant orders as the instant does, so the comparisons of the statements agree.  The expiry
  of a grant may come from a client and is kept as what \<^verbatim>\<open>datetime.fromisoformat\<close> makes of it.
\<close>

section \<open>Rows\<close>

record agent_row =
  ag_id :: string
  ag_manifest_hash :: string
  ag_manifest :: obj
  ag_created_at :: time

record session_row =
  se_token :: string
  se_agent_id :: string
  se_vm_id :: string
  se_expires_at :: time
  se_created_at :: time

record rule_row =
  rr_id :: string
  rr_priority :: int
  rr_rule :: policy_rule
  rr_created_at :: time

record audit_row =
  au_id :: nat
  au_timestamp :: time
  au_event_type :: string
  au_correlation_id :: "string option"
  au_origin_correlation_id :: "string option"
  au_agent_id :: "string option"
  au_message_id :: "string option"
  au_decision :: "string option"
  au_matched_rules :: "string list"
  au_details :: obj

record user_row =
  us_id :: string
  us_role :: string
  us_profile :: obj

text \<open>A timestamp column as \<^verbatim>\<open>datetime.fromisoformat\<close> reads it: with an offset, without one (a
  naive datetime, which Python refuses to compare with an aware one), or not a timestamp.\<close>

datatype iso_text = IsoAware time | IsoNaive time | IsoBad string

record grant_row =
  gr_id :: string
  gr_subject_agent :: string
  gr_target_agent :: string
  gr_namespace :: string
  gr_permissions :: "json list"
  gr_expires_at :: "iso_text option"
  gr_created_by :: string
  gr_status :: string
  gr_created_at :: time

record quota_row =
  qc_key :: string
  qc_limit :: int
  qc_used :: int
  qc_window_type :: string
  qc_reset_at :: "time option"
  qc_updated_at :: time

record namespace_quota_row =
  nq_agent_id :: string
  nq_namespace :: string
  nq_max_records :: int
  nq_max_record_bytes :: int
  nq_default_ttl_seconds :: "int option"
  nq_created_at :: time
  nq_updated_at :: time

record memory_row =
  mr_id :: string
  mr_agent_id :: string
  mr_namespace :: string
  mr_key :: "string option"
  mr_content :: string
  mr_metadata :: obj
  mr_embedding_ref :: "string option"
  mr_expires_at :: "time option"
  mr_deleted_at :: "time option"
  mr_version :: int
  mr_created_at :: time
  mr_updated_at :: time

record elevation_row =
  el_id :: string
  el_status :: string
  el_message :: obj
  el_context :: obj
  el_expires_at :: time
  el_created_at :: time
  el_updated_at :: time

record turn_row =
  tu_root_correlation_id :: string
  tu_agent_id :: string
  tu_user_id :: "string option"
  tu_started_at :: time
  tu_last_activity :: time
  tu_depth :: int

record replay_row =
  pr_id :: string
  pr_agent_id :: string
  pr_vm_id :: string
  pr_elevation_id :: string
  pr_grant_id :: string
  pr_message :: obj
  pr_created_at :: time
  pr_delivered_at :: "time option"

record counter_row =
  bc_agent_id :: string
  bc_signal :: string
  bc_window_start :: time
  bc_count :: int
  bc_updated_at :: time

record group_row =
  gp_id :: string
  gp_parent_group :: "string option"
  gp_inherited_rules :: bool
  gp_rule_ids :: "string list"
  gp_members :: "string list"
  gp_created_at :: time
  gp_updated_at :: time

record catalog_row =
  ce_kind :: string
  ce_entry_id :: string
  ce_entry :: obj
  ce_updated_at :: time

record setting_row =
  ss_key :: string
  ss_value :: json
  ss_secret :: bool
  ss_restart_required :: bool
  ss_updated_at :: time

record db =
  agents :: "agent_row list"
  sessions :: "session_row list"
  rules :: "rule_row list"
  audit_log :: "audit_row list"
  users :: "user_row list"
  grants :: "grant_row list"
  quota_counters :: "quota_row list"
  namespace_quotas :: "namespace_quota_row list"
  memory_records :: "memory_row list"
  memory_embeddings :: "(string \<times> real list) list"
  elevations :: "elevation_row list"
  turn_state :: "turn_row list"
  pending_replay :: "replay_row list"
  behavioral_counters :: "counter_row list"
  db_groups :: "group_row list"
  catalog_entries :: "catalog_row list"
  server_settings :: "setting_row list"

section \<open>Agents and sessions\<close>

definition agent_merge :: "agent_row \<Rightarrow> agent_row \<Rightarrow> agent_row" where
  "agent_merge old new = old\<lparr>ag_manifest_hash := ag_manifest_hash new, ag_manifest := ag_manifest new\<rparr>"

definition upsert_agent :: "env \<Rightarrow> string \<Rightarrow> string \<Rightarrow> obj \<Rightarrow> ('z db_scheme, unit) act" where
  "upsert_agent e agent_id hash manifest = modS (\<lambda>s. s\<lparr>agents := upsert_row ag_id agent_merge
     \<lparr>ag_id = agent_id, ag_manifest_hash = hash, ag_manifest = manifest, ag_created_at = now e\<rparr> (agents s)\<rparr>)"

definition get_agent :: "string \<Rightarrow> 'z db_scheme \<Rightarrow> agent_row option" where
  "get_agent agent_id s = lookup_row ag_id agent_id (agents s)"

definition list_agents :: "'z db_scheme \<Rightarrow> agent_row list" where
  "list_agents s = order_by ag_id (agents s)"

definition create_session :: "env \<Rightarrow> string \<Rightarrow> string \<Rightarrow> time \<Rightarrow> ('z db_scheme, string) act" where
  "create_session e agent_id vm_id expires_at = (\<lambda>s.
     let token = uuid4 e ''session'' in
     case insert_row se_token \<lparr>se_token = token, se_agent_id = agent_id, se_vm_id = vm_id,
            se_expires_at = expires_at, se_created_at = now e\<rparr> (sessions s) of
       Inl x \<Rightarrow> (Inl x, s)
     | Inr rows \<Rightarrow> (Inr token, s\<lparr>sessions := rows\<rparr>))"

definition get_session :: "string \<Rightarrow> 'z db_scheme \<Rightarrow> session_row option" where
  "get_session token s = lookup_row se_token token (sessions s)"

section \<open>Rules\<close>

definition rule_merge :: "rule_row \<Rightarrow> rule_row \<Rightarrow> rule_row" where
  "rule_merge old new = old\<lparr>rr_priority := rr_priority new, rr_rule := rr_rule new\<rparr>"

definition upsert_rule :: "env \<Rightarrow> string \<Rightarrow> int \<Rightarrow> policy_rule \<Rightarrow> ('z db_scheme, unit) act" where
  "upsert_rule e rule_id priority rule = modS (\<lambda>s. s\<lparr>rules := upsert_row rr_id rule_merge
     \<lparr>rr_id = rule_id, rr_priority = priority, rr_rule = rule, rr_created_at = now e\<rparr> (rules s)\<rparr>)"

definition delete_rule :: "string \<Rightarrow> ('z db_scheme, bool) act" where
  "delete_rule rule_id = (\<lambda>s. (Inr (row_count (\<lambda>r. rr_id r = rule_id) (rules s) > 0),
     s\<lparr>rules := delete_rows (\<lambda>r. rr_id r = rule_id) (rules s)\<rparr>))"

text \<open>\<^verbatim>\<open>ORDER BY priority DESC, id\<close>: a stable sort by priority of the rows sorted by id.\<close>

definition list_rules :: "'z db_scheme \<Rightarrow> policy_rule list" where
  "list_rules s = map rr_rule (order_by_desc rr_priority (order_by rr_id (rules s)))"

section \<open>Users\<close>

definition user_merge :: "user_row \<Rightarrow> user_row \<Rightarrow> user_row" where
  "user_merge old new = old\<lparr>us_role := us_role new, us_profile := us_profile new\<rparr>"

definition upsert_user :: "string \<Rightarrow> string \<Rightarrow> obj \<Rightarrow> ('z db_scheme, unit) act" where
  "upsert_user user_id role profile = modS (\<lambda>s. s\<lparr>users := upsert_row us_id user_merge
     \<lparr>us_id = user_id, us_role = role, us_profile = profile\<rparr> (users s)\<rparr>)"

text \<open>\<^verbatim>\<open>{"id": ..., "role": ..., **json.loads(profile)}\<close>\<close>

definition user_of_row :: "user_row \<Rightarrow> obj" where
  "user_of_row u = omerge [(''id'', JStr (us_id u)), (''role'', JStr (us_role u))] (us_profile u)"

definition get_user :: "string \<Rightarrow> 'z db_scheme \<Rightarrow> obj option" where
  "get_user user_id s = map_option user_of_row (lookup_row us_id user_id (users s))"

definition list_users :: "'z db_scheme \<Rightarrow> obj list" where
  "list_users s = map user_of_row (order_by us_id (users s))"

fun has_alias :: "string \<Rightarrow> string \<Rightarrow> json list \<Rightarrow> bool res" where
  "has_alias platform val [] = Inr False"
| "has_alias platform val (a # as) =
     bindE (jget a ''platform'' JNull) (\<lambda>p.
       if p = JStr platform then
         bindE (jget a ''value'' JNull) (\<lambda>v. if v = JStr val then Inr True else has_alias platform val as)
       else has_alias platform val as)"

fun find_alias_user :: "string \<Rightarrow> string \<Rightarrow> obj list \<Rightarrow> obj option res" where
  "find_alias_user platform val [] = Inr None"
| "find_alias_user platform val (u # us) =
     bindE (py_iter (oget_or u ''aliases'' (JArr []))) (\<lambda>as.
     bindE (has_alias platform val as) (\<lambda>found.
       if found then Inr (Some u) else find_alias_user platform val us))"

definition find_user_by_alias :: "string \<Rightarrow> string \<Rightarrow> 'z db_scheme \<Rightarrow> obj option res" where
  "find_user_by_alias platform val s = find_alias_user platform val (list_users s)"

definition odel :: "string \<Rightarrow> obj \<Rightarrow> obj" where
  "odel k d = filter (\<lambda>(k', v). k' \<noteq> k) d"

text \<open>\<^verbatim>\<open>user.pop("role")\<close> of a user dictionary as the column value; the columns are text.\<close>

definition deactivate_user :: "string \<Rightarrow> ('z db_scheme, bool) act" where
  "deactivate_user user_id = bindA (getS (get_user user_id)) (\<lambda>u.
     case u of None \<Rightarrow> ret False
     | Some user \<Rightarrow> thenA
         (upsert_user (py_str (oget user ''id'')) (py_str (oget user ''role''))
            (oset ''active'' (JBool False) (odel ''id'' (odel ''role'' user))))
         (ret True))"

definition patch_user :: "string \<Rightarrow> obj \<Rightarrow> ('z db_scheme, obj option) act" where
  "patch_user user_id updates = bindA (getS (get_user user_id)) (\<lambda>u.
     case u of None \<Rightarrow> ret None
     | Some user \<Rightarrow>
         let role = oget_or updates ''role'' (oget user ''role'');
             profile = filter (\<lambda>(k, v). k \<noteq> ''id'' \<and> k \<noteq> ''role'') user;
             changes = filter (\<lambda>(k, v). k \<noteq> ''role'' \<and> v \<noteq> JNull) updates
         in if role = JNull then raise IntegrityError
            else thenA (upsert_user user_id (py_str role) (omerge profile changes)) (getS (get_user user_id)))"

definition hash_secret :: "env \<Rightarrow> string \<Rightarrow> string" where
  "hash_secret e secret = hexdigest (sha256 e secret)"

definition verify_user_secret :: "env \<Rightarrow> string \<Rightarrow> string \<Rightarrow> 'z db_scheme \<Rightarrow> bool" where
  "verify_user_secret e user_id secret s =
     (case get_user user_id s of None \<Rightarrow> False
      | Some user \<Rightarrow> oget user ''credential_hash'' = JStr (hash_secret e secret))"

section \<open>Groups\<close>

definition list_groups :: "'z db_scheme \<Rightarrow> group_row list" where
  "list_groups s = order_by gp_id (db_groups s)"

definition get_group :: "string \<Rightarrow> 'z db_scheme \<Rightarrow> group_row option" where
  "get_group group_id s = lookup_row gp_id group_id (db_groups s)"

definition upsert_group ::
  "env \<Rightarrow> string \<Rightarrow> string option \<Rightarrow> bool \<Rightarrow> string list option \<Rightarrow> string list option
   \<Rightarrow> ('z db_scheme, group_row) act" where
  "upsert_group e group_id parent inherited rule_ids members = (\<lambda>s.
     let existing = get_group group_id s;
         rids = (case rule_ids of Some xs \<Rightarrow> xs | None \<Rightarrow> (case existing of Some g \<Rightarrow> gp_rule_ids g | None \<Rightarrow> []));
         mems = (case members of Some xs \<Rightarrow> xs | None \<Rightarrow> (case existing of Some g \<Rightarrow> gp_members g | None \<Rightarrow> []));
         s' = (case existing of
            None \<Rightarrow> s\<lparr>db_groups := db_groups s @ [\<lparr>gp_id = group_id, gp_parent_group = parent,
               gp_inherited_rules = inherited, gp_rule_ids = rids, gp_members = mems,
               gp_created_at = now e, gp_updated_at = now e\<rparr>]\<rparr>
          | Some g \<Rightarrow> s\<lparr>db_groups := update_rows (\<lambda>r. gp_id r = group_id)
               (\<lambda>r. r\<lparr>gp_parent_group := (case parent of Some p \<Rightarrow> Some p | None \<Rightarrow> gp_parent_group g),
                  gp_inherited_rules := inherited, gp_rule_ids := rids, gp_members := mems,
                  gp_updated_at := now e\<rparr>) (db_groups s)\<rparr>)
     in case get_group group_id s' of
          None \<Rightarrow> (Inl RuntimeError, s')
        | Some g \<Rightarrow> (Inr g, s'))"

definition delete_group :: "string \<Rightarrow> ('z db_scheme, bool) act" where
  "delete_group group_id = (\<lambda>s. (Inr (row_count (\<lambda>r. gp_id r = group_id) (db_groups s) > 0),
     s\<lparr>db_groups := delete_rows (\<lambda>r. gp_id r = group_id) (db_groups s)\<rparr>))"

section \<open>Catalog entries and settings\<close>

definition ce_key :: "catalog_row \<Rightarrow> string \<times> string" where
  "ce_key r = (ce_kind r, ce_entry_id r)"

definition catalog_merge :: "catalog_row \<Rightarrow> catalog_row \<Rightarrow> catalog_row" where
  "catalog_merge old new = old\<lparr>ce_entry := ce_entry new, ce_updated_at := ce_updated_at new\<rparr>"

definition list_catalog_entries :: "string \<Rightarrow> 'z db_scheme \<Rightarrow> obj list" where
  "list_catalog_entries kind s =
     map ce_entry (order_by ce_entry_id (filter (\<lambda>r. ce_kind r = kind) (catalog_entries s)))"

definition get_catalog_entry :: "string \<Rightarrow> string \<Rightarrow> 'z db_scheme \<Rightarrow> obj option" where
  "get_catalog_entry kind entry_id s = map_option ce_entry (lookup_row ce_key (kind, entry_id) (catalog_entries s))"

definition upsert_catalog_entry :: "env \<Rightarrow> string \<Rightarrow> string \<Rightarrow> obj \<Rightarrow> ('z db_scheme, unit) act" where
  "upsert_catalog_entry e kind entry_id entry = modS (\<lambda>s. s\<lparr>catalog_entries :=
     upsert_row ce_key catalog_merge \<lparr>ce_kind = kind, ce_entry_id = entry_id, ce_entry = entry,
       ce_updated_at = now e\<rparr> (catalog_entries s)\<rparr>)"

definition delete_catalog_entry :: "string \<Rightarrow> string \<Rightarrow> ('z db_scheme, bool) act" where
  "delete_catalog_entry kind entry_id = (\<lambda>s.
     (Inr (row_count (\<lambda>r. ce_kind r = kind \<and> ce_entry_id r = entry_id) (catalog_entries s) > 0),
      s\<lparr>catalog_entries := delete_rows (\<lambda>r. ce_kind r = kind \<and> ce_entry_id r = entry_id) (catalog_entries s)\<rparr>))"

definition catalog_kind_empty :: "string \<Rightarrow> 'z db_scheme \<Rightarrow> bool" where
  "catalog_kind_empty kind s \<longleftrightarrow> \<not> list_ex (\<lambda>r. ce_kind r = kind) (catalog_entries s)"

definition setting_merge :: "setting_row \<Rightarrow> setting_row \<Rightarrow> setting_row" where
  "setting_merge old new = old\<lparr>ss_value := ss_value new, ss_secret := ss_secret new,
     ss_restart_required := ss_restart_required new, ss_updated_at := ss_updated_at new\<rparr>"

definition get_setting :: "string \<Rightarrow> 'z db_scheme \<Rightarrow> setting_row option" where
  "get_setting key s = lookup_row ss_key key (server_settings s)"

definition list_settings :: "'z db_scheme \<Rightarrow> setting_row list" where
  "list_settings s = order_by ss_key (server_settings s)"

definition upsert_setting :: "env \<Rightarrow> string \<Rightarrow> json \<Rightarrow> bool \<Rightarrow> bool \<Rightarrow> ('z db_scheme, unit) act" where
  "upsert_setting e key val secret restart = modS (\<lambda>s. s\<lparr>server_settings := upsert_row ss_key setting_merge
     \<lparr>ss_key = key, ss_value = val, ss_secret = secret, ss_restart_required = restart,
      ss_updated_at = now e\<rparr> (server_settings s)\<rparr>)"

definition settings_empty :: "'z db_scheme \<Rightarrow> bool" where
  "settings_empty s \<longleftrightarrow> server_settings s = []"

section \<open>Grants\<close>

definition create_grant ::
  "env \<Rightarrow> string \<Rightarrow> string \<Rightarrow> string \<Rightarrow> json list \<Rightarrow> string \<Rightarrow> iso_text option \<Rightarrow> string option \<Rightarrow> string
   \<Rightarrow> ('z db_scheme, string) act" where
  "create_grant e subject target namespace permissions created_by expires_at grant_id status = (\<lambda>s.
     let gid = (if opt_truthy grant_id then the grant_id else uuid4 e ''grant'') in
     case insert_row gr_id \<lparr>gr_id = gid, gr_subject_agent = subject, gr_target_agent = target,
            gr_namespace = namespace, gr_permissions = permissions, gr_expires_at = expires_at,
            gr_created_by = created_by, gr_status = status, gr_created_at = now e\<rparr> (grants s) of
       Inl x \<Rightarrow> (Inl x, s)
     | Inr rows \<Rightarrow> (Inr gid, s\<lparr>grants := rows\<rparr>))"

definition list_grants :: "string option \<Rightarrow> string option \<Rightarrow> 'z db_scheme \<Rightarrow> grant_row list" where
  "list_grants agent_id namespace s = order_by_desc gr_created_at (filter (\<lambda>g.
     (opt_truthy agent_id \<longrightarrow> agent_id = Some (gr_subject_agent g) \<or> agent_id = Some (gr_target_agent g))
     \<and> (opt_truthy namespace \<longrightarrow> namespace = Some (gr_namespace g))) (grants s))"

definition revoke_grant :: "string \<Rightarrow> ('z db_scheme, bool) act" where
  "revoke_grant grant_id = (\<lambda>s. (Inr (row_count (\<lambda>g. gr_id g = grant_id) (grants s) > 0),
     s\<lparr>grants := update_rows (\<lambda>g. gr_id g = grant_id) (\<lambda>g. g\<lparr>gr_status := ''revoked''\<rparr>) (grants s)\<rparr>))"

fun first_unexpired :: "time \<Rightarrow> string \<Rightarrow> grant_row list \<Rightarrow> grant_row option res" where
  "first_unexpired t permission [] = Inr None"
| "first_unexpired t permission (g # gs) =
     (let usable = (if JStr permission \<in> set (gr_permissions g) then Inr (Some g)
                    else first_unexpired t permission gs)
      in case gr_expires_at g of
           None \<Rightarrow> usable
         | Some (IsoAware x) \<Rightarrow> if x \<le> t then first_unexpired t permission gs else usable
         | Some (IsoNaive x) \<Rightarrow> Inl TypeError
         | Some (IsoBad txt) \<Rightarrow> if txt = [] then usable else Inl ValueError)"

definition find_valid_grant ::
  "string \<Rightarrow> string \<Rightarrow> string \<Rightarrow> string \<Rightarrow> string option \<Rightarrow> time \<Rightarrow> 'z db_scheme \<Rightarrow> grant_row option res" where
  "find_valid_grant subject target namespace permission grant_id t s =
     first_unexpired t permission (filter (\<lambda>g.
       gr_subject_agent g = subject \<and> gr_target_agent g = target \<and> gr_namespace g = namespace
       \<and> gr_status g = ''active'' \<and> (opt_truthy grant_id \<longrightarrow> grant_id = Some (gr_id g))) (grants s))"

section \<open>Quota counters\<close>

definition get_quota_counter :: "string \<Rightarrow> 'z db_scheme \<Rightarrow> quota_row option" where
  "get_quota_counter key s = lookup_row qc_key key (quota_counters s)"

definition quota_keep :: "quota_row \<Rightarrow> quota_row \<Rightarrow> quota_row" where
  "quota_keep old new = old"

definition get_or_create_quota_counter :: "env \<Rightarrow> string \<Rightarrow> int \<Rightarrow> string \<Rightarrow> ('z db_scheme, quota_row) act" where
  "get_or_create_quota_counter e key limit window_type = (\<lambda>s.
     let s' = s\<lparr>quota_counters := upsert_row qc_key quota_keep
            \<lparr>qc_key = key, qc_limit = limit, qc_used = 0, qc_window_type = window_type,
             qc_reset_at = None, qc_updated_at = now e\<rparr> (quota_counters s)\<rparr>
     in case get_quota_counter key s' of
          None \<Rightarrow> (Inl TypeError, s')
        | Some row \<Rightarrow> (Inr row, s'))"

definition list_quota_counters :: "'z db_scheme \<Rightarrow> quota_row list" where
  "list_quota_counters s = order_by qc_key (quota_counters s)"

definition quota_merge :: "quota_row \<Rightarrow> quota_row \<Rightarrow> quota_row" where
  "quota_merge old new = old\<lparr>qc_limit := qc_limit new, qc_used := qc_used new,
     qc_window_type := qc_window_type new, qc_updated_at := qc_updated_at new\<rparr>"

definition upsert_quota_counter :: "env \<Rightarrow> string \<Rightarrow> int \<Rightarrow> int \<Rightarrow> string \<Rightarrow> ('z db_scheme, unit) act" where
  "upsert_quota_counter e key limit used window_type = modS (\<lambda>s. s\<lparr>quota_counters :=
     upsert_row qc_key quota_merge \<lparr>qc_key = key, qc_limit = limit, qc_used = used,
       qc_window_type = window_type, qc_reset_at = None, qc_updated_at = now e\<rparr> (quota_counters s)\<rparr>)"

definition increment_quota_counter :: "env \<Rightarrow> string \<Rightarrow> int \<Rightarrow> ('z db_scheme, quota_row option) act" where
  "increment_quota_counter e key delta = (\<lambda>s.
     let s' = s\<lparr>quota_counters := update_rows (\<lambda>q. qc_key q = key)
            (\<lambda>q. q\<lparr>qc_used := qc_used q + delta, qc_updated_at := now e\<rparr>) (quota_counters s)\<rparr>
     in if row_count (\<lambda>q. qc_key q = key) (quota_counters s) = 0 then (Inr None, s')
        else (Inr (get_quota_counter key s'), s'))"

section \<open>Namespace quotas\<close>

definition nq_key :: "namespace_quota_row \<Rightarrow> string \<times> string" where
  "nq_key r = (nq_agent_id r, nq_namespace r)"

definition list_namespace_quotas :: "string \<Rightarrow> 'z db_scheme \<Rightarrow> namespace_quota_row list" where
  "list_namespace_quotas agent_id s =
     order_by nq_namespace (filter (\<lambda>r. nq_agent_id r = agent_id) (namespace_quotas s))"

definition get_namespace_quota :: "string \<Rightarrow> string \<Rightarrow> 'z db_scheme \<Rightarrow> namespace_quota_row option" where
  "get_namespace_quota agent_id namespace s = lookup_row nq_key (agent_id, namespace) (namespace_quotas s)"

definition nq_merge :: "namespace_quota_row \<Rightarrow> namespace_quota_row \<Rightarrow> namespace_quota_row" where
  "nq_merge old new = old\<lparr>nq_max_records := nq_max_records new, nq_max_record_bytes := nq_max_record_bytes new,
     nq_default_ttl_seconds := nq_default_ttl_seconds new, nq_updated_at := nq_updated_at new\<rparr>"

definition upsert_namespace_quota ::
  "env \<Rightarrow> string \<Rightarrow> string \<Rightarrow> int \<Rightarrow> int \<Rightarrow> int option \<Rightarrow> ('z db_scheme, namespace_quota_row) act" where
  "upsert_namespace_quota e agent_id namespace max_records max_bytes ttl = (\<lambda>s.
     let s' = s\<lparr>namespace_quotas := upsert_row nq_key nq_merge
            \<lparr>nq_agent_id = agent_id, nq_namespace = namespace, nq_max_records = max_records,
             nq_max_record_bytes = max_bytes, nq_default_ttl_seconds = ttl,
             nq_created_at = now e, nq_updated_at = now e\<rparr> (namespace_quotas s)\<rparr>
     in case get_namespace_quota agent_id namespace s' of
          None \<Rightarrow> (Inl RuntimeError, s')
        | Some q \<Rightarrow> (Inr q, s'))"

section \<open>Memory records\<close>

definition get_memory_record :: "string \<Rightarrow> 'z db_scheme \<Rightarrow> memory_row option" where
  "get_memory_record record_id s = lookup_row mr_id record_id (memory_records s)"

definition insert_record_embedding :: "string \<Rightarrow> real list \<Rightarrow> ('z db_scheme, unit) act" where
  "insert_record_embedding record_id embedding = (\<lambda>s.
     case insert_row fst (record_id, embedding) (memory_embeddings s) of
       Inl x \<Rightarrow> (Inl x, s)
     | Inr rows \<Rightarrow> (Inr (), s\<lparr>memory_embeddings := rows\<rparr>))"

definition delete_record_embedding :: "string \<Rightarrow> ('z db_scheme, unit) act" where
  "delete_record_embedding record_id = modS (\<lambda>s. s\<lparr>memory_embeddings :=
     delete_rows (\<lambda>r. fst r = record_id) (memory_embeddings s)\<rparr>)"

definition insert_memory_row :: "memory_row \<Rightarrow> ('z db_scheme, unit) act" where
  "insert_memory_row row = (\<lambda>s.
     case insert_row mr_id row (memory_records s) of
       Inl x \<Rightarrow> (Inl x, s)
     | Inr rows \<Rightarrow> (Inr (), s\<lparr>memory_records := rows\<rparr>))"

definition set_embedding_ref :: "string \<Rightarrow> ('z db_scheme, unit) act" where
  "set_embedding_ref record_id = modS (\<lambda>s. s\<lparr>memory_records :=
     update_rows (\<lambda>r. mr_id r = record_id) (\<lambda>r. r\<lparr>mr_embedding_ref := Some record_id\<rparr>) (memory_records s)\<rparr>)"

definition create_memory_record ::
  "env \<Rightarrow> string \<Rightarrow> string \<Rightarrow> string option \<Rightarrow> string \<Rightarrow> obj \<Rightarrow> string option \<Rightarrow> time option
   \<Rightarrow> ('z db_scheme, memory_row) act" where
  "create_memory_record e agent_id namespace key content metadata embedding_ref expires_at =
     (let record_id = uuid4 e ''memory_record'' in
      thenA (insert_memory_row \<lparr>mr_id = record_id, mr_agent_id = agent_id, mr_namespace = namespace,
               mr_key = key, mr_content = content, mr_metadata = metadata,
               mr_embedding_ref = embedding_ref, mr_expires_at = expires_at, mr_deleted_at = None,
               mr_version = 1, mr_created_at = now e, mr_updated_at = now e\<rparr>)
     (thenA (insert_record_embedding record_id (embed_text e EMBEDDING_DIM content))
     (thenA (set_embedding_ref record_id)
     (bindA (getS (get_memory_record record_id)) (\<lambda>r.
        case r of None \<Rightarrow> raise RuntimeError | Some record \<Rightarrow> ret record)))))"

text \<open>\<^verbatim>\<open>deleted_at IS NULL AND (expires_at IS NULL OR expires_at > ?)\<close>\<close>

definition live :: "time \<Rightarrow> memory_row \<Rightarrow> bool" where
  "live t r \<longleftrightarrow> mr_deleted_at r = None \<and> (case mr_expires_at r of None \<Rightarrow> True | Some x \<Rightarrow> x > t)"

definition query_memory_by_key ::
  "string \<Rightarrow> string \<Rightarrow> string \<Rightarrow> time \<Rightarrow> nat \<Rightarrow> 'z db_scheme \<Rightarrow> memory_row list" where
  "query_memory_by_key agent_id namespace key t limit s =
     take limit (order_by_desc mr_updated_at (filter (\<lambda>r.
       mr_agent_id r = agent_id \<and> mr_namespace r = namespace \<and> mr_key r = Some key \<and> live t r)
       (memory_records s)))"

definition list_memory_records ::
  "string \<Rightarrow> string \<Rightarrow> time \<Rightarrow> nat \<Rightarrow> 'z db_scheme \<Rightarrow> memory_row list" where
  "list_memory_records agent_id namespace t limit s =
     take limit (order_by_desc mr_updated_at (filter (\<lambda>r.
       mr_agent_id r = agent_id \<and> mr_namespace r = namespace \<and> live t r) (memory_records s)))"

text \<open>\<open>knn table query k\<close> stands for the nearest-neighbour scan of the sqlite-vec extension: the
  record ids of the \<open>k\<close> nearest rows, nearest first.\<close>

type_synonym knn = "(string \<times> real list) list \<Rightarrow> real list \<Rightarrow> nat \<Rightarrow> string list"

definition query_semantic_record_ids ::
  "knn \<Rightarrow> real list \<Rightarrow> string \<Rightarrow> string \<Rightarrow> time \<Rightarrow> nat \<Rightarrow> 'z db_scheme \<Rightarrow> string list" where
  "query_semantic_record_ids knn query agent_id namespace t limit s =
     (let k = min (max (limit * 10) limit) 100 in
      take limit (filter (\<lambda>rid. list_ex (\<lambda>r. mr_id r = rid \<and> mr_agent_id r = agent_id
          \<and> mr_namespace r = namespace \<and> live t r) (memory_records s))
        (knn (memory_embeddings s) query k)))"

definition query_memory_semantic ::
  "knn \<Rightarrow> real list \<Rightarrow> string \<Rightarrow> string \<Rightarrow> time \<Rightarrow> nat \<Rightarrow> 'z db_scheme \<Rightarrow> memory_row list" where
  "query_memory_semantic knn query agent_id namespace t limit s =
     List.map_filter (\<lambda>rid. get_memory_record rid s)
       (query_semantic_record_ids knn query agent_id namespace t limit s)"

definition count_active_memory_records :: "string \<Rightarrow> string \<Rightarrow> time \<Rightarrow> 'z db_scheme \<Rightarrow> nat" where
  "count_active_memory_records agent_id namespace t s =
     row_count (\<lambda>r. mr_agent_id r = agent_id \<and> mr_namespace r = namespace \<and> live t r) (memory_records s)"

definition soft_delete_memory_record ::
  "env \<Rightarrow> string \<Rightarrow> string \<Rightarrow> string \<Rightarrow> ('z db_scheme, memory_row option) act" where
  "soft_delete_memory_record e record_id agent_id namespace = (\<lambda>s.
     let hit = (\<lambda>r. mr_id r = record_id \<and> mr_agent_id r = agent_id \<and> mr_namespace r = namespace
                    \<and> mr_deleted_at r = None);
         s' = s\<lparr>memory_records := update_rows hit (\<lambda>r. r\<lparr>mr_deleted_at := Some (now e),
                mr_updated_at := now e, mr_version := mr_version r + 1\<rparr>) (memory_records s)\<rparr>
     in if row_count hit (memory_records s) = 0 then (Inr None, s')
        else thenA (delete_record_embedding record_id) (getS (get_memory_record record_id)) s')"

section \<open>Elevations\<close>

definition create_elevation :: "env \<Rightarrow> obj \<Rightarrow> obj \<Rightarrow> time \<Rightarrow> string \<Rightarrow> ('z db_scheme, string) act" where
  "create_elevation e message ctx expires_at status = (\<lambda>s.
     let elevation_id = uuid4 e ''elevation'' in
     case insert_row el_id \<lparr>el_id = elevation_id, el_status = status, el_message = message,
            el_context = ctx, el_expires_at = expires_at, el_created_at = now e,
            el_updated_at = now e\<rparr> (elevations s) of
       Inl x \<Rightarrow> (Inl x, s)
     | Inr rows \<Rightarrow> (Inr elevation_id, s\<lparr>elevations := rows\<rparr>))"

text \<open>\<^verbatim>\<open>json_extract(message_json, '$.source.agent_id')\<close>\<close>

definition elevation_agent :: "elevation_row \<Rightarrow> json" where
  "elevation_agent el = (case oget (el_message el) ''source'' of JObj d \<Rightarrow> oget d ''agent_id'' | _ \<Rightarrow> JNull)"

definition list_elevations :: "string option \<Rightarrow> string option \<Rightarrow> 'z db_scheme \<Rightarrow> elevation_row list" where
  "list_elevations status agent_id s = order_by_desc el_created_at (filter (\<lambda>el.
     (opt_truthy status \<longrightarrow> status = Some (el_status el))
     \<and> (opt_truthy agent_id \<longrightarrow> elevation_agent el = jopt agent_id)) (elevations s))"

definition update_elevation_status :: "env \<Rightarrow> string \<Rightarrow> string \<Rightarrow> ('z db_scheme, bool) act" where
  "update_elevation_status e elevation_id status = (\<lambda>s.
     (Inr (row_count (\<lambda>el. el_id el = elevation_id) (elevations s) > 0),
      s\<lparr>elevations := update_rows (\<lambda>el. el_id el = elevation_id)
          (\<lambda>el. el\<lparr>el_status := status, el_updated_at := now e\<rparr>) (elevations s)\<rparr>))"

definition get_elevation :: "string \<Rightarrow> 'z db_scheme \<Rightarrow> elevation_row option" where
  "get_elevation elevation_id s = lookup_row el_id elevation_id (elevations s)"

definition expire_pending_elevations :: "time \<Rightarrow> ('z db_scheme, nat) act" where
  "expire_pending_elevations t = (\<lambda>s.
     let due = (\<lambda>el. el_status el = ''pending'' \<and> el_expires_at el \<le> t) in
     (Inr (row_count due (elevations s)),
      s\<lparr>elevations := update_rows due (\<lambda>el. el\<lparr>el_status := ''expired'', el_updated_at := t\<rparr>) (elevations s)\<rparr>))"

section \<open>Pending replays\<close>

definition enqueue_pending_replay ::
  "env \<Rightarrow> string \<Rightarrow> string \<Rightarrow> string \<Rightarrow> string \<Rightarrow> obj \<Rightarrow> string \<Rightarrow> ('z db_scheme, string) act" where
  "enqueue_pending_replay e agent_id vm_id elevation_id grant_id message site = (\<lambda>s.
     let replay_id = uuid4 e site in
     case insert_row pr_id \<lparr>pr_id = replay_id, pr_agent_id = agent_id, pr_vm_id = vm_id,
            pr_elevation_id = elevation_id, pr_grant_id = grant_id, pr_message = message,
            pr_created_at = now e, pr_delivered_at = None\<rparr> (pending_replay s) of
       Inl x \<Rightarrow> (Inl x, s)
     | Inr rows \<Rightarrow> (Inr replay_id, s\<lparr>pending_replay := rows\<rparr>))"

definition list_pending_replays :: "string \<Rightarrow> string \<Rightarrow> 'z db_scheme \<Rightarrow> replay_row list" where
  "list_pending_replays agent_id vm_id s = order_by pr_created_at (filter (\<lambda>r.
     pr_agent_id r = agent_id \<and> pr_vm_id r = vm_id \<and> pr_delivered_at r = None) (pending_replay s))"

definition mark_pending_replay_delivered :: "string \<Rightarrow> time \<Rightarrow> ('z db_scheme, bool) act" where
  "mark_pending_replay_delivered replay_id t = (\<lambda>s.
     let hit = (\<lambda>r. pr_id r = replay_id \<and> pr_delivered_at r = None) in
     (Inr (row_count hit (pending_replay s) > 0),
      s\<lparr>pending_replay := update_rows hit (\<lambda>r. r\<lparr>pr_delivered_at := Some t\<rparr>) (pending_replay s)\<rparr>))"

definition count_pending_replays :: "string option \<Rightarrow> string option \<Rightarrow> 'z db_scheme \<Rightarrow> nat" where
  "count_pending_replays agent_id vm_id s =
     (case agent_id of
        None \<Rightarrow> row_count (\<lambda>r. pr_delivered_at r = None) (pending_replay s)
      | Some a \<Rightarrow> (case vm_id of
          None \<Rightarrow> row_count (\<lambda>r. pr_agent_id r = a \<and> pr_delivered_at r = None) (pending_replay s)
        | Some v \<Rightarrow> row_count (\<lambda>r. pr_agent_id r = a \<and> pr_vm_id r = v \<and> pr_delivered_at r = None)
                     (pending_replay s)))"

section \<open>Behavioral counters\<close>

definition bc_key :: "counter_row \<Rightarrow> string \<times> string \<times> time" where
  "bc_key r = (bc_agent_id r, bc_signal r, bc_window_start r)"

definition counter_merge :: "counter_row \<Rightarrow> counter_row \<Rightarrow> counter_row" where
  "counter_merge old new = old\<lparr>bc_count := bc_count old + bc_count new, bc_updated_at := bc_updated_at new\<rparr>"

definition get_latest_behavioral_counter_activity :: "'z db_scheme \<Rightarrow> time option" where
  "get_latest_behavioral_counter_activity s =
     (if behavioral_counters s = [] then None
      else Some (Max (set (map bc_updated_at (behavioral_counters s)))))"

definition increment_behavioral_counter ::
  "env \<Rightarrow> string \<Rightarrow> string \<Rightarrow> time \<Rightarrow> int \<Rightarrow> ('z db_scheme, int) act" where
  "increment_behavioral_counter e agent_id signal window_start delta = (\<lambda>s.
     let s' = s\<lparr>behavioral_counters := upsert_row bc_key counter_merge
            \<lparr>bc_agent_id = agent_id, bc_signal = signal, bc_window_start = window_start,
             bc_count = delta, bc_updated_at = now e\<rparr> (behavioral_counters s)\<rparr>
     in (Inr (case lookup_row bc_key (agent_id, signal, window_start) (behavioral_counters s') of
                None \<Rightarrow> delta | Some r \<Rightarrow> bc_count r), s'))"

definition sum_behavioral_counter :: "string \<Rightarrow> string \<Rightarrow> time \<Rightarrow> 'z db_scheme \<Rightarrow> int" where
  "sum_behavioral_counter agent_id signal since s =
     (\<Sum>r \<leftarrow> filter (\<lambda>r. bc_agent_id r = agent_id \<and> bc_signal r = signal \<and> bc_window_start r \<ge> since)
          (behavioral_counters s). bc_count r)"

definition list_behavioral_buckets ::
  "string \<Rightarrow> string \<Rightarrow> time \<Rightarrow> time option \<Rightarrow> 'z db_scheme \<Rightarrow> (time \<times> int) list" where
  "list_behavioral_buckets agent_id signal since before s =
     map (\<lambda>r. (bc_window_start r, bc_count r)) (order_by bc_window_start (filter (\<lambda>r.
       bc_agent_id r = agent_id \<and> bc_signal r = signal \<and> bc_window_start r \<ge> since
       \<and> (case before of None \<Rightarrow> True | Some b \<Rightarrow> bc_window_start r < b)) (behavioral_counters s)))"

definition purge_behavioral_counters :: "time \<Rightarrow> ('z db_scheme, nat) act" where
  "purge_behavioral_counters before = (\<lambda>s.
     (Inr (row_count (\<lambda>r. bc_window_start r < before) (behavioral_counters s)),
      s\<lparr>behavioral_counters := delete_rows (\<lambda>r. bc_window_start r < before) (behavioral_counters s)\<rparr>))"

section \<open>Turn state\<close>

definition turn_merge :: "turn_row \<Rightarrow> turn_row \<Rightarrow> turn_row" where
  "turn_merge old new = old\<lparr>tu_agent_id := tu_agent_id new, tu_user_id := tu_user_id new,
     tu_started_at := tu_started_at new, tu_last_activity := tu_last_activity new, tu_depth := tu_depth new\<rparr>"

definition upsert_turn_state ::
  "string \<Rightarrow> string \<Rightarrow> string option \<Rightarrow> time \<Rightarrow> time \<Rightarrow> int \<Rightarrow> ('z db_scheme, unit) act" where
  "upsert_turn_state rootid agent_id user_id started_at last_activity depth = modS (\<lambda>s. s\<lparr>turn_state :=
     upsert_row tu_root_correlation_id turn_merge \<lparr>tu_root_correlation_id = rootid, tu_agent_id = agent_id,
       tu_user_id = user_id, tu_started_at = started_at, tu_last_activity = last_activity,
       tu_depth = depth\<rparr> (turn_state s)\<rparr>)"

definition get_turn_state :: "string \<Rightarrow> 'z db_scheme \<Rightarrow> turn_row option" where
  "get_turn_state rootid s = lookup_row tu_root_correlation_id rootid (turn_state s)"

definition update_turn_state_activity :: "string \<Rightarrow> time \<Rightarrow> int \<Rightarrow> ('z db_scheme, unit) act" where
  "update_turn_state_activity rootid last_activity depth = modS (\<lambda>s. s\<lparr>turn_state :=
     update_rows (\<lambda>t. tu_root_correlation_id t = rootid)
       (\<lambda>t. t\<lparr>tu_last_activity := last_activity, tu_depth := depth\<rparr>) (turn_state s)\<rparr>)"

definition delete_turn_state :: "string \<Rightarrow> ('z db_scheme, unit) act" where
  "delete_turn_state rootid = modS (\<lambda>s. s\<lparr>turn_state :=
     delete_rows (\<lambda>t. tu_root_correlation_id t = rootid) (turn_state s)\<rparr>)"

definition purge_expired_turn_states :: "time \<Rightarrow> ('z db_scheme, nat) act" where
  "purge_expired_turn_states cutoff = (\<lambda>s.
     (Inr (row_count (\<lambda>t. tu_last_activity t < cutoff) (turn_state s)),
      s\<lparr>turn_state := delete_rows (\<lambda>t. tu_last_activity t < cutoff) (turn_state s)\<rparr>))"

section \<open>The tables meet the contract of a keyed table\<close>

interpretation agent_table: keyed_table ag_id agent_merge
  by unfold_locales (simp add: agent_merge_def)

interpretation rule_table: keyed_table rr_id rule_merge
  by unfold_locales (simp add: rule_merge_def)

interpretation user_table: keyed_table us_id user_merge
  by unfold_locales (simp add: user_merge_def)

interpretation catalog_table: keyed_table ce_key catalog_merge
  by unfold_locales (simp add: catalog_merge_def ce_key_def)

interpretation setting_table: keyed_table ss_key setting_merge
  by unfold_locales (simp add: setting_merge_def)

interpretation quota_create_table: keyed_table qc_key quota_keep
  by unfold_locales (simp add: quota_keep_def)

interpretation quota_table: keyed_table qc_key quota_merge
  by unfold_locales (simp add: quota_merge_def)

interpretation namespace_quota_table: keyed_table nq_key nq_merge
  by unfold_locales (simp add: nq_merge_def nq_key_def)

interpretation counter_table: keyed_table bc_key counter_merge
  by unfold_locales (simp add: counter_merge_def bc_key_def)

interpretation turn_table: keyed_table tu_root_correlation_id turn_merge
  by unfold_locales (simp add: turn_merge_def)

section \<open>The integrity invariant of the database\<close>

definition db_ok :: "'z db_scheme \<Rightarrow> bool" where
  "db_ok s \<longleftrightarrow> keys_ok ag_id (agents s) \<and> keys_ok se_token (sessions s) \<and> keys_ok rr_id (rules s)
     \<and> keys_ok us_id (users s) \<and> keys_ok gr_id (grants s) \<and> keys_ok qc_key (quota_counters s)
     \<and> keys_ok nq_key (namespace_quotas s) \<and> keys_ok mr_id (memory_records s)
     \<and> keys_ok fst (memory_embeddings s) \<and> keys_ok el_id (elevations s)
     \<and> keys_ok tu_root_correlation_id (turn_state s) \<and> keys_ok pr_id (pending_replay s)
     \<and> keys_ok bc_key (behavioral_counters s) \<and> keys_ok gp_id (db_groups s)
     \<and> keys_ok ce_key (catalog_entries s) \<and> keys_ok ss_key (server_settings s)"

lemmas upsert_keys_ok =
  agent_table.keys_ok_upsert rule_table.keys_ok_upsert user_table.keys_ok_upsert
  catalog_table.keys_ok_upsert setting_table.keys_ok_upsert quota_create_table.keys_ok_upsert
  quota_table.keys_ok_upsert namespace_quota_table.keys_ok_upsert counter_table.keys_ok_upsert
  turn_table.keys_ok_upsert

lemmas db_writes =
  upsert_agent_def create_session_def upsert_rule_def delete_rule_def upsert_user_def
  upsert_group_def delete_group_def upsert_catalog_entry_def delete_catalog_entry_def
  upsert_setting_def create_grant_def revoke_grant_def get_or_create_quota_counter_def
  upsert_quota_counter_def increment_quota_counter_def upsert_namespace_quota_def
  insert_record_embedding_def delete_record_embedding_def insert_memory_row_def
  set_embedding_ref_def create_elevation_def update_elevation_status_def
  expire_pending_elevations_def enqueue_pending_replay_def mark_pending_replay_delivered_def
  increment_behavioral_counter_def purge_behavioral_counters_def upsert_turn_state_def
  update_turn_state_activity_def delete_turn_state_def purge_expired_turn_states_def

text \<open>Every statement keeps the primary keys unique.\<close>

lemmas db_ok_simps = preserves_def db_ok_def upsert_keys_ok keys_ok_delete keys_ok_update table_simps Let_def

lemma upsert_agent_ok [pres_intro]: "preserves db_ok (upsert_agent e a h m)"
  by (auto simp: upsert_agent_def db_ok_simps split: sum.splits)

lemma create_session_ok [pres_intro]: "preserves db_ok (create_session e a v x)"
  by (auto simp: create_session_def db_ok_simps split: sum.splits)

lemma upsert_rule_ok [pres_intro]: "preserves db_ok (upsert_rule e i p r)"
  by (auto simp: upsert_rule_def db_ok_simps split: sum.splits)

lemma delete_rule_ok [pres_intro]: "preserves db_ok (delete_rule i)"
  by (auto simp: delete_rule_def db_ok_simps split: sum.splits)

lemma upsert_user_ok [pres_intro]: "preserves db_ok (upsert_user u r p)"
  by (auto simp: upsert_user_def db_ok_simps split: sum.splits)

lemma delete_group_ok [pres_intro]: "preserves db_ok (delete_group g)"
  by (auto simp: delete_group_def db_ok_simps split: sum.splits)

lemma upsert_catalog_entry_ok [pres_intro]: "preserves db_ok (upsert_catalog_entry e k i x)"
  by (auto simp: upsert_catalog_entry_def db_ok_simps split: sum.splits)

lemma delete_catalog_entry_ok [pres_intro]: "preserves db_ok (delete_catalog_entry k i)"
  by (auto simp: delete_catalog_entry_def db_ok_simps split: sum.splits)

lemma upsert_setting_ok [pres_intro]: "preserves db_ok (upsert_setting e k v s r)"
  by (auto simp: upsert_setting_def db_ok_simps split: sum.splits)

lemma create_grant_ok [pres_intro]: "preserves db_ok (create_grant e su ta n ps c x g st)"
  by (auto simp: create_grant_def db_ok_simps split: sum.splits)

lemma revoke_grant_ok [pres_intro]: "preserves db_ok (revoke_grant g)"
  by (auto simp: revoke_grant_def db_ok_simps split: sum.splits)

lemma upsert_quota_counter_ok [pres_intro]: "preserves db_ok (upsert_quota_counter e k l u w)"
  by (auto simp: upsert_quota_counter_def db_ok_simps split: sum.splits)

lemma increment_quota_counter_ok [pres_intro]: "preserves db_ok (increment_quota_counter e k d)"
  by (auto simp: increment_quota_counter_def db_ok_simps split: sum.splits)

lemma insert_record_embedding_ok [pres_intro]: "preserves db_ok (insert_record_embedding r v)"
  by (auto simp: insert_record_embedding_def db_ok_simps split: sum.splits)

lemma delete_record_embedding_ok [pres_intro]: "preserves db_ok (delete_record_embedding r)"
  by (auto simp: delete_record_embedding_def db_ok_simps split: sum.splits)

lemma insert_memory_row_ok [pres_intro]: "preserves db_ok (insert_memory_row r)"
  by (auto simp: insert_memory_row_def db_ok_simps split: sum.splits)

lemma set_embedding_ref_ok [pres_intro]: "preserves db_ok (set_embedding_ref r)"
  by (auto simp: set_embedding_ref_def db_ok_simps split: sum.splits)

lemma create_elevation_ok [pres_intro]: "preserves db_ok (create_elevation e m c x st)"
  by (auto simp: create_elevation_def db_ok_simps split: sum.splits)

lemma update_elevation_status_ok [pres_intro]: "preserves db_ok (update_elevation_status e i st)"
  by (auto simp: update_elevation_status_def db_ok_simps split: sum.splits)

lemma expire_pending_elevations_ok [pres_intro]: "preserves db_ok (expire_pending_elevations t)"
  by (auto simp: expire_pending_elevations_def db_ok_simps split: sum.splits)

lemma enqueue_pending_replay_ok [pres_intro]: "preserves db_ok (enqueue_pending_replay e a v el g m st)"
  by (auto simp: enqueue_pending_replay_def db_ok_simps split: sum.splits)

lemma mark_pending_replay_delivered_ok [pres_intro]: "preserves db_ok (mark_pending_replay_delivered r t)"
  by (auto simp: mark_pending_replay_delivered_def db_ok_simps split: sum.splits)

lemma increment_behavioral_counter_ok [pres_intro]: "preserves db_ok (increment_behavioral_counter e a sg w d)"
  by (auto simp: increment_behavioral_counter_def db_ok_simps split: sum.splits)

lemma purge_behavioral_counters_ok [pres_intro]: "preserves db_ok (purge_behavioral_counters b)"
  by (auto simp: purge_behavioral_counters_def db_ok_simps split: sum.splits)

lemma upsert_turn_state_ok [pres_intro]: "preserves db_ok (upsert_turn_state r a u st la d)"
  by (auto simp: upsert_turn_state_def db_ok_simps split: sum.splits)

lemma update_turn_state_activity_ok [pres_intro]: "preserves db_ok (update_turn_state_activity r la d)"
  by (auto simp: update_turn_state_activity_def db_ok_simps split: sum.splits)

lemma delete_turn_state_ok [pres_intro]: "preserves db_ok (delete_turn_state r)"
  by (auto simp: delete_turn_state_def db_ok_simps split: sum.splits)

lemma purge_expired_turn_states_ok [pres_intro]: "preserves db_ok (purge_expired_turn_states c)"
  by (auto simp: purge_expired_turn_states_def db_ok_simps split: sum.splits)

lemma get_or_create_quota_counter_ok [pres_intro]: "preserves db_ok (get_or_create_quota_counter e k l w)"
  by (auto simp: get_or_create_quota_counter_def db_ok_simps split: option.splits)

lemma upsert_namespace_quota_ok [pres_intro]: "preserves db_ok (upsert_namespace_quota e a n mr mb t)"
  by (auto simp: upsert_namespace_quota_def db_ok_simps split: option.splits)

lemma upsert_group_ok [pres_intro]: "preserves db_ok (upsert_group e g p i rs ms)"
proof (rule preservesI)
  fix s :: "'z db_scheme"
  assume ok: "db_ok s"
  show "db_ok (snd (upsert_group e g p i rs ms s))"
  proof (cases "get_group g s")
    case None
    then have "\<not> has_row gp_id g (db_groups s)"
      by (simp add: get_group_def table_simps)
    with ok None show ?thesis
      by (auto simp: upsert_group_def db_ok_def Let_def keys_ok_snoc split: option.splits)
  next
    case (Some r)
    with ok show ?thesis
      by (auto simp: upsert_group_def db_ok_def Let_def keys_ok_update split: option.splits)
  qed
qed

lemma soft_delete_memory_record_ok [pres_intro]: "preserves db_ok (soft_delete_memory_record e r a n)"
  by (auto simp: soft_delete_memory_record_def delete_record_embedding_def db_ok_simps)

lemma create_memory_record_ok [pres_intro]: "preserves db_ok (create_memory_record e a n k c m r x)"
  unfolding create_memory_record_def by (intro pres_intro)

lemma deactivate_user_ok [pres_intro]: "preserves db_ok (deactivate_user u)"
  unfolding deactivate_user_def by (intro pres_intro)

lemma patch_user_ok [pres_intro]: "preserves db_ok (patch_user u d)"
  unfolding patch_user_def by (intro pres_intro)

end
