(* ===== verification/Fnmatch.thy ===== *)
theory Fnmatch
  imports Corvus_Prelude
begin

text \<open>
  Python's \<^verbatim>\<open>fnmatch.fnmatch\<close> on POSIX, which the rule store applies to patterns: \<^verbatim>\<open>*\<close> matches any
  text, \<^verbatim>\<open>?\<close> one character, \<^verbatim>\<open>[seq]\<close> and \<^verbatim>\<open>[!seq]\<close> one character in or out of the class; every
  other character, and a bracket that is never closed, stands for itself.
\<close>

datatype glob = GStar | GAny | GClass bool string | GLit char

text \<open>The class text: \<^verbatim>\<open>a-b\<close> is a range, any other character itself.\<close>

fun in_class :: "string \<Rightarrow> char \<Rightarrow> bool" where
  "in_class (a # d # b # rest) c =
     (if d = CHR ''-'' then (a \<le> c \<and> c \<le> b) \<or> in_class rest c
      else a = c \<or> in_class (d # b # rest) c)"
| "in_class (a # rest) c = (a = c \<or> in_class rest c)"
| "in_class [] c = False"

text \<open>The text of a class that starts after an opening bracket and the pattern after its closing
  one; \<open>None\<close> when it is not closed.  A bracket right at the start, or right after the
  exclamation mark, is a member and does not close the class.\<close>

definition class_split :: "string \<Rightarrow> (string \<times> string) option" where
  "class_split p =
     (let neg = (if take 1 p = ''!'' then ''!'' else []);
          p1 = drop (length neg) p;
          fst_br = (if take 1 p1 = '']'' then '']'' else []);
          p2 = drop (length fst_br) p1;
          body = takeWhile (\<lambda>c. c \<noteq> CHR '']'') p2;
          rest = dropWhile (\<lambda>c. c \<noteq> CHR '']'') p2
      in if rest = [] then None else Some (neg @ fst_br @ body, drop 1 rest))"

lemma class_split_length: "class_split p = Some (body, rest) \<Longrightarrow> length rest < Suc (length p)"
proof -
  assume "class_split p = Some (body, rest)"
  then obtain p2 where r: "rest = drop 1 (dropWhile (\<lambda>c. c \<noteq> CHR '']'') p2)" and p2: "length p2 \<le> length p"
    by (auto simp: class_split_def Let_def split: if_splits)
  have "length (dropWhile (\<lambda>c. c \<noteq> CHR '']'') p2) \<le> length p2"
    by (rule length_dropWhile_le)
  with r p2 show ?thesis by simp
qed

function globs :: "string \<Rightarrow> glob list" where
  "globs [] = []"
| "globs (c # p) =
     (if c = CHR ''*'' then GStar # globs p
      else if c = CHR ''?'' then GAny # globs p
      else if c = CHR ''['' then
        (case class_split p of
           None \<Rightarrow> GLit c # globs p
         | Some (body, rest) \<Rightarrow>
             (if take 1 body = ''!'' then GClass True (drop 1 body) else GClass False body) # globs rest)
      else GLit c # globs p)"
  by pat_completeness auto
termination
  by (relation "measure length") (auto dest: class_split_length)

fun glob_match :: "glob list \<Rightarrow> string \<Rightarrow> bool" where
  "glob_match [] s = (s = [])"
| "glob_match (GStar # gs) [] = glob_match gs []"
| "glob_match (GStar # gs) (c # s) = (glob_match gs (c # s) \<or> glob_match (GStar # gs) s)"
| "glob_match (GAny # gs) [] = False"
| "glob_match (GAny # gs) (c # s) = glob_match gs s"
| "glob_match (GClass neg body # gs) [] = False"
| "glob_match (GClass neg body # gs) (c # s) = ((in_class body c \<noteq> neg) \<and> glob_match gs s)"
| "glob_match (GLit d # gs) [] = False"
| "glob_match (GLit d # gs) (c # s) = (c = d \<and> glob_match gs s)"

definition fnmatch :: "string \<Rightarrow> string \<Rightarrow> bool" where
  "fnmatch s pat = glob_match (globs pat) s"

section \<open>The language of a pattern\<close>

text \<open>The declarative reading: a string matches when it splits into pieces, one per pattern item.\<close>

fun piece :: "glob \<Rightarrow> string \<Rightarrow> bool" where
  "piece GStar w = True"
| "piece GAny w = (length w = 1)"
| "piece (GClass neg body) w = (\<exists>c. w = [c] \<and> in_class body c \<noteq> neg)"
| "piece (GLit d) w = (w = [d])"

definition in_language :: "glob list \<Rightarrow> string \<Rightarrow> bool" where
  "in_language gs s \<longleftrightarrow> (\<exists>ws. list_all2 piece gs ws \<and> concat ws = s)"

lemma in_language_Nil: "in_language [] s \<longleftrightarrow> s = []"
  by (auto simp: in_language_def)

lemma in_language_Cons: "in_language (g # gs) s \<longleftrightarrow> (\<exists>w s'. s = w @ s' \<and> piece g w \<and> in_language gs s')"
proof
  assume "in_language (g # gs) s"
  then obtain w ws where "piece g w" "list_all2 piece gs ws" "s = w @ concat ws"
    by (auto simp: in_language_def list_all2_Cons1)
  then show "\<exists>w s'. s = w @ s' \<and> piece g w \<and> in_language gs s'"
    by (auto simp: in_language_def)
next
  assume "\<exists>w s'. s = w @ s' \<and> piece g w \<and> in_language gs s'"
  then obtain w ws where "piece g w" "list_all2 piece gs ws" "s = w @ concat ws"
    by (auto simp: in_language_def)
  then show "in_language (g # gs) s"
    by (auto simp: in_language_def intro!: exI [of _ "w # ws"])
qed

lemma in_language_one:
  assumes "\<And>w. piece g w \<longleftrightarrow> (\<exists>c. w = [c] \<and> Q c)"
  shows "in_language (g # gs) [] \<longleftrightarrow> False"
    and "in_language (g # gs) (c # s) \<longleftrightarrow> Q c \<and> in_language gs s"
proof -
  show "in_language (g # gs) [] \<longleftrightarrow> False"
    by (simp add: in_language_Cons assms)
  have "in_language (g # gs) (c # s)" if "Q c" "in_language gs s"
    unfolding in_language_Cons assms using that by (intro exI [of _ "[c]"] exI [of _ s]) simp
  moreover have "Q c \<and> in_language gs s" if "in_language (g # gs) (c # s)"
    using that by (auto simp: in_language_Cons assms)
  ultimately show "in_language (g # gs) (c # s) \<longleftrightarrow> Q c \<and> in_language gs s" by blast
qed

lemma in_language_star:
  "in_language (GStar # gs) [] \<longleftrightarrow> in_language gs []"
  "in_language (GStar # gs) (c # s) \<longleftrightarrow> in_language gs (c # s) \<or> in_language (GStar # gs) s"
  by (auto simp: in_language_Cons Cons_eq_append_conv)

lemma piece_one:
  "piece GAny w \<longleftrightarrow> (\<exists>c. w = [c] \<and> True)"
  "piece (GClass neg body) w \<longleftrightarrow> (\<exists>c. w = [c] \<and> in_class body c \<noteq> neg)"
  "piece (GLit d) w \<longleftrightarrow> (\<exists>c. w = [c] \<and> c = d)"
  by (auto simp: length_Suc_conv)

lemmas in_language_simps = in_language_Nil in_language_star
  in_language_one [OF piece_one(1)] in_language_one [OF piece_one(2)] in_language_one [OF piece_one(3)]

lemma glob_match_iff_language: "glob_match gs s \<longleftrightarrow> in_language gs s"
  by (induction gs s rule: glob_match.induct) (simp_all only: glob_match.simps in_language_simps simp_thms)

text \<open>A pattern without the special characters matches itself only.\<close>

lemma globs_literal: "\<forall>c \<in> set p. c \<notin> {CHR ''*'', CHR ''?'', CHR ''[''} \<Longrightarrow> globs p = map GLit p"
  by (induction p) auto

lemma glob_match_literal: "glob_match (map GLit p) s \<longleftrightarrow> s = p"
proof (induction p arbitrary: s)
  case (Cons c p)
  then show ?case by (cases s) auto
qed simp

lemma fnmatch_literal:
  "\<forall>c \<in> set p. c \<notin> {CHR ''*'', CHR ''?'', CHR ''[''} \<Longrightarrow> fnmatch s p \<longleftrightarrow> s = p"
  by (simp add: fnmatch_def globs_literal glob_match_literal)

lemma fnmatch_star: "fnmatch s ''*''"
proof -
  have "glob_match [GStar] s" by (induction s) simp_all
  then show ?thesis by (simp add: fnmatch_def)
qed

text \<open>A literal followed by a star matches exactly the strings with that prefix.\<close>

lemma glob_match_literal_star: "glob_match (map GLit p @ [GStar]) s \<longleftrightarrow> prefix p s"
proof (induction p arbitrary: s)
  case Nil
  have "glob_match [GStar] s" by (induction s) simp_all
  then show ?case by simp
next
  case (Cons c p)
  then show ?case by (cases s) auto
qed

lemma globs_append_star:
  "\<forall>c \<in> set p. c \<notin> {CHR ''*'', CHR ''?'', CHR ''[''} \<Longrightarrow> globs (p @ ''*'') = map GLit p @ [GStar]"
  by (induction p) auto

lemma fnmatch_prefix_star:
  "\<forall>c \<in> set p. c \<notin> {CHR ''*'', CHR ''?'', CHR ''[''} \<Longrightarrow> fnmatch s (p @ ''*'') \<longleftrightarrow> prefix p s"
  by (simp add: fnmatch_def globs_append_star glob_match_literal_star)

end
