(* ===== verification/Rules.thy ===== *)
theory Rules
  imports Database Fnmatch
begin

text \<open>
  The facts of \<^verbatim>\<open>policy/facts.py\<close> a decision rests on, and the declarative rule store of
  \<^verbatim>\<open>policy/rules.py\<close>: loading, matching of subject, object and action, evaluation of the
  conditions with the reason a failing one gives, and the ordered list of matches.
\<close>

section \<open>Facts\<close>

record policy_facts =
  pf_user_id :: "string option"
  pf_role :: string
  pf_agent_id :: string
  pf_engine :: string
  pf_message_type :: string
  pf_correlation_chain_valid :: bool
  pf_triggered_by :: string
  pf_scope :: string
  pf_has_valid_grant :: bool
  pf_grant_id :: json
  pf_grant_reason :: "string option"
  pf_provider :: "string option"
  pf_model :: "string option"
  pf_groups :: "string list"
  pf_privileges :: "string list"
  pf_allowed_agents :: "string list"
  pf_target_agent_id :: "string option"
  pf_identity_channel :: string
  pf_identity_alias :: "string option"
  pf_identity_verified :: bool
  pf_auth_method :: string
  pf_identity_reason :: string
  pf_quota_key :: "string option"
  pf_quota_remaining_after :: "int option"
  pf_quota_would_exceed :: bool
  pf_quota_would_consume_tokens :: "int option"
  pf_tool_name :: "string option"
  pf_command :: "string option"
  pf_tool_risk_level :: string
  pf_dangerous_action :: bool
  pf_behavioral_signals :: "(string \<times> signal) list"
  pf_tool_execution_mode :: string
  pf_provider_tools_requested :: bool

record rule_match =
  rm_rule_id :: string
  rm_priority :: int
  rm_effect :: effect
  rm_else_effect :: bool  \<comment> \<open>whether the else effect is \<^verbatim>\<open>elevate\<close>\<close>
  rm_conditions_passed :: bool
  rm_reason :: string
  rm_metadata :: obj

section \<open>Matching\<close>

definition match_item :: "string \<Rightarrow> string \<Rightarrow> bool" where
  "match_item pat val =
     (if pat = ''*'' then True
      else if CHR ''*'' \<in> set pat \<or> CHR ''?'' \<in> set pat then fnmatch val pat
      else pat = val)"

fun match_pattern :: "pattern \<Rightarrow> string \<Rightarrow> bool" where
  "match_pattern (PStr p) val = match_item p val"
| "match_pattern (PList ps) val = list_ex (\<lambda>p. match_item p val) ps"

definition match_any :: "pattern \<Rightarrow> string list \<Rightarrow> bool" where
  "match_any pat vals = list_ex (match_pattern pat) vals"

text \<open>\<^verbatim>\<open>x is not None and not match(x)\<close> makes the caller return \<^verbatim>\<open>False\<close>.\<close>

definition opt_match :: "('p \<Rightarrow> bool) \<Rightarrow> 'p option \<Rightarrow> bool" where
  "opt_match f p = (case p of None \<Rightarrow> True | Some x \<Rightarrow> f x)"

definition opt_str :: "string option \<Rightarrow> string" where
  "opt_str x = (case x of None \<Rightarrow> [] | Some v \<Rightarrow> v)"

definition subject_matches :: "rule_subject \<Rightarrow> policy_facts \<Rightarrow> bool" where
  "subject_matches sub f =
     (if \<not> opt_match (\<lambda>p. match_pattern p (pf_role f)) (sub_role sub) then False
      else if \<not> opt_match (\<lambda>p. match_pattern p (pf_agent_id f)) (sub_agent_id sub) then False
      else if \<not> opt_match (\<lambda>p. match_pattern p (opt_str (pf_user_id f))) (sub_user_id sub) then False
      else if \<not> opt_match (\<lambda>p. match_any p (pf_groups f)) (sub_groups sub) then False
      else if \<not> opt_match (\<lambda>p. match_pattern p (pf_identity_channel f)) (sub_identity_channel sub) then False
      else if \<not> opt_match (\<lambda>p. match_pattern p (pf_auth_method f)) (sub_auth_method sub) then False
      else True)"

definition object_matches :: "rule_object \<Rightarrow> policy_facts \<Rightarrow> bool" where
  "object_matches ob f =
     (if \<not> opt_match (\<lambda>p. match_pattern p (pf_agent_id f)) (ob_agent_id ob) then False
      else if \<not> opt_match (\<lambda>p. match_pattern p (pf_engine f)) (ob_engine ob) then False
      else if \<not> opt_match (\<lambda>p. match_pattern p (opt_str (pf_target_agent_id f))) (ob_target_agent ob) then False
      else True)"

fun action_matches :: "pattern option \<Rightarrow> policy_facts \<Rightarrow> bool" where
  "action_matches None f = True"
| "action_matches (Some (PStr p)) f = fnmatch (pf_message_type f) p"
| "action_matches (Some (PList ps)) f = list_ex (\<lambda>p. fnmatch (pf_message_type f) p) ps"

section \<open>Signals\<close>

text \<open>Python's numeric tower: booleans and integers compare with floats by value.\<close>

fun signal_num :: "signal \<Rightarrow> real option" where
  "signal_num (SBool b) = Some (if b then 1 else 0)"
| "signal_num (SInt i) = Some (of_int i)"
| "signal_num (SFloat r) = Some r"
| "signal_num (SOther (JFloat r t)) = Some r"
| "signal_num _ = None"

definition signal_eq :: "signal \<Rightarrow> signal \<Rightarrow> bool" where
  "signal_eq a b =
     (case (signal_num a, signal_num b) of
        (Some x, Some y) \<Rightarrow> x = y
      | (None, None) \<Rightarrow> a = b
      | _ \<Rightarrow> False)"

text \<open>\<^verbatim>\<open>float(actual)\<close> of a value that is neither a number nor \<^verbatim>\<open>None\<close>: a string that is not a
  number raises \<^verbatim>\<open>ValueError\<close>, a list or dictionary \<^verbatim>\<open>TypeError\<close>; a decimal literal is
  read as its value.\<close>

fun signal_float :: "signal \<Rightarrow> real res" where
  "signal_float (SOther (JStr s)) = (case parse_float s of None \<Rightarrow> Inl ValueError | Some r \<Rightarrow> Inr r)"
| "signal_float v = (case signal_num v of None \<Rightarrow> Inl TypeError | Some r \<Rightarrow> Inr r)"

definition compare_signal :: "signal \<Rightarrow> signal_condition \<Rightarrow> bool res" where
  "compare_signal actual expected =
     (case expected of
        SigValue v \<Rightarrow> Inr (signal_eq actual v)
      | SigCompare c \<Rightarrow>
          if (case cmp_eq c of None \<Rightarrow> False | Some v \<Rightarrow> \<not> signal_eq actual v) then Inr False
          else if actual = SNone then Inr False
          else bindE (signal_float actual) (\<lambda>x. Inr (
            opt_match (\<lambda>g. x > g) (cmp_gt c) \<and> opt_match (\<lambda>g. x \<ge> g) (cmp_gte c)
            \<and> opt_match (\<lambda>l. x < l) (cmp_lt c) \<and> opt_match (\<lambda>l. x \<le> l) (cmp_lte c))))"

section \<open>Conditions\<close>

fun pattern_truthy :: "pattern option \<Rightarrow> bool" where
  "pattern_truthy None = False"
| "pattern_truthy (Some (PStr s)) = (s \<noteq> [])"
| "pattern_truthy (Some (PList ps)) = (ps \<noteq> [])"

text \<open>\<^verbatim>\<open>if xs and not self._match_pattern(xs, v)\<close>\<close>

definition pattern_fails :: "pattern option \<Rightarrow> string \<Rightarrow> bool" where
  "pattern_fails p v \<longleftrightarrow> pattern_truthy p \<and> \<not> opt_match (\<lambda>q. match_pattern q v) p"

definition bool_fails :: "bool option \<Rightarrow> bool \<Rightarrow> bool" where
  "bool_fails expected actual \<longleftrightarrow> (case expected of None \<Rightarrow> False | Some b \<Rightarrow> actual \<noteq> b)"

text \<open>The dictionary of a condition is empty when every field is absent.\<close>

definition no_conditions :: "rule_condition \<Rightarrow> bool" where
  "no_conditions c \<longleftrightarrow> cd_correlation_chain_valid c = None \<and> cd_triggered_by c = None \<and> cd_scope c = None
     \<and> cd_has_valid_grant c = None \<and> cd_provider c = None \<and> cd_model c = None
     \<and> cd_identity_verified c = None \<and> cd_dangerous_action c = None \<and> cd_tool_name c = None
     \<and> cd_tool_risk_level c = None \<and> cd_tool_execution_mode c = None
     \<and> cd_provider_tools_requested c = None \<and> cd_daily_token_limit c = None
     \<and> cd_rate_limit_rpm c = None \<and> cd_message_rate_anomaly c = None
     \<and> cd_repeated_grant_denials c = None \<and> cd_cross_agent_scope_spike c = None
     \<and> cd_tool_pattern_deviation c = None"

definition signal_of :: "string \<Rightarrow> policy_facts \<Rightarrow> signal" where
  "signal_of k f = (case map_of (pf_behavioral_signals f) k of None \<Rightarrow> SNone | Some v \<Rightarrow> v)"

definition signal_keys :: "rule_condition \<Rightarrow> (string \<times> signal_condition option) list" where
  "signal_keys c = [(''message_rate_anomaly'', cd_message_rate_anomaly c),
     (''repeated_grant_denials'', cd_repeated_grant_denials c),
     (''cross_agent_scope_spike'', cd_cross_agent_scope_spike c),
     (''tool_pattern_deviation'', cd_tool_pattern_deviation c)]"

fun signals_match :: "(string \<times> signal_condition option) list \<Rightarrow> policy_facts \<Rightarrow> (bool \<times> string) res" where
  "signals_match [] f = Inr (True, ''All conditions passed'')"
| "signals_match ((k, None) # ks) f = signals_match ks f"
| "signals_match ((k, Some ex) # ks) f =
     bindE (compare_signal (signal_of k f) ex) (\<lambda>ok.
       if \<not> ok then Inr (False, k @ '' mismatch'') else signals_match ks f)"

definition conditions_match :: "rule_condition \<Rightarrow> policy_facts \<Rightarrow> (bool \<times> string) res" where
  "conditions_match c f =
     (if no_conditions c then Inr (True, ''No conditions'')
      else if bool_fails (cd_correlation_chain_valid c) (pf_correlation_chain_valid f)
        then Inr (False, ''correlation_chain_valid mismatch'')
      else if opt_truthy (cd_triggered_by c) \<and> Some (pf_triggered_by f) \<noteq> cd_triggered_by c
        then Inr (False, ''triggered_by mismatch'')
      else if pattern_fails (cd_scope c) (pf_scope f) then Inr (False, ''scope mismatch'')
      else if cd_has_valid_grant c = Some True \<and> \<not> pf_has_valid_grant f
        then Inr (False, ''grant required but not valid'')
      else if bool_fails (cd_identity_verified c) (pf_identity_verified f)
        then Inr (False, ''identity verification mismatch'')
      else if bool_fails (cd_dangerous_action c) (pf_dangerous_action f)
        then Inr (False, ''dangerous_action mismatch'')
      else if pattern_fails (cd_tool_name c) (opt_str (pf_tool_name f)) then Inr (False, ''tool_name mismatch'')
      else if pattern_fails (cd_tool_risk_level c) (pf_tool_risk_level f)
        then Inr (False, ''tool_risk_level mismatch'')
      else if cd_daily_token_limit c \<noteq> None \<and> pf_quota_would_exceed f then Inr (False, ''quota would exceed'')
      else if cd_rate_limit_rpm c \<noteq> None \<and> pf_quota_would_exceed f then Inr (False, ''quota would exceed'')
      else if pattern_fails (cd_provider c) (opt_str (pf_provider f)) then Inr (False, ''provider not allowed'')
      else if pattern_fails (cd_model c) (opt_str (pf_model f)) then Inr (False, ''model not allowed'')
      else if pattern_fails (cd_tool_execution_mode c) (pf_tool_execution_mode f)
        then Inr (False, ''tool_execution_mode mismatch'')
      else if bool_fails (cd_provider_tools_requested c) (pf_provider_tools_requested f)
        then Inr (False, ''provider_tools_requested mismatch'')
      else signals_match (signal_keys c) f)"

section \<open>Evaluation\<close>

definition match_metadata :: "policy_facts \<Rightarrow> obj" where
  "match_metadata f =
     [(''grant_id'', pf_grant_id f),
      (''target_agent_id'', jopt (pf_target_agent_id f)),
      (''quota_key'', jopt (pf_quota_key f)),
      (''identity_channel'', JStr (pf_identity_channel f)),
      (''auth_method'', JStr (pf_auth_method f)),
      (''dangerous_action'', JBool (pf_dangerous_action f)),
      (''tool_name'', jopt (pf_tool_name f)),
      (''tool_risk_level'', JStr (pf_tool_risk_level f))]"

definition rule_applies :: "policy_rule \<Rightarrow> policy_facts \<Rightarrow> bool" where
  "rule_applies r f \<longleftrightarrow> subject_matches (ru_subject r) f \<and> object_matches (ru_object r) f
     \<and> action_matches (ac_type (ru_action r)) f"

definition mk_match :: "policy_rule \<Rightarrow> bool \<Rightarrow> string \<Rightarrow> policy_facts \<Rightarrow> rule_match" where
  "mk_match r passed reason f =
     \<lparr>rm_rule_id = ru_id r, rm_priority = ru_priority r, rm_effect = ru_effect r,
      rm_else_effect = ru_else r, rm_conditions_passed = passed, rm_reason = reason,
      rm_metadata = match_metadata f\<rparr>"

fun evaluate_rules :: "policy_rule list \<Rightarrow> policy_facts \<Rightarrow> rule_match list res" where
  "evaluate_rules [] f = Inr []"
| "evaluate_rules (r # rs) f =
     (if \<not> rule_applies r f then evaluate_rules rs f
      else bindE (conditions_match (ru_condition r) f) (\<lambda>(passed, reason).
           bindE (evaluate_rules rs f) (\<lambda>ms.
             Inr (mk_match r passed reason f # ms))))"

text \<open>\<^verbatim>\<open>sorted(rules, key=priority, reverse=True)\<close> keeps rules of equal priority in order.\<close>

definition rules_evaluate :: "policy_rule list \<Rightarrow> policy_facts \<Rightarrow> rule_match list res" where
  "rules_evaluate rs f = evaluate_rules (order_by_desc ru_priority rs) f"

section \<open>The store\<close>

text \<open>The rule store keeps a copy of the table; the record extends the database with it.\<close>

record rule_store = db +
  cached_rules :: "policy_rule list"

definition rules_reload :: "('z rule_store_scheme, unit) act" where
  "rules_reload = modS (\<lambda>s. s\<lparr>cached_rules := list_rules s\<rparr>)"

text \<open>\<^verbatim>\<open>validate_rule\<close> turns a validation error into a \<^verbatim>\<open>ValueError\<close>.\<close>

definition validate_rule :: "policy_rule \<Rightarrow> policy_rule res" where
  "validate_rule r = (case normalize_rule r of Inl x \<Rightarrow> Inl ValueError | Inr r' \<Rightarrow> Inr r')"

definition add_rule :: "env \<Rightarrow> policy_rule \<Rightarrow> ('z rule_store_scheme, unit) act" where
  "add_rule e r = bindA (liftR (validate_rule r)) (\<lambda>r'.
     thenA (upsert_rule e (ru_id r') (ru_priority r') r') rules_reload)"

text \<open>The rules of a file are upserted one by one; a rule that does not validate stops the load
  and the rows written before it stay.\<close>

definition load_rules :: "env \<Rightarrow> policy_rule list \<Rightarrow> ('z rule_store_scheme, unit) act" where
  "load_rules e rs = thenA
     (forA rs (\<lambda>r. bindA (liftR (validate_rule r)) (\<lambda>r'. upsert_rule e (ru_id r') (ru_priority r') r')))
     rules_reload"

definition remove_rule :: "string \<Rightarrow> ('z rule_store_scheme, bool) act" where
  "remove_rule rule_id = bindA (delete_rule rule_id) (\<lambda>deleted. thenA rules_reload (ret deleted))"

section \<open>Facts about matching and the store\<close>

lemma mk_match_sel [simp]:
  "rm_rule_id (mk_match r p x f) = ru_id r" "rm_priority (mk_match r p x f) = ru_priority r"
  "rm_effect (mk_match r p x f) = ru_effect r" "rm_else_effect (mk_match r p x f) = ru_else r"
  "rm_conditions_passed (mk_match r p x f) = p" "rm_reason (mk_match r p x f) = x"
  "rm_metadata (mk_match r p x f) = match_metadata f"
  by (simp_all add: mk_match_def)

text \<open>The matches are exactly the applicable rules, each with the outcome of its conditions.\<close>

lemma evaluate_rules_set:
  assumes "evaluate_rules rs f = Inr ms"
  shows "set ms = {mk_match r p x f | r p x. r \<in> set rs \<and> rule_applies r f
            \<and> conditions_match (ru_condition r) f = Inr (p, x)}"
  using assms
proof (induction rs arbitrary: ms)
  case (Cons r rs)
  show ?case
  proof (cases "rule_applies r f")
    case False
    with Cons show ?thesis by auto
  next
    case True
    with Cons.prems obtain p x ms' where
      c: "conditions_match (ru_condition r) f = Inr (p, x)" "evaluate_rules rs f = Inr ms'"
      and ms: "ms = mk_match r p x f # ms'"
      by (auto split: prod.splits)
    from Cons.IH [OF c(2)] True c(1) show ?thesis unfolding ms by auto
  qed
qed simp

lemma rules_evaluate_set:
  assumes "rules_evaluate rs f = Inr ms"
  shows "set ms = {mk_match r p x f | r p x. r \<in> set rs \<and> rule_applies r f
            \<and> conditions_match (ru_condition r) f = Inr (p, x)}"
  using evaluate_rules_set [OF assms [unfolded rules_evaluate_def]] by simp

lemma evaluate_rules_total:
  "(\<And>r. r \<in> set rs \<Longrightarrow> rule_applies r f \<Longrightarrow> \<exists>y. conditions_match (ru_condition r) f = Inr y) \<Longrightarrow>
    \<exists>ms. evaluate_rules rs f = Inr ms"
proof (induction rs)
  case (Cons r rs)
  then obtain ms where ms: "evaluate_rules rs f = Inr ms" by auto
  show ?case
  proof (cases "rule_applies r f")
    case True
    with Cons.prems [of r] obtain y where "conditions_match (ru_condition r) f = Inr y" by auto
    with True ms show ?thesis by (cases y) simp
  qed (simp add: ms)
qed simp

lemma rules_reload_ok [pres_intro]: "preserves db_ok rules_reload"
  by (simp add: rules_reload_def preserves_def db_ok_def)

lemma add_rule_ok [pres_intro]: "preserves db_ok (add_rule e r)"
  unfolding add_rule_def by (intro pres_intro)

lemma load_rules_ok [pres_intro]: "preserves db_ok (load_rules e rs)"
  unfolding load_rules_def by (intro pres_intro)

lemma remove_rule_ok [pres_intro]: "preserves db_ok (remove_rule i)"
  unfolding remove_rule_def by (intro pres_intro)

text \<open>The cache agrees with the table after every operation of the store.\<close>

definition cache_ok :: "'z rule_store_scheme \<Rightarrow> bool" where
  "cache_ok s \<longleftrightarrow> cached_rules s = list_rules s"

lemma rules_reload_cache: "cache_ok (snd (rules_reload s))"
  by (simp add: rules_reload_def cache_ok_def list_rules_def)

end
