(* ===== verification/Combiner.thy ===== *)
theory Combiner
  imports Rules
begin

text \<open>
  The decision combiner of \<^verbatim>\<open>policy/combiner.py\<close>: matches are grouped by priority, the groups
  are tried from the highest priority down, and inside a group a passed deny beats a passed
  allow, which beats an elevation.  The declarative reading \<open>group_verdict\<close> and
  \<open>combine_verdict\<close> of that procedure is stated beside it and proved equal.
\<close>

section \<open>Decisions\<close>

record policy_decision =
  pd_decision :: effect
  pd_matched_rules :: "rule_match list"
  pd_explanation_trace :: "(string \<times> string) list"
  pd_effective_error_code :: "error_code option"
  pd_metadata :: obj
  pd_policy_facts :: "policy_facts option"

fun decision_value :: "effect \<Rightarrow> string" where
  "decision_value Allow = ''allow''"
| "decision_value Deny = ''deny''"
| "decision_value Elevate = ''elevate''"

section \<open>Grouping\<close>

text \<open>\<^verbatim>\<open>by_priority.setdefault(m.priority, []).append(m)\<close> on the dictionary in insertion order.\<close>

fun append_to :: "int \<Rightarrow> 'm \<Rightarrow> (int \<times> 'm list) list \<Rightarrow> (int \<times> 'm list) list" where
  "append_to p m [] = [(p, [m])]"
| "append_to p m ((q, g) # gs) = (if q = p then (q, g @ [m]) # gs else (q, g) # append_to p m gs)"

definition group_matches :: "rule_match list \<Rightarrow> (int \<times> rule_match list) list" where
  "group_matches ms = fold (\<lambda>m acc. append_to (rm_priority m) m acc) ms []"

text \<open>\<^verbatim>\<open>sorted(by_priority.keys(), reverse=True)\<close>, each key with its group.\<close>

definition priority_groups :: "rule_match list \<Rightarrow> (int \<times> rule_match list) list" where
  "priority_groups ms = order_by_desc fst (group_matches ms)"

section \<open>Combination\<close>

fun first_values :: "obj \<Rightarrow> obj \<Rightarrow> obj" where
  "first_values acc [] = acc"
| "first_values acc ((k, v) # d) =
     first_values (if v \<noteq> JNull \<and> \<not> ohas acc k then acc @ [(k, v)] else acc) d"

definition mentions_quota :: "rule_match \<Rightarrow> bool" where
  "mentions_quota m \<longleftrightarrow> sublist ''quota'' (rm_reason m)"

definition combine_metadata :: "rule_match list \<Rightarrow> obj" where
  "combine_metadata ms =
     (let metadata = fold (\<lambda>m acc. first_values acc (rm_metadata m)) ms []
      in if list_ex mentions_quota ms then oset ''quota_failed'' (JBool True) metadata else metadata)"

definition passed :: "effect \<Rightarrow> rule_match \<Rightarrow> bool" where
  "passed ef m \<longleftrightarrow> rm_effect m = ef \<and> rm_conditions_passed m"

definition else_elevates :: "rule_match \<Rightarrow> bool" where
  "else_elevates m \<longleftrightarrow> rm_else_effect m \<and> \<not> rm_conditions_passed m"

definition mk_decision ::
  "effect \<Rightarrow> rule_match list \<Rightarrow> (string \<times> string) list \<Rightarrow> error_code option \<Rightarrow> obj \<Rightarrow> policy_decision" where
  "mk_decision d ms tr code md =
     \<lparr>pd_decision = d, pd_matched_rules = ms, pd_explanation_trace = tr,
      pd_effective_error_code = code, pd_metadata = md, pd_policy_facts = None\<rparr>"

definition priority_text :: "int \<Rightarrow> string" where
  "priority_text p = ''priority='' @ int_str p"

fun combine_groups ::
  "(int \<times> rule_match list) list \<Rightarrow> rule_match list \<Rightarrow> (string \<times> string) list \<Rightarrow> policy_decision" where
  "combine_groups [] matches trace =
     mk_decision Deny matches (trace @ [(''default_deny'', ''No decisive rule'')])
       (Some SERVER_RBAC_DENIED) (combine_metadata matches)"
| "combine_groups ((p, grp) # gs) matches trace =
     (let trace = trace @ [(''evaluate_priority'', priority_text p)];
          denies = filter (passed Deny) grp;
          allows = filter (passed Allow) grp;
          elevates = filter else_elevates grp;
          hard_elevates = filter (passed Elevate) grp
      in if denies \<noteq> [] then
           mk_decision Deny grp
             (trace @ [(''deny_wins'', rm_rule_id (hd denies))]
              @ (if list_ex (passed Allow) grp then [(''rule_conflict'', priority_text p)] else []))
             (Some SERVER_RBAC_DENIED) (combine_metadata grp)
         else if allows \<noteq> [] then
           mk_decision Allow grp (trace @ [(''allow'', rm_rule_id (hd allows))]) None (combine_metadata grp)
         else if elevates \<noteq> [] then
           mk_decision Elevate grp (trace @ [(''elevate'', rm_rule_id (hd elevates))])
             (Some SERVER_ELEVATION_REQUIRED) (combine_metadata grp)
         else if hard_elevates \<noteq> [] then
           mk_decision Elevate grp (trace @ [(''elevate'', rm_rule_id (hd hard_elevates))])
             (Some SERVER_ELEVATION_REQUIRED) (combine_metadata grp)
         else combine_groups gs matches trace)"

definition combine :: "rule_match list \<Rightarrow> policy_decision" where
  "combine matches =
     (if matches = [] then
        mk_decision Deny [] [(''default_deny'', ''No matching rules'')] (Some SERVER_RBAC_DENIED) []
      else combine_groups (priority_groups matches) matches [])"

section \<open>Groups are the matches of one priority, in order\<close>

lemma map_of_append_to:
  "map_of (append_to p m gs) q =
     (if q = p then Some ((case map_of gs p of None \<Rightarrow> [] | Some g \<Rightarrow> g) @ [m]) else map_of gs q)"
  by (induction gs) auto

lemma append_to_keys:
  "fst ` set (append_to p m gs) = insert p (fst ` set gs)"
  "distinct (map fst gs) \<Longrightarrow> distinct (map fst (append_to p m gs))"
proof -
  have "set (map fst (append_to p m gs)) = insert p (set (map fst gs))" for gs
    by (induction gs rule: append_to.induct [of _ p m]) (simp_all add: insert_commute)
  then show keys: "fst ` set (append_to p m gs) = insert p (fst ` set gs)" for gs
    by simp
  show "distinct (map fst gs) \<Longrightarrow> distinct (map fst (append_to p m gs))"
  proof (induction gs)
    case (Cons g gs)
    then show ?case using keys [of gs] by (cases g) (auto simp: image_iff)
  qed simp
qed

lemma group_matches_snoc: "group_matches (ms @ [m]) = append_to (rm_priority m) m (group_matches ms)"
  by (simp add: group_matches_def)

lemma group_matches_keys:
  "distinct (map fst (group_matches ms)) \<and> fst ` set (group_matches ms) = rm_priority ` set ms"
proof (induction ms rule: rev_induct)
  case (snoc m ms)
  then show ?case by (simp add: group_matches_snoc append_to_keys)
qed (simp add: group_matches_def)

lemma filter_other: "p \<notin> f ` set xs \<Longrightarrow> filter (\<lambda>x. f x = p) xs = []"
  by (auto simp: filter_empty_conv)

lemma map_of_group_matches:
  "map_of (group_matches ms) p =
     (if p \<in> rm_priority ` set ms then Some (filter (\<lambda>m. rm_priority m = p) ms) else None)"
proof (induction ms rule: rev_induct)
  case (snoc m ms)
  then show ?case by (auto simp: group_matches_snoc map_of_append_to filter_other)
qed (simp add: group_matches_def)

lemma set_priority_groups:
  "(p, g) \<in> set (priority_groups ms) \<longleftrightarrow>
     p \<in> rm_priority ` set ms \<and> g = filter (\<lambda>m. rm_priority m = p) ms"
proof -
  have "(p, g) \<in> set (group_matches ms) \<longleftrightarrow> map_of (group_matches ms) p = Some g"
    using group_matches_keys [of ms] by (simp add: map_of_eq_Some_iff)
  then show ?thesis by (auto simp: priority_groups_def map_of_group_matches split: if_splits)
qed

lemma sorted_wrt_strict:
  "sorted_wrt (\<lambda>a b. f a \<ge> f b) xs \<Longrightarrow> distinct (map f xs) \<Longrightarrow> sorted_wrt (\<lambda>a b. f a > (f b :: int)) xs"
proof (induction xs)
  case (Cons x xs)
  have "f y < f x" if "y \<in> set xs" for y
  proof -
    have "f y \<le> f x" "f y \<noteq> f x" using Cons.prems that by (simp, metis imageI list.set_map distinct.simps(2) list.simps(9))
    then show ?thesis by simp
  qed
  with Cons show ?case by simp
qed simp

lemma priority_groups_sorted: "sorted_wrt (\<lambda>a b. fst a > fst b) (priority_groups ms)"
proof (rule sorted_wrt_strict)
  show "sorted_wrt (\<lambda>a b. fst a \<ge> fst b) (priority_groups ms)"
    unfolding priority_groups_def by (rule sorted_order_by_desc)
  show "distinct (map fst (priority_groups ms))"
    using group_matches_keys [of ms]
    by (auto simp: priority_groups_def order_by_desc_def distinct_map)
qed

section \<open>The declarative reading\<close>

text \<open>What one priority level says, if anything.\<close>

definition group_verdict :: "rule_match list \<Rightarrow> effect option" where
  "group_verdict g =
     (if \<exists>m \<in> set g. passed Deny m then Some Deny
      else if \<exists>m \<in> set g. passed Allow m then Some Allow
      else if \<exists>m \<in> set g. else_elevates m \<or> passed Elevate m then Some Elevate
      else None)"

definition at_priority :: "int \<Rightarrow> rule_match list \<Rightarrow> rule_match list" where
  "at_priority p ms = filter (\<lambda>m. rm_priority m = p) ms"

definition decisive :: "rule_match list \<Rightarrow> int set" where
  "decisive ms = {p \<in> rm_priority ` set ms. group_verdict (at_priority p ms) \<noteq> None}"

definition combine_verdict :: "rule_match list \<Rightarrow> effect" where
  "combine_verdict ms =
     (if decisive ms = {} then Deny else the (group_verdict (at_priority (Max (decisive ms)) ms)))"

fun first_verdict :: "(int \<times> rule_match list) list \<Rightarrow> effect" where
  "first_verdict [] = Deny"
| "first_verdict ((p, g) # gs) = (case group_verdict g of None \<Rightarrow> first_verdict gs | Some v \<Rightarrow> v)"

lemma filter_nonempty: "filter P xs \<noteq> [] \<longleftrightarrow> (\<exists>x \<in> set xs. P x)"
  by (auto simp: filter_empty_conv)

lemma mk_decision_sel [simp]:
  "pd_decision (mk_decision d ms tr c md) = d"
  "pd_matched_rules (mk_decision d ms tr c md) = ms"
  "pd_explanation_trace (mk_decision d ms tr c md) = tr"
  "pd_effective_error_code (mk_decision d ms tr c md) = c"
  "pd_metadata (mk_decision d ms tr c md) = md"
  by (simp_all add: mk_decision_def)

lemma combine_groups_verdict: "pd_decision (combine_groups gs ms tr) = first_verdict gs"
  by (induction gs arbitrary: tr rule: first_verdict.induct)
    (auto simp: Let_def filter_nonempty group_verdict_def simp del: filter_empty_conv)

lemma first_verdict_max:
  assumes "sorted_wrt (\<lambda>a b. fst a > fst b) gs"
  shows "first_verdict gs =
    (let D = {p. \<exists>g. (p, g) \<in> set gs \<and> group_verdict g \<noteq> None} in
     if D = {} then Deny else the (group_verdict (the (map_of gs (Max D)))))"
  using assms
proof (induction gs)
  case (Cons pg gs)
  obtain p g where pg: "pg = (p, g)" by (cases pg)
  let ?D = "\<lambda>gs. {p. \<exists>g. (p, g) \<in> set gs \<and> group_verdict g \<noteq> None}"
  have fin: "finite (?D gs)"
    by (rule finite_subset [of _ "fst ` set gs"]) force+
  have below: "q \<in> ?D gs \<Longrightarrow> q < p" for q
    using Cons.prems pg by fastforce
  show ?case
  proof (cases "group_verdict g")
    case None
    then have "?D (pg # gs) = ?D gs" by (auto simp: pg)
    moreover have "Max (?D gs) \<noteq> p" if "?D gs \<noteq> {}"
      using Max_in [OF fin that] below by blast
    ultimately show ?thesis using Cons None by (auto simp: pg Let_def)
  next
    case (Some v)
    then have D: "?D (pg # gs) = insert p (?D gs)" by (auto simp: pg)
    have "Max (insert p (?D gs)) = p"
      using fin below by (intro Max_eqI) (auto intro: less_imp_le)
    then show ?thesis unfolding D using Some by (simp add: pg)
  qed
qed simp

lemma first_verdict_groups:
  "first_verdict (priority_groups ms) =
     (if decisive ms = {} then Deny else the (group_verdict (the (map_of (priority_groups ms) (Max (decisive ms))))))"
proof -
  have "{p. \<exists>g. (p, g) \<in> set (priority_groups ms) \<and> group_verdict g \<noteq> None} = decisive ms"
    by (auto simp: set_priority_groups decisive_def at_priority_def)
  then show ?thesis unfolding first_verdict_max [OF priority_groups_sorted] Let_def by simp
qed

lemma finite_decisive [simp]: "finite (decisive ms)"
  by (simp add: decisive_def)

lemma map_of_priority_groups:
  "p \<in> rm_priority ` set ms \<Longrightarrow> map_of (priority_groups ms) p = Some (at_priority p ms)"
proof (rule map_of_is_SomeI)
  show "distinct (map fst (priority_groups ms))"
    using group_matches_keys [of ms]
    by (auto simp: priority_groups_def order_by_desc_def distinct_map)
qed (simp add: set_priority_groups at_priority_def)

lemma combine_decision: "pd_decision (combine ms) = combine_verdict ms"
proof -
  have "first_verdict (priority_groups ms) = combine_verdict ms"
  proof (cases "decisive ms = {}")
    case False
    then have "Max (decisive ms) \<in> decisive ms" by simp
    then have "Max (decisive ms) \<in> rm_priority ` set ms" by (simp add: decisive_def)
    with False show ?thesis
      by (simp add: first_verdict_groups combine_verdict_def map_of_priority_groups)
  qed (simp add: first_verdict_groups combine_verdict_def)
  moreover have "combine_verdict [] = Deny" by (simp add: combine_verdict_def decisive_def)
  ultimately show ?thesis by (simp add: combine_def combine_groups_verdict)
qed

section \<open>What a decision guarantees\<close>

lemma combine_verdict_Some:
  assumes "combine_verdict ms = v" and "v \<noteq> Deny"
  obtains p where "p \<in> decisive ms" and "group_verdict (at_priority p ms) = Some v"
    and "\<And>q. q \<in> decisive ms \<Longrightarrow> q \<le> p"
proof -
  from assms have ne: "decisive ms \<noteq> {}" by (auto simp: combine_verdict_def)
  let ?p = "Max (decisive ms)"
  from ne have p: "?p \<in> decisive ms" by simp
  with assms ne have "group_verdict (at_priority ?p ms) = Some v"
    by (auto simp: combine_verdict_def decisive_def)
  with p show thesis by (intro that) auto
qed

lemma group_verdict_None_iff:
  "group_verdict g = None \<longleftrightarrow> (\<forall>m \<in> set g. \<not> passed Deny m \<and> \<not> passed Allow m \<and> \<not> else_elevates m \<and> \<not> passed Elevate m)"
  by (auto simp: group_verdict_def)

lemma decisive_above:
  assumes "m \<in> set ms" and "passed Deny m \<or> passed Allow m \<or> passed Elevate m \<or> else_elevates m"
  shows "rm_priority m \<in> decisive ms"
  using assms by (auto simp: decisive_def group_verdict_None_iff at_priority_def)

end
