(* ===== verification/Audit_Log.thy ===== *)
theory Audit_Log
  imports Combiner
begin

text \<open>
  The audit log of \<^verbatim>\<open>audit/store.py\<close>: the redaction of secret-looking keys, the one statement
  that writes a row, the event methods that call it, and the filtered query.
\<close>

section \<open>Redaction\<close>

definition secret_keys :: "string list" where
  "secret_keys = [''password'', ''pin'', ''secret'', ''token'', ''api_key'']"

definition secret_key :: "string \<Rightarrow> bool" where
  "secret_key k \<longleftrightarrow> list_ex (\<lambda>sk. sublist sk (lower k)) secret_keys"

fun redact_value :: "json \<Rightarrow> json" and redact :: "obj \<Rightarrow> obj" where
  "redact_value (JObj d) = JObj (redact d)"
| "redact_value v = v"
| "redact [] = []"
| "redact ((k, v) # d) = (k, if secret_key k then JStr ''[REDACTED]'' else redact_value v) # redact d"

section \<open>Writing\<close>

definition next_audit_id :: "audit_row list \<Rightarrow> nat" where
  "next_audit_id rows = Suc (fold (\<lambda>r. max (au_id r)) rows 0)"

definition audit_insert ::
  "env \<Rightarrow> string \<Rightarrow> string option \<Rightarrow> string option \<Rightarrow> string option \<Rightarrow> string option \<Rightarrow> string option
   \<Rightarrow> string list \<Rightarrow> obj \<Rightarrow> ('z db_scheme, unit) act" where
  "audit_insert e event_type corr orig agent_id message_id decision matched details =
     modS (\<lambda>s. s\<lparr>audit_log := audit_log s @ [\<lparr>au_id = next_audit_id (audit_log s), au_timestamp = now e,
       au_event_type = event_type, au_correlation_id = corr, au_origin_correlation_id = orig,
       au_agent_id = agent_id, au_message_id = message_id, au_decision = decision,
       au_matched_rules = matched, au_details = redact details\<rparr>]\<rparr>)"

definition turn_root_id :: "framework_message \<Rightarrow> string" where
  "turn_root_id m = origin_id m"

text \<open>The columns every event about a message fills from it.\<close>

definition audit_message ::
  "env \<Rightarrow> framework_message \<Rightarrow> string \<Rightarrow> string option \<Rightarrow> string list \<Rightarrow> obj \<Rightarrow> ('z db_scheme, unit) act" where
  "audit_message e m event_type decision matched details =
     audit_insert e event_type (Some (msg_correlation_id m)) (Some (turn_root_id m)) (Some (m_agent m))
       (Some (msg_id m)) decision matched details"

definition log_message_hop :: "env \<Rightarrow> framework_message \<Rightarrow> int \<Rightarrow> ('z db_scheme, unit) act" where
  "log_message_hop e m connection_id = audit_message e m ''message_hop'' None []
     [(''connection_id'', JInt connection_id), (''type'', JStr (msg_type m)),
      (''origin_correlation_id'', JStr (turn_root_id m))]"

definition rule_ids_of :: "policy_decision \<Rightarrow> string list" where
  "rule_ids_of d = map rm_rule_id (pd_matched_rules d)"

definition log_policy_decision :: "env \<Rightarrow> framework_message \<Rightarrow> policy_decision \<Rightarrow> ('z db_scheme, unit) act" where
  "log_policy_decision e m d = audit_message e m ''policy_decision''
     (Some (decision_value (pd_decision d))) (rule_ids_of d)
     [(''explanation_trace'', JArr (map (\<lambda>(st, dt). JObj [(''step'', JStr st), (''detail'', JStr dt)])
                                 (pd_explanation_trace d))),
      (''effective_error_code'', jopt (map_option code_value (pd_effective_error_code d))),
      (''metadata'', JObj (pd_metadata d)),
      (''user_id'', oget (pd_metadata d) ''user_id''),
      (''rule_ids'', JArr (map JStr (rule_ids_of d))),
      (''grant_id'', oget (pd_metadata d) ''grant_id''),
      (''quota_key'', oget (pd_metadata d) ''quota_key''),
      (''elevation_id'', oget (pd_metadata d) ''elevation_id''),
      (''identity_channel'', oget (pd_metadata d) ''identity_channel''),
      (''auth_method'', oget (pd_metadata d) ''auth_method''),
      (''origin_correlation_id'', JStr (turn_root_id m))]"

definition log_api_mutation :: "env \<Rightarrow> string \<Rightarrow> obj \<Rightarrow> ('z db_scheme, unit) act" where
  "log_api_mutation e endpoint details =
     audit_insert e ''api_mutation'' None None None None None []
       (omerge [(''endpoint'', JStr endpoint)] details)"

definition log_security_event ::
  "env \<Rightarrow> string \<Rightarrow> obj \<Rightarrow> string option \<Rightarrow> string option \<Rightarrow> string option \<Rightarrow> string option
   \<Rightarrow> string option \<Rightarrow> string list \<Rightarrow> ('z db_scheme, unit) act" where
  "log_security_event e event_type details corr orig agent_id message_id decision matched =
     audit_insert e event_type corr orig agent_id message_id decision matched (redact details)"

definition log_memory_operation ::
  "env \<Rightarrow> framework_message \<Rightarrow> string \<Rightarrow> string \<Rightarrow> string \<Rightarrow> string option \<Rightarrow> json \<Rightarrow> string \<Rightarrow> string
   \<Rightarrow> ('z db_scheme, unit) act" where
  "log_memory_operation e m operation target namespace record_id grant_id result reason =
     audit_message e m (''memory_'' @ operation) (Some result) []
       [(''operation'', JStr operation), (''agent_id'', JStr (m_agent m)),
        (''target_agent_id'', JStr target), (''namespace'', JStr namespace),
        (''record_id'', jopt record_id), (''grant_id'', grant_id),
        (''correlation_id'', JStr (msg_correlation_id m)),
        (''origin_correlation_id'', JStr (turn_root_id m)),
        (''result'', JStr result), (''reason'', JStr reason)]"

definition log_llm_operation ::
  "env \<Rightarrow> framework_message \<Rightarrow> string \<Rightarrow> string \<Rightarrow> json \<Rightarrow> string \<Rightarrow> string \<Rightarrow> obj \<Rightarrow> int
   \<Rightarrow> ('z db_scheme, unit) act" where
  "log_llm_operation e m provider model user_id result reason usage duration_ms =
     audit_message e m ''llm_completion'' (Some result) []
       [(''provider'', JStr provider), (''model'', JStr model), (''user_id'', user_id),
        (''result'', JStr result), (''reason'', JStr reason), (''usage'', JObj usage),
        (''duration_ms'', JInt duration_ms), (''origin_correlation_id'', JStr (turn_root_id m))]"

definition log_provider_tool_event ::
  "env \<Rightarrow> framework_message \<Rightarrow> string \<Rightarrow> string \<Rightarrow> json \<Rightarrow> string \<Rightarrow> string list \<Rightarrow> string option
   \<Rightarrow> ('z db_scheme, unit) act" where
  "log_provider_tool_event e m provider model user_id event provider_tools finish_reason =
     audit_message e m event (Some ''warn'') []
       [(''provider'', JStr provider), (''model'', JStr model), (''user_id'', user_id),
        (''provider_tools'', JArr (map JStr provider_tools)), (''finish_reason'', jopt finish_reason),
        (''trust_boundary'', JStr ''provider''), (''origin_correlation_id'', JStr (turn_root_id m))]"

definition log_tool_operation ::
  "env \<Rightarrow> framework_message \<Rightarrow> string \<Rightarrow> string \<Rightarrow> json \<Rightarrow> string \<Rightarrow> string \<Rightarrow> string list \<Rightarrow> int
   \<Rightarrow> bool option \<Rightarrow> ('z db_scheme, unit) act" where
  "log_tool_operation e m phase tool_name user_id result reason matched duration_ms success =
     audit_message e m ''tool_operation'' (Some result) matched
       [(''phase'', JStr phase), (''tool_name'', JStr tool_name), (''user_id'', user_id),
        (''result'', JStr result), (''reason'', JStr reason), (''duration_ms'', JInt duration_ms),
        (''success'', (case success of None \<Rightarrow> JNull | Some b \<Rightarrow> JBool b)),
        (''origin_correlation_id'', JStr (turn_root_id m))]"

section \<open>Query\<close>

record audit_query =
  aq_correlation_id :: "string option"
  aq_origin_correlation_id :: "string option"
  aq_agent_id :: "string option"
  aq_user_id :: "string option"
  aq_event_type :: "string option"
  aq_rule_id :: "string option"
  aq_grant_id :: "string option"
  aq_elevation_id :: "string option"
  aq_from_ts :: "string option"
  aq_to_ts :: "string option"
  aq_limit :: int

text \<open>\<^verbatim>\<open>AND column = ?\<close>, added to the statement when the argument is truthy.\<close>

definition sql_eq :: "string option \<Rightarrow> string option \<Rightarrow> bool" where
  "sql_eq arg col \<longleftrightarrow> (opt_truthy arg \<longrightarrow> col = arg)"

definition audit_where :: "audit_query \<Rightarrow> audit_row \<Rightarrow> bool" where
  "audit_where q r \<longleftrightarrow> sql_eq (aq_correlation_id q) (au_correlation_id r)
     \<and> sql_eq (aq_origin_correlation_id q) (au_origin_correlation_id r)
     \<and> sql_eq (aq_agent_id q) (au_agent_id r)
     \<and> sql_eq (aq_event_type q) (Some (au_event_type r))
     \<and> (opt_truthy (aq_from_ts q) \<longrightarrow> isoformat (au_timestamp r) \<ge> the (aq_from_ts q))
     \<and> (opt_truthy (aq_to_ts q) \<longrightarrow> isoformat (au_timestamp r) \<le> the (aq_to_ts q))"

text \<open>\<^verbatim>\<open>s in v\<close>: membership in a list, a key of a dictionary, a substring of a string.\<close>

fun py_in :: "string \<Rightarrow> json \<Rightarrow> bool res" where
  "py_in s (JArr xs) = Inr (JStr s \<in> set xs)"
| "py_in s (JObj d) = Inr (ohas d s)"
| "py_in s (JStr t) = Inr (sublist s t)"
| "py_in s _ = Inl TypeError"

definition audit_keep :: "audit_query \<Rightarrow> audit_row \<Rightarrow> bool res" where
  "audit_keep q r =
     (let details = au_details r in
      if opt_truthy (aq_user_id q) \<and> oget details ''user_id'' \<noteq> jopt (aq_user_id q) then Inr False
      else bindE (if opt_truthy (aq_rule_id q)
                  then py_in (the (aq_rule_id q))
                         (oget_or details ''rule_ids'' (JArr (map JStr (au_matched_rules r))))
                  else Inr True) (\<lambda>has_rule.
        Inr (has_rule
          \<and> \<not> (opt_truthy (aq_grant_id q) \<and> oget details ''grant_id'' \<noteq> jopt (aq_grant_id q))
          \<and> \<not> (opt_truthy (aq_elevation_id q) \<and> oget details ''elevation_id'' \<noteq> jopt (aq_elevation_id q)))))"

fun filterE :: "('a \<Rightarrow> bool res) \<Rightarrow> 'a list \<Rightarrow> 'a list res" where
  "filterE f [] = Inr []"
| "filterE f (x # xs) = bindE (f x) (\<lambda>b. bindE (filterE f xs) (\<lambda>ys. Inr (if b then x # ys else ys)))"

text \<open>A negative \<^verbatim>\<open>LIMIT\<close> is no limit; the filters on the details run after it.\<close>

definition sql_limit :: "int \<Rightarrow> 'a list \<Rightarrow> 'a list" where
  "sql_limit n xs = (if n < 0 then xs else take (nat n) xs)"

definition query_logs :: "audit_query \<Rightarrow> 'z db_scheme \<Rightarrow> audit_row list res" where
  "query_logs q s = filterE (audit_keep q)
     (sql_limit (aq_limit q) (order_by_desc (\<lambda>r. int (au_id r)) (filter (audit_where q) (audit_log s))))"

section \<open>Every event writes through the one statement\<close>

lemmas audit_events =
  log_message_hop_def log_policy_decision_def log_api_mutation_def log_security_event_def
  log_memory_operation_def log_llm_operation_def log_provider_tool_event_def log_tool_operation_def
  audit_message_def

lemma audit_insert_ok [pres_intro]: "preserves db_ok (audit_insert e t c oc a m d rs x)"
  by (simp add: audit_insert_def preserves_def db_ok_def)

lemma audit_events_ok [pres_intro]:
  "preserves db_ok (log_message_hop e m ci)"
  "preserves db_ok (log_policy_decision e m d)"
  "preserves db_ok (log_api_mutation e ep x)"
  "preserves db_ok (log_security_event e t x co oc a mi dc rs)"
  "preserves db_ok (log_memory_operation e m op ta ns ri gi re rn)"
  "preserves db_ok (log_llm_operation e m p mo u re rn us du)"
  "preserves db_ok (log_provider_tool_event e m p mo u ev pt fr)"
  "preserves db_ok (log_tool_operation e m ph tn u re rn rs du su)"
  by (simp_all add: audit_events audit_insert_ok)

section \<open>Redaction\<close>

text \<open>A value is clean when no dictionary reached through dictionaries has a secret key with a
  value other than the mark.\<close>

fun clean_value :: "json \<Rightarrow> bool" and clean :: "obj \<Rightarrow> bool" where
  "clean_value (JObj d) = clean d"
| "clean_value v = True"
| "clean [] = True"
| "clean ((k, v) # d) =
     ((if secret_key k then v = JStr ''[REDACTED]'' else clean_value v) \<and> clean d)"

lemma redact_clean: "clean_value (redact_value v)" "clean (redact d)"
  by (induction v and d rule: redact_value_redact.induct) auto

lemma redact_id: "clean_value v \<Longrightarrow> redact_value v = v" "clean d \<Longrightarrow> redact d = d"
  by (induction v and d rule: clean_value_clean.induct) (auto split: if_splits)

lemma redact_idem: "redact (redact d) = redact d"
  by (simp add: redact_id redact_clean)

lemma redact_keys: "map fst (redact d) = map fst d"
  by (induction d) auto

section \<open>Identifiers\<close>

lemma next_audit_id_greater: "r \<in> set rows \<Longrightarrow> au_id r < next_audit_id rows"
proof -
  have "\<forall>n. n \<le> fold (\<lambda>r. max (au_id r)) rows n \<and> (\<forall>r \<in> set rows. au_id r \<le> fold (\<lambda>r. max (au_id r)) rows n)"
  proof (induction rows)
    case (Cons x rows)
    then show ?case by (auto intro: order.trans [OF _ spec [OF Cons.IH, THEN conjunct1]])
  qed simp
  then show "r \<in> set rows \<Longrightarrow> au_id r < next_audit_id rows"
    by (simp add: next_audit_id_def less_Suc_eq_le)
qed

text \<open>The log only grows: what was written stays, in place, and every new row is clean and has
  a larger id than the rows before it.\<close>

definition log_extends :: "audit_row list \<Rightarrow> audit_row list \<Rightarrow> bool" where
  "log_extends old new \<longleftrightarrow> (\<exists>rows. new = old @ rows \<and> (\<forall>r \<in> set rows. clean (au_details r)))"

definition audit_ok :: "audit_row list \<Rightarrow> bool" where
  "audit_ok rows \<longleftrightarrow> sorted_wrt (\<lambda>a b. au_id a < au_id b) rows \<and> (\<forall>r \<in> set rows. clean (au_details r))"

lemma audit_insert_audit_ok [pres_intro]: "preserves (\<lambda>s. audit_ok (audit_log s)) (audit_insert e t c oc a m d rs x)"
  by (simp add: audit_insert_def preserves_def audit_ok_def sorted_wrt_append next_audit_id_greater redact_clean)

lemma log_extends_refl [simp]: "log_extends l l"
  by (simp add: log_extends_def)

lemma log_extends_trans [trans]: "log_extends a b \<Longrightarrow> log_extends b c \<Longrightarrow> log_extends a c"
  unfolding log_extends_def by fastforce

text \<open>An action that only appends clean rows.\<close>

definition appends :: "('z db_scheme, 'a) act \<Rightarrow> bool" where
  "appends m \<longleftrightarrow> (\<forall>l. preserves (\<lambda>s. log_extends l (audit_log s)) m)"

lemma appendsD: "appends m \<Longrightarrow> log_extends (audit_log s) (audit_log (snd (m s)))"
  by (simp add: appends_def preserves_def)

lemma appendsI: "(\<And>l. preserves (\<lambda>s. log_extends l (audit_log s)) m) \<Longrightarrow> appends m"
  by (simp add: appends_def)

lemma appends_pres [pres_intro]: "appends m \<Longrightarrow> preserves (\<lambda>s. log_extends l (audit_log s)) m"
  by (simp add: appends_def)

lemma audit_insert_appends: "appends (audit_insert e t c oc a m d rs x)"
  unfolding appends_def preserves_def audit_insert_def
  using log_extends_trans by (force simp: log_extends_def redact_clean)

end
