(* ===== verification/Sessions.thy ===== *)
theory Sessions
  imports Audit_Log "HOL-Library.AList"
begin

text \<open>
  The session manager of \<^verbatim>\<open>server/session.py\<close>, the turn store of \<^verbatim>\<open>server/correlation.py\<close>, the
  connection table of \<^verbatim>\<open>server/transport.py\<close> and the offline queue of
  \<^verbatim>\<open>server/pending_replay.py\<close>, over the settings of \<^verbatim>\<open>server/config.py\<close> they read.
\<close>

record server_config =
  cfg_turn_timeout_seconds :: int
  cfg_max_chain_depth :: int
  cfg_session_ttl_hours :: int
  cfg_memory_soft_delete_retention_hours :: int
  cfg_elevation_ttl_hours :: int
  cfg_elevation_webhook_url :: "string option"
  cfg_behavioral_grant_denial_window_minutes :: int
  cfg_behavioral_cross_agent_window_minutes :: int
  cfg_behavioral_rate_baseline_minutes :: int
  cfg_behavioral_tool_zscore_threshold :: real
  cfg_behavioral_counter_retention_hours :: int
  cfg_memory_writes_daily_limit :: int
  cfg_llm_default_provider :: string
  cfg_llm_tokens_daily_limit :: int

text \<open>A stream writer as the server sees it: whether it is closing, whether the next write fails,
  and the messages written to it.\<close>

record stream_writer =
  wr_closing :: bool
  wr_broken :: bool
  wr_sent :: "framework_message list"

text \<open>The keys of \<^verbatim>\<open>_agent_connections\<close> come from a handshake payload and may be any JSON value.\<close>

record conn_state = rule_store +
  connection_tokens :: "(int \<times> string) list"
  conn_writers :: "(int \<times> stream_writer) list"
  agent_connections :: "((json \<times> json) \<times> int) list"

section \<open>Dictionaries keyed by any type\<close>

definition dput :: "'k \<Rightarrow> 'v \<Rightarrow> ('k \<times> 'v) list \<Rightarrow> ('k \<times> 'v) list" where
  "dput k v d = AList.update k v d"

definition ddel :: "'k \<Rightarrow> ('k \<times> 'v) list \<Rightarrow> ('k \<times> 'v) list" where
  "ddel k d = AList.delete k d"

lemma map_of_dput [simp]: "map_of (dput k v d) = (map_of d)(k \<mapsto> v)"
  by (simp add: dput_def update_conv')

lemma map_of_ddel [simp]: "map_of (ddel k d) = (map_of d)(k := None)"
  by (simp add: ddel_def delete_conv')

section \<open>Sessions\<close>

definition bind_connection :: "int \<Rightarrow> string \<Rightarrow> ('z conn_state_scheme, unit) act" where
  "bind_connection connection_id token =
     modS (\<lambda>s. s\<lparr>connection_tokens := dput connection_id token (connection_tokens s)\<rparr>)"

definition unbind_connection :: "int \<Rightarrow> ('z conn_state_scheme, unit) act" where
  "unbind_connection connection_id =
     modS (\<lambda>s. s\<lparr>connection_tokens := ddel connection_id (connection_tokens s)\<rparr>)"

definition get_connection_token :: "int \<Rightarrow> 'z conn_state_scheme \<Rightarrow> string option" where
  "get_connection_token connection_id s = map_of (connection_tokens s) connection_id"

definition active_connection_count :: "'z conn_state_scheme \<Rightarrow> nat" where
  "active_connection_count s = length (connection_tokens s)"

definition open_session :: "env \<Rightarrow> server_config \<Rightarrow> string \<Rightarrow> string \<Rightarrow> ('z db_scheme, string \<times> time) act" where
  "open_session e cfg agent_id vm_id =
     (let expires_at = now e + hours (cfg_session_ttl_hours cfg) in
      bindA (create_session e agent_id vm_id expires_at) (\<lambda>token. ret (token, expires_at)))"

definition validate_token :: "env \<Rightarrow> string option \<Rightarrow> 'z db_scheme \<Rightarrow> session_row option" where
  "validate_token e token s =
     (if \<not> opt_truthy token then None
      else case get_session (the token) s of
             None \<Rightarrow> None
           | Some row \<Rightarrow> if now e \<ge> se_expires_at row then None else Some row)"

definition validate_connection :: "env \<Rightarrow> int \<Rightarrow> 'z conn_state_scheme \<Rightarrow> session_row option" where
  "validate_connection e connection_id s = validate_token e (get_connection_token connection_id s) s"

definition extract_session_token :: "obj \<Rightarrow> string option" where
  "extract_session_token payload =
     (case oget payload ''_session'' of
        JObj d \<Rightarrow> str_if (oget d ''token'')
      | _ \<Rightarrow> str_if (oget payload ''session_token''))"

section \<open>Turn correlation\<close>

definition purge_expired :: "env \<Rightarrow> server_config \<Rightarrow> ('z db_scheme, unit) act" where
  "purge_expired e cfg = thenA (purge_expired_turn_states (now e - seconds (cfg_turn_timeout_seconds cfg))) (ret ())"

definition correlation_startup :: "env \<Rightarrow> server_config \<Rightarrow> ('z db_scheme, unit) act" where
  "correlation_startup e cfg = purge_expired e cfg"

definition register_user_query :: "env \<Rightarrow> server_config \<Rightarrow> framework_message \<Rightarrow> ('z db_scheme, unit) act" where
  "register_user_query e cfg m = thenA (purge_expired e cfg)
     (upsert_turn_state (msg_correlation_id m) (m_agent m) (str_if (pget m ''user_id'')) (now e) (now e) 0)"

definition opening_query :: "framework_message \<Rightarrow> bool" where
  "opening_query m \<longleftrightarrow> msg_type m = ''user_query'' \<and> tag_triggered_by (msg_tags m) = USER_INPUT"

definition validate_correlation ::
  "env \<Rightarrow> server_config \<Rightarrow> framework_message \<Rightarrow> ('z db_scheme, bool \<times> error_code option) act" where
  "validate_correlation e cfg m =
     (if opening_query m then ret (True, None)
      else if msg_class m = SYSTEM then ret (True, None)
      else if msg_type m = ''handshake'' then ret (True, None)
      else bindA (getS (get_turn_state (origin_id m))) (\<lambda>turn.
        case turn of
          None \<Rightarrow> if msg_type m = ''user_query'' then ret (True, None)
                  else ret (False, Some SERVER_CORRELATION_INVALID)
        | Some t \<Rightarrow>
            if tu_last_activity t < now e - seconds (cfg_turn_timeout_seconds cfg) then
              thenA (delete_turn_state (origin_id m)) (ret (False, Some SERVER_CORRELATION_EXPIRED))
            else if tu_agent_id t \<noteq> m_agent m then ret (False, Some SERVER_CORRELATION_INVALID)
            else if tu_depth t + 1 > cfg_max_chain_depth cfg then ret (False, Some SERVER_CORRELATION_INVALID)
            else thenA (update_turn_state_activity (origin_id m) (now e) (tu_depth t + 1))
                (thenA (purge_expired e cfg) (ret (True, None)))))"

definition get_user_id_for_turn :: "uuid \<Rightarrow> 'z db_scheme \<Rightarrow> string option" where
  "get_user_id_for_turn correlation_id s =
     (case get_turn_state correlation_id s of
        None \<Rightarrow> None
      | Some t \<Rightarrow> if opt_truthy (tu_user_id t) then tu_user_id t else None)"

definition get_user_id_for_message :: "framework_message \<Rightarrow> 'z db_scheme \<Rightarrow> string option" where
  "get_user_id_for_message m s =
     (case get_user_id_for_turn (origin_id m) s of
        Some u \<Rightarrow> Some u
      | None \<Rightarrow> if msg_type m = ''user_query'' then str_if (pget m ''user_id'') else None)"

section \<open>Transport\<close>

definition register_writer :: "int \<Rightarrow> stream_writer \<Rightarrow> ('z conn_state_scheme, unit) act" where
  "register_writer connection_id w = modS (\<lambda>s. s\<lparr>conn_writers := dput connection_id w (conn_writers s)\<rparr>)"

definition bind_agent :: "json \<Rightarrow> json \<Rightarrow> int \<Rightarrow> ('z conn_state_scheme, unit) act" where
  "bind_agent agent_id vm_id connection_id =
     modS (\<lambda>s. s\<lparr>agent_connections := dput (agent_id, vm_id) connection_id (agent_connections s)\<rparr>)"

definition unbind :: "int \<Rightarrow> ('z conn_state_scheme, unit) act" where
  "unbind connection_id = modS (\<lambda>s. s\<lparr>conn_writers := ddel connection_id (conn_writers s),
     agent_connections := filter (\<lambda>(key, bound_id). bound_id \<noteq> connection_id) (agent_connections s)\<rparr>)"

definition agent_writer :: "string \<Rightarrow> string \<Rightarrow> 'z conn_state_scheme \<Rightarrow> (int \<times> stream_writer) option" where
  "agent_writer agent_id vm_id s =
     (case map_of (agent_connections s) (JStr agent_id, JStr vm_id) of
        None \<Rightarrow> None
      | Some c \<Rightarrow> map_option (Pair c) (map_of (conn_writers s) c))"

definition is_agent_connected :: "string \<Rightarrow> string \<Rightarrow> 'z conn_state_scheme \<Rightarrow> bool" where
  "is_agent_connected agent_id vm_id s =
     (case agent_writer agent_id vm_id s of None \<Rightarrow> False | Some (c, w) \<Rightarrow> \<not> wr_closing w)"

definition deliver :: "string \<Rightarrow> string \<Rightarrow> framework_message \<Rightarrow> ('z conn_state_scheme, bool) act" where
  "deliver agent_id vm_id m = (\<lambda>s.
     case agent_writer agent_id vm_id s of
       None \<Rightarrow> (Inr False, s)
     | Some (c, w) \<Rightarrow>
         if wr_closing w then (Inr False, s)
         else if wr_broken w then (Inr False, s)
         else (Inr True, s\<lparr>conn_writers := dput c (w\<lparr>wr_sent := wr_sent w @ [m]\<rparr>) (conn_writers s)\<rparr>))"

section \<open>The offline queue\<close>

definition enqueue_replay ::
  "env \<Rightarrow> string \<Rightarrow> string \<Rightarrow> string \<Rightarrow> string \<Rightarrow> framework_message \<Rightarrow> string \<Rightarrow> ('z db_scheme, string) act" where
  "enqueue_replay e agent_id vm_id elevation_id grant_id m site =
     enqueue_pending_replay e agent_id vm_id elevation_id grant_id (dump_message e False m) site"

fun flush_rows ::
  "env \<Rightarrow> string \<Rightarrow> string \<Rightarrow> replay_row list \<Rightarrow> nat \<Rightarrow> ('z conn_state_scheme, nat) act" where
  "flush_rows e agent_id vm_id [] n = ret n"
| "flush_rows e agent_id vm_id (row # rows) n =
     bindA (liftR (validate_message e (pr_message row))) (\<lambda>m.
     bindA (deliver agent_id vm_id m) (\<lambda>sent.
       if \<not> sent then ret n
       else thenA (thenA (mark_pending_replay_delivered (pr_id row) (now e)) (ret ()))
           (thenA (log_security_event e ''pending_replay_delivered''
                    [(''vm_id'', JStr vm_id), (''elevation_id'', JStr (pr_elevation_id row)),
                     (''grant_id'', JStr (pr_grant_id row)), (''message_type'', JStr (msg_type m)),
                     (''pending_replay_id'', JStr (pr_id row))]
                    (Some (msg_correlation_id m)) None (Some agent_id) None None [])
             (flush_rows e agent_id vm_id rows (Suc n)))))"

definition flush_for_vm :: "env \<Rightarrow> string \<Rightarrow> string \<Rightarrow> ('z conn_state_scheme, nat) act" where
  "flush_for_vm e agent_id vm_id = bindA (getS (list_pending_replays agent_id vm_id)) (\<lambda>pending.
     if pending = [] then ret 0 else flush_rows e agent_id vm_id pending 0)"

section \<open>Frame facts\<close>

lemma conn_ops_ok [pres_intro]:
  "preserves db_ok (bind_connection c t)"
  "preserves db_ok (unbind_connection c)"
  "preserves db_ok (register_writer c w)"
  "preserves db_ok (bind_agent ja jv c)"
  "preserves db_ok (unbind c)"
  by (simp_all add: preserves_def db_ok_def bind_connection_def unbind_connection_def
      register_writer_def bind_agent_def unbind_def)

lemma deliver_ok [pres_intro]: "preserves db_ok (deliver a v m)"
  by (auto simp: preserves_def db_ok_def deliver_def split: option.splits)

lemma open_session_ok [pres_intro]: "preserves db_ok (open_session e cfg a v)"
  unfolding open_session_def by (intro pres_intro)

lemma purge_expired_ok [pres_intro]: "preserves db_ok (purge_expired e cfg)"
  unfolding purge_expired_def by (intro pres_intro)

lemma register_user_query_ok [pres_intro]: "preserves db_ok (register_user_query e cfg m)"
  unfolding register_user_query_def by (intro pres_intro)

lemma validate_correlation_ok [pres_intro]: "preserves db_ok (validate_correlation e cfg m)"
  unfolding validate_correlation_def by (intro pres_intro)

lemma flush_rows_ok [pres_intro]: "preserves db_ok (flush_rows e a v rows n)"
  by (induction rows arbitrary: n) (simp_all only: flush_rows.simps, (intro pres_intro; assumption)+)

lemma flush_for_vm_ok [pres_intro]: "preserves db_ok (flush_for_vm e a v)"
  unfolding flush_for_vm_def by (intro pres_intro)

section \<open>Sessions\<close>

lemma validate_token_Some:
  "validate_token e token s = Some row \<longleftrightarrow>
     (\<exists>t. token = Some t \<and> t \<noteq> [] \<and> get_session t s = Some row \<and> now e < se_expires_at row)"
  by (auto simp: validate_token_def opt_truthy_def split: option.splits)

lemma open_session_get:
  assumes "open_session e cfg a v s = (Inr (token, xp), s')"
  shows "token = uuid4 e ''session''" and "xp = now e + hours (cfg_session_ttl_hours cfg)"
    and "get_session token s' = Some \<lparr>se_token = token, se_agent_id = a, se_vm_id = v,
           se_expires_at = xp, se_created_at = now e\<rparr>"
  using assms
  by (auto simp: open_session_def create_session_def get_session_def Let_def lookup_insert
      elim!: bindA_InrE split: sum.splits)

section \<open>Turns\<close>

text \<open>A message the turn store checks against its turn.\<close>

definition chained :: "framework_message \<Rightarrow> bool" where
  "chained m \<longleftrightarrow> msg_class m \<noteq> SYSTEM \<and> msg_type m \<noteq> ''handshake'' \<and> msg_type m \<noteq> ''user_query''"

definition turn_depths_ok :: "server_config \<Rightarrow> 'z db_scheme \<Rightarrow> bool" where
  "turn_depths_ok cfg s \<longleftrightarrow> (\<forall>t \<in> set (turn_state s). 0 \<le> tu_depth t \<and> tu_depth t \<le> cfg_max_chain_depth cfg)"

lemma purge_turns:
  "snd (purge_expired e cfg s) = s\<lparr>turn_state :=
     delete_rows (\<lambda>t. tu_last_activity t < now e - seconds (cfg_turn_timeout_seconds cfg)) (turn_state s)\<rparr>"
  "fst (purge_expired e cfg s) = Inr ()"
  by (simp_all add: purge_expired_def purge_expired_turn_states_def)

lemma purge_expired_eq:
  "purge_expired e cfg s = (Inr (), s\<lparr>turn_state :=
     delete_rows (\<lambda>t. tu_last_activity t < now e - seconds (cfg_turn_timeout_seconds cfg)) (turn_state s)\<rparr>)"
  by (simp add: purge_expired_def purge_expired_turn_states_def)

lemma validate_accepts:
  assumes "validate_correlation e cfg m s = (Inr (True, c), s')" and "chained m"
  obtains t where "get_turn_state (origin_id m) s = Some t" and "tu_agent_id t = m_agent m"
    and "now e - seconds (cfg_turn_timeout_seconds cfg) \<le> tu_last_activity t"
    and "tu_depth t < cfg_max_chain_depth cfg"
    and "s' = s\<lparr>turn_state := delete_rows (\<lambda>t. tu_last_activity t < now e - seconds (cfg_turn_timeout_seconds cfg))
           (update_rows (\<lambda>t. tu_root_correlation_id t = origin_id m)
             (\<lambda>r. r\<lparr>tu_last_activity := now e, tu_depth := tu_depth t + 1\<rparr>) (turn_state s))\<rparr>"
proof (cases "get_turn_state (origin_id m) s")
  case None
  with assms show ?thesis
    by (auto simp: validate_correlation_def chained_def opening_query_def)
next
  case (Some t)
  with assms show ?thesis
    by (intro that [of t])
      (auto simp: validate_correlation_def chained_def opening_query_def purge_expired_eq
        update_turn_state_activity_def delete_turn_state_def split: if_splits)
qed

lemma validate_rejects_state:
  assumes "validate_correlation e cfg m s = (Inr (False, c), s')"
  shows "s' = s \<or> s' = s\<lparr>turn_state := delete_rows (\<lambda>t. tu_root_correlation_id t = origin_id m) (turn_state s)\<rparr>"
  using assms
  by (auto simp: validate_correlation_def delete_turn_state_def update_turn_state_activity_def
      purge_expired_eq split: if_splits option.splits)

lemma lookup_delete_rows_None: "lookup_row key k rows = None \<Longrightarrow> lookup_row key k (delete_rows P rows) = None"
  by (auto simp: table_simps)

lemma lookup_delete_rows_Some:
  "keys_ok key rows \<Longrightarrow> lookup_row key k rows = Some r \<Longrightarrow>
    lookup_row key k (delete_rows P rows) = (if P r then None else Some r)"
proof (induction rows)
  case (Cons x rows)
  then show ?case by (auto simp: delete_rows_def keys_ok_def lookup_delete_rows_None [unfolded delete_rows_def]
        lookup_row_None_iff)
qed simp

text \<open>Runs of a message sequence through the turn store; the result counts the accepted ones.\<close>

fun accepted :: "server_config \<Rightarrow> (env \<times> framework_message) list \<Rightarrow> 'z db_scheme \<Rightarrow> nat" where
  "accepted cfg [] s = 0"
| "accepted cfg ((e, m) # ms) s =
     (case validate_correlation e cfg m s of
        (Inr (ok, c), s') \<Rightarrow> (if ok then 1 else 0) + accepted cfg ms s'
      | (Inl x, s') \<Rightarrow> accepted cfg ms s')"

lemma validate_total: "\<exists>ok c s'. validate_correlation e cfg m s = (Inr (ok, c), s')"
  by (auto simp: validate_correlation_def delete_turn_state_def update_turn_state_activity_def
      purge_expired_eq split: option.splits)

text \<open>What is left of a turn: nothing when its row is gone.\<close>

definition turn_budget :: "server_config \<Rightarrow> uuid \<Rightarrow> 'z db_scheme \<Rightarrow> nat" where
  "turn_budget cfg r s =
     (case get_turn_state r s of None \<Rightarrow> 0 | Some t \<Rightarrow> nat (cfg_max_chain_depth cfg - tu_depth t))"

lemma budget_step:
  assumes "db_ok s" and "chained m" and "origin_id m = r"
    and "validate_correlation e cfg m s = (Inr (ok, c), s')"
  shows "(if ok then 1 else 0) + turn_budget cfg r s' \<le> turn_budget cfg r s"
proof (cases ok)
  case True
  with assms obtain t where t: "get_turn_state r s = Some t" "tu_depth t < cfg_max_chain_depth cfg"
    and s': "s' = s\<lparr>turn_state := delete_rows (\<lambda>t. tu_last_activity t < now e - seconds (cfg_turn_timeout_seconds cfg))
           (update_rows (\<lambda>t. tu_root_correlation_id t = r)
             (\<lambda>x. x\<lparr>tu_last_activity := now e, tu_depth := tu_depth t + 1\<rparr>) (turn_state s))\<rparr>"
    by (auto elim!: validate_accepts)
  let ?rows = "update_rows (\<lambda>t. tu_root_correlation_id t = r)
             (\<lambda>x. x\<lparr>tu_last_activity := now e, tu_depth := tu_depth t + 1\<rparr>) (turn_state s)"
  have "lookup_row tu_root_correlation_id r ?rows = Some (t\<lparr>tu_last_activity := now e, tu_depth := tu_depth t + 1\<rparr>)"
    using t lookup_row_SomeD [of tu_root_correlation_id r "turn_state s" t]
    by (simp add: lookup_row_update get_turn_state_def)
  moreover have "keys_ok tu_root_correlation_id ?rows"
    using assms(1) by (simp add: keys_ok_update db_ok_def)
  ultimately show ?thesis
    using True t by (auto simp: turn_budget_def get_turn_state_def s' lookup_delete_rows_Some)
next
  case False
  with assms validate_rejects_state [of e cfg m s c s'] show ?thesis
    by (auto simp: turn_budget_def get_turn_state_def lookup_row_delete_key)
qed

lemma accepted_budget:
  assumes "db_ok s" and "\<And>e m. (e, m) \<in> set ms \<Longrightarrow> chained m \<and> origin_id m = r"
  shows "accepted cfg ms s \<le> turn_budget cfg r s"
  using assms
proof (induction ms arbitrary: s)
  case (Cons em ms)
  obtain e m where em: "em = (e, m)" by (cases em)
  obtain ok c s' where v: "validate_correlation e cfg m s = (Inr (ok, c), s')"
    using validate_total by blast
  have ok': "db_ok s'"
    using preservesD [OF validate_correlation_ok Cons.prems(1), of e cfg m] v by simp
  have "accepted cfg ms s' \<le> turn_budget cfg r s'"
    by (rule Cons.IH [OF ok']) (use Cons.prems(2) in auto)
  moreover have "(if ok then 1 else 0) + turn_budget cfg r s' \<le> turn_budget cfg r s"
    using budget_step [OF Cons.prems(1) _ _ v] Cons.prems(2) [of e m] em by auto
  ultimately show ?case by (simp add: em v)
qed simp

lemma register_depths_ok:
  assumes "0 \<le> cfg_max_chain_depth cfg"
  shows "preserves (turn_depths_ok cfg) (register_user_query e cfg m)"
proof (rule preservesI)
  fix s :: "'z db_scheme" assume "turn_depths_ok cfg s"
  with assms show "turn_depths_ok cfg (snd (register_user_query e cfg m s))"
    by (auto simp: register_user_query_def purge_expired_eq upsert_turn_state_def turn_depths_ok_def
        upsert_row_def turn_merge_def)
qed

lemma validate_depths_ok: "preserves (turn_depths_ok cfg) (validate_correlation e cfg m)"
proof (rule preservesI)
  fix s :: "'z db_scheme" assume ok: "turn_depths_ok cfg s"
  have "0 \<le> tu_depth t" if "get_turn_state r s = Some t" for r t
    using that ok lookup_row_SomeD by (fastforce simp: get_turn_state_def turn_depths_ok_def)
  with ok show "turn_depths_ok cfg (snd (validate_correlation e cfg m s))"
    by (auto simp: validate_correlation_def delete_turn_state_def update_turn_state_activity_def
        purge_expired_eq turn_depths_ok_def update_rows_def split: option.splits)
qed

section \<open>Transport\<close>

lemma unbind_removes:
  assumes "unbind c s = (r, s')"
  shows "c \<notin> snd ` set (agent_connections s')" and "map_of (conn_writers s') c = None"
  using assms by (auto simp: unbind_def)

lemma map_of_filter_values:
  "distinct (map fst d) \<Longrightarrow> map_of d k = Some v \<Longrightarrow> P v \<Longrightarrow> map_of (filter (\<lambda>(k, v). P v) d) k = Some v"
  by (induction d) (auto split: if_splits dest: map_of_SomeD)

lemma deliver_True:
  "deliver a v m s = (Inr True, s') \<longleftrightarrow>
     (\<exists>c w. agent_writer a v s = Some (c, w) \<and> \<not> wr_closing w \<and> \<not> wr_broken w
        \<and> s' = s\<lparr>conn_writers := dput c (w\<lparr>wr_sent := wr_sent w @ [m]\<rparr>) (conn_writers s)\<rparr>)"
  by (auto simp: deliver_def split: option.splits if_splits)

lemma deliver_False: "deliver a v m s = (Inr False, s') \<Longrightarrow> s' = s"
  by (auto simp: deliver_def split: option.splits if_splits)

lemma agent_writer_after:
  assumes "agent_writer a v s = Some (c, w)"
  shows "agent_writer a v (s\<lparr>conn_writers := dput c w' (conn_writers s)\<rparr>) = Some (c, w')"
  using assms by (auto simp: agent_writer_def split: option.splits)

section \<open>Flushing the offline queue\<close>

definition mark_rows :: "time \<Rightarrow> string set \<Rightarrow> replay_row list \<Rightarrow> replay_row list" where
  "mark_rows t ids rows =
     update_rows (\<lambda>r. pr_id r \<in> ids \<and> pr_delivered_at r = None) (\<lambda>r. r\<lparr>pr_delivered_at := Some t\<rparr>) rows"

lemma mark_rows_insert: "mark_rows t ids (mark_rows t {i} rows) = mark_rows t (insert i ids) rows"
  by (auto simp: mark_rows_def update_rows_def)

lemma agent_writer_cong:
  "agent_connections s = agent_connections s' \<Longrightarrow> conn_writers s = conn_writers s' \<Longrightarrow>
    agent_writer a v s = agent_writer a v s'"
  by (simp add: agent_writer_def cong: option.case_cong)

lemma flush_rows_delivers:
  assumes "agent_writer a v s = Some (c, w)" and "\<not> wr_closing w" and "\<not> wr_broken w"
    and "\<And>r. r \<in> set rows \<Longrightarrow> validate_message e (pr_message r) = Inr (f r)"
  shows "\<exists>s'. flush_rows e a v rows n s = (Inr (n + length rows), s')
     \<and> agent_writer a v s' = Some (c, w\<lparr>wr_sent := wr_sent w @ map f rows\<rparr>)
     \<and> pending_replay s' = mark_rows (now e) (pr_id ` set rows) (pending_replay s)"
  using assms
proof (induction rows arbitrary: s w n)
  case Nil
  then show ?case by (simp add: mark_rows_def update_rows_def)
next
  case (Cons row rows)
  define w1 where "w1 = w\<lparr>wr_sent := wr_sent w @ [f row]\<rparr>"
  define s1 where "s1 = s\<lparr>conn_writers := dput c w1 (conn_writers s)\<rparr>"
  define s2 where "s2 = s1\<lparr>pending_replay := mark_rows (now e) {pr_id row} (pending_replay s)\<rparr>"
  let ?log = "log_security_event e ''pending_replay_delivered''
                    [(''vm_id'', JStr v), (''elevation_id'', JStr (pr_elevation_id row)),
                     (''grant_id'', JStr (pr_grant_id row)), (''message_type'', JStr (msg_type (f row))),
                     (''pending_replay_id'', JStr (pr_id row))]
                    (Some (msg_correlation_id (f row))) None (Some a) None None []"
  obtain s3 where lg: "?log s2 = (Inr (), s3)"
    and s3: "agent_connections s3 = agent_connections s2" "conn_writers s3 = conn_writers s2"
      "pending_replay s3 = pending_replay s2"
    unfolding log_security_event_def audit_insert_def by simp
  have d: "deliver a v (f row) s = (Inr True, s1)"
    unfolding deliver_True s1_def w1_def using Cons.prems by auto
  have m: "thenA (mark_pending_replay_delivered (pr_id row) (now e)) (ret ()) s1 = (Inr (), s2)"
    by (simp add: mark_pending_replay_delivered_def s2_def s1_def mark_rows_def Let_def)
  have w3: "agent_writer a v s3 = Some (c, w1)"
    using agent_writer_after [OF Cons.prems(1), of w1] agent_writer_cong [of s3 s2 a v] s3
      agent_writer_cong [of s2 s1 a v] by (simp add: s2_def s1_def)
  have step: "flush_rows e a v (row # rows) n s = flush_rows e a v rows (Suc n) s3"
    using Cons.prems(4) [of row] d m lg by simp
  from Cons.IH [OF w3, where n = "Suc n"] Cons.prems show ?case
    unfolding step by (auto simp: w1_def s3 s2_def mark_rows_insert)
qed

lemma flush_drains:
  assumes "agent_writer a v s = Some (c, w)" and "\<not> wr_closing w" and "\<not> wr_broken w"
    and "\<And>r. r \<in> set (list_pending_replays a v s) \<Longrightarrow> validate_message e (pr_message r) = Inr (f r)"
  shows "\<exists>s'. flush_for_vm e a v s = (Inr (length (list_pending_replays a v s)), s')
     \<and> agent_writer a v s' = Some (c, w\<lparr>wr_sent := wr_sent w @ map f (list_pending_replays a v s)\<rparr>)
     \<and> list_pending_replays a v s' = []"
proof -
  let ?p = "list_pending_replays a v s"
  obtain s' where s': "flush_rows e a v ?p 0 s = (Inr (length ?p), s')"
    "agent_writer a v s' = Some (c, w\<lparr>wr_sent := wr_sent w @ map f ?p\<rparr>)"
    "pending_replay s' = mark_rows (now e) (pr_id ` set ?p) (pending_replay s)"
    using flush_rows_delivers [OF assms, where n = 0] by auto
  have empty: "list_pending_replays a v s' = []"
    by (subst set_empty [symmetric])
      (auto simp: list_pending_replays_def s'(3) mark_rows_def update_rows_def simp del: set_empty split: if_splits)
  show ?thesis
  proof (cases "?p = []")
    case True
    then show ?thesis using assms(1) by (simp add: flush_for_vm_def)
  next
    case False
    with s' empty show ?thesis by (simp add: flush_for_vm_def)
  qed
qed

end
