(* ===== verification/Handshake.thy ===== *)
theory Handshake
  imports Sessions
begin

text \<open>
  The boot-time handshake of \<^verbatim>\<open>server/handshake.py\<close>: a node proves that it runs the registered
  manifest, and receives a session token with the policy snapshot of \<^verbatim>\<open>protocol/models.py\<close>.
  The payload is untrusted JSON, so the agent and VM identifiers are JSON values until pydantic
  or the database has accepted them.
\<close>

section \<open>Untrusted identifiers\<close>

text \<open>\<^verbatim>\<open>make_error_message\<close> with identifiers that \<^verbatim>\<open>MessageSource\<close> still has to accept.\<close>

definition make_error_for ::
  "env \<Rightarrow> error_code \<Rightarrow> string \<Rightarrow> bool \<Rightarrow> json \<Rightarrow> json \<Rightarrow> obj \<Rightarrow> framework_message \<Rightarrow> framework_message res" where
  "make_error_for e code text recoverable agent_id vm_id details m =
     bindE (pyd_str agent_id) (\<lambda>a.
     bindE (pyd_str (py_or vm_id (JStr ''server''))) (\<lambda>v.
     Inr (make_error_message e code LSERVER text recoverable a v (msg_correlation_id m) CORVUS_NODE details
            (Some (msg_id m)))))"

text \<open>The elements of a Python set in insertion order: the first of equal elements stays.\<close>

fun py_dedup :: "json list \<Rightarrow> json list" where
  "py_dedup [] = []"
| "py_dedup (x # xs) = x # filter (\<lambda>y. \<not> py_eq x y) (py_dedup xs)"

fun str_of :: "json \<Rightarrow> string" where
  "str_of (JStr s) = s"
| "str_of _ = []"

definition is_JStr :: "json \<Rightarrow> bool" where
  "is_JStr v \<longleftrightarrow> v = JStr (str_of v)"

text \<open>\<^verbatim>\<open>sorted(s)\<close> of a set: strings compare with strings and numbers with numbers.\<close>

definition py_sorted :: "json list \<Rightarrow> json list res" where
  "py_sorted xs =
     (let ys = py_dedup xs in
      if length ys \<le> 1 then Inr ys
      else if list_all is_JStr ys then Inr (sort_key str_of ys)
      else if list_all (\<lambda>y. json_num y \<noteq> None) ys then Inr (sort_key (\<lambda>y. the (json_num y)) ys)
      else Inl TypeError)"

section \<open>The policy snapshot\<close>

definition rate_limit_json :: "int \<Rightarrow> int \<Rightarrow> json" where
  "rate_limit_json per_sec burst = JObj [(''messages_per_sec'', JInt per_sec), (''burst'', JInt burst)]"

definition DEFAULT_POLICY_SNAPSHOT :: obj where
  "DEFAULT_POLICY_SNAPSHOT =
     [(''version'', JStr ''1.0''),
      (''rate_limits'', JObj
         [(''engine1'', rate_limit_json 10 20), (''engine2'', rate_limit_json 10 20),
          (''engine3'', rate_limit_json 5 10), (''engine4'', rate_limit_json 10 20),
          (''loop'', rate_limit_json 20 40)]),
      (''allowed_message_types'', JObj
         [(''engine1'', JArr [JStr ''tool_call'', JStr ''tool_result'']),
          (''engine2'', JArr [JStr ''user_query'', JStr ''agent_response'']),
          (''engine3'', JArr [JStr ''llm_request'', JStr ''llm_response'']),
          (''engine4'', JArr [JStr ''memory:query'', JStr ''memory:write'', JStr ''memory:delete'',
             JStr ''memory:grant_request''])])]"

fun obj_keys :: "json \<Rightarrow> string list res" where
  "obj_keys (JObj d) = Inr (map fst d)"
| "obj_keys _ = Inl AttributeError"

definition engine_entry :: "json \<Rightarrow> string \<Rightarrow> string \<Rightarrow> json res" where
  "engine_entry engs engine k = bindE (jget engs engine (JObj [])) (\<lambda>en. jget en k (JArr []))"

definition policy_snapshot :: "string \<Rightarrow> obj \<Rightarrow> obj res" where
  "policy_snapshot ruleset_hash manifest =
     (let engs = oget_or manifest ''engines'' (JObj []) in
      bindE (obj_keys engs) (\<lambda>names.
      bindE (engine_entry engs ''engine1'' ''tools'') (\<lambda>tools.
      bindE (engine_entry engs ''engine3'' ''allowed_providers'') (\<lambda>providers.
      bindE (engine_entry engs ''engine3'' ''allowed_models'') (\<lambda>models.
      bindE (engine_entry engs ''engine4'' ''namespaces'') (\<lambda>namespaces.
      Inr (omerge DEFAULT_POLICY_SNAPSHOT
        [(''ruleset_hash'', JStr ruleset_hash), (''manifest_engines'', JArr (map JStr (sort names))),
         (''engine1_tools'', tools), (''engine3_providers'', providers), (''engine3_models'', models),
         (''engine4_namespaces'', namespaces)])))))))"

section \<open>The handler\<close>

definition unknown_engines :: "agent_row \<Rightarrow> framework_message \<Rightarrow> json list res" where
  "unknown_engines agent m =
     bindE (py_set (py_or (pget m ''registered_engines'') (JArr []))) (\<lambda>registered.
     bindE (obj_keys (py_or (oget (ag_manifest agent) ''engines'') (JObj []))) (\<lambda>names.
     py_sorted (filter (\<lambda>x. x \<notin> JStr ` set names) registered)))"

definition handshake_reply ::
  "env \<Rightarrow> framework_message \<Rightarrow> string \<Rightarrow> time \<Rightarrow> obj \<Rightarrow> framework_message" where
  "handshake_reply e m token expires_at snapshot =
     new_message e ''handshake_reply''
       \<lparr>src_agent_id = ''corvus-server'', src_engine = CORVUS_NODE, src_vm_id = ''server''\<rparr>
       \<lparr>dst_type = TO_ENGINE, dst_target = engine_value CORVUS_NODE\<rparr>
       SYSTEM ''handshake'' (msg_correlation_id m) (mk_tags BY_SYSTEM None)
       [(''session_token'', JStr token), (''session_expires_at'', JStr (isoformat expires_at)),
        (''policy_snapshot'', JObj snapshot), (''server_time'', JStr (isoformat (now e)))]"

text \<open>The part of \<^verbatim>\<open>handle\<close> from the creation of the session on.\<close>

definition admit ::
  "env \<Rightarrow> server_config \<Rightarrow> string \<Rightarrow> bool \<Rightarrow> framework_message \<Rightarrow> int \<Rightarrow> agent_row \<Rightarrow> json \<Rightarrow> json
   \<Rightarrow> ('z conn_state_scheme, framework_message option) act" where
  "admit e cfg ruleset_hash has_transport m connection_id agent agent_id vm_id =
     bindA (liftR (sql_text agent_id)) (\<lambda>a.
     bindA (liftR (sql_text vm_id)) (\<lambda>v.
     bindA (open_session e cfg (the a) (the v)) (\<lambda>(token, expires_at).
     thenA (bind_connection connection_id token)
    (thenA (whenA has_transport (bind_agent agent_id vm_id connection_id))
      (if msg_class m = SYSTEM \<and> msg_type m = ''handshake'' then
         (if truthy (pget m ''ack'') then ret None
          else bindA (liftR (policy_snapshot ruleset_hash (ag_manifest agent))) (\<lambda>snapshot.
                 ret (Some (handshake_reply e m token expires_at snapshot))))
       else bindA (liftR (make_error_for e NODE_VALIDATION_FAILED ''Invalid handshake message'' True
                            agent_id vm_id [] m)) (\<lambda>r. ret (Some r)))))))"

definition hs_agent_id :: "framework_message \<Rightarrow> json" where
  "hs_agent_id m = py_or (pget m ''agent_id'') (JStr (m_agent m))"

definition hs_vm_id :: "framework_message \<Rightarrow> json" where
  "hs_vm_id m = py_or (pget m ''vm_instance_id'') (JStr (m_vm m))"

definition handshake_handle ::
  "env \<Rightarrow> server_config \<Rightarrow> string \<Rightarrow> bool \<Rightarrow> framework_message \<Rightarrow> int
   \<Rightarrow> ('z conn_state_scheme, framework_message option) act" where
  "handshake_handle e cfg ruleset_hash has_transport m connection_id =
     (let agent_id = hs_agent_id m; vm_id = hs_vm_id m; manifest_hash = pget m ''manifest_hash'';
          err = (\<lambda>code text recoverable details.
            bindA (liftR (make_error_for e code text recoverable agent_id vm_id details m)) (\<lambda>r. ret (Some r)))
      in
      if \<not> truthy manifest_hash \<or> \<not> truthy agent_id then
        bindA (liftR (make_error_for e NODE_VALIDATION_FAILED ''Handshake missing manifest_hash or agent_id'' True
                 (py_or agent_id (JStr ''unknown'')) (py_or vm_id (JStr ''unknown'')) [] m)) (\<lambda>r. ret (Some r))
      else bindA (liftR (sql_text agent_id)) (\<lambda>key.
        bindA (getS (get_agent (the key))) (\<lambda>agent.
          case agent of
            None \<Rightarrow> err SERVER_SESSION_INVALID ''Unknown agent or manifest hash mismatch'' False []
          | Some a \<Rightarrow>
              if JStr (ag_manifest_hash a) \<noteq> manifest_hash then
                err SERVER_SESSION_INVALID ''Unknown agent or manifest hash mismatch'' False []
              else bindA (liftR (unknown_engines a m)) (\<lambda>unknown.
                if unknown \<noteq> [] then
                  err NODE_VALIDATION_FAILED ''Handshake registered engines outside launch manifest'' False
                    [(''unknown_engines'', JArr unknown)]
                else admit e cfg ruleset_hash has_transport m connection_id a agent_id vm_id))))"

definition send_ack :: "env \<Rightarrow> framework_message \<Rightarrow> string \<Rightarrow> framework_message" where
  "send_ack e original token =
     new_message e ''handshake_ack''
       \<lparr>src_agent_id = m_agent original, src_engine = CORVUS_NODE, src_vm_id = m_vm original\<rparr>
       \<lparr>dst_type = CORVUS_SERVER, dst_target = ''corvus_server''\<rparr>
       RESPONSE ''handshake'' (msg_correlation_id original) (mk_tags BY_SYSTEM None)
       [(''ack'', JBool True), (''_session'', JObj [(''token'', JStr token)])]"

section \<open>Facts\<close>

lemma admit_ok [pres_intro]: "preserves db_ok (admit e cfg rh tr m c a ja jv)"
  unfolding admit_def by (intro pres_intro)

lemma handshake_handle_ok [pres_intro]: "preserves db_ok (handshake_handle e cfg rh tr m c)"
  unfolding handshake_handle_def Let_def by (intro pres_intro)

text \<open>What the handler has checked when it admits a connection.\<close>

definition admissible :: "framework_message \<Rightarrow> agent_row \<Rightarrow> 'z db_scheme \<Rightarrow> bool" where
  "admissible m a s \<longleftrightarrow> (\<exists>key. sql_text (hs_agent_id m) = Inr (Some key) \<and> get_agent key s = Some a)
     \<and> pget m ''manifest_hash'' = JStr (ag_manifest_hash a) \<and> ag_manifest_hash a \<noteq> []
     \<and> truthy (hs_agent_id m) \<and> unknown_engines a m = Inr []"

lemma py_dedup_Nil [simp]: "py_dedup xs = [] \<longleftrightarrow> xs = []"
  by (cases xs) simp_all

lemma py_sorted_Nil: "py_sorted xs = Inr [] \<Longrightarrow> xs = []"
  by (auto simp: py_sorted_def Let_def split: if_splits dest!: arg_cong [of _ _ length])

text \<open>No unknown engine: every engine the node registered is one of the manifest's.\<close>

lemma unknown_engines_Nil:
  assumes "unknown_engines a m = Inr []"
  obtains registered names where "py_set (py_or (pget m ''registered_engines'') (JArr [])) = Inr registered"
    and "obj_keys (py_or (oget (ag_manifest a) ''engines'') (JObj [])) = Inr names"
    and "set registered \<subseteq> JStr ` set names"
proof -
  from assms obtain r n where rn: "py_set (py_or (pget m ''registered_engines'') (JArr [])) = Inr r"
      "obj_keys (py_or (oget (ag_manifest a) ''engines'') (JObj [])) = Inr n"
    and none: "py_sorted (filter (\<lambda>x. x \<notin> JStr ` set n) r) = Inr []"
    by (auto simp: unknown_engines_def)
  from py_sorted_Nil [OF none] have "set r \<subseteq> JStr ` set n" by (auto simp: filter_empty_conv)
  with rn show thesis by (rule that)
qed

lemma sql_text_truthy: "truthy v \<Longrightarrow> sql_text v = Inr k \<Longrightarrow> \<exists>t. k = Some t"
  by (cases v) auto

text \<open>Either the handler admits, or it leaves the state alone.\<close>

lemma handshake_handle_cases:
  obtains (admitted) a where "admissible m a s"
      and "handshake_handle e cfg rh tr m c s = admit e cfg rh tr m c a (hs_agent_id m) (hs_vm_id m) s"
    | (refused) "snd (handshake_handle e cfg rh tr m c s) = s"
proof (cases "\<exists>a. admissible m a s")
  case True
  then obtain a where a: "admissible m a s" by blast
  then show ?thesis
    by (intro admitted [of a]) (auto simp: admissible_def handshake_handle_def Let_def)
next
  case False
  then have "\<not> (truthy (pget m ''manifest_hash'') \<and> truthy (hs_agent_id m) \<and> sql_text (hs_agent_id m) = Inr k
      \<and> get_agent (the k) s = Some a \<and> JStr (ag_manifest_hash a) = pget m ''manifest_hash''
      \<and> unknown_engines a m = Inr [])" for k a
    unfolding admissible_def by (metis option.sel sql_text_truthy truthy.simps(5))
  then have "snd (handshake_handle e cfg rh tr m c s) = s"
    by (auto simp: handshake_handle_def Let_def bindA_def split: sum.splits option.splits)
  then show ?thesis by (rule refused)
qed

end
