(* ===== verification/Node_Validator.thy ===== *)
theory Node_Validator
  imports Handshake
begin

text \<open>
  The outbound checks of the node inside the agent VM: the token bucket of \<^verbatim>\<open>node/rate_limit.py\<close> and
  the validation pipeline of \<^verbatim>\<open>node/validator.py\<close>.  The monotonic clock an operation reads is its
  argument, in seconds.  The policy snapshot comes over the wire, so it is a JSON value and its
  lookups can raise.
\<close>

section \<open>Token bucket\<close>

record token_bucket =
  tb_rate :: real
  tb_burst :: int
  tb_tokens :: real
  tb_last_refill :: real

definition new_bucket :: "real \<Rightarrow> real \<Rightarrow> int \<Rightarrow> token_bucket" where
  "new_bucket t rate burst =
     \<lparr>tb_rate = rate, tb_burst = burst, tb_tokens = of_int burst, tb_last_refill = t\<rparr>"

definition consume :: "real \<Rightarrow> token_bucket \<Rightarrow> bool \<times> token_bucket" where
  "consume t b =
     (let elapsed = t - tb_last_refill b;
          tokens = min (of_int (tb_burst b)) (tb_tokens b + elapsed * tb_rate b);
          b' = b\<lparr>tb_last_refill := t, tb_tokens := tokens\<rparr>
      in if tokens \<ge> 1 then (True, b'\<lparr>tb_tokens := tokens - 1\<rparr>) else (False, b'))"

definition bucket_ok :: "token_bucket \<Rightarrow> bool" where
  "bucket_ok b \<longleftrightarrow> 0 \<le> tb_rate b \<and> 0 \<le> tb_tokens b \<and> tb_tokens b \<le> of_int (tb_burst b)"

section \<open>What a rate limiter promises\<close>

text \<open>The number of requests a limiter lets through.\<close>

fun admitted :: "('i \<Rightarrow> 's \<Rightarrow> bool \<times> 's) \<Rightarrow> 'i list \<Rightarrow> 's \<Rightarrow> nat" where
  "admitted step [] s = 0"
| "admitted step (i # is) s = (case step i s of (ok, s') \<Rightarrow> of_bool ok + admitted step is s')"

text \<open>A limiter has a level that an admitted request lowers by one and that time raises at a fixed
  rate.  Then what it admits is bounded by the level it starts with and the time that passes.\<close>

locale rate_limiter =
  fixes step :: "'i \<Rightarrow> 's \<Rightarrow> bool \<times> 's"
    and time_of :: "'i \<Rightarrow> real"
    and clock :: "'s \<Rightarrow> real"
    and level :: "'s \<Rightarrow> real"
    and rate :: "'s \<Rightarrow> real"
    and inv :: "'s \<Rightarrow> bool"
  assumes step_pays: "\<And>i s ok s'. inv s \<Longrightarrow> clock s \<le> time_of i \<Longrightarrow> step i s = (ok, s') \<Longrightarrow>
      inv s' \<and> rate s' = rate s \<and> clock s \<le> clock s' \<and> clock s' \<le> time_of i
      \<and> level s' + of_bool ok \<le> level s + rate s * (clock s' - clock s)"
    and inv_nonneg: "\<And>s. inv s \<Longrightarrow> 0 \<le> level s \<and> 0 \<le> rate s"
begin

lemma admitted_bound:
  assumes "inv s" and "sorted (map time_of is)" and "\<And>i. i \<in> set is \<Longrightarrow> clock s \<le> time_of i \<and> time_of i \<le> T"
    and "clock s \<le> T"
  shows "real (admitted step is s) \<le> level s + rate s * (T - clock s)"
  using assms
proof (induction "is" arbitrary: s)
  case Nil
  then show ?case using inv_nonneg [of s] by simp
next
  case (Cons i "is")
  obtain ok s' where st: "step i s = (ok, s')" by (cases "step i s")
  from step_pays [OF Cons.prems(1) _ st] Cons.prems(3) [of i]
  have pay: "inv s'" "rate s' = rate s" "clock s' \<le> time_of i" "time_of i \<le> T"
    and le: "level s' + of_bool ok \<le> level s + rate s * (clock s' - clock s)" by auto
  from pay Cons.prems(2,3) have "real (admitted step is s') \<le> level s' + rate s' * (T - clock s')"
    by (intro Cons.IH) (force simp: Ball_def)+
  with le pay(2) show ?case by (simp add: st algebra_simps)
qed

end

lemma consume_pays:
  assumes "bucket_ok b" and "tb_last_refill b \<le> t" and "consume t b = (ok, b')"
  shows "bucket_ok b' \<and> tb_rate b' = tb_rate b \<and> tb_burst b' = tb_burst b \<and> tb_last_refill b' = t
     \<and> tb_tokens b' + of_bool ok \<le> tb_tokens b + tb_rate b * (t - tb_last_refill b)"
proof -
  from assms have "0 \<le> (t - tb_last_refill b) * tb_rate b" by (simp add: bucket_ok_def)
  with assms show ?thesis
    by (auto simp: consume_def bucket_ok_def Let_def min_def mult.commute split: if_splits)
qed

interpretation bucket: rate_limiter consume "\<lambda>t. t" tb_last_refill tb_tokens tb_rate bucket_ok
proof unfold_locales
  fix t b ok b'
  assume "bucket_ok b" and "tb_last_refill b \<le> t" and "consume t b = (ok, b')"
  from consume_pays [OF this] this(2)
  show "bucket_ok b' \<and> tb_rate b' = tb_rate b \<and> tb_last_refill b \<le> tb_last_refill b' \<and> tb_last_refill b' \<le> t
     \<and> tb_tokens b' + of_bool ok \<le> tb_tokens b + tb_rate b * (tb_last_refill b' - tb_last_refill b)" by simp
qed (simp add: bucket_ok_def)

text \<open>A bucket that was left alone for the time one token takes admits the next request.\<close>

lemma consume_after_pause:
  assumes "bucket_ok b" and "0 < tb_rate b" and "1 \<le> tb_burst b" and "1 / tb_rate b \<le> t - tb_last_refill b"
  shows "fst (consume t b)"
proof -
  from assms(2,4) have "1 \<le> (t - tb_last_refill b) * tb_rate b" by (simp add: pos_divide_le_eq)
  with assms(1,3) show ?thesis by (auto simp: consume_def bucket_ok_def Let_def)
qed

section \<open>The validator\<close>

record validator =
  vl_policy :: json
  vl_buckets :: "(string \<times> token_bucket) list"

fun obj_items :: "json \<Rightarrow> obj res" where
  "obj_items (JObj d) = Inr d"
| "obj_items _ = Inl AttributeError"

definition add_bucket :: "real \<Rightarrow> string \<times> json \<Rightarrow> ('z validator_scheme, unit) act" where
  "add_bucket t entry = (case entry of (engine, cfg) \<Rightarrow>
     bindA (liftR (bindE (jget cfg ''messages_per_sec'' (JInt 10)) py_float)) (\<lambda>rate.
     bindA (liftR (bindE (jget cfg ''burst'' (JInt 20)) py_int)) (\<lambda>burst.
     modS (\<lambda>s. s\<lparr>vl_buckets := oset engine (new_bucket t rate burst) (vl_buckets s)\<rparr>))))"

definition init_buckets :: "real \<Rightarrow> ('z validator_scheme, unit) act" where
  "init_buckets t = bindA (getS vl_policy) (\<lambda>p.
     bindA (liftR (jget p ''rate_limits'' (JObj []))) (\<lambda>limits.
     thenA (modS (\<lambda>s. s\<lparr>vl_buckets := []\<rparr>))
    (bindA (liftR (obj_items limits)) (\<lambda>items. forA items (add_bucket t)))))"

definition update_policy :: "real \<Rightarrow> json \<Rightarrow> ('z validator_scheme, unit) act" where
  "update_policy t snapshot = thenA (modS (\<lambda>s. s\<lparr>vl_policy := snapshot\<rparr>)) (init_buckets t)"

definition allowed_types :: "engine_id \<Rightarrow> 'z validator_scheme \<Rightarrow> json list res" where
  "allowed_types engine s =
     bindE (jget (vl_policy s) ''allowed_message_types'' (JObj [])) (\<lambda>allowed.
     bindE (jget allowed (engine_value engine) (JArr [])) py_iter)"

definition engine_policy_subset :: "engine_id \<Rightarrow> 'z validator_scheme \<Rightarrow> obj res" where
  "engine_policy_subset engine s =
     (let key = engine_value engine in
      bindE (jget (vl_policy s) ''version'' (JStr ''1.0'')) (\<lambda>version.
      bindE (jget (vl_policy s) ''rate_limits'' (JObj [])) (\<lambda>limits.
      bindE (jget limits key (rate_limit_json 10 20)) (\<lambda>limit.
      bindE (allowed_types engine s) (\<lambda>types.
      Inr [(''version'', version), (''rate_limits'', JObj [(key, limit)]),
           (''allowed_message_types'', JObj [(key, JArr types)])])))))"

definition node_error ::
  "env \<Rightarrow> error_code \<Rightarrow> string \<Rightarrow> bool \<Rightarrow> string \<Rightarrow> string \<Rightarrow> framework_message \<Rightarrow> engine_id \<Rightarrow> framework_message" where
  "node_error e code text recoverable agent_id vm_id m target =
     make_error_message e code LNODE text recoverable agent_id vm_id (msg_correlation_id m) target [] (Some (msg_id m))"

text \<open>\<^verbatim>\<open>bucket is not None and not bucket.consume()\<close>, negated.\<close>

definition take_token :: "real \<Rightarrow> string \<Rightarrow> ('z validator_scheme, bool) act" where
  "take_token t key = (\<lambda>s.
     case map_of (vl_buckets s) key of
       None \<Rightarrow> (Inr True, s)
     | Some b \<Rightarrow> (case consume t b of (ok, b') \<Rightarrow> (Inr ok, s\<lparr>vl_buckets := oset key b' (vl_buckets s)\<rparr>)))"

definition validate ::
  "env \<Rightarrow> real \<Rightarrow> framework_message \<Rightarrow> engine_id \<Rightarrow> bool \<Rightarrow> engine_id option \<Rightarrow> string \<Rightarrow> string
   \<Rightarrow> ('z validator_scheme, framework_message option) act" where
  "validate e t m registered handshake_complete claimed agent_id vm_id =
     (let err = (\<lambda>code text recoverable. ret (Some (node_error e code text recoverable agent_id vm_id m registered))) in
      if claimed \<noteq> None \<and> claimed \<noteq> Some registered then
        err NODE_ORIGIN_SPOOF ''Engine mismatch on IPC socket'' False
      else if \<not> handshake_complete \<and> \<not> (msg_type m = ''handshake'' \<and> registered = CORVUS_NODE) then
        err NODE_HANDSHAKE_INCOMPLETE ''Session not active; handshake required'' True
      else if registered = LOOP then
        (if dst_type (msg_destination m) = CORVUS_SERVER then
           err NODE_CAPABILITY_DENIED ''Agent loop cannot forward directly to Corvus Server'' True
         else ret None)
      else if dst_type (msg_destination m) \<noteq> CORVUS_SERVER then
        err NODE_VALIDATION_FAILED ''Outbound messages must target corvus_server'' True
      else bindA (getS (allowed_types registered)) (\<lambda>r. bindA (liftR r) (\<lambda>allowed.
        if JStr (msg_type m) \<notin> set allowed then
          err NODE_CAPABILITY_DENIED
            (''Message type '' @ [CHR 39] @ msg_type m @ [CHR 39] @ '' not allowed for '' @ engine_value registered) True
        else if prefix ''memory:'' (msg_type m) \<and> registered \<noteq> ENGINE4 then
          err NODE_CAPABILITY_DENIED ''Only engine4 may send memory:* messages'' True
        else bindA (take_token t (engine_value registered)) (\<lambda>ok.
          if \<not> ok then err NODE_RATE_LIMITED ''Rate limit exceeded'' True else ret None))))"

section \<open>What passes the validator\<close>

lemma validate_accepted:
  assumes "validate e t m reg hc claimed a v s = (Inr None, s')"
  shows "(claimed = None \<or> claimed = Some reg) \<and> (hc \<or> msg_type m = ''handshake'' \<and> reg = CORVUS_NODE)
     \<and> (reg = LOOP \<and> dst_type (msg_destination m) \<noteq> CORVUS_SERVER \<and> s' = s
        \<or> reg \<noteq> LOOP \<and> dst_type (msg_destination m) = CORVUS_SERVER
          \<and> (\<exists>allowed. allowed_types reg s = Inr allowed \<and> JStr (msg_type m) \<in> set allowed)
          \<and> (prefix ''memory:'' (msg_type m) \<longrightarrow> reg = ENGINE4)
          \<and> take_token t (engine_value reg) s = (Inr True, s'))"
  using assms unfolding validate_def
  by (auto simp: Let_def split: if_splits elim!: bindA_InrE)

lemma take_token_total: "\<exists>ok s'. take_token t key s = (Inr ok, s')"
  by (cases "map_of (vl_buckets s) key") (auto simp: take_token_def split: prod.split)

text \<open>A refusal leaves the validator as it is, except that a rate-limited message refills the bucket.\<close>

lemma validate_state:
  assumes "validate e t m reg hc claimed a v s = (r, s')"
  shows "s' = s \<or> reg \<noteq> LOOP \<and> (\<exists>ok. take_token t (engine_value reg) s = (Inr ok, s') \<and> (r = Inr None \<longleftrightarrow> ok))"
proof -
  obtain ok s1 where tk: "take_token t (engine_value reg) s = (Inr ok, s1)"
    using take_token_total by blast
  show ?thesis
    using assms tk unfolding validate_def
    by (cases "allowed_types reg s") (auto simp: Let_def split: if_splits)
qed

definition engine_bucket :: "engine_id \<Rightarrow> 'z validator_scheme \<Rightarrow> token_bucket" where
  "engine_bucket reg s = the (map_of (vl_buckets s) (engine_value reg))"

definition limited :: "engine_id \<Rightarrow> 'z validator_scheme \<Rightarrow> bool" where
  "limited reg s \<longleftrightarrow> reg \<noteq> LOOP \<and> (\<exists>b. map_of (vl_buckets s) (engine_value reg) = Some b \<and> bucket_ok b)"

lemma take_token_pays:
  assumes "limited reg s" and "tb_last_refill (engine_bucket reg s) \<le> t"
    and "take_token t (engine_value reg) s = (Inr ok, s')"
  shows "limited reg s' \<and> tb_rate (engine_bucket reg s') = tb_rate (engine_bucket reg s)
     \<and> tb_last_refill (engine_bucket reg s') = t
     \<and> tb_tokens (engine_bucket reg s') + of_bool ok
         \<le> tb_tokens (engine_bucket reg s) + tb_rate (engine_bucket reg s) * (t - tb_last_refill (engine_bucket reg s))"
proof -
  from assms(1) obtain b where b: "map_of (vl_buckets s) (engine_value reg) = Some b" "bucket_ok b" "reg \<noteq> LOOP"
    by (auto simp: limited_def)
  obtain ok' b' where c: "consume t b = (ok', b')" by (cases "consume t b")
  with assms(3) b(1) have s': "ok' = ok" "s' = s\<lparr>vl_buckets := oset (engine_value reg) b' (vl_buckets s)\<rparr>"
    by (simp_all add: take_token_def)
  from assms(2) b have "tb_last_refill b \<le> t" by (simp add: engine_bucket_def)
  from consume_pays [OF b(2) this c] b s' show ?thesis by (simp add: limited_def engine_bucket_def)
qed

text \<open>One submission as a step of a rate limiter: whether the validator lets it through.\<close>

record submission =
  sub_time :: real
  sub_message :: framework_message
  sub_handshake_complete :: bool
  sub_claimed :: "engine_id option"

definition submit_step ::
  "env \<Rightarrow> engine_id \<Rightarrow> string \<Rightarrow> string \<Rightarrow> submission \<Rightarrow> 'z validator_scheme \<Rightarrow> bool \<times> 'z validator_scheme" where
  "submit_step e reg a v i s =
     (case validate e (sub_time i) (sub_message i) reg (sub_handshake_complete i) (sub_claimed i) a v s of
        (r, s') \<Rightarrow> (r = Inr None, s'))"

lemma submit_step_cases:
  assumes "submit_step e reg a v i s = (ok, s')" and "reg \<noteq> LOOP"
  shows "s' = s \<and> (ok \<longrightarrow> take_token (sub_time i) (engine_value reg) s = (Inr ok, s'))
     \<or> take_token (sub_time i) (engine_value reg) s = (Inr ok, s')"
proof -
  obtain r where v: "validate e (sub_time i) (sub_message i) reg (sub_handshake_complete i) (sub_claimed i) a v s = (r, s')"
    and ok: "ok \<longleftrightarrow> r = Inr None"
    using assms(1) by (auto simp: submit_step_def split: prod.splits)
  show ?thesis
  proof (cases "r = Inr None")
    case True
    with validate_accepted [of e "sub_time i" "sub_message i" reg _ _ a v s s'] v ok assms(2) show ?thesis by simp
  next
    case False
    with validate_state [OF v] ok show ?thesis by auto
  qed
qed

interpretation outbound: rate_limiter "submit_step e reg a v" sub_time
    "\<lambda>s. tb_last_refill (engine_bucket reg s)" "\<lambda>s. tb_tokens (engine_bucket reg s)"
    "\<lambda>s. tb_rate (engine_bucket reg s)" "limited reg"
  for e reg a v
proof unfold_locales
  fix i :: submission and s s' :: "'z validator_scheme" and ok
  assume l: "limited reg s" and t: "tb_last_refill (engine_bucket reg s) \<le> sub_time i"
    and st: "submit_step e reg a v i s = (ok, s')"
  from l have "reg \<noteq> LOOP" by (simp add: limited_def)
  from submit_step_cases [OF st this] take_token_pays [OF l t] l t
  show "limited reg s' \<and> tb_rate (engine_bucket reg s') = tb_rate (engine_bucket reg s)
     \<and> tb_last_refill (engine_bucket reg s) \<le> tb_last_refill (engine_bucket reg s')
     \<and> tb_last_refill (engine_bucket reg s') \<le> sub_time i
     \<and> tb_tokens (engine_bucket reg s') + of_bool ok
        \<le> tb_tokens (engine_bucket reg s) + tb_rate (engine_bucket reg s)
           * (tb_last_refill (engine_bucket reg s') - tb_last_refill (engine_bucket reg s))"
    by (cases ok) fastforce+
next
  fix s :: "'z validator_scheme"
  assume "limited reg s"
  then show "0 \<le> tb_tokens (engine_bucket reg s) \<and> 0 \<le> tb_rate (engine_bucket reg s)"
    by (auto simp: limited_def engine_bucket_def bucket_ok_def)
qed

end
