(* ===== verification/Json_Text.thy ===== *)
theory Json_Text
  imports Py_Values
begin

text \<open>
  The texts of JSON values: \<^verbatim>\<open>json.dumps\<close> with its separators and the ASCII escapes, and \<^verbatim>\<open>json.loads\<close> as
  the scanner of the standard library works, with the round trip between them.

  Characters have codes below 256; an escape beyond them is refused, and so are the literals of infinities
  and of NaN.  The limits of the interpreter on nesting and on the digits of an integer are not modelled.
  A float is carried with the text \<^verbatim>\<open>repr\<close> gives for it, which for a literal that was read is the argument
  \<open>frepr\<close>.
\<close>

section \<open>Printing\<close>

definition backslash :: char where
  "backslash = char_of (92 :: nat)"

definition json_escape :: "char \<Rightarrow> string" where
  "json_escape c =
     (let n = of_char c :: nat in
      if c = double_quote \<or> c = backslash then [backslash, c]
      else if n = 10 then [backslash, CHR ''n'']
      else if n = 13 then [backslash, CHR ''r'']
      else if n = 9 then [backslash, CHR ''t'']
      else if n = 12 then [backslash, CHR ''f'']
      else if n = 8 then [backslash, CHR ''b'']
      else if n < 32 \<or> 126 < n
        then [backslash, CHR ''u'', CHR ''0'', CHR ''0'', hex_digit (n div 16), hex_digit (n mod 16)]
      else [c])"

text \<open>On integers the escape evaluates faster than on the unary natural numbers.\<close>

lemma json_escape_code [code]: "json_escape c =
     (let n = of_char c :: int in
      if c = double_quote \<or> c = backslash then [backslash, c]
      else if n = 10 then [backslash, CHR ''n'']
      else if n = 13 then [backslash, CHR ''r'']
      else if n = 9 then [backslash, CHR ''t'']
      else if n = 12 then [backslash, CHR ''f'']
      else if n = 8 then [backslash, CHR ''b'']
      else if n < 32 \<or> 126 < n
        then [backslash, CHR ''u'', CHR ''0'', CHR ''0'', hex_digit (nat n div 16), hex_digit (nat n mod 16)]
      else [c])"
proof -
  have n: "(of_char c :: int) = int (of_char c)" by (simp add: of_char_def)
  have "(int m = numeral k) = (m = numeral k)" "(int m < numeral k) = (m < numeral k)" "(numeral k < int m) = (numeral k < m)"
    for m k by simp_all
  then show ?thesis unfolding json_escape_def Let_def n nat_int by presburger
qed

definition json_string :: "string \<Rightarrow> string" where
  "json_string s = double_quote # concat (map json_escape s) @ [double_quote]"

text \<open>\<^verbatim>\<open>json.dumps(v, separators=(item, key))\<close>.\<close>

fun json_dumps :: "string \<Rightarrow> string \<Rightarrow> json \<Rightarrow> string" where
  "json_dumps isep ksep JNull = ''null''"
| "json_dumps isep ksep (JBool b) = (if b then ''true'' else ''false'')"
| "json_dumps isep ksep (JInt i) = int_str i"
| "json_dumps isep ksep (JFloat r t) = t"
| "json_dumps isep ksep (JStr s) = json_string s"
| "json_dumps isep ksep (JArr xs) = ''['' @ join isep (map (json_dumps isep ksep) xs) @ '']''"
| "json_dumps isep ksep (JObj d) =
     ''{'' @ join isep (map (\<lambda>(k, v). json_string k @ ksep @ json_dumps isep ksep v) d) @ ''}''"

section \<open>Scanning\<close>

definition json_ws :: "char \<Rightarrow> bool" where
  "json_ws c \<longleftrightarrow> (of_char c :: nat) \<in> {9, 10, 13, 32}"

definition skip_ws :: "string \<Rightarrow> string" where
  "skip_ws s = dropWhile json_ws s"

definition hex_val :: "char \<Rightarrow> nat option" where
  "hex_val c = map_of (zip ''0123456789abcdefABCDEF'' ([0..<16] @ [10..<16])) c"

definition hex4 :: "char \<Rightarrow> char \<Rightarrow> char \<Rightarrow> char \<Rightarrow> nat option" where
  "hex4 a b c d = (case (hex_val a, hex_val b, hex_val c, hex_val d) of
     (Some w, Some x, Some y, Some z) \<Rightarrow> Some (4096 * w + 256 * x + 16 * y + z) | _ \<Rightarrow> None)"

text \<open>The characters a two-character escape stands for.\<close>

definition simple_escape :: "char \<Rightarrow> char option" where
  "simple_escape c =
     (if c = double_quote \<or> c = backslash \<or> c = CHR ''/'' then Some c
      else if c = CHR ''b'' then Some (char_of (8 :: nat))
      else if c = CHR ''f'' then Some (char_of (12 :: nat))
      else if c = CHR ''n'' then Some (char_of (10 :: nat))
      else if c = CHR ''r'' then Some (char_of (13 :: nat))
      else if c = CHR ''t'' then Some (char_of (9 :: nat))
      else None)"

text \<open>The rest of a string after its opening quote, with the text after the closing one.\<close>

fun scan_string :: "string \<Rightarrow> (string \<times> string) option" where
  "scan_string [] = None"
| "scan_string (c # cs) =
     (if c = double_quote then Some ([], cs)
      else if c = backslash then
        (case cs of
           [] \<Rightarrow> None
         | d # ds \<Rightarrow>
             if d = CHR ''u'' then
               (case ds of
                  h1 # h2 # h3 # h4 # rest \<Rightarrow>
                    (case hex4 h1 h2 h3 h4 of
                       None \<Rightarrow> None
                     | Some n \<Rightarrow> if n < 256 then map_option (\<lambda>(t, r). (char_of n # t, r)) (scan_string rest) else None)
                | _ \<Rightarrow> None)
             else
               (case simple_escape d of
                  None \<Rightarrow> None
                | Some x \<Rightarrow> map_option (\<lambda>(t, r). (x # t, r)) (scan_string ds)))
      else if (of_char c :: nat) < 32 then None
      else map_option (\<lambda>(t, r). (c # t, r)) (scan_string cs))"

definition is_digit :: "char \<Rightarrow> bool" where
  "is_digit c \<longleftrightarrow> c \<in> set ''0123456789''"

text \<open>The parts of \<^verbatim>\<open>-?(0|[1-9][0-9]*)(\.[0-9]+)?([eE][-+]?[0-9]+)?\<close>, each with the text after it.\<close>

definition scan_minus :: "string \<Rightarrow> string \<times> string" where
  "scan_minus s = (case s of c # r \<Rightarrow> if c = CHR ''-'' then ([c], r) else ([], s) | [] \<Rightarrow> ([], s))"

definition scan_whole :: "string \<Rightarrow> (string \<times> string) option" where
  "scan_whole s = (case s of
     [] \<Rightarrow> None
   | c # r \<Rightarrow> if c = CHR ''0'' then Some ([c], r)
             else if is_digit c then Some (takeWhile is_digit s, dropWhile is_digit s) else None)"

definition scan_fraction :: "string \<Rightarrow> string \<times> string" where
  "scan_fraction s = (case s of
     c # d # r \<Rightarrow> if c = CHR ''.'' \<and> is_digit d then (c # takeWhile is_digit (d # r), dropWhile is_digit (d # r)) else ([], s)
   | _ \<Rightarrow> ([], s))"

definition scan_sign :: "string \<Rightarrow> string \<times> string" where
  "scan_sign s = (case s of c # r \<Rightarrow> if c \<in> {CHR ''-'', CHR ''+''} then ([c], r) else ([], s) | [] \<Rightarrow> ([], s))"

definition scan_exponent :: "string \<Rightarrow> string \<times> string" where
  "scan_exponent s = (case s of
     [] \<Rightarrow> ([], s)
   | c # r \<Rightarrow>
       if c \<in> {CHR ''e'', CHR ''E''} then
         (case scan_sign r of (sign, rest) \<Rightarrow>
            if rest \<noteq> [] \<and> is_digit (hd rest)
            then (c # sign @ takeWhile is_digit rest, dropWhile is_digit rest) else ([], s))
       else ([], s))"

definition scan_number :: "(string \<Rightarrow> string) \<Rightarrow> string \<Rightarrow> (json \<times> string) option" where
  "scan_number frepr s =
     (case scan_minus s of (sgn_text, s1) \<Rightarrow>
      case scan_whole s1 of
        None \<Rightarrow> None
      | Some (whole, s2) \<Rightarrow>
          case scan_fraction s2 of (fraction, s3) \<Rightarrow>
          case scan_exponent s3 of (ex, s4) \<Rightarrow>
            if fraction = [] \<and> ex = []
            then map_option (\<lambda>i. (JInt i, s4)) (parse_int (sgn_text @ whole))
            else (let lit = sgn_text @ whole @ fraction @ ex in
                  map_option (\<lambda>r. (JFloat r (frepr lit), s4)) (parse_float lit)))"

text \<open>\<^verbatim>\<open>s.startswith(p)\<close> with the text after it.\<close>

definition after :: "string \<Rightarrow> string \<Rightarrow> string option" where
  "after p s = (if take (length p) s = p then Some (drop (length p) s) else None)"

text \<open>The dictionary of a list of pairs: a later pair replaces the value of an earlier one.\<close>

definition obj_of_pairs :: "(string \<times> json) list \<Rightarrow> obj" where
  "obj_of_pairs ps = omerge [] ps"

text \<open>The scanner on a text without leading space.  An element of a list is followed by a comma or by
  the closing bracket; the fuel bounds the calls.\<close>

fun scan_value :: "(string \<Rightarrow> string) \<Rightarrow> nat \<Rightarrow> string \<Rightarrow> (json \<times> string) option"
and scan_items :: "(string \<Rightarrow> string) \<Rightarrow> nat \<Rightarrow> string \<Rightarrow> (json list \<times> string) option"
and scan_pairs :: "(string \<Rightarrow> string) \<Rightarrow> nat \<Rightarrow> string \<Rightarrow> ((string \<times> json) list \<times> string) option" where
  "scan_value frepr 0 s = None"
| "scan_value frepr (Suc n) s =
     (case s of
        [] \<Rightarrow> None
      | c # cs \<Rightarrow>
          if c = double_quote then map_option (\<lambda>(t, r). (JStr t, r)) (scan_string cs)
          else if c = CHR ''['' then
            (case skip_ws cs of
               [] \<Rightarrow> None
             | d # ds \<Rightarrow> if d = CHR '']'' then Some (JArr [], ds)
                        else map_option (\<lambda>(vs, r). (JArr vs, r)) (scan_items frepr n (d # ds)))
          else if c = CHR ''{'' then
            (case skip_ws cs of
               [] \<Rightarrow> None
             | d # ds \<Rightarrow> if d = CHR ''}'' then Some (JObj [], ds)
                        else map_option (\<lambda>(ps, r). (JObj (obj_of_pairs ps), r)) (scan_pairs frepr n (d # ds)))
          else
            (case after ''null'' s of Some r \<Rightarrow> Some (JNull, r) | None \<Rightarrow>
             case after ''true'' s of Some r \<Rightarrow> Some (JBool True, r) | None \<Rightarrow>
             case after ''false'' s of Some r \<Rightarrow> Some (JBool False, r) | None \<Rightarrow>
             scan_number frepr s))"
| "scan_items frepr 0 s = None"
| "scan_items frepr (Suc n) s =
     (case scan_value frepr n s of
        None \<Rightarrow> None
      | Some (v, r) \<Rightarrow>
          (case skip_ws r of
             [] \<Rightarrow> None
           | d # ds \<Rightarrow>
               if d = CHR '']'' then Some ([v], ds)
               else if d = CHR '','' then map_option (\<lambda>(vs, r'). (v # vs, r')) (scan_items frepr n (skip_ws ds))
               else None))"
| "scan_pairs frepr 0 s = None"
| "scan_pairs frepr (Suc n) s =
     (case s of
        [] \<Rightarrow> None
      | q # qs \<Rightarrow>
          if q \<noteq> double_quote then None
          else case scan_string qs of
            None \<Rightarrow> None
          | Some (k, r) \<Rightarrow>
              (case skip_ws r of
                 [] \<Rightarrow> None
               | c # cs \<Rightarrow>
                   if c \<noteq> CHR '':'' then None
                   else case scan_value frepr n (skip_ws cs) of
                     None \<Rightarrow> None
                   | Some (v, r') \<Rightarrow>
                       (case skip_ws r' of
                          [] \<Rightarrow> None
                        | d # ds \<Rightarrow>
                            if d = CHR ''}'' then Some ([(k, v)], ds)
                            else if d = CHR '','' then map_option (\<lambda>(ps, r''). ((k, v) # ps, r'')) (scan_pairs frepr n (skip_ws ds))
                            else None)))"

text \<open>\<^verbatim>\<open>json.loads(s)\<close>: every second call consumes a character, so the fuel suffices.\<close>

definition json_fuel :: "string \<Rightarrow> nat" where
  "json_fuel s = 2 * length s + 2"

definition json_loads :: "(string \<Rightarrow> string) \<Rightarrow> string \<Rightarrow> json option" where
  "json_loads frepr s =
     (case scan_value frepr (json_fuel s) (skip_ws s) of
        None \<Rightarrow> None
      | Some (v, r) \<Rightarrow> if skip_ws r = [] then Some v else None)"

section \<open>Strings\<close>

lemma hex_val_digit: "n < 16 \<Longrightarrow> hex_val (hex_digit n) = Some n"
proof -
  have "\<forall>n \<in> set [0..<16]. hex_val (hex_digit n) = Some n" by code_simp
  then show "n < 16 \<Longrightarrow> hex_val (hex_digit n) = Some n" by simp
qed

lemma hex4_byte: "n < 256 \<Longrightarrow> hex4 (CHR ''0'') (CHR ''0'') (hex_digit (n div 16)) (hex_digit (n mod 16)) = Some n"
proof -
  have "hex_val (CHR ''0'') = Some 0" by code_simp
  then show "n < 256 \<Longrightarrow> ?thesis" by (simp add: hex4_def hex_val_digit)
qed

lemma quote_chars: "double_quote = CHR 0x22" "backslash = CHR 0x5C"
  by code_simp+

lemma quote_backslash: "double_quote \<noteq> backslash" "of_char backslash = (92 :: nat)" "of_char double_quote = (34 :: nat)"
  by (simp_all add: double_quote_def backslash_def)

lemma char_of_code: "(of_char c :: nat) = n \<Longrightarrow> char_of n = c"
  by (metis char_of_char)

lemma scan_string_escape:
  "scan_string (json_escape c @ t) = map_option (\<lambda>(u, r). (c # u, r)) (scan_string t)"
proof -
  let ?n = "of_char c :: nat"
  have n: "?n < 256" by (simp add: nat_of_char_less_256)
  have u: "simple_escape (CHR ''n'') = Some (char_of (10 :: nat))" "simple_escape (CHR ''r'') = Some (char_of (13 :: nat))"
    "simple_escape (CHR ''t'') = Some (char_of (9 :: nat))" "simple_escape (CHR ''f'') = Some (char_of (12 :: nat))"
    "simple_escape (CHR ''b'') = Some (char_of (8 :: nat))" "CHR ''u'' \<noteq> backslash" "CHR ''u'' \<noteq> double_quote"
    by (simp_all add: simple_escape_def quote_chars)
  consider "c = double_quote \<or> c = backslash" | "?n = 10" | "?n = 13" | "?n = 9" | "?n = 12" | "?n = 8"
    | "c \<noteq> double_quote" "c \<noteq> backslash" "?n \<notin> {10, 13, 9, 12, 8}" by blast
  then show ?thesis
  proof cases
    case 1
    then show ?thesis using quote_backslash u by (auto simp: json_escape_def simple_escape_def)
  next
    case 7
    then show ?thesis using hex4_byte [OF n] n quote_backslash by (auto simp: json_escape_def Let_def)
  qed (use quote_backslash u in \<open>auto simp: json_escape_def Let_def char_of_code\<close>)
qed

lemma scan_string_print: "scan_string (concat (map json_escape s) @ double_quote # r) = Some (s, r)"
  by (induction s) (simp_all add: scan_string_escape)

lemma scan_string_shorter: "scan_string s = Some (t, r) \<Longrightarrow> length r < length s"
proof (induction s arbitrary: t r rule: scan_string.induct)
  case (2 c cs)
  then show ?case
    apply (simp split: if_split_asm list.split_asm option.split_asm)
    apply (elim exE conjE disjE; force)+
    done
qed simp

section \<open>Numbers\<close>

text \<open>A number ends where no character can extend it.\<close>

definition num_end :: "string \<Rightarrow> bool" where
  "num_end r \<longleftrightarrow> r = [] \<or> (\<not> is_digit (hd r) \<and> hd r \<notin> {CHR ''.'', CHR ''e'', CHR ''E''})"

lemma num_end_hd: "num_end r \<Longrightarrow> r \<noteq> [] \<Longrightarrow> \<not> is_digit (hd r)"
  by (simp add: num_end_def)

lemma takeWhile_end: "(r \<noteq> [] \<longrightarrow> \<not> P (hd r)) \<Longrightarrow> takeWhile P (s @ r) = takeWhile P s"
  by (induction s) (cases r; simp)+

lemma dropWhile_end: "(r \<noteq> [] \<longrightarrow> \<not> P (hd r)) \<Longrightarrow> dropWhile P (s @ r) = dropWhile P s @ r"
  by (induction s) (cases r; simp)+

lemma scan_minus_append: "s \<noteq> [] \<Longrightarrow> scan_minus (s @ r) = (fst (scan_minus s), snd (scan_minus s) @ r)"
  by (cases s) (simp_all add: scan_minus_def)

lemma scan_whole_append:
  "num_end r \<Longrightarrow> s \<noteq> [] \<Longrightarrow> scan_whole (s @ r) = map_option (\<lambda>(w, s'). (w, s' @ r)) (scan_whole s)"
  by (cases s) (auto simp: scan_whole_def num_end_hd takeWhile_end dropWhile_end)

lemma scan_fraction_append:
  assumes "num_end r" and "scan_fraction s = (f, s')"
  shows "scan_fraction (s @ r) = (f, s' @ r) \<or> (\<exists>c. s = [c] \<and> c = CHR ''.'')"
proof (cases s)
  case Nil
  with assms show ?thesis by (auto simp: scan_fraction_def num_end_def split: list.splits)
next
  case (Cons c t)
  show ?thesis
  proof (cases t)
    case Nil
    with Cons assms show ?thesis by (auto simp: scan_fraction_def split: list.splits)
  next
    case (Cons d u)
    with \<open>s = c # t\<close> assms show ?thesis
      by (auto simp: scan_fraction_def num_end_hd takeWhile_end dropWhile_end)
  qed
qed

lemma scan_exponent_consumed:
  assumes "num_end r" and "scan_exponent s = (x, [])"
  shows "scan_exponent (s @ r) = (x, r)"
proof (cases s)
  case Nil
  with assms show ?thesis by (auto simp: scan_exponent_def num_end_def split: list.splits)
next
  case (Cons c t)
  obtain g u where g: "scan_sign t = (g, u)" by fastforce
  from Cons assms g have c: "c \<in> {CHR ''e'', CHR ''E''}" and u: "u \<noteq> []" "is_digit (hd u)"
    and x: "x = c # g @ takeWhile is_digit u" "dropWhile is_digit u = []"
    by (auto simp: scan_exponent_def split: if_split_asm)
  from g u have "scan_sign (t @ r) = (g, u @ r)" by (cases t) (auto simp: scan_sign_def split: if_split_asm)
  then show ?thesis
    using Cons c u x assms(1) takeWhile_end [of r is_digit u] dropWhile_end [of r is_digit u]
    by (simp add: scan_exponent_def num_end_hd)
qed

lemma scan_number_append:
  assumes "scan_number frepr t = Some (v, [])" and "num_end r"
  shows "scan_number frepr (t @ r) = Some (v, r)"
proof -
  obtain m s1 where m: "scan_minus t = (m, s1)" by fastforce
  from assms(1) m obtain w s2 where w: "scan_whole s1 = Some (w, s2)"
    by (auto simp: scan_number_def split: option.splits)
  obtain f s3 where f: "scan_fraction s2 = (f, s3)" by fastforce
  obtain x s4 where x: "scan_exponent s3 = (x, s4)" by fastforce
  from assms(1) m w f x have s4: "s4 = []" by (auto simp: scan_number_def Let_def split: if_split_asm)
  from w have ne: "t \<noteq> []" "s1 \<noteq> []" using m by (auto simp: scan_whole_def scan_minus_def split: list.splits)
  have "s2 \<noteq> [CHR ''.'']" using f x s4 by (auto simp: scan_fraction_def scan_exponent_def)
  then have f': "scan_fraction (s2 @ r) = (f, s3 @ r)" using scan_fraction_append [OF assms(2) f] by auto
  show ?thesis
    using assms(1) m w f x s4 f' scan_exponent_consumed [OF assms(2)] scan_minus_append [OF ne(1), of r]
      scan_whole_append [OF assms(2) ne(2)]
    by (auto simp: scan_number_def Let_def split: if_split_asm)
qed

lemma digit_is_digit: "d < 10 \<Longrightarrow> is_digit (''0123456789'' ! d)"
proof -
  have "\<forall>d \<in> set [0..<10]. is_digit (''0123456789'' ! d)" by code_simp
  then show "d < 10 \<Longrightarrow> is_digit (''0123456789'' ! d)" by simp
qed

lemma nat_str_is_digit: "\<forall>c \<in> set (nat_str n). is_digit c"
  using nat_str_digits digit_is_digit by fastforce

lemma nat_str_zero_head: "hd (nat_str n) = CHR ''0'' \<Longrightarrow> n = 0"
proof (induction n rule: nat_str.induct)
  case (1 n)
  show ?case
  proof (cases "n < 10")
    case True
    have "\<forall>d \<in> set [0..<10]. ''0123456789'' ! d = CHR ''0'' \<longrightarrow> d = 0" by code_simp
    with True 1(2) show ?thesis by (auto simp: nat_str.simps [of n])
  next
    case False
    with 1(2) have "hd (nat_str (n div 10)) = CHR ''0''" by (simp add: nat_str.simps [of n] nat_str_ne)
    with 1(1) False show ?thesis by simp
  qed
qed

lemma scan_whole_nat_str: "scan_whole (nat_str n) = Some (nat_str n, [])"
proof -
  obtain c cs where c: "nat_str n = c # cs" using nat_str_ne by (cases "nat_str n") auto
  with nat_str_is_digit have d: "is_digit c" "\<forall>x \<in> set cs. is_digit x" by (metis list.set_intros(1)) (metis c nat_str_is_digit list.set_intros(2))
  show ?thesis
  proof (cases "c = CHR ''0''")
    case True
    with c nat_str_zero_head [of n] have "n = 0" by simp
    then have "nat_str n = ''0''" by (simp add: nat_str.simps)
    then show ?thesis by (simp add: scan_whole_def)
  next
    case False
    with c d show ?thesis by (simp add: scan_whole_def takeWhile_eq_all_conv [THEN iffD2] dropWhile_eq_Nil_conv [THEN iffD2])
  qed
qed

lemma scan_minus_nat_str: "scan_minus (nat_str n) = ([], nat_str n)"
proof -
  obtain c cs where c: "nat_str n = c # cs" using nat_str_ne by (cases "nat_str n") auto
  then have "is_digit c" by (metis nat_str_is_digit list.set_intros(1))
  then have "c \<noteq> CHR ''-''" by (auto simp: is_digit_def)
  with c show ?thesis by (simp add: scan_minus_def)
qed

lemma scan_number_int_str: "scan_number frepr (int_str i) = Some (JInt i, [])"
proof -
  have "scan_minus (int_str i) = (if i < 0 then ''-'' else [], nat_str (nat (abs i)))"
    by (simp add: int_str_def scan_minus_nat_str) (simp add: scan_minus_def)
  moreover have "(if i < 0 then ''-'' else []) @ nat_str (nat (abs i)) = int_str i"
    by (simp add: int_str_def)
  ultimately show ?thesis
    using parse_int_str [of i]
    by (simp add: scan_number_def scan_whole_nat_str scan_fraction_def scan_exponent_def)
qed

section \<open>Values\<close>

text \<open>A value \<^verbatim>\<open>json.dumps\<close> prints so that it can be read back: the keys of a dictionary are distinct, and
  the text of a float is a literal of that float that \<^verbatim>\<open>repr\<close> reproduces.\<close>

fun json_ok :: "(string \<Rightarrow> string) \<Rightarrow> json \<Rightarrow> bool" where
  "json_ok frepr (JFloat r t) = (scan_number frepr t = Some (JFloat r t, []))"
| "json_ok frepr (JArr xs) = list_all (json_ok frepr) xs"
| "json_ok frepr (JObj d) = (distinct (map fst d) \<and> list_all (\<lambda>(k, v). json_ok frepr v) d)"
| "json_ok frepr _ = True"

definition seps_ok :: "string \<Rightarrow> string \<Rightarrow> bool" where
  "seps_ok isep ksep \<longleftrightarrow> isep \<noteq> [] \<and> hd isep = CHR '','' \<and> list_all json_ws (tl isep)
     \<and> ksep \<noteq> [] \<and> hd ksep = CHR '':'' \<and> list_all json_ws (tl ksep)"

lemma omerge_distinct: "distinct (map fst (acc @ d)) \<Longrightarrow> omerge acc d = acc @ d"
proof (induction d arbitrary: acc)
  case (Cons p d)
  obtain k v where p: "p = (k, v)" by (cases p)
  have "oset k v acc = acc @ [(k, v)]" if "k \<notin> fst ` set acc" using that by (induction acc) auto
  with Cons p show ?case by (simp add: omerge_def)
qed (simp add: omerge_def)

lemma obj_of_pairs_distinct: "distinct (map fst d) \<Longrightarrow> obj_of_pairs d = d"
  using omerge_distinct [of "[]" d] by (simp add: obj_of_pairs_def)

lemma scan_number_head: "scan_number frepr t = Some (v, r) \<Longrightarrow> t \<noteq> [] \<and> (hd t = CHR ''-'' \<or> is_digit (hd t))"
  by (cases t) (auto simp: scan_number_def scan_minus_def scan_whole_def is_digit_def split: if_split_asm)

lemma after_append [simp]: "after p (p @ r) = Some r"
  by (simp add: after_def)

lemma after_head: "p \<noteq> [] \<Longrightarrow> s \<noteq> [] \<Longrightarrow> hd s \<noteq> hd p \<Longrightarrow> after p s = None"
  by (cases p; cases s) (auto simp: after_def)

lemma scan_value_number:
  assumes "scan_number frepr s = Some (v, r)"
  shows "scan_value frepr (Suc n) s = Some (v, r)"
proof -
  obtain c cs where c: "s = c # cs" "c = CHR ''-'' \<or> is_digit c" using scan_number_head [OF assms] by (cases s) auto
  then have "c \<notin> {double_quote, CHR ''['', CHR ''{'', CHR ''n'', CHR ''t'', CHR ''f''}"
    by (auto simp: is_digit_def quote_chars)
  with c assms show ?thesis by (simp add: after_head)
qed

lemma json_dumps_head:
  assumes "json_ok frepr v"
  shows "\<exists>c cs. json_dumps isep ksep v = c # cs \<and> \<not> json_ws c \<and> c \<notin> {CHR '']'', CHR ''}''}"
proof -
  have d: "\<not> json_ws c \<and> c \<notin> {CHR '']'', CHR ''}''}" if "c = CHR ''-'' \<or> is_digit c" for c
    using that by (auto simp: is_digit_def json_ws_def)
  have num: "\<exists>c cs. t = c # cs \<and> \<not> json_ws c \<and> c \<notin> {CHR '']'', CHR ''}''}"
    if "scan_number frepr t = Some (x, [])" for t x
    using scan_number_head [OF that] d by (cases t) auto
  show ?thesis
  proof (cases v)
    case (JInt i)
    with num [OF scan_number_int_str] show ?thesis by simp
  next
    case (JFloat r t)
    with assms num show ?thesis by simp
  qed (auto simp: json_string_def json_ws_def quote_chars)
qed

lemma skip_ws_head: "\<not> json_ws c \<Longrightarrow> skip_ws (c # cs) = c # cs"
  by (simp add: skip_ws_def)

lemma skip_ws_sep: "list_all json_ws ws \<Longrightarrow> skip_ws (ws @ s) = skip_ws s"
  by (induction ws) (simp_all add: skip_ws_def)

lemma delim_not_ws [simp]: "skip_ws (CHR '']'' # r) = CHR '']'' # r" "skip_ws (CHR ''}'' # r) = CHR ''}'' # r"
  "skip_ws (CHR '','' # r) = CHR '','' # r" "skip_ws (CHR '':'' # r) = CHR '':'' # r"
  by (simp_all add: skip_ws_def json_ws_def)

lemma num_end_delim [simp]: "num_end []" "num_end (CHR '']'' # r)" "num_end (CHR ''}'' # r)" "num_end (CHR '','' # r)"
  by (simp_all add: num_end_def is_digit_def)

lemma json_string_scan: "\<exists>cs. json_string k @ r = double_quote # cs \<and> scan_string cs = Some (k, r)"
  by (simp add: json_string_def scan_string_print)

text \<open>What is shown of a printed value, and then of the inside of a list and of a dictionary.\<close>

definition reads_back :: "(string \<Rightarrow> string) \<Rightarrow> string \<Rightarrow> string \<Rightarrow> json \<Rightarrow> bool" where
  "reads_back frepr isep ksep v \<longleftrightarrow> (\<forall>n r. 2 * length (json_dumps isep ksep v) \<le> n \<longrightarrow> num_end r
     \<longrightarrow> scan_value frepr n (json_dumps isep ksep v @ r) = Some (v, r))"

lemma reads_backD:
  "reads_back frepr isep ksep v \<Longrightarrow> 2 * length (json_dumps isep ksep v) \<le> n \<Longrightarrow> num_end r \<Longrightarrow>
     scan_value frepr n (json_dumps isep ksep v @ r) = Some (v, r)"
  by (simp add: reads_back_def)

lemma seps_cases:
  assumes "seps_ok isep ksep"
  obtains iw kw where "isep = CHR '','' # iw" "list_all json_ws iw" "ksep = CHR '':'' # kw" "list_all json_ws kw"
  using assms by (cases isep; cases ksep) (auto simp: seps_ok_def)

lemma join_Cons2: "xs \<noteq> [] \<Longrightarrow> join sep (x # xs) = x @ sep @ join sep xs"
  by (cases xs) simp_all

lemma scan_items_print:
  assumes "seps_ok isep ksep" and "xs \<noteq> []" and "\<forall>x \<in> set xs. json_ok frepr x \<and> reads_back frepr isep ksep x"
    and "2 * length (join isep (map (json_dumps isep ksep) xs)) + 1 \<le> n"
  shows "scan_items frepr n (join isep (map (json_dumps isep ksep) xs) @ CHR '']'' # r) = Some (xs, r)"
  using assms(2-4)
proof (induction xs arbitrary: n)
  case (Cons x xs)
  obtain iw kw where sep: "isep = CHR '','' # iw" "list_all json_ws iw" using assms(1) by (rule seps_cases)
  from Cons.prems(3) obtain n' where n: "n = Suc n'" by (cases n) auto
  from Cons.prems(2) have x: "reads_back frepr isep ksep x" by simp
  show ?case
  proof (cases "xs = []")
    case True
    with x n Cons.prems(3) show ?thesis by (simp add: reads_backD)
  next
    case False
    let ?j = "join isep (map (json_dumps isep ksep) xs)"
    from False Cons.prems(2) obtain y ys where "xs = y # ys" "json_ok frepr y" by (cases xs) auto
    then obtain c cs where "json_dumps isep ksep y = c # cs" "\<not> json_ws c"
      using json_dumps_head by blast
    with \<open>xs = y # ys\<close> have skip: "skip_ws (?j @ CHR '']'' # r) = ?j @ CHR '']'' # r"
      by (cases ys) (simp_all add: skip_ws_head)
    have len: "2 * length (json_dumps isep ksep x) \<le> n'" "2 * length ?j + 1 \<le> n'"
      using Cons.prems(3) n False sep by (simp_all add: join_Cons2)
    have "scan_value frepr n' (json_dumps isep ksep x @ isep @ ?j @ CHR '']'' # r) = Some (x, isep @ ?j @ CHR '']'' # r)"
      using reads_backD [OF x len(1), of "isep @ ?j @ CHR '']'' # r"] sep by simp
    moreover have "scan_items frepr n' (?j @ CHR '']'' # r) = Some (xs, r)"
      using Cons.IH [OF False _ len(2)] Cons.prems(2) by simp
    ultimately show ?thesis
      using False n sep skip by (simp add: join_Cons2 skip_ws_sep)
  qed
qed simp

abbreviation print_pair :: "string \<Rightarrow> string \<Rightarrow> string \<times> json \<Rightarrow> string" where
  "print_pair isep ksep \<equiv> (\<lambda>(k, v). json_string k @ ksep @ json_dumps isep ksep v)"

lemma scan_pairs_step:
  assumes "seps_ok isep ksep" and "json_ok frepr v" and "reads_back frepr isep ksep v"
    and "2 * length (json_dumps isep ksep v) \<le> n" and "num_end r" and "r = d # ds" and "\<not> json_ws d"
  shows "scan_pairs frepr (Suc n) (json_string k @ ksep @ json_dumps isep ksep v @ r) =
    (if d = CHR ''}'' then Some ([(k, v)], ds)
     else if d = CHR '','' then map_option (\<lambda>(ps, r''). ((k, v) # ps, r'')) (scan_pairs frepr n (skip_ws ds)) else None)"
proof -
  obtain iw kw where sep: "ksep = CHR '':'' # kw" "list_all json_ws kw" using assms(1) by (rule seps_cases)
  obtain c cs where "json_dumps isep ksep v = c # cs" "\<not> json_ws c" using json_dumps_head [OF assms(2)] by blast
  then have skip: "skip_ws (json_dumps isep ksep v @ d # ds) = json_dumps isep ksep v @ d # ds" by (simp add: skip_ws_head)
  obtain qs where q: "json_string k @ ksep @ json_dumps isep ksep v @ r = double_quote # qs"
    "scan_string qs = Some (k, ksep @ json_dumps isep ksep v @ r)"
    using json_string_scan by blast
  show ?thesis
    using q sep skip reads_backD [OF assms(3-5)] assms(6,7) by (simp add: skip_ws_sep skip_ws_head)
qed

lemma scan_pairs_print:
  assumes "seps_ok isep ksep" and "d \<noteq> []" and "\<forall>(k, v) \<in> set d. json_ok frepr v \<and> reads_back frepr isep ksep v"
    and "2 * length (join isep (map (print_pair isep ksep) d)) + 1 \<le> n"
  shows "scan_pairs frepr n (join isep (map (print_pair isep ksep) d) @ CHR ''}'' # r) = Some (d, r)"
  using assms(2-4)
proof (induction d arbitrary: n)
  case (Cons p d)
  obtain k v where p: "p = (k, v)" by (cases p)
  obtain iw kw where sep: "isep = CHR '','' # iw" "list_all json_ws iw" using assms(1) by (rule seps_cases)
  from Cons.prems(3) obtain n' where n: "n = Suc n'" by (cases n) auto
  from Cons.prems(2) p have v: "json_ok frepr v" "reads_back frepr isep ksep v" by auto
  show ?case
  proof (cases "d = []")
    case True
    then show ?thesis
      using scan_pairs_step [OF assms(1) v, of n' "CHR ''}'' # r"] Cons.prems(3) n p by (simp add: json_ws_def)
  next
    case False
    let ?j = "join isep (map (print_pair isep ksep) d)"
    obtain k' v' d' where "d = (k', v') # d'" using False by (cases d) auto
    then have skip: "skip_ws (?j @ CHR ''}'' # r) = ?j @ CHR ''}'' # r"
      by (cases d') (simp_all add: json_string_def skip_ws_head json_ws_def quote_chars)
    have len: "2 * length (json_dumps isep ksep v) \<le> n'" "2 * length ?j + 1 \<le> n'"
      using Cons.prems(3) n False sep p by (simp_all add: join_Cons2)
    have "scan_pairs frepr n' (?j @ CHR ''}'' # r) = Some (d, r)"
      using Cons.IH [OF False _ len(2)] Cons.prems(2) by auto
    then show ?thesis
      using scan_pairs_step [OF assms(1) v len(1), of "isep @ ?j @ CHR ''}'' # r" "CHR '',''" "iw @ ?j @ CHR ''}'' # r" k]
        False n sep skip p
      by (simp add: join_Cons2 skip_ws_sep json_ws_def)
  qed
qed simp

lemma reads_back_step:
  assumes "\<And>n r. num_end r \<Longrightarrow> scan_value frepr (Suc n) (json_dumps isep ksep v @ r) = Some (v, r)"
    and "json_dumps isep ksep v \<noteq> []"
  shows "reads_back frepr isep ksep v"
  unfolding reads_back_def
proof (intro allI impI)
  fix n r assume "2 * length (json_dumps isep ksep v) \<le> n" and r: "num_end r"
  with assms(2) obtain n' where "n = Suc n'" by (cases n) auto
  with assms(1) [OF r] show "scan_value frepr n (json_dumps isep ksep v @ r) = Some (v, r)" by blast
qed

lemma reads_back_number:
  assumes "scan_number frepr (json_dumps isep ksep v) = Some (v, [])"
  shows "reads_back frepr isep ksep v"
  using assms scan_number_head [OF assms] by (intro reads_back_step scan_value_number scan_number_append) auto

lemma json_reads_back:
  assumes "seps_ok isep ksep"
  shows "json_ok frepr v \<Longrightarrow> reads_back frepr isep ksep v"
proof (induction v)
  case (JArr xs)
  show ?case unfolding reads_back_def
  proof (intro allI impI)
    fix n r assume n: "2 * length (json_dumps isep ksep (JArr xs)) \<le> n" "num_end r"
    then obtain n' where n': "n = Suc n'" by (cases n) auto
    show "scan_value frepr n (json_dumps isep ksep (JArr xs) @ r) = Some (JArr xs, r)"
    proof (cases "xs = []")
      case False
      let ?j = "join isep (map (json_dumps isep ksep) xs)"
      from JArr have all: "\<forall>x \<in> set xs. json_ok frepr x \<and> reads_back frepr isep ksep x" by (simp add: list_all_iff)
      with False obtain y ys where "xs = y # ys" "json_ok frepr y" by (cases xs) auto
      then obtain c cs where "?j = c # cs" "\<not> json_ws c" "c \<noteq> CHR '']''"
        using json_dumps_head [of frepr y isep ksep] by (cases ys) auto
      then show ?thesis
        using scan_items_print [OF assms False all, of n' r] n n' by (simp add: skip_ws_head quote_chars)
    qed (simp add: n' skip_ws_def json_ws_def quote_chars)
  qed
next
  case (JObj d)
  show ?case unfolding reads_back_def
  proof (intro allI impI)
    fix n r assume n: "2 * length (json_dumps isep ksep (JObj d)) \<le> n" "num_end r"
    then obtain n' where n': "n = Suc n'" by (cases n) auto
    show "scan_value frepr n (json_dumps isep ksep (JObj d) @ r) = Some (JObj d, r)"
    proof (cases "d = []")
      case False
      let ?j = "join isep (map (print_pair isep ksep) d)"
      from JObj have all: "\<forall>(k, v) \<in> set d. json_ok frepr v \<and> reads_back frepr isep ksep v"
        by (fastforce simp: list_all_iff)
      from False obtain y ys where "d = y # ys" by (cases d) auto
      then obtain cs where "?j = double_quote # cs" by (cases ys; cases y) (auto simp: json_string_def)
      then show ?thesis
        using scan_pairs_print [OF assms False all, of n' r] n n' JObj.prems
        by (simp add: skip_ws_head json_ws_def quote_chars obj_of_pairs_distinct)
    qed (simp add: n' skip_ws_def json_ws_def quote_chars)
  qed
next
  case (JInt i)
  show ?case by (rule reads_back_number) (simp add: scan_number_int_str)
next
  case (JFloat r t)
  then show ?case by (intro reads_back_number) simp
next
  case (JStr t)
  show ?case by (rule reads_back_step) (simp_all add: json_string_def scan_string_print)
qed (rule reads_back_step, simp_all add: quote_chars after_def)+

text \<open>The round trip: a printed value, with any white space around it, is read back.\<close>

lemma json_loads_dumps:
  assumes "seps_ok isep ksep" and "json_ok frepr v" and "list_all json_ws w" and "list_all json_ws w'"
  shows "json_loads frepr (w @ json_dumps isep ksep v @ w') = Some v"
proof -
  obtain c cs where "json_dumps isep ksep v = c # cs" "\<not> json_ws c" using json_dumps_head [OF assms(2)] by blast
  then have skip: "skip_ws (w @ json_dumps isep ksep v @ w') = json_dumps isep ksep v @ w'"
    using assms(3) by (simp add: skip_ws_sep skip_ws_head)
  have "num_end w'" using assms(4) by (cases w') (auto simp: num_end_def is_digit_def json_ws_def)
  then have "scan_value frepr (json_fuel (w @ json_dumps isep ksep v @ w')) (json_dumps isep ksep v @ w') = Some (v, w')"
    by (intro reads_backD [OF json_reads_back [OF assms(1,2)]]) (simp_all add: json_fuel_def)
  moreover have "skip_ws w' = []" using assms(4) skip_ws_sep [of w' "[]"] by (simp add: skip_ws_def)
  ultimately show ?thesis by (simp only: json_loads_def skip option.case prod.case simp_thms if_True)
qed

section \<open>The fuel suffices\<close>

lemma skip_ws_length: "length (skip_ws s) \<le> length s"
  by (simp add: skip_ws_def length_dropWhile_le)

lemma skip_ws_Cons: "skip_ws s = d # ds \<Longrightarrow> length ds < length s"
  using skip_ws_length [of s] by simp

lemma after_shorter: "after p s = Some r \<Longrightarrow> p \<noteq> [] \<Longrightarrow> length r < length s"
  by (cases s) (auto simp: after_def split: if_split_asm)

lemma scan_exponent_length: "scan_exponent s = (x, r) \<Longrightarrow> length r \<le> length s"
proof (cases s)
  case (Cons c t)
  obtain g u where g: "scan_sign t = (g, u)" by fastforce
  then have "length u \<le> length t" by (auto simp: scan_sign_def split: list.splits if_split_asm)
  with length_dropWhile_le [of is_digit u] g Cons show "scan_exponent s = (x, r) \<Longrightarrow> length r \<le> length s"
    by (auto simp: scan_exponent_def split: if_split_asm)
qed (simp add: scan_exponent_def)

lemma scan_number_shorter: "scan_number frepr s = Some (v, r) \<Longrightarrow> length r < length s"
proof -
  have m: "length (snd (scan_minus t)) \<le> length t" for t by (auto simp: scan_minus_def split: list.splits)
  have w: "length r < length t" if "scan_whole t = Some (x, r)" for t x r
  proof (cases t)
    case (Cons c u)
    have "length (dropWhile is_digit u) \<le> length u" by (rule length_dropWhile_le)
    with that Cons show ?thesis by (auto simp: scan_whole_def split: if_split_asm)
  qed (use that in \<open>simp add: scan_whole_def\<close>)
  have f: "length r \<le> length t" if "scan_fraction t = (x, r)" for t x r
    using that by (auto simp: scan_fraction_def split: list.splits if_split_asm
        intro: le_SucI order_trans [OF length_dropWhile_le])
  assume "scan_number frepr s = Some (v, r)"
  then obtain a s1 b s2 c s3 d where "scan_minus s = (a, s1)" "scan_whole s1 = Some (b, s2)"
    "scan_fraction s2 = (c, s3)" "scan_exponent s3 = (d, r)"
    by (auto simp: scan_number_def Let_def split: prod.splits option.splits if_split_asm)
  with m [of s] w [of s1] f [of s2] scan_exponent_length [of s3] show ?thesis
    by (metis le_trans less_le_trans not_le snd_conv)
qed

lemma scan_shorter:
  "scan_value frepr n s = Some (v, r) \<Longrightarrow> length r < length s"
  "scan_items frepr n s = Some (vs, r) \<Longrightarrow> length r < length s"
  "scan_pairs frepr n s = Some (ps, r) \<Longrightarrow> length r < length s"
proof (induction frepr n s and frepr n s and frepr n s arbitrary: v r and vs r and ps r
    rule: scan_value_scan_items_scan_pairs.induct)
  case (2 frepr n s)
  then obtain c cs where s: "s = c # cs" by (cases s) auto
  show ?case
  proof (cases "c = double_quote \<or> c = CHR ''['' \<or> c = CHR ''{''")
    case True
    have "length r < Suc (length cs)"
      if "skip_ws cs = d # ds" and "length r \<le> length ds \<or> length r < length (d # ds)" for d ds
      using skip_ws_Cons [OF that(1)] that(2) by auto
    with True 2 s show ?thesis
      by (fastforce split: if_split_asm list.split_asm dest!: scan_string_shorter)
  next
    case False
    with 2(3) s show ?thesis
      by (auto split: option.split_asm dest!: after_shorter scan_number_shorter)
  qed
next
  case (4 frepr n s)
  from 4(3) obtain v r' d ds where v: "scan_value frepr n s = Some (v, r')" "skip_ws r' = d # ds"
    by (auto split: option.split_asm list.split_asm)
  with 4(1) skip_ws_Cons have l: "length ds < length s" by (meson less_trans)
  with v 4(3) 4(2) [OF v(1) refl v(2)] skip_ws_length [of ds] show ?case
    by (fastforce split: if_split_asm)
next
  case (6 frepr n s)
  from 6(3) obtain qs k r1 c cs v r2 d ds where s: "s = double_quote # qs" "scan_string qs = Some (k, r1)"
    "skip_ws r1 = c # cs" "c = CHR '':''" "scan_value frepr n (skip_ws cs) = Some (v, r2)" "skip_ws r2 = d # ds"
    by (auto split: option.split_asm list.split_asm if_split_asm)
  have "length ds < length r2" "length cs < length r1" "length r1 < length qs"
    using s skip_ws_Cons scan_string_shorter by blast+
  moreover have "length r2 < length (skip_ws cs)" using 6(1) s by simp
  ultimately have l: "length ds < length s" using s(1) skip_ws_length [of cs] by simp
  with s 6(3) 6(2) skip_ws_length [of ds] show ?case
    by (fastforce split: if_split_asm)
qed simp_all

lemma scan_fuel_step:
  "(2 * length s + 1 \<le> n \<longrightarrow> scan_value frepr (Suc n) s = scan_value frepr n s)
   \<and> (2 * length s + 2 \<le> n \<longrightarrow> scan_items frepr (Suc n) s = scan_items frepr n s)
   \<and> (2 * length s + 2 \<le> n \<longrightarrow> scan_pairs frepr (Suc n) s = scan_pairs frepr n s)"
proof (induction n arbitrary: s)
  case (Suc n)
  note ih = Suc.IH [THEN conjunct1, rule_format] Suc.IH [THEN conjunct2, THEN conjunct1, rule_format]
    Suc.IH [THEN conjunct2, THEN conjunct2, rule_format]
  have 1: "scan_value frepr (Suc (Suc n)) s = scan_value frepr (Suc n) s" if n: "2 * length s + 1 \<le> Suc n"
  proof (cases s)
    case (Cons c cs)
    have "scan_items frepr (Suc n) (skip_ws cs) = scan_items frepr n (skip_ws cs)"
      and "scan_pairs frepr (Suc n) (skip_ws cs) = scan_pairs frepr n (skip_ws cs)"
      using ih(2,3) [of "skip_ws cs"] n Cons skip_ws_length [of cs] by (simp_all del: scan_items.simps scan_pairs.simps)
    then show ?thesis using Cons by (cases "skip_ws cs") (auto simp del: scan_items.simps scan_pairs.simps)
  qed simp
  have 2: "scan_items frepr (Suc (Suc n)) s = scan_items frepr (Suc n) s" if n: "2 * length s + 2 \<le> Suc n"
  proof -
    have v: "scan_value frepr (Suc n) s = scan_value frepr n s" using n by (intro ih(1)) simp
    have "scan_items frepr (Suc n) (skip_ws ds) = scan_items frepr n (skip_ws ds)"
      if "scan_value frepr n s = Some (x, r)" "skip_ws r = d # ds" for x r d ds
      using scan_shorter(1) [OF that(1)] skip_ws_Cons [OF that(2)] skip_ws_length [of ds] n by (intro ih(2)) simp
    then show ?thesis
      unfolding scan_items.simps(2) [of _ "Suc n"] v
      by (simp split: option.split list.split del: scan_items.simps(2) add: scan_items.simps(2) [of _ n])
  qed
  have 3: "scan_pairs frepr (Suc (Suc n)) s = scan_pairs frepr (Suc n) s" if n: "2 * length s + 2 \<le> Suc n"
  proof -
    have v: "scan_value frepr (Suc n) (skip_ws cs) = scan_value frepr n (skip_ws cs)"
      if "s = q # qs" "scan_string qs = Some (k, r)" "skip_ws r = c # cs" for q qs k r c cs
      using scan_string_shorter [OF that(2)] skip_ws_Cons [OF that(3)] skip_ws_length [of cs] n that(1)
      by (intro ih(1)) simp
    have "scan_pairs frepr (Suc n) (skip_ws ds) = scan_pairs frepr n (skip_ws ds)"
      if "s = q # qs" "scan_string qs = Some (k, r)" "skip_ws r = c # cs"
        "scan_value frepr n (skip_ws cs) = Some (x, r')" "skip_ws r' = d # ds" for q qs k r c cs x r' d ds
      using scan_string_shorter [OF that(2)] skip_ws_Cons [OF that(3)] skip_ws_length [of cs]
        scan_shorter(1) [OF that(4)] skip_ws_Cons [OF that(5)] skip_ws_length [of ds] n that(1)
      by (intro ih(3)) simp
    with v show ?thesis
      unfolding scan_pairs.simps(2) [of _ "Suc n"]
      by (simp split: option.split list.split del: scan_pairs.simps(2) scan_value.simps(2) add: scan_pairs.simps(2) [of _ n])
  qed
  from 1 2 3 show ?case by blast
qed simp

text \<open>More fuel never changes what \<^verbatim>\<open>json.loads\<close> returns: a refusal is not a lack of fuel.\<close>

lemma json_loads_fuel:
  assumes "json_fuel s \<le> n"
  shows "scan_value frepr n (skip_ws s) = scan_value frepr (json_fuel s) (skip_ws s)"
  using assms
proof (induction n rule: dec_induct)
  case (step n)
  then have "2 * length (skip_ws s) + 1 \<le> n" using skip_ws_length [of s] by (simp add: json_fuel_def)
  with step scan_fuel_step [of "skip_ws s" n frepr] show ?case by (simp del: scan_value.simps)
qed simp

end
