(* ===== verification/Codec.thy ===== *)
theory Codec
  imports Protocol Json_Text
begin

text \<open>
  The newline-delimited codec of \<^verbatim>\<open>protocol/codec.py\<close>, with the lines of a stream as \<^verbatim>\<open>StreamReader.readline\<close>
  cuts them.  A line of more than 65536 characters is not returned: \<^verbatim>\<open>readline\<close> raises \<^verbatim>\<open>ValueError\<close>.
\<close>

definition encode_message :: "env \<Rightarrow> framework_message \<Rightarrow> string" where
  "encode_message e m = json_dumps '','' '':'' (JObj (dump_message e True m))"

definition decode_line :: "env \<Rightarrow> string \<Rightarrow> framework_message res" where
  "decode_line e line =
     (let l = strip line in
      if l = [] then Inl CodecError
      else case json_loads (float_repr e) l of
        None \<Rightarrow> Inl CodecError
      | Some v \<Rightarrow> (case bindE (pyd_dict v) (validate_message e) of Inl _ \<Rightarrow> Inl CodecError | Inr m \<Rightarrow> Inr m))"

definition newline :: char where
  "newline = char_of (10 :: nat)"

definition stream_limit :: nat where
  "stream_limit = 65536"

text \<open>The lines of a stream, without their newlines; a last line may lack it.\<close>

fun split_lines :: "string \<Rightarrow> string list" where
  "split_lines [] = []"
| "split_lines (c # cs) =
     (if c = newline then [] # split_lines cs
      else case split_lines cs of [] \<Rightarrow> [[c]] | l # ls \<Rightarrow> (c # l) # ls)"

text \<open>One \<^verbatim>\<open>readline\<close>.\<close>

definition readline :: "string \<Rightarrow> string res" where
  "readline line = (if stream_limit < length line then Inl ValueError else Inr line)"

lemma newline_char: "newline = CHR 0x0A"
  by code_simp

section \<open>The text of a message\<close>

text \<open>The payload of a message can be printed and read back.\<close>

definition payload_ok :: "env \<Rightarrow> framework_message \<Rightarrow> bool" where
  "payload_ok e m \<longleftrightarrow> json_ok (float_repr e) (JObj (msg_payload m))"

lemma json_ok_jopt [simp]: "json_ok fr (jopt s)"
  by (simp add: jopt_def split: option.split)

lemma dump_message_json_ok: "payload_ok e m \<Longrightarrow> json_ok fr' (JObj (dump_message e' b m)) \<longleftrightarrow> json_ok fr' (JObj (msg_payload m))"
  by (cases b) (simp_all add: dump_message_def)

lemma seps_compact: "seps_ok '','' '':''"
  by (simp add: seps_ok_def)

lemma seps_default: "seps_ok '', '' '': ''"
  by (simp add: seps_ok_def json_ws_def)

lemma strip_braces:
  assumes "\<not> py_space a" and "\<not> py_space b"
  shows "strip (a # x @ [b]) = a # x @ [b]"
  using assms by (simp add: strip_def)

lemma strip_newline: "strip (x @ [newline]) = strip x"
proof (cases "\<forall>c \<in> set x. py_space c")
  case True
  moreover have "py_space newline" by code_simp
  ultimately have "dropWhile py_space (x @ [newline]) = []" "dropWhile py_space x = []" by auto
  then show ?thesis by (simp only: strip_def)
next
  case False
  moreover have "py_space newline" by code_simp
  ultimately show ?thesis by (auto simp: strip_def dropWhile_append)
qed

text \<open>A message is read back from its own text, with or without the newline.\<close>

lemma decode_encode:
  assumes "pydantic_ok e" and "message_ok m" and "payload_ok e m"
  shows "decode_line e (encode_message e m) = Inr m"
proof -
  have sp: "\<not> py_space (CHR ''{'')" "\<not> py_space (CHR ''}'')" by code_simp+
  have ok: "json_ok (float_repr e) (JObj (dump_message e True m))"
    using dump_message_json_ok [OF assms(3), of "float_repr e" e True] assms(3) by (simp only: payload_ok_def)
  have st: "strip (encode_message e m) = encode_message e m"
    unfolding encode_message_def json_dumps.simps(7) using strip_braces [OF sp] by simp
  have "encode_message e m \<noteq> []" by (simp add: encode_message_def)
  moreover have "json_loads (float_repr e) (encode_message e m) = Some (JObj (dump_message e True m))"
    using json_loads_dumps [OF seps_compact ok, of "[]" "[]"] by (simp add: encode_message_def)
  ultimately show ?thesis
    by (simp add: decode_line_def st validate_dump_message [OF assms(1,2)])
qed

lemma decode_line_newline: "decode_line e (line @ [newline]) = decode_line e line"
  by (simp add: decode_line_def strip_newline)

section \<open>Framing\<close>

lemma escape_no_newline: "newline \<notin> set (json_escape c)"
proof -
  have "\<forall>n \<in> set [0..<16]. hex_digit n \<noteq> newline" by code_simp
  then have h: "n < 16 \<Longrightarrow> newline \<noteq> hex_digit n" for n by force
  have q: "of_char c div 16 < (16 :: nat)" "of_char c mod 16 < (16 :: nat)"
    using nat_of_char_less_256 [of c] by (simp_all add: div_less_iff_less_mult)
  have b: "newline \<noteq> backslash" "newline \<noteq> double_quote" "newline \<notin> set ''nrtfbu0''" by code_simp+
  have "(of_char newline :: nat) = 10" by code_simp
  with b h [OF q(1)] h [OF q(2)] show ?thesis
    by (auto simp: json_escape_def Let_def)
qed

lemma string_no_newline: "newline \<notin> set (json_string s)"
  using escape_no_newline by (auto simp: json_string_def newline_char quote_chars)

text \<open>A literal that the scanner consumes holds only the characters of numbers.\<close>

lemma number_chars:
  assumes "scan_number fr t = Some (v, [])"
  shows "\<forall>c \<in> set t. is_digit c \<or> c \<in> set ''-+.eE''"
proof -
  have d: "\<forall>c \<in> set (takeWhile is_digit u). is_digit c" for u by (auto dest!: set_takeWhileD)
  have z: "is_digit (CHR ''0'')" by (simp add: is_digit_def)
  obtain m s1 where m: "scan_minus t = (m, s1)" by fastforce
  from assms m obtain w s2 where w: "scan_whole s1 = Some (w, s2)" by (auto simp: scan_number_def split: option.splits)
  obtain f s3 where f: "scan_fraction s2 = (f, s3)" by fastforce
  obtain x s4 where x: "scan_exponent s3 = (x, s4)" by fastforce
  from assms m w f x have s4: "s4 = []" by (auto simp: scan_number_def Let_def split: if_split_asm)
  have "t = m @ s1 \<and> set m \<subseteq> {CHR ''-''}" using m by (auto simp: scan_minus_def split: list.splits if_split_asm)
  moreover have "s1 = w @ s2 \<and> (\<forall>c \<in> set w. is_digit c)"
    using w d [of s1] z by (auto simp: scan_whole_def split: list.splits if_split_asm)
  moreover have "s2 = f @ s3 \<and> (\<forall>c \<in> set f. is_digit c \<or> c = CHR ''.'')"
    using f d by (fastforce simp: scan_fraction_def split: list.splits if_split_asm)
  moreover have "s3 = x @ s4 \<and> (\<forall>c \<in> set x. is_digit c \<or> c \<in> set ''eE-+'')"
  proof (cases s3)
    case (Cons c u)
    obtain g v where g: "scan_sign u = (g, v)" by fastforce
    then have "u = g @ v \<and> set g \<subseteq> set ''-+''" by (auto simp: scan_sign_def split: list.splits if_split_asm)
    with x g d [of v] Cons show ?thesis by (auto simp: scan_exponent_def split: if_split_asm)
  qed (use x in \<open>simp add: scan_exponent_def\<close>)
  ultimately show ?thesis using s4 by auto
qed

lemma number_no_newline: "scan_number fr t = Some (v, []) \<Longrightarrow> newline \<notin> set t"
proof -
  have "\<not> is_digit newline" "newline \<notin> set ''-+.eE''" by code_simp+
  then show "scan_number fr t = Some (v, []) \<Longrightarrow> newline \<notin> set t" using number_chars by blast
qed

lemma join_set: "set (join sep xs) \<subseteq> set sep \<union> (\<Union>x \<in> set xs. set x)"
  by (induction sep xs rule: join.induct) auto

lemma dumps_no_newline:
  assumes "json_ok fr v" and "newline \<notin> set isep" and "newline \<notin> set ksep"
  shows "newline \<notin> set (json_dumps isep ksep v)"
  using assms(1)
proof (induction v)
  case (JInt i)
  show ?case using number_no_newline [OF scan_number_int_str [of fr i]] by simp
next
  case (JFloat r t)
  then show ?case by (simp add: number_no_newline)
next
  case (JArr xs)
  then show ?case using join_set [of isep "map (json_dumps isep ksep) xs"] assms(2)
    by (fastforce simp: newline_char list_all_iff)
next
  case (JObj d)
  have "newline \<notin> set (print_pair isep ksep p)" if "p \<in> set d" for p
    using JObj that assms(3) string_no_newline by (cases p) (fastforce simp: list_all_iff)
  then show ?case using join_set [of isep "map (print_pair isep ksep) d"] assms(2) by (fastforce simp: newline_char)
qed (auto simp: newline_char string_no_newline [unfolded newline_char])

lemma encode_no_newline:
  assumes "payload_ok e m"
  shows "newline \<notin> set (encode_message e m)"
proof -
  have "json_ok (float_repr e) (JObj (dump_message e True m))"
    using dump_message_json_ok [OF assms, of "float_repr e" e True] assms by (simp only: payload_ok_def)
  then show ?thesis unfolding encode_message_def by (rule dumps_no_newline) (simp_all add: newline_char)
qed

lemma split_lines_append: "newline \<notin> set l \<Longrightarrow> split_lines (l @ newline # s) = l # split_lines s"
  by (induction l) auto

lemma split_lines_framed:
  "(\<And>l. l \<in> set ls \<Longrightarrow> newline \<notin> set l) \<Longrightarrow> split_lines (concat (map (\<lambda>l. l @ [newline]) ls)) = ls"
  by (induction ls) (simp_all add: split_lines_append)

text \<open>A stream of messages is read back message by message.\<close>

lemma stream_roundtrip:
  assumes "pydantic_ok e" and "\<And>m. m \<in> set ms \<Longrightarrow> message_ok m \<and> payload_ok e m"
  shows "map (decode_line e) (split_lines (concat (map (\<lambda>m. encode_message e m @ [newline]) ms))) = map Inr ms"
proof -
  have "split_lines (concat (map (\<lambda>l. l @ [newline]) (map (encode_message e) ms))) = map (encode_message e) ms"
    using assms(2) by (intro split_lines_framed) (auto simp: encode_no_newline)
  then show ?thesis using assms by (simp add: o_def decode_encode)
qed

section \<open>Lengths\<close>

lemma escaped_length: "length s \<le> length (concat (map json_escape s))"
proof (induction s)
  case (Cons c s)
  have "1 \<le> length (json_escape c)" by (simp add: json_escape_def Let_def)
  with Cons show ?case by simp
qed simp

lemma json_string_length: "length s \<le> length (json_string s)"
  using escaped_length [of s] by (simp add: json_string_def)

lemma join_length: "x \<in> set xs \<Longrightarrow> length x \<le> length (join sep xs)"
  by (induction sep xs rule: join.induct) auto

lemma dumps_obj_length: "(k, v) \<in> set d \<Longrightarrow> length (json_dumps isep ksep v) \<le> length (json_dumps isep ksep (JObj d))"
  using join_length [of "print_pair isep ksep (k, v)" "map (print_pair isep ksep) d" isep] by force

lemma encode_length_payload: "length (json_dumps '','' '':'' (JObj (msg_payload m))) \<le> length (encode_message e m)"
  unfolding encode_message_def by (rule dumps_obj_length [of "''payload''"]) (simp add: dump_message_def)

text \<open>An upper bound of the length that is cheap to compute: a character takes at most six.\<close>

fun zlength :: "'a list \<Rightarrow> int" where
  "zlength [] = 0"
| "zlength (x # xs) = zlength xs + 1"

lemma zlength_eq: "zlength xs = int (length xs)"
  by (induction xs) simp_all

fun json_size :: "json \<Rightarrow> int" where
  "json_size JNull = 4"
| "json_size (JBool b) = 5"
| "json_size (JInt i) = zlength (int_str i)"
| "json_size (JFloat r t) = zlength t"
| "json_size (JStr s) = 6 * zlength s + 2"
| "json_size (JArr xs) = 2 + sum_list (map (\<lambda>x. json_size x + 1) xs)"
| "json_size (JObj d) = 2 + sum_list (map (\<lambda>(k, v). 6 * zlength k + json_size v + 4) d)"

lemma json_string_bound: "length (json_string s) \<le> 6 * length s + 2"
proof -
  have "length (concat (map json_escape s)) \<le> 6 * length s"
  proof (induction s)
    case (Cons c s)
    have "length (json_escape c) \<le> 6" by (simp add: json_escape_def Let_def)
    with Cons show ?case by simp
  qed simp
  then show ?thesis by (simp add: json_string_def)
qed

lemma join_bound: "int (length (join sep xs)) \<le> sum_list (map (\<lambda>x. int (length x) + int (length sep)) xs)"
  by (induction sep xs rule: join.induct) auto

lemma dumps_bound: "int (length (json_dumps '','' '':'' v)) \<le> json_size v"
proof (induction v)
  case (JStr s)
  then show ?case using json_string_bound [of s] by (simp add: zlength_eq)
next
  case (JArr xs)
  have "sum_list (map (\<lambda>x. int (length (json_dumps '','' '':'' x)) + 1) xs) \<le> sum_list (map (\<lambda>x. json_size x + 1) xs)"
    using JArr by (intro sum_list_mono) simp
  with join_bound [of "'',''" "map (json_dumps '','' '':'') xs"] show ?case by (simp add: o_def)
next
  case (JObj d)
  let ?p = "print_pair '','' '':''"
  have "int (length (?p kv)) + 1 \<le> (case kv of (k, v) \<Rightarrow> 6 * zlength k + json_size v + 4)" if "kv \<in> set d" for kv
    using JObj [of kv "snd kv"] that json_string_bound [of "fst kv"] by (cases kv) (simp add: zlength_eq)
  then have "sum_list (map (\<lambda>kv. int (length (?p kv)) + 1) d) \<le> sum_list (map (\<lambda>(k, v). 6 * zlength k + json_size v + 4) d)"
    by (intro sum_list_mono) simp
  with join_bound [of "'',''" "map ?p d"] show ?case by (simp add: o_def)
qed (simp_all add: zlength_eq)

lemma encode_bound: "int (length (encode_message e m)) \<le> json_size (JObj (dump_message e True m))"
  unfolding encode_message_def by (rule dumps_bound)

end
