(* ===== verification/Node_Link.thy ===== *)
theory Node_Link
  imports Node_Validator Codec
begin

text \<open>
  The link of the node to the server: the outbound queue and the writer task of \<^verbatim>\<open>node/bus.py\<close>, the
  session of \<^verbatim>\<open>node/session.py\<close> with its handshake, and the inbound routing of \<^verbatim>\<open>node/routing.py\<close>.

  A message between \<^verbatim>\<open>popleft\<close> and the end of \<^verbatim>\<open>drain\<close> is in flight: other coroutines run while the
  writer task waits there, so the two halves of an iteration are separate operations.
  \<open>bus_delivered\<close> is the history of the messages the writer task has handed to the wire.
\<close>

section \<open>Configuration and state\<close>

record node_config =
  nc_agent_id :: string
  nc_vm_id :: string
  nc_manifest_hash :: string
  nc_registered_engines :: "string list"
  nc_outbound_queue_max :: nat
  nc_handshake_max_retries :: nat
  nc_reconnect_base_seconds :: real
  nc_reconnect_max_seconds :: real

definition resolve_manifest_hash :: "string \<Rightarrow> node_config \<Rightarrow> string" where
  "resolve_manifest_hash test_hash cfg = (if nc_manifest_hash cfg \<noteq> [] then nc_manifest_hash cfg else test_hash)"

record bus_state = validator +
  bus_writer :: "stream_writer option"
  bus_outbound :: "framework_message list"
  bus_in_flight :: "framework_message option"
  bus_delivered :: "framework_message list"
  bus_handshake_complete :: bool

record node_session = bus_state +
  ns_session_token :: json
  ns_session_expires_at :: "time option"
  ns_policy_snapshot :: json
  ns_handshake_complete :: bool
  ns_handshake_correlation_id :: "uuid option"

section \<open>Inbound routing\<close>

definition broadcast_target :: "string \<Rightarrow> engine_id" where
  "broadcast_target ty =
     (if ty = ''agent_response'' then ENGINE2
      else if ty = ''tool_call'' then ENGINE1
      else if ty = ''llm_response'' then ENGINE3
      else if ty \<in> {''llm_stream_start'', ''llm_stream_chunk''} then ENGINE3
      else if prefix ''memory:'' ty then ENGINE4
      else LOOP)"

definition resolve_inbound_target :: "framework_message \<Rightarrow> engine_id option" where
  "resolve_inbound_target m =
     (case dst_type (msg_destination m) of
        CORVUS_SERVER \<Rightarrow> None
      | TO_ENGINE \<Rightarrow> (case engine_of (dst_target (msg_destination m)) of Inl _ \<Rightarrow> None | Inr en \<Rightarrow> Some en)
      | TO_LOOP \<Rightarrow> Some LOOP
      | BROADCAST \<Rightarrow> Some (broadcast_target (msg_type m)))"

section \<open>The outbound queue\<close>

text \<open>\<^verbatim>\<open>appendleft\<close> on a deque with a maximal length drops the last element when it is full.\<close>

definition appendleft_max :: "nat \<Rightarrow> 'a \<Rightarrow> 'a list \<Rightarrow> 'a list" where
  "appendleft_max n x q = take n (x # q)"

definition bus_send :: "node_config \<Rightarrow> framework_message \<Rightarrow> ('z bus_state_scheme, bool) act" where
  "bus_send cfg m = (\<lambda>s.
     if length (bus_outbound s) \<ge> nc_outbound_queue_max cfg then (Inr False, s)
     else (Inr True, s\<lparr>bus_outbound := bus_outbound s @ [m]\<rparr>))"

definition close_transport :: "('z bus_state_scheme, unit) act" where
  "close_transport = modS (\<lambda>s. s\<lparr>bus_writer := None\<rparr>)"

text \<open>The writer task takes the first message, and then either the wire took it or it goes back to the
  front and the transport is closed.\<close>

definition write_begin :: "('z bus_state_scheme, unit) act" where
  "write_begin = (\<lambda>s.
     case bus_outbound s of
       [] \<Rightarrow> (Inr (), s)
     | m # q \<Rightarrow>
         if bus_writer s = None \<or> bus_in_flight s \<noteq> None then (Inr (), s)
         else (Inr (), s\<lparr>bus_outbound := q, bus_in_flight := Some m\<rparr>))"

definition write_end :: "node_config \<Rightarrow> bool \<Rightarrow> ('z bus_state_scheme, unit) act" where
  "write_end cfg drained = (\<lambda>s.
     case bus_in_flight s of
       None \<Rightarrow> (Inr (), s)
     | Some m \<Rightarrow>
         if drained then (Inr (), s\<lparr>bus_in_flight := None, bus_delivered := bus_delivered s @ [m]\<rparr>)
         else close_transport (s\<lparr>bus_in_flight := None,
                bus_outbound := appendleft_max (nc_outbound_queue_max cfg) m (bus_outbound s)\<rparr>))"

section \<open>The session\<close>

definition inject_session :: "framework_message \<Rightarrow> 'z node_session_scheme \<Rightarrow> framework_message" where
  "inject_session m s =
     m\<lparr>msg_payload := (if truthy (ns_session_token s)
          then oset ''_session'' (JObj [(''token'', ns_session_token s)]) (msg_payload m) else msg_payload m)\<rparr>"

definition node_message ::
  "env \<Rightarrow> string \<Rightarrow> node_config \<Rightarrow> message_class \<Rightarrow> uuid \<Rightarrow> obj \<Rightarrow> framework_message" where
  "node_message e site cfg cls corr payload =
     new_message e site
       \<lparr>src_agent_id = nc_agent_id cfg, src_engine = CORVUS_NODE, src_vm_id = nc_vm_id cfg\<rparr>
       \<lparr>dst_type = CORVUS_SERVER, dst_target = ''corvus_server''\<rparr>
       cls ''handshake'' corr (mk_tags BY_SYSTEM None) payload"

definition handshake_request :: "env \<Rightarrow> string \<Rightarrow> node_config \<Rightarrow> framework_message" where
  "handshake_request e test_hash cfg =
     node_message e ''handshake_request'' cfg SYSTEM (uuid4 e ''handshake'')
       [(''manifest_hash'', JStr (resolve_manifest_hash test_hash cfg)), (''protocol_version'', JStr ''2.0''),
        (''vm_instance_id'', JStr (nc_vm_id cfg)), (''agent_id'', JStr (nc_agent_id cfg)),
        (''registered_engines'', JArr (map JStr (nc_registered_engines cfg)))]"

definition build_handshake_request ::
  "env \<Rightarrow> string \<Rightarrow> node_config \<Rightarrow> ('z node_session_scheme, framework_message) act" where
  "build_handshake_request e test_hash cfg =
     thenA (modS (\<lambda>s. s\<lparr>ns_handshake_correlation_id := Some (uuid4 e ''handshake'')\<rparr>))
       (ret (handshake_request e test_hash cfg))"

definition build_handshake_ack :: "env \<Rightarrow> node_config \<Rightarrow> 'z node_session_scheme \<Rightarrow> framework_message option" where
  "build_handshake_ack e cfg s =
     (case ns_handshake_correlation_id s of
        None \<Rightarrow> None
      | Some corr \<Rightarrow>
          if ns_session_token s = JNull then None
          else Some (node_message e ''handshake_ack'' cfg RESPONSE corr
                 [(''ack'', JBool True), (''_session'', JObj [(''token'', ns_session_token s)])]))"

text \<open>\<^verbatim>\<open>writer.write\<close> and \<^verbatim>\<open>drain\<close> during the handshake.\<close>

definition wire_write :: "framework_message \<Rightarrow> ('z bus_state_scheme, unit) act" where
  "wire_write m = (\<lambda>s.
     case bus_writer s of
       None \<Rightarrow> (Inl AttributeError, s)
     | Some w \<Rightarrow>
         if wr_broken w then (Inl RuntimeError, s)
         else if wr_closing w then (Inr (), s)
         else (Inr (), s\<lparr>bus_writer := Some (w\<lparr>wr_sent := wr_sent w @ [m]\<rparr>)\<rparr>))"

text \<open>A handshake reply that carries a token; \<open>fromiso\<close> is \<^verbatim>\<open>datetime.fromisoformat\<close>, with a text without
  an offset read as UTC.\<close>

definition accept_session ::
  "env \<Rightarrow> (json \<Rightarrow> time res) \<Rightarrow> node_config \<Rightarrow> framework_message \<Rightarrow> ('z node_session_scheme, bool) act" where
  "accept_session e fromiso cfg r =
     thenA (modS (\<lambda>s. s\<lparr>ns_session_token := pget r ''session_token''\<rparr>))
    (thenA (if truthy (pget r ''session_expires_at'')
            then bindA (liftR (fromiso (pget r ''session_expires_at''))) (\<lambda>x. modS (\<lambda>s. s\<lparr>ns_session_expires_at := Some x\<rparr>))
            else ret ())
    (thenA (modS (\<lambda>s. s\<lparr>ns_policy_snapshot := oget_or (msg_payload r) ''policy_snapshot'' (JObj DEFAULT_POLICY_SNAPSHOT)\<rparr>))
    (bindA (getS (build_handshake_ack e cfg)) (\<lambda>ack.
       case ack of
         None \<Rightarrow> ret False
       | Some a \<Rightarrow> thenA (wire_write a) (thenA (modS (\<lambda>s. s\<lparr>ns_handshake_complete := True\<rparr>)) (ret True))))))"

text \<open>The loop over at most \<open>n\<close> lines; a line that is no message raises \<^verbatim>\<open>CodecError\<close>; the end of the list
  is the end of the stream.\<close>

fun await_session ::
  "env \<Rightarrow> (json \<Rightarrow> time res) \<Rightarrow> node_config \<Rightarrow> nat \<Rightarrow> string list \<Rightarrow> ('z node_session_scheme, bool) act" where
  "await_session e fromiso cfg 0 lines = ret False"
| "await_session e fromiso cfg (Suc n) [] = ret False"
| "await_session e fromiso cfg (Suc n) (l # lines) =
     (case bindE (readline l) (decode_line e) of
        Inl x \<Rightarrow> raise x
      | Inr r \<Rightarrow>
          if msg_class r = ERROR then ret False
          else if msg_type r \<noteq> ''handshake'' then await_session e fromiso cfg n lines
          else if \<not> ohas (msg_payload r) ''session_token'' then await_session e fromiso cfg n lines
          else accept_session e fromiso cfg r)"

definition perform_handshake ::
  "env \<Rightarrow> (json \<Rightarrow> time res) \<Rightarrow> string \<Rightarrow> node_config \<Rightarrow> string list \<Rightarrow> ('z node_session_scheme, bool) act" where
  "perform_handshake e fromiso test_hash cfg lines =
     bindA (build_handshake_request e test_hash cfg) (\<lambda>request.
     thenA (wire_write request) (await_session e fromiso cfg (nc_handshake_max_retries cfg) lines))"

section \<open>Connecting and reconnecting\<close>

definition bus_connect :: "stream_writer \<Rightarrow> ('z bus_state_scheme, unit) act" where
  "bus_connect w = modS (\<lambda>s. s\<lparr>bus_writer := Some w\<rparr>)"

definition mark_handshake_complete :: "('z bus_state_scheme, unit) act" where
  "mark_handshake_complete = modS (\<lambda>s. s\<lparr>bus_handshake_complete := True\<rparr>)"

definition reconnect_session ::
  "env \<Rightarrow> real \<Rightarrow> (json \<Rightarrow> time res) \<Rightarrow> string \<Rightarrow> node_config \<Rightarrow> string list \<Rightarrow> ('z node_session_scheme, bool) act" where
  "reconnect_session e t fromiso test_hash cfg lines =
     bindA (perform_handshake e fromiso test_hash cfg lines) (\<lambda>ok.
       if \<not> ok then ret False
       else bindA (getS ns_policy_snapshot) (\<lambda>p.
         thenA (update_policy t p) (thenA mark_handshake_complete (ret True))))"

text \<open>One attempt at its instant: no connection, or a fresh writer and the lines the server sends on it.
  An exception is swallowed; only an attempt that returned a refusal closes the transport.\<close>

record attempt =
  at_env :: env
  at_clock :: real
  at_connection :: "(stream_writer \<times> string list) option"

definition reconnect_attempt ::
  "(json \<Rightarrow> time res) \<Rightarrow> string \<Rightarrow> node_config \<Rightarrow> attempt \<Rightarrow> ('z node_session_scheme, bool) act" where
  "reconnect_attempt fromiso test_hash cfg a = (\<lambda>s.
     case at_connection a of
       None \<Rightarrow> (Inr False, s)
     | Some (w, lines) \<Rightarrow>
         (case thenA (bus_connect w) (reconnect_session (at_env a) (at_clock a) fromiso test_hash cfg lines) s of
            (Inl _, s') \<Rightarrow> (Inr False, s')
          | (Inr ok, s') \<Rightarrow> if ok then (Inr True, s') else (Inr False, snd (close_transport s'))))"

text \<open>The loop; it returns the delays it slept.  Running out of attempts is the stop event.\<close>

fun reconnect_attempts ::
  "(json \<Rightarrow> time res) \<Rightarrow> string \<Rightarrow> node_config \<Rightarrow> real \<Rightarrow> attempt list \<Rightarrow> ('z node_session_scheme, real list) act" where
  "reconnect_attempts fromiso th cfg delay [] = ret []"
| "reconnect_attempts fromiso th cfg delay (a # as) =
     bindA (getS bus_handshake_complete) (\<lambda>active.
       if \<not> active then ret []
       else bindA (reconnect_attempt fromiso th cfg a) (\<lambda>ok.
         if ok then ret []
         else bindA (reconnect_attempts fromiso th cfg (min (delay * 2) (nc_reconnect_max_seconds cfg)) as) (\<lambda>ds.
           ret (delay # ds))))"

definition reconnect_loop ::
  "(json \<Rightarrow> time res) \<Rightarrow> string \<Rightarrow> node_config \<Rightarrow> attempt list \<Rightarrow> ('z node_session_scheme, real list) act" where
  "reconnect_loop fromiso th cfg as =
     thenA close_transport (reconnect_attempts fromiso th cfg (nc_reconnect_base_seconds cfg) as)"

section \<open>Backoff\<close>

text \<open>The delay after \<open>k\<close> failures.\<close>

fun backoff :: "node_config \<Rightarrow> real \<Rightarrow> nat \<Rightarrow> real" where
  "backoff cfg d 0 = d"
| "backoff cfg d (Suc k) = backoff cfg (min (d * 2) (nc_reconnect_max_seconds cfg)) k"

lemma reconnect_delays:
  assumes "reconnect_attempts fromiso th cfg d as s = (Inr ds, s')" and "k < length ds"
  shows "ds ! k = backoff cfg d k"
  using assms
proof (induction as arbitrary: d ds s k)
  case (Cons a as)
  then show ?case
    by (cases k) (auto elim!: bindA_InrE split: if_splits)
qed simp

lemma backoff_closed:
  assumes "0 < d" and "d \<le> nc_reconnect_max_seconds cfg"
  shows "backoff cfg d k = min (d * 2 ^ k) (nc_reconnect_max_seconds cfg)"
  using assms
proof (induction k arbitrary: d)
  case (Suc k)
  let ?M = "nc_reconnect_max_seconds cfg"
  from Suc.prems have "0 < min (d * 2) ?M" "min (d * 2) ?M \<le> ?M" by auto
  from Suc.IH [OF this] have "backoff cfg d (Suc k) = min (min (d * 2) ?M * 2 ^ k) ?M" by simp
  also have "\<dots> = min (d * 2 ^ Suc k) ?M"
  proof (cases "d * 2 \<le> ?M")
    case True then show ?thesis by (simp add: min_absorb1 mult.assoc)
  next
    case False
    have "?M * 1 \<le> ?M * 2 ^ k" by (rule mult_left_mono) (use Suc.prems in simp_all)
    then have M: "?M \<le> ?M * 2 ^ k" by simp
    also have "?M * 2 ^ k \<le> (d * 2) * 2 ^ k" by (rule mult_right_mono) (use False in simp_all)
    finally have "?M \<le> d * 2 ^ Suc k" by (simp only: power_Suc mult.assoc)
    with False M show ?thesis by (simp add: min_absorb2)
  qed
  finally show ?case .
qed simp

section \<open>The queue is a queue\<close>

text \<open>What the bus does to the outbound messages, as events in the order they happen.\<close>

datatype bus_event = Send framework_message | Begin_Write | End_Write bool | Connect stream_writer

definition bus_event_step :: "node_config \<Rightarrow> bus_event \<Rightarrow> ('z bus_state_scheme, unit) act" where
  "bus_event_step cfg ev =
     (case ev of
        Send m \<Rightarrow> thenA (bus_send cfg m) (ret ())
      | Begin_Write \<Rightarrow> write_begin
      | End_Write drained \<Rightarrow> write_end cfg drained
      | Connect w \<Rightarrow> bus_connect w)"

text \<open>Everything the bus still holds or has handed over, oldest first.\<close>

definition bus_content :: "'z bus_state_scheme \<Rightarrow> framework_message list" where
  "bus_content s = bus_delivered s @ (case bus_in_flight s of None \<Rightarrow> [] | Some m \<Rightarrow> [m]) @ bus_outbound s"

text \<open>The messages \<^verbatim>\<open>send\<close> accepted, and whether a failed write ever found the queue full.\<close>

fun bus_accepted :: "node_config \<Rightarrow> bus_event list \<Rightarrow> 'z bus_state_scheme \<Rightarrow> framework_message list" where
  "bus_accepted cfg [] s = []"
| "bus_accepted cfg (ev # evs) s =
     (case ev of Send m \<Rightarrow> if fst (bus_send cfg m s) = Inr True then [m] else [] | _ \<Rightarrow> [])
     @ bus_accepted cfg evs (snd (bus_event_step cfg ev s))"

fun bus_run :: "node_config \<Rightarrow> bus_event list \<Rightarrow> 'z bus_state_scheme \<Rightarrow> 'z bus_state_scheme" where
  "bus_run cfg [] s = s"
| "bus_run cfg (ev # evs) s = bus_run cfg evs (snd (bus_event_step cfg ev s))"

fun overfull :: "node_config \<Rightarrow> bus_event list \<Rightarrow> 'z bus_state_scheme \<Rightarrow> bool" where
  "overfull cfg [] s = False"
| "overfull cfg (ev # evs) s \<longleftrightarrow>
     (ev = End_Write False \<and> bus_in_flight s \<noteq> None \<and> length (bus_outbound s) \<ge> nc_outbound_queue_max cfg)
     \<or> overfull cfg evs (snd (bus_event_step cfg ev s))"

lemma appendleft_subseq: "subseq (appendleft_max n x q) (x # q)"
  by (metis appendleft_max_def append_take_drop_id list_emb_append2 subseq_order.refl subseq_rev_drop_many)

lemma bus_step_content:
  "bus_content (snd (bus_event_step cfg ev s)) =
     (if ev = End_Write False \<and> bus_in_flight s \<noteq> None
      then bus_delivered s @ appendleft_max (nc_outbound_queue_max cfg) (the (bus_in_flight s)) (bus_outbound s)
      else bus_content s @ (case ev of Send m \<Rightarrow> if fst (bus_send cfg m s) = Inr True then [m] else [] | _ \<Rightarrow> []))"
  by (cases ev)
     (auto simp: bus_event_step_def bus_content_def bus_send_def write_begin_def write_end_def bus_connect_def
        close_transport_def thenA_def bindA_def split: option.splits list.splits bool.splits)

text \<open>Nothing is invented, duplicated or reordered; and nothing is lost unless a failed write found the
  queue full.\<close>

lemma bus_step_subseq:
  "subseq (bus_content (snd (bus_event_step cfg ev s)))
     (bus_content s @ (case ev of Send m \<Rightarrow> if fst (bus_send cfg m s) = Inr True then [m] else [] | _ \<Rightarrow> []))"
proof (cases "ev = End_Write False \<and> bus_in_flight s \<noteq> None")
  case True
  then obtain m where ev: "ev = End_Write False" and m: "bus_in_flight s = Some m" by auto
  have "subseq (bus_delivered s @ appendleft_max (nc_outbound_queue_max cfg) m (bus_outbound s))
      (bus_delivered s @ m # bus_outbound s)"
    by (rule list_emb_append_mono [OF subseq_order.refl appendleft_subseq])
  with True ev m show ?thesis unfolding bus_step_content by (simp add: bus_content_def)
next
  case False
  show ?thesis by (simp only: bus_step_content if_not_P [OF False] subseq_order.refl)
qed

lemma bus_run_subseq: "subseq (bus_content (bus_run cfg evs s)) (bus_content s @ bus_accepted cfg evs s)"
proof (induction evs arbitrary: s)
  case (Cons ev evs)
  let ?s = "snd (bus_event_step cfg ev s)"
  have "subseq (bus_content ?s @ bus_accepted cfg evs ?s) (bus_content s @ bus_accepted cfg (ev # evs) s)"
    using list_emb_append_mono [OF bus_step_subseq subseq_order.refl [of "bus_accepted cfg evs ?s"], of cfg ev s]
    by (simp only: bus_accepted.simps append_assoc)
  with Cons.IH [of ?s] show ?case unfolding bus_run.simps by (rule subseq_order.trans)
qed simp

lemma bus_run_exact:
  "\<not> overfull cfg evs s \<Longrightarrow> bus_content (bus_run cfg evs s) = bus_content s @ bus_accepted cfg evs s"
proof (induction evs arbitrary: s)
  case (Cons ev evs)
  let ?s = "snd (bus_event_step cfg ev s)"
  have "bus_content ?s = bus_content s @ (case ev of Send m \<Rightarrow> if fst (bus_send cfg m s) = Inr True then [m] else [] | _ \<Rightarrow> [])"
    using Cons.prems unfolding bus_step_content
    by (auto simp: appendleft_max_def bus_content_def split: option.splits)
  with Cons show ?case by simp
qed simp

end
