(* ===== verification/Node.thy ===== *)
theory Node
  imports Node_Link
begin

text \<open>
  The local socket of \<^verbatim>\<open>node/ipc.py\<close>, its envelopes of \<^verbatim>\<open>node/models.py\<close> and the daemon of
  \<^verbatim>\<open>node/main.py\<close> that joins validator, session, bus and socket.  A connection of an engine is a
  number; the local variable \<^verbatim>\<open>registered\<close> of its handler is kept with it.  What is written to a
  connection is kept as the response object.
\<close>

section \<open>Envelopes and responses\<close>

datatype ipc_operation = SUBMIT_OUTBOUND | RECEIVE_INBOUND | SUBSCRIBE_ENGINE | HEALTH_CHECK

fun operation_value :: "ipc_operation \<Rightarrow> string" where
  "operation_value SUBMIT_OUTBOUND = ''submit_outbound''"
| "operation_value RECEIVE_INBOUND = ''receive_inbound''"
| "operation_value SUBSCRIBE_ENGINE = ''subscribe_engine''"
| "operation_value HEALTH_CHECK = ''health_check''"

record ipc_envelope =
  en_operation :: ipc_operation
  en_engine :: engine_id
  en_message :: "framework_message option"
  en_payload :: "obj option"

definition validate_envelope :: "env \<Rightarrow> json \<Rightarrow> ipc_envelope res" where
  "validate_envelope e v = bindE (pyd_dict v) (\<lambda>d.
     bindE (pyd_req (pyd_enum operation_value [SUBMIT_OUTBOUND, RECEIVE_INBOUND, SUBSCRIBE_ENGINE, HEALTH_CHECK]) d
              ''operation'') (\<lambda>opn.
     bindE (pyd_req (pyd_enum engine_value engines) d ''engine'') (\<lambda>en.
     bindE (pyd_def (pyd_opt (\<lambda>w. bindE (pyd_dict w) (validate_message e))) None d ''message'') (\<lambda>m.
     bindE (pyd_def (pyd_opt pyd_dict) None d ''payload'') (\<lambda>p.
     Inr \<lparr>en_operation = opn, en_engine = en, en_message = m, en_payload = p\<rparr>)))))"

record ipc_response =
  ir_accepted :: "bool option"
  ir_message_id :: "uuid option"
  ir_error :: "framework_message option"
  ir_status :: "string option"
  ir_handshake_complete :: "bool option"
  ir_session_expires_at :: "string option"
  ir_policy_snapshot :: "obj option"
  ir_operation :: "ipc_operation option"
  ir_message :: "framework_message option"

definition empty_response :: ipc_response where
  "empty_response = \<lparr>ir_accepted = None, ir_message_id = None, ir_error = None, ir_status = None,
     ir_handshake_complete = None, ir_session_expires_at = None, ir_policy_snapshot = None,
     ir_operation = None, ir_message = None\<rparr>"

datatype ipc_out = Raw obj | Response ipc_response

definition raw_error :: "string \<Rightarrow> ipc_out" where
  "raw_error text = Raw [(''accepted'', JBool False), (''error'', JStr text)]"

section \<open>State\<close>

record ipc_client =
  ic_connection :: int
  ic_manifest_engine_hash :: json

record ipc_connection =
  cn_registered :: "engine_id option"
  cn_broken :: bool
  cn_written :: "ipc_out list"

record node_state = node_session +
  ipc_clients :: "(engine_id \<times> ipc_client) list"
  ipc_pending :: "(engine_id \<times> framework_message list) list"
  ipc_connections :: "(int \<times> ipc_connection) list"

definition registered_of :: "int \<Rightarrow> 'z node_state_scheme \<Rightarrow> engine_id option" where
  "registered_of c s = (case map_of (ipc_connections s) c of None \<Rightarrow> None | Some k \<Rightarrow> cn_registered k)"

definition set_registered :: "int \<Rightarrow> engine_id option \<Rightarrow> ('z node_state_scheme, unit) act" where
  "set_registered c r = modS (\<lambda>s. case map_of (ipc_connections s) c of
     None \<Rightarrow> s | Some k \<Rightarrow> s\<lparr>ipc_connections := dput c (k\<lparr>cn_registered := r\<rparr>) (ipc_connections s)\<rparr>)"

section \<open>Writing to an engine\<close>

definition write_raw :: "int \<Rightarrow> ipc_out \<Rightarrow> ('z node_state_scheme, bool) act" where
  "write_raw c out = (\<lambda>s.
     case map_of (ipc_connections s) c of
       None \<Rightarrow> (Inr False, s)
     | Some k \<Rightarrow>
         if cn_broken k then (Inr False, s)
         else (Inr True, s\<lparr>ipc_connections := dput c (k\<lparr>cn_written := cn_written k @ [out]\<rparr>) (ipc_connections s)\<rparr>))"

definition inbound_envelope :: "framework_message \<Rightarrow> ipc_out" where
  "inbound_envelope m = Response (empty_response\<lparr>ir_operation := Some RECEIVE_INBOUND, ir_message := Some m\<rparr>)"

definition push_inbound :: "engine_id \<Rightarrow> framework_message \<Rightarrow> ('z node_state_scheme, bool) act" where
  "push_inbound engine m = bindA (getS (\<lambda>s. map_of (ipc_clients s) engine)) (\<lambda>client.
     case client of
       None \<Rightarrow> thenA (modS (\<lambda>s. s\<lparr>ipc_pending :=
                 dput engine ((case map_of (ipc_pending s) engine of None \<Rightarrow> [] | Some ms \<Rightarrow> ms) @ [m]) (ipc_pending s)\<rparr>))
                (ret False)
     | Some k \<Rightarrow> write_raw (ic_connection k) (inbound_envelope m))"

definition flush_pending_inbound :: "engine_id \<Rightarrow> ('z node_state_scheme, unit) act" where
  "flush_pending_inbound engine =
     bindA (getS (\<lambda>s. case map_of (ipc_pending s) engine of None \<Rightarrow> [] | Some ms \<Rightarrow> ms)) (\<lambda>pending.
     thenA (modS (\<lambda>s. s\<lparr>ipc_pending := ddel engine (ipc_pending s)\<rparr>))
    (bindA (getS (\<lambda>s. map_of (ipc_clients s) engine)) (\<lambda>client.
       case client of
         None \<Rightarrow> whenA (pending \<noteq> []) (modS (\<lambda>s. s\<lparr>ipc_pending := dput engine pending (ipc_pending s)\<rparr>))
       | Some k \<Rightarrow> forA pending (\<lambda>m. thenA (write_raw (ic_connection k) (inbound_envelope m)) (ret ())))))"

section \<open>The daemon\<close>

definition on_subscribe :: "engine_id \<Rightarrow> ('z validator_scheme, ipc_response) act" where
  "on_subscribe engine = bindA (getS (engine_policy_subset engine)) (\<lambda>r. bindA (liftR r) (\<lambda>p.
     ret (empty_response\<lparr>ir_accepted := Some True, ir_policy_snapshot := Some p\<rparr>)))"

definition on_health_check :: "'z node_session_scheme \<Rightarrow> ipc_response" where
  "on_health_check s = empty_response\<lparr>ir_status := Some ''ok'',
     ir_handshake_complete := Some (ns_handshake_complete s),
     ir_session_expires_at := map_option isoformat (ns_session_expires_at s)\<rparr>"

definition forced_source :: "node_config \<Rightarrow> engine_id \<Rightarrow> framework_message \<Rightarrow> framework_message" where
  "forced_source cfg registered m =
     m\<lparr>msg_source := \<lparr>src_agent_id = nc_agent_id cfg, src_engine = registered, src_vm_id = nc_vm_id cfg\<rparr>\<rparr>"

definition accepted_response :: "uuid \<Rightarrow> ipc_response" where
  "accepted_response i = empty_response\<lparr>ir_accepted := Some True, ir_message_id := Some i\<rparr>"

definition refused_response :: "framework_message \<Rightarrow> ipc_response" where
  "refused_response err = empty_response\<lparr>ir_accepted := Some False, ir_error := Some err\<rparr>"

definition handle_submit_outbound ::
  "env \<Rightarrow> real \<Rightarrow> node_config \<Rightarrow> engine_id \<Rightarrow> framework_message \<Rightarrow> engine_id \<Rightarrow> ('z node_state_scheme, ipc_response) act" where
  "handle_submit_outbound e t cfg registered m claimed =
     (let forced = forced_source cfg registered m in
      bindA (getS ns_handshake_complete) (\<lambda>hc.
      bindA (validate e t forced registered hc (Some claimed) (nc_agent_id cfg) (nc_vm_id cfg)) (\<lambda>error.
        case error of
          Some err \<Rightarrow> ret (refused_response err)
        | None \<Rightarrow>
            if registered = LOOP then ret (accepted_response (msg_id forced))
            else bindA (getS (inject_session forced)) (\<lambda>outbound.
              bindA (bus_send cfg outbound) (\<lambda>sent.
                if \<not> sent then
                  ret (refused_response (node_error e NODE_VALIDATION_FAILED ''Outbound queue full'' True
                         (nc_agent_id cfg) (nc_vm_id cfg) forced registered))
                else ret (accepted_response (msg_id forced)))))))"

definition deliver_inbound :: "framework_message \<Rightarrow> ('z node_state_scheme, unit) act" where
  "deliver_inbound m =
     (case resolve_inbound_target m of
        None \<Rightarrow> ret ()
      | Some target \<Rightarrow> thenA (push_inbound target m) (ret ()))"

text \<open>One line of the reader task.  The class of a decoded message is its string value, so the test
  \<^verbatim>\<open>message.message_class.value\<close> raises for every message of type \<^verbatim>\<open>handshake\<close>, and the task ends.\<close>

definition bus_read_line :: "env \<Rightarrow> string \<Rightarrow> ('z node_state_scheme, unit) act" where
  "bus_read_line e text_line = bindA (liftR (readline text_line)) (\<lambda>line.
     case decode_line e line of
       Inl _ \<Rightarrow> ret ()
     | Inr m \<Rightarrow> if msg_type m = ''handshake'' then raise AttributeError else deliver_inbound m)"

definition node_start ::
  "env \<Rightarrow> real \<Rightarrow> (json \<Rightarrow> time res) \<Rightarrow> string \<Rightarrow> node_config \<Rightarrow> stream_writer \<Rightarrow> string list
   \<Rightarrow> ('z node_session_scheme, bool) act" where
  "node_start e t fromiso test_hash cfg w lines =
     thenA (bus_connect w)
    (bindA (perform_handshake e fromiso test_hash cfg lines) (\<lambda>ok.
       if \<not> ok then thenA close_transport (ret False)
       else bindA (getS ns_policy_snapshot) (\<lambda>p.
         thenA (update_policy t p) (thenA mark_handshake_complete (ret True)))))"

section \<open>The handler of a connection\<close>

definition subscribe :: "int \<Rightarrow> ipc_envelope \<Rightarrow> ('z node_state_scheme, engine_id option) act" where
  "subscribe c en =
     (let engine = en_engine en in
      if engine = CORVUS_NODE then thenA (write_raw c (raw_error ''Invalid engine'')) (ret None)
      else bindA (getS (\<lambda>s. map_of (ipc_clients s) engine)) (\<lambda>client.
        if client \<noteq> None then
          thenA (write_raw c (raw_error (engine_value engine @ '' already registered''))) (ret None)
        else
          thenA (modS (\<lambda>s. s\<lparr>ipc_clients := dput engine
                   \<lparr>ic_connection = c,
                    ic_manifest_engine_hash = (case en_payload en of
                       None \<Rightarrow> JNull | Some p \<Rightarrow> if p = [] then JNull else oget p ''manifest_engine_hash'')\<rparr> (ipc_clients s)\<rparr>))
         (bindA (on_subscribe engine) (\<lambda>response.
          thenA (write_raw c (Response response))
         (thenA (flush_pending_inbound engine) (ret (Some engine)))))))"

definition serve_envelope ::
  "env \<Rightarrow> real \<Rightarrow> node_config \<Rightarrow> int \<Rightarrow> ipc_envelope \<Rightarrow> ('z node_state_scheme, unit) act" where
  "serve_envelope e t cfg c en =
     (if en_operation en = HEALTH_CHECK then
        bindA (getS on_health_check) (\<lambda>r. thenA (write_raw c (Response r)) (ret ()))
      else if en_operation en = SUBSCRIBE_ENGINE then bindA (subscribe c en) (set_registered c)
      else bindA (getS (registered_of c)) (\<lambda>registered.
        case registered of
          None \<Rightarrow> thenA (write_raw c (raw_error ''subscribe_engine required first'')) (ret ())
        | Some engine \<Rightarrow>
            if en_operation en = SUBMIT_OUTBOUND then
              (case en_message en of
                 None \<Rightarrow> thenA (write_raw c (raw_error ''message required'')) (ret ())
               | Some m \<Rightarrow> bindA (handle_submit_outbound e t cfg engine m (m_engine m)) (\<lambda>r.
                   thenA (write_raw c (Response r)) (ret ())))
            else ret ()))"

text \<open>One line of an engine, its JSON text.\<close>

definition serve_ipc_line ::
  "env \<Rightarrow> real \<Rightarrow> node_config \<Rightarrow> int \<Rightarrow> string \<Rightarrow> ('z node_state_scheme, unit) act" where
  "serve_ipc_line e t cfg c text_line = bindA (liftR (readline text_line)) (\<lambda>line.
     case (case json_loads (float_repr e) line of None \<Rightarrow> Inl ValueError | Some v \<Rightarrow> validate_envelope e v) of
       Inl _ \<Rightarrow> thenA (write_raw c (raw_error ''Invalid IPC envelope'')) (ret ())
     | Inr en \<Rightarrow> serve_envelope e t cfg c en)"

definition open_ipc :: "int \<Rightarrow> ('z node_state_scheme, unit) act" where
  "open_ipc c = modS (\<lambda>s. s\<lparr>ipc_connections :=
     dput c \<lparr>cn_registered = None, cn_broken = False, cn_written = []\<rparr> (ipc_connections s)\<rparr>)"

text \<open>The \<^verbatim>\<open>finally\<close> block; the closed writer stays referenced by a client that was not removed.\<close>

definition close_ipc :: "int \<Rightarrow> ('z node_state_scheme, unit) act" where
  "close_ipc c = (\<lambda>s.
     let s1 = (case registered_of c s of None \<Rightarrow> s | Some engine \<Rightarrow> s\<lparr>ipc_clients := ddel engine (ipc_clients s)\<rparr>)
     in case map_of (ipc_connections s1) c of
          None \<Rightarrow> (Inr (), s1)
        | Some k \<Rightarrow> (Inr (), s1\<lparr>ipc_connections := dput c (k\<lparr>cn_registered := None, cn_broken := True\<rparr>) (ipc_connections s1)\<rparr>))"

definition handle_ipc_line ::
  "env \<Rightarrow> real \<Rightarrow> node_config \<Rightarrow> int \<Rightarrow> string \<Rightarrow> 'z node_state_scheme \<Rightarrow> 'z node_state_scheme" where
  "handle_ipc_line e t cfg c line s =
     (case serve_ipc_line e t cfg c line s of
        (Inr _, s') \<Rightarrow> s'
      | (Inl _, s') \<Rightarrow> snd (close_ipc c s'))"

section \<open>Runs of the node\<close>

text \<open>The coroutines of the daemon interleave at these operations.  A connection number is used once.\<close>

inductive node_step :: "(json \<Rightarrow> time res) \<Rightarrow> string \<Rightarrow> node_config \<Rightarrow> 'z node_state_scheme \<Rightarrow> 'z node_state_scheme \<Rightarrow> bool"
  for fromiso th cfg where
  Open: "map_of (ipc_connections s) c = None \<Longrightarrow> node_step fromiso th cfg s (snd (open_ipc c s))"
| Line: "node_step fromiso th cfg s (handle_ipc_line e t cfg c line s)"
| Close: "node_step fromiso th cfg s (snd (close_ipc c s))"
| Start: "node_step fromiso th cfg s (snd (node_start e t fromiso th cfg w lines s))"
| Reconnect: "node_step fromiso th cfg s (snd (reconnect_loop fromiso th cfg as s))"
| Write: "node_step fromiso th cfg s (snd (write_begin s))"
| Wrote: "node_step fromiso th cfg s (snd (write_end cfg drained s))"
| Inbound: "node_step fromiso th cfg s (snd (bus_read_line e l s))"

inductive node_reachable :: "(json \<Rightarrow> time res) \<Rightarrow> string \<Rightarrow> node_config \<Rightarrow> 'z node_state_scheme \<Rightarrow> 'z node_state_scheme \<Rightarrow> bool"
  for fromiso th cfg s0 where
  Init: "node_reachable fromiso th cfg s0 s0"
| Next: "node_reachable fromiso th cfg s0 s \<Longrightarrow> node_step fromiso th cfg s s' \<Longrightarrow> node_reachable fromiso th cfg s0 s'"

inductive_cases node_stepE: "node_step fromiso th cfg s s'"

section \<open>Every outbound message is the node's own\<close>

text \<open>A message as the node may send it: its own agent and VM, an engine of this VM that is neither the
  loop nor the node, the server as its destination, and memory operations from the memory engine only.\<close>

definition own_message :: "node_config \<Rightarrow> framework_message \<Rightarrow> bool" where
  "own_message cfg m \<longleftrightarrow> m_agent m = nc_agent_id cfg \<and> m_vm m = nc_vm_id cfg \<and> m_engine m \<notin> {LOOP, CORVUS_NODE}
     \<and> dst_type (msg_destination m) = CORVUS_SERVER \<and> (prefix ''memory:'' (msg_type m) \<longrightarrow> m_engine m = ENGINE4)"

definition node_ok :: "node_config \<Rightarrow> 'z node_state_scheme \<Rightarrow> bool" where
  "node_ok cfg s \<longleftrightarrow> (\<forall>m \<in> set (bus_content s). own_message cfg m)
     \<and> length (bus_outbound s) \<le> nc_outbound_queue_max cfg
     \<and> distinct (map fst (ipc_clients s)) \<and> CORVUS_NODE \<notin> fst ` set (ipc_clients s)
     \<and> (\<forall>c. registered_of c s \<noteq> Some CORVUS_NODE)"

text \<open>The part of the state the invariant is about.\<close>

definition node_view ::
  "'z node_state_scheme \<Rightarrow> framework_message list \<times> framework_message option \<times> framework_message list
     \<times> engine_id list \<times> (int \<Rightarrow> engine_id option)" where
  "node_view s = (bus_outbound s, bus_in_flight s, bus_delivered s, map fst (ipc_clients s), \<lambda>c. registered_of c s)"

lemma node_ok_frame: "node_view s' = node_view s \<Longrightarrow> node_ok cfg s' \<longleftrightarrow> node_ok cfg s"
  by (auto simp: node_view_def node_ok_def bus_content_def fun_eq_iff image_set simp del: set_map list.set_map)

lemma node_ok_keeps: "keeps node_view m \<Longrightarrow> preserves (node_ok cfg) m"
  by (rule preservesI) (metis keepsD node_ok_frame)

abbreviation same_view :: "('z node_state_scheme, 'a) act \<Rightarrow> bool" where
  "same_view m \<equiv> (\<forall>v. preserves (\<lambda>s. node_view s = v) m)"

lemma view_modS [pres_intro]:
  "preserves (\<lambda>s. node_view s = v) (modS (vl_policy_update f1))"
  "preserves (\<lambda>s. node_view s = v) (modS (vl_buckets_update f2))"
  "preserves (\<lambda>s. node_view s = v) (modS (bus_writer_update f3))"
  "preserves (\<lambda>s. node_view s = v) (modS (bus_handshake_complete_update f4))"
  "preserves (\<lambda>s. node_view s = v) (modS (ns_session_token_update f5))"
  "preserves (\<lambda>s. node_view s = v) (modS (ns_session_expires_at_update f6))"
  "preserves (\<lambda>s. node_view s = v) (modS (ns_policy_snapshot_update f7))"
  "preserves (\<lambda>s. node_view s = v) (modS (ns_handshake_complete_update f8))"
  "preserves (\<lambda>s. node_view s = v) (modS (ns_handshake_correlation_id_update f9))"
  by (rule preserves_modS; simp add: node_view_def registered_of_def)+

lemma view_modS_pending [pres_intro]:
  "preserves (\<lambda>s. node_view s = v) (modS (\<lambda>s. s\<lparr>ipc_pending := f s\<rparr>))"
  "preserves (\<lambda>s. node_view s = v) (modS (\<lambda>s. s\<lparr>vl_buckets := g s\<rparr>))"
  by (rule preserves_modS; simp add: node_view_def registered_of_def)+

lemma view_write_raw [pres_intro]: "preserves (\<lambda>s. node_view s = v) (write_raw c out)"
  by (rule preservesI)
     (auto simp: write_raw_def node_view_def registered_of_def fun_eq_iff split: option.splits)

lemma view_wire_write [pres_intro]: "preserves (\<lambda>s. node_view s = v) (wire_write m)"
  by (rule preservesI) (auto simp: wire_write_def node_view_def registered_of_def split: option.splits)

lemma view_take_token [pres_intro]: "preserves (\<lambda>s. node_view s = v) (take_token t k)"
  by (rule preservesI) (auto simp: take_token_def node_view_def registered_of_def split: option.splits prod.splits)

lemma view_validate [pres_intro]: "preserves (\<lambda>s. node_view s = v) (validate e t m reg hc cl a vm)"
  unfolding validate_def Let_def by (intro pres_intro)

lemma view_push_inbound [pres_intro]: "preserves (\<lambda>s. node_view s = v) (push_inbound en m)"
  unfolding push_inbound_def by (intro pres_intro)

lemma view_flush [pres_intro]: "preserves (\<lambda>s. node_view s = v) (flush_pending_inbound en)"
  unfolding flush_pending_inbound_def by (intro pres_intro)

lemma view_bus_read_line [pres_intro]: "preserves (\<lambda>s. node_view s = v) (bus_read_line e l)"
  unfolding bus_read_line_def deliver_inbound_def by (intro pres_intro)

lemma view_update_policy [pres_intro]: "preserves (\<lambda>s. node_view s = v) (update_policy t p)"
  unfolding update_policy_def init_buckets_def add_bucket_def by (intro pres_intro)

lemma view_accept_session [pres_intro]: "preserves (\<lambda>s. node_view s = v) (accept_session e fi cfg r)"
  unfolding accept_session_def by (intro pres_intro)

lemma view_await_session [pres_intro]: "preserves (\<lambda>s. node_view s = v) (await_session e fi cfg n lines)"
proof (induction e fi cfg n lines rule: await_session.induct)
  case (3 e fi cfg n l lines)
  show ?case unfolding await_session.simps
    by (intro preserves_case_sum preserves_if preserves_raise preserves_ret view_accept_session) (use 3 in simp_all)
qed (simp_all only: await_session.simps preserves_ret preserves_raise)

lemma view_perform_handshake [pres_intro]: "preserves (\<lambda>s. node_view s = v) (perform_handshake e fi th cfg lines)"
  unfolding perform_handshake_def build_handshake_request_def by (intro pres_intro)

lemma view_transport [pres_intro]:
  "preserves (\<lambda>s. node_view s = v) close_transport"
  "preserves (\<lambda>s. node_view s = v) (bus_connect w)"
  "preserves (\<lambda>s. node_view s = v) mark_handshake_complete"
  unfolding close_transport_def bus_connect_def mark_handshake_complete_def by (intro pres_intro)+

lemma view_reconnect_session [pres_intro]: "preserves (\<lambda>s. node_view s = v) (reconnect_session e t fi th cfg lines)"
  unfolding reconnect_session_def by (intro pres_intro)

lemma view_reconnect_attempt [pres_intro]: "preserves (\<lambda>s. node_view s = v) (reconnect_attempt fi th cfg a)"
proof (rule preservesI)
  fix s :: "'z node_state_scheme"
  assume v: "node_view s = v"
  have k: "node_view (snd (thenA (bus_connect w) (reconnect_session (at_env a) (at_clock a) fi th cfg lines) s)) = v" for w lines
    by (rule preservesD [where P = "\<lambda>s. node_view s = v"]) (intro pres_intro v)+
  show "node_view (snd (reconnect_attempt fi th cfg a s)) = v"
  proof (cases "at_connection a")
    case None
    then show ?thesis using v by (simp add: reconnect_attempt_def)
  next
    case (Some c)
    obtain w lines where c: "c = (w, lines)" by (cases c)
    obtain r s' where r: "thenA (bus_connect w) (reconnect_session (at_env a) (at_clock a) fi th cfg lines) s = (r, s')"
      by (cases "thenA (bus_connect w) (reconnect_session (at_env a) (at_clock a) fi th cfg lines) s")
    have "node_view s' = v" using k [of w lines] r by simp
    moreover from this have "node_view (snd (close_transport s')) = v" by (rule preservesD [where P = "\<lambda>s. node_view s = v", OF view_transport(1)])
    ultimately show ?thesis using Some c r by (auto simp: reconnect_attempt_def split: sum.splits)
  qed
qed

lemma view_reconnect_attempts [pres_intro]: "preserves (\<lambda>s. node_view s = v) (reconnect_attempts fi th cfg d as)"
proof (induction as arbitrary: d)
  case (Cons a as)
  show ?case unfolding reconnect_attempts.simps
    by (intro preserves_bindA preserves_getS preserves_if preserves_ret view_reconnect_attempt Cons.IH)
qed (simp only: reconnect_attempts.simps preserves_ret)

text \<open>The operations that do change that part of the state.\<close>

lemma node_ok_keep: "(\<And>v. preserves (\<lambda>s. node_view s = v) m) \<Longrightarrow> preserves (node_ok cfg) m"
  by (rule node_ok_keeps) (simp add: keeps_def)

lemma node_ok_register:
  "preserves (node_ok cfg) (set_registered c r)" if "r \<noteq> Some CORVUS_NODE"
  by (rule preservesI)
     (use that in \<open>auto simp: set_registered_def node_ok_def bus_content_def registered_of_def split: option.splits\<close>)

lemma node_ok_open: "preserves (node_ok cfg) (open_ipc c)"
  by (rule preservesI) (auto simp: open_ipc_def node_ok_def bus_content_def registered_of_def)

lemma dict_keys:
  "distinct (map fst d) \<Longrightarrow> distinct (map fst (ddel k d))"
  "fst ` set (ddel k d) = fst ` set d - {k}"
  "distinct (map fst d) \<Longrightarrow> distinct (map fst (dput k v d))"
  "fst ` set (dput k v d) = insert k (fst ` set d)"
proof -
  have "set (map fst (ddel k d)) = set (map fst d) - {k}" by (simp only: ddel_def delete_keys set_removeAll)
  then show "fst ` set (ddel k d) = fst ` set d - {k}" by simp
  have "set (map fst (dput k v d)) = insert k (set (map fst d))" by (simp only: dput_def update_keys) auto
  then show "fst ` set (dput k v d) = insert k (fst ` set d)" by simp
qed (simp_all add: ddel_def dput_def distinct_delete distinct_update)

lemma node_ok_subscribe: "preserves (node_ok cfg) (subscribe c en)"
proof (rule preservesI)
  fix s :: "'z node_state_scheme"
  assume ok: "node_ok cfg s"
  let ?en = "en_engine en"
  have keep: "preserves (node_ok cfg) (thenA (write_raw c out) (ret x))" for out and x :: "engine_id option"
    by (rule node_ok_keep) (intro pres_intro)
  have rest: "preserves (node_ok cfg) (bindA (on_subscribe ?en) (\<lambda>response.
      thenA (write_raw c (Response response)) (thenA (flush_pending_inbound ?en) (ret (Some ?en)))))"
    unfolding on_subscribe_def by (rule node_ok_keep) (intro pres_intro)
  show "node_ok cfg (snd (subscribe c en s))"
  proof (cases "?en = CORVUS_NODE \<or> map_of (ipc_clients s) ?en \<noteq> None")
    case True
    with preservesD [OF keep ok] show ?thesis by (auto simp: subscribe_def Let_def)
  next
    case False
    then have "node_ok cfg (s\<lparr>ipc_clients := dput ?en k (ipc_clients s)\<rparr>)" for k
      using ok by (auto simp: node_ok_def bus_content_def registered_of_def dict_keys)
    from preservesD [OF rest this] False show ?thesis by (simp add: subscribe_def Let_def)
  qed
qed

lemma subscribe_not_node: "subscribe c en s = (Inr r, s') \<Longrightarrow> r \<noteq> Some CORVUS_NODE"
  by (auto simp: subscribe_def Let_def split: if_splits elim!: bindA_InrE thenA_InrE)

lemma node_ok_close: "preserves (node_ok cfg) (close_ipc c)"
  by (rule preservesI)
     (auto simp: close_ipc_def Let_def node_ok_def bus_content_def registered_of_def dict_keys split: option.splits)

lemma node_ok_bus:
  "preserves (node_ok cfg) write_begin" "preserves (node_ok cfg) (write_end cfg drained)"
proof -
  show "preserves (node_ok cfg) write_begin"
    by (rule preservesI)
       (auto simp: write_begin_def node_ok_def bus_content_def registered_of_def split: list.split option.split)
  have sub: "x \<in> set (appendleft_max n m q) \<Longrightarrow> x = m \<or> x \<in> set q" "length (appendleft_max n m q) \<le> n"
    for n and m x :: framework_message and q
    by (auto simp: appendleft_max_def dest: in_set_takeD)
  show "preserves (node_ok cfg) (write_end cfg drained)"
    by (rule preservesI)
       (auto simp: write_end_def close_transport_def node_ok_def bus_content_def registered_of_def sub(2)
          dest!: sub(1) split: option.split)
qed

lemma node_ok_submit:
  assumes "registered \<noteq> CORVUS_NODE"
  shows "preserves (node_ok cfg) (handle_submit_outbound e t cfg registered m claimed)"
proof (rule preservesI)
  fix s :: "'z node_state_scheme"
  assume ok: "node_ok cfg s"
  let ?f = "forced_source cfg registered m"
  obtain r s1 where v: "validate e t ?f registered (ns_handshake_complete s) (Some claimed) (nc_agent_id cfg) (nc_vm_id cfg) s = (r, s1)"
    by (cases "validate e t ?f registered (ns_handshake_complete s) (Some claimed) (nc_agent_id cfg) (nc_vm_id cfg) s")
  have ok1: "node_ok cfg s1"
    using preservesD [OF node_ok_keep [OF view_validate] ok] v by (metis snd_conv)
  have "own_message cfg (inject_session ?f s1)" if "r = Inr None" "registered \<noteq> LOOP"
    using validate_accepted [of e t ?f registered "ns_handshake_complete s" "Some claimed"] v assms that
    by (auto simp: own_message_def inject_session_def forced_source_def)
  with ok1 show "node_ok cfg (snd (handle_submit_outbound e t cfg registered m claimed s))"
    by (auto simp: handle_submit_outbound_def Let_def v bindA_def bus_send_def node_ok_def bus_content_def
        registered_of_def split: sum.splits option.splits)
qed

lemma node_ok_line: "node_ok cfg s \<Longrightarrow> node_ok cfg (handle_ipc_line e t cfg c line s)"
proof -
  have sub: "preserves (node_ok cfg) (bindA (subscribe c en) (set_registered c))" for en
  proof (rule preservesI)
    fix s :: "'z node_state_scheme"
    assume ok: "node_ok cfg s"
    obtain r s' where r: "subscribe c en s = (r, s')" by (cases "subscribe c en s")
    have ok': "node_ok cfg s'" using preservesD [OF node_ok_subscribe ok, of c en] r by simp
    show "node_ok cfg (snd (bindA (subscribe c en) (set_registered c) s))"
      using preservesD [OF node_ok_register ok'] subscribe_not_node [of c en s] r ok' by (cases r) auto
  qed
  have keep: "preserves (node_ok cfg) (thenA (write_raw c out) (ret ()))" for out
    by (rule node_ok_keep) (intro pres_intro)
  have "preserves (node_ok cfg) (serve_envelope e t cfg c en)" for en
  proof (rule preservesI)
    fix s :: "'z node_state_scheme"
    assume ok: "node_ok cfg s"
    then have reg: "registered_of c s \<noteq> Some CORVUS_NODE" by (simp add: node_ok_def)
    have submit: "preserves (node_ok cfg) (bindA (handle_submit_outbound e t cfg engine m (m_engine m)) (\<lambda>r.
        thenA (write_raw c (Response r)) (ret ())))" if "engine \<noteq> CORVUS_NODE" for engine m
      by (intro preserves_bindA node_ok_submit keep that)
    show "node_ok cfg (snd (serve_envelope e t cfg c en s))"
      using preservesD [OF keep ok] preservesD [OF sub ok] preservesD [OF submit ok] reg ok
      by (auto simp: serve_envelope_def split: option.split)
  qed
  then have serve: "preserves (node_ok cfg) (serve_ipc_line e t cfg c line)"
    unfolding serve_ipc_line_def by (intro preserves_bindA preserves_liftR preserves_case_sum keep)
  assume "node_ok cfg s"
  with preservesD [OF serve] preservesD [OF node_ok_close]
  show ?thesis by (fastforce simp: handle_ipc_line_def split: prod.splits sum.splits)
qed

lemma node_step_ok: "node_step fi th cfg s s' \<Longrightarrow> node_ok cfg s \<Longrightarrow> node_ok cfg s'"
proof (induction rule: node_step.induct)
  case (Start s e t w lines)
  show ?case by (rule preservesD [OF node_ok_keep Start]) (unfold node_start_def, intro pres_intro)
next
  case (Reconnect s as)
  show ?case by (rule preservesD [OF node_ok_keep Reconnect]) (unfold reconnect_loop_def, intro pres_intro)
next
  case (Inbound s e l)
  show ?case by (rule preservesD [OF node_ok_keep Inbound]) (intro pres_intro)
qed (simp_all add: node_ok_line preservesD [OF node_ok_open] preservesD [OF node_ok_close] preservesD [OF node_ok_bus(1)]
       preservesD [OF node_ok_bus(2)])

lemma node_reachable_ok: "node_reachable fi th cfg s0 s \<Longrightarrow> node_ok cfg s0 \<Longrightarrow> node_ok cfg s"
  by (induction rule: node_reachable.induct) (simp_all add: node_step_ok)

section \<open>A refused subscription\<close>

text \<open>A connection that asks again for an engine that is taken, even for its own, forgets its registration,
  and nothing removes the client any more: the engine stays taken after the connection is gone.\<close>

lemma write_raw_clients: "ipc_clients (snd (write_raw c out s)) = ipc_clients s"
  by (auto simp: write_raw_def split: option.split)

lemma write_raw_Inr: "\<exists>ok. write_raw c out s = (Inr ok, snd (write_raw c out s))"
  by (auto simp: write_raw_def split: option.split)

lemma subscribe_refused:
  assumes "map_of (ipc_clients s) (en_engine en) = Some k"
  shows "\<exists>s'. subscribe c en s = (Inr None, s') \<and> ipc_clients s' = ipc_clients s"
proof -
  have w: "thenA (write_raw c out) (ret None) s = (Inr None, snd (write_raw c out s))" for out
    by (metis thenA_Inr ret_apply write_raw_Inr)
  show ?thesis using assms by (auto simp: subscribe_def Let_def w write_raw_clients)
qed

lemma resubscribe_keeps_client:
  assumes "map_of (ipc_clients s) (en_engine en) = Some k" and "en_operation en = SUBSCRIBE_ENGINE"
  shows "map_of (ipc_clients (snd (close_ipc c (snd (serve_envelope e t cfg c en s))))) (en_engine en) = Some k"
proof -
  obtain s1 where s1: "subscribe c en s = (Inr None, s1)" "ipc_clients s1 = ipc_clients s"
    using subscribe_refused [OF assms(1)] by blast
  let ?s2 = "snd (set_registered c None s1)"
  have "snd (serve_envelope e t cfg c en s) = ?s2" using assms(2) s1 by (simp add: serve_envelope_def)
  moreover have "ipc_clients ?s2 = ipc_clients s" "registered_of c ?s2 = None"
    using s1(2) by (auto simp: set_registered_def registered_of_def split: option.split)
  ultimately show ?thesis using assms(1) by (auto simp: close_ipc_def Let_def split: option.split)
qed

end
