(* ===== verification/Identity.thy ===== *)
theory Identity
  imports Sessions
begin

text \<open>
  The identity resolver of \<^verbatim>\<open>policy/identity.py\<close>.  An absent override context and an empty one
  behave alike, so the context is an object.  Every \<^verbatim>\<open>.get\<close> on a value that is not a dictionary
  raises \<^verbatim>\<open>AttributeError\<close>, and the resolution is a pydantic model, which raises
  \<^verbatim>\<open>ValidationError\<close> on a field of the wrong type.
\<close>

definition identity_channel_of :: "obj \<Rightarrow> obj \<Rightarrow> string" where
  "identity_channel_of ctx payload = py_str
     (py_or (oget ctx ''identity_channel'') (py_or (oget payload ''identity_channel'')
       (py_or (oget payload ''platform'') (JStr ''unknown''))))"

definition auth_method_of :: "obj \<Rightarrow> obj \<Rightarrow> string res" where
  "auth_method_of ctx payload =
     (if truthy (oget ctx ''auth_method'') then Inr (py_str (oget ctx ''auth_method''))
      else if truthy (oget payload ''auth_method'') then Inr (py_str (oget payload ''auth_method''))
      else bindE (jget (oget_or payload ''auth'' (JObj [])) ''method'' (JStr ''none'')) (\<lambda>v. Inr (py_str v)))"

text \<open>\<^verbatim>\<open>_verify_direct_user\<close>\<close>

definition supplied_secret :: "obj \<Rightarrow> obj \<Rightarrow> json res" where
  "supplied_secret ctx payload =
     (if truthy (oget ctx ''pin'') then Inr (oget ctx ''pin'')
      else if truthy (oget ctx ''password'') then Inr (oget ctx ''password'')
      else if truthy (oget payload ''pin'') then Inr (oget payload ''pin'')
      else if truthy (oget payload ''password'') then Inr (oget payload ''password'')
      else jget (oget_or payload ''auth'' (JObj [])) ''secret'' JNull)"

definition verify_direct_user :: "env \<Rightarrow> obj \<Rightarrow> obj \<Rightarrow> obj \<Rightarrow> string \<Rightarrow> 'z db_scheme \<Rightarrow> bool res" where
  "verify_direct_user e user payload ctx channel s =
     (if oget ctx ''identity_verified'' \<noteq> JNull then Inr (truthy (oget ctx ''identity_verified''))
      else if channel \<notin> {''cli'', ''api''} then Inr True
      else bindE (supplied_secret ctx payload) (\<lambda>secret.
        if \<not> truthy secret then Inr False
        else bindE (sql_text (oget user ''id'')) (\<lambda>uid.
          Inr (case uid of None \<Rightarrow> False | Some u \<Rightarrow> verify_user_secret e u (py_str secret) s))))"

text \<open>\<^verbatim>\<open>_from_user\<close>: \<^verbatim>\<open>list(...)\<close> of the three list fields, then the model's own types.\<close>

definition str_list :: "json \<Rightarrow> string list res" where
  "str_list v = bindE (py_iter v) (mapE pyd_str)"

definition from_user :: "obj \<Rightarrow> string \<Rightarrow> json \<Rightarrow> bool \<Rightarrow> string \<Rightarrow> string \<Rightarrow> identity_resolution res" where
  "from_user user channel alias verified auth_method reason =
     bindE (str_list (oget_or user ''groups'' (JArr []))) (\<lambda>gs.
     bindE (str_list (oget_or user ''privileges'' (JArr []))) (\<lambda>ps.
     bindE (str_list (oget_or user ''allowed_agents'' (JArr []))) (\<lambda>as.
     bindE (pyd_opt pyd_str (oget user ''id'')) (\<lambda>uid.
     bindE (pyd_str (oget_or user ''role'' (JStr ''anonymous''))) (\<lambda>role.
     bindE (pyd_opt pyd_str alias) (\<lambda>al.
     Inr \<lparr>ir_user_id = uid, ir_role = role, ir_groups = gs, ir_privileges = ps, ir_allowed_agents = as,
          ir_identity_channel = channel, ir_identity_alias = al, ir_identity_verified = verified,
          ir_auth_method = auth_method, ir_reason = reason\<rparr>))))))"

text \<open>The claimed alias: platform and value.\<close>

definition claimed_alias :: "obj \<Rightarrow> obj \<Rightarrow> string \<Rightarrow> json \<times> json" where
  "claimed_alias ctx payload channel =
     (let platform = py_or (oget ctx ''alias_platform'') (py_or (oget payload ''alias_platform'') (JStr channel));
          val = py_or (oget ctx ''alias_value'') (oget payload ''alias_value'');
          (platform', val') = (case oget payload ''sender'' of
             JObj sender \<Rightarrow> if truthy val then (platform, val)
               else (oget_or sender ''platform'' platform,
                     py_or (oget sender ''id'') (py_or (oget sender ''phone'') (oget sender ''username'')))
           | _ \<Rightarrow> (platform, val))
      in (platform', if truthy val' then val'
            else py_or (oget payload ''from'') (py_or (oget payload ''phone'') (oget payload ''username''))))"

fun find_alias :: "json \<Rightarrow> json \<Rightarrow> json list \<Rightarrow> obj res" where
  "find_alias platform val [] = Inr []"
| "find_alias platform val (JObj a # as) =
     (if py_eq (oget a ''platform'') platform \<and> py_eq (oget a ''value'') val then Inr a
      else find_alias platform val as)"
| "find_alias platform val (_ # as) = Inl AttributeError"

definition resolve_direct :: "env \<Rightarrow> obj \<Rightarrow> obj \<Rightarrow> string \<Rightarrow> string \<Rightarrow> string \<Rightarrow> 'z db_scheme \<Rightarrow> identity_resolution res" where
  "resolve_direct e payload ctx channel auth_method user_id s =
     (case get_user user_id s of
        None \<Rightarrow> Inr (default_identity\<lparr>ir_user_id := Some user_id, ir_identity_channel := channel,
                    ir_auth_method := auth_method, ir_reason := ''unknown_user''\<rparr>)
      | Some user \<Rightarrow>
          bindE (verify_direct_user e user payload ctx channel s) (\<lambda>verified.
            from_user user channel (py_or (oget ctx ''identity_alias'') (oget payload ''identity_alias'')) verified
              (if verified then auth_method else ''unverified'')
              (if verified then ''direct_user'' else ''credential_required'')))"

definition resolve_alias :: "json \<Rightarrow> json \<Rightarrow> 'z db_scheme \<Rightarrow> identity_resolution res" where
  "resolve_alias platform val s =
     bindE (find_user_by_alias (py_str platform) (py_str val) s) (\<lambda>found.
       case found of
         None \<Rightarrow> Inr (default_identity\<lparr>ir_identity_channel := py_str platform,
                     ir_identity_alias := Some (py_str val), ir_auth_method := ''alias'',
                     ir_reason := ''unknown_alias''\<rparr>)
       | Some user \<Rightarrow>
           bindE (py_iter (oget_or user ''aliases'' (JArr []))) (\<lambda>as.
           bindE (find_alias platform val as) (\<lambda>alias.
             let verified = truthy (oget alias ''verified'')
             in from_user user (py_str platform) (JStr (py_str val)) verified
                  (py_str (oget_or alias ''auth_method'' (JStr ''alias'')))
                  (if verified then ''verified_alias'' else ''unverified_alias''))))"

definition resolve_identity :: "env \<Rightarrow> obj \<Rightarrow> obj \<Rightarrow> 'z db_scheme \<Rightarrow> identity_resolution res" where
  "resolve_identity e payload ctx s =
     (let channel = identity_channel_of ctx payload in
      bindE (auth_method_of ctx payload) (\<lambda>auth_method.
        let user_id = py_or (oget ctx ''user_id'') (oget payload ''user_id'') in
        if truthy user_id then resolve_direct e payload ctx channel auth_method (py_str user_id) s
        else let (platform, val) = claimed_alias ctx payload channel in
          if truthy val then resolve_alias platform val s
          else Inr (default_identity\<lparr>ir_identity_channel := channel, ir_auth_method := auth_method\<rparr>)))"

section \<open>What verification means\<close>

lemma from_user_fields:
  assumes "from_user user channel alias verified am reason = Inr ir"
  shows "ir_identity_verified ir = verified" and "ir_identity_channel ir = channel"
    and "ir_reason ir = reason" and "ir_auth_method ir = am"
  using assms by (auto simp: from_user_def)

lemma default_identity_sel [simp]:
  "ir_identity_verified default_identity = False" "ir_user_id default_identity = None"
  "ir_role default_identity = ''anonymous''"
  by (simp_all add: default_identity_def)

text \<open>Without an override, a sender on the \<^verbatim>\<open>cli\<close> or \<^verbatim>\<open>api\<close> channel that claims a user id is verified
  only with the secret whose hash the user row holds.\<close>

lemma verify_direct_user_cli:
  assumes "verify_direct_user e user payload [] channel s = Inr True" and "channel \<in> {''cli'', ''api''}"
  obtains secret uid where "supplied_secret [] payload = Inr secret" and "truthy secret"
    and "sql_text (oget user ''id'') = Inr (Some uid)" and "verify_user_secret e uid (py_str secret) s"
  using assms by (auto simp: verify_direct_user_def oget_def split: if_splits option.splits)

end
