(* ===== verification/Grants_Quota.thy ===== *)
theory Grants_Quota
  imports Identity
begin

text \<open>
  The grant engine of \<^verbatim>\<open>policy/grants.py\<close>, the quota service of \<^verbatim>\<open>policy/quota.py\<close> and the
  behavioral monitor of \<^verbatim>\<open>policy/behavioral.py\<close>.
\<close>

section \<open>Grants\<close>

record grant_result =
  ge_valid :: bool
  ge_grant_id :: json
  ge_reason :: string

text \<open>The grant id of a message payload goes to the statement as it is when it is truthy.\<close>

definition grant_param :: "json \<Rightarrow> string option res" where
  "grant_param g = (if truthy g then sql_text g else Inr None)"

definition evaluate_grant ::
  "env \<Rightarrow> string \<Rightarrow> string \<Rightarrow> string \<Rightarrow> string \<Rightarrow> json \<Rightarrow> 'z db_scheme \<Rightarrow> grant_result res" where
  "evaluate_grant e subject target namespace permission grant_id s =
     (if target = subject then Inr \<lparr>ge_valid = True, ge_grant_id = JNull, ge_reason = ''owner_access''\<rparr>
      else bindE (grant_param grant_id) (\<lambda>gid.
           bindE (find_valid_grant subject target namespace permission gid (now e) s) (\<lambda>grant.
             Inr (case grant of
                    None \<Rightarrow> \<lparr>ge_valid = False, ge_grant_id = grant_id, ge_reason = ''no_valid_grant''\<rparr>
                  | Some g \<Rightarrow> \<lparr>ge_valid = True, ge_grant_id = JStr (gr_id g), ge_reason = ''grant_valid''\<rparr>))))"

definition permission_for_message_type :: "string \<Rightarrow> string" where
  "permission_for_message_type ty =
     (if suffix '':write'' ty then ''write'' else if suffix '':delete'' ty then ''delete'' else ''read'')"

section \<open>Quota\<close>

record quota_eval =
  qe_checked :: bool
  qe_quota_key :: string
  qe_remaining_after :: "int option"
  qe_would_exceed :: bool
  qe_would_consume_tokens :: int

definition memory_write_key :: "string \<Rightarrow> string" where
  "memory_write_key agent_id = ''agent:'' @ agent_id @ '':memory_writes:daily''"

definition llm_tokens_key :: "string option \<Rightarrow> string" where
  "llm_tokens_key user_id =
     ''user:'' @ (if opt_truthy user_id then the user_id else ''anonymous'') @ '':llm_tokens:daily''"

definition evaluate_quota ::
  "env \<Rightarrow> string \<Rightarrow> int option \<Rightarrow> int \<Rightarrow> string \<Rightarrow> ('z db_scheme, quota_eval) act" where
  "evaluate_quota e key limit requested window_type =
     (case limit of
        None \<Rightarrow> ret \<lparr>qe_checked = False, qe_quota_key = key, qe_remaining_after = None,
                   qe_would_exceed = False, qe_would_consume_tokens = requested\<rparr>
      | Some l \<Rightarrow> bindA (get_or_create_quota_counter e key l window_type) (\<lambda>counter.
          let remaining_after = qc_limit counter - qc_used counter - requested
          in ret \<lparr>qe_checked = True, qe_quota_key = key, qe_remaining_after = Some remaining_after,
                  qe_would_exceed = (remaining_after < 0), qe_would_consume_tokens = requested\<rparr>))"

definition increment_memory_write :: "env \<Rightarrow> server_config \<Rightarrow> string \<Rightarrow> ('z db_scheme, quota_row) act" where
  "increment_memory_write e cfg agent_id =
     (let key = memory_write_key agent_id in
      thenA (get_or_create_quota_counter e key (cfg_memory_writes_daily_limit cfg) ''daily'')
      (bindA (increment_quota_counter e key 1) (\<lambda>counter.
         case counter of None \<Rightarrow> raise RuntimeError | Some c \<Rightarrow> ret c)))"

definition increment_llm_tokens ::
  "env \<Rightarrow> string option \<Rightarrow> int \<Rightarrow> int option \<Rightarrow> ('z db_scheme, quota_row) act" where
  "increment_llm_tokens e user_id tokens daily_limit =
     (let key = llm_tokens_key user_id;
          limit = (case daily_limit of None \<Rightarrow> 100000 | Some l \<Rightarrow> l)
      in if tokens \<le> 0 then
           bindA (getS (get_quota_counter key)) (\<lambda>existing.
             case existing of
               Some c \<Rightarrow> ret c
             | None \<Rightarrow> thenA (get_or_create_quota_counter e key limit ''daily'')
                 (bindA (getS (get_quota_counter key)) (\<lambda>counter.
                    case counter of None \<Rightarrow> raise RuntimeError | Some c \<Rightarrow> ret c)))
         else thenA (get_or_create_quota_counter e key limit ''daily'')
           (bindA (increment_quota_counter e key tokens) (\<lambda>counter.
              case counter of None \<Rightarrow> raise RuntimeError | Some c \<Rightarrow> ret c)))"

section \<open>Behavioral signals\<close>

definition minute_bucket :: "time \<Rightarrow> time" where
  "minute_bucket t = t - t mod minutes 1"

definition behavioral_startup :: "env \<Rightarrow> server_config \<Rightarrow> ('z db_scheme, unit) act" where
  "behavioral_startup e cfg =
     thenA (purge_behavioral_counters (now e - hours (cfg_behavioral_counter_retention_hours cfg))) (ret ())"

definition count_signal :: "env \<Rightarrow> string \<Rightarrow> string \<Rightarrow> ('z db_scheme, unit) act" where
  "count_signal e agent_id signal =
     thenA (increment_behavioral_counter e agent_id signal (minute_bucket (now e)) 1) (ret ())"

definition payload_target :: "framework_message \<Rightarrow> string" where
  "payload_target m = py_str (py_or (pget m ''target_agent_id'') (py_or (pget m ''target_agent'') (JStr (m_agent m))))"

definition record_message_hop :: "env \<Rightarrow> framework_message \<Rightarrow> ('z db_scheme, unit) act" where
  "record_message_hop e m =
     (if msg_type m = ''handshake'' then ret ()
      else thenA (count_signal e (m_agent m) ''message_hop'')
        (whenA (prefix ''memory:'' (msg_type m) \<and> payload_target m \<noteq> m_agent m)
           (count_signal e (m_agent m) ''cross_agent_memory'')))"

definition record_policy_outcome :: "env \<Rightarrow> framework_message \<Rightarrow> policy_facts \<Rightarrow> ('z db_scheme, unit) act" where
  "record_policy_outcome e m f =
     (if \<not> prefix ''memory:'' (msg_type m) then ret ()
      else if pf_grant_reason f \<noteq> Some ''no_valid_grant'' then ret ()
      else if (if opt_truthy (pf_target_agent_id f) then the (pf_target_agent_id f) else m_agent m) = m_agent m
        then ret ()
      else count_signal e (m_agent m) ''grant_denial'')"

definition record_approved_tool_call :: "env \<Rightarrow> framework_message \<Rightarrow> ('z db_scheme, unit) act" where
  "record_approved_tool_call e m =
     (if msg_type m \<noteq> ''tool_call'' then ret () else count_signal e (m_agent m) ''tool_call'')"

definition rate_zscore :: "env \<Rightarrow> server_config \<Rightarrow> string \<Rightarrow> string \<Rightarrow> 'z db_scheme \<Rightarrow> real" where
  "rate_zscore e cfg agent_id signal s =
     (let buckets = list_behavioral_buckets agent_id signal
            (now e - minutes (cfg_behavioral_rate_baseline_minutes cfg)) (Some (minute_bucket (now e))) s
      in if length buckets < 3 then 0
         else let counts = map (\<lambda>b. real_of_int (snd b)) buckets;
                  n = real (length counts);
                  mean = sum_list counts / n;
                  variance = sum_list (map (\<lambda>v. (v - mean)\<^sup>2) counts) / n;
                  stddev = max (sqrt variance) 1;
                  current = real_of_int (sum_behavioral_counter agent_id signal (minute_bucket (now e)) s)
              in (current - mean) / stddev)"

definition signals_for :: "env \<Rightarrow> server_config \<Rightarrow> string \<Rightarrow> 'z db_scheme \<Rightarrow> (string \<times> signal) list" where
  "signals_for e cfg agent_id s =
     [(''message_rate_anomaly'', SFloat (rate_zscore e cfg agent_id ''message_hop'' s)),
      (''repeated_grant_denials'', SInt (sum_behavioral_counter agent_id ''grant_denial''
         (now e - minutes (cfg_behavioral_grant_denial_window_minutes cfg)) s)),
      (''cross_agent_scope_spike'', SInt (sum_behavioral_counter agent_id ''cross_agent_memory''
         (now e - minutes (cfg_behavioral_cross_agent_window_minutes cfg)) s)),
      (''tool_pattern_deviation'',
         SBool (rate_zscore e cfg agent_id ''tool_call'' s > cfg_behavioral_tool_zscore_threshold cfg))]"

section \<open>Grants are checked against the stored row\<close>

lemma first_unexpired_Some:
  assumes "first_unexpired t p gs = Inr (Some g)"
  shows "g \<in> set gs \<and> JStr p \<in> set (gr_permissions g) \<and> (\<forall>x. gr_expires_at g = Some (IsoAware x) \<longrightarrow> t < x)"
  using assms
  by (induction gs) (auto simp: Let_def split: option.splits iso_text.splits if_splits)

lemma find_valid_grant_Some:
  assumes "find_valid_grant subject target namespace permission gid t s = Inr (Some g)"
  shows "g \<in> set (grants s)" and "gr_subject_agent g = subject" and "gr_target_agent g = target"
    and "gr_namespace g = namespace" and "gr_status g = ''active''" and "JStr permission \<in> set (gr_permissions g)"
    and "\<forall>x. gr_expires_at g = Some (IsoAware x) \<longrightarrow> t < x"
  using first_unexpired_Some [OF assms [unfolded find_valid_grant_def]] by auto

section \<open>Quota arithmetic\<close>

lemma get_or_create_Inr:
  "\<exists>row s'. get_or_create_quota_counter e key limit w s = (Inr row, s') \<and> qc_key row = key
     \<and> get_quota_counter key s' = Some row
     \<and> row = (case get_quota_counter key s of
                None \<Rightarrow> \<lparr>qc_key = key, qc_limit = limit, qc_used = 0, qc_window_type = w,
                        qc_reset_at = None, qc_updated_at = now e\<rparr>
              | Some r \<Rightarrow> r)"
proof -
  let ?new = "\<lparr>qc_key = key, qc_limit = limit, qc_used = 0, qc_window_type = w,
                        qc_reset_at = None, qc_updated_at = now e\<rparr>"
  have "lookup_row qc_key (qc_key ?new) (upsert_row qc_key quota_keep ?new (quota_counters s)) =
      Some (case get_quota_counter key s of None \<Rightarrow> ?new | Some r \<Rightarrow> r)"
    using quota_create_table.lookup_upsert_same [of ?new "quota_counters s"]
    by (auto simp: get_quota_counter_def quota_keep_def split: option.splits)
  moreover have "qc_key (case get_quota_counter key s of None \<Rightarrow> ?new | Some r \<Rightarrow> r) = key"
    by (auto simp: get_quota_counter_def dest: lookup_row_SomeD split: option.splits)
  ultimately show ?thesis
    by (auto simp: get_or_create_quota_counter_def get_quota_counter_def Let_def)
qed

end
