(* ===== verification/Policy_Engine.thy ===== *)
theory Policy_Engine
  imports Grants_Quota
begin

text \<open>
  Fact gathering (\<^verbatim>\<open>policy/facts.py\<close>) and the policy decision point (\<^verbatim>\<open>policy/engine.py\<close>).
  An absent override context and an empty one behave alike, so the context is an object; a
  message that is routed is evaluated with the empty one, a simulation with the caller's.

  User rows are written by the management interface, whose model declares the role a string
  and the groups, privileges and agents lists of strings; any other value is read with \<^verbatim>\<open>str\<close>.
\<close>

text \<open>Which optional collaborators the constructors were given.\<close>

record wiring =
  has_behavioral :: bool
  has_memory :: bool
  has_llm :: bool
  has_tools :: bool
  has_quotas :: bool
  has_transport :: bool
  has_pending_replay :: bool

section \<open>Classification of an action\<close>

definition dangerous_patterns :: "string list" where
  "dangerous_patterns = [''rm -rf'', ''sudo '', ''mkfs'', ''dd if='', ''chmod 777'', ''chown '', ''curl '',
     ''wget '', ''| sh'', ''| bash'', ''shutdown'', ''reboot'', ''systemctl'', ''iptables'', ''mount '',
     ''umount '', ''kill -9'']"

definition looks_dangerous :: "string \<Rightarrow> bool" where
  "looks_dangerous command = list_ex (\<lambda>p. sublist p (lower command)) dangerous_patterns"

record action_class =
  ax_tool_name :: "string option"
  ax_command :: "string option"
  ax_tool_risk_level :: string
  ax_dangerous_action :: bool

definition classify_action :: "framework_message \<Rightarrow> action_class res" where
  "classify_action m =
     (let tool_name = py_or (pget m ''tool_name'') (pget m ''tool'') in
      bindE (if truthy (pget m ''command'') then Inr (pget m ''command'')
             else if truthy (pget m ''cmd'') then Inr (pget m ''cmd'')
             else jget (oget_or (msg_payload m) ''args'' (JObj [])) ''command'' JNull) (\<lambda>command.
        let risk_level = py_str (oget_or (msg_payload m) ''risk_level'' (JStr ''low''));
            requires_elevation = truthy (pget m ''requires_elevation'')
        in Inr \<lparr>ax_tool_name = str_if tool_name, ax_command = str_if command, ax_tool_risk_level = risk_level,
             ax_dangerous_action = (requires_elevation \<or> risk_level \<in> {''high'', ''critical''}
               \<or> (truthy command \<and> looks_dangerous (py_str command))
               \<or> (truthy tool_name \<and> lower (py_str tool_name) \<in> {''shell'', ''sudo'', ''filesystem_write''}))\<rparr>))"

section \<open>Grant, quota and execution mode of a message\<close>

definition gather_grant :: "env \<Rightarrow> framework_message \<Rightarrow> 'z db_scheme \<Rightarrow> grant_result res" where
  "gather_grant e m s =
     (if \<not> prefix ''memory:'' (msg_type m)
      then Inr \<lparr>ge_valid = False, ge_grant_id = JNull, ge_reason = ''not_memory_action''\<rparr>
      else evaluate_grant e (m_agent m) (payload_target m)
             (py_str (oget_or (msg_payload m) ''namespace'' (JStr ''private'')))
             (permission_for_message_type (msg_type m)) (pget m ''grant_id'') s)"

definition gather_quota ::
  "env \<Rightarrow> framework_message \<Rightarrow> string option \<Rightarrow> obj \<Rightarrow> ('z db_scheme, quota_eval) act" where
  "gather_quota e m user_id ctx =
     bindA (liftR (py_int (py_or (oget ctx ''tokens'') (py_or (pget m ''tokens'')
              (py_or (pget m ''estimated_tokens'') (JInt 0)))))) (\<lambda>requested.
     bindA (liftR (case oget ctx ''daily_token_limit'' of
              JNull \<Rightarrow> Inr None | v \<Rightarrow> bindE (py_int v) (\<lambda>l. Inr (Some l)))) (\<lambda>limit.
     evaluate_quota e (llm_tokens_key user_id) limit requested ''daily''))"

definition tool_execution_context :: "framework_message \<Rightarrow> obj \<Rightarrow> 'z db_scheme \<Rightarrow> (string \<times> bool) res" where
  "tool_execution_context m ctx s =
     (if ohas ctx ''tool_execution_mode'' then
        Inr (py_str (oget ctx ''tool_execution_mode''),
             truthy (py_or (oget ctx ''provider_tools_requested'') (pget m ''provider_tools_requested'')))
      else if msg_type m \<noteq> ''llm_request'' then Inr (''local'', False)
      else case get_agent (m_agent m) s of
             None \<Rightarrow> Inr (''local'', False)
           | Some agent \<Rightarrow>
               bindE (jget (oget_or (ag_manifest agent) ''engines'' (JObj [])) ''engine3'' (JObj [])) (\<lambda>engine3.
               bindE (jget engine3 ''tool_execution_mode'' (JStr ''local'')) (\<lambda>mode.
                 Inr (py_str mode, truthy (pget m ''provider_tools_requested'')))))"

section \<open>Gathering\<close>

definition fact_list :: "json \<Rightarrow> string list res" where
  "fact_list v = bindE (py_iter v) (\<lambda>xs. Inr (map py_str xs))"

fun signal_of_json :: "json \<Rightarrow> signal" where
  "signal_of_json JNull = SNone"
| "signal_of_json (JBool b) = SBool b"
| "signal_of_json (JInt i) = SInt i"
| "signal_of_json (JFloat r t) = SFloat r"
| "signal_of_json v = SOther v"

text \<open>\<^verbatim>\<open>dict(v)\<close>: a copy of a dictionary, or a dictionary from pairs.\<close>

fun pair_of_json :: "json \<Rightarrow> (string \<times> json) res" where
  "pair_of_json (JArr [JStr k, v]) = Inr (k, v)"
| "pair_of_json (JArr _) = Inl ValueError"
| "pair_of_json (JStr [a, b]) = Inr ([a], JStr [b])"
| "pair_of_json (JStr _) = Inl ValueError"
| "pair_of_json _ = Inl TypeError"

fun py_dict :: "json \<Rightarrow> obj res" where
  "py_dict (JObj d) = Inr d"
| "py_dict (JArr xs) = bindE (mapE pair_of_json xs) (\<lambda>ps. Inr (omerge [] ps))"
| "py_dict (JStr s) = (if s = [] then Inr [] else Inl ValueError)"
| "py_dict _ = Inl TypeError"

text \<open>The role and the lists after the user row of the turn has been read.\<close>

record subject_facts =
  sj_user_id :: "string option"
  sj_role :: string
  sj_groups :: "string list"
  sj_privileges :: "string list"
  sj_allowed_agents :: "string list"

definition subject_of_identity :: "identity_resolution \<Rightarrow> string option \<Rightarrow> subject_facts" where
  "subject_of_identity ir turn_user =
     \<lparr>sj_user_id = (case turn_user of Some u \<Rightarrow> Some u | None \<Rightarrow> ir_user_id ir),
      sj_role = (if opt_truthy (ir_user_id ir) then ir_role ir else ''anonymous''),
      sj_groups = ir_groups ir, sj_privileges = ir_privileges ir, sj_allowed_agents = ir_allowed_agents ir\<rparr>"

definition refine_by_user :: "obj \<Rightarrow> 'z db_scheme \<Rightarrow> subject_facts \<Rightarrow> subject_facts res" where
  "refine_by_user ctx s j =
     (if \<not> opt_truthy (sj_user_id j) then Inr j
      else case get_user (the (sj_user_id j)) s of
        Some user \<Rightarrow>
          bindE (fact_list (oget_or user ''groups'' (JArr (map JStr (sj_groups j))))) (\<lambda>gs.
          bindE (fact_list (oget_or user ''privileges'' (JArr (map JStr (sj_privileges j))))) (\<lambda>ps.
          bindE (fact_list (oget_or user ''allowed_agents'' (JArr (map JStr (sj_allowed_agents j))))) (\<lambda>as.
          Inr (j\<lparr>sj_role := py_str (oget_or user ''role'' (JStr (sj_role j))), sj_groups := gs,
                sj_privileges := ps, sj_allowed_agents := as\<rparr>))))
      | None \<Rightarrow>
          Inr (if truthy (oget ctx ''user_id'')
               then j\<lparr>sj_role := py_str (oget_or ctx ''role'' (JStr (sj_role j)))\<rparr> else j))"

definition refine_by_override :: "obj \<Rightarrow> subject_facts \<Rightarrow> subject_facts res" where
  "refine_by_override ctx j =
     bindE (if ohas ctx ''groups'' then fact_list (oget ctx ''groups'') else Inr (sj_groups j)) (\<lambda>gs.
     bindE (if ohas ctx ''privileges'' then fact_list (oget ctx ''privileges'') else Inr (sj_privileges j)) (\<lambda>ps.
     bindE (if ohas ctx ''allowed_agents'' then fact_list (oget ctx ''allowed_agents'')
            else Inr (sj_allowed_agents j)) (\<lambda>as.
     Inr \<lparr>sj_user_id = (if ohas ctx ''user_id'' then Some (py_str (oget ctx ''user_id'')) else sj_user_id j),
          sj_role = (if ohas ctx ''role'' then py_str (oget ctx ''role'') else sj_role j),
          sj_groups = gs, sj_privileges = ps, sj_allowed_agents = as\<rparr>)))"

definition gather_grant_override :: "env \<Rightarrow> framework_message \<Rightarrow> obj \<Rightarrow> 'z db_scheme \<Rightarrow> grant_result res" where
  "gather_grant_override e m ctx s =
     bindE (if oget ctx ''has_valid_grant'' \<noteq> JNull
            then Inr \<lparr>ge_valid = truthy (oget ctx ''has_valid_grant''), ge_grant_id = JNull, ge_reason = []\<rparr>
            else gather_grant e m s) (\<lambda>g.
     Inr (if ohas ctx ''has_valid_grant''
          then \<lparr>ge_valid = ge_valid g, ge_grant_id = oget ctx ''grant_id'', ge_reason = ''override''\<rparr>
          else g))"

definition gather_signals :: "env \<Rightarrow> server_config \<Rightarrow> wiring \<Rightarrow> framework_message \<Rightarrow> obj \<Rightarrow> 'z db_scheme
    \<Rightarrow> (string \<times> signal) list res" where
  "gather_signals e cfg w m ctx s =
     (if ohas ctx ''behavioral_signals''
      then bindE (py_dict (oget ctx ''behavioral_signals'')) (\<lambda>d. Inr (map (\<lambda>(k, v). (k, signal_of_json v)) d))
      else if has_behavioral w then Inr (signals_for e cfg (m_agent m) s)
      else Inr [])"

definition gather ::
  "env \<Rightarrow> server_config \<Rightarrow> wiring \<Rightarrow> framework_message \<Rightarrow> bool \<Rightarrow> obj \<Rightarrow> ('z db_scheme, policy_facts) act" where
  "gather e cfg w m correlation_valid ctx = (\<lambda>s0.
     (bindA (liftR (resolve_identity e (msg_payload m) ctx s0)) (\<lambda>ir.
      bindA (liftR (refine_by_user ctx s0 (subject_of_identity ir (get_user_id_for_message m s0)))) (\<lambda>j0.
      bindA (liftR (refine_by_override ctx j0)) (\<lambda>j.
      bindA (liftR (gather_grant_override e m ctx s0)) (\<lambda>g.
      bindA (gather_quota e m (sj_user_id j) ctx) (\<lambda>q.
      bindA (liftR (classify_action m)) (\<lambda>ax.
      bindA (liftR (tool_execution_context m ctx s0)) (\<lambda>(mode, requested).
      bindA (liftR (gather_signals e cfg w m ctx s0)) (\<lambda>sigs.
      ret \<lparr>pf_user_id = sj_user_id j, pf_role = sj_role j, pf_agent_id = m_agent m,
           pf_engine = engine_value (m_engine m), pf_message_type = msg_type m,
           pf_correlation_chain_valid = (if ohas ctx ''correlation_chain_valid''
              then truthy (oget ctx ''correlation_chain_valid'') else correlation_valid),
           pf_triggered_by = trigger_value (tag_triggered_by (msg_tags m)),
           pf_scope = scope_value (tag_scope (msg_tags m)),
           pf_has_valid_grant = ge_valid g, pf_grant_id = ge_grant_id g, pf_grant_reason = Some (ge_reason g),
           pf_provider = str_if (pget m ''provider''), pf_model = str_if (pget m ''model''),
           pf_groups = sj_groups j, pf_privileges = sj_privileges j, pf_allowed_agents = sj_allowed_agents j,
           pf_target_agent_id = str_if (py_or (pget m ''target_agent_id'')
              (py_or (pget m ''target_agent'') (pget m ''agent_id''))),
           pf_identity_channel = ir_identity_channel ir, pf_identity_alias = ir_identity_alias ir,
           pf_identity_verified = ir_identity_verified ir, pf_auth_method = ir_auth_method ir,
           pf_identity_reason = ir_reason ir,
           pf_quota_key = Some (qe_quota_key q), pf_quota_remaining_after = qe_remaining_after q,
           pf_quota_would_exceed = qe_would_exceed q,
           pf_quota_would_consume_tokens = Some (qe_would_consume_tokens q),
           pf_tool_name = ax_tool_name ax, pf_command = ax_command ax,
           pf_tool_risk_level = ax_tool_risk_level ax, pf_dangerous_action = ax_dangerous_action ax,
           pf_behavioral_signals = sigs, pf_tool_execution_mode = mode,
           pf_provider_tools_requested = requested\<rparr>)))))))) s0))"

section \<open>The decision point\<close>

definition jint :: "int option \<Rightarrow> json" where
  "jint i = (case i of None \<Rightarrow> JNull | Some n \<Rightarrow> JInt n)"

definition fact_metadata :: "policy_facts \<Rightarrow> obj" where
  "fact_metadata f =
     [(''user_id'', jopt (pf_user_id f)), (''grant_id'', pf_grant_id f),
      (''grant_reason'', jopt (pf_grant_reason f)), (''target_agent_id'', jopt (pf_target_agent_id f)),
      (''quota_key'', jopt (pf_quota_key f)), (''quota_remaining_after'', jint (pf_quota_remaining_after f)),
      (''quota_would_consume_tokens'', jint (pf_quota_would_consume_tokens f)),
      (''identity_channel'', JStr (pf_identity_channel f)), (''identity_alias'', jopt (pf_identity_alias f)),
      (''identity_verified'', JBool (pf_identity_verified f)), (''auth_method'', JStr (pf_auth_method f))]"

definition agent_not_allowed :: "policy_facts \<Rightarrow> bool" where
  "agent_not_allowed f \<longleftrightarrow> pf_allowed_agents f \<noteq> [] \<and> ''*'' \<notin> set (pf_allowed_agents f)
     \<and> pf_agent_id f \<notin> set (pf_allowed_agents f)"

definition precheck_denial :: "policy_facts \<Rightarrow> policy_decision" where
  "precheck_denial f = mk_decision Deny
     [\<lparr>rm_rule_id = ''allowed-agents-precheck'', rm_priority = 1000, rm_effect = Deny, rm_else_effect = False,
       rm_conditions_passed = True, rm_reason = ''agent not allowed for user'', rm_metadata = []\<rparr>]
     [(''allowed_agents_precheck'', pf_agent_id f @ '' not in user allowed_agents'')]
     (Some SERVER_RBAC_DENIED) []"

definition decide :: "policy_rule list \<Rightarrow> policy_facts \<Rightarrow> policy_decision res" where
  "decide rs f =
     (if agent_not_allowed f then Inr (precheck_denial f)
      else bindE (rules_evaluate rs f) (\<lambda>matches.
        let d = combine matches;
            md = omerge (pd_metadata d) (fact_metadata f)
        in Inr (d\<lparr>pd_policy_facts := Some f, pd_metadata := md,
                 pd_effective_error_code := (if truthy (oget md ''quota_failed'') then Some SERVER_QUOTA_EXCEEDED
                                            else pd_effective_error_code d)\<rparr>)))"

definition policy_evaluate ::
  "env \<Rightarrow> server_config \<Rightarrow> wiring \<Rightarrow> framework_message \<Rightarrow> bool \<Rightarrow> obj \<Rightarrow> ('z rule_store_scheme, policy_decision) act" where
  "policy_evaluate e cfg w m correlation_valid ctx =
     bindA (gather e cfg w m correlation_valid ctx) (\<lambda>f.
     bindA (getS cached_rules) (\<lambda>rs. liftR (decide rs f)))"

definition simulate ::
  "env \<Rightarrow> server_config \<Rightarrow> wiring \<Rightarrow> framework_message \<Rightarrow> obj \<Rightarrow> ('z rule_store_scheme, policy_decision) act" where
  "simulate e cfg w m ctx = policy_evaluate e cfg w m
     (if ohas ctx ''correlation_chain_valid'' then truthy (oget ctx ''correlation_chain_valid'') else True) ctx"

section \<open>Frame facts\<close>

lemma evaluate_quota_ok [pres_intro]: "preserves db_ok (evaluate_quota e k l r wt)"
  unfolding evaluate_quota_def by (intro pres_intro)

lemma gather_quota_ok [pres_intro]: "preserves db_ok (gather_quota e m u ctx)"
  unfolding gather_quota_def by (intro pres_intro)

lemma preserves_at: "(\<And>x. preserves P (f x)) \<Longrightarrow> preserves P (\<lambda>s. f s s)"
  by (simp add: preserves_def)

lemma gather_ok [pres_intro]: "preserves db_ok (gather e cfg w m v ctx)"
  unfolding gather_def by (rule preserves_at) (intro pres_intro)

lemma policy_evaluate_ok [pres_intro]: "preserves db_ok (policy_evaluate e cfg w m v ctx)"
  unfolding policy_evaluate_def by (intro pres_intro)

section \<open>A routed message: no override context\<close>

lemma oget_Nil [simp]: "oget [] k = JNull" and ohas_Nil [simp]: "\<not> ohas [] k"
  by (simp_all add: oget_def ohas_def)

lemma gather_quota_routed:
  "gather_quota e m u [] s = (r, s') \<Longrightarrow> s' = s \<and> (\<forall>q. r = Inr q \<longrightarrow> \<not> qe_would_exceed q)"
  by (auto simp: gather_quota_def evaluate_quota_def bindA_def split: sum.splits)

lemma gather_routed:
  assumes "gather e cfg w m v [] s = (r, s')"
  shows "s' = s"
proof -
  have q: "preserves (\<lambda>x. x = s) (gather_quota e m u [])" for u
    by (rule preservesI) (metis gather_quota_routed prod.collapse)
  have "preserves (\<lambda>x. x = s) (gather e cfg w m v [])"
    unfolding gather_def by (rule preserves_at) (intro pres_intro q)
  from preservesD [OF this, of s] assms show ?thesis by simp
qed

text \<open>The fields of the facts gathered for a routed message.\<close>

lemma gather_fields:
  assumes "gather e cfg w m v ctx s = (Inr f, s')"
  shows "pf_agent_id f = m_agent m" and "pf_message_type f = msg_type m"
    and "\<exists>g. gather_grant_override e m ctx s = Inr g \<and> pf_has_valid_grant f = ge_valid g
           \<and> pf_grant_id f = ge_grant_id g \<and> pf_grant_reason f = Some (ge_reason g)"
    and "\<exists>ir. resolve_identity e (msg_payload m) ctx s = Inr ir
           \<and> pf_identity_verified f = ir_identity_verified ir"
  using assms by (auto simp: gather_def elim!: bindA_InrE)

lemma gather_quota_field:
  assumes "gather e cfg w m v ctx s = (Inr f, s')"
  obtains q u where "gather_quota e m u ctx s = (Inr q, s')" and "pf_quota_would_exceed f = qe_would_exceed q"
  using assms that by (auto simp: gather_def elim!: bindA_InrE)

lemma gather_routed_quota:
  assumes "gather e cfg w m v [] s = (Inr f, s')"
  shows "\<not> pf_quota_would_exceed f"
  using assms by (rule gather_quota_field) (use gather_quota_routed in blast)

lemma gather_routed_grant:
  assumes "gather e cfg w m v [] s = (Inr f, s')"
  obtains g where "gather_grant e m s = Inr g" and "pf_has_valid_grant f = ge_valid g"
    and "pf_grant_id f = ge_grant_id g" and "pf_grant_reason f = Some (ge_reason g)"
  using gather_fields(3) [OF assms] that by (auto simp: gather_grant_override_def)

section \<open>Decisions\<close>

definition rule_fires :: "policy_rule \<Rightarrow> policy_facts \<Rightarrow> bool" where
  "rule_fires r f \<longleftrightarrow> rule_applies r f \<and> (\<exists>x. conditions_match (ru_condition r) f = Inr (True, x))"

lemma decide_combine:
  assumes "decide rs f = Inr d" and "\<not> agent_not_allowed f"
  obtains ms where "rules_evaluate rs f = Inr ms" and "pd_decision d = combine_verdict ms"
  using assms by (auto simp: decide_def Let_def combine_decision)

lemma decide_precheck: "agent_not_allowed f \<Longrightarrow> decide rs f = Inr (precheck_denial f)"
  by (simp add: decide_def)

lemma match_of_rule:
  assumes "rules_evaluate rs f = Inr ms" and "r \<in> set rs" and "rule_fires r f"
  obtains m where "m \<in> set ms" and "passed (ru_effect r) m" and "rm_priority m = ru_priority r"
proof -
  from assms(3) obtain x where "conditions_match (ru_condition r) f = Inr (True, x)" "rule_applies r f"
    by (auto simp: rule_fires_def)
  with assms have "mk_match r True x f \<in> set ms" by (auto simp: rules_evaluate_set)
  then show thesis by (intro that) (auto simp: passed_def)
qed

lemma rule_of_match:
  assumes "rules_evaluate rs f = Inr ms" and "m \<in> set ms" and "passed ef m"
  obtains r where "r \<in> set rs" and "rule_fires r f" and "ru_effect r = ef" and "ru_priority r = rm_priority m"
  using assms by (auto simp: rules_evaluate_set rule_fires_def passed_def)

lemma allow_at_top:
  assumes "combine_verdict ms = Allow"
  obtains m where "m \<in> set ms" and "passed Allow m"
    and "\<And>m'. m' \<in> set ms \<Longrightarrow> passed Deny m' \<Longrightarrow> rm_priority m' < rm_priority m"
proof -
  from combine_verdict_Some [OF assms] obtain p where p: "p \<in> decisive ms"
    "group_verdict (at_priority p ms) = Some Allow" "\<And>q. q \<in> decisive ms \<Longrightarrow> q \<le> p" by auto
  from p(2) obtain m where m: "m \<in> set ms" "rm_priority m = p" "passed Allow m"
    and no: "\<And>m'. m' \<in> set (at_priority p ms) \<Longrightarrow> \<not> passed Deny m'"
    by (auto simp: group_verdict_def at_priority_def split: if_splits)
  have "rm_priority m' < rm_priority m" if "m' \<in> set ms" "passed Deny m'" for m'
  proof -
    have "rm_priority m' \<le> p" using p(3) decisive_above that by blast
    moreover have "rm_priority m' \<noteq> p" using no [of m'] that by (auto simp: at_priority_def)
    ultimately show ?thesis using m by simp
  qed
  with m show thesis using that by blast
qed

text \<open>The verdict depends on the matches as a set only.\<close>

lemma combine_verdict_cong:
  assumes "set ms = set ms'"
  shows "combine_verdict ms = combine_verdict ms'"
proof -
  have at: "set (at_priority p ms) = set (at_priority p ms')" for p
    using assms by (simp add: at_priority_def)
  then have gv: "group_verdict (at_priority p ms) = group_verdict (at_priority p ms')" for p
    by (simp add: group_verdict_def)
  then have "decisive ms = decisive ms'" using assms by (simp add: decisive_def)
  with gv show ?thesis by (simp add: combine_verdict_def)
qed

text \<open>What an allow decision rests on.\<close>

lemma decide_allow:
  assumes "decide rs f = Inr d" and "pd_decision d = Allow"
  shows "\<not> agent_not_allowed f \<and> (\<exists>r \<in> set rs. ru_effect r = Allow \<and> rule_fires r f
     \<and> (\<forall>r' \<in> set rs. ru_effect r' = Deny \<and> ru_priority r \<le> ru_priority r' \<longrightarrow> \<not> rule_fires r' f))"
proof -
  have na: "\<not> agent_not_allowed f"
    using assms decide_precheck [of f rs] by (auto simp: precheck_denial_def)
  with assms obtain ms where ms: "rules_evaluate rs f = Inr ms" and v: "combine_verdict ms = Allow"
    by (auto elim!: decide_combine)
  from v obtain m where m: "m \<in> set ms" "passed Allow m"
    and below: "\<And>m'. m' \<in> set ms \<Longrightarrow> passed Deny m' \<Longrightarrow> rm_priority m' < rm_priority m"
    by (rule allow_at_top) blast
  obtain r where r: "r \<in> set rs" "rule_fires r f" "ru_effect r = Allow" "ru_priority r = rm_priority m"
    using rule_of_match [OF ms m] by metis
  have "\<not> rule_fires r' f" if r': "r' \<in> set rs" "ru_effect r' = Deny" "ru_priority r \<le> ru_priority r'" for r'
  proof
    assume "rule_fires r' f"
    then obtain m' where "m' \<in> set ms" "passed Deny m'" "rm_priority m' = ru_priority r'"
      using match_of_rule [OF ms r'(1)] r'(2) by metis
    with below r r' show False by fastforce
  qed
  with na r show ?thesis by blast
qed

lemma policy_evaluate_routed:
  assumes "policy_evaluate e cfg w m v [] s = (r, s')"
  shows "s' = s" and "r = Inr d \<Longrightarrow> \<exists>f. gather e cfg w m v [] s = (Inr f, s) \<and> decide (cached_rules s) f = Inr d"
  using assms gather_routed [of e cfg w m v s]
  by (auto simp: policy_evaluate_def bindA_def split: prod.splits sum.splits)

end
