(* ===== verification/Catalog.thy ===== *)
theory Catalog
  imports Sessions
begin

text \<open>
  The capability catalog of \<^verbatim>\<open>server/catalog.py\<close> and its store \<^verbatim>\<open>server/catalog_store.py\<close>: the five
  kinds of entries as records, their validation from and dump to JSON, the built-in catalog,
  and the seeding, reloading, upsert and delete operations that keep the in-memory catalog in
  step with the table.
\<close>

section \<open>Entries\<close>

record tool_entry =
  te_name :: string
  te_version :: string
  te_entrypoint :: string
  te_permissions :: "string list"
  te_package_source :: string
  te_required_files :: "string list"
  te_risk_level :: string

record skill_entry =
  sk_name :: string
  sk_version :: string
  sk_runtime_dependencies :: "string list"
  sk_exposed_tool_schemas :: "string list"
  sk_package_source :: string
  sk_format :: string
  sk_content_hash :: "string option"
  sk_source_uri :: "string option"
  sk_source_pin :: "string option"
  sk_allow_scripts :: bool
  sk_install_status :: string
  sk_description :: string
  sk_store_path :: "string option"

record provider_entry =
  pe_provider_id :: string
  pe_supported_models :: "string list"
  pe_credential_ref :: string
  pe_api_base_url :: string
  pe_quota_class :: string
  pe_hosted_tools_allowed :: bool
  pe_allowed_hosted_tools :: "string list"

record workspace_entry =
  wk_id :: string
  wk_source :: string
  wk_mount_path :: string
  wk_mount_mode :: string
  wk_allowed_agents :: "string list"
  wk_retention_policy :: string

record namespace_limits =
  mq_max_records :: int
  mq_max_record_bytes :: int
  mq_default_ttl_seconds :: "int option"

record namespace_template =
  mt_name :: string
  mt_quota :: namespace_limits
  mt_retention_policy :: string

record capability_catalog =
  cat_tools :: "(string \<times> tool_entry) list"
  cat_skills :: "(string \<times> skill_entry) list"
  cat_llm_providers :: "(string \<times> provider_entry) list"
  cat_workspaces :: "(string \<times> workspace_entry) list"
  cat_memory_namespaces :: "(string \<times> namespace_template) list"

section \<open>Validation\<close>

definition pyd_literal :: "string list \<Rightarrow> json \<Rightarrow> string res" where
  "pyd_literal allowed v = bindE (pyd_str v) (\<lambda>x. if x \<in> set allowed then Inr x else Inl ValidationError)"

abbreviation pyd_strs :: "json \<Rightarrow> string list res" where
  "pyd_strs \<equiv> pyd_list pyd_str"

definition validate_tool_entry :: "obj \<Rightarrow> tool_entry res" where
  "validate_tool_entry d =
     bindE (pyd_req pyd_str d ''name'') (\<lambda>n.
     bindE (pyd_req pyd_str d ''version'') (\<lambda>v.
     bindE (pyd_req pyd_str d ''entrypoint'') (\<lambda>ep.
     bindE (pyd_def pyd_strs [] d ''permissions'') (\<lambda>ps.
     bindE (pyd_req pyd_str d ''package_source'') (\<lambda>pk.
     bindE (pyd_def pyd_strs [] d ''required_files'') (\<lambda>rf.
     bindE (pyd_def (pyd_literal [''low'', ''medium'', ''high'']) ''low'' d ''risk_level'') (\<lambda>rl.
     Inr \<lparr>te_name = n, te_version = v, te_entrypoint = ep, te_permissions = ps, te_package_source = pk,
         te_required_files = rf, te_risk_level = rl\<rparr>)))))))"

definition validate_skill_entry :: "obj \<Rightarrow> skill_entry res" where
  "validate_skill_entry d =
     bindE (pyd_req pyd_str d ''name'') (\<lambda>n.
     bindE (pyd_req pyd_str d ''version'') (\<lambda>v.
     bindE (pyd_def pyd_strs [] d ''runtime_dependencies'') (\<lambda>rd.
     bindE (pyd_def pyd_strs [] d ''exposed_tool_schemas'') (\<lambda>ts.
     bindE (pyd_req pyd_str d ''package_source'') (\<lambda>pk.
     bindE (pyd_def (pyd_literal [''builtin'', ''agentskills'']) ''builtin'' d ''format'') (\<lambda>fm.
     bindE (pyd_def (pyd_opt pyd_str) None d ''content_hash'') (\<lambda>ch.
     bindE (pyd_def (pyd_opt pyd_str) None d ''source_uri'') (\<lambda>su.
     bindE (pyd_def (pyd_opt pyd_str) None d ''source_pin'') (\<lambda>sp.
     bindE (pyd_def pyd_bool False d ''allow_scripts'') (\<lambda>sc.
     bindE (pyd_def (pyd_literal [''approved'', ''pending'', ''rejected'']) ''approved'' d ''install_status'') (\<lambda>st.
     bindE (pyd_def pyd_str [] d ''description'') (\<lambda>ds.
     bindE (pyd_def (pyd_opt pyd_str) None d ''store_path'') (\<lambda>pa.
     Inr \<lparr>sk_name = n, sk_version = v, sk_runtime_dependencies = rd, sk_exposed_tool_schemas = ts,
         sk_package_source = pk, sk_format = fm, sk_content_hash = ch, sk_source_uri = su,
         sk_source_pin = sp, sk_allow_scripts = sc, sk_install_status = st, sk_description = ds,
         sk_store_path = pa\<rparr>)))))))))))))"

definition validate_provider_entry :: "obj \<Rightarrow> provider_entry res" where
  "validate_provider_entry d =
     bindE (pyd_req pyd_str d ''provider_id'') (\<lambda>i.
     bindE (pyd_req pyd_strs d ''supported_models'') (\<lambda>ms.
     bindE (pyd_req pyd_str d ''credential_ref'') (\<lambda>cr.
     bindE (pyd_def pyd_str ''stub://local'' d ''api_base_url'') (\<lambda>u.
     bindE (pyd_def pyd_str ''dev'' d ''quota_class'') (\<lambda>qc.
     bindE (pyd_def pyd_bool False d ''hosted_tools_allowed'') (\<lambda>ha.
     bindE (pyd_def pyd_strs [] d ''allowed_hosted_tools'') (\<lambda>ht.
     Inr \<lparr>pe_provider_id = i, pe_supported_models = ms, pe_credential_ref = cr, pe_api_base_url = u,
         pe_quota_class = qc, pe_hosted_tools_allowed = ha, pe_allowed_hosted_tools = ht\<rparr>)))))))"

definition validate_workspace_entry :: "obj \<Rightarrow> workspace_entry res" where
  "validate_workspace_entry d =
     bindE (pyd_req pyd_str d ''id'') (\<lambda>i.
     bindE (pyd_req pyd_str d ''source'') (\<lambda>sr.
     bindE (pyd_req pyd_str d ''mount_path'') (\<lambda>mp.
     bindE (pyd_def (pyd_literal [''ro'', ''rw'']) ''ro'' d ''mount_mode'') (\<lambda>mm.
     bindE (pyd_def pyd_strs [''*''] d ''allowed_agents'') (\<lambda>aa.
     bindE (pyd_def pyd_str ''ephemeral'' d ''retention_policy'') (\<lambda>rp.
     Inr \<lparr>wk_id = i, wk_source = sr, wk_mount_path = mp, wk_mount_mode = mm, wk_allowed_agents = aa,
         wk_retention_policy = rp\<rparr>))))))"

definition default_limits :: namespace_limits where
  "default_limits = \<lparr>mq_max_records = 1000, mq_max_record_bytes = 65536, mq_default_ttl_seconds = None\<rparr>"

definition validate_limits :: "json \<Rightarrow> namespace_limits res" where
  "validate_limits v = bindE (pyd_dict v) (\<lambda>d.
     bindE (pyd_def pyd_int 1000 d ''max_records'') (\<lambda>r.
     bindE (pyd_def pyd_int 65536 d ''max_record_bytes'') (\<lambda>b.
     bindE (pyd_def (pyd_opt pyd_int) None d ''default_ttl_seconds'') (\<lambda>t.
     Inr \<lparr>mq_max_records = r, mq_max_record_bytes = b, mq_default_ttl_seconds = t\<rparr>))))"

definition validate_namespace_template :: "obj \<Rightarrow> namespace_template res" where
  "validate_namespace_template d =
     bindE (pyd_req pyd_str d ''name'') (\<lambda>n.
     bindE (pyd_def validate_limits default_limits d ''quota'') (\<lambda>q.
     bindE (pyd_def pyd_str ''agent-private'' d ''retention_policy'') (\<lambda>rp.
     Inr \<lparr>mt_name = n, mt_quota = q, mt_retention_policy = rp\<rparr>)))"

section \<open>Dump\<close>

abbreviation jstrs :: "string list \<Rightarrow> json" where
  "jstrs xs \<equiv> JArr (map JStr xs)"

definition jopt_int :: "int option \<Rightarrow> json" where
  "jopt_int i = (case i of None \<Rightarrow> JNull | Some n \<Rightarrow> JInt n)"

definition dump_tool_entry :: "tool_entry \<Rightarrow> obj" where
  "dump_tool_entry x = [(''name'', JStr (te_name x)), (''version'', JStr (te_version x)),
     (''entrypoint'', JStr (te_entrypoint x)), (''permissions'', jstrs (te_permissions x)),
     (''package_source'', JStr (te_package_source x)), (''required_files'', jstrs (te_required_files x)),
     (''risk_level'', JStr (te_risk_level x))]"

definition dump_skill_entry :: "skill_entry \<Rightarrow> obj" where
  "dump_skill_entry x = [(''name'', JStr (sk_name x)), (''version'', JStr (sk_version x)),
     (''runtime_dependencies'', jstrs (sk_runtime_dependencies x)),
     (''exposed_tool_schemas'', jstrs (sk_exposed_tool_schemas x)),
     (''package_source'', JStr (sk_package_source x)), (''format'', JStr (sk_format x)),
     (''content_hash'', jopt (sk_content_hash x)), (''source_uri'', jopt (sk_source_uri x)),
     (''source_pin'', jopt (sk_source_pin x)), (''allow_scripts'', JBool (sk_allow_scripts x)),
     (''install_status'', JStr (sk_install_status x)), (''description'', JStr (sk_description x)),
     (''store_path'', jopt (sk_store_path x))]"

definition dump_provider_entry :: "provider_entry \<Rightarrow> obj" where
  "dump_provider_entry x = [(''provider_id'', JStr (pe_provider_id x)),
     (''supported_models'', jstrs (pe_supported_models x)), (''credential_ref'', JStr (pe_credential_ref x)),
     (''api_base_url'', JStr (pe_api_base_url x)), (''quota_class'', JStr (pe_quota_class x)),
     (''hosted_tools_allowed'', JBool (pe_hosted_tools_allowed x)),
     (''allowed_hosted_tools'', jstrs (pe_allowed_hosted_tools x))]"

definition dump_workspace_entry :: "workspace_entry \<Rightarrow> obj" where
  "dump_workspace_entry x = [(''id'', JStr (wk_id x)), (''source'', JStr (wk_source x)),
     (''mount_path'', JStr (wk_mount_path x)), (''mount_mode'', JStr (wk_mount_mode x)),
     (''allowed_agents'', jstrs (wk_allowed_agents x)), (''retention_policy'', JStr (wk_retention_policy x))]"

definition dump_namespace_template :: "namespace_template \<Rightarrow> obj" where
  "dump_namespace_template x = [(''name'', JStr (mt_name x)),
     (''quota'', JObj [(''max_records'', JInt (mq_max_records (mt_quota x))),
        (''max_record_bytes'', JInt (mq_max_record_bytes (mt_quota x))),
        (''default_ttl_seconds'', jopt_int (mq_default_ttl_seconds (mt_quota x)))]),
     (''retention_policy'', JStr (mt_retention_policy x))]"

definition api_payload :: "capability_catalog \<Rightarrow> (string \<times> obj list) list" where
  "api_payload c = [(''tools'', map (dump_tool_entry \<circ> snd) (cat_tools c)),
     (''skills'', map (dump_skill_entry \<circ> snd) (cat_skills c)),
     (''llm_providers'', map (dump_provider_entry \<circ> snd) (cat_llm_providers c)),
     (''workspaces'', map (dump_workspace_entry \<circ> snd) (cat_workspaces c)),
     (''memory_namespaces'', map (dump_namespace_template \<circ> snd) (cat_memory_namespaces c))]"

section \<open>The built-in catalog\<close>

definition builtin_tool :: "string \<Rightarrow> string \<Rightarrow> string \<Rightarrow> string \<Rightarrow> string \<times> tool_entry" where
  "builtin_tool n ep perm risk = (n, \<lparr>te_name = n, te_version = ''1.0'', te_entrypoint = ep,
     te_permissions = [perm], te_package_source = ''builtin'', te_required_files = [], te_risk_level = risk\<rparr>)"

definition builtin_provider :: "string \<Rightarrow> string list \<Rightarrow> string \<Rightarrow> string \<Rightarrow> string \<times> provider_entry" where
  "builtin_provider n models cred url = (n, \<lparr>pe_provider_id = n, pe_supported_models = models,
     pe_credential_ref = cred, pe_api_base_url = url, pe_quota_class = ''dev'',
     pe_hosted_tools_allowed = False, pe_allowed_hosted_tools = []\<rparr>)"

definition DEFAULT_CATALOG :: capability_catalog where
  "DEFAULT_CATALOG = \<lparr>
     cat_tools = [builtin_tool ''echo'' ''corvus.tools.echo'' ''stdout'' ''low'',
        builtin_tool ''terminal'' ''corvus.tools.terminal'' ''subprocess'' ''medium'',
        builtin_tool ''file_read'' ''corvus.tools.file_read'' ''fs:read'' ''low'',
        builtin_tool ''skill_read'' ''corvus.skills.runner'' ''skill:read'' ''low'',
        builtin_tool ''skill_run'' ''corvus.skills.runner'' ''skill:run'' ''high''],
     cat_skills = [(''base-runtime'', \<lparr>sk_name = ''base-runtime'', sk_version = ''1.0'',
        sk_runtime_dependencies = [''corvus-runtime''], sk_exposed_tool_schemas = [''skill_read'', ''skill_run''],
        sk_package_source = ''builtin'', sk_format = ''builtin'',
        sk_content_hash = Some ''builtin:base-runtime:1.0'', sk_source_uri = None, sk_source_pin = None,
        sk_allow_scripts = False, sk_install_status = ''approved'',
        sk_description = ''Builtin Corvus runtime skill (ping / instruction stub).'', sk_store_path = None\<rparr>)],
     cat_llm_providers = [
        builtin_provider ''openai'' [''gpt-4'', ''gpt-4o'', ''gpt-4.1''] ''env:OPENAI_API_KEY'' ''https://api.openai.com/v1'',
        builtin_provider ''stub'' [''stub-v1''] ''none'' ''stub://local'',
        builtin_provider ''dummy-http'' [''dummy-v1''] ''none'' ''http://127.0.0.1:8765/v1''],
     cat_workspaces = [(''default'', \<lparr>wk_id = ''default'', wk_source = ''/srv/corvus/workspaces/default'',
        wk_mount_path = ''/workspace'', wk_mount_mode = ''rw'', wk_allowed_agents = [''*''],
        wk_retention_policy = ''ephemeral''\<rparr>)],
     cat_memory_namespaces = [
        (''private'', \<lparr>mt_name = ''private'', mt_quota = default_limits, mt_retention_policy = ''agent-private''\<rparr>),
        (''shared-knowledge'', \<lparr>mt_name = ''shared-knowledge'', mt_quota = default_limits,
           mt_retention_policy = ''explicit-grant''\<rparr>)]\<rparr>"

section \<open>The store\<close>

record catalog_state = conn_state +
  live_catalog :: capability_catalog

text \<open>\<^verbatim>\<open>{e[field]: Model.model_validate(e) for e in entries}\<close>\<close>

fun load_kind :: "string \<Rightarrow> (obj \<Rightarrow> 'v res) \<Rightarrow> (string \<times> 'v) list \<Rightarrow> obj list \<Rightarrow> (string \<times> 'v) list res" where
  "load_kind field validate acc [] = Inr acc"
| "load_kind field validate acc (d # ds) =
     (case map_of d field of
        None \<Rightarrow> Inl KeyError
      | Some k \<Rightarrow> bindE (validate d) (\<lambda>v. load_kind field validate (dput (py_str k) v acc) ds))"

definition load_catalog :: "'z db_scheme \<Rightarrow> capability_catalog res" where
  "load_catalog s =
     bindE (load_kind ''name'' validate_tool_entry [] (list_catalog_entries ''tools'' s)) (\<lambda>ts.
     bindE (load_kind ''name'' validate_skill_entry [] (list_catalog_entries ''skills'' s)) (\<lambda>ss.
     bindE (load_kind ''id'' validate_workspace_entry [] (list_catalog_entries ''workspaces'' s)) (\<lambda>ws.
     bindE (load_kind ''name'' validate_namespace_template [] (list_catalog_entries ''memory_namespaces'' s)) (\<lambda>ns.
     bindE (load_kind ''provider_id'' validate_provider_entry [] (list_catalog_entries ''llm_providers'' s)) (\<lambda>ps.
     Inr \<lparr>cat_tools = ts, cat_skills = ss, cat_llm_providers = ps, cat_workspaces = ws,
         cat_memory_namespaces = ns\<rparr>)))))"

definition catalog_reload :: "('z catalog_state_scheme, capability_catalog) act" where
  "catalog_reload = (\<lambda>s. case load_catalog s of
     Inl x \<Rightarrow> (Inl x, s) | Inr c \<Rightarrow> (Inr c, s\<lparr>live_catalog := c\<rparr>))"

definition seed_kind :: "env \<Rightarrow> string \<Rightarrow> (string \<times> obj) list \<Rightarrow> ('z catalog_state_scheme, unit) act" where
  "seed_kind e kind entries = bindA (getS (catalog_kind_empty kind)) (\<lambda>empty.
     whenA empty (forA entries (\<lambda>(entry_id, entry). upsert_catalog_entry e kind entry_id entry)))"

definition seed_mapping :: "(string \<times> (string \<times> obj) list) list" where
  "seed_mapping =
     [(''tools'', map (apsnd dump_tool_entry) (cat_tools DEFAULT_CATALOG)),
      (''skills'', map (apsnd dump_skill_entry) (cat_skills DEFAULT_CATALOG)),
      (''workspaces'', map (apsnd dump_workspace_entry) (cat_workspaces DEFAULT_CATALOG)),
      (''memory_namespaces'', map (apsnd dump_namespace_template) (cat_memory_namespaces DEFAULT_CATALOG))]"

definition ensure_seeded :: "env \<Rightarrow> ('z catalog_state_scheme, unit) act" where
  "ensure_seeded e = thenA (forA seed_mapping (\<lambda>(kind, entries). seed_kind e kind entries))
     (thenA catalog_reload (ret ()))"

definition seed_llm_providers_from_registry ::
  "env \<Rightarrow> (string \<times> provider_entry) list \<Rightarrow> ('z catalog_state_scheme, unit) act" where
  "seed_llm_providers_from_registry e providers =
     bindA (getS (catalog_kind_empty ''llm_providers'')) (\<lambda>empty.
       if \<not> empty then thenA catalog_reload (ret ())
       else thenA (forA providers (\<lambda>(i, p). upsert_catalog_entry e ''llm_providers'' (pe_provider_id p) (dump_provider_entry p)))
         (thenA catalog_reload (ret ())))"

text \<open>\<^verbatim>\<open>_KIND_MODELS\<close>: the model and the id field of a kind, as the parsed id with the dump of the
  parsed entry.\<close>

definition parse_entry :: "string \<Rightarrow> obj \<Rightarrow> (string \<times> obj) res" where
  "parse_entry kind entry =
     (if kind = ''tools'' then bindE (validate_tool_entry entry) (\<lambda>x. Inr (te_name x, dump_tool_entry x))
      else if kind = ''skills'' then bindE (validate_skill_entry entry) (\<lambda>x. Inr (sk_name x, dump_skill_entry x))
      else if kind = ''workspaces'' then
        bindE (validate_workspace_entry entry) (\<lambda>x. Inr (wk_id x, dump_workspace_entry x))
      else if kind = ''memory_namespaces'' then
        bindE (validate_namespace_template entry) (\<lambda>x. Inr (mt_name x, dump_namespace_template x))
      else if kind = ''llm_providers'' then
        bindE (validate_provider_entry entry) (\<lambda>x. Inr (pe_provider_id x, dump_provider_entry x))
      else Inl ValueError)"

definition catalog_upsert :: "env \<Rightarrow> string \<Rightarrow> obj \<Rightarrow> ('z catalog_state_scheme, obj) act" where
  "catalog_upsert e kind entry = bindA (liftR (parse_entry kind entry)) (\<lambda>(entry_id, payload).
     thenA (upsert_catalog_entry e kind entry_id payload) (thenA catalog_reload (ret payload)))"

definition catalog_kinds :: "string list" where
  "catalog_kinds = [''tools'', ''skills'', ''workspaces'', ''memory_namespaces'', ''llm_providers'']"

definition catalog_delete :: "string \<Rightarrow> string \<Rightarrow> ('z catalog_state_scheme, bool) act" where
  "catalog_delete kind entry_id =
     (if kind \<notin> set catalog_kinds then raise ValueError
      else bindA (delete_catalog_entry kind entry_id) (\<lambda>ok.
        if ok then thenA catalog_reload (ret ok) else ret ok))"

section \<open>Round trips\<close>

lemma mapE_pyd_str [simp]: "mapE pyd_str (map JStr xs) = Inr xs"
  by (induction xs) auto

lemma pyd_opt_jopt_str [simp]: "pyd_opt pyd_str (jopt x) = Inr x"
  by (cases x) (simp_all add: jopt_def)

lemma pyd_opt_jopt_int [simp]: "pyd_opt pyd_int (jopt_int x) = Inr x"
  by (cases x) (simp_all add: jopt_int_def)

lemma pyd_literal_ok [simp]: "x \<in> set xs \<Longrightarrow> pyd_literal xs (JStr x) = Inr x"
  by (simp add: pyd_literal_def)

lemma validate_dump_tool:
  "te_risk_level x \<in> {''low'', ''medium'', ''high''} \<Longrightarrow> validate_tool_entry (dump_tool_entry x) = Inr x"
  by (auto simp: validate_tool_entry_def dump_tool_entry_def pyd_req_def pyd_def_def)

lemma validate_dump_skill:
  "sk_format x \<in> {''builtin'', ''agentskills''} \<Longrightarrow> sk_install_status x \<in> {''approved'', ''pending'', ''rejected''} \<Longrightarrow>
    validate_skill_entry (dump_skill_entry x) = Inr x"
  by (auto simp: validate_skill_entry_def dump_skill_entry_def pyd_req_def pyd_def_def)

lemma validate_dump_provider: "validate_provider_entry (dump_provider_entry x) = Inr x"
  by (simp add: validate_provider_entry_def dump_provider_entry_def pyd_req_def pyd_def_def)

lemma validate_dump_workspace:
  "wk_mount_mode x \<in> {''ro'', ''rw''} \<Longrightarrow> validate_workspace_entry (dump_workspace_entry x) = Inr x"
  by (auto simp: validate_workspace_entry_def dump_workspace_entry_def pyd_req_def pyd_def_def)

lemma validate_dump_namespace: "validate_namespace_template (dump_namespace_template x) = Inr x"
  by (simp add: validate_namespace_template_def dump_namespace_template_def validate_limits_def pyd_req_def pyd_def_def)

section \<open>Store invariants\<close>

lemma catalog_reload_ok [pres_intro]: "preserves db_ok catalog_reload"
  by (auto simp: catalog_reload_def preserves_def db_ok_def split: sum.splits)

lemma seed_kind_ok [pres_intro]: "preserves db_ok (seed_kind e k xs)"
  unfolding seed_kind_def by (intro pres_intro)

lemma ensure_seeded_ok [pres_intro]: "preserves db_ok (ensure_seeded e)"
  unfolding ensure_seeded_def by (intro pres_intro)

lemma catalog_upsert_ok [pres_intro]: "preserves db_ok (catalog_upsert e k x)"
  unfolding catalog_upsert_def by (intro pres_intro)

lemma catalog_delete_ok [pres_intro]: "preserves db_ok (catalog_delete k i)"
  unfolding catalog_delete_def by (intro pres_intro)

definition catalog_fresh :: "'z catalog_state_scheme \<Rightarrow> bool" where
  "catalog_fresh s \<longleftrightarrow> load_catalog s = Inr (live_catalog s)"

lemma load_catalog_live [simp]: "load_catalog (s\<lparr>live_catalog := c\<rparr>) = load_catalog s"
  by (simp add: load_catalog_def list_catalog_entries_def)

lemma catalog_reload_fresh: "catalog_reload s = (Inr c, s') \<Longrightarrow> catalog_fresh s' \<and> live_catalog s' = c"
  by (auto simp: catalog_reload_def catalog_fresh_def split: sum.splits)

text \<open>An existing kind is never written by the seeding.\<close>

lemma seed_kind_keeps: "\<not> catalog_kind_empty k s \<Longrightarrow> seed_kind e k xs s = (Inr (), s)"
  by (simp add: seed_kind_def whenA_def)

end
