(* ===== verification/Manifest.thy ===== *)
theory Manifest
  imports Catalog
begin

text \<open>
  The launch manifest of \<^verbatim>\<open>server/manifest.py\<close>: its typed contract with the extra-field check
  and the validators, the canonical form, and the resolution against the catalog.
\<close>

section \<open>The contract\<close>

record engine3_manifest =
  e3_allowed_providers :: "string list"
  e3_allowed_models :: "string list"
  e3_tool_execution_mode :: string
  e3_provider_tools :: "string list"

record engine_manifest =
  em_tools :: "string list"  \<comment> \<open>\<^verbatim>\<open>engine1\<close>\<close>
  em_platforms :: "string list"  \<comment> \<open>\<^verbatim>\<open>engine2\<close>\<close>
  em_engine3 :: engine3_manifest
  em_namespaces :: "string list"  \<comment> \<open>\<^verbatim>\<open>engine4\<close>\<close>

record launch_grant =
  lg_target_agent :: string
  lg_namespace :: string
  lg_permissions :: "string list"
  lg_expires_at :: "time option"

record resource_limits =
  rl_memory_mb :: int
  rl_vcpu_count :: int

record workspace_mount =
  wm_workspace_id :: string
  wm_mount_path :: string
  wm_mode :: string

record agent_manifest =
  am_engines :: engine_manifest
  am_skills :: "string list"
  am_workspaces :: "workspace_mount list"
  am_launch_grants :: "launch_grant list"
  am_rootfs_image :: string
  am_resource_limits :: resource_limits

text \<open>\<^verbatim>\<open>extra="forbid"\<close>\<close>

definition only_keys :: "string list \<Rightarrow> json \<Rightarrow> obj res" where
  "only_keys ks v = bindE (pyd_dict v) (\<lambda>d.
     if list_all (\<lambda>(k, _). k \<in> set ks) d then Inr d else Inl ValidationError)"

definition validate_engine1 :: "json \<Rightarrow> string list res" where
  "validate_engine1 v = bindE (only_keys [''tools''] v) (\<lambda>d. pyd_def pyd_strs [] d ''tools'')"

definition validate_engine2 :: "json \<Rightarrow> string list res" where
  "validate_engine2 v = bindE (only_keys [''platforms''] v) (\<lambda>d. pyd_def pyd_strs [''api''] d ''platforms'')"

definition default_engine3 :: engine3_manifest where
  "default_engine3 = \<lparr>e3_allowed_providers = [''stub''], e3_allowed_models = [''stub-v1''],
     e3_tool_execution_mode = ''local'', e3_provider_tools = []\<rparr>"

definition validate_engine3 :: "json \<Rightarrow> engine3_manifest res" where
  "validate_engine3 v =
     bindE (only_keys [''allowed_providers'', ''allowed_models'', ''tool_execution_mode'', ''provider_tools''] v) (\<lambda>d.
     bindE (pyd_def pyd_strs [''stub''] d ''allowed_providers'') (\<lambda>ps.
     bindE (pyd_def pyd_strs [''stub-v1''] d ''allowed_models'') (\<lambda>ms.
     bindE (pyd_def (pyd_literal [''local'', ''hybrid'']) ''local'' d ''tool_execution_mode'') (\<lambda>mode.
     bindE (pyd_def pyd_strs [] d ''provider_tools'') (\<lambda>ts.
     if mode = ''local'' \<and> ts \<noteq> [] then Inl ValidationError
     else Inr \<lparr>e3_allowed_providers = ps, e3_allowed_models = ms, e3_tool_execution_mode = mode,
               e3_provider_tools = ts\<rparr>)))))"

definition validate_engine4 :: "json \<Rightarrow> string list res" where
  "validate_engine4 v = bindE (only_keys [''namespaces''] v) (\<lambda>d. pyd_def pyd_strs [] d ''namespaces'')"

definition default_engines :: engine_manifest where
  "default_engines = \<lparr>em_tools = [], em_platforms = [''api''], em_engine3 = default_engine3, em_namespaces = []\<rparr>"

definition validate_engines :: "json \<Rightarrow> engine_manifest res" where
  "validate_engines v = bindE (only_keys [''engine1'', ''engine2'', ''engine3'', ''engine4''] v) (\<lambda>d.
     bindE (pyd_def validate_engine1 [] d ''engine1'') (\<lambda>e1.
     bindE (pyd_def validate_engine2 [''api''] d ''engine2'') (\<lambda>e2.
     bindE (pyd_def validate_engine3 default_engine3 d ''engine3'') (\<lambda>e3.
     bindE (pyd_def validate_engine4 [] d ''engine4'') (\<lambda>e4.
     Inr \<lparr>em_tools = e1, em_platforms = e2, em_engine3 = e3, em_namespaces = e4\<rparr>)))))"

definition validate_launch_grant :: "env \<Rightarrow> json \<Rightarrow> launch_grant res" where
  "validate_launch_grant e v =
     bindE (only_keys [''target_agent'', ''namespace'', ''permissions'', ''expires_at''] v) (\<lambda>d.
     bindE (pyd_req pyd_str d ''target_agent'') (\<lambda>t.
     bindE (pyd_req pyd_str d ''namespace'') (\<lambda>n.
     bindE (pyd_req (pyd_list (pyd_literal [''read'', ''write'', ''delete''])) d ''permissions'') (\<lambda>ps.
     bindE (pyd_def (pyd_opt (pyd_datetime e)) None d ''expires_at'') (\<lambda>x.
     if ps = [] then Inl ValidationError
     else Inr \<lparr>lg_target_agent = t, lg_namespace = n, lg_permissions = ps, lg_expires_at = x\<rparr>)))))"

definition default_limits_vm :: resource_limits where
  "default_limits_vm = \<lparr>rl_memory_mb = 512, rl_vcpu_count = 1\<rparr>"

definition validate_resource_limits :: "json \<Rightarrow> resource_limits res" where
  "validate_resource_limits v = bindE (only_keys [''memory_mb'', ''vcpu_count''] v) (\<lambda>d.
     bindE (pyd_def (pyd_range 128 (Some 65536)) 512 d ''memory_mb'') (\<lambda>mb.
     bindE (pyd_def (pyd_range 1 (Some 64)) 1 d ''vcpu_count'') (\<lambda>cpu.
     Inr \<lparr>rl_memory_mb = mb, rl_vcpu_count = cpu\<rparr>)))"

definition default_mount :: workspace_mount where
  "default_mount = \<lparr>wm_workspace_id = ''default'', wm_mount_path = ''/workspace'', wm_mode = ''rw''\<rparr>"

definition validate_mount :: "json \<Rightarrow> workspace_mount res" where
  "validate_mount v = bindE (only_keys [''workspace_id'', ''mount_path'', ''mode''] v) (\<lambda>d.
     bindE (pyd_def pyd_str ''default'' d ''workspace_id'') (\<lambda>i.
     bindE (pyd_def pyd_str ''/workspace'' d ''mount_path'') (\<lambda>p.
     bindE (pyd_def (pyd_literal [''ro'', ''rw'']) ''rw'' d ''mode'') (\<lambda>m.
     Inr \<lparr>wm_workspace_id = i, wm_mount_path = p, wm_mode = m\<rparr>))))"

text \<open>\<^verbatim>\<open>AgentManifest.model_validate\<close>; an empty list of workspaces becomes the default mount.\<close>

definition validate_manifest :: "env \<Rightarrow> json \<Rightarrow> agent_manifest res" where
  "validate_manifest e v =
     bindE (only_keys [''manifest_version'', ''engines'', ''skills'', ''workspaces'', ''launch_grants'',
              ''rootfs_image'', ''resource_limits''] v) (\<lambda>d.
     bindE (pyd_def (pyd_literal [''1.0'']) ''1.0'' d ''manifest_version'') (\<lambda>_.
     bindE (pyd_def validate_engines default_engines d ''engines'') (\<lambda>en.
     bindE (pyd_def pyd_strs [] d ''skills'') (\<lambda>sk.
     bindE (pyd_def (pyd_list validate_mount) [] d ''workspaces'') (\<lambda>ws.
     bindE (pyd_def (pyd_list (validate_launch_grant e)) [] d ''launch_grants'') (\<lambda>gs.
     bindE (pyd_def pyd_str ''corvus-test-rootfs'' d ''rootfs_image'') (\<lambda>img.
     bindE (pyd_def validate_resource_limits default_limits_vm d ''resource_limits'') (\<lambda>rl.
     Inr \<lparr>am_engines = en, am_skills = sk, am_workspaces = (if ws = [] then [default_mount] else ws),
         am_launch_grants = gs, am_rootfs_image = img, am_resource_limits = rl\<rparr>))))))))"

section \<open>The canonical form\<close>

definition dump_launch_grant :: "env \<Rightarrow> launch_grant \<Rightarrow> json" where
  "dump_launch_grant e g = JObj ([(''target_agent'', JStr (lg_target_agent g)), (''namespace'', JStr (lg_namespace g)),
     (''permissions'', jstrs (lg_permissions g))]
     @ (case lg_expires_at g of None \<Rightarrow> [] | Some t \<Rightarrow> [(''expires_at'', JStr (pyd_datetime_text e t))]))"

definition dump_mount :: "workspace_mount \<Rightarrow> json" where
  "dump_mount m = JObj [(''workspace_id'', JStr (wm_workspace_id m)), (''mount_path'', JStr (wm_mount_path m)),
     (''mode'', JStr (wm_mode m))]"

definition dump_engines :: "engine_manifest \<Rightarrow> json" where
  "dump_engines x = JObj [(''engine1'', JObj [(''tools'', jstrs (em_tools x))]),
     (''engine2'', JObj [(''platforms'', jstrs (em_platforms x))]),
     (''engine3'', JObj [(''allowed_providers'', jstrs (e3_allowed_providers (em_engine3 x))),
        (''allowed_models'', jstrs (e3_allowed_models (em_engine3 x))),
        (''tool_execution_mode'', JStr (e3_tool_execution_mode (em_engine3 x))),
        (''provider_tools'', jstrs (e3_provider_tools (em_engine3 x)))]),
     (''engine4'', JObj [(''namespaces'', jstrs (em_namespaces x))])]"

definition canonical_manifest :: "env \<Rightarrow> agent_manifest \<Rightarrow> obj" where
  "canonical_manifest e m = [(''manifest_version'', JStr ''1.0''), (''engines'', dump_engines (am_engines m)),
     (''skills'', jstrs (am_skills m)), (''workspaces'', JArr (map dump_mount (am_workspaces m))),
     (''launch_grants'', JArr (map (dump_launch_grant e) (am_launch_grants m))),
     (''rootfs_image'', JStr (am_rootfs_image m)),
     (''resource_limits'', JObj [(''memory_mb'', JInt (rl_memory_mb (am_resource_limits m))),
        (''vcpu_count'', JInt (rl_vcpu_count (am_resource_limits m)))])]"

section \<open>Resolution\<close>

definition unknown :: "string list \<Rightarrow> (string \<times> 'v) list \<Rightarrow> bool" where
  "unknown names d \<longleftrightarrow> list_ex (\<lambda>n. map_of d n = None) names"

definition supported_models :: "capability_catalog \<Rightarrow> string list \<Rightarrow> string list" where
  "supported_models c providers = concat (map (\<lambda>p. case map_of (cat_llm_providers c) p of
     None \<Rightarrow> [] | Some x \<Rightarrow> pe_supported_models x) providers)"

definition hosted_tool_ok :: "capability_catalog \<Rightarrow> string \<Rightarrow> bool" where
  "hosted_tool_ok c entry \<longleftrightarrow> CHR '':'' \<in> set entry \<and>
     (let (provider_id, tool_name) = split_once (CHR '':'') entry in
      case map_of (cat_llm_providers c) provider_id of
        None \<Rightarrow> False
      | Some p \<Rightarrow> pe_hosted_tools_allowed p \<and> tool_name \<in> set (pe_allowed_hosted_tools p))"

definition resolve_model :: "env \<Rightarrow> capability_catalog \<Rightarrow> agent_manifest \<Rightarrow> agent_manifest res" where
  "resolve_model e c m =
     (let en = am_engines m; e3 = em_engine3 en in
      if unknown (em_tools en) (cat_tools c) then Inl ValueError
      else if unknown (am_skills m) (cat_skills c) then Inl ValueError
      else if unknown (e3_allowed_providers e3) (cat_llm_providers c) then Inl ValueError
      else if \<not> set (e3_allowed_models e3) \<subseteq> set (supported_models c (e3_allowed_providers e3)) then Inl ValueError
      else if e3_tool_execution_mode e3 = ''hybrid'' \<and> \<not> list_all (hosted_tool_ok c) (e3_provider_tools e3)
        then Inl ValueError
      else if unknown (map wm_workspace_id (am_workspaces m)) (cat_workspaces c) then Inl ValueError
      else if unknown (em_namespaces en @ map lg_namespace (am_launch_grants m)) (cat_memory_namespaces c)
        then Inl ValueError
      else validate_manifest e (JObj (canonical_manifest e m)))"

definition resolve_manifest :: "env \<Rightarrow> capability_catalog \<Rightarrow> json \<Rightarrow> agent_manifest res" where
  "resolve_manifest e c v = bindE (validate_manifest e v) (resolve_model e c)"

definition default_chat_manifest :: "env \<Rightarrow> agent_manifest res" where
  "default_chat_manifest e = resolve_manifest e DEFAULT_CATALOG (JObj [])"

definition full_capability_manifest :: "env \<Rightarrow> agent_manifest res" where
  "full_capability_manifest e = resolve_manifest e DEFAULT_CATALOG (JObj [
     (''manifest_version'', JStr ''1.0''),
     (''engines'', JObj [
        (''engine1'', JObj [(''tools'', jstrs [''echo'', ''terminal'', ''file_read'', ''skill_read'', ''skill_run''])]),
        (''engine2'', JObj [(''platforms'', jstrs [''api''])]),
        (''engine3'', JObj [(''allowed_providers'', jstrs [''openai'', ''stub'', ''dummy-http'']),
           (''allowed_models'', jstrs [''gpt-4'', ''stub-v1'', ''dummy-v1''])]),
        (''engine4'', JObj [(''namespaces'', jstrs [''private''])])]),
     (''skills'', jstrs [''base-runtime'']),
     (''launch_grants'', JArr []),
     (''rootfs_image'', JStr ''corvus-test-rootfs''),
     (''resource_limits'', JObj [(''memory_mb'', JInt 512), (''vcpu_count'', JInt 1)])])"

section \<open>Canonical manifests validate to themselves\<close>

definition manifest_ok :: "env \<Rightarrow> agent_manifest \<Rightarrow> bool" where
  "manifest_ok e m \<longleftrightarrow>
     (let e3 = em_engine3 (am_engines m) in
      e3_tool_execution_mode e3 \<in> {''local'', ''hybrid''}
      \<and> (e3_tool_execution_mode e3 = ''local'' \<longrightarrow> e3_provider_tools e3 = []))
     \<and> am_workspaces m \<noteq> [] \<and> (\<forall>w \<in> set (am_workspaces m). wm_mode w \<in> {''ro'', ''rw''})
     \<and> (\<forall>g \<in> set (am_launch_grants m). lg_permissions g \<noteq> []
          \<and> set (lg_permissions g) \<subseteq> {''read'', ''write'', ''delete''}
          \<and> (\<forall>t. lg_expires_at g = Some t \<longrightarrow> pyd_datetime e (JStr (pyd_datetime_text e t)) = Inr t))
     \<and> 128 \<le> rl_memory_mb (am_resource_limits m) \<and> rl_memory_mb (am_resource_limits m) \<le> 65536
     \<and> 1 \<le> rl_vcpu_count (am_resource_limits m) \<and> rl_vcpu_count (am_resource_limits m) \<le> 64"

lemma mapE_literal [simp]: "set xs \<subseteq> set ls \<Longrightarrow> mapE (pyd_literal ls) (map JStr xs) = Inr xs"
  by (induction xs) auto

lemma only_keys_JObj [simp]:
  "list_all (\<lambda>(k, _). k \<in> set ks) d \<Longrightarrow> only_keys ks (JObj d) = Inr d"
  by (simp add: only_keys_def)

lemma validate_dump_launch_grant:
  assumes "lg_permissions g \<noteq> []" and "set (lg_permissions g) \<subseteq> {''read'', ''write'', ''delete''}"
    and "\<And>t. lg_expires_at g = Some t \<Longrightarrow> pyd_datetime e (JStr (pyd_datetime_text e t)) = Inr t"
  shows "validate_launch_grant e (dump_launch_grant e g) = Inr g"
  using assms
  by (cases "lg_expires_at g") (simp_all add: validate_launch_grant_def dump_launch_grant_def pyd_req_def pyd_def_def)

lemma validate_dump_mount: "wm_mode w \<in> {''ro'', ''rw''} \<Longrightarrow> validate_mount (dump_mount w) = Inr w"
  by (auto simp: validate_mount_def dump_mount_def pyd_def_def)

lemma validate_dump_engines:
  assumes "e3_tool_execution_mode (em_engine3 x) \<in> {''local'', ''hybrid''}"
    and "e3_tool_execution_mode (em_engine3 x) = ''local'' \<longrightarrow> e3_provider_tools (em_engine3 x) = []"
  shows "validate_engines (dump_engines x) = Inr x"
  using assms
  by (auto simp: validate_engines_def dump_engines_def validate_engine1_def validate_engine2_def
      validate_engine3_def validate_engine4_def pyd_def_def)

lemma mapE_map_Inr: "(\<And>x. x \<in> set xs \<Longrightarrow> f (g x) = Inr x) \<Longrightarrow> mapE f (map g xs) = Inr xs"
  by (induction xs) auto

lemma validate_canonical:
  assumes "manifest_ok e m"
  shows "validate_manifest e (JObj (canonical_manifest e m)) = Inr m"
proof -
  have "mapE validate_mount (map dump_mount (am_workspaces m)) = Inr (am_workspaces m)"
    using assms by (intro mapE_map_Inr validate_dump_mount) (auto simp: manifest_ok_def)
  moreover have "mapE (validate_launch_grant e) (map (dump_launch_grant e) (am_launch_grants m)) = Inr (am_launch_grants m)"
    using assms by (intro mapE_map_Inr validate_dump_launch_grant) (auto simp: manifest_ok_def)
  moreover have "validate_engines (dump_engines (am_engines m)) = Inr (am_engines m)"
    using assms by (intro validate_dump_engines) (auto simp: manifest_ok_def Let_def)
  ultimately show ?thesis
    using assms
    by (simp add: validate_manifest_def canonical_manifest_def pyd_def_def validate_resource_limits_def
        pyd_range_def manifest_ok_def)
qed

text \<open>What validation returns is always of that form, when the datetime text parses back.\<close>

definition datetime_ok :: "env \<Rightarrow> bool" where
  "datetime_ok e \<longleftrightarrow> (\<forall>t. pyd_datetime e (JStr (pyd_datetime_text e t)) = Inr t)"

lemma pyd_literal_Inr: "pyd_literal xs v = Inr y \<Longrightarrow> y \<in> set xs"
  by (auto simp: pyd_literal_def split: if_splits)

lemma mapE_Inr_all: "mapE f xs = Inr ys \<Longrightarrow> y \<in> set ys \<Longrightarrow> \<exists>x \<in> set xs. f x = Inr y"
  by (induction xs arbitrary: ys) auto

lemma pyd_list_Inr_all: "pyd_list f v = Inr ys \<Longrightarrow> y \<in> set ys \<Longrightarrow> \<exists>x. f x = Inr y"
  by (cases v) (auto dest: mapE_Inr_all)

lemma pyd_def_cases: "pyd_def f x d k = Inr y \<Longrightarrow> y = x \<or> (\<exists>v. f v = Inr y)"
  by (auto simp: pyd_def_def split: option.splits)

lemma validate_mount_mode: "validate_mount v = Inr w \<Longrightarrow> wm_mode w \<in> {''ro'', ''rw''}"
  by (fastforce simp: validate_mount_def dest: pyd_def_cases pyd_literal_Inr)

lemma validate_engine3_ok:
  assumes "validate_engine3 v = Inr x"
  shows "e3_tool_execution_mode x \<in> {''local'', ''hybrid''} \<and>
         (e3_tool_execution_mode x = ''local'' \<longrightarrow> e3_provider_tools x = [])"
  using assms by (auto simp: validate_engine3_def split: if_splits dest!: pyd_def_cases pyd_literal_Inr)

lemma validate_engines_ok:
  assumes "validate_engines v = Inr x"
  shows "e3_tool_execution_mode (em_engine3 x) \<in> {''local'', ''hybrid''} \<and>
         (e3_tool_execution_mode (em_engine3 x) = ''local'' \<longrightarrow> e3_provider_tools (em_engine3 x) = [])"
proof -
  obtain e3 d where "em_engine3 x = e3" "pyd_def validate_engine3 default_engine3 d ''engine3'' = Inr e3"
    using assms by (auto simp: validate_engines_def)
  then show ?thesis
    using validate_engine3_ok by (auto simp: default_engine3_def dest!: pyd_def_cases)
qed

lemma validate_launch_grant_ok:
  assumes "validate_launch_grant e v = Inr g"
  shows "lg_permissions g \<noteq> [] \<and> set (lg_permissions g) \<subseteq> {''read'', ''write'', ''delete''}"
proof -
  from assms obtain v' where "pyd_list (pyd_literal [''read'', ''write'', ''delete'']) v' = Inr (lg_permissions g)"
    and "lg_permissions g \<noteq> []"
    by (auto simp: validate_launch_grant_def pyd_req_def split: if_splits option.splits)
  then show ?thesis using pyd_list_Inr_all pyd_literal_Inr by fastforce
qed

lemma validate_manifest_InrE:
  assumes "validate_manifest e v = Inr m"
  obtains d en sk ws gs img rl where
    "pyd_def validate_engines default_engines d ''engines'' = Inr en"
    "pyd_def pyd_strs [] d ''skills'' = Inr sk"
    "pyd_def (pyd_list validate_mount) [] d ''workspaces'' = Inr ws"
    "pyd_def (pyd_list (validate_launch_grant e)) [] d ''launch_grants'' = Inr gs"
    "pyd_def pyd_str ''corvus-test-rootfs'' d ''rootfs_image'' = Inr img"
    "pyd_def validate_resource_limits default_limits_vm d ''resource_limits'' = Inr rl"
    "m = \<lparr>am_engines = en, am_skills = sk, am_workspaces = (if ws = [] then [default_mount] else ws),
         am_launch_grants = gs, am_rootfs_image = img, am_resource_limits = rl\<rparr>"
  using assms unfolding validate_manifest_def bindE_eq_Inr
  by (elim exE conjE) (rule that; (assumption | (simp only: sum.inject, erule sym)))

lemma validate_manifest_fields:
  assumes "validate_manifest e v = Inr m"
  shows "\<exists>d. pyd_def validate_engines default_engines d ''engines'' = Inr (am_engines m)"
    and "\<exists>d ws. pyd_def (pyd_list validate_mount) [] d ''workspaces'' = Inr ws
           \<and> am_workspaces m = (if ws = [] then [default_mount] else ws)"
    and "\<exists>d. pyd_def (pyd_list (validate_launch_grant e)) [] d ''launch_grants'' = Inr (am_launch_grants m)"
    and "\<exists>d. pyd_def validate_resource_limits default_limits_vm d ''resource_limits'' = Inr (am_resource_limits m)"
proof -
  from assms obtain d en sk ws gs img rl where f:
    "pyd_def validate_engines default_engines d ''engines'' = Inr en"
    "pyd_def (pyd_list validate_mount) [] d ''workspaces'' = Inr ws"
    "pyd_def (pyd_list (validate_launch_grant e)) [] d ''launch_grants'' = Inr gs"
    "pyd_def validate_resource_limits default_limits_vm d ''resource_limits'' = Inr rl"
    "m = \<lparr>am_engines = en, am_skills = sk, am_workspaces = (if ws = [] then [default_mount] else ws),
         am_launch_grants = gs, am_rootfs_image = img, am_resource_limits = rl\<rparr>"
    by (rule validate_manifest_InrE)
  note m = f(5)
  show "\<exists>d. pyd_def validate_engines default_engines d ''engines'' = Inr (am_engines m)"
    using f(1) by (simp add: m) blast
  show "\<exists>d ws. pyd_def (pyd_list validate_mount) [] d ''workspaces'' = Inr ws
           \<and> am_workspaces m = (if ws = [] then [default_mount] else ws)"
    using f(2) by (simp add: m) blast
  show "\<exists>d. pyd_def (pyd_list (validate_launch_grant e)) [] d ''launch_grants'' = Inr (am_launch_grants m)"
    using f(3) by (simp add: m) blast
  show "\<exists>d. pyd_def validate_resource_limits default_limits_vm d ''resource_limits'' = Inr (am_resource_limits m)"
    using f(4) by (simp add: m) blast
qed

lemma validate_resource_limits_ok:
  "validate_resource_limits v = Inr rl \<Longrightarrow>
     128 \<le> rl_memory_mb rl \<and> rl_memory_mb rl \<le> 65536 \<and> 1 \<le> rl_vcpu_count rl \<and> rl_vcpu_count rl \<le> 64"
  by (auto simp: validate_resource_limits_def pyd_range_def dest!: pyd_def_cases split: if_splits)

lemma validate_manifest_limits:
  assumes "validate_manifest e v = Inr m"
  shows "128 \<le> rl_memory_mb (am_resource_limits m) \<and> rl_memory_mb (am_resource_limits m) \<le> 65536
      \<and> 1 \<le> rl_vcpu_count (am_resource_limits m) \<and> rl_vcpu_count (am_resource_limits m) \<le> 64"
  using validate_manifest_fields(4) [OF assms] validate_resource_limits_ok
  by (auto simp: default_limits_vm_def dest!: pyd_def_cases)

lemma resolve_manifest_limits:
  assumes "resolve_manifest e c v = Inr m"
  shows "128 \<le> rl_memory_mb (am_resource_limits m) \<and> rl_memory_mb (am_resource_limits m) \<le> 65536
      \<and> 1 \<le> rl_vcpu_count (am_resource_limits m) \<and> rl_vcpu_count (am_resource_limits m) \<le> 64"
proof -
  from assms obtain v' where "validate_manifest e v' = Inr m"
    by (auto simp: resolve_manifest_def resolve_model_def Let_def split: if_splits)
  then show ?thesis by (rule validate_manifest_limits)
qed

lemma validate_manifest_ok:
  assumes "validate_manifest e v = Inr m" and "datetime_ok e"
  shows "manifest_ok e m"
proof -
  have 1: "e3_tool_execution_mode (em_engine3 (am_engines m)) \<in> {''local'', ''hybrid''} \<and>
         (e3_tool_execution_mode (em_engine3 (am_engines m)) = ''local'' \<longrightarrow> e3_provider_tools (em_engine3 (am_engines m)) = [])"
    using validate_manifest_fields(1) [OF assms(1)] validate_engines_ok
    by (auto simp: default_engines_def default_engine3_def dest!: pyd_def_cases)
  obtain ws d where ws: "pyd_def (pyd_list validate_mount) [] d ''workspaces'' = Inr ws"
      "am_workspaces m = (if ws = [] then [default_mount] else ws)"
    using validate_manifest_fields(2) [OF assms(1)] by blast
  have 2: "wm_mode w \<in> {''ro'', ''rw''}" if w: "w \<in> set (am_workspaces m)" for w
  proof (cases "ws = []")
    case False
    with pyd_def_cases [OF ws(1)] w ws(2) obtain x where "validate_mount x = Inr w"
      by (auto dest: pyd_list_Inr_all)
    then show ?thesis by (rule validate_mount_mode)
  qed (use w ws(2) in \<open>simp add: default_mount_def\<close>)
  have 3: "lg_permissions g \<noteq> [] \<and> set (lg_permissions g) \<subseteq> {''read'', ''write'', ''delete''}"
    if g: "g \<in> set (am_launch_grants m)" for g
  proof -
    from validate_manifest_fields(3) [OF assms(1)] g obtain x where "validate_launch_grant e x = Inr g"
      by (auto dest!: pyd_def_cases dest: pyd_list_Inr_all)
    then show ?thesis by (rule validate_launch_grant_ok)
  qed
  show ?thesis
    using 1 2 3 validate_manifest_limits [OF assms(1)] ws(2) assms(2) by (simp add: manifest_ok_def datetime_ok_def Let_def)
qed

end
