(* ===== verification/Memory.thy ===== *)
theory Memory
  imports Manifest Grants_Quota
begin

text \<open>
  The memory service of \<^verbatim>\<open>memory/service.py\<close> with its request models, the at-rest encryption of
  \<^verbatim>\<open>memory/encryption.py\<close> and the retention sweeper of \<^verbatim>\<open>memory/sweeper.py\<close>.

  The AES-GCM cipher and the random nonce come from outside the sources and are the record
  \<open>crypto\<close>; the nearest-neighbour scan is the argument \<open>knn\<close>.  Bytes are numbers below 256.
\<close>

section \<open>Encryption\<close>

record crypto =
  aes_encrypt :: "nat list \<Rightarrow> nat list \<Rightarrow> nat list \<Rightarrow> nat list"  \<comment> \<open>key, nonce, plaintext\<close>
  aes_decrypt :: "nat list \<Rightarrow> nat list \<Rightarrow> nat list \<Rightarrow> nat list res"
  urandom12 :: "nat list"

definition b64_alphabet :: string where
  "b64_alphabet = ''ABCDEFGHIJKLMNOPQRSTUVWXYZabcdefghijklmnopqrstuvwxyz0123456789+/''"

fun b64encode :: "nat list \<Rightarrow> string" where
  "b64encode [] = []"
| "b64encode [a] = [b64_alphabet ! (a div 4), b64_alphabet ! (a mod 4 * 16), CHR ''='', CHR ''='']"
| "b64encode [a, b] = [b64_alphabet ! (a div 4), b64_alphabet ! (a mod 4 * 16 + b div 16),
     b64_alphabet ! (b mod 16 * 4), CHR ''='']"
| "b64encode (a # b # c # bs) =
     [b64_alphabet ! (a div 4), b64_alphabet ! (a mod 4 * 16 + b div 16),
      b64_alphabet ! (b mod 16 * 4 + c div 64), b64_alphabet ! (c mod 64)] @ b64encode bs"

definition b64_index :: "char \<Rightarrow> nat option" where
  "b64_index c = map_of (zip b64_alphabet [0..<64]) c"

text \<open>\<^verbatim>\<open>base64.b64decode\<close> discards characters outside the alphabet; groups that do not form a
  complete encoding raise.\<close>

fun b64quads :: "string \<Rightarrow> nat list res" where
  "b64quads [] = Inr []"
| "b64quads (p # q # r # s # cs) =
     (case (b64_index p, b64_index q) of
        (Some w, Some x) \<Rightarrow>
          (if r = CHR ''='' then
             (if s = CHR ''='' \<and> cs = [] then Inr [w * 4 + x div 16] else Inl ValueError)
           else if s = CHR ''='' then
             (case b64_index r of
                None \<Rightarrow> Inl ValueError
              | Some y \<Rightarrow> if cs = [] then Inr [w * 4 + x div 16, x mod 16 * 16 + y div 4] else Inl ValueError)
           else case (b64_index r, b64_index s) of
                (Some y, Some z) \<Rightarrow> bindE (b64quads cs) (\<lambda>bs.
                   Inr ([w * 4 + x div 16, x mod 16 * 16 + y div 4, y mod 4 * 64 + z] @ bs))
              | _ \<Rightarrow> Inl ValueError)
      | _ \<Rightarrow> Inl ValueError)"
| "b64quads _ = Inl ValueError"

definition b64decode :: "string \<Rightarrow> nat list res" where
  "b64decode s = b64quads (filter (\<lambda>c. b64_index c \<noteq> None \<or> c = CHR ''='') s)"

definition str_bytes :: "string \<Rightarrow> nat list" where
  "str_bytes s = map of_char s"

definition bytes_str :: "nat list \<Rightarrow> string" where
  "bytes_str bs = map char_of bs"

definition derive_agent_key :: "env \<Rightarrow> string \<Rightarrow> string \<Rightarrow> nat list" where
  "derive_agent_key e master_key agent_id = sha256 e (master_key @ '':'' @ agent_id)"

definition encrypt_content :: "env \<Rightarrow> crypto \<Rightarrow> string \<Rightarrow> string \<Rightarrow> string \<Rightarrow> string" where
  "encrypt_content e cr master_key agent_id plaintext =
     (let key = derive_agent_key e master_key agent_id; nonce = urandom12 cr
      in b64encode (nonce @ aes_encrypt cr key nonce (str_bytes plaintext)))"

definition decrypt_content :: "env \<Rightarrow> crypto \<Rightarrow> string \<Rightarrow> string \<Rightarrow> string \<Rightarrow> string res" where
  "decrypt_content e cr master_key agent_id encoded =
     (let key = derive_agent_key e master_key agent_id in
      bindE (b64decode encoded) (\<lambda>raw.
      bindE (aes_decrypt cr key (take 12 raw) (drop 12 raw)) (\<lambda>plain. Inr (bytes_str plain))))"

section \<open>Requests and results\<close>

record memory_write =
  mw_target_agent_id :: string
  mw_namespace :: string
  mw_key :: "string option"
  mw_content :: string
  mw_metadata :: obj
  mw_ttl_seconds :: "int option"

record memory_query =
  mqy_target_agent_id :: string
  mqy_namespace :: string
  mqy_query_type :: string
  mqy_key :: "string option"
  mqy_text :: "string option"
  mqy_limit :: int

record memory_delete =
  md_target_agent_id :: string
  md_namespace :: string
  md_record_id :: string

record memory_result =
  mres_success :: bool
  mres_records :: "memory_row list"
  mres_record_id :: "string option"
  mres_deleted :: "bool option"
  mres_error :: "string option"
  mres_error_code :: "string option"
  mres_grant_evaluated :: "string option"

text \<open>\<^verbatim>\<open>MemoryOperationResult(...)\<close>: the grant id comes from a message payload and must be a string
  or null for the model to accept it.\<close>

definition mk_result ::
  "bool \<Rightarrow> memory_row list \<Rightarrow> string option \<Rightarrow> bool option \<Rightarrow> string option \<Rightarrow> string option \<Rightarrow> json
   \<Rightarrow> memory_result res" where
  "mk_result success records record_id deleted err code grant_id =
     bindE (pyd_opt pyd_str grant_id) (\<lambda>g.
       Inr \<lparr>mres_success = success, mres_records = records, mres_record_id = record_id, mres_deleted = deleted,
            mres_error = err, mres_error_code = code, mres_grant_evaluated = g\<rparr>)"

definition dump_memory_row :: "memory_row \<Rightarrow> json" where
  "dump_memory_row r = JObj [(''id'', JStr (mr_id r)), (''agent_id'', JStr (mr_agent_id r)),
     (''namespace'', JStr (mr_namespace r)), (''key'', jopt (mr_key r)), (''content'', JStr (mr_content r)),
     (''metadata'', JObj (mr_metadata r)), (''embedding_ref'', jopt (mr_embedding_ref r)),
     (''expires_at'', jopt (map_option isoformat (mr_expires_at r))), (''version'', JInt (mr_version r)),
     (''created_at'', JStr (isoformat (mr_created_at r))), (''updated_at'', JStr (isoformat (mr_updated_at r)))]"

definition dump_memory_result :: "memory_result \<Rightarrow> obj" where
  "dump_memory_result x = [(''success'', JBool (mres_success x)),
     (''records'', JArr (map dump_memory_row (mres_records x))), (''record_id'', jopt (mres_record_id x)),
     (''deleted'', (case mres_deleted x of None \<Rightarrow> JNull | Some b \<Rightarrow> JBool b)),
     (''error'', jopt (mres_error x)), (''error_code'', jopt (mres_error_code x)),
     (''grant_evaluated'', jopt (mres_grant_evaluated x))]"

definition parse_write :: "framework_message \<Rightarrow> memory_write res" where
  "parse_write m =
     (let record = oget_or (msg_payload m) ''record'' (JObj []) in
      bindE (jget record ''key'' JNull) (\<lambda>k.
      bindE (jget record ''content'' JNull) (\<lambda>c.
      bindE (jget record ''metadata'' (JObj [])) (\<lambda>md.
      bindE (jget record ''ttl_seconds'' JNull) (\<lambda>ttl.
      bindE (pyd_str (oget_or (msg_payload m) ''namespace'' (JStr ''private''))) (\<lambda>ns.
      bindE (pyd_opt pyd_str k) (\<lambda>k'.
      bindE (pyd_str c) (\<lambda>c'.
      bindE (pyd_dict md) (\<lambda>md'.
      bindE (pyd_opt (pyd_range 1 None) ttl) (\<lambda>ttl'.
      Inr \<lparr>mw_target_agent_id = payload_target m, mw_namespace = ns, mw_key = k', mw_content = c',
          mw_metadata = md', mw_ttl_seconds = ttl'\<rparr>))))))))))"

definition parse_query :: "framework_message \<Rightarrow> memory_query res" where
  "parse_query m =
     (let query = oget_or (msg_payload m) ''query'' (JObj []) in
      bindE (jget query ''key'' JNull) (\<lambda>k.
      bindE (jget query ''text'' JNull) (\<lambda>t.
      bindE (jget query ''limit'' (JInt 10)) (\<lambda>l.
      bindE (pyd_str (oget_or (msg_payload m) ''namespace'' (JStr ''private''))) (\<lambda>ns.
      bindE (pyd_literal [''key'', ''list'', ''semantic''] (oget_or (msg_payload m) ''query_type'' (JStr ''key''))) (\<lambda>qt.
      bindE (pyd_opt pyd_str k) (\<lambda>k'.
      bindE (pyd_opt pyd_str t) (\<lambda>t'.
      bindE (pyd_range 1 (Some 100) l) (\<lambda>l'.
      Inr \<lparr>mqy_target_agent_id = payload_target m, mqy_namespace = ns, mqy_query_type = qt, mqy_key = k',
          mqy_text = t', mqy_limit = l'\<rparr>)))))))))"

definition parse_delete :: "framework_message \<Rightarrow> memory_delete res" where
  "parse_delete m =
     bindE (pyd_str (oget_or (msg_payload m) ''namespace'' (JStr ''private''))) (\<lambda>ns.
     bindE (pyd_str (pget m ''record_id'')) (\<lambda>rid.
     Inr \<lparr>md_target_agent_id = payload_target m, md_namespace = ns, md_record_id = rid\<rparr>))"

section \<open>The service\<close>

record memory_service =
  ms_encryption_enabled :: bool
  ms_master_key :: "string option"
  ms_crypto :: crypto
  ms_knn :: knn

definition memory_failure ::
  "env \<Rightarrow> framework_message \<Rightarrow> string \<Rightarrow> string \<Rightarrow> string \<Rightarrow> string \<Rightarrow> string \<Rightarrow> json \<Rightarrow> string option
   \<Rightarrow> ('z db_scheme, memory_result) act" where
  "memory_failure e m target namespace operation code reason grant_id record_id =
     thenA (log_memory_operation e m operation target namespace record_id grant_id ''deny'' reason)
       (liftR (mk_result False [] None None (Some reason) (Some code) grant_id))"

definition manifest_engine :: "agent_row \<Rightarrow> string \<Rightarrow> json res" where
  "manifest_engine agent en = jget (oget_or (ag_manifest agent) ''engines'' (JObj [])) en (JObj [])"

definition assigned_namespaces :: "agent_row \<Rightarrow> json list res" where
  "assigned_namespaces agent =
     bindE (manifest_engine agent ''engine4'') (\<lambda>e4. bindE (jget e4 ''namespaces'' (JArr [])) py_set)"

text \<open>\<^verbatim>\<open>_validate_target_namespace\<close>: \<open>None\<close> when the operation may go on, the code and the reason of
  the failure otherwise.\<close>

definition target_namespace_error ::
  "framework_message \<Rightarrow> string \<Rightarrow> string \<Rightarrow> json \<Rightarrow> 'z catalog_state_scheme \<Rightarrow> (string \<times> string) option res" where
  "target_namespace_error m target namespace grant_id s =
     (case get_agent target s of
        None \<Rightarrow> Inr (Some (''MEMORY_TARGET_AGENT_NOT_FOUND'', ''target agent not found''))
      | Some agent \<Rightarrow>
          if map_of (cat_memory_namespaces (live_catalog s)) namespace = None then
            Inr (Some (''MEMORY_NAMESPACE_INVALID'',
              ''namespace is not in the server-owned memory namespace catalog''))
          else bindE (assigned_namespaces agent) (\<lambda>assigned.
            if JStr namespace \<notin> set assigned then
              Inr (Some (''MEMORY_NAMESPACE_NOT_ASSIGNED'', ''namespace is not assigned to target agent manifest''))
            else if target \<noteq> m_agent m \<and> \<not> truthy grant_id then
              Inr (Some (''SERVER_GRANT_DENIED'', ''cross-agent memory operation requires a valid grant''))
            else Inr None))"

definition validate_target_namespace ::
  "env \<Rightarrow> framework_message \<Rightarrow> string \<Rightarrow> string \<Rightarrow> string \<Rightarrow> json
   \<Rightarrow> ('z catalog_state_scheme, memory_result option) act" where
  "validate_target_namespace e m target namespace operation grant_id =
     bindA (getS (target_namespace_error m target namespace grant_id)) (\<lambda>r.
     bindA (liftR r) (\<lambda>err.
       case err of
         None \<Rightarrow> ret None
       | Some (code, reason) \<Rightarrow>
           bindA (memory_failure e m target namespace operation code reason grant_id None) (\<lambda>x. ret (Some x))))"

definition namespace_quota :: "string \<Rightarrow> string \<Rightarrow> 'z catalog_state_scheme \<Rightarrow> namespace_limits res" where
  "namespace_quota agent_id namespace s =
     (case get_namespace_quota agent_id namespace s of
        Some q \<Rightarrow> Inr \<lparr>mq_max_records = nq_max_records q, mq_max_record_bytes = nq_max_record_bytes q,
                     mq_default_ttl_seconds = nq_default_ttl_seconds q\<rparr>
      | None \<Rightarrow> (case map_of (cat_memory_namespaces (live_catalog s)) namespace of
                  None \<Rightarrow> Inl KeyError | Some t \<Rightarrow> Inr (mt_quota t)))"

text \<open>\<^verbatim>\<open>payload.ttl_seconds or quota.get("default_ttl_seconds")\<close>, then the expiry if that is truthy.\<close>

definition ttl_expiry :: "env \<Rightarrow> int option \<Rightarrow> int option \<Rightarrow> time option" where
  "ttl_expiry e requested default_ttl =
     (let ttl = (if requested \<noteq> None \<and> requested \<noteq> Some 0 then requested else default_ttl)
      in case ttl of None \<Rightarrow> None | Some n \<Rightarrow> if n = 0 then None else Some (now e + seconds n))"

definition memory_store ::
  "env \<Rightarrow> memory_service \<Rightarrow> framework_message \<Rightarrow> memory_write \<Rightarrow> namespace_limits \<Rightarrow> json
   \<Rightarrow> ('z catalog_state_scheme, memory_result) act" where
  "memory_store e svc m p quota grant_id =
     (let target = mw_target_agent_id p; namespace = mw_namespace p;
          metadata = oset ''source_turn_id'' (JStr (origin_id m)) (mw_metadata p);
          encrypted = ms_encryption_enabled svc
      in if encrypted \<and> \<not> opt_truthy (ms_master_key svc) then
           memory_failure e m target namespace ''write'' ''MEMORY_ENCRYPTION_UNAVAILABLE''
             ''memory encryption enabled but CORVUS_MASTER_KEY is not configured'' grant_id None
         else
           bindA (create_memory_record e target namespace (mw_key p)
                    (if encrypted then encrypt_content e (ms_crypto svc) (the (ms_master_key svc)) target (mw_content p)
                     else mw_content p)
                    (if encrypted then oset ''encrypted'' (JBool True) metadata else metadata)
                    None (ttl_expiry e (mw_ttl_seconds p) (mq_default_ttl_seconds quota))) (\<lambda>record.
           thenA (log_memory_operation e m ''write'' target namespace (Some (mr_id record)) grant_id ''allow''
                    ''record_written'')
             (liftR (mk_result True [] (Some (mr_id record)) None None None grant_id))))"

definition memory_write_op ::
  "env \<Rightarrow> memory_service \<Rightarrow> framework_message \<Rightarrow> json \<Rightarrow> ('z catalog_state_scheme, memory_result) act" where
  "memory_write_op e svc m grant_id =
     bindA (liftR (parse_write m)) (\<lambda>p.
     let target = mw_target_agent_id p; namespace = mw_namespace p in
     bindA (validate_target_namespace e m target namespace ''write'' grant_id) (\<lambda>failure.
       case failure of
         Some x \<Rightarrow> ret x
       | None \<Rightarrow>
           bindA (getS (namespace_quota target namespace)) (\<lambda>q.
           bindA (liftR q) (\<lambda>quota.
             if int (length (mw_content p)) > mq_max_record_bytes quota then
               memory_failure e m target namespace ''write'' ''SERVER_QUOTA_EXCEEDED''
                 ''record exceeds namespace max_record_bytes'' grant_id None
             else bindA (getS (count_active_memory_records target namespace (now e))) (\<lambda>active.
               if int active \<ge> mq_max_records quota then
                 memory_failure e m target namespace ''write'' ''SERVER_QUOTA_EXCEEDED''
                   ''namespace max_records exceeded'' grant_id None
               else memory_store e svc m p quota grant_id)))))"

text \<open>\<^verbatim>\<open>_decrypt_row\<close>\<close>

definition decrypt_row :: "env \<Rightarrow> memory_service \<Rightarrow> memory_row \<Rightarrow> memory_row res" where
  "decrypt_row e svc r =
     (if \<not> truthy (oget (mr_metadata r) ''encrypted'') then Inr r
      else if \<not> opt_truthy (ms_master_key svc) then Inl ValueError
      else bindE (decrypt_content e (ms_crypto svc) (the (ms_master_key svc)) (mr_agent_id r) (mr_content r)) (\<lambda>c.
        Inr (r\<lparr>mr_content := c\<rparr>)))"

definition memory_finish_query ::
  "env \<Rightarrow> memory_service \<Rightarrow> framework_message \<Rightarrow> memory_query \<Rightarrow> memory_row list \<Rightarrow> json
   \<Rightarrow> ('z catalog_state_scheme, memory_result) act" where
  "memory_finish_query e svc m p rows grant_id =
     bindA (liftR (mapE (decrypt_row e svc) rows)) (\<lambda>records.
     thenA (log_memory_operation e m ''query'' (mqy_target_agent_id p) (mqy_namespace p) None grant_id ''allow''
              (mqy_query_type p @ ''_query''))
       (liftR (mk_result True records None None None None grant_id)))"

definition memory_query_op ::
  "env \<Rightarrow> memory_service \<Rightarrow> framework_message \<Rightarrow> json \<Rightarrow> ('z catalog_state_scheme, memory_result) act" where
  "memory_query_op e svc m grant_id =
     bindA (liftR (parse_query m)) (\<lambda>p.
     let target = mqy_target_agent_id p; namespace = mqy_namespace p; limit = nat (mqy_limit p) in
     bindA (validate_target_namespace e m target namespace ''query'' grant_id) (\<lambda>failure.
       case failure of
         Some x \<Rightarrow> ret x
       | None \<Rightarrow>
           if mqy_query_type p = ''semantic'' then
             (if \<not> opt_truthy (mqy_text p) then
                memory_failure e m target namespace ''query'' ''MEMORY_QUERY_INVALID''
                  ''semantic query requires query.text'' grant_id None
              else bindA (getS (query_memory_semantic (ms_knn svc) (embed_text e EMBEDDING_DIM (the (mqy_text p)))
                             target namespace (now e) limit)) (\<lambda>rows.
                memory_finish_query e svc m p rows grant_id))
           else if mqy_query_type p = ''key'' then
             (if \<not> opt_truthy (mqy_key p) then
                memory_failure e m target namespace ''query'' ''MEMORY_QUERY_INVALID''
                  ''key query requires query.key'' grant_id None
              else bindA (getS (query_memory_by_key target namespace (the (mqy_key p)) (now e) limit)) (\<lambda>rows.
                memory_finish_query e svc m p rows grant_id))
           else bindA (getS (list_memory_records target namespace (now e) limit)) (\<lambda>rows.
             memory_finish_query e svc m p rows grant_id)))"

definition memory_delete_op ::
  "env \<Rightarrow> framework_message \<Rightarrow> json \<Rightarrow> ('z catalog_state_scheme, memory_result) act" where
  "memory_delete_op e m grant_id =
     bindA (liftR (parse_delete m)) (\<lambda>p.
     let target = md_target_agent_id p; namespace = md_namespace p; rid = md_record_id p in
     bindA (validate_target_namespace e m target namespace ''delete'' grant_id) (\<lambda>failure.
       case failure of
         Some x \<Rightarrow> ret x
       | None \<Rightarrow>
           bindA (soft_delete_memory_record e rid target namespace) (\<lambda>deleted.
             case deleted of
               None \<Rightarrow> memory_failure e m target namespace ''delete'' ''MEMORY_RECORD_NOT_FOUND''
                         ''record not found'' grant_id (Some rid)
             | Some r \<Rightarrow>
                 thenA (log_memory_operation e m ''delete'' target namespace (Some rid) grant_id ''allow'' ''record_deleted'')
                   (liftR (mk_result True [] (Some rid) (Some True) None None grant_id)))))"

text \<open>\<^verbatim>\<open>message_type.split(":", 1)[1]\<close>\<close>

definition operation_for_type :: "string \<Rightarrow> string" where
  "operation_for_type ty = (if prefix ''memory:'' ty then snd (split_once (CHR '':'') ty) else ''unknown'')"

definition memory_dispatch ::
  "env \<Rightarrow> memory_service \<Rightarrow> framework_message \<Rightarrow> json \<Rightarrow> ('z catalog_state_scheme, memory_result) act" where
  "memory_dispatch e svc m grant_id =
     (if msg_type m = ''memory:write'' then memory_write_op e svc m grant_id
      else if msg_type m = ''memory:query'' then memory_query_op e svc m grant_id
      else if msg_type m = ''memory:delete'' then memory_delete_op e m grant_id
      else memory_failure e m (py_str (oget_or (msg_payload m) ''target_agent_id'' (JStr (m_agent m))))
             (py_str (oget_or (msg_payload m) ''namespace'' (JStr ''private''))) ''unsupported''
             ''MEMORY_UNSUPPORTED_OPERATION'' (''Unsupported memory message type: '' @ msg_type m) grant_id None)"

text \<open>\<^verbatim>\<open>try ... except ValidationError\<close>: what was written before the exception stays written.\<close>

definition catch_validation :: "('s, 'a) act \<Rightarrow> ('s, 'a) act \<Rightarrow> ('s, 'a) act" where
  "catch_validation body handler = (\<lambda>s. case body s of
     (Inl ValidationError, s') \<Rightarrow> handler s' | r \<Rightarrow> r)"

definition memory_handle ::
  "env \<Rightarrow> memory_service \<Rightarrow> framework_message \<Rightarrow> json \<Rightarrow> ('z catalog_state_scheme, memory_result) act" where
  "memory_handle e svc m grant_id = catch_validation (memory_dispatch e svc m grant_id)
     (memory_failure e m (py_str (oget_or (msg_payload m) ''target_agent_id'' (JStr (m_agent m))))
        (py_str (oget_or (msg_payload m) ''namespace'' (JStr ''private''))) (operation_for_type (msg_type m))
        ''MEMORY_PAYLOAD_INVALID'' (validation_text e) grant_id None)"

section \<open>Retention\<close>

definition hard_delete_record :: "string \<Rightarrow> ('z db_scheme, unit) act" where
  "hard_delete_record record_id = thenA (delete_record_embedding record_id)
     (modS (\<lambda>s. s\<lparr>memory_records := delete_rows (\<lambda>r. mr_id r = record_id) (memory_records s)\<rparr>))"

definition purge_where :: "(memory_row \<Rightarrow> bool) \<Rightarrow> ('z db_scheme, nat) act" where
  "purge_where P = bindA (getS (\<lambda>s. map mr_id (filter P (memory_records s)))) (\<lambda>ids.
     thenA (forA ids hard_delete_record) (ret (length ids)))"

definition past_expiry :: "time \<Rightarrow> memory_row \<Rightarrow> bool" where
  "past_expiry t r \<longleftrightarrow> mr_deleted_at r = None \<and> (case mr_expires_at r of None \<Rightarrow> False | Some x \<Rightarrow> x \<le> t)"

definition past_retention :: "time \<Rightarrow> memory_row \<Rightarrow> bool" where
  "past_retention cutoff r \<longleftrightarrow> (case mr_deleted_at r of None \<Rightarrow> False | Some x \<Rightarrow> x \<le> cutoff)"

definition sweep_once :: "env \<Rightarrow> server_config \<Rightarrow> ('z db_scheme, nat \<times> nat) act" where
  "sweep_once e cfg =
     bindA (purge_where (past_expiry (now e))) (\<lambda>expired.
     bindA (purge_where (past_retention (now e - hours (cfg_memory_soft_delete_retention_hours cfg)))) (\<lambda>tombstones.
     ret (expired, tombstones)))"

section \<open>Encryption round trip\<close>

lemma b64_index_nth: "n < 64 \<Longrightarrow> b64_index (b64_alphabet ! n) = Some n"
proof -
  have "\<forall>n \<in> set [0..<64]. b64_index (b64_alphabet ! n) = Some n" by code_simp
  then show "n < 64 \<Longrightarrow> b64_index (b64_alphabet ! n) = Some n" by simp
qed

lemma b64_nth_not_pad: "n < 64 \<Longrightarrow> b64_alphabet ! n \<noteq> CHR ''=''"
proof -
  have "b64_index (CHR ''='') = None" by code_simp
  then show "n < 64 \<Longrightarrow> b64_alphabet ! n \<noteq> CHR ''=''" using b64_index_nth by force
qed

lemma split_mult: "y < k \<Longrightarrow> (x * k + y) div k = (x :: nat)" "y < k \<Longrightarrow> (x * k + y) mod k = (y :: nat)"
  by simp_all

lemma sextets:
  fixes a b c :: nat
  assumes "a < 256" "b < 256" "c < 256"
  shows "a div 4 < 64" "a mod 4 * 16 < 64" "a mod 4 * 16 + b div 16 < 64" "b mod 16 * 4 < 64"
    "b mod 16 * 4 + c div 64 < 64" "c mod 64 < 64"
proof -
  have "a mod 4 \<le> 3" "b div 16 \<le> 15" "b mod 16 \<le> 15" "c div 64 \<le> 3" using assms by linarith+
  then show "a div 4 < 64" "a mod 4 * 16 < 64" "a mod 4 * 16 + b div 16 < 64" "b mod 16 * 4 < 64"
    "b mod 16 * 4 + c div 64 < 64" "c mod 64 < 64" using assms by linarith+
qed

lemma octets:
  fixes a b c :: nat
  assumes "b < 256" "c < 256"
  shows "a div 4 * 4 + (a mod 4 * 16 + b div 16) div 16 = a
    \<and> (a mod 4 * 16 + b div 16) mod 16 * 16 + b mod 16 = b
    \<and> (b mod 16 * 4 + c div 64) div 4 = b mod 16
    \<and> (b mod 16 * 4 + c div 64) mod 4 * 64 + c mod 64 = c"
proof -
  have "b div 16 < 16" "c div 64 < 4" using assms by linarith+
  then show ?thesis by (simp only: split_mult div_mult_mod_eq simp_thms)
qed

lemma b64quads_encode: "(\<forall>b \<in> set bs. b < 256) \<Longrightarrow> b64quads (b64encode bs) = Inr bs"
proof (induction bs rule: b64encode.induct)
  case (2 a)
  then show ?case using sextets [of a 0 0] by (simp add: b64_index_nth)
next
  case (3 a b)
  then show ?case using sextets [of a b 0] octets [of b 0 a] by (simp add: b64_index_nth b64_nth_not_pad)
next
  case (4 a b c bs)
  then show ?case using sextets [of a b c] octets [of b c a] by (simp add: b64_index_nth b64_nth_not_pad)
qed simp

lemma b64encode_alphabet:
  "(\<forall>b \<in> set bs. b < 256) \<Longrightarrow> \<forall>c \<in> set (b64encode bs). b64_index c \<noteq> None \<or> c = CHR ''=''"
proof (induction bs rule: b64encode.induct)
  case (2 a)
  then show ?case using sextets [of a 0 0] by (simp add: b64_index_nth)
next
  case (3 a b)
  then show ?case using sextets [of a b 0] by (simp add: b64_index_nth)
next
  case (4 a b c bs)
  then show ?case using sextets [of a b c] by (simp add: b64_index_nth)
qed simp

lemma b64_roundtrip: "(\<forall>b \<in> set bs. b < 256) \<Longrightarrow> b64decode (b64encode bs) = Inr bs"
  using b64encode_alphabet [of bs] b64quads_encode [of bs] by (simp add: b64decode_def filter_id_conv)

text \<open>What is assumed of the cipher: on bytes, decryption inverts encryption under the same key and nonce; the
  nonce has twelve bytes and the ciphertext consists of bytes.\<close>

definition crypto_ok :: "crypto \<Rightarrow> bool" where
  "crypto_ok cr \<longleftrightarrow> length (urandom12 cr) = 12 \<and> (\<forall>b \<in> set (urandom12 cr). b < 256)
     \<and> (\<forall>k n p. (\<forall>b \<in> set p. b < 256) \<longrightarrow>
          (\<forall>b \<in> set (aes_encrypt cr k n p). b < 256) \<and> aes_decrypt cr k n (aes_encrypt cr k n p) = Inr p)"

lemma str_bytes_range: "\<forall>b \<in> set (str_bytes s). b < 256"
  by (auto simp: str_bytes_def)

lemma bytes_str_inverse [simp]: "bytes_str (str_bytes s) = s"
  by (simp add: bytes_str_def str_bytes_def comp_def)

lemma decrypt_encrypt:
  assumes "crypto_ok cr"
  shows "decrypt_content e cr mk a (encrypt_content e cr mk a plain) = Inr plain"
proof -
  let ?bytes = "urandom12 cr @ aes_encrypt cr (derive_agent_key e mk a) (urandom12 cr) (str_bytes plain)"
  have "\<forall>b \<in> set ?bytes. b < 256" using assms str_bytes_range [of plain] unfolding crypto_ok_def by fastforce
  then have "b64decode (b64encode ?bytes) = Inr ?bytes" by (rule b64_roundtrip)
  then show ?thesis
    using assms str_bytes_range [of plain] by (simp add: decrypt_content_def encrypt_content_def Let_def crypto_ok_def)
qed

end
