(* ===== verification/Memory_Facts.thy ===== *)
theory Memory_Facts
  imports Memory
begin

text \<open>
  Facts about the memory service: every operation keeps the database invariant; an operation on
  one agent leaves the records of every other agent alone; a cross-agent request without a grant
  id changes no record; the namespace limits hold; what is written can be read back; a deleted
  record is not served again; the sweep removes exactly the rows past their time.
\<close>

section \<open>Frame facts\<close>

lemma memory_failure_ok [pres_intro]: "preserves db_ok (memory_failure e m t n op c r g ri)"
  unfolding memory_failure_def by (intro pres_intro)

lemma validate_target_namespace_ok [pres_intro]: "preserves db_ok (validate_target_namespace e m t n op g)"
  unfolding validate_target_namespace_def by (intro pres_intro)

lemma memory_store_ok [pres_intro]: "preserves db_ok (memory_store e svc m p q g)"
  unfolding memory_store_def Let_def by (intro pres_intro)

lemma memory_write_op_ok [pres_intro]: "preserves db_ok (memory_write_op e svc m g)"
  unfolding memory_write_op_def Let_def by (intro pres_intro)

lemma memory_finish_query_ok [pres_intro]: "preserves db_ok (memory_finish_query e svc m p rows g)"
  unfolding memory_finish_query_def by (intro pres_intro)

lemma memory_query_op_ok [pres_intro]: "preserves db_ok (memory_query_op e svc m g)"
  unfolding memory_query_op_def Let_def by (intro pres_intro)

lemma memory_delete_op_ok [pres_intro]: "preserves db_ok (memory_delete_op e m g)"
  unfolding memory_delete_op_def Let_def by (intro pres_intro)

lemma preserves_catch [pres_intro]:
  "preserves P body \<Longrightarrow> preserves P handler \<Longrightarrow> preserves P (catch_validation body handler)"
  by (fastforce simp: preserves_def catch_validation_def split: prod.splits sum.splits exc.splits)

lemma memory_handle_ok [pres_intro]: "preserves db_ok (memory_handle e svc m g)"
  unfolding memory_handle_def memory_dispatch_def by (intro pres_intro)

lemma hard_delete_record_ok [pres_intro]: "preserves db_ok (hard_delete_record i)"
  by (auto simp: hard_delete_record_def delete_record_embedding_def preserves_def db_ok_def keys_ok_delete)

lemma sweep_once_ok [pres_intro]: "preserves db_ok (sweep_once e cfg)"
  unfolding sweep_once_def purge_where_def by (intro pres_intro)

section \<open>Isolation\<close>

text \<open>The records an operation on agent \<open>a\<close> must not touch.\<close>

definition others :: "string \<Rightarrow> 'z db_scheme \<Rightarrow> memory_row list" where
  "others a s = filter (\<lambda>r. mr_agent_id r \<noteq> a) (memory_records s)"

lemma audit_insert_others: "preserves (\<lambda>s. others a s = c) (audit_insert e t co oc ag mi d rs x)"
  by (simp add: preserves_def audit_insert_def others_def)

lemma memory_failure_others: "preserves (\<lambda>s. others a s = c) (memory_failure e m t n op cd r g ri)"
  unfolding memory_failure_def audit_events by (intro pres_intro audit_insert_others)

lemma validate_target_namespace_others:
  "preserves (\<lambda>s. others a s = c) (validate_target_namespace e m t n op g)"
  unfolding validate_target_namespace_def by (intro pres_intro memory_failure_others)

lemma filter_map_update:
  "(\<And>r. P r \<Longrightarrow> \<not> Q r \<and> \<not> Q (f r)) \<Longrightarrow> filter Q (update_rows P f rows) = filter Q rows"
  by (induction rows) (auto simp: update_rows_def)

definition new_record ::
  "env \<Rightarrow> string \<Rightarrow> string \<Rightarrow> string option \<Rightarrow> string \<Rightarrow> obj \<Rightarrow> string option \<Rightarrow> time option \<Rightarrow> memory_row" where
  "new_record e a n k ct md er x = \<lparr>mr_id = uuid4 e ''memory_record'', mr_agent_id = a, mr_namespace = n,
     mr_key = k, mr_content = ct, mr_metadata = md, mr_embedding_ref = er, mr_expires_at = x,
     mr_deleted_at = None, mr_version = 1, mr_created_at = now e, mr_updated_at = now e\<rparr>"

text \<open>The three outcomes of the insertion: a taken id changes nothing; a taken embedding id leaves the
  row without its embedding; otherwise the row is appended with its reference and returned.\<close>

lemma update_rows_fresh:
  "\<not> has_row key k rows \<Longrightarrow> update_rows (\<lambda>r. key r = k) f rows = rows"
  by (induction rows) (auto simp: update_rows_def has_row_def)

lemma create_memory_record_cases:
  assumes "create_memory_record e a n k ct md er x s = (r, s')"
  obtains (taken) "r = Inl IntegrityError" "s' = s"
    | (vec) "r = Inl IntegrityError" "s' = s\<lparr>memory_records := memory_records s @ [new_record e a n k ct md er x]\<rparr>"
    | (stored) rec emb where "r = Inr rec" "rec = new_record e a n k ct md (Some (uuid4 e ''memory_record'')) x"
        "\<not> has_row mr_id (mr_id rec) (memory_records s)"
        "s' = s\<lparr>memory_records := memory_records s @ [rec], memory_embeddings := emb\<rparr>"
proof (cases "has_row mr_id (uuid4 e ''memory_record'') (memory_records s)")
  case True
  with assms show ?thesis
    by (intro taken) (auto simp: create_memory_record_def insert_memory_row_def insert_row_def Let_def thenA_def bindA_def)
next
  case fresh: False
  let ?new = "new_record e a n k ct md er x" and ?id = "uuid4 e ''memory_record''"
  have ins: "insert_row mr_id ?new (memory_records s) = Inr (memory_records s @ [?new])"
    using fresh by (simp add: insert_row_def new_record_def)
  show ?thesis
  proof (cases "has_row fst ?id (memory_embeddings s)")
    case True
    with assms ins show ?thesis
      by (intro vec) (auto simp: create_memory_record_def insert_memory_row_def insert_record_embedding_def
          new_record_def insert_row_def Let_def thenA_def bindA_def)
  next
    case False
    let ?emb = "memory_embeddings s @ [(?id, embed_text e EMBEDDING_DIM ct)]"
    let ?rec = "new_record e a n k ct md (Some ?id) x"
    have upd: "update_rows (\<lambda>r. mr_id r = ?id) (\<lambda>r. r\<lparr>mr_embedding_ref := Some ?id\<rparr>) (memory_records s @ [?new])
        = memory_records s @ [?rec]"
      using update_rows_fresh [OF fresh] by (simp add: update_rows_def new_record_def)
    have look: "lookup_row mr_id ?id (memory_records s @ [?rec]) = Some ?rec"
      using lookup_insert [of mr_id ?rec "memory_records s"] fresh by (simp add: insert_row_def new_record_def)
    have "create_memory_record e a n k ct md er x s =
        (Inr ?rec, s\<lparr>memory_records := memory_records s @ [?rec], memory_embeddings := ?emb\<rparr>)"
      using False ins upd look
      by (simp add: create_memory_record_def insert_memory_row_def insert_record_embedding_def set_embedding_ref_def
          insert_row_def new_record_def Let_def get_memory_record_def)
    with assms fresh show ?thesis by (intro stored) (auto simp: new_record_def)
  qed
qed

lemma create_memory_record_others:
  "preserves (\<lambda>s. others a s = c) (create_memory_record e a n k ct md er x)"
proof (rule preservesI)
  fix s :: "'z db_scheme" assume "others a s = c"
  obtain r s' where cr: "create_memory_record e a n k ct md er x s = (r, s')" by fastforce
  then have "others a s' = c"
    by (cases rule: create_memory_record_cases) (use \<open>others a s = c\<close> in \<open>auto simp: others_def new_record_def\<close>)
  with cr show "others a (snd (create_memory_record e a n k ct md er x s)) = c" by simp
qed

lemma soft_delete_others: "preserves (\<lambda>s. others a s = c) (soft_delete_memory_record e rid a n)"
  by (rule preservesI)
    (auto simp: soft_delete_memory_record_def delete_record_embedding_def others_def Let_def
      intro!: filter_map_update)

lemma parse_targets:
  "parse_write m = Inr p \<Longrightarrow> mw_target_agent_id p = payload_target m"
  "parse_query m = Inr q \<Longrightarrow> mqy_target_agent_id q = payload_target m"
  "parse_delete m = Inr d \<Longrightarrow> md_target_agent_id d = payload_target m"
  by (auto simp: parse_write_def parse_query_def parse_delete_def Let_def)

lemma memory_store_others:
  "mw_target_agent_id p = a \<Longrightarrow> preserves (\<lambda>s. others a s = c) (memory_store e svc m p q g)"
  unfolding memory_store_def Let_def audit_events
  by (simp only:) (intro pres_intro memory_failure_others create_memory_record_others audit_insert_others)

lemma memory_write_others: "preserves (\<lambda>s. others (payload_target m) s = c) (memory_write_op e svc m g)"
  unfolding memory_write_op_def Let_def
  by (rule preserves_liftR_bind)
    (intro pres_intro memory_failure_others validate_target_namespace_others memory_store_others parse_targets; assumption)

lemma memory_finish_query_others: "preserves (\<lambda>s. others a s = c) (memory_finish_query e svc m p rows g)"
  unfolding memory_finish_query_def audit_events by (intro pres_intro audit_insert_others)

lemma memory_query_others: "preserves (\<lambda>s. others a s = c) (memory_query_op e svc m g)"
  unfolding memory_query_op_def Let_def
  by (intro pres_intro memory_failure_others validate_target_namespace_others memory_finish_query_others)

lemma memory_delete_others: "preserves (\<lambda>s. others (payload_target m) s = c) (memory_delete_op e m g)"
  unfolding memory_delete_op_def Let_def audit_events
  apply (rule preserves_liftR_bind)
  apply (simp only: parse_targets)
  by (intro pres_intro memory_failure_others validate_target_namespace_others soft_delete_others audit_insert_others)

lemma memory_handle_others: "preserves (\<lambda>s. others (payload_target m) s = c) (memory_handle e svc m g)"
  unfolding memory_handle_def memory_dispatch_def
  by (intro pres_intro memory_write_others memory_query_others memory_delete_others memory_failure_others)

section \<open>Denial\<close>

lemma memory_failure_eq:
  "\<exists>s'. memory_failure e m t n op cd rs g ri s =
     (mk_result False [] None None (Some rs) (Some cd) g, s') \<and> memory_records s' = memory_records s
     \<and> memory_embeddings s' = memory_embeddings s"
  by (simp add: memory_failure_def audit_events audit_insert_def)

lemma mk_result_success: "mk_result b rs ri d er c g = Inr x \<Longrightarrow> mres_success x = b"
  by (auto simp: mk_result_def)

lemma memory_failure_not_success:
  "memory_failure e m t n op cd rs g ri s = (Inr x, s') \<Longrightarrow> \<not> mres_success x"
  using memory_failure_eq [of e m t n op cd rs g ri s] mk_result_success by fastforce

lemma memory_failure_records:
  "memory_failure e m t n op cd rs g ri s = (r, s') \<Longrightarrow> memory_records s' = memory_records s"
  using memory_failure_eq [of e m t n op cd rs g ri s] by fastforce

text \<open>When the target check finds an error, no later step runs.\<close>

lemma validate_target_namespace_blocks:
  assumes "validate_target_namespace e m t n op g s = (r, s')"
  shows "memory_records s' = memory_records s \<and> (\<forall>x. r = Inr (Some x) \<longrightarrow> \<not> mres_success x)
    \<and> (r = Inr None \<longrightarrow> target_namespace_error m t n g s = Inr None \<and> s' = s)"
  using assms
  by (auto simp: validate_target_namespace_def bindA_def memory_failure_records split: sum.splits option.splits prod.splits
      dest: memory_failure_not_success memory_failure_records)

lemma target_check_cross:
  "target_namespace_error m t n g s = Inr None \<Longrightarrow> t \<noteq> m_agent m \<Longrightarrow> truthy g"
  by (auto simp: target_namespace_error_def split: option.splits if_splits)

lemma target_check_agent:
  assumes "target_namespace_error m t n g s = Inr None"
  obtains agent ns where "get_agent t s = Some agent" and "assigned_namespaces agent = Inr ns"
    and "JStr n \<in> set ns" and "map_of (cat_memory_namespaces (live_catalog s)) n \<noteq> None"
  using assms by (auto simp: target_namespace_error_def split: option.splits if_splits)

lemma memory_write_blocked:
  assumes "memory_write_op e svc m g s = (r, s')" and "payload_target m \<noteq> m_agent m" and "\<not> truthy g"
  shows "memory_records s' = memory_records s \<and> (\<forall>x. r = Inr x \<longrightarrow> \<not> mres_success x)"
  using assms validate_target_namespace_blocks target_check_cross parse_targets(1)
  by (fastforce simp: memory_write_op_def bindA_def Let_def split: sum.splits prod.splits option.splits)

lemma memory_query_blocked:
  assumes "memory_query_op e svc m g s = (r, s')" and "payload_target m \<noteq> m_agent m" and "\<not> truthy g"
  shows "memory_records s' = memory_records s \<and> (\<forall>x. r = Inr x \<longrightarrow> \<not> mres_success x)"
  using assms validate_target_namespace_blocks target_check_cross parse_targets(2)
  by (fastforce simp: memory_query_op_def bindA_def Let_def split: sum.splits prod.splits option.splits)

lemma memory_delete_blocked:
  assumes "memory_delete_op e m g s = (r, s')" and "payload_target m \<noteq> m_agent m" and "\<not> truthy g"
  shows "memory_records s' = memory_records s \<and> (\<forall>x. r = Inr x \<longrightarrow> \<not> mres_success x)"
  using assms validate_target_namespace_blocks target_check_cross parse_targets(3)
  by (fastforce simp: memory_delete_op_def bindA_def Let_def split: sum.splits prod.splits option.splits)

lemma catch_validation_cases:
  assumes "catch_validation body handler s = (r, s')"
  obtains "body s = (r, s')" "r \<noteq> Inl ValidationError"
    | s1 where "body s = (Inl ValidationError, s1)" "handler s1 = (r, s')"
  using assms by (auto simp: catch_validation_def split: prod.splits sum.splits exc.splits)

lemma memory_failure_blocked:
  "memory_failure e m t n op cd rs g ri s = (r, s') \<Longrightarrow>
     memory_records s' = memory_records s \<and> (\<forall>x. r = Inr x \<longrightarrow> \<not> mres_success x)"
  by (auto dest: memory_failure_records memory_failure_not_success)

lemma memory_dispatch_blocked:
  assumes "memory_dispatch e svc m g s = (r, s')" and "payload_target m \<noteq> m_agent m" and "\<not> truthy g"
  shows "memory_records s' = memory_records s \<and> (\<forall>x. r = Inr x \<longrightarrow> \<not> mres_success x)"
  using assms(1) memory_write_blocked [OF _ assms(2,3)] memory_query_blocked [OF _ assms(2,3)]
    memory_delete_blocked [OF _ assms(2,3)] memory_failure_blocked
  by (simp only: memory_dispatch_def split: if_splits) blast+

lemma memory_handle_blocked:
  assumes "memory_handle e svc m g s = (r, s')" and "payload_target m \<noteq> m_agent m" and "\<not> truthy g"
  shows "memory_records s' = memory_records s \<and> (\<forall>x. r = Inr x \<longrightarrow> \<not> mres_success x)"
  using assms(1) unfolding memory_handle_def
proof (cases rule: catch_validation_cases)
  case 1
  with memory_dispatch_blocked assms show ?thesis by blast
next
  case (2 s1)
  with memory_dispatch_blocked [OF 2(1) assms(2,3)] memory_failure_blocked [OF 2(2)] show ?thesis by simp
qed

section \<open>Writing\<close>

definition stored_content :: "env \<Rightarrow> memory_service \<Rightarrow> memory_write \<Rightarrow> string" where
  "stored_content e svc p =
     (if ms_encryption_enabled svc
      then encrypt_content e (ms_crypto svc) (the (ms_master_key svc)) (mw_target_agent_id p) (mw_content p)
      else mw_content p)"

definition stored_metadata :: "memory_service \<Rightarrow> framework_message \<Rightarrow> memory_write \<Rightarrow> obj" where
  "stored_metadata svc m p =
     (let md = oset ''source_turn_id'' (JStr (origin_id m)) (mw_metadata p)
      in if ms_encryption_enabled svc then oset ''encrypted'' (JBool True) md else md)"

definition stored_record :: "env \<Rightarrow> memory_service \<Rightarrow> framework_message \<Rightarrow> memory_write \<Rightarrow> namespace_limits \<Rightarrow> memory_row" where
  "stored_record e svc m p quota = new_record e (mw_target_agent_id p) (mw_namespace p) (mw_key p)
     (stored_content e svc p) (stored_metadata svc m p) (Some (uuid4 e ''memory_record''))
     (ttl_expiry e (mw_ttl_seconds p) (mq_default_ttl_seconds quota))"

lemma memory_store_success:
  assumes "memory_store e svc m p quota g s = (Inr x, s')" and "mres_success x"
  shows "memory_records s' = memory_records s @ [stored_record e svc m p quota]
    \<and> mres_record_id x = Some (uuid4 e ''memory_record'')
    \<and> \<not> has_row mr_id (uuid4 e ''memory_record'') (memory_records s)
    \<and> agents s' = agents s \<and> live_catalog s' = live_catalog s
    \<and> (ms_encryption_enabled svc \<longrightarrow> opt_truthy (ms_master_key svc))"
proof (cases "ms_encryption_enabled svc \<and> \<not> opt_truthy (ms_master_key svc)")
  case True
  with assms show ?thesis
    by (auto simp: memory_store_def dest: memory_failure_not_success)
next
  case False
  let ?cr = "create_memory_record e (mw_target_agent_id p) (mw_namespace p) (mw_key p) (stored_content e svc p)
    (stored_metadata svc m p) None (ttl_expiry e (mw_ttl_seconds p) (mq_default_ttl_seconds quota))"
  from assms(1) False obtain rec s1 where cr: "?cr s = (Inr rec, s1)"
    and s': "memory_records s' = memory_records s1" "agents s' = agents s1" "live_catalog s' = live_catalog s1"
    and x: "mk_result True [] (Some (mr_id rec)) None None None g = Inr x"
    by (auto simp: memory_store_def stored_content_def stored_metadata_def Let_def audit_events audit_insert_def
        elim!: bindA_InrE thenA_InrE)
  from cr show ?thesis
    by (cases rule: create_memory_record_cases)
      (use False x in \<open>auto simp: s' stored_record_def new_record_def mk_result_def\<close>)
qed

lemma memory_write_success:
  assumes "memory_write_op e svc m g s = (Inr x, s')" and "mres_success x"
  obtains p quota where "parse_write m = Inr p"
    and "target_namespace_error m (mw_target_agent_id p) (mw_namespace p) g s = Inr None"
    and "namespace_quota (mw_target_agent_id p) (mw_namespace p) s = Inr quota"
    and "int (length (mw_content p)) \<le> mq_max_record_bytes quota"
    and "int (count_active_memory_records (mw_target_agent_id p) (mw_namespace p) (now e) s) < mq_max_records quota"
    and "memory_records s' = memory_records s @ [stored_record e svc m p quota]"
    and "mres_record_id x = Some (uuid4 e ''memory_record'')"
    and "\<not> has_row mr_id (uuid4 e ''memory_record'') (memory_records s)"
    and "agents s' = agents s" and "live_catalog s' = live_catalog s"
    and "ms_encryption_enabled svc \<longrightarrow> opt_truthy (ms_master_key svc)"
proof -
  from assms(1) obtain p f s1 where p: "parse_write m = Inr p"
    and v: "validate_target_namespace e m (mw_target_agent_id p) (mw_namespace p) ''write'' g s = (Inr f, s1)"
    and rest: "(case f of Some x \<Rightarrow> ret x
       | None \<Rightarrow>
           bindA (getS (namespace_quota (mw_target_agent_id p) (mw_namespace p))) (\<lambda>q.
           bindA (liftR q) (\<lambda>quota.
             if int (length (mw_content p)) > mq_max_record_bytes quota then
               memory_failure e m (mw_target_agent_id p) (mw_namespace p) ''write'' ''SERVER_QUOTA_EXCEEDED''
                 ''record exceeds namespace max_record_bytes'' g None
             else bindA (getS (count_active_memory_records (mw_target_agent_id p) (mw_namespace p) (now e))) (\<lambda>active.
               if int active \<ge> mq_max_records quota then
                 memory_failure e m (mw_target_agent_id p) (mw_namespace p) ''write'' ''SERVER_QUOTA_EXCEEDED''
                   ''namespace max_records exceeded'' g None
               else memory_store e svc m p quota g)))) s1 = (Inr x, s')"
    unfolding memory_write_op_def Let_def by (elim bindA_InrE) (simp del: bindA_Inr)
  from validate_target_namespace_blocks [OF v] rest assms(2) have f: "f = None" "s1 = s"
    and t: "target_namespace_error m (mw_target_agent_id p) (mw_namespace p) g s = Inr None"
    by (cases f; auto)+
  from rest f obtain quota where q: "namespace_quota (mw_target_agent_id p) (mw_namespace p) s = Inr quota"
    and b: "int (length (mw_content p)) \<le> mq_max_record_bytes quota"
    and c: "int (count_active_memory_records (mw_target_agent_id p) (mw_namespace p) (now e) s) < mq_max_records quota"
    and st: "memory_store e svc m p quota g s = (Inr x, s')"
    using assms(2) by (auto elim!: bindA_InrE split: if_splits dest: memory_failure_not_success)
  from memory_store_success [OF st assms(2)] p t q b c show thesis by (intro that) auto
qed

section \<open>Reading back\<close>

lemma parse_query_limit: "parse_query m = Inr q \<Longrightarrow> 1 \<le> mqy_limit q \<and> mqy_limit q \<le> 100"
  by (auto simp: parse_query_def Let_def pyd_range_def split: if_splits)

lemma query_by_key_unique:
  assumes "filter (\<lambda>r. mr_agent_id r = a \<and> mr_namespace r = n \<and> mr_key r = Some k) (memory_records s) = [rec]"
    and "live t rec" and "1 \<le> limit"
  shows "query_memory_by_key a n k t limit s = [rec]"
proof -
  have "filter (\<lambda>r. mr_agent_id r = a \<and> mr_namespace r = n \<and> mr_key r = Some k \<and> live t r) (memory_records s)
      = filter (live t) (filter (\<lambda>r. mr_agent_id r = a \<and> mr_namespace r = n \<and> mr_key r = Some k) (memory_records s))"
    by (simp add: conj_commute conj_left_commute)
  then show ?thesis
    using assms by (cases limit) (simp_all add: query_memory_by_key_def order_by_desc_def)
qed

lemma decrypt_stored:
  assumes "ms_encryption_enabled svc \<longrightarrow> crypto_ok (ms_crypto svc) \<and> opt_truthy (ms_master_key svc)"
    and "\<not> ms_encryption_enabled svc \<longrightarrow> \<not> truthy (oget (mw_metadata p) ''encrypted'')"
    and "sha256 e' = sha256 e"
  shows "decrypt_row e' svc (stored_record e svc m p quota) = Inr ((stored_record e svc m p quota)\<lparr>mr_content := mw_content p\<rparr>)"
proof -
  have "decrypt_content e' cr mk a enc = decrypt_content e cr mk a enc" for cr mk a enc
    by (simp add: decrypt_content_def derive_agent_key_def assms(3))
  with assms(1,2) show ?thesis
    by (cases "ms_encryption_enabled svc")
      (simp_all add: decrypt_row_def stored_record_def new_record_def stored_content_def stored_metadata_def
        Let_def decrypt_encrypt)
qed

lemma query_op_by_key:
  assumes "parse_query m = Inr q" and "mqy_query_type q = ''key''" and "mqy_key q = Some k" and "k \<noteq> []"
    and "target_namespace_error m (mqy_target_agent_id q) (mqy_namespace q) g s = Inr None"
  shows "memory_query_op e svc m g s =
    memory_finish_query e svc m q
      (query_memory_by_key (mqy_target_agent_id q) (mqy_namespace q) k (now e) (nat (mqy_limit q)) s) g s"
  using assms by (simp add: memory_query_op_def validate_target_namespace_def Let_def opt_truthy_def)

lemma finish_query_ok:
  assumes "mapE (decrypt_row e svc) rows = Inr rs" and "pyd_opt pyd_str g = Inr gg"
  shows "\<exists>y s'. memory_finish_query e svc m q rows g s = (Inr y, s') \<and> mres_success y \<and> mres_records y = rs"
  using assms by (simp add: memory_finish_query_def mk_result_def audit_events audit_insert_def)

text \<open>A row stays visible until its expiry.\<close>

definition visible_at :: "env \<Rightarrow> env \<Rightarrow> memory_write \<Rightarrow> namespace_limits \<Rightarrow> bool" where
  "visible_at e e' p quota \<longleftrightarrow>
     (case ttl_expiry e (mw_ttl_seconds p) (mq_default_ttl_seconds quota) of None \<Rightarrow> True | Some x \<Rightarrow> now e' < x)"

definition key_taken :: "string \<Rightarrow> string \<Rightarrow> string \<Rightarrow> 'z db_scheme \<Rightarrow> bool" where
  "key_taken a n k s \<longleftrightarrow> list_ex (\<lambda>r. mr_agent_id r = a \<and> mr_namespace r = n \<and> mr_key r = Some k) (memory_records s)"

lemma stored_record_sel [simp]:
  "mr_id (stored_record e svc m p quota) = uuid4 e ''memory_record''"
  "mr_agent_id (stored_record e svc m p quota) = mw_target_agent_id p"
  "mr_namespace (stored_record e svc m p quota) = mw_namespace p"
  "mr_key (stored_record e svc m p quota) = mw_key p"
  "live (now e') (stored_record e svc m p quota) \<longleftrightarrow> visible_at e e' p quota"
  by (auto simp: stored_record_def new_record_def live_def visible_at_def split: option.splits)

lemma write_then_query:
  assumes w: "memory_write_op e svc m g s = (Inr x, s')" "mres_success x"
    and p: "parse_write m = Inr p" "mw_key p = Some k" "k \<noteq> []"
      "\<not> key_taken (mw_target_agent_id p) (mw_namespace p) k s"
    and q: "parse_query mq = Inr q" "mqy_target_agent_id q = mw_target_agent_id p"
      "mqy_namespace q = mw_namespace p" "mqy_query_type q = ''key''" "mqy_key q = Some k"
    and ok: "target_namespace_error mq (mw_target_agent_id p) (mw_namespace p) g' s' = Inr None"
      "pyd_opt pyd_str g' = Inr gg"
    and t: "\<And>quota. namespace_quota (mw_target_agent_id p) (mw_namespace p) s = Inr quota \<Longrightarrow> visible_at e e' p quota"
    and enc: "ms_encryption_enabled svc \<longrightarrow> crypto_ok (ms_crypto svc)"
      "\<not> ms_encryption_enabled svc \<longrightarrow> \<not> truthy (oget (mw_metadata p) ''encrypted'')" "sha256 e' = sha256 e"
  shows "\<exists>y s''. memory_query_op e' svc mq g' s' = (Inr y, s'') \<and> mres_success y
     \<and> map mr_content (mres_records y) = [mw_content p]
     \<and> map (Some \<circ> mr_id) (mres_records y) = [mres_record_id x]"
proof -
  from w obtain quota where quota: "namespace_quota (mw_target_agent_id p) (mw_namespace p) s = Inr quota"
    and rec: "memory_records s' = memory_records s @ [stored_record e svc m p quota]"
    and x: "mres_record_id x = Some (uuid4 e ''memory_record'')"
    and mk: "ms_encryption_enabled svc \<longrightarrow> opt_truthy (ms_master_key svc)"
    using p(1) by (auto elim!: memory_write_success)
  let ?rec = "stored_record e svc m p quota"
  have "filter (\<lambda>r. mr_agent_id r = mw_target_agent_id p \<and> mr_namespace r = mw_namespace p \<and> mr_key r = Some k)
      (memory_records s') = [?rec]"
    using p by (auto simp: rec key_taken_def list_ex_iff filter_empty_conv)
  then have "query_memory_by_key (mw_target_agent_id p) (mw_namespace p) k (now e') (nat (mqy_limit q)) s' = [?rec]"
    by (rule query_by_key_unique) (use t quota parse_query_limit [OF q(1)] in auto)
  then have op: "memory_query_op e' svc mq g' s' = memory_finish_query e' svc mq q [?rec] g' s'"
    using query_op_by_key [OF q(1,4,5) p(3), of g' s' e' svc] ok(1) q(2,3) by simp
  have "mapE (decrypt_row e' svc) [?rec] = Inr [?rec\<lparr>mr_content := mw_content p\<rparr>]"
    using decrypt_stored [of svc p e' e] enc mk by simp
  from finish_query_ok [OF this ok(2)] show ?thesis
    unfolding op by (fastforce simp: x)
qed

section \<open>Deleting\<close>

lemma soft_delete_eq:
  assumes "soft_delete_memory_record e rid a n s = (r, s')"
  shows "memory_records s' = update_rows (\<lambda>r. mr_id r = rid \<and> mr_agent_id r = a \<and> mr_namespace r = n \<and> mr_deleted_at r = None)
      (\<lambda>r. r\<lparr>mr_deleted_at := Some (now e), mr_updated_at := now e, mr_version := mr_version r + 1\<rparr>) (memory_records s)"
proof -
  have "memory_records s' = memory_records (snd (soft_delete_memory_record e rid a n s))" using assms by simp
  also have "\<dots> = update_rows (\<lambda>r. mr_id r = rid \<and> mr_agent_id r = a \<and> mr_namespace r = n \<and> mr_deleted_at r = None)
      (\<lambda>r. r\<lparr>mr_deleted_at := Some (now e), mr_updated_at := now e, mr_version := mr_version r + 1\<rparr>) (memory_records s)"
    unfolding soft_delete_memory_record_def delete_record_embedding_def Let_def by simp
  finally show ?thesis .
qed

lemma soft_delete_not_live:
  assumes "soft_delete_memory_record e rid a n s = (r, s')" and "x \<in> set (memory_records s')"
    and "mr_id x = rid" and "mr_agent_id x = a" and "mr_namespace x = n"
  shows "\<not> live t x"
proof -
  let ?hit = "\<lambda>r. mr_id r = rid \<and> mr_agent_id r = a \<and> mr_namespace r = n \<and> mr_deleted_at r = None"
  obtain y where y: "x = (if ?hit y
      then y\<lparr>mr_deleted_at := Some (now e), mr_updated_at := now e, mr_version := mr_version y + 1\<rparr> else y)"
    using assms(2) unfolding soft_delete_eq [OF assms(1)] update_rows_def by (auto simp only: set_map)
  show ?thesis
  proof (cases "?hit y")
    case True
    with y have "mr_deleted_at x = Some (now e)" by simp
    then show ?thesis by (simp add: live_def)
  next
    case False
    with y assms(3-5) have "mr_deleted_at x \<noteq> None" by (metis (full_types))
    then show ?thesis by (simp add: live_def)
  qed
qed

section \<open>Sweeping\<close>

lemma forA_hard_delete:
  "\<exists>s'. forA ids hard_delete_record s = (Inr (), s')
     \<and> memory_records s' = filter (\<lambda>r. mr_id r \<notin> set ids) (memory_records s)
     \<and> memory_embeddings s' = filter (\<lambda>r. fst r \<notin> set ids) (memory_embeddings s)"
proof (induction ids arbitrary: s)
  case (Cons i ids)
  let ?s1 = "s\<lparr>memory_embeddings := delete_rows (\<lambda>r. fst r = i) (memory_embeddings s),
       memory_records := delete_rows (\<lambda>r. mr_id r = i) (memory_records s)\<rparr>"
  have "hard_delete_record i s = (Inr (), ?s1)"
    by (simp add: hard_delete_record_def delete_record_embedding_def)
  with Cons.IH [of ?s1] show ?case by (auto simp: delete_rows_def conj_commute)
qed simp

lemma purge_where_eq:
  assumes "keys_ok mr_id (memory_records s)"
  shows "\<exists>s'. purge_where P s = (Inr (row_count P (memory_records s)), s')
     \<and> memory_records s' = filter (\<lambda>r. \<not> P r) (memory_records s)
     \<and> memory_embeddings s' = filter (\<lambda>v. \<forall>r \<in> set (memory_records s). P r \<longrightarrow> mr_id r \<noteq> fst v) (memory_embeddings s)"
proof -
  let ?ids = "map mr_id (filter P (memory_records s))"
  obtain s' where s': "forA ?ids hard_delete_record s = (Inr (), s')"
    "memory_records s' = filter (\<lambda>r. mr_id r \<notin> set ?ids) (memory_records s)"
    "memory_embeddings s' = filter (\<lambda>r. fst r \<notin> set ?ids) (memory_embeddings s)"
    using forA_hard_delete [of ?ids s] by blast
  have "mr_id r \<notin> set ?ids \<longleftrightarrow> \<not> P r" if "r \<in> set (memory_records s)" for r
    using that keys_ok_unique [OF assms] by auto
  then have "memory_records s' = filter (\<lambda>r. \<not> P r) (memory_records s)"
    unfolding s'(2) by (rule filter_cong [OF refl])
  moreover have "memory_embeddings s' = filter (\<lambda>v. \<forall>r \<in> set (memory_records s). P r \<longrightarrow> mr_id r \<noteq> fst v) (memory_embeddings s)"
    unfolding s'(3) by (rule filter_cong [OF refl]) auto
  ultimately show ?thesis
    using s'(1) by (simp add: purge_where_def row_count_def)
qed

lemma sweep_once_eq:
  assumes "keys_ok mr_id (memory_records s)"
    and cutoff: "cutoff = now e - hours (cfg_memory_soft_delete_retention_hours cfg)"
  shows "\<exists>s'. sweep_once e cfg s = (Inr (row_count (past_expiry (now e)) (memory_records s),
        row_count (past_retention cutoff) (memory_records s)), s')
     \<and> memory_records s' = filter (\<lambda>r. \<not> past_expiry (now e) r \<and> \<not> past_retention cutoff r) (memory_records s)"
proof -
  obtain s1 where s1: "purge_where (past_expiry (now e)) s = (Inr (row_count (past_expiry (now e)) (memory_records s)), s1)"
    "memory_records s1 = filter (\<lambda>r. \<not> past_expiry (now e) r) (memory_records s)"
    using purge_where_eq [OF assms(1)] by blast
  have "keys_ok mr_id (memory_records s1)"
    using keys_ok_delete [OF assms(1)] by (simp add: s1(2) delete_rows_def)
  from purge_where_eq [OF this, of "past_retention cutoff"] obtain s2 where
    s2: "purge_where (past_retention cutoff) s1 = (Inr (row_count (past_retention cutoff) (memory_records s1)), s2)"
    "memory_records s2 = filter (\<lambda>r. \<not> past_retention cutoff r) (memory_records s1)" by blast
  have "past_expiry t r \<Longrightarrow> \<not> past_retention c r" for t c r
    by (auto simp: past_expiry_def past_retention_def)
  then have "row_count (past_retention cutoff) (memory_records s1) = row_count (past_retention cutoff) (memory_records s)"
    unfolding s1(2) row_count_def filter_filter by (metis (mono_tags, lifting))
  with s1 s2 show ?thesis
    by (auto simp: sweep_once_def cutoff [symmetric] conj_commute)
qed

end
