(* ===== verification/Tools_Gateway.thy ===== *)
theory Tools_Gateway
  imports Memory
begin

text \<open>
  The tool approval gateway of \<^verbatim>\<open>tools/service.py\<close> with the models of \<^verbatim>\<open>tools/models.py\<close>: a tool call is
  approved when the payload validates, the agent is registered, its manifest lists the tool and,
  for the two skill tools, lists the skill.  Nothing is executed here.
\<close>

record tool_call_payload =
  tc_tool_name :: string
  tc_arguments :: obj
  tc_timeout_seconds :: "int option"

record tool_result_payload =
  tr_tool_name :: string
  tr_success :: bool
  tr_result :: "obj option"
  tr_error :: "string option"
  tr_duration_ms :: int

record tool_approval =
  ap_success :: bool
  ap_approved :: bool
  ap_tool_name :: string
  ap_error :: "string option"
  ap_error_code :: "string option"

record tool_ack =
  ak_success :: bool
  ak_tool_name :: string
  ak_error :: "string option"
  ak_error_code :: "string option"

definition validate_tool_call :: "obj \<Rightarrow> tool_call_payload res" where
  "validate_tool_call d =
     bindE (pyd_req pyd_str d ''tool_name'') (\<lambda>n.
     bindE (pyd_def pyd_dict [] d ''arguments'') (\<lambda>a.
     bindE (pyd_def (pyd_opt pyd_int) None d ''timeout_seconds'') (\<lambda>t.
     Inr \<lparr>tc_tool_name = n, tc_arguments = a, tc_timeout_seconds = t\<rparr>)))"

definition validate_tool_result :: "obj \<Rightarrow> tool_result_payload res" where
  "validate_tool_result d =
     bindE (pyd_req pyd_str d ''tool_name'') (\<lambda>n.
     bindE (pyd_req pyd_bool d ''success'') (\<lambda>s.
     bindE (pyd_def (pyd_opt pyd_dict) None d ''result'') (\<lambda>r.
     bindE (pyd_def (pyd_opt pyd_str) None d ''error'') (\<lambda>er.
     bindE (pyd_def pyd_int 0 d ''duration_ms'') (\<lambda>dm.
     Inr \<lparr>tr_tool_name = n, tr_success = s, tr_result = r, tr_error = er, tr_duration_ms = dm\<rparr>)))))"

definition approval_payload :: "tool_approval \<Rightarrow> obj" where
  "approval_payload x =
     (if \<not> ap_success x \<or> \<not> ap_approved x then
        [(''success'', JBool False), (''approved'', JBool False), (''tool_name'', JStr (ap_tool_name x)),
         (''error'', jopt (ap_error x)), (''error_code'', jopt (ap_error_code x))]
      else [(''success'', JBool True), (''approved'', JBool True), (''tool_name'', JStr (ap_tool_name x))])"

definition ack_payload :: "tool_ack \<Rightarrow> obj" where
  "ack_payload x =
     (if \<not> ak_success x then
        [(''success'', JBool False), (''tool_name'', JStr (ak_tool_name x)),
         (''error'', jopt (ak_error x)), (''error_code'', jopt (ak_error_code x))]
      else [(''success'', JBool True), (''tool_name'', JStr (ak_tool_name x))])"

definition deny_call ::
  "env \<Rightarrow> framework_message \<Rightarrow> string \<Rightarrow> json \<Rightarrow> string \<Rightarrow> string \<Rightarrow> ('z db_scheme, tool_approval) act" where
  "deny_call e m tool_name user_id code reason =
     thenA (log_tool_operation e m ''call_denied'' tool_name user_id ''deny'' reason [] 0 (Some False))
       (ret \<lparr>ap_success = False, ap_approved = False, ap_tool_name = tool_name, ap_error = Some reason,
            ap_error_code = Some code\<rparr>)"

definition deny_result ::
  "env \<Rightarrow> framework_message \<Rightarrow> string \<Rightarrow> json \<Rightarrow> string \<Rightarrow> string \<Rightarrow> ('z db_scheme, tool_ack) act" where
  "deny_result e m tool_name user_id code reason =
     thenA (log_tool_operation e m ''result_rejected'' tool_name user_id ''deny'' reason [] 0 (Some False))
       (ret \<lparr>ak_success = False, ak_tool_name = tool_name, ak_error = Some reason, ak_error_code = Some code\<rparr>)"

definition allowed_tools :: "agent_row \<Rightarrow> json list res" where
  "allowed_tools agent = bindE (manifest_engine agent ''engine1'') (\<lambda>e1. bindE (jget e1 ''tools'' (JArr [])) py_set)"

definition skill_gate :: "obj \<Rightarrow> string \<Rightarrow> obj \<Rightarrow> (string \<times> string) option res" where
  "skill_gate manifest tool_name args =
     (if tool_name \<notin> {''skill_read'', ''skill_run''} then Inr None
      else let skill = strip (py_str (py_or (oget args ''skill'') (py_or (oget args ''name'') (JStr [])))) in
        if skill = [] then Inr (Some (''SKILL_NAME_REQUIRED'', ''skill_read/skill_run require skill=''))
        else bindE (py_set (py_or (oget manifest ''skills'') (JArr []))) (\<lambda>skills.
          if JStr skill \<notin> set skills then Inr (Some (''SKILL_NOT_ALLOWED'', ''skill not allowed by agent manifest''))
          else Inr None))"

definition handle_call ::
  "env \<Rightarrow> framework_message \<Rightarrow> json \<Rightarrow> string list \<Rightarrow> ('z db_scheme, tool_approval) act" where
  "handle_call e m user_id matched_rules =
     (case validate_tool_call (msg_payload m) of
        Inl _ \<Rightarrow> deny_call e m (py_str (oget_or (msg_payload m) ''tool_name'' (JStr ''unknown''))) user_id
                   ''TOOL_PAYLOAD_INVALID'' (validation_text e)
      | Inr p \<Rightarrow>
          bindA (getS (get_agent (m_agent m))) (\<lambda>agent.
            case agent of
              None \<Rightarrow> deny_call e m (tc_tool_name p) user_id ''TOOL_AGENT_NOT_FOUND'' ''agent not found''
            | Some a \<Rightarrow>
                bindA (liftR (allowed_tools a)) (\<lambda>tools.
                  if JStr (tc_tool_name p) \<notin> set tools then
                    deny_call e m (tc_tool_name p) user_id ''TOOL_NOT_ALLOWED'' ''tool not allowed by agent manifest''
                  else bindA (liftR (skill_gate (ag_manifest a) (tc_tool_name p) (tc_arguments p))) (\<lambda>err.
                    case err of
                      Some (code, reason) \<Rightarrow> deny_call e m (tc_tool_name p) user_id code reason
                    | None \<Rightarrow>
                        thenA (log_tool_operation e m ''call_approved'' (tc_tool_name p) user_id ''allow''
                                 ''manifest and policy allow'' matched_rules 0 None)
                          (ret \<lparr>ap_success = True, ap_approved = True, ap_tool_name = tc_tool_name p,
                               ap_error = None, ap_error_code = None\<rparr>)))))"

definition handle_result ::
  "env \<Rightarrow> framework_message \<Rightarrow> json \<Rightarrow> string list \<Rightarrow> ('z db_scheme, tool_ack) act" where
  "handle_result e m user_id matched_rules =
     (case validate_tool_result (msg_payload m) of
        Inl _ \<Rightarrow> deny_result e m (py_str (oget_or (msg_payload m) ''tool_name'' (JStr ''unknown''))) user_id
                   ''TOOL_RESULT_INVALID'' (validation_text e)
      | Inr p \<Rightarrow>
          bindA (getS (get_agent (m_agent m))) (\<lambda>agent.
            case agent of
              None \<Rightarrow> ret \<lparr>ak_success = False, ak_tool_name = tr_tool_name p, ak_error = Some ''agent not found'',
                          ak_error_code = Some ''TOOL_AGENT_NOT_FOUND''\<rparr>
            | Some a \<Rightarrow>
                bindA (liftR (allowed_tools a)) (\<lambda>tools.
                  if JStr (tr_tool_name p) \<notin> set tools then
                    ret \<lparr>ak_success = False, ak_tool_name = tr_tool_name p,
                         ak_error = Some ''tool not allowed by agent manifest'',
                         ak_error_code = Some ''TOOL_NOT_ALLOWED''\<rparr>
                  else thenA (log_tool_operation e m ''result'' (tr_tool_name p) user_id
                                (if tr_success p then ''allow'' else ''deny'')
                                (if opt_truthy (tr_error p) then the (tr_error p) else ''tool completed'')
                                matched_rules (tr_duration_ms p) (Some (tr_success p)))
                         (ret \<lparr>ak_success = True, ak_tool_name = tr_tool_name p, ak_error = None,
                              ak_error_code = None\<rparr>))))"

section \<open>Facts\<close>

lemma handle_call_ok [pres_intro]: "preserves db_ok (handle_call e m u rs)"
  unfolding handle_call_def deny_call_def by (intro pres_intro)

lemma handle_result_ok [pres_intro]: "preserves db_ok (handle_result e m u rs)"
  unfolding handle_result_def deny_result_def by (intro pres_intro)

lemma deny_call_not_approved: "deny_call e m t u c r s = (Inr x, s') \<Longrightarrow> \<not> ap_approved x"
  by (auto simp: deny_call_def elim!: thenA_InrE)

text \<open>An approval rests on the manifest of the registered agent.\<close>

lemma handle_call_approved:
  assumes "handle_call e m u rs s = (Inr x, s')" and "ap_approved x"
  obtains p a tools where "validate_tool_call (msg_payload m) = Inr p" and "get_agent (m_agent m) s = Some a"
    and "allowed_tools a = Inr tools" and "JStr (tc_tool_name p) \<in> set tools"
    and "skill_gate (ag_manifest a) (tc_tool_name p) (tc_arguments p) = Inr None"
    and "ap_tool_name x = tc_tool_name p"
  using assms
  by (auto simp: handle_call_def split: sum.splits option.splits if_splits prod.splits
      elim!: bindA_InrE thenA_InrE dest!: deny_call_not_approved)

lemma skill_gate_None:
  assumes "skill_gate manifest t args = Inr None" and "t \<in> {''skill_read'', ''skill_run''}"
  obtains skills where "py_set (py_or (oget manifest ''skills'') (JArr [])) = Inr skills"
    and "JStr (strip (py_str (py_or (oget args ''skill'') (py_or (oget args ''name'') (JStr []))))) \<in> set skills"
  using assms by (auto simp: skill_gate_def Let_def split: if_splits)

end
