(* ===== verification/Llm_Gateway.thy ===== *)
theory Llm_Gateway
  imports Tools_Gateway
begin

text \<open>
  The LLM gateway of \<^verbatim>\<open>llm/service.py\<close> with its models, the provider registry, the credential
  resolution and the tool policy of \<^verbatim>\<open>llm/tool_policy.py\<close>.

  The provider adapters talk to the network and are parameters: \<open>ls_complete\<close> gives the outcome
  of a completion call and \<open>ls_stream\<close> the chunks of a stream.  The environment variables and
  files a credential may name, and the measured duration, are parameters too.
\<close>

section \<open>Models\<close>

record provider_config =
  pc_provider_id :: string
  pc_api_base_url :: string
  pc_credential_ref :: string
  pc_supported_models :: "string list"
  pc_hosted_tools_allowed :: bool
  pc_allowed_hosted_tools :: "string list"

definition to_catalog_entry :: "provider_config \<Rightarrow> provider_entry" where
  "to_catalog_entry p = \<lparr>pe_provider_id = pc_provider_id p, pe_supported_models = pc_supported_models p,
     pe_credential_ref = pc_credential_ref p, pe_api_base_url = pc_api_base_url p, pe_quota_class = ''dev'',
     pe_hosted_tools_allowed = pc_hosted_tools_allowed p, pe_allowed_hosted_tools = pc_allowed_hosted_tools p\<rparr>"

definition from_catalog_entry :: "provider_entry \<Rightarrow> provider_config" where
  "from_catalog_entry x = \<lparr>pc_provider_id = pe_provider_id x, pc_api_base_url = pe_api_base_url x,
     pc_credential_ref = pe_credential_ref x, pc_supported_models = pe_supported_models x,
     pc_hosted_tools_allowed = pe_hosted_tools_allowed x, pc_allowed_hosted_tools = pe_allowed_hosted_tools x\<rparr>"

definition public_payload :: "provider_config \<Rightarrow> obj" where
  "public_payload p = [(''provider_id'', JStr (pc_provider_id p)), (''api_base_url'', JStr (pc_api_base_url p)),
     (''supported_models'', jstrs (pc_supported_models p)),
     (''hosted_tools_allowed'', JBool (pc_hosted_tools_allowed p)),
     (''allowed_hosted_tools'', jstrs (pc_allowed_hosted_tools p))]"

definition rebuild_llm_registry :: "capability_catalog \<Rightarrow> (string \<times> provider_config) list option" where
  "rebuild_llm_registry c =
     (let providers = map (apsnd from_catalog_entry) (cat_llm_providers c)
      in if providers = [] then None else Some providers)"

record llm_request =
  lq_provider :: "string option"
  lq_model :: string
  lq_messages :: "obj list"
  lq_max_tokens :: "int option"
  lq_temperature :: "real option"
  lq_stream :: bool
  lq_tools_schema :: "obj list option"
  lq_provider_tools_requested :: "string list option"

fun pyd_float :: "json \<Rightarrow> real res" where
  "pyd_float (JFloat r t) = Inr r"
| "pyd_float (JInt i) = Inr (of_int i)"
| "pyd_float (JBool b) = Inr (if b then 1 else 0)"
| "pyd_float (JStr s) = (case parse_float s of None \<Rightarrow> Inl ValidationError | Some r \<Rightarrow> Inr r)"
| "pyd_float _ = Inl ValidationError"

definition validate_llm_request :: "obj \<Rightarrow> llm_request res" where
  "validate_llm_request d =
     bindE (pyd_def (pyd_opt pyd_str) None d ''provider'') (\<lambda>p.
     bindE (pyd_req pyd_str d ''model'') (\<lambda>m.
     bindE (pyd_req (pyd_list pyd_dict) d ''messages'') (\<lambda>ms.
     bindE (pyd_def (pyd_opt pyd_int) None d ''max_tokens'') (\<lambda>mt.
     bindE (pyd_def (pyd_opt pyd_float) None d ''temperature'') (\<lambda>te.
     bindE (pyd_def pyd_bool False d ''stream'') (\<lambda>st.
     bindE (pyd_def (pyd_opt (pyd_list pyd_dict)) None d ''tools_schema'') (\<lambda>ts.
     bindE (pyd_def (pyd_opt pyd_strs) None d ''provider_tools_requested'') (\<lambda>pr.
     Inr \<lparr>lq_provider = p, lq_model = m, lq_messages = ms, lq_max_tokens = mt, lq_temperature = te,
         lq_stream = st, lq_tools_schema = ts, lq_provider_tools_requested = pr\<rparr>))))))))"

record llm_result =
  lr_success :: bool
  lr_provider :: string
  lr_model :: string
  lr_content :: "string option"
  lr_tool_calls :: "obj list"
  lr_usage :: "(string \<times> int) list"
  lr_finish_reason :: "string option"
  lr_error :: "string option"
  lr_error_code :: "string option"
  lr_provider_tools_used :: "string list"
  lr_trust_boundary :: "string option"

definition usage_get :: "(string \<times> int) list \<Rightarrow> string \<Rightarrow> int" where
  "usage_get u k = (case map_of u k of None \<Rightarrow> 0 | Some n \<Rightarrow> n)"

definition total_tokens :: "llm_result \<Rightarrow> int" where
  "total_tokens r = usage_get (lr_usage r) ''prompt_tokens'' + usage_get (lr_usage r) ''completion_tokens''"

definition usage_obj :: "(string \<times> int) list \<Rightarrow> obj" where
  "usage_obj u = map (\<lambda>(k, n). (k, JInt n)) u"

definition llm_payload :: "llm_result \<Rightarrow> obj" where
  "llm_payload r =
     (if \<not> lr_success r then
        [(''success'', JBool False), (''provider'', JStr (lr_provider r)), (''model'', JStr (lr_model r)),
         (''error'', jopt (lr_error r)), (''error_code'', jopt (lr_error_code r))]
      else
        [(''success'', JBool True), (''provider'', JStr (lr_provider r)), (''model'', JStr (lr_model r)),
         (''content'', jopt (lr_content r)), (''tool_calls'', JArr (map JObj (lr_tool_calls r))),
         (''usage'', JObj (usage_obj (lr_usage r))), (''finish_reason'', jopt (lr_finish_reason r)),
         (''provider_tools_used'', jstrs (lr_provider_tools_used r)),
         (''trust_boundary'', jopt (lr_trust_boundary r))])"

record provider_completion =
  cm_content :: "string option"
  cm_tool_calls :: "obj list"
  cm_usage :: "(string \<times> int) list"
  cm_finish_reason :: "string option"
  cm_provider_tools_used :: "string list option"

record stream_chunk =
  sc_index :: int
  sc_delta :: string
  sc_is_terminal :: bool
  sc_completion :: "provider_completion option"

datatype adapter = StubAdapter | OpenAiCompatAdapter

record llm_prepared =
  lp_message :: framework_message
  lp_payload :: llm_request
  lp_provider_id :: string
  lp_upstream_payload :: llm_request
  lp_api_base_url :: string
  lp_api_key :: "string option"
  lp_adapter :: adapter
  lp_tool_mode :: string
  lp_provider_tool_names :: "string list"

text \<open>The outcome of an adapter call: a completion, the two errors the service handles, or an
  exception it does not.\<close>

datatype provider_outcome = Completed provider_completion | HttpStatusError int | HttpError string | Raised exc

record llm_service =
  ls_registry :: "(string \<times> provider_config) list"
  ls_default_provider :: string
  ls_getenv :: "string \<Rightarrow> string option"
  ls_read_file :: "string \<Rightarrow> string option"
  ls_complete :: "llm_prepared \<Rightarrow> obj list \<Rightarrow> provider_outcome"
  ls_stream :: "llm_prepared \<Rightarrow> obj list \<Rightarrow> stream_chunk list \<times> bool"  \<comment> \<open>whether it ends with an exception\<close>
  ls_duration_ms :: int

section \<open>Tool policy\<close>

definition PROVIDER_NATIVE_TOOL_TYPES :: "string list" where
  "PROVIDER_NATIVE_TOOL_TYPES = [''web_search'', ''web_search_preview'', ''code_interpreter'', ''file_search'',
     ''computer_use_preview'', ''mcp'']"

definition OPAQUE_PROVIDER_FINISH_REASONS :: "string list" where
  "OPAQUE_PROVIDER_FINISH_REASONS = [''tool_calls'', ''function_call'']"

definition parse_tool_execution_mode :: "json \<Rightarrow> string res" where
  "parse_tool_execution_mode engine3 = bindE (jget engine3 ''tool_execution_mode'' (JStr ''local'')) (\<lambda>v.
     let mode = py_str v in Inr (if mode \<notin> {''local'', ''hybrid''} then ''local'' else mode))"

fun dict_items :: "json list \<Rightarrow> obj list" where
  "dict_items [] = []"
| "dict_items (JObj d # xs) = d # dict_items xs"
| "dict_items (_ # xs) = dict_items xs"

fun normalize_tools_schema :: "json \<Rightarrow> obj list" where
  "normalize_tools_schema (JArr xs) = dict_items xs"
| "normalize_tools_schema (JObj d) = (case oget d ''tools'' of JArr xs \<Rightarrow> dict_items xs | _ \<Rightarrow> [d])"
| "normalize_tools_schema _ = []"

text \<open>The schema of a validated request as a value again.\<close>

definition schema_json :: "obj list option \<Rightarrow> json" where
  "schema_json ts = (case ts of None \<Rightarrow> JNull | Some xs \<Rightarrow> JArr (map JObj xs))"

definition tool_type :: "obj \<Rightarrow> string" where
  "tool_type entry = py_str (oget_or entry ''type'' (JStr ''function''))"

text \<open>\<^verbatim>\<open>(entry.get("function") or {}).get("name", default)\<close>\<close>

definition function_name :: "obj \<Rightarrow> json \<Rightarrow> json res" where
  "function_name entry d = jget (py_or (oget entry ''function'') (JObj [])) ''name'' d"

fun function_tool_names :: "obj list \<Rightarrow> string list res" where
  "function_tool_names [] = Inr []"
| "function_tool_names (entry # es) =
     (if tool_type entry \<in> set PROVIDER_NATIVE_TOOL_TYPES then function_tool_names es
      else if tool_type entry = ''function'' then
        bindE (function_name entry JNull) (\<lambda>name.
        bindE (function_tool_names es) (\<lambda>names.
          Inr (if truthy name then py_str name # names else names)))
      else function_tool_names es)"

fun filter_local_tools_schema :: "json list \<Rightarrow> capability_catalog \<Rightarrow> obj list \<Rightarrow> obj list res" where
  "filter_local_tools_schema allowed cat [] = Inr []"
| "filter_local_tools_schema allowed cat (entry # es) =
     (if tool_type entry \<in> set PROVIDER_NATIVE_TOOL_TYPES \<or> tool_type entry \<noteq> ''function''
      then filter_local_tools_schema allowed cat es
      else bindE (function_name entry (JStr [])) (\<lambda>n.
           bindE (filter_local_tools_schema allowed cat es) (\<lambda>rest.
             Inr (if JStr (py_str n) \<notin> set allowed \<or> map_of (cat_tools cat) (py_str n) = None
                  then rest else entry # rest))))"

text \<open>A pair of the accepted tools and an error text.\<close>

fun validate_provider_tool_list ::
  "string \<Rightarrow> provider_config \<Rightarrow> string list \<Rightarrow> string list \<Rightarrow> string list \<times> string option" where
  "validate_provider_tool_list provider_id p acc [] = (acc, None)"
| "validate_provider_tool_list provider_id p acc (entry # es) =
     (if CHR '':'' \<notin> set entry then ([], Some (''invalid provider_tools entry: '' @ entry))
      else let (ep, tool) = split_once (CHR '':'') entry in
        if ep \<noteq> provider_id then
          ([], Some (''provider_tools entry '' @ entry @ '' does not match provider '' @ provider_id))
        else if tool \<notin> set (pc_allowed_hosted_tools p) then ([], Some (''hosted tool not allowed: '' @ tool))
        else validate_provider_tool_list provider_id p (acc @ [tool]) es)"

definition validate_provider_tools ::
  "string list \<Rightarrow> string \<Rightarrow> provider_config \<Rightarrow> string list \<times> string option" where
  "validate_provider_tools tools provider_id p =
     (if tools = [] then ([], None)
      else if \<not> pc_hosted_tools_allowed p then ([], Some ''provider does not allow hosted tools'')
      else validate_provider_tool_list provider_id p [] tools)"

definition build_provider_tool_entries :: "string list \<Rightarrow> obj list" where
  "build_provider_tool_entries names = map (\<lambda>n. [(''type'', JStr n)]) names"

definition provider_tools_from_manifest :: "json \<Rightarrow> string \<Rightarrow> string list res" where
  "provider_tools_from_manifest engine3 provider_id =
     bindE (parse_tool_execution_mode engine3) (\<lambda>mode.
       if mode \<noteq> ''hybrid'' then Inr []
       else bindE (jget engine3 ''provider_tools'' JNull) (\<lambda>raw.
            bindE (py_iter (py_or raw (JArr []))) (\<lambda>xs.
              Inr (map (snd \<circ> split_once (CHR '':'')) (filter (prefix (provider_id @ '':'')) (map py_str xs))))))"

definition detect_opaque_provider_execution :: "string option \<Rightarrow> obj list \<Rightarrow> string option \<Rightarrow> bool" where
  "detect_opaque_provider_execution finish_reason tool_calls content =
     (if tool_calls \<noteq> [] then False
      else (case finish_reason of None \<Rightarrow> False | Some r \<Rightarrow> r \<in> set OPAQUE_PROVIDER_FINISH_REASONS))"

section \<open>Credentials\<close>

text \<open>\<open>Inl\<close> is the text of a \<^verbatim>\<open>CredentialResolutionError\<close>.\<close>

definition resolve_credential ::
  "(string \<Rightarrow> string option) \<Rightarrow> (string \<Rightarrow> string option) \<Rightarrow> string \<Rightarrow> string + string option" where
  "resolve_credential getenv read_file credential_ref =
     (let ref = strip credential_ref in
      if ref = [] \<or> lower ref = ''none'' then Inr None
      else if prefix ''env:'' ref then
        (case getenv (drop 4 ref) of
           Some v \<Rightarrow> if v = [] then Inl (''environment variable not set: '' @ drop 4 ref) else Inr (Some v)
         | None \<Rightarrow> Inl (''environment variable not set: '' @ drop 4 ref))
      else if prefix ''file:'' ref then
        (case read_file (drop 5 ref) of
           None \<Rightarrow> Inl (''credential file not found: '' @ drop 5 ref)
         | Some txt \<Rightarrow> if strip txt = [] then Inl (''credential file empty: '' @ drop 5 ref) else Inr (Some (strip txt)))
      else Inl (''unsupported credential_ref scheme: '' @ ref))"

section \<open>The service\<close>

definition llm_failure ::
  "env \<Rightarrow> framework_message \<Rightarrow> string \<Rightarrow> string \<Rightarrow> string \<Rightarrow> string \<Rightarrow> ('z db_scheme, llm_result) act" where
  "llm_failure e m provider model code reason =
     thenA (log_llm_operation e m provider model JNull ''deny'' reason [] 0)
       (ret \<lparr>lr_success = False, lr_provider = provider, lr_model = model, lr_content = None, lr_tool_calls = [],
            lr_usage = [], lr_finish_reason = None, lr_error = Some reason, lr_error_code = Some code,
            lr_provider_tools_used = [], lr_trust_boundary = None\<rparr>)"

definition strs_truthy :: "string list option \<Rightarrow> bool" where
  "strs_truthy xs \<longleftrightarrow> xs \<noteq> None \<and> xs \<noteq> Some []"

text \<open>\<^verbatim>\<open>_prepare_tools\<close>: the filtered schema, the hosted tools and an error text.\<close>

definition prepare_tools ::
  "llm_request \<Rightarrow> string \<Rightarrow> json list \<Rightarrow> json \<Rightarrow> string \<Rightarrow> provider_config
   \<Rightarrow> (obj list \<times> string list \<times> string option) res" where
  "prepare_tools payload mode allowed engine3 provider_id provider =
     (let raw_schema = normalize_tools_schema (schema_json (lq_tools_schema payload)) in
      bindE (function_tool_names raw_schema) (\<lambda>requested.
      let disallowed = sort (remdups (filter (\<lambda>n. JStr n \<notin> set allowed) requested)) in
      if disallowed \<noteq> [] then Inr ([], [], Some (''tools not allowed by manifest: '' @ join '', '' disallowed))
      else bindE (filter_local_tools_schema allowed DEFAULT_CATALOG raw_schema) (\<lambda>filtered.
        bindE (provider_tools_from_manifest engine3 provider_id) (\<lambda>hosted.
          if mode = ''local'' then
            (if hosted \<noteq> [] then Inr ([], [], Some ''provider_tools require hybrid tool_execution_mode'')
             else if strs_truthy (lq_provider_tools_requested payload) then
               Inr ([], [], Some ''provider_tools_requested not allowed in local mode'')
             else if list_ex (\<lambda>entry. tool_type entry \<noteq> ''function'') raw_schema then
               Inr ([], [], Some ''provider-native tools not allowed in local mode'')
             else Inr (filtered, [], None))
          else case validate_provider_tools (map (\<lambda>n. provider_id @ '':'' @ n) hosted) provider_id provider of
                 (validated, Some err) \<Rightarrow> Inr ([], [], Some err)
               | (validated, None) \<Rightarrow> Inr (filtered, validated, None)))))"

definition adapter_for :: "string \<Rightarrow> adapter" where
  "adapter_for api_base_url = (if prefix ''stub://'' api_base_url then StubAdapter else OpenAiCompatAdapter)"

text \<open>The part of \<^verbatim>\<open>prepare\<close> after the agent has been found; \<open>Inl\<close> is a failure code with its reason.\<close>

definition prepare_for_agent ::
  "llm_service \<Rightarrow> framework_message \<Rightarrow> llm_request \<Rightarrow> string \<Rightarrow> provider_config \<Rightarrow> agent_row
   \<Rightarrow> ((string \<times> string) + llm_prepared) res" where
  "prepare_for_agent svc m payload provider_id provider agent =
     bindE (manifest_engine agent ''engine3'') (\<lambda>engine3.
     bindE (manifest_engine agent ''engine1'') (\<lambda>engine1.
     bindE (bindE (jget engine3 ''allowed_providers'' (JArr [])) py_set) (\<lambda>providers.
     bindE (bindE (jget engine3 ''allowed_models'' (JArr [])) py_set) (\<lambda>models.
     if JStr provider_id \<notin> set providers then
       Inr (Inl (''LLM_PROVIDER_NOT_ALLOWED'', ''provider not allowed by agent manifest''))
     else if JStr (lq_model payload) \<notin> set models then
       Inr (Inl (''LLM_MODEL_NOT_ALLOWED'', ''model not allowed by agent manifest''))
     else
       bindE (parse_tool_execution_mode engine3) (\<lambda>mode.
       bindE (bindE (jget engine1 ''tools'' (JArr [])) py_set) (\<lambda>tools.
       bindE (prepare_tools payload mode tools engine3 provider_id provider) (\<lambda>(schema, names, err).
         case err of
           Some reason \<Rightarrow> Inr (Inl (''LLM_TOOL_POLICY_VIOLATION'', reason))
         | None \<Rightarrow>
             (case resolve_credential (ls_getenv svc) (ls_read_file svc) (pc_credential_ref provider) of
                Inl reason \<Rightarrow> Inr (Inl (''LLM_PROVIDER_UNAVAILABLE'', reason))
              | Inr key \<Rightarrow>
                  Inr (Inr \<lparr>lp_message = m, lp_payload = payload, lp_provider_id = provider_id,
                    lp_upstream_payload = payload\<lparr>lq_tools_schema := (if schema = [] then None else Some schema),
                       lq_provider_tools_requested := (if names = [] then None else Some names)\<rparr>,
                    lp_api_base_url = pc_api_base_url provider, lp_api_key = key,
                    lp_adapter = adapter_for (pc_api_base_url provider), lp_tool_mode = mode,
                    lp_provider_tool_names = names\<rparr>)))))))))"

definition llm_prepare ::
  "env \<Rightarrow> llm_service \<Rightarrow> framework_message \<Rightarrow> ('z db_scheme, llm_result + llm_prepared) act" where
  "llm_prepare e svc m =
     (case validate_llm_request (msg_payload m) of
        Inl _ \<Rightarrow>
          bindA (llm_failure e m (py_str (oget_or (msg_payload m) ''provider'' (JStr (ls_default_provider svc))))
             (py_str (oget_or (msg_payload m) ''model'' (JStr ''unknown''))) ''LLM_PAYLOAD_INVALID'' (validation_text e))
             (\<lambda>r. ret (Inl r))
      | Inr payload \<Rightarrow>
          let provider_id = (if opt_truthy (lq_provider payload) then the (lq_provider payload)
                             else ls_default_provider svc);
              fail = (\<lambda>code reason. bindA (llm_failure e m provider_id (lq_model payload) code reason) (\<lambda>r. ret (Inl r)))
          in case map_of (ls_registry svc) provider_id of
               None \<Rightarrow> fail ''LLM_PROVIDER_NOT_FOUND'' (''unknown provider: '' @ provider_id)
             | Some provider \<Rightarrow>
                 if lq_model payload \<notin> set (pc_supported_models provider) then
                   fail ''LLM_MODEL_NOT_SUPPORTED'' ''model not supported by provider registry''
                 else bindA (getS (get_agent (m_agent m))) (\<lambda>agent.
                   case agent of
                     None \<Rightarrow> fail ''LLM_AGENT_NOT_FOUND'' ''agent not found''
                   | Some a \<Rightarrow>
                       bindA (liftR (prepare_for_agent svc m payload provider_id provider a)) (\<lambda>r.
                         case r of
                           Inl (code, reason) \<Rightarrow> fail code reason
                         | Inr prepared \<Rightarrow> ret (Inr prepared))))"

definition finalize_stream ::
  "env \<Rightarrow> llm_prepared \<Rightarrow> json \<Rightarrow> provider_completion \<Rightarrow> int \<Rightarrow> string \<Rightarrow> ('z db_scheme, llm_result) act" where
  "finalize_stream e prepared user_id completion duration_ms reason =
     (let used = (if strs_truthy (cm_provider_tools_used completion) then the (cm_provider_tools_used completion)
                  else lp_provider_tool_names prepared);
          m = lp_message prepared; provider = lp_provider_id prepared; model = lq_model (lp_payload prepared);
          event = (\<lambda>ev. log_provider_tool_event e m provider model user_id ev used (cm_finish_reason completion))
      in thenA (whenA (detect_opaque_provider_execution (cm_finish_reason completion) (cm_tool_calls completion)
                         (cm_content completion)) (event ''provider_tool_execution_opaque''))
        (thenA (whenA (used \<noteq> [] \<and> lp_tool_mode prepared = ''hybrid'') (event ''provider_tool_invocation''))
        (thenA (log_llm_operation e m provider model user_id ''allow'' reason (usage_obj (cm_usage completion)) duration_ms)
          (ret \<lparr>lr_success = True, lr_provider = provider, lr_model = model, lr_content = cm_content completion,
               lr_tool_calls = cm_tool_calls completion, lr_usage = cm_usage completion,
               lr_finish_reason = cm_finish_reason completion, lr_error = None, lr_error_code = None,
               lr_provider_tools_used = used,
               lr_trust_boundary = (if used \<noteq> [] then Some ''provider'' else None)\<rparr>))))"

definition complete_prepared ::
  "env \<Rightarrow> llm_service \<Rightarrow> llm_prepared \<Rightarrow> json \<Rightarrow> ('z db_scheme, llm_result) act" where
  "complete_prepared e svc prepared user_id =
     (case ls_complete svc prepared (build_provider_tool_entries (lp_provider_tool_names prepared)) of
        Completed c \<Rightarrow> finalize_stream e prepared user_id c (ls_duration_ms svc) ''completion''
      | HttpStatusError n \<Rightarrow> llm_failure e (lp_message prepared) (lp_provider_id prepared)
          (lq_model (lp_payload prepared)) ''LLM_PROVIDER_ERROR'' (''provider HTTP '' @ int_str n)
      | HttpError txt \<Rightarrow> llm_failure e (lp_message prepared) (lp_provider_id prepared)
          (lq_model (lp_payload prepared)) ''LLM_PROVIDER_ERROR'' txt
      | Raised x \<Rightarrow> raise x)"

definition llm_handle :: "env \<Rightarrow> llm_service \<Rightarrow> framework_message \<Rightarrow> json \<Rightarrow> ('z db_scheme, llm_result) act" where
  "llm_handle e svc m user_id = bindA (llm_prepare e svc m) (\<lambda>r.
     case r of Inl err \<Rightarrow> ret err | Inr prepared \<Rightarrow> complete_prepared e svc prepared user_id)"

section \<open>Facts\<close>

lemma llm_failure_ok [pres_intro]: "preserves db_ok (llm_failure e m p mo c r)"
  unfolding llm_failure_def by (intro pres_intro)

lemma llm_prepare_ok [pres_intro]: "preserves db_ok (llm_prepare e svc m)"
  unfolding llm_prepare_def Let_def by (intro pres_intro)

lemma finalize_stream_ok [pres_intro]: "preserves db_ok (finalize_stream e p u c d r)"
  unfolding finalize_stream_def Let_def by (intro pres_intro)

lemma preserves_case_outcome [pres_intro]:
  "(\<And>c. preserves P (f c)) \<Longrightarrow> (\<And>n. preserves P (g n)) \<Longrightarrow> (\<And>t. preserves P (h t)) \<Longrightarrow> (\<And>x. preserves P (k x)) \<Longrightarrow>
    preserves P (case r of Completed c \<Rightarrow> f c | HttpStatusError n \<Rightarrow> g n | HttpError t \<Rightarrow> h t | Raised x \<Rightarrow> k x)"
  by (cases r) simp_all

lemma complete_prepared_ok [pres_intro]: "preserves db_ok (complete_prepared e svc p u)"
  unfolding complete_prepared_def by (intro pres_intro)

lemma llm_handle_ok [pres_intro]: "preserves db_ok (llm_handle e svc m u)"
  unfolding llm_handle_def by (intro pres_intro)

lemma dict_items_map [simp]: "dict_items (map JObj xs) = xs"
  by (induction xs) auto

lemma normalize_schema_json [simp]: "normalize_tools_schema (schema_json ts) = (case ts of None \<Rightarrow> [] | Some xs \<Rightarrow> xs)"
  by (auto simp: schema_json_def split: option.splits)

lemma filter_local_tools_sound:
  assumes "filter_local_tools_schema allowed cat es = Inr ys" and "y \<in> set ys"
  shows "y \<in> set es \<and> tool_type y = ''function'' \<and>
    (\<exists>n. function_name y (JStr []) = Inr n \<and> JStr (py_str n) \<in> set allowed \<and> map_of (cat_tools cat) (py_str n) \<noteq> None)"
  using assms
  by (induction es arbitrary: ys) (auto split: if_splits)

text \<open>What reaches the provider: a model and provider the manifest allows, and only function tools
  the manifest and the built-in catalog list; in local mode no hosted tool.\<close>

lemma prepare_for_agent_sound:
  assumes "prepare_for_agent svc m payload provider_id provider agent = Inr (Inr p)"
  obtains e3 e1 ps ms ts where "manifest_engine agent ''engine3'' = Inr e3" and "manifest_engine agent ''engine1'' = Inr e1"
    and "bindE (jget e3 ''allowed_providers'' (JArr [])) py_set = Inr ps" and "JStr provider_id \<in> set ps"
    and "bindE (jget e3 ''allowed_models'' (JArr [])) py_set = Inr ms" and "JStr (lq_model payload) \<in> set ms"
    and "bindE (jget e1 ''tools'' (JArr [])) py_set = Inr ts"
    and "prepare_tools payload (lp_tool_mode p) ts e3 provider_id provider
      = Inr (case lq_tools_schema (lp_upstream_payload p) of None \<Rightarrow> [] | Some xs \<Rightarrow> xs, lp_provider_tool_names p, None)"
    and "lp_provider_id p = provider_id" and "lp_payload p = payload"
  using assms
  by (auto simp: prepare_for_agent_def simp del: bindE_eq_Inr
      split: if_splits option.splits sum.splits prod.splits elim!: bindE_InrE intro: that)

end
