(* ===== verification/Router.thy ===== *)
theory Router
  imports Handshake Policy_Engine Memory_Facts Llm_Gateway
begin

text \<open>
  The message router of \<^verbatim>\<open>server/router.py\<close>: it logs the hop, lets handshakes through, checks the
  session and the turn, asks the policy engine, and passes an allowed message to the memory, LLM
  or tool service.  The state adds to the catalog state the stream tasks that have been started
  and the webhook posts that have been scheduled (\<^verbatim>\<open>server/elevation_notify.py\<close>).
\<close>

section \<open>The wired server\<close>

text \<open>What the router holds: the settings, which services are present, and the services.
  \<open>sv_ruleset_hash\<close> is the digest \<^verbatim>\<open>RuleStore.ruleset_hash\<close> gives for the cached rules.\<close>

record services =
  sv_config :: server_config
  sv_wiring :: wiring
  sv_memory :: memory_service
  sv_llm :: llm_service
  sv_ruleset_hash :: "policy_rule list \<Rightarrow> string"

record stream_task =
  st_message :: framework_message
  st_user_id :: json
  st_prepared :: llm_prepared

record server_state = catalog_state +
  stream_tasks :: "stream_task list"
  webhook_posts :: "(string \<times> obj) list"

section \<open>Replies\<close>

definition server_reply ::
  "env \<Rightarrow> string \<Rightarrow> framework_message \<Rightarrow> message_class \<Rightarrow> string \<Rightarrow> triggered_by \<Rightarrow> uuid \<Rightarrow> obj \<Rightarrow> framework_message" where
  "server_reply e site m cls ty trigger origin payload =
     new_message e site
       \<lparr>src_agent_id = ''corvus-server'', src_engine = CORVUS_NODE, src_vm_id = ''server''\<rparr>
       \<lparr>dst_type = TO_ENGINE, dst_target = engine_value (m_engine m)\<rparr>
       cls ty (msg_correlation_id m) (mk_tags trigger (Some origin)) payload"

definition with_original_type :: "framework_message \<Rightarrow> obj \<Rightarrow> obj" where
  "with_original_type m payload = oset ''original_type'' (JStr (msg_type m)) payload"

definition llm_stream_start :: "env \<Rightarrow> framework_message \<Rightarrow> obj \<Rightarrow> framework_message" where
  "llm_stream_start e m payload =
     server_reply e ''llm_stream_start'' m RESPONSE ''llm_stream_start'' LLM_RESULT (origin_id m) (with_original_type m payload)"

definition llm_stream_chunk :: "env \<Rightarrow> string \<Rightarrow> framework_message \<Rightarrow> obj \<Rightarrow> framework_message" where
  "llm_stream_chunk e site m payload =
     server_reply e site m EVENT ''llm_stream_chunk'' LLM_RESULT (origin_id m) (with_original_type m payload)"

definition memory_response :: "env \<Rightarrow> framework_message \<Rightarrow> obj \<Rightarrow> framework_message" where
  "memory_response e m payload =
     server_reply e ''memory_response'' m RESPONSE (msg_type m @ ''_response'') MEMORY_RESULT (msg_correlation_id m)
       (with_original_type m payload)"

definition llm_response :: "env \<Rightarrow> framework_message \<Rightarrow> obj \<Rightarrow> framework_message" where
  "llm_response e m payload =
     server_reply e ''llm_response'' m RESPONSE ''llm_response'' LLM_RESULT (origin_id m) (with_original_type m payload)"

definition tool_call_response :: "env \<Rightarrow> framework_message \<Rightarrow> obj \<Rightarrow> framework_message" where
  "tool_call_response e m payload =
     server_reply e ''tool_call_response'' m RESPONSE ''tool_call_response'' TOOL_APPROVAL (origin_id m) (with_original_type m payload)"

definition tool_result_response :: "env \<Rightarrow> framework_message \<Rightarrow> obj \<Rightarrow> framework_message" where
  "tool_result_response e m payload =
     server_reply e ''tool_result_ack'' m RESPONSE ''tool_result_ack'' TOOL_RESULT (origin_id m) (with_original_type m payload)"

definition success_response :: "env \<Rightarrow> framework_message \<Rightarrow> framework_message" where
  "success_response e m =
     server_reply e ''ack'' m RESPONSE (msg_type m @ ''_ack'') BY_SYSTEM (msg_correlation_id m)
       [(''success'', JBool True), (''received_at'', JStr (isoformat (now e))), (''original_type'', JStr (msg_type m))]"

text \<open>The error replies of the router all answer the sender.\<close>

definition refuse ::
  "env \<Rightarrow> framework_message \<Rightarrow> error_code \<Rightarrow> error_layer \<Rightarrow> string \<Rightarrow> bool \<Rightarrow> obj \<Rightarrow> framework_message" where
  "refuse e m code layer text recoverable details =
     make_error_message e code layer text recoverable (m_agent m) (m_vm m) (msg_correlation_id m) (m_engine m)
       details (Some (msg_id m))"

section \<open>Streaming\<close>

definition meta_user :: "policy_decision \<Rightarrow> json" where
  "meta_user d = oget (pd_metadata d) ''user_id''"

definition user_opt :: "json \<Rightarrow> string option" where
  "user_opt v = (case v of JStr u \<Rightarrow> Some u | _ \<Rightarrow> None)"

definition stream_failure :: "llm_prepared \<Rightarrow> string \<Rightarrow> string \<Rightarrow> obj" where
  "stream_failure prepared text code =
     [(''success'', JBool False), (''provider'', JStr (lp_provider_id prepared)),
      (''model'', JStr (lq_model (lp_payload prepared))), (''error'', JStr text), (''error_code'', JStr code)]"

definition handle_llm_stream ::
  "env \<Rightarrow> services \<Rightarrow> framework_message \<Rightarrow> json \<Rightarrow> ('z server_state_scheme, framework_message) act" where
  "handle_llm_stream e sv m user_id = bindA (llm_prepare e (sv_llm sv) m) (\<lambda>r.
     case r of
       Inl err \<Rightarrow> ret (llm_stream_start e m (llm_payload err))
     | Inr prepared \<Rightarrow>
         if \<not> has_transport (sv_wiring sv) then
           ret (llm_stream_start e m
                  (stream_failure prepared ''streaming requires active agent transport'' ''LLM_STREAM_UNAVAILABLE''))
         else thenA (modS (\<lambda>s. s\<lparr>stream_tasks := stream_tasks s @
                       [\<lparr>st_message = m, st_user_id = user_id, st_prepared = prepared\<rparr>]\<rparr>))
           (ret (llm_stream_start e m
              [(''success'', JBool True), (''provider'', JStr (lp_provider_id prepared)),
               (''model'', JStr (lq_model (lp_payload prepared)))])))"

text \<open>The loop over the chunks: \<open>None\<close> when a delivery failed and the task returned, otherwise the
  completion the last terminal chunk carried.\<close>

fun deliver_chunks ::
  "env \<Rightarrow> framework_message \<Rightarrow> stream_chunk list \<Rightarrow> provider_completion option
   \<Rightarrow> ('z conn_state_scheme, provider_completion option option) act" where
  "deliver_chunks e m [] completion = ret (Some completion)"
| "deliver_chunks e m (c # cs) completion =
     (if sc_is_terminal c then deliver_chunks e m cs (sc_completion c)
      else if sc_delta c = [] then deliver_chunks e m cs completion
      else bindA (deliver (m_agent m) (m_vm m)
                    (llm_stream_chunk e (''chunk:'' @ int_str (sc_index c)) m [(''index'', JInt (sc_index c)), (''delta'', JStr (sc_delta c))])) (\<lambda>sent.
             if sent then deliver_chunks e m cs completion else ret None))"

definition run_llm_stream :: "env \<Rightarrow> services \<Rightarrow> stream_task \<Rightarrow> ('z conn_state_scheme, unit) act" where
  "run_llm_stream e sv t =
     (let m = st_message t; prepared = st_prepared t; svc = sv_llm sv;
          (chunks, fails) = ls_stream svc prepared (build_provider_tool_entries (lp_provider_tool_names prepared));
          send = (\<lambda>payload. thenA (deliver (m_agent m) (m_vm m) (llm_response e m payload)) (ret ()))
      in bindA (deliver_chunks e m chunks None) (\<lambda>outcome.
         case outcome of
           None \<Rightarrow> ret ()
         | Some completion \<Rightarrow>
             if fails then send (stream_failure prepared ''stream provider error'' ''LLM_PROVIDER_ERROR'')
             else case completion of
               None \<Rightarrow> send (stream_failure prepared ''stream ended without completion'' ''LLM_PROVIDER_ERROR'')
             | Some c \<Rightarrow>
                 bindA (finalize_stream e prepared (st_user_id t) c (ls_duration_ms svc) ''stream_completion'') (\<lambda>result.
                 thenA (whenA (lr_success result \<and> has_quotas (sv_wiring sv))
                          (thenA (increment_llm_tokens e (user_opt (st_user_id t)) (total_tokens result)
                                    (Some (cfg_llm_tokens_daily_limit (sv_config sv)))) (ret ())))
                   (send (llm_payload result)))))"

section \<open>Elevation\<close>

definition notify_elevation_pending ::
  "env \<Rightarrow> server_config \<Rightarrow> string \<Rightarrow> string \<Rightarrow> time \<Rightarrow> string list \<Rightarrow> json \<Rightarrow> ('z server_state_scheme, unit) act" where
  "notify_elevation_pending e cfg elevation_id agent_id expires_at rule_ids user_id =
     (if \<not> opt_truthy (cfg_elevation_webhook_url cfg) then ret ()
      else modS (\<lambda>s. s\<lparr>webhook_posts := webhook_posts s @ [(the (cfg_elevation_webhook_url cfg),
        [(''event'', JStr ''elevation_pending''), (''elevation_id'', JStr elevation_id),
         (''agent_id'', JStr agent_id), (''expires_at'', JStr (isoformat expires_at)),
         (''rule_ids'', JArr (map JStr rule_ids)), (''user_id'', user_id),
         (''timestamp'', JStr (isoformat (now e)))])]\<rparr>))"

definition elevation_context :: "framework_message \<Rightarrow> policy_decision \<Rightarrow> obj" where
  "elevation_context m d =
     [(''matched_rules'', JArr (map JStr (rule_ids_of d))), (''metadata'', JObj (pd_metadata d))]
     @ (if truthy (pget m ''pending_replay'') then [(''pending_replay'', pget m ''pending_replay'')] else [])"

definition elevate ::
  "env \<Rightarrow> services \<Rightarrow> framework_message \<Rightarrow> policy_decision \<Rightarrow> ('z server_state_scheme, framework_message) act" where
  "elevate e sv m d =
     (let expires_at = now e + hours (cfg_elevation_ttl_hours (sv_config sv)) in
      bindA (create_elevation e (dump_message e False m) (elevation_context m d) expires_at ''pending'') (\<lambda>elevation_id.
      thenA (log_security_event e ''elevation_pending''
               [(''elevation_id'', JStr elevation_id), (''user_id'', meta_user d),
                (''rule_ids'', JArr (map JStr (rule_ids_of d))), (''expires_at'', JStr (isoformat expires_at))]
               (Some (msg_correlation_id m)) None (Some (m_agent m)) (Some (msg_id m)) (Some ''elevate'') (rule_ids_of d))
     (thenA (notify_elevation_pending e (sv_config sv) elevation_id (m_agent m) expires_at (rule_ids_of d) (meta_user d))
        (ret (refuse e m SERVER_ELEVATION_REQUIRED LPOLICY ''Policy requires elevation'' True
                [(''elevation_id'', JStr elevation_id)])))))"

section \<open>Dispatch of an allowed message\<close>

definition dispatch ::
  "env \<Rightarrow> services \<Rightarrow> framework_message \<Rightarrow> policy_decision \<Rightarrow> ('z server_state_scheme, framework_message) act" where
  "dispatch e sv m d =
     (let w = sv_wiring sv in
      if prefix ''memory:'' (msg_type m) \<and> has_memory w then
        bindA (memory_handle e (sv_memory sv) m (oget (pd_metadata d) ''grant_id'')) (\<lambda>result.
        thenA (whenA (mres_success result \<and> msg_type m = ''memory:write'' \<and> has_quotas w)
                 (thenA (increment_memory_write e (sv_config sv) (m_agent m)) (ret ())))
          (ret (memory_response e m (dump_memory_result result))))
      else if msg_type m = ''llm_request'' \<and> has_llm w then
        (if truthy (pget m ''stream'') then handle_llm_stream e sv m (meta_user d)
         else bindA (llm_handle e (sv_llm sv) m (meta_user d)) (\<lambda>result.
              thenA (whenA (lr_success result \<and> has_quotas w)
                       (thenA (increment_llm_tokens e (user_opt (meta_user d)) (total_tokens result)
                                 (Some (cfg_llm_tokens_daily_limit (sv_config sv)))) (ret ())))
                (ret (llm_response e m (llm_payload result)))))
      else if msg_type m = ''tool_call'' \<and> has_tools w then
        bindA (handle_call e m (meta_user d) (rule_ids_of d)) (\<lambda>result.
        thenA (whenA (ap_approved result \<and> has_behavioral w) (record_approved_tool_call e m))
          (ret (tool_call_response e m (approval_payload result))))
      else if msg_type m = ''tool_result'' \<and> has_tools w then
        bindA (handle_result e m (meta_user d) (rule_ids_of d)) (\<lambda>result.
          ret (tool_result_response e m (ack_payload result)))
      else ret (success_response e m))"

definition apply_decision ::
  "env \<Rightarrow> services \<Rightarrow> framework_message \<Rightarrow> policy_decision \<Rightarrow> ('z server_state_scheme, framework_message) act" where
  "apply_decision e sv m d =
     (if pd_decision d = Deny then
        ret (refuse e m (if pd_effective_error_code d = Some SERVER_QUOTA_EXCEEDED then SERVER_QUOTA_EXCEEDED
                         else SERVER_RBAC_DENIED) LPOLICY ''Policy denied request'' True
               [(''matched_rules'', JArr (map JStr (rule_ids_of d)))])
      else if pd_decision d = Elevate then elevate e sv m d
      else dispatch e sv m d)"

section \<open>The handler\<close>

definition session_for :: "env \<Rightarrow> framework_message \<Rightarrow> int \<Rightarrow> 'z conn_state_scheme \<Rightarrow> session_row option" where
  "session_for e m connection_id s =
     (case validate_connection e connection_id s of
        Some row \<Rightarrow> Some row
      | None \<Rightarrow> validate_token e (extract_session_token (msg_payload m)) s)"

definition session_error :: "framework_message \<Rightarrow> session_row option \<Rightarrow> string option" where
  "session_error m session =
     (case session of
        None \<Rightarrow> Some ''Missing or expired session token''
      | Some row \<Rightarrow>
          if m_agent m \<noteq> se_agent_id row then Some ''Agent ID does not match session''
          else if m_vm m \<noteq> se_vm_id row then Some ''VM ID does not match session''
          else None)"

text \<open>From the policy evaluation on.\<close>

definition evaluate_and_apply ::
  "env \<Rightarrow> services \<Rightarrow> framework_message \<Rightarrow> ('z server_state_scheme, framework_message) act" where
  "evaluate_and_apply e sv m =
     bindA (policy_evaluate e (sv_config sv) (sv_wiring sv) m True []) (\<lambda>d.
     thenA (log_policy_decision e m d)
    (thenA (case pd_policy_facts d of
              None \<Rightarrow> ret ()
            | Some f \<Rightarrow> whenA (has_behavioral (sv_wiring sv)) (record_policy_outcome e m f))
       (apply_decision e sv m d)))"

text \<open>From the check of the turn on.\<close>

definition route_in_session ::
  "env \<Rightarrow> services \<Rightarrow> framework_message \<Rightarrow> ('z server_state_scheme, framework_message) act" where
  "route_in_session e sv m =
     bindA (validate_correlation e (sv_config sv) m) (\<lambda>(valid, error_code).
       if \<not> valid then
         ret (refuse e m (if error_code = Some SERVER_CORRELATION_EXPIRED then SERVER_CORRELATION_EXPIRED
                          else SERVER_CORRELATION_INVALID) LSERVER
                (''Correlation validation failed: '' @ (case error_code of None \<Rightarrow> ''None'' | Some c \<Rightarrow> code_value c))
                True [])
       else thenA (whenA (opening_query m) (register_user_query e (sv_config sv) m))
           (thenA (whenA (has_behavioral (sv_wiring sv)) (record_message_hop e m))
             (evaluate_and_apply e sv m)))"

definition router_handle ::
  "env \<Rightarrow> services \<Rightarrow> framework_message \<Rightarrow> int \<Rightarrow> ('z server_state_scheme, framework_message option) act" where
  "router_handle e sv m connection_id =
     thenA (log_message_hop e m connection_id)
      (if msg_type m = ''handshake'' \<and> msg_class m = SYSTEM then
         bindA (getS cached_rules) (\<lambda>rs.
           handshake_handle e (sv_config sv) (sv_ruleset_hash sv rs) (has_transport (sv_wiring sv)) m connection_id)
       else if msg_type m = ''handshake'' \<and> msg_class m = RESPONSE then
         thenA (whenA (truthy (pget m ''ack'') \<and> has_pending_replay (sv_wiring sv))
                  (thenA (flush_for_vm e (m_agent m) (m_vm m)) (ret ())))
           (ret None)
       else bindA (getS (session_for e m connection_id)) (\<lambda>session.
         case session_error m session of
           Some text \<Rightarrow> ret (Some (refuse e m SERVER_SESSION_INVALID LSERVER text False []))
         | None \<Rightarrow> bindA (route_in_session e sv m) (\<lambda>r. ret (Some r))))"

end
