(* ===== verification/Routing_Invariant.thy ===== *)
theory Routing_Invariant
  imports Router
begin

text \<open>
  The interface between the router and the stores it writes to, as a locale: a state predicate that
  every primitive write reachable from a message preserves is preserved by the handling of any
  message from the connection \<open>conn\<close> and by any stream task.  The invariants of the stores are its interpretations.
\<close>

section \<open>Where a predicate breaks\<close>

lemma bindA_breaks:
  assumes "preserves P m" and "P s" and "\<not> P (snd (bindA m f s))"
  obtains x s' where "m s = (Inr x, s')" and "P s'" and "\<not> P (snd (f x s'))"
  using assms by (auto simp: bindA_def preserves_def split: prod.splits sum.splits)

lemma thenA_breaks:
  assumes "preserves P m" and "P s" and "\<not> P (snd (thenA m k s))"
  obtains x s' where "m s = (Inr x, s')" and "P s'" and "\<not> P (snd (k s'))"
  using assms unfolding thenA_def by (rule bindA_breaks) blast

section \<open>Before the dispatch\<close>

text \<open>What the router has established when it passes a message on: a live session of the sending
  agent and VM, an accepted turn, and an allow decision of the cached rules on the facts gathered in
  the state \<open>t\<close> it has reached, in which the rules are those it started with.\<close>

definition cleared :: "env \<Rightarrow> services \<Rightarrow> framework_message \<Rightarrow> int \<Rightarrow> 'z server_state_scheme \<Rightarrow> bool" where
  "cleared e sv m c s \<longleftrightarrow> session_error m (session_for e m c s) = None
     \<and> (\<exists>er. fst (validate_correlation e (sv_config sv) m s) = Inr (True, er))
     \<and> (\<exists>(t :: 'z server_state_scheme) f d. cached_rules t = cached_rules s \<and> gather e (sv_config sv) (sv_wiring sv) m True [] t = (Inr f, t)
          \<and> decide (cached_rules s) f = Inr d \<and> pd_decision d = Allow)"

lemma log_hop_eq: "\<exists>l. log_message_hop e m c s = (Inr (), s\<lparr>audit_log := l\<rparr>)"
  by (auto simp: audit_events audit_insert_def)

lemma validate_token_log [simp]: "validate_token e t (s\<lparr>audit_log := l\<rparr>) = validate_token e t s"
  by (simp add: validate_token_def get_session_def)

lemma session_for_log [simp]:
  "session_for e m c (s\<lparr>audit_log := l\<rparr>) = session_for e m c (s :: 'z conn_state_scheme)"
  by (simp add: session_for_def validate_connection_def get_connection_token_def split: option.split)

lemma validate_correlation_log [simp]:
  "fst (validate_correlation e cfg m (s\<lparr>audit_log := l\<rparr>)) = fst (validate_correlation e cfg m s)"
  by (auto simp: validate_correlation_def get_turn_state_def delete_turn_state_def update_turn_state_activity_def
      purge_expired_eq split: option.splits)

lemma turn_rules:
  "cached_rules (snd (validate_correlation e cfg m s)) = cached_rules s"
  "cached_rules (snd (whenA b (register_user_query e cfg m) s)) = cached_rules s"
  "cached_rules (snd (whenA b (record_message_hop e m) s)) = cached_rules s"
  by (auto simp: validate_correlation_def register_user_query_def record_message_hop_def count_signal_def whenA_def
      upsert_turn_state_def delete_turn_state_def update_turn_state_activity_def increment_behavioral_counter_def
      purge_expired_eq split: option.splits)

text \<open>The interface of the stores written before the dispatch: a predicate their writes preserve can
  be broken only by a message that has been cleared.\<close>

locale routing_guard =
  fixes P :: "'z server_state_scheme \<Rightarrow> bool" and cfg :: server_config and conn :: int
  assumes inv_audit: "\<And>e t c oc a mi d rs x. preserves P (audit_insert e t c oc a mi d rs x)"
    and inv_session: "\<And>e a v xp. preserves P (create_session e a v xp)"
    and inv_bind_connection: "\<And>tok. preserves P (bind_connection conn tok)"
    and inv_bind_agent: "\<And>ja jv. preserves P (bind_agent ja jv conn)"
    and inv_deliver: "\<And>a v msg. preserves P (deliver a v msg)"
    and inv_delivered: "\<And>i t. preserves P (mark_pending_replay_delivered i t)"
    and inv_correlation: "\<And>e msg. preserves P (validate_correlation e cfg msg)"
    and inv_register: "\<And>e msg. preserves P (register_user_query e cfg msg)"
    and inv_counter: "\<And>e a k b n. preserves P (increment_behavioral_counter e a k b n)"
    and inv_elevation: "\<And>e d x xp st. preserves P (create_elevation e d x xp st)"
    and inv_webhook: "\<And>g. preserves P (modS (\<lambda>s. s\<lparr>webhook_posts := g s\<rparr>))"
begin

lemmas guard_prims = inv_audit inv_session inv_bind_connection inv_bind_agent inv_deliver inv_delivered
  inv_correlation inv_register inv_counter inv_elevation inv_webhook

lemma count_signal: "preserves P (count_signal e a k)"
  unfolding count_signal_def by (intro pres_intro guard_prims)

lemma record_message_hop: "preserves P (record_message_hop e m)"
  unfolding record_message_hop_def by (intro pres_intro count_signal)

lemma record_policy_outcome: "preserves P (record_policy_outcome e m f)"
  unfolding record_policy_outcome_def by (intro pres_intro count_signal)

lemma policy_evaluate: "preserves P (policy_evaluate e c w m v [])"
  by (rule preservesI) (metis policy_evaluate_routed(1) prod.collapse)

lemma elevate: "preserves P (elevate e sv m d)"
  unfolding elevate_def notify_elevation_pending_def Let_def audit_events by (intro pres_intro guard_prims)

lemma flush_rows: "preserves P (flush_rows e a v rows n)"
proof (induction rows arbitrary: n)
  case (Cons row rows)
  then show ?case unfolding flush_rows.simps audit_events by (intro pres_intro guard_prims)
qed (simp add: preserves_ret)

lemma handshake_handle: "preserves P (handshake_handle e c rh tr m conn)"
  unfolding handshake_handle_def admit_def open_session_def Let_def by (intro pres_intro guard_prims)

lemma not_allowed: "pd_decision d \<noteq> Allow \<Longrightarrow> preserves P (apply_decision e sv m d)"
  unfolding apply_decision_def by (cases "pd_decision d") (auto intro: preserves_ret elevate)

lemma evaluate_and_apply_breaks:
  assumes "P s" and "\<not> P (snd (evaluate_and_apply e sv m s))"
  obtains f d where "gather e (sv_config sv) (sv_wiring sv) m True [] s = (Inr f, s)"
    and "decide (cached_rules s) f = Inr d" and "pd_decision d = Allow"
proof -
  from assms(2) obtain d s' where ev: "policy_evaluate e (sv_config sv) (sv_wiring sv) m True [] s = (Inr d, s')"
    and br: "\<not> P (snd (thenA (log_policy_decision e m d) (thenA (case pd_policy_facts d of None \<Rightarrow> ret ()
      | Some f \<Rightarrow> whenA (has_behavioral (sv_wiring sv)) (record_policy_outcome e m f)) (apply_decision e sv m d)) s'))"
    and "P s'"
    unfolding evaluate_and_apply_def by (rule bindA_breaks [OF policy_evaluate assms(1)])
  have "\<not> preserves P (apply_decision e sv m d)"
  proof
    assume "preserves P (apply_decision e sv m d)"
    then have "preserves P (thenA (log_policy_decision e m d) (thenA (case pd_policy_facts d of None \<Rightarrow> ret ()
      | Some f \<Rightarrow> whenA (has_behavioral (sv_wiring sv)) (record_policy_outcome e m f)) (apply_decision e sv m d)))"
      unfolding audit_events by (intro pres_intro guard_prims record_policy_outcome)
    with br \<open>P s'\<close> show False by (blast dest: preservesD)
  qed
  then have "pd_decision d = Allow" using not_allowed by blast
  moreover from policy_evaluate_routed(2) [OF ev refl]
  obtain f where "gather e (sv_config sv) (sv_wiring sv) m True [] s = (Inr f, s)" "decide (cached_rules s) f = Inr d"
    by blast
  ultimately show thesis using that by blast
qed

lemma route_in_session_breaks:
  assumes "sv_config sv = cfg" and "P s" and "\<not> P (snd (route_in_session e sv m s))"
  obtains er f d and t :: "'z server_state_scheme"
    where "fst (validate_correlation e cfg m s) = Inr (True, er)" and "cached_rules t = cached_rules s"
    and "gather e cfg (sv_wiring sv) m True [] t = (Inr f, t)" and "decide (cached_rules s) f = Inr d"
    and "pd_decision d = Allow"
proof -
  let ?tail = "thenA (whenA (opening_query m) (register_user_query e cfg m))
      (thenA (whenA (has_behavioral (sv_wiring sv)) (record_message_hop e m)) (evaluate_and_apply e sv m))"
  let ?f = "\<lambda>(valid, error_code). if \<not> valid then ret (refuse e m
      (if error_code = Some SERVER_CORRELATION_EXPIRED then SERVER_CORRELATION_EXPIRED else SERVER_CORRELATION_INVALID)
      LSERVER (''Correlation validation failed: '' @ (case error_code of None \<Rightarrow> ''None'' | Some c \<Rightarrow> code_value c)) True [])
    else ?tail"
  have "\<not> P (snd (bindA (validate_correlation e cfg m) ?f s))"
    using assms(3) [unfolded route_in_session_def assms(1)] .
  then obtain p s1 where p: "validate_correlation e cfg m s = (Inr p, s1)" "P s1" "\<not> P (snd (?f p s1))"
    by (rule bindA_breaks [OF inv_correlation assms(2)])
  obtain v er where "p = (v, er)" by (cases p)
  with p have v: "validate_correlation e cfg m s = (Inr (v, er), s1)" and "P s1" "v" "\<not> P (snd (?tail s1))"
    by (simp_all split: if_splits)
  moreover have "preserves P (whenA (opening_query m) (register_user_query e cfg m))"
    by (intro pres_intro guard_prims)
  ultimately obtain x2 s2 where s2: "whenA (opening_query m) (register_user_query e cfg m) s1 = (Inr x2, s2)" "P s2"
    "\<not> P (snd (thenA (whenA (has_behavioral (sv_wiring sv)) (record_message_hop e m)) (evaluate_and_apply e sv m) s2))"
    using thenA_breaks by metis
  moreover have "preserves P (whenA (has_behavioral (sv_wiring sv)) (record_message_hop e m))"
    by (intro pres_intro record_message_hop)
  ultimately obtain x3 s3 where s3: "whenA (has_behavioral (sv_wiring sv)) (record_message_hop e m) s2 = (Inr x3, s3)"
    "P s3" "\<not> P (snd (evaluate_and_apply e sv m s3))"
    using thenA_breaks by metis
  have same: "cached_rules s3 = cached_rules s"
    using turn_rules(1) [of e cfg m s] turn_rules(2) [of "opening_query m" e cfg m s1]
      turn_rules(3) [of "has_behavioral (sv_wiring sv)" e m s2] v s2(1) s3(1) by simp
  obtain f d where "gather e (sv_config sv) (sv_wiring sv) m True [] s3 = (Inr f, s3)"
    "decide (cached_rules s3) f = Inr d" "pd_decision d = Allow"
    using evaluate_and_apply_breaks [OF s3(2,3)] by metis
  with v \<open>v\<close> same assms(1) that [of er s3 f d] show thesis by simp
qed

lemma router_handle_breaks:
  assumes cfg: "sv_config sv = cfg" and "P s" and "\<not> P (snd (router_handle e sv m conn s))"
  shows "cleared e sv m conn s"
proof -
  obtain l where l: "log_message_hop e m conn s = (Inr (), s\<lparr>audit_log := l\<rparr>)" using log_hop_eq by blast
  let ?s = "s\<lparr>audit_log := l\<rparr>"
  have "P ?s" using preservesD [of P "log_message_hop e m conn" s] assms(2) l inv_audit by (simp add: audit_events)
  have hs: "preserves P (bindA (getS cached_rules) (\<lambda>rs. handshake_handle e (sv_config sv) (sv_ruleset_hash sv rs)
      (has_transport (sv_wiring sv)) m conn))"
    and fl: "preserves P (thenA (whenA b (thenA (flush_for_vm e (m_agent m) (m_vm m)) (ret ()))) (ret (None :: framework_message option)))" for b
    unfolding flush_for_vm_def by (intro pres_intro handshake_handle flush_rows)+
  let ?rest = "bindA (getS (session_for e m conn)) (\<lambda>session. case session_error m session of
      Some text \<Rightarrow> ret (Some (refuse e m SERVER_SESSION_INVALID LSERVER text False []))
    | None \<Rightarrow> bindA (route_in_session e sv m) (\<lambda>r. ret (Some r)))"
  from assms(3) l have "\<not> P (snd (?rest ?s))"
    using preservesD [OF hs \<open>P ?s\<close>] preservesD [OF fl \<open>P ?s\<close>] by (simp add: router_handle_def split: if_splits)
  then have ses: "session_error m (session_for e m conn ?s) = None" and br: "\<not> P (snd (route_in_session e sv m ?s))"
    using \<open>P ?s\<close> by (simp_all add: bindA_def split: option.splits prod.splits sum.splits)
  obtain er f d t where c: "fst (validate_correlation e cfg m ?s) = Inr (True, er)"
    and t: "cached_rules (t :: 'z server_state_scheme) = cached_rules ?s"
      "gather e cfg (sv_wiring sv) m True [] t = (Inr f, t)" "decide (cached_rules ?s) f = Inr d" "pd_decision d = Allow"
    by (rule route_in_session_breaks [OF cfg \<open>P ?s\<close> br])
  show ?thesis
    unfolding cleared_def cfg
  proof (intro conjI exI)
    show "session_error m (session_for e m conn s) = None" using ses by simp
    show "fst (validate_correlation e cfg m s) = Inr (True, er)" using c by simp
    show "cached_rules t = cached_rules s" "decide (cached_rules s) f = Inr d" using t by simp_all
  qed (fact t)+
qed

end

section \<open>Memory operations\<close>

locale memory_invariant =
  fixes P :: "'z catalog_state_scheme \<Rightarrow> bool"
  assumes inv_memory_audit: "\<And>e t c oc a mi d rs x. preserves P (audit_insert e t c oc a mi d rs x)"
    and inv_memory_create: "\<And>e a v k ct md er x. preserves P (create_memory_record e a v k ct md er x)"
    and inv_memory_delete: "\<And>e i a v. preserves P (soft_delete_memory_record e i a v)"
begin

lemmas memory_prims = inv_memory_audit inv_memory_create inv_memory_delete

lemma memory_failure: "preserves P (memory_failure e m t n op c r g ri)"
  unfolding memory_failure_def audit_events by (intro pres_intro memory_prims)

lemma validate_target_namespace: "preserves P (validate_target_namespace e m t n op g)"
  unfolding validate_target_namespace_def by (intro pres_intro memory_failure)

lemma memory_store: "preserves P (memory_store e svc m p q g)"
  unfolding memory_store_def Let_def audit_events by (intro pres_intro memory_prims memory_failure)

lemma memory_write_op: "preserves P (memory_write_op e svc m g)"
  unfolding memory_write_op_def Let_def
  by (intro pres_intro memory_failure memory_store validate_target_namespace)

lemma memory_query_op: "preserves P (memory_query_op e svc m g)"
  unfolding memory_query_op_def memory_finish_query_def Let_def audit_events
  by (intro pres_intro memory_prims memory_failure validate_target_namespace)

lemma memory_delete_op: "preserves P (memory_delete_op e m g)"
  unfolding memory_delete_op_def Let_def audit_events
  by (intro pres_intro memory_prims memory_failure validate_target_namespace)

lemma memory_handle: "preserves P (memory_handle e svc m g)"
  unfolding memory_handle_def memory_dispatch_def
  by (intro pres_intro memory_write_op memory_query_op memory_delete_op memory_failure)

end

section \<open>Stream tasks\<close>

locale stream_invariant =
  fixes P :: "'z server_state_scheme \<Rightarrow> bool"
  assumes inv_stream_audit: "\<And>e t c oc a mi d rs x. preserves P (audit_insert e t c oc a mi d rs x)"
    and inv_stream_deliver: "\<And>a v msg. preserves P (deliver a v msg)"
    and inv_stream_create: "\<And>e k l w. preserves P (get_or_create_quota_counter e k l w)"
    and inv_stream_quota: "\<And>e k l. preserves P (increment_quota_counter e k l)"
begin

lemmas stream_prims = inv_stream_audit inv_stream_deliver inv_stream_create inv_stream_quota

lemma increment_llm_tokens: "preserves P (increment_llm_tokens e u n l)"
  unfolding increment_llm_tokens_def Let_def by (intro pres_intro stream_prims)

lemma finalize_stream: "preserves P (finalize_stream e p u c d r)"
  unfolding finalize_stream_def Let_def audit_events by (intro pres_intro stream_prims)

lemma deliver_chunks: "preserves P (deliver_chunks e m cs k)"
  by (induction cs arbitrary: k) (auto intro!: pres_intro stream_prims)

lemma llm_failure: "preserves P (llm_failure e m p mo c r)"
  unfolding llm_failure_def audit_events by (intro pres_intro stream_prims)

lemma llm_prepare: "preserves P (llm_prepare e svc m)"
  unfolding llm_prepare_def Let_def by (intro pres_intro llm_failure)

lemma llm_handle: "preserves P (llm_handle e svc m u)"
  unfolding llm_handle_def complete_prepared_def
  by (intro pres_intro llm_prepare finalize_stream llm_failure)

theorem run_llm_stream: "preserves P (run_llm_stream e sv t)"
  unfolding run_llm_stream_def Let_def
  by (intro pres_intro stream_prims deliver_chunks finalize_stream increment_llm_tokens)

end

section \<open>The whole handler\<close>

locale routing_invariant = routing_guard +
  assumes inv_quota_create: "\<And>e k l w. preserves P (get_or_create_quota_counter e k l w)"
    and inv_quota: "\<And>e k l. preserves P (increment_quota_counter e k l)"
    and inv_create_record: "\<And>e a v k ct md er x. preserves P (create_memory_record e a v k ct md er x)"
    and inv_delete_record: "\<And>e i a v. preserves P (soft_delete_memory_record e i a v)"
    and inv_task: "\<And>f. preserves P (modS (\<lambda>s. s\<lparr>stream_tasks := f s\<rparr>))"

sublocale routing_invariant \<subseteq> stream_invariant
  by unfold_locales (fact inv_audit inv_deliver inv_quota_create inv_quota)+

sublocale routing_invariant \<subseteq> memory_invariant
  by unfold_locales (fact inv_audit inv_create_record inv_delete_record)+

context routing_invariant
begin

lemmas prims = guard_prims inv_quota_create inv_quota inv_create_record inv_delete_record inv_task

lemma record_approved_tool_call: "preserves P (record_approved_tool_call e m)"
  unfolding record_approved_tool_call_def by (intro pres_intro count_signal)

lemma increment_memory_write: "preserves P (increment_memory_write e c a)"
  unfolding increment_memory_write_def Let_def by (intro pres_intro prims)

lemma handle_call: "preserves P (handle_call e m u rs)"
  unfolding handle_call_def deny_call_def audit_events by (intro pres_intro prims)

lemma handle_result: "preserves P (handle_result e m u rs)"
  unfolding handle_result_def deny_result_def audit_events by (intro pres_intro prims)

lemma handle_llm_stream: "preserves P (handle_llm_stream e sv m u)"
  unfolding handle_llm_stream_def by (intro pres_intro llm_prepare prims)

lemma dispatch: "preserves P (dispatch e sv m d)"
  unfolding dispatch_def Let_def
  by (intro pres_intro memory_handle increment_memory_write handle_llm_stream llm_handle increment_llm_tokens
      handle_call record_approved_tool_call handle_result)

lemma evaluate_and_apply: "preserves P (evaluate_and_apply e sv m)"
  unfolding evaluate_and_apply_def apply_decision_def audit_events
  by (intro pres_intro policy_evaluate prims record_policy_outcome elevate dispatch)

lemma route_in_session: "sv_config sv = cfg \<Longrightarrow> preserves P (route_in_session e sv m)"
  unfolding route_in_session_def
  by (intro pres_intro evaluate_and_apply record_message_hop; simp add: inv_correlation inv_register)

theorem router_handle: "sv_config sv = cfg \<Longrightarrow> preserves P (router_handle e sv m conn)"
  unfolding router_handle_def flush_for_vm_def audit_events
  by (intro pres_intro prims handshake_handle flush_rows route_in_session) simp

end

end
