(* ===== verification/Router_Facts.thy ===== *)
theory Router_Facts
  imports Routing_Invariant
begin

text \<open>
  The invariants of the stores as interpretations of the routing interface, and the behaviour of
  the router branch by branch: what it refuses without touching anything but the log, what an
  allowed message rests on, and what a message can never change.
\<close>

section \<open>Invariants of every routed message\<close>

lemmas prim_defs = audit_insert_def create_session_def bind_connection_def bind_agent_def deliver_def
  mark_pending_replay_delivered_def increment_behavioral_counter_def get_or_create_quota_counter_def
  increment_quota_counter_def create_memory_record_def insert_memory_row_def insert_record_embedding_def
  set_embedding_ref_def soft_delete_memory_record_def delete_record_embedding_def create_elevation_def

lemmas turn_defs = validate_correlation_def register_user_query_def purge_expired_eq upsert_turn_state_def
  delete_turn_state_def update_turn_state_activity_def

interpretation keys: routing_invariant "db_ok :: 'z server_state_scheme \<Rightarrow> bool" cfg conn for cfg conn
  by unfold_locales (intro pres_intro | simp add: preserves_def db_ok_def)+

text \<open>A predicate that reads only tables no primitive of the router writes.\<close>

type_synonym policy_tables = "agent_row list \<times> rule_row list \<times> policy_rule list \<times> user_row list \<times> group_row list
  \<times> grant_row list \<times> namespace_quota_row list \<times> catalog_row list \<times> setting_row list \<times> capability_catalog"

definition policy_tables :: "'z catalog_state_scheme \<Rightarrow> policy_tables" where
  "policy_tables s = (agents s, rules s, cached_rules s, users s, db_groups s, grants s, namespace_quotas s,
     catalog_entries s, server_settings s, live_catalog s)"

interpretation tables: routing_invariant "\<lambda>s :: 'z server_state_scheme. policy_tables s = pt" cfg conn for pt cfg conn
  by unfold_locales
     (auto simp: preserves_def prim_defs turn_defs policy_tables_def Let_def bindA_def thenA_def
       split: sum.splits option.splits prod.splits)

interpretation log: routing_invariant "\<lambda>s :: 'z server_state_scheme. log_extends l (audit_log s)" cfg conn for l cfg conn
proof unfold_locales
  show "preserves (\<lambda>s :: 'z server_state_scheme. log_extends l (audit_log s)) (audit_insert e t c oc a mi d rs x)"
    for e t c oc a mi d rs x
    by (rule appends_pres [OF audit_insert_appends])
qed (auto simp: preserves_def prim_defs turn_defs Let_def bindA_def thenA_def
       split: sum.splits option.splits prod.splits)

interpretation ids: routing_invariant "\<lambda>s :: 'z server_state_scheme. audit_ok (audit_log s)" cfg conn for cfg conn
proof unfold_locales
  show "preserves (\<lambda>s :: 'z server_state_scheme. audit_ok (audit_log s)) (audit_insert e t c oc a mi d rs x)"
    for e t c oc a mi d rs x by (rule audit_insert_audit_ok)
qed (auto simp: preserves_def prim_defs turn_defs Let_def bindA_def thenA_def
       split: sum.splits option.splits prod.splits)

lemma unchanged_frame:
  "preserves P m \<Longrightarrow> preserves (\<lambda>s. b \<and> P s) m"
  by (auto simp: preserves_def)

interpretation depths: routing_invariant
  "\<lambda>s :: 'z server_state_scheme. 0 \<le> cfg_max_chain_depth cfg \<and> turn_depths_ok cfg s" cfg conn for cfg conn
proof unfold_locales
  show "preserves (\<lambda>s :: 'z server_state_scheme. 0 \<le> cfg_max_chain_depth cfg \<and> turn_depths_ok cfg s)
      (validate_correlation e cfg msg)" for e msg
    by (intro unchanged_frame validate_depths_ok)
  show "preserves (\<lambda>s :: 'z server_state_scheme. 0 \<le> cfg_max_chain_depth cfg \<and> turn_depths_ok cfg s)
      (register_user_query e cfg msg)" for e msg
    using register_depths_ok [of cfg e msg] by (auto simp: preserves_def)
qed (auto simp: preserves_def prim_defs turn_depths_ok_def Let_def bindA_def thenA_def
       split: sum.splits option.splits prod.splits)

section \<open>Complete mediation\<close>

text \<open>What a client gets out of the server beyond a reply: stored memory, spent quota, started streams.\<close>

definition effects where
  "effects s = (memory_records s, memory_embeddings s, quota_counters s, stream_tasks s)"

interpretation mediation: routing_guard "\<lambda>s :: 'z server_state_scheme. effects s = x" cfg conn for x cfg conn
  by unfold_locales
     (auto simp: preserves_def prim_defs turn_defs effects_def Let_def bindA_def thenA_def
       split: sum.splits option.splits prod.splits)

lemma effects_cleared:
  assumes "effects (snd (router_handle e sv m c s)) \<noteq> effects s"
  shows "cleared e sv m c s"
  by (rule mediation.router_handle_breaks [of sv "sv_config sv" s "effects s"]) (simp_all add: assms)

text \<open>A cleared message comes from the agent and the VM of a session that has not expired, and an
  allow rule of the rule store fires for it without a deny rule of its priority or above.\<close>

lemma session_error_None:
  "session_error m (session_for e m c s) = None \<longleftrightarrow>
     (\<exists>row. session_for e m c s = Some row \<and> se_agent_id row = m_agent m \<and> se_vm_id row = m_vm m)"
  by (auto simp: session_error_def split: option.splits)

lemma session_for_live:
  assumes "session_for e m c s = Some row"
  shows "now e < se_expires_at row \<and> row \<in> set (sessions s)"
proof -
  from assms obtain t where "validate_token e t s = Some row"
    by (auto simp: session_for_def validate_connection_def split: option.splits)
  then show ?thesis using lookup_row_SomeD by (fastforce simp: validate_token_Some get_session_def)
qed

lemma cleared_justified:
  assumes "cleared e sv m c s"
  shows "(\<exists>row \<in> set (sessions s). se_agent_id row = m_agent m \<and> se_vm_id row = m_vm m \<and> now e < se_expires_at row)
     \<and> (\<exists>f r. pf_agent_id f = m_agent m \<and> pf_message_type f = msg_type m \<and> r \<in> set (cached_rules s)
          \<and> ru_effect r = Allow \<and> rule_fires r f
          \<and> (\<forall>r' \<in> set (cached_rules s). ru_effect r' = Deny \<and> ru_priority r \<le> ru_priority r' \<longrightarrow> \<not> rule_fires r' f))"
proof -
  from assms obtain row where row: "session_for e m c s = Some row" "se_agent_id row = m_agent m" "se_vm_id row = m_vm m"
    by (auto simp: cleared_def session_error_None)
  from assms obtain f d and t :: "'a server_state_scheme"
    where g: "gather e (sv_config sv) (sv_wiring sv) m True [] t = (Inr f, t)"
      and d: "decide (cached_rules s) f = Inr d" "pd_decision d = Allow"
    unfolding cleared_def by blast
  from decide_allow [OF d] gather_fields(1,2) [OF g] row session_for_live [OF row(1)] show ?thesis by blast
qed

section \<open>Branches\<close>

lemma router_no_session:
  assumes "\<not> (msg_type m = ''handshake'' \<and> (msg_class m = SYSTEM \<or> msg_class m = RESPONSE))"
    and "session_error m (session_for e m c s) = Some text"
  shows "router_handle e sv m c s =
    (Inr (Some (refuse e m SERVER_SESSION_INVALID LSERVER text False [])), snd (log_message_hop e m c s))"
proof -
  obtain l where l: "log_message_hop e m c s = (Inr (), s\<lparr>audit_log := l\<rparr>)" using log_hop_eq by blast
  with assms show ?thesis by (auto simp: router_handle_def)
qed

end
