(* ===== verification/Gateway.thy ===== *)
theory Gateway
  imports Router_Facts Codec
begin

text \<open>
  The transport gateway of \<^verbatim>\<open>server/vsock.py\<close> around the router: a connection is opened under a fresh
  number, its lines are decoded and routed one by one, the reply is written back, and the end of the
  connection, also by an exception, unbinds it.  Together with the stream tasks and the two sweepers
  these are the steps of the running server; the relation \<open>server_step\<close> interleaves them.
\<close>

record gateway_state = server_state +
  next_connection_id :: int

section \<open>One client\<close>

definition open_client :: "('z gateway_state_scheme, int) act" where
  "open_client = bindA (getS next_connection_id) (\<lambda>c.
     thenA (modS (\<lambda>s. s\<lparr>next_connection_id := c + 1\<rparr>))
    (thenA (register_writer c \<lparr>wr_closing = False, wr_broken = False, wr_sent = []\<rparr>)
       (ret c)))"

text \<open>The \<^verbatim>\<open>finally\<close> block.\<close>

definition close_client :: "int \<Rightarrow> ('z conn_state_scheme, unit) act" where
  "close_client c = thenA (unbind_connection c) (unbind c)"

definition write_reply :: "int \<Rightarrow> framework_message \<Rightarrow> ('z conn_state_scheme, unit) act" where
  "write_reply c r = (\<lambda>s.
     case map_of (conn_writers s) c of
       None \<Rightarrow> (Inr (), s)
     | Some w \<Rightarrow>
         if wr_broken w then (Inl RuntimeError, s)
         else if wr_closing w then (Inr (), s)
         else (Inr (), s\<lparr>conn_writers := dput c (w\<lparr>wr_sent := wr_sent w @ [r]\<rparr>) (conn_writers s)\<rparr>))"

text \<open>The body of the loop for one line: a line that is not a message is skipped, but a line over the limit
  of the stream raises in \<^verbatim>\<open>readline\<close>, outside the \<^verbatim>\<open>try\<close>.\<close>

definition serve_line :: "env \<Rightarrow> services \<Rightarrow> int \<Rightarrow> string \<Rightarrow> ('z server_state_scheme, unit) act" where
  "serve_line e sv c text_line = bindA (liftR (readline text_line)) (\<lambda>line.
     case decode_line e line of
       Inl _ \<Rightarrow> ret ()
     | Inr m \<Rightarrow> bindA (router_handle e sv m c) (\<lambda>r.
         case r of None \<Rightarrow> ret () | Some reply \<Rightarrow> write_reply c reply))"

text \<open>An exception leaves the loop through the \<^verbatim>\<open>finally\<close> block.\<close>

definition handle_line :: "env \<Rightarrow> services \<Rightarrow> int \<Rightarrow> string \<Rightarrow> 'z server_state_scheme \<Rightarrow> 'z server_state_scheme" where
  "handle_line e sv c line s =
     (case serve_line e sv c line s of
        (Inr _, s') \<Rightarrow> s'
      | (Inl _, s') \<Rightarrow> snd (close_client c s'))"

section \<open>Sweepers\<close>

definition elevation_sweep_once :: "env \<Rightarrow> ('z db_scheme, nat) act" where
  "elevation_sweep_once e = expire_pending_elevations (now e)"

section \<open>The running server\<close>

definition connected :: "'z conn_state_scheme \<Rightarrow> int \<Rightarrow> bool" where
  "connected s c \<longleftrightarrow> map_of (conn_writers s) c \<noteq> None"

inductive server_step :: "services \<Rightarrow> 'z gateway_state_scheme \<Rightarrow> 'z gateway_state_scheme \<Rightarrow> bool"
  for sv :: services where
  connect: "server_step sv s (snd (open_client s))"
| line: "connected s c \<Longrightarrow> server_step sv s (handle_line e sv c l s)"
| disconnect: "connected s c \<Longrightarrow> server_step sv s (snd (close_client c s))"
| stream: "t \<in> set (stream_tasks s) \<Longrightarrow>
    server_step sv s (snd (run_llm_stream e sv t (s\<lparr>stream_tasks := remove1 t (stream_tasks s)\<rparr>)))"
| memory_sweep: "server_step sv s (snd (sweep_once e (sv_config sv) s))"
| elevation_sweep: "server_step sv s (snd (elevation_sweep_once e s))"

inductive reachable :: "services \<Rightarrow> 'z gateway_state_scheme \<Rightarrow> 'z gateway_state_scheme \<Rightarrow> bool"
  for sv :: services and s0 :: "'z gateway_state_scheme" where
  start: "reachable sv s0 s0"
| step: "reachable sv s0 s \<Longrightarrow> server_step sv s t \<Longrightarrow> reachable sv s0 t"

inductive_cases server_stepE: "server_step sv s t"

section \<open>The interface of an invariant of the running server\<close>

locale server_invariant =
  fixes P :: "'z gateway_state_scheme \<Rightarrow> bool" and sv :: services
  assumes routed: "\<And>e m c s. connected s c \<Longrightarrow> P s \<Longrightarrow> P (snd (router_handle e sv m c s))"
    and streamed: "\<And>e t. preserves P (run_llm_stream e sv t)"
    and opened: "preserves P open_client"
    and closed: "\<And>c. preserves P (close_client c)"
    and written: "\<And>c r. preserves P (write_reply c r)"
    and started: "\<And>f. preserves P (modS (\<lambda>s. s\<lparr>stream_tasks := f s\<rparr>))"
    and swept: "\<And>e. preserves P (sweep_once e (sv_config sv))"
    and expired: "\<And>e. preserves P (elevation_sweep_once e)"
begin

lemma line_served:
  assumes "connected s c" and "P s"
  shows "P (handle_line e sv c l s)"
proof -
  have "P (snd (serve_line e sv c l s))"
  proof (cases "bindE (readline l) (decode_line e)")
    case (Inl x)
    with assms show ?thesis by (cases "readline l") (auto simp: serve_line_def)
  next
    case (Inr m)
    then obtain r s' where r: "router_handle e sv m c s = (r, s')"
      and eq: "serve_line e sv c l s = bindA (router_handle e sv m c)
        (\<lambda>r. case r of None \<Rightarrow> ret () | Some reply \<Rightarrow> write_reply c reply) s"
      by (cases "router_handle e sv m c s") (auto simp: serve_line_def)
    from routed [OF assms, of e m] r have "P s'" by simp
    with eq r written show ?thesis by (auto simp: bindA_def preserves_def split: sum.splits option.splits)
  qed
  then show ?thesis
    using preservesD [OF closed] by (auto simp: handle_line_def split: prod.splits sum.splits)
qed

theorem step_keeps: "server_step sv s t \<Longrightarrow> P s \<Longrightarrow> P t"
proof (induction rule: server_step.induct)
  case (stream t s e)
  then have "P (s\<lparr>stream_tasks := remove1 t (stream_tasks s)\<rparr>)"
    using preservesD [OF started, of s "\<lambda>s. remove1 t (stream_tasks s)"] by simp
  then show ?case by (rule preservesD [OF streamed])
qed (auto intro: line_served preservesD opened closed swept expired)

theorem reachable_keeps: "reachable sv s0 s \<Longrightarrow> P s0 \<Longrightarrow> P s"
  by (induction rule: reachable.induct) (auto intro: step_keeps)

end

section \<open>Invariants\<close>

lemma sweep_frame:
  assumes "\<And>s x. P (s\<lparr>memory_records := x\<rparr>) = P s" and "\<And>s x. P (s\<lparr>memory_embeddings := x\<rparr>) = P s"
  shows "preserves P (sweep_once e cfg)"
  unfolding sweep_once_def purge_where_def hard_delete_record_def delete_record_embedding_def
  by (intro pres_intro preserves_modS) (simp_all add: assms)

lemmas gateway_defs = open_client_def close_client_def unbind_connection_def unbind_def register_writer_def
  write_reply_def elevation_sweep_once_def expire_pending_elevations_def Let_def

lemma write_reply_ok [pres_intro]: "preserves db_ok (write_reply c r)"
  by (auto simp: preserves_def write_reply_def db_ok_def split: option.splits)

lemma open_client_ok [pres_intro]: "preserves db_ok open_client"
  unfolding open_client_def by (intro pres_intro preserves_modS) (simp add: db_ok_def)

lemma close_client_ok [pres_intro]: "preserves db_ok (close_client c)"
  unfolding close_client_def by (intro pres_intro)

lemma elevation_sweep_ok [pres_intro]: "preserves db_ok (elevation_sweep_once e)"
  unfolding elevation_sweep_once_def by (intro pres_intro)

interpretation keys_step: server_invariant "db_ok :: 'z gateway_state_scheme \<Rightarrow> bool" sv for sv
proof unfold_locales
  show "db_ok (snd (router_handle e sv m c s))" if "db_ok s" for e m c and s :: "'z gateway_state_scheme"
    using preservesD [OF keys.router_handle [OF refl]] that .
qed (intro pres_intro keys.run_llm_stream | simp add: preserves_def db_ok_def)+

interpretation ids_step: server_invariant "\<lambda>s :: 'z gateway_state_scheme. audit_ok (audit_log s)" sv for sv
proof unfold_locales
  show "audit_ok (audit_log (snd (router_handle e sv m c s)))" if "audit_ok (audit_log s)"
    for e m c and s :: "'z gateway_state_scheme"
    using preservesD [OF ids.router_handle [OF refl]] that .
qed (rule ids.run_llm_stream sweep_frame | simp add: gateway_defs preserves_def split: option.splits)+

interpretation log_step: server_invariant "\<lambda>s :: 'z gateway_state_scheme. log_extends l (audit_log s)" sv for l sv
proof unfold_locales
  show "log_extends l (audit_log (snd (router_handle e sv m c s)))" if "log_extends l (audit_log s)"
    for e m c and s :: "'z gateway_state_scheme"
    using preservesD [OF log.router_handle [OF refl]] that .
qed (rule log.run_llm_stream sweep_frame | simp add: gateway_defs preserves_def split: option.splits)+

interpretation tables_step: server_invariant "\<lambda>s :: 'z gateway_state_scheme. policy_tables s = pt" sv for pt sv
proof unfold_locales
  show "policy_tables (snd (router_handle e sv m c s)) = pt" if "policy_tables s = pt"
    for e m c and s :: "'z gateway_state_scheme"
    using preservesD [OF tables.router_handle [OF refl]] that .
qed (rule tables.run_llm_stream sweep_frame | simp add: gateway_defs preserves_def policy_tables_def split: option.splits)+

interpretation depths_step: server_invariant
  "\<lambda>s :: 'z gateway_state_scheme. 0 \<le> cfg_max_chain_depth (sv_config sv) \<and> turn_depths_ok (sv_config sv) s" sv for sv
proof unfold_locales
  show "0 \<le> cfg_max_chain_depth (sv_config sv) \<and> turn_depths_ok (sv_config sv) (snd (router_handle e sv m c s))"
    if "0 \<le> cfg_max_chain_depth (sv_config sv) \<and> turn_depths_ok (sv_config sv) s"
    for e m c and s :: "'z gateway_state_scheme"
    using preservesD [OF depths.router_handle [OF refl]] that .
qed (rule depths.run_llm_stream sweep_frame | simp add: gateway_defs preserves_def turn_depths_ok_def split: option.splits)+

section \<open>Connections\<close>

text \<open>Tokens and agent bindings belong to open connections, and the next number is unused.\<close>

definition open_conns :: "'z conn_state_scheme \<Rightarrow> int set" where
  "open_conns s = dom (map_of (conn_writers s))"

definition conns_ok :: "'z gateway_state_scheme \<Rightarrow> bool" where
  "conns_ok s \<longleftrightarrow> dom (map_of (connection_tokens s)) \<subseteq> open_conns s \<and> snd ` set (agent_connections s) \<subseteq> open_conns s
     \<and> (\<forall>c \<in> open_conns s. c < next_connection_id s)"

lemma dput_values: "snd ` set (dput k v d) \<subseteq> insert v (snd ` set d)"
  unfolding dput_def by (induction d) auto

lemma deliver_conns:
  "open_conns (snd (deliver a v m s)) = open_conns s"
  "connection_tokens (snd (deliver a v m s)) = connection_tokens s"
  "agent_connections (snd (deliver a v m s)) = agent_connections s"
  "next_connection_id (snd (deliver a v m s)) = next_connection_id s"
  by (auto simp: deliver_def agent_writer_def open_conns_def split: option.splits)

lemma bind_agent_conns:
  "conn \<in> open_conns s \<Longrightarrow> snd ` set (agent_connections s) \<subseteq> open_conns s \<Longrightarrow>
    snd ` set (dput k conn (agent_connections s)) \<subseteq> open_conns s"
  using dput_values [of k conn "agent_connections s"] by blast

lemma open_conns_agent: "open_conns (s\<lparr>agent_connections := x\<rparr>) = open_conns s"
  by (simp add: open_conns_def)

interpretation conns: routing_invariant "\<lambda>s :: 'z gateway_state_scheme. conn \<in> open_conns s \<and> conns_ok s" cfg conn
  for cfg conn
proof unfold_locales
  show "preserves (\<lambda>s :: 'z gateway_state_scheme. conn \<in> open_conns s \<and> conns_ok s) (bind_agent ja jv conn)" for ja jv
    by (simp add: preserves_def bind_agent_def conns_ok_def bind_agent_conns open_conns_agent)
  show "preserves (\<lambda>s :: 'z gateway_state_scheme. conn \<in> open_conns s \<and> conns_ok s) (deliver a v msg)" for a v msg
    by (simp add: preserves_def conns_ok_def deliver_conns)
qed (auto simp: preserves_def prim_defs turn_defs conns_ok_def open_conns_def Let_def bindA_def thenA_def
       split: sum.splits option.splits prod.splits)

lemma close_conns:
  assumes "conns_ok s"
  shows "conns_ok (snd (close_client c s))"
  using assms by (auto simp: close_client_def unbind_connection_def unbind_def conns_ok_def open_conns_def)

lemma open_client_eq:
  "open_client s = (Inr (next_connection_id s), s\<lparr>next_connection_id := next_connection_id s + 1,
     conn_writers := dput (next_connection_id s) \<lparr>wr_closing = False, wr_broken = False, wr_sent = []\<rparr> (conn_writers s)\<rparr>)"
  by (simp add: open_client_def register_writer_def)

lemma open_conns_opened:
  assumes "conns_ok s"
  shows "conns_ok (snd (open_client s))"
proof -
  let ?t = "snd (open_client s)"
  have o: "open_conns ?t = insert (next_connection_id s) (open_conns s)"
    by (simp add: open_client_eq open_conns_def)
  have r: "connection_tokens ?t = connection_tokens s" "agent_connections ?t = agent_connections s"
    "next_connection_id ?t = next_connection_id s + 1"
    by (simp_all add: open_client_eq)
  from assms show ?thesis unfolding conns_ok_def o r by force
qed

lemma write_conns: "conns_ok s \<Longrightarrow> conns_ok (snd (write_reply c r s))"
  by (auto simp: write_reply_def conns_ok_def open_conns_def split: option.splits)

interpretation conns_stream: stream_invariant "conns_ok :: 'z gateway_state_scheme \<Rightarrow> bool"
proof unfold_locales
  show "preserves conns_ok (deliver a v msg :: ('z gateway_state_scheme, bool) act)" for a v msg
    by (simp add: preserves_def conns_ok_def deliver_conns)
qed (auto simp: preserves_def audit_insert_def get_or_create_quota_counter_def increment_quota_counter_def
       conns_ok_def open_conns_def Let_def bindA_def thenA_def split: sum.splits option.splits prod.splits)

lemma other_conns:
  "conns_ok s \<Longrightarrow> conns_ok (s\<lparr>stream_tasks := x\<rparr>)"
  "conns_ok (s\<lparr>memory_records := y\<rparr>) = conns_ok s" "conns_ok (s\<lparr>memory_embeddings := z\<rparr>) = conns_ok s"
  "conns_ok s \<Longrightarrow> conns_ok (snd (elevation_sweep_once e s))"
  by (simp_all add: conns_ok_def open_conns_def elevation_sweep_once_def expire_pending_elevations_def Let_def)

interpretation conns_step: server_invariant "conns_ok :: 'z gateway_state_scheme \<Rightarrow> bool" sv for sv
proof unfold_locales
  show "conns_ok (snd (router_handle e sv m c s))" if "connected s c" "conns_ok s"
    for e m c and s :: "'z gateway_state_scheme"
    using preservesD [OF conns.router_handle [OF refl], of c s e sv m] that by (auto simp: connected_def open_conns_def)
qed (intro conns_stream.run_llm_stream sweep_frame
   | simp add: preserves_def open_conns_opened close_conns write_conns other_conns)+

end
