(* ===== verification/Elevations.thy ===== *)
theory Elevations
  imports Gateway
begin

text \<open>
  What happens to a request the policy has put aside: the replay of \<^verbatim>\<open>memory/elevation_replay.py\<close> and
  the approval and denial endpoints of \<^verbatim>\<open>management/api.py\<close>.  An HTTP error is a value: its status and
  its code.  The body of an approval is taken as parsed, its grant with the fields \<^verbatim>\<open>GrantCreate\<close> has.
\<close>

section \<open>What is replayed\<close>

definition MEMORY_REPLAY_TYPES :: "string list" where
  "MEMORY_REPLAY_TYPES = [''memory:query'', ''memory:write'', ''memory:delete'']"

definition resolve_replay_message :: "elevation_row \<Rightarrow> obj option res" where
  "resolve_replay_message el =
     (case oget (el_message el) ''type'' of
        JStr t \<Rightarrow>
          if t \<in> set MEMORY_REPLAY_TYPES then Inr (Some (el_message el))
          else if t = ''memory:grant_request'' then
            (case oget (el_context el) ''pending_replay'' of JObj d \<Rightarrow> Inr (Some d) | _ \<Rightarrow> Inr None)
          else Inr None
      | JArr _ \<Rightarrow> Inl TypeError
      | JObj _ \<Rightarrow> Inl TypeError
      | _ \<Rightarrow> Inr None)"

definition build_memory_response :: "env \<Rightarrow> framework_message \<Rightarrow> obj \<Rightarrow> framework_message" where
  "build_memory_response e m payload =
     server_reply e ''replay_response'' m RESPONSE (msg_type m @ ''_response'') MEMORY_RESULT (origin_id m)
       (oset ''original_type'' (JStr (msg_type m)) payload)"

definition build_grant_created_notification ::
  "env \<Rightarrow> uuid option \<Rightarrow> string \<Rightarrow> string \<Rightarrow> string \<Rightarrow> string \<Rightarrow> bool \<Rightarrow> framework_message" where
  "build_grant_created_notification e turn_id elevation_id grant_id target namespace replay_delivered =
     new_message e ''grant_created''
       \<lparr>src_agent_id = ''corvus-server'', src_engine = CORVUS_NODE, src_vm_id = ''server''\<rparr>
       \<lparr>dst_type = TO_ENGINE, dst_target = engine_value ENGINE4\<rparr>
       SYSTEM ''memory:grant_created'' (case turn_id of None \<Rightarrow> uuid4 e ''grant_created_turn'' | Some u \<Rightarrow> u)
       (mk_tags BY_SYSTEM turn_id)
       [(''elevation_id'', JStr elevation_id), (''grant_id'', JStr grant_id), (''target_agent_id'', JStr target),
        (''namespace'', JStr namespace), (''replay_delivered'', JBool replay_delivered)]"

section \<open>The replay service\<close>

definition queue_message ::
  "env \<Rightarrow> wiring \<Rightarrow> string \<Rightarrow> string \<Rightarrow> string \<Rightarrow> string \<Rightarrow> framework_message \<Rightarrow> string \<Rightarrow> ('z db_scheme, unit) act" where
  "queue_message e w agent_id vm_id elevation_id grant_id m site =
     whenA (has_pending_replay w)
       (thenA (enqueue_replay e agent_id vm_id elevation_id grant_id m site) (ret ()))"

text \<open>\<^verbatim>\<open>d.get(k) or {}\<close>, then \<^verbatim>\<open>.get\<close> on it.\<close>

definition sub_dict :: "obj \<Rightarrow> string \<Rightarrow> json" where
  "sub_dict d k = py_or (oget d k) (JObj [])"

definition grant_id_from_grant_request ::
  "env \<Rightarrow> elevation_row \<Rightarrow> string \<Rightarrow> ('z db_scheme, string option) act" where
  "grant_id_from_grant_request e el approver =
     (let message = el_message el; payload = sub_dict message ''payload'' in
      if oget message ''type'' \<noteq> JStr ''memory:grant_request'' then ret None
      else bindA (liftR (jget payload ''requested_duration_seconds'' JNull)) (\<lambda>dur.
        bindA (liftR (py_int (py_or dur (JInt 3600)))) (\<lambda>duration.
        bindA (liftR (jget (oget_or message ''source'' (JObj [])) ''agent_id'' JNull)) (\<lambda>subject.
        bindA (liftR (jget payload ''target_agent_id'' JNull)) (\<lambda>target.
        bindA (liftR (jget payload ''namespace'' JNull)) (\<lambda>namespace.
        bindA (liftR (jget payload ''permissions'' JNull)) (\<lambda>perms.
        bindA (liftR (py_iter (py_or perms (JArr [JStr ''read''])))) (\<lambda>permissions.
        bindA (create_grant e (py_str subject) (py_str target) (py_str namespace) permissions approver
                 (Some (IsoAware (now e + seconds duration))) None ''active'') (\<lambda>gid. ret (Some gid))))))))))"

text \<open>The notice names the target and the namespace it is given, or those of the elevated message.\<close>

definition notice_field :: "string option \<Rightarrow> json \<Rightarrow> string \<Rightarrow> string \<Rightarrow> string res" where
  "notice_field given payload k fallback =
     (if opt_truthy given then Inr (the given)
      else bindE (jget payload k JNull) (\<lambda>v. Inr (py_str (py_or v (JStr fallback)))))"

definition parse_uuid :: "env \<Rightarrow> json \<Rightarrow> uuid res" where
  "parse_uuid e v = (case pyd_uuid e (JStr (py_str v)) of Inl _ \<Rightarrow> Inl ValueError | Inr u \<Rightarrow> Inr u)"

definition notice_turn :: "env \<Rightarrow> obj \<Rightarrow> uuid option \<Rightarrow> uuid option res" where
  "notice_turn e message turn_id =
     (case turn_id of
        Some u \<Rightarrow> Inr (Some u)
      | None \<Rightarrow> bindE (jget (sub_dict message ''tags'') ''origin_correlation_id'' JNull) (\<lambda>origin.
          if truthy origin then bindE (parse_uuid e origin) (\<lambda>u. Inr (Some u)) else Inr None))"

definition notify_grant_created ::
  "env \<Rightarrow> wiring \<Rightarrow> elevation_row \<Rightarrow> string \<Rightarrow> bool \<Rightarrow> string option \<Rightarrow> string option \<Rightarrow> uuid option
   \<Rightarrow> ('z conn_state_scheme, bool option) act" where
  "notify_grant_created e w el grant_id replay_delivered target namespace turn_id =
     (let message = el_message el; source = sub_dict message ''source''; payload = sub_dict message ''payload'' in
      bindA (liftR (jget source ''agent_id'' JNull)) (\<lambda>aj.
      let agent_id = py_str (py_or aj (JStr [])) in
      if agent_id = [] then ret None
      else bindA (liftR (notice_turn e message turn_id)) (\<lambda>turn.
        bindA (liftR (jget source ''vm_id'' JNull)) (\<lambda>vj.
        let vm_id = py_str (py_or vj (JStr ''unknown'')) in
        bindA (liftR (notice_field target payload ''target_agent_id'' agent_id)) (\<lambda>tgt.
        bindA (liftR (notice_field namespace payload ''namespace'' ''private'')) (\<lambda>ns.
        let notice = build_grant_created_notification e turn (el_id el) grant_id tgt ns replay_delivered in
        bindA (deliver agent_id vm_id notice) (\<lambda>delivered.
        thenA (whenA (\<not> delivered) (queue_message e w agent_id vm_id (el_id el) grant_id notice ''replay_notice''))
          (ret (Some delivered)))))))))"

record replay_report =
  rp_replayed :: bool
  rp_reason :: "string option"
  rp_grant_id :: "string option"
  rp_replay_delivered :: "bool option"
  rp_pending_replay_queued :: bool
  rp_success :: "bool option"

definition not_replayed :: "string \<Rightarrow> string option \<Rightarrow> bool \<Rightarrow> replay_report" where
  "not_replayed reason grant_id queued = \<lparr>rp_replayed = False, rp_reason = Some reason, rp_grant_id = grant_id,
     rp_replay_delivered = None, rp_pending_replay_queued = queued, rp_success = None\<rparr>"

definition report_obj :: "replay_report \<Rightarrow> obj" where
  "report_obj r =
     (if rp_replayed r then
        [(''replayed'', JBool True), (''grant_id'', jopt (rp_grant_id r)),
         (''replay_delivered'', JBool (rp_replay_delivered r = Some True)),
         (''pending_replay_queued'', JBool (rp_pending_replay_queued r)), (''success'', JBool (rp_success r = Some True))]
      else [(''replayed'', JBool False), (''reason'', jopt (rp_reason r))]
        @ (if rp_grant_id r = None then []
           else [(''grant_id'', jopt (rp_grant_id r)), (''pending_replay_queued'', JBool (rp_pending_replay_queued r))]))"

text \<open>The message that is replayed: the stored one with the grant put into its payload.\<close>

definition replay_raw :: "obj \<Rightarrow> string \<Rightarrow> (obj \<times> obj) res" where
  "replay_raw raw grant_id = bindE (py_dict (sub_dict raw ''payload'')) (\<lambda>p.
     let payload = oset ''grant_id'' (JStr grant_id) p in Inr (payload, oset ''payload'' (JObj payload) raw))"

definition replay_memory ::
  "env \<Rightarrow> services \<Rightarrow> elevation_row \<Rightarrow> string \<Rightarrow> string \<Rightarrow> obj \<Rightarrow> framework_message
   \<Rightarrow> ('z catalog_state_scheme, replay_report) act" where
  "replay_memory e sv el grant_id approver payload m =
     bindA (memory_handle e (sv_memory sv) m (JStr grant_id)) (\<lambda>result.
     let response = build_memory_response e m (dump_memory_result result) in
     bindA (deliver (m_agent m) (m_vm m) response) (\<lambda>delivered.
     thenA (whenA (\<not> delivered)
              (queue_message e (sv_wiring sv) (m_agent m) (m_vm m) (el_id el) grant_id response ''replay_result''))
    (bindA (notify_grant_created e (sv_wiring sv) el grant_id delivered
              (Some (py_str (oget_or payload ''target_agent_id'' (JStr (m_agent m)))))
              (Some (py_str (oget_or payload ''namespace'' (JStr ''private''))))
              (tag_origin_correlation_id (msg_tags m))) (\<lambda>noticed.
     let queued = (\<not> delivered \<or> noticed = Some False) in
     thenA (log_security_event e ''elevation_replay''
              [(''elevation_id'', JStr (el_id el)), (''grant_id'', JStr grant_id),
               (''approver_user_id'', JStr approver), (''replay_type'', JStr (msg_type m)),
               (''replay_delivered'', JBool delivered), (''pending_replay_queued'', JBool queued),
               (''success'', JBool (mres_success result))]
              (Some (msg_correlation_id m)) None (Some (m_agent m)) None None [])
       (ret \<lparr>rp_replayed = True, rp_reason = None, rp_grant_id = Some grant_id,
            rp_replay_delivered = Some delivered, rp_pending_replay_queued = queued,
            rp_success = Some (mres_success result)\<rparr>)))))"

definition replay_after_approval ::
  "env \<Rightarrow> services \<Rightarrow> string \<Rightarrow> string option \<Rightarrow> string \<Rightarrow> ('z catalog_state_scheme, replay_report) act" where
  "replay_after_approval e sv elevation_id grant_id approver =
     bindA (getS (get_elevation elevation_id)) (\<lambda>row.
       case row of
         None \<Rightarrow> ret (not_replayed ''elevation_not_found'' None False)
       | Some el \<Rightarrow>
           bindA (case grant_id of Some g \<Rightarrow> ret (Some g) | None \<Rightarrow> grant_id_from_grant_request e el approver) (\<lambda>gid.
             case gid of
               None \<Rightarrow> ret (not_replayed ''no_grant_for_replay'' None False)
             | Some g \<Rightarrow>
                 bindA (liftR (resolve_replay_message el)) (\<lambda>target.
                   case target of
                     None \<Rightarrow>
                       bindA (notify_grant_created e (sv_wiring sv) el g False None None None) (\<lambda>noticed.
                         ret (not_replayed ''no_replay_target'' (Some g) (noticed = Some False)))
                   | Some raw \<Rightarrow>
                       bindA (liftR (replay_raw raw g)) (\<lambda>(payload, full).
                       bindA (liftR (validate_message e full)) (\<lambda>m.
                         replay_memory e sv el g approver payload m)))))"

section \<open>The endpoints\<close>

type_synonym http_error = "nat \<times> string"

record grant_request =
  gq_subject_agent :: string
  gq_target_agent :: string
  gq_namespace :: string
  gq_permissions :: "json list"
  gq_expires_at :: "iso_text option"

record elevation_decision =
  ed_approver_user_id :: string
  ed_pin :: "string option"
  ed_password :: "string option"
  ed_create_grant :: "grant_request option"

definition approver_allowed :: "obj \<Rightarrow> bool res" where
  "approver_allowed user =
     bindE (py_set (oget_or user ''privileges'' (JArr []))) (\<lambda>privileges.
     bindE (py_set (oget_or user ''groups'' (JArr []))) (\<lambda>groups.
     Inr (oget user ''role'' = JStr ''admin'' \<or> JStr ''approve_elevation'' \<in> set privileges
        \<or> JStr ''can_approve_elevation'' \<in> set privileges \<or> JStr ''admins'' \<in> set groups
        \<or> JStr ''elevation-approvers'' \<in> set groups)))"

definition require_elevation_approver ::
  "env \<Rightarrow> elevation_decision \<Rightarrow> 'z db_scheme \<Rightarrow> (http_error + obj) res" where
  "require_elevation_approver e body s =
     (case get_user (ed_approver_user_id body) s of
        None \<Rightarrow> Inr (Inl (403, ''ELEVATION_APPROVER_DENIED''))
      | Some user \<Rightarrow>
          let secret = (if opt_truthy (ed_pin body) then ed_pin body else ed_password body) in
          if truthy (oget user ''credential_hash'')
             \<and> (\<not> opt_truthy secret \<or> \<not> verify_user_secret e (py_str (oget user ''id'')) (the secret) s)
          then Inr (Inl (403, ''ELEVATION_APPROVER_DENIED''))
          else bindE (approver_allowed user) (\<lambda>ok.
            Inr (if ok then Inr user else Inl (403, ''ELEVATION_APPROVER_DENIED''))))"

text \<open>The part of \<^verbatim>\<open>approve_elevation\<close> after the status has been set.\<close>

definition complete_approval ::
  "env \<Rightarrow> services \<Rightarrow> string \<Rightarrow> string \<Rightarrow> grant_request option
   \<Rightarrow> ('z catalog_state_scheme, string option \<times> replay_report) act" where
  "complete_approval e sv elevation_id approver request =
     bindA (case request of
              None \<Rightarrow> ret None
            | Some g \<Rightarrow> bindA (create_grant e (gq_subject_agent g) (gq_target_agent g) (gq_namespace g)
                (gq_permissions g) approver (gq_expires_at g) None ''active'') (\<lambda>gid. ret (Some gid))) (\<lambda>grant_id.
     bindA (replay_after_approval e sv elevation_id grant_id approver) (\<lambda>replay.
     let final = (if opt_truthy (rp_grant_id replay) \<and> grant_id = None then rp_grant_id replay else grant_id) in
     thenA (log_security_event e ''elevation_approved''
              [(''elevation_id'', JStr elevation_id), (''grant_id'', jopt final),
               (''approver_user_id'', JStr approver), (''replay'', JObj (report_obj replay))]
              None None None None None [])
       (ret (final, replay))))"

definition approve_elevation ::
  "env \<Rightarrow> services \<Rightarrow> string \<Rightarrow> elevation_decision
   \<Rightarrow> ('z catalog_state_scheme, http_error + (string option \<times> replay_report)) act" where
  "approve_elevation e sv elevation_id body =
     bindA (getS (require_elevation_approver e body)) (\<lambda>auth.
     bindA (liftR auth) (\<lambda>user_or_error.
       case user_or_error of
         Inl err \<Rightarrow> ret (Inl err)
       | Inr user \<Rightarrow>
           bindA (getS (get_elevation elevation_id)) (\<lambda>row.
             case row of
               None \<Rightarrow> ret (Inl (404, ''ELEVATION_NOT_FOUND''))
             | Some el \<Rightarrow>
                 if el_status el \<noteq> ''pending'' then ret (Inl (409, ''ELEVATION_NOT_PENDING''))
                 else if el_expires_at el \<le> now e then
                   thenA (update_elevation_status e elevation_id ''expired'') (ret (Inl (409, ''ELEVATION_EXPIRED'')))
                 else bindA (update_elevation_status e elevation_id ''approved'') (\<lambda>updated.
                   if \<not> updated then ret (Inl (404, ''ELEVATION_NOT_FOUND''))
                   else bindA (complete_approval e sv elevation_id (py_str (oget user ''id'')) (ed_create_grant body))
                          (\<lambda>out. ret (Inr out))))))"

definition deny_elevation ::
  "env \<Rightarrow> string \<Rightarrow> elevation_decision \<Rightarrow> ('z db_scheme, http_error + unit) act" where
  "deny_elevation e elevation_id body =
     bindA (getS (require_elevation_approver e body)) (\<lambda>auth.
     bindA (liftR auth) (\<lambda>user_or_error.
       case user_or_error of
         Inl err \<Rightarrow> ret (Inl err)
       | Inr user \<Rightarrow>
           bindA (update_elevation_status e elevation_id ''denied'') (\<lambda>updated.
             if \<not> updated then ret (Inl (404, ''ELEVATION_NOT_FOUND''))
             else thenA (log_security_event e ''elevation_denied''
                    [(''elevation_id'', JStr elevation_id), (''approver_user_id'', JStr (py_str (oget user ''id'')))]
                    None None None None None []) (ret (Inr ())))))"

section \<open>Facts\<close>

lemma queue_message_ok [pres_intro]: "preserves db_ok (queue_message e w a v el g m site)"
  unfolding queue_message_def enqueue_replay_def by (intro pres_intro)

lemma grant_request_ok [pres_intro]: "preserves db_ok (grant_id_from_grant_request e el ap)"
  unfolding grant_id_from_grant_request_def Let_def by (intro pres_intro)

lemma notify_grant_created_ok [pres_intro]: "preserves db_ok (notify_grant_created e w el g rd t n tu)"
  unfolding notify_grant_created_def Let_def by (intro pres_intro)

lemma replay_ok [pres_intro]: "preserves db_ok (replay_after_approval e sv i g ap)"
  unfolding replay_after_approval_def replay_memory_def Let_def by (intro pres_intro)

lemma complete_approval_ok [pres_intro]: "preserves db_ok (complete_approval e sv i ap g)"
  unfolding complete_approval_def Let_def by (intro pres_intro)

lemma approve_elevation_ok [pres_intro]: "preserves db_ok (approve_elevation e sv i body)"
  unfolding approve_elevation_def by (intro pres_intro)

lemma deny_elevation_ok [pres_intro]: "preserves db_ok (deny_elevation e i body)"
  unfolding deny_elevation_def by (intro pres_intro)

text \<open>The replay writes records, grants, queue rows and the log, and leaves the elevations alone.\<close>

interpretation memory_elev: memory_invariant "\<lambda>s :: 'z catalog_state_scheme. elevations s = x" for x
  by unfold_locales
     (auto simp: preserves_def prim_defs Let_def bindA_def thenA_def split: sum.splits option.splits prod.splits)

lemma elevation_frame:
  "preserves (\<lambda>s. elevations s = x) (audit_insert e ty c oc ag mi d rs y)"
  "preserves (\<lambda>s. elevations s = x) (enqueue_pending_replay e a v i ct md ty)"
  "preserves (\<lambda>s. elevations s = x) (create_grant e a v ct ps i io k ty)"
  "preserves (\<lambda>s. elevations s = x) (deliver a v msg)"
  by (auto simp: preserves_def prim_defs enqueue_pending_replay_def create_grant_def Let_def
      split: sum.splits option.splits)

lemma queue_elevations: "preserves (\<lambda>s. elevations s = x) (queue_message e w a v i g m st)"
  unfolding queue_message_def enqueue_replay_def by (intro pres_intro elevation_frame)

lemma notify_elevations: "preserves (\<lambda>s. elevations s = x) (notify_grant_created e w el g rd t n tu)"
  unfolding notify_grant_created_def Let_def by (intro pres_intro elevation_frame queue_elevations)

lemma grant_request_elevations: "preserves (\<lambda>s. elevations s = x) (grant_id_from_grant_request e el ap)"
  unfolding grant_id_from_grant_request_def Let_def by (intro pres_intro elevation_frame)

lemma replay_memory_elevations: "preserves (\<lambda>s. elevations s = x) (replay_memory e sv el g ap p m)"
  unfolding replay_memory_def Let_def audit_events
  by (intro pres_intro elevation_frame queue_elevations notify_elevations memory_elev.memory_handle)

lemma replay_elevations: "preserves (\<lambda>s. elevations s = x) (replay_after_approval e sv i g ap)"
  unfolding replay_after_approval_def
  by (intro pres_intro notify_elevations grant_request_elevations replay_memory_elevations)

lemma complete_approval_elevations: "preserves (\<lambda>s. elevations s = x) (complete_approval e sv i ap g)"
  unfolding complete_approval_def audit_events Let_def
  by (intro pres_intro elevation_frame replay_elevations)

lemma require_approver_Inr:
  assumes "require_elevation_approver e body s = Inr (Inr user)"
  shows "get_user (ed_approver_user_id body) s = Some user \<and> approver_allowed user = Inr True
    \<and> (truthy (oget user ''credential_hash'') \<longrightarrow>
        (\<exists>secret. (ed_pin body = Some secret \<or> ed_password body = Some secret)
           \<and> verify_user_secret e (py_str (oget user ''id'')) secret s))"
  using assms
  by (auto simp: require_elevation_approver_def Let_def opt_truthy_def split: option.splits if_splits)

lemma approve_elevation_success:
  assumes "approve_elevation e sv i body s = (Inr (Inr out), s')"
  obtains el user where "require_elevation_approver e body s = Inr (Inr user)" and "get_elevation i s = Some el"
    and "el_status el = ''pending''" and "now e < el_expires_at el"
    and "elevations s' = update_rows (\<lambda>el. el_id el = i)
      (\<lambda>el. el\<lparr>el_status := ''approved'', el_updated_at := now e\<rparr>) (elevations s)"
proof -
  from assms obtain user el s1 ap where "require_elevation_approver e body s = Inr (Inr user)"
    "get_elevation i s = Some el" "el_status el = ''pending''" "now e < el_expires_at el"
    and s1: "update_elevation_status e i ''approved'' s = (Inr True, s1)"
    and c: "complete_approval e sv i ap (ed_create_grant body) s1 = (Inr out, s')"
    by (auto simp: approve_elevation_def elim!: bindA_InrE thenA_InrE split: sum.splits option.splits if_splits)
  moreover have "elevations s' = elevations s1"
    using preservesD [OF complete_approval_elevations, of s1 "elevations s1" e sv i ap "ed_create_grant body"] c by simp
  ultimately show thesis using that by (auto simp: update_elevation_status_def)
qed

end
