(* ===== verification/End_To_End.thy ===== *)
theory End_To_End
  imports Node Elevations
begin

text \<open>
  The node of the VM against the server: what one side sends is what the other side accepts.  The
  handshake request of \<^verbatim>\<open>node/session.py\<close> is served by \<^verbatim>\<open>server/handshake.py\<close>, the reply goes back over
  the wire, and from then on the router finds the session of the node's messages.
\<close>

section \<open>A handshake that succeeds\<close>

lemma make_error_for_class: "make_error_for e code text rec ja jv d m = Inr r \<Longrightarrow> msg_class r = ERROR"
  by (auto simp: make_error_for_def)

lemma handshake_reply_admits:
  assumes "handshake_handle e cfg rh tr m c s = (Inr (Some r), s')" and "msg_class r \<noteq> ERROR"
  obtains a where "admissible m a s"
    and "admit e cfg rh tr m c a (hs_agent_id m) (hs_vm_id m) s = (Inr (Some r), s')"
proof (cases "\<exists>a. admissible m a s")
  case True
  then obtain a where a: "admissible m a s" by blast
  then have "handshake_handle e cfg rh tr m c s = admit e cfg rh tr m c a (hs_agent_id m) (hs_vm_id m) s"
    by (auto simp: admissible_def handshake_handle_def Let_def)
  with a assms(1) show ?thesis by (intro that [of a]) simp_all
next
  case False
  then have no: "\<not> (truthy (pget m ''manifest_hash'') \<and> truthy (hs_agent_id m) \<and> sql_text (hs_agent_id m) = Inr k
      \<and> get_agent (the k) s = Some a \<and> JStr (ag_manifest_hash a) = pget m ''manifest_hash''
      \<and> unknown_engines a m = Inr [])" for k a
    unfolding admissible_def by (metis option.sel sql_text_truthy truthy.simps(5))
  have "msg_class r = ERROR"
    using assms(1) no
    by (auto simp: handshake_handle_def Let_def bindA_def split: sum.splits option.splits if_splits
        dest!: make_error_for_class)
  with assms(2) show ?thesis by simp
qed

lemma admit_reply:
  assumes "admit e cfg rh tr m c a (JStr agent) (JStr vm) s = (Inr (Some r), s')" and "msg_class r \<noteq> ERROR"
  obtains xp snapshot where "r = handshake_reply e m (uuid4 e ''session'') xp snapshot"
    and "get_connection_token c s' = Some (uuid4 e ''session'')"
    and "get_session (uuid4 e ''session'') s' = Some \<lparr>se_token = uuid4 e ''session'', se_agent_id = agent,
           se_vm_id = vm, se_expires_at = now e + hours (cfg_session_ttl_hours cfg), se_created_at = now e\<rparr>"
proof -
  obtain token xp s1 where o: "open_session e cfg agent vm s = (Inr (token, xp), s1)"
    and rest: "thenA (bind_connection c token) (thenA (whenA tr (bind_agent (JStr agent) (JStr vm) c))
      (if msg_class m = SYSTEM \<and> msg_type m = ''handshake'' then
         (if truthy (pget m ''ack'') then ret None
          else bindA (liftR (policy_snapshot rh (ag_manifest a))) (\<lambda>snapshot.
                 ret (Some (handshake_reply e m token xp snapshot))))
       else bindA (liftR (make_error_for e NODE_VALIDATION_FAILED ''Invalid handshake message'' True
                            (JStr agent) (JStr vm) [] m)) (\<lambda>r. ret (Some r)))) s1 = (Inr (Some r), s')"
    using assms(1) by (auto simp: admit_def elim!: bindA_InrE)
  from open_session_get [OF o] have tok: "token = uuid4 e ''session''"
    and g: "get_session token s1 = Some \<lparr>se_token = token, se_agent_id = agent, se_vm_id = vm,
           se_expires_at = now e + hours (cfg_session_ttl_hours cfg), se_created_at = now e\<rparr>" by simp_all
  from rest assms(2) obtain snapshot where r: "r = handshake_reply e m token xp snapshot"
    and s': "sessions s' = sessions s1" "connection_tokens s' = dput c token (connection_tokens s1)"
    by (auto simp: bind_connection_def bind_agent_def whenA_def dest!: make_error_for_class
        elim!: thenA_InrE bindA_InrE split: if_splits)
  with g tok show thesis by (intro that [of xp snapshot]) (simp_all add: get_session_def get_connection_token_def)
qed

section \<open>The node's session is the server's session\<close>

lemma accept_session_token:
  assumes "accept_session e fi cfg r s = (Inr True, s')"
  shows "ns_session_token s' = pget r ''session_token''"
  using assms
  by (auto simp: accept_session_def wire_write_def elim!: thenA_InrE bindA_InrE split: option.splits if_splits)

lemma accept_session_succeeds:
  assumes "pget r ''session_token'' = JStr token" and "ns_handshake_correlation_id s = Some corr"
    and "bus_writer s = Some w" and "\<not> wr_broken w"
    and "truthy (pget r ''session_expires_at'') \<longrightarrow> (\<exists>x. fi (pget r ''session_expires_at'') = Inr x)"
  shows "\<exists>s'. accept_session e fi cfg r s = (Inr True, s')"
  using assms by (auto simp: accept_session_def build_handshake_ack_def wire_write_def thenA_def bindA_def)

text \<open>The reply arrives whole, the node takes it and the handshake is complete.\<close>

lemma join_completes:
  assumes "pydantic_ok en" and "pyd_datetime_text es = pyd_datetime_text en"
    and "ns_handshake_correlation_id s = Some corr" and "bus_writer s = Some w" and "\<not> wr_broken w"
    and "\<And>t. \<exists>x. fi (JStr (isoformat t)) = Inr x"
    and "payload_ok en (handshake_reply es m token xp snapshot)"
    and "length (encode_message es (handshake_reply es m token xp snapshot)) \<le> stream_limit"
  shows "\<exists>s'. await_session en fi cfg (Suc n) (encode_message es (handshake_reply es m token xp snapshot) # lines) s
           = (Inr True, s') \<and> ns_session_token s' = JStr token"
proof -
  let ?r = "handshake_reply es m token xp snapshot"
  have "encode_message es ?r = encode_message en ?r" using assms(2) by (simp add: encode_message_def dump_message_def)
  moreover have "message_ok ?r" by (simp add: handshake_reply_def)
  ultimately have v: "bindE (readline (encode_message es ?r)) (decode_line en) = Inr ?r"
    using decode_encode [OF assms(1) _ assms(7)] assms(8) by (simp add: readline_def)
  have "msg_class ?r = SYSTEM" "msg_type ?r = ''handshake''" "ohas (msg_payload ?r) ''session_token''"
    and t: "pget ?r ''session_token'' = JStr token" "pget ?r ''session_expires_at'' = JStr (isoformat xp)"
    by (simp_all add: handshake_reply_def new_message_def ohas_def oget_def)
  with v have a: "await_session en fi cfg (Suc n) (encode_message es ?r # lines) s = accept_session en fi cfg ?r s"
    by (simp del: bindE_eq_Inr)
  obtain s' where "accept_session en fi cfg ?r s = (Inr True, s')"
    using accept_session_succeeds [OF t(1) assms(3-5), of fi en cfg] t(2) assms(6) by auto
  with a t(1) accept_session_token [OF this] show ?thesis by auto
qed

lemma request_identity:
  "hs_agent_id (handshake_request e th cfg) = JStr (nc_agent_id cfg)"
  "hs_vm_id (handshake_request e th cfg) = JStr (nc_vm_id cfg)"
  by (simp_all add: hs_agent_id_def hs_vm_id_def handshake_request_def node_message_def new_message_def py_or_def
      oget_def)

text \<open>After the handshake every message the node lets out finds its session at the router, on the
  connection of the handshake or on one that has no session, until the session expires.\<close>

lemma outbound_has_session:
  assumes "handshake_handle es scfg rh tr (handshake_request en th cfg) c s = (Inr (Some r), s')"
    and "msg_class r \<noteq> ERROR" and "uuid4 es ''session'' \<noteq> []"
    and "pydantic_ok en'" and "pyd_datetime_text es = pyd_datetime_text en'"
    and "ns_handshake_correlation_id ns = Some corr" and "bus_writer ns = Some w" and "\<not> wr_broken w"
    and "\<And>t. \<exists>x. fi (JStr (isoformat t)) = Inr x"
    and "payload_ok en' r" and "length (encode_message es r) \<le> stream_limit"
  shows "\<exists>ns'. await_session en' fi cfg (Suc n) (encode_message es r # lines) ns = (Inr True, ns')
     \<and> (\<forall>e' c' reg m. now e' < now es + hours (cfg_session_ttl_hours scfg) \<and> (c' = c \<or> get_connection_token c' s' = None)
          \<longrightarrow> session_error (inject_session (forced_source cfg reg m) ns')
                (session_for e' (inject_session (forced_source cfg reg m) ns') c' s') = None)"
proof -
  let ?token = "uuid4 es ''session''"
  let ?row = "\<lparr>se_token = ?token, se_agent_id = nc_agent_id cfg, se_vm_id = nc_vm_id cfg,
           se_expires_at = now es + hours (cfg_session_ttl_hours scfg), se_created_at = now es\<rparr>"
  from handshake_reply_admits [OF assms(1,2)] obtain a where
    "admit es scfg rh tr (handshake_request en th cfg) c a (JStr (nc_agent_id cfg)) (JStr (nc_vm_id cfg)) s = (Inr (Some r), s')"
    by (metis request_identity)
  then obtain xp snapshot where r: "r = handshake_reply es (handshake_request en th cfg) ?token xp snapshot"
    and c: "get_connection_token c s' = Some ?token" and g: "get_session ?token s' = Some ?row"
    using assms(2) by (rule admit_reply)
  obtain ns' where ns': "await_session en' fi cfg (Suc n) (encode_message es r # lines) ns = (Inr True, ns')"
    and tok: "ns_session_token ns' = JStr ?token"
    using join_completes [where cfg = cfg and fi = fi and n = n and lines = lines and token = "uuid4 es ''session''" and xp = xp
        and snapshot = snapshot and m = "handshake_request en th cfg", OF assms(4-9)] assms(10,11) unfolding r by blast
  have "session_error mm (session_for e' mm c' s') = None"
    if m: "mm = inject_session (forced_source cfg reg m) ns'" and t: "now e' < now es + hours (cfg_session_ttl_hours scfg)"
      and c': "c' = c \<or> get_connection_token c' s' = None" for e' c' reg m mm
  proof -
    have "validate_token e' (Some ?token) s' = Some ?row" using g assms(3) t by (simp add: validate_token_Some)
    moreover have "validate_token e' None s' = None" by (simp add: validate_token_def opt_truthy_def)
    moreover have "extract_session_token (msg_payload mm) = Some ?token" "m_agent mm = nc_agent_id cfg" "m_vm mm = nc_vm_id cfg"
      using tok assms(3) by (simp_all add: m inject_session_def forced_source_def extract_session_token_def oget_def str_if_def)
    ultimately show ?thesis using c' c by (auto simp: session_error_def session_for_def validate_connection_def)
  qed
  with ns' show ?thesis by (intro exI [of _ ns'] conjI allI impI) simp_all
qed

end
