(* ===== verification/Samples.thy ===== *)
theory Samples
  imports End_To_End
begin

text \<open>
  Concrete inputs at which the theorems of the development are instantiated: an environment with
  a fixed clock, the empty database, a message, a rule and the facts of that message.
\<close>

definition env0 :: env where
  "env0 = \<lparr>now = 1000000000, uuid4 = (\<lambda>site. site), pyd_uuid = pyd_str,
     pyd_datetime = pyd_int, pyd_datetime_text = int_str, validation_text = ''validation error'', float_repr = (\<lambda>t. t), sha256 = (\<lambda>s. map of_char s)\<rparr>"

definition db0 :: db where
  "db0 = \<lparr>agents = [], sessions = [], rules = [], audit_log = [], users = [], grants = [], quota_counters = [],
     namespace_quotas = [], memory_records = [], memory_embeddings = [], elevations = [], turn_state = [],
     pending_replay = [], behavioral_counters = [], db_groups = [], catalog_entries = [], server_settings = []\<rparr>"

definition conn0 :: conn_state where
  "conn0 = db.extend db0 \<lparr>cached_rules = [], connection_tokens = [], conn_writers = [], agent_connections = []\<rparr>"

definition cfg0 :: server_config where
  "cfg0 = \<lparr>cfg_turn_timeout_seconds = 300, cfg_max_chain_depth = 16, cfg_session_ttl_hours = 24,
     cfg_memory_soft_delete_retention_hours = 24, cfg_elevation_ttl_hours = 1,
     cfg_elevation_webhook_url = None, cfg_behavioral_grant_denial_window_minutes = 10,
     cfg_behavioral_cross_agent_window_minutes = 1, cfg_behavioral_rate_baseline_minutes = 60,
     cfg_behavioral_tool_zscore_threshold = 3, cfg_behavioral_counter_retention_hours = 24,
     cfg_memory_writes_daily_limit = 10000, cfg_llm_default_provider = ''stub'',
     cfg_llm_tokens_daily_limit = 100000\<rparr>"

definition wiring0 :: wiring where
  "wiring0 = \<lparr>has_behavioral = True, has_memory = True, has_llm = True, has_tools = True, has_quotas = True,
     has_transport = True, has_pending_replay = True\<rparr>"

definition message0 :: "string \<Rightarrow> message_class \<Rightarrow> obj \<Rightarrow> framework_message" where
  "message0 ty cls payload =
     \<lparr>msg_id = ''m1'', msg_correlation_id = ''c1'', msg_sequence = 0, msg_timestamp = 1000000000,
      msg_source = \<lparr>src_agent_id = ''a1'', src_engine = ENGINE4, src_vm_id = ''v1''\<rparr>,
      msg_destination = \<lparr>dst_type = CORVUS_SERVER, dst_target = ''corvus_server''\<rparr>,
      msg_class = cls, msg_type = ty, msg_tags = mk_tags AGENT_INITIATED None,
      msg_security = default_security, msg_payload = payload\<rparr>"

definition subject0 :: rule_subject where
  "subject0 = \<lparr>sub_role = None, sub_agent_id = None, sub_user_id = None, sub_groups = None,
     sub_identity_channel = None, sub_auth_method = None\<rparr>"

definition object0 :: rule_object where
  "object0 = \<lparr>ob_agent_id = None, ob_engine = None, ob_target_agent = None\<rparr>"

definition condition0 :: rule_condition where
  "condition0 = \<lparr>cd_correlation_chain_valid = None, cd_triggered_by = None, cd_scope = None,
     cd_has_valid_grant = None, cd_provider = None, cd_model = None, cd_identity_verified = None,
     cd_dangerous_action = None, cd_tool_name = None, cd_tool_risk_level = None,
     cd_tool_execution_mode = None, cd_provider_tools_requested = None, cd_daily_token_limit = None,
     cd_rate_limit_rpm = None, cd_message_rate_anomaly = None, cd_repeated_grant_denials = None,
     cd_cross_agent_scope_spike = None, cd_tool_pattern_deviation = None\<rparr>"

definition rule0 :: "string \<Rightarrow> int \<Rightarrow> effect \<Rightarrow> policy_rule" where
  "rule0 i p ef = \<lparr>ru_id = i, ru_priority = p, ru_subject = subject0, ru_object = object0,
     ru_action = \<lparr>ac_type = None\<rparr>, ru_condition = condition0, ru_effect = ef, ru_else = False\<rparr>"

definition facts0 :: policy_facts where
  "facts0 = \<lparr>pf_user_id = None, pf_role = ''researcher'', pf_agent_id = ''a1'', pf_engine = ''engine4'',
     pf_message_type = ''memory:read'', pf_correlation_chain_valid = True, pf_triggered_by = ''agent_initiated'',
     pf_scope = ''local'', pf_has_valid_grant = False, pf_grant_id = JNull, pf_grant_reason = None,
     pf_provider = None, pf_model = None, pf_groups = [], pf_privileges = [], pf_allowed_agents = [],
     pf_target_agent_id = None, pf_identity_channel = ''unknown'', pf_identity_alias = None,
     pf_identity_verified = False, pf_auth_method = ''none'', pf_identity_reason = ''unresolved'',
     pf_quota_key = None, pf_quota_remaining_after = None, pf_quota_would_exceed = False,
     pf_quota_would_consume_tokens = None, pf_tool_name = None, pf_command = None,
     pf_tool_risk_level = ''low'', pf_dangerous_action = False, pf_behavioral_signals = [],
     pf_tool_execution_mode = ''local'', pf_provider_tools_requested = False\<rparr>"

lemmas sample_defs = env0_def db0_def conn0_def cfg0_def wiring0_def message0_def subject0_def object0_def
  condition0_def rule0_def facts0_def

text \<open>A running server with one agent, one session bound to connection 1, and the rules \<open>rs\<close>.\<close>

definition manifest0 :: obj where
  "manifest0 = [(''engines'', JObj
     [(''engine1'', JObj [(''tools'', JArr [JStr ''echo''])]),
      (''engine3'', JObj [(''allowed_providers'', JArr [JStr ''stub'']), (''allowed_models'', JArr [JStr ''stub-model''])]),
      (''engine4'', JObj [(''namespaces'', JArr [JStr ''private''])])])]"

definition agent0 :: "string \<Rightarrow> agent_row" where
  "agent0 a = \<lparr>ag_id = a, ag_manifest_hash = ''h1'', ag_manifest = manifest0, ag_created_at = 0\<rparr>"

definition session0 :: session_row where
  "session0 = \<lparr>se_token = ''t1'', se_agent_id = ''a1'', se_vm_id = ''v1'', se_expires_at = 2000000000, se_created_at = 0\<rparr>"

definition turn0 :: turn_row where
  "turn0 = \<lparr>tu_root_correlation_id = ''c1'', tu_agent_id = ''a1'', tu_user_id = None, tu_started_at = 999999999,
     tu_last_activity = 999999999, tu_depth = 0\<rparr>"

definition writer0 :: stream_writer where
  "writer0 = \<lparr>wr_closing = False, wr_broken = False, wr_sent = []\<rparr>"

definition limits0 :: namespace_limits where
  "limits0 = \<lparr>mq_max_records = 10, mq_max_record_bytes = 100, mq_default_ttl_seconds = None\<rparr>"

definition server0 :: "policy_rule list \<Rightarrow> gateway_state" where
  "server0 rs = db.extend (db0\<lparr>agents := [agent0 ''a1'', agent0 ''a2''], sessions := [session0], turn_state := [turn0]\<rparr>)
     \<lparr>cached_rules = rs, connection_tokens = [(1, ''t1'')], conn_writers = [(1, writer0)],
      agent_connections = [((JStr ''a1'', JStr ''v1''), 1)], live_catalog = DEFAULT_CATALOG,
      stream_tasks = [], webhook_posts = [], next_connection_id = 2\<rparr>"

definition shift_cipher :: crypto where
  "shift_cipher = \<lparr>aes_encrypt = (\<lambda>k n p. map (\<lambda>b. (b + 1) mod 256) p),
     aes_decrypt = (\<lambda>k n c. Inr (map (\<lambda>b. (b + 255) mod 256) c)), urandom12 = replicate 12 7\<rparr>"

definition memory0 :: memory_service where
  "memory0 = \<lparr>ms_encryption_enabled = True, ms_master_key = Some ''mk'', ms_crypto = shift_cipher, ms_knn = (\<lambda>_ _ _. [])\<rparr>"

definition provider0 :: provider_config where
  "provider0 = \<lparr>pc_provider_id = ''stub'', pc_api_base_url = ''stub://local'', pc_credential_ref = ''none'',
     pc_supported_models = [''stub-model''], pc_hosted_tools_allowed = False, pc_allowed_hosted_tools = []\<rparr>"

definition completion0 :: provider_completion where
  "completion0 = \<lparr>cm_content = Some ''hi'', cm_tool_calls = [], cm_usage = [(''prompt_tokens'', 1), (''completion_tokens'', 2)],
     cm_finish_reason = Some ''stop'', cm_provider_tools_used = None\<rparr>"

definition llm0 :: llm_service where
  "llm0 = \<lparr>ls_registry = [(''stub'', provider0)], ls_default_provider = ''stub'', ls_getenv = (\<lambda>_. None),
     ls_read_file = (\<lambda>_. None), ls_complete = (\<lambda>_ _. Completed completion0), ls_stream = (\<lambda>_ _. ([], False)),
     ls_duration_ms = 5\<rparr>"

definition services0 :: services where
  "services0 = \<lparr>sv_config = cfg0, sv_wiring = wiring0\<lparr>has_behavioral := False\<rparr>, sv_memory = memory0, sv_llm = llm0,
     sv_ruleset_hash = (\<lambda>_. ''rh'')\<rparr>"

text \<open>The square root stays symbolic when a sample is evaluated.\<close>

declare refl [code abort: root]

lemmas server_defs = manifest0_def agent0_def session0_def turn0_def writer0_def limits0_def server0_def
  shift_cipher_def memory0_def provider0_def completion0_def llm0_def services0_def

lemma env0_pydantic_ok [simp]: "pydantic_ok env0"
  by (simp add: pydantic_ok_def env0_def parse_int_str)

lemma rule0_applies [simp]: "rule_applies (rule0 i p ef) f"
  by (simp add: rule_applies_def rule0_def subject0_def object0_def subject_matches_def object_matches_def
      opt_match_def)

lemma rule0_conditions [simp]: "conditions_match (ru_condition (rule0 i p ef)) f = Inr (True, ''No conditions'')"
  by (simp add: conditions_match_def rule0_def condition0_def no_conditions_def)

lemma rule0_sel [simp]: "ru_effect (rule0 i p ef) = ef" "ru_priority (rule0 i p ef) = p" "ru_id (rule0 i p ef) = i"
  by (simp_all add: rule0_def)

lemma facts0_allowed [simp]: "\<not> agent_not_allowed facts0"
  by (simp add: agent_not_allowed_def facts0_def)

lemma db0_ok [simp]: "db_ok db0" "db_ok conn0"
  by (simp_all add: db_ok_def db0_def conn0_def db.defs)

definition llm_message0 :: framework_message where
  "llm_message0 = message0 ''llm_request'' REQUEST [(''model'', JStr ''stub-model''), (''messages'', JArr [])]"

lemma server0_db_ok [simp]: "db_ok (server0 rs)"
  by (simp add: db_ok_def server0_def db0_def db.defs keys_ok_def agent0_def session0_def)

text \<open>A run of the sample server: one more client connects.\<close>

lemma server0_run: "reachable sv (server0 rs) (snd (open_client (server0 rs)))"
  by (rule reachable.step [OF reachable.start server_step.connect])

lemma server0_conns_ok [simp]: "conns_ok (server0 rs)"
  by (auto simp: conns_ok_def open_conns_def server0_def db.defs)

lemma server0_audit [simp]: "audit_log (server0 rs) = []" "audit_ok []"
  by (simp_all add: server0_def db.defs db0_def audit_ok_def)

lemma server0_turns [simp]: "turn_depths_ok cfg0 (server0 rs)"
  by (simp add: turn_depths_ok_def server0_def db.defs db0_def turn0_def cfg0_def)

lemma services0_config [simp]: "sv_config services0 = cfg0"
  by (simp add: services0_def)

definition handshake0 :: framework_message where
  "handshake0 = message0 ''handshake'' SYSTEM [(''manifest_hash'', JStr ''h1''), (''registered_engines'', JArr [JStr ''engine1''])]"

definition write0 :: "string \<Rightarrow> framework_message" where
  "write0 target = message0 ''memory:write'' REQUEST [(''target_agent_id'', JStr target), (''namespace'', JStr ''private''),
     (''record'', JObj [(''key'', JStr ''k''), (''content'', JStr ''secret'')])]"

definition query0 :: framework_message where
  "query0 = message0 ''memory:query'' REQUEST [(''namespace'', JStr ''private''), (''query_type'', JStr ''key''),
     (''query'', JObj [(''key'', JStr ''k'')])]"

lemma shift_cipher_ok [simp]: "crypto_ok shift_cipher"
proof -
  have "(\<lambda>b. (b + 255) mod 256) ((b + 1) mod 256) = (b :: nat)" if "b < 256" for b
    using that by (cases "b = 255") (auto simp: mod_simps)
  then show ?thesis by (auto simp: crypto_ok_def shift_cipher_def map_idI)
qed

definition pw0 :: "string \<Rightarrow> memory_write" where
  "pw0 a = \<lparr>mw_target_agent_id = a, mw_namespace = ''private'', mw_key = Some ''k'', mw_content = ''secret'',
     mw_metadata = [], mw_ttl_seconds = None\<rparr>"

lemma parse_write0: "a \<noteq> [] \<Longrightarrow> parse_write (write0 a) = Inr (pw0 a)"
  by (simp add: pw0_def parse_write_def write0_def message0_def oget_def oget_or_def pyd_req_def pyd_def_def Let_def
      payload_target_def py_or_def)

lemma target0: "target_namespace_error (write0 ''a1'') ''a1'' ''private'' JNull (server0 rs) = Inr None"
  by code_simp

lemma quota0:
  "case namespace_quota ''a1'' ''private'' (server0 rs) of Inl _ \<Rightarrow> False
   | Inr q \<Rightarrow> 6 \<le> mq_max_record_bytes q \<and> 0 < mq_max_records q \<and> mq_default_ttl_seconds q = None"
  by code_simp

lemma write0_success:
  "\<exists>x s'. memory_write_op env0 memory0 (write0 ''a1'') JNull (server0 rs) = (Inr x, s') \<and> mres_success x"
proof -
  obtain q where q: "namespace_quota ''a1'' ''private'' (server0 rs) = Inr q" "6 \<le> mq_max_record_bytes q"
    "0 < mq_max_records q"
    using quota0 [of rs] by (auto split: sum.splits)
  have e: "memory_records (server0 rs) = []" "memory_embeddings (server0 rs) = []"
    by (simp_all add: server0_def db.defs db0_def)
  show ?thesis
    using q by (simp add: memory_write_op_def parse_write0 pw0_def validate_target_namespace_def target0
       count_active_memory_records_def e row_count_def memory_store_def memory0_def opt_truthy_def
       create_memory_record_def insert_memory_row_def insert_row_def has_row_def insert_record_embedding_def
       set_embedding_ref_def get_memory_record_def lookup_row_def update_rows_def Let_def audit_events
       audit_insert_def mk_result_def)
qed

lemma parse_query0:
  "parse_query query0 = Inr \<lparr>mqy_target_agent_id = ''a1'', mqy_namespace = ''private'', mqy_query_type = ''key'',
     mqy_key = Some ''k'', mqy_text = None, mqy_limit = 10\<rparr>"
  by (simp add: parse_query_def query0_def message0_def oget_def oget_or_def Let_def payload_target_def py_or_def
      pyd_range_def)

end
