(* ===== verification/Node_Spec.thy ===== *)
theory Node_Spec
  imports Samples
begin

text \<open>
  Properties of the node inside the agent VM and of its session with the server, with the concrete
  node they are instantiated at.
\<close>

section \<open>A sample node\<close>

definition ncfg0 :: node_config where
  "ncfg0 = \<lparr>nc_agent_id = ''a1'', nc_vm_id = ''v1'', nc_manifest_hash = ''h1'', nc_registered_engines = [''engine1''],
     nc_outbound_queue_max = 2, nc_handshake_max_retries = 5, nc_reconnect_base_seconds = 1,
     nc_reconnect_max_seconds = 60\<rparr>"

definition bucket0 :: token_bucket where
  "bucket0 = new_bucket 0 10 20"

definition node0 :: node_state where
  "node0 = \<lparr>vl_policy = JObj DEFAULT_POLICY_SNAPSHOT, vl_buckets = [(''engine4'', bucket0)], bus_writer = Some writer0,
     bus_outbound = [], bus_in_flight = None, bus_delivered = [], bus_handshake_complete = False,
     ns_session_token = JNull, ns_session_expires_at = None, ns_policy_snapshot = JObj DEFAULT_POLICY_SNAPSHOT,
     ns_handshake_complete = False, ns_handshake_correlation_id = Some ''h'',
     ipc_clients = [(ENGINE4, \<lparr>ic_connection = 7, ic_manifest_engine_hash = JNull\<rparr>)], ipc_pending = [],
     ipc_connections = [(7, \<lparr>cn_registered = Some ENGINE4, cn_broken = False, cn_written = []\<rparr>)]\<rparr>"


section \<open>What leaves the VM\<close>



text \<open>C20: The outbound rate of an engine is bounded.  Of all messages an engine other than the loop
  submits between the last refill of its bucket and an instant \<open>T\<close>, whatever they are, the node lets
  at most the burst plus the configured rate times the elapsed time through.\<close>

theorem engine_rate_bounded:
  assumes "map_of (vl_buckets s) (engine_value reg) = Some b" and "bucket_ok b" and "reg \<noteq> LOOP"
    and "sorted (map sub_time subs)" and "\<And>i. i \<in> set subs \<Longrightarrow> tb_last_refill b \<le> sub_time i \<and> sub_time i \<le> T"
    and "tb_last_refill b \<le> T"
  shows "real (admitted (submit_step e reg a v) subs s) \<le> of_int (tb_burst b) + tb_rate b * (T - tb_last_refill b)"
proof -
  have b: "engine_bucket reg s = b" "limited reg s" using assms(1-3) by (simp_all add: engine_bucket_def limited_def)
  have "real (admitted (submit_step e reg a v) subs s) \<le> tb_tokens b + tb_rate b * (T - tb_last_refill b)"
    using outbound.admitted_bound [of reg s subs T e a v] assms(4-6) b by simp
  with assms(2) show ?thesis by (simp add: bucket_ok_def)
qed

theorem engine_rate_bounded_witness:
  "real (admitted (submit_step env0 ENGINE4 ''a1'' ''v1'')
     [\<lparr>sub_time = 1, sub_message = write0 ''a1'', sub_handshake_complete = True, sub_claimed = None\<rparr>] node0) \<le> 30"
proof -
  have "real (admitted (submit_step env0 ENGINE4 ''a1'' ''v1'')
     [\<lparr>sub_time = 1, sub_message = write0 ''a1'', sub_handshake_complete = True, sub_claimed = None\<rparr>] node0)
     \<le> of_int (tb_burst bucket0) + tb_rate bucket0 * (1 - tb_last_refill bucket0)"
    by (rule engine_rate_bounded) (simp_all add: node0_def bucket0_def new_bucket_def bucket_ok_def)
  then show ?thesis by (simp add: bucket0_def new_bucket_def)
qed

text \<open>A paused engine is served again.  A bucket with room for one message that was left alone for
  the time one token takes admits the next message.\<close>

theorem rate_limit_recovers:
  assumes "bucket_ok b" and "0 < tb_rate b" and "1 \<le> tb_burst b" and "1 / tb_rate b \<le> t - tb_last_refill b"
  shows "\<exists>b'. consume t b = (True, b') \<and> bucket_ok b'"
proof -
  obtain ok b' where c: "consume t b = (ok, b')" by (cases "consume t b")
  have "0 \<le> 1 / tb_rate b" using assms(2) by simp
  with assms(4) have "tb_last_refill b \<le> t" by linarith
  with consume_after_pause [OF assms] consume_pays [OF assms(1) _ c] c show ?thesis by auto
qed

theorem rate_limit_recovers_witness: "\<exists>b'. consume 1 bucket0 = (True, b') \<and> bucket_ok b'"
  by (rule rate_limit_recovers) (simp_all add: bucket0_def new_bucket_def bucket_ok_def)

section \<open>The link to the server\<close>

text \<open>C21: The outbound queue is a queue.  Whatever the interleaving of submissions, writes, failed writes
  and reconnections, what the node has handed to the wire, has in flight and still queues is, in this
  order, a subsequence of the messages it accepted; and it is exactly those messages unless a write
  failed while the queue was full.\<close>

theorem outbound_queue_fifo:
  "subseq (bus_content (bus_run cfg evs s)) (bus_content s @ bus_accepted cfg evs s)
   \<and> (overfull cfg evs s \<or> bus_content (bus_run cfg evs s) = bus_content s @ bus_accepted cfg evs s)"
  using bus_run_subseq [of cfg evs s] bus_run_exact [of cfg evs s] by blast

definition burst0 :: "bus_event list" where
  "burst0 = [Send (write0 ''x''), Begin_Write, Send (write0 ''y''), Send (write0 ''z''), End_Write False]"

text \<open>An accepted message can be lost.  When a write fails after new submissions have filled the queue
  again, putting the unsent message back drops the newest accepted one.\<close>

theorem accepted_message_lost:
  "bus_accepted ncfg0 burst0 node0 = [write0 ''x'', write0 ''y'', write0 ''z'']
   \<and> bus_content (bus_run ncfg0 burst0 node0) = [write0 ''x'', write0 ''y'']"
  by (simp add: burst0_def bus_event_step_def bus_send_def write_begin_def write_end_def appendleft_max_def
      close_transport_def node0_def ncfg0_def bus_content_def thenA_def bindA_def)

text \<open>Reconnection backs off exponentially and is capped: the delay after the \<open>k\<close>-th failed attempt is the
  base delay doubled \<open>k\<close> times, or the maximum when that is less.\<close>

theorem reconnect_backoff:
  assumes "reconnect_loop fromiso th cfg as s = (Inr ds, s')" and "k < length ds"
    and "0 < nc_reconnect_base_seconds cfg" and "nc_reconnect_base_seconds cfg \<le> nc_reconnect_max_seconds cfg"
  shows "ds ! k = min (nc_reconnect_base_seconds cfg * 2 ^ k) (nc_reconnect_max_seconds cfg)"
proof -
  from assms(1) obtain s1 where
    "reconnect_attempts fromiso th cfg (nc_reconnect_base_seconds cfg) as s1 = (Inr ds, s')"
    by (auto simp: reconnect_loop_def elim: thenA_InrE)
  from reconnect_delays [OF this assms(2)] backoff_closed [OF assms(3,4)] show ?thesis by simp
qed

theorem reconnect_backoff_witness:
  "\<exists>ds s'. reconnect_loop (\<lambda>_. Inr 0) ''h'' ncfg0 (replicate 8 \<lparr>at_env = env0, at_clock = 0, at_connection = None\<rparr>)
       (node0\<lparr>bus_handshake_complete := True\<rparr>) = (Inr ds, s') \<and> ds ! 7 = 60"
proof -
  let ?as = "replicate 8 \<lparr>at_env = env0, at_clock = 0, at_connection = None\<rparr>"
  let ?s = "node0\<lparr>bus_handshake_complete := True\<rparr>"
  have "case fst (reconnect_loop (\<lambda>_. Inr 0) ''h'' ncfg0 ?as ?s) of Inl _ \<Rightarrow> False | Inr ds \<Rightarrow> 7 < length ds" by code_simp
  then obtain ds s' where r: "reconnect_loop (\<lambda>_. Inr 0) ''h'' ncfg0 ?as ?s = (Inr ds, s')" and l: "7 < length ds"
    by (cases "reconnect_loop (\<lambda>_. Inr 0) ''h'' ncfg0 ?as ?s") (auto split: sum.splits)
  from reconnect_backoff [OF r, of 7] l have "ds ! 7 = 60" by (simp add: ncfg0_def)
  with r show ?thesis by blast
qed

text \<open>Handshake and session fit together.  When the server has answered the node's own handshake
  request with something other than an error, the node takes that answer from the wire and its
  handshake completes; and every message it lets out afterwards, whatever engine submitted it and
  whatever it claimed, passes the router's session check: on the connection of the handshake or on
  one without a session of its own, until the session expires.\<close>

theorem node_session_accepted:
  assumes "handshake_handle es scfg rh tr (handshake_request en th cfg) c s = (Inr (Some r), s')"
    and "msg_class r \<noteq> ERROR" and "uuid4 es ''session'' \<noteq> []"
    and "pydantic_ok en'" and "pyd_datetime_text es = pyd_datetime_text en'"
    and "ns_handshake_correlation_id ns = Some corr" and "bus_writer ns = Some w" and "\<not> wr_broken w"
    and "\<And>t. \<exists>x. fromiso (JStr (isoformat t)) = Inr x"
    and "payload_ok en' r" and "length (encode_message es r) \<le> stream_limit"
  shows "\<exists>ns'. await_session en' fromiso cfg (Suc n) (encode_message es r # lines) ns = (Inr True, ns')
     \<and> (\<forall>e' c' reg m. now e' < now es + hours (cfg_session_ttl_hours scfg) \<and> (c' = c \<or> get_connection_token c' s' = None)
          \<longrightarrow> session_error (inject_session (forced_source cfg reg m) ns')
                (session_for e' (inject_session (forced_source cfg reg m) ns') c' s') = None)"
  using assms by (rule outbound_has_session)

definition snapshot0 :: obj where
  "snapshot0 = DEFAULT_POLICY_SNAPSHOT @ [(''ruleset_hash'', JStr ''rh''),
     (''manifest_engines'', JArr [JStr ''engine1'', JStr ''engine3'', JStr ''engine4'']),
     (''engine1_tools'', JArr [JStr ''echo'']), (''engine3_providers'', JArr [JStr ''stub'']),
     (''engine3_models'', JArr [JStr ''stub-model'']), (''engine4_namespaces'', JArr [JStr ''private''])]"

definition reply0 :: framework_message where
  "reply0 = handshake_reply env0 (handshake_request env0 ''h1'' ncfg0) ''session''
     (now env0 + hours (cfg_session_ttl_hours cfg0)) snapshot0"

lemma handshake_sample:
  "fst (handshake_handle env0 cfg0 ''rh'' True (handshake_request env0 ''h1'' ncfg0) 9 (server0 [])) = Inr (Some reply0)"
  by code_simp

lemma reply0_ok: "payload_ok env0 reply0"
  by code_simp

lemma reply0_texts:
  "isoformat (now env0 + hours (cfg_session_ttl_hours cfg0)) = ''1970-01-02T00:16:40+00:00''"
  "isoformat (now env0) = ''1970-01-01T00:16:40+00:00''"
  by code_simp+

lemma reply0_datetime: "pyd_datetime_text env0 (now env0) = ''1000000000''"
  by (simp add: env0_def int_str_def nat_str.simps)

lemma uuid4_env0: "uuid4 env0 x = x"
  by (simp add: env0_def)

lemma snapshot0_size: "json_size (JObj snapshot0) \<le> 6000"
  by (simp add: snapshot0_def DEFAULT_POLICY_SNAPSHOT_def rate_limit_json_def int_str_def nat_str.simps)

lemma reply0_size: "json_size (JObj (dump_message env0 True reply0)) \<le> 65536"
  using snapshot0_size reply0_texts reply0_datetime uuid4_env0 [of "''handshake_reply''"] uuid4_env0 [of "''handshake''"]
  by (simp add: reply0_def handshake_reply_def new_message_def dump_message_def default_security_def mk_tags_def jopt_def
      handshake_request_def node_message_def int_str_def nat_str.simps del: json_size.simps(7) add: json_size.simps(7) [of "_ # _"])

theorem node_session_accepted_witness:
  "\<exists>s' ns'. handshake_handle env0 cfg0 ''rh'' True (handshake_request env0 ''h1'' ncfg0) 9 (server0 []) = (Inr (Some reply0), s')
     \<and> await_session env0 (\<lambda>_. Inr 0) ncfg0 (Suc 4) [encode_message env0 reply0] node0 = (Inr True, ns')
     \<and> session_error (inject_session (forced_source ncfg0 ENGINE4 (write0 ''a1'')) ns')
         (session_for env0 (inject_session (forced_source ncfg0 ENGINE4 (write0 ''a1'')) ns') 9 s') = None"
proof -
  obtain s' where r: "handshake_handle env0 cfg0 ''rh'' True (handshake_request env0 ''h1'' ncfg0) 9 (server0 []) = (Inr (Some reply0), s')"
    using handshake_sample by (metis prod.collapse)
  have e: "msg_class reply0 \<noteq> ERROR" by (simp add: reply0_def handshake_reply_def new_message_def)
  have l: "length (encode_message env0 reply0) \<le> stream_limit"
    using encode_bound [of env0 reply0] reply0_size by (simp add: stream_limit_def)
  have n: "ns_handshake_correlation_id node0 = Some ''h''" "bus_writer node0 = Some writer0" "\<not> wr_broken writer0"
    by (simp_all add: node0_def writer0_def)
  have u: "uuid4 env0 ''session'' \<noteq> []" and t: "now env0 < now env0 + hours (cfg_session_ttl_hours cfg0)"
    by (simp_all add: env0_def cfg0_def)
  from node_session_accepted [OF r e u env0_pydantic_ok refl n _ reply0_ok l, of "\<lambda>_. Inr 0" 4 "[]"] t r show ?thesis by blast
qed

text \<open>A repeated subscription locks an engine out.  A connection that asks again for an engine that is
  registered, even its own, is refused and forgets its registration; after it has gone the engine is
  still registered, and every later subscription for it is refused.\<close>

theorem resubscription_locks_engine:
  assumes "map_of (ipc_clients s) (en_engine envl) = Some k" and "en_operation envl = SUBSCRIBE_ENGINE"
    and "en_engine envl' = en_engine envl"
    and "s1 = snd (close_ipc c (snd (serve_envelope e t cfg c envl s)))"
  shows "\<exists>s2. subscribe c' envl' s1 = (Inr None, s2) \<and> map_of (ipc_clients s2) (en_engine envl) = Some k"
proof -
  have "map_of (ipc_clients s1) (en_engine envl) = Some k"
    unfolding assms(4) by (rule resubscribe_keeps_client [OF assms(1,2)])
  with subscribe_refused [of s1 envl' k c'] assms(3) show ?thesis by auto
qed

definition resubscribe0 :: ipc_envelope where
  "resubscribe0 = \<lparr>en_operation = SUBSCRIBE_ENGINE, en_engine = ENGINE4, en_message = None, en_payload = None\<rparr>"

theorem resubscription_locks_engine_witness:
  "\<exists>s2 k. subscribe 8 resubscribe0 (snd (close_ipc 7 (snd (serve_envelope env0 0 ncfg0 7 resubscribe0 node0)))) = (Inr None, s2)
     \<and> map_of (ipc_clients s2) (en_engine resubscribe0) = Some k"
proof -
  have "map_of (ipc_clients node0) (en_engine resubscribe0) = Some \<lparr>ic_connection = 7, ic_manifest_engine_hash = JNull\<rparr>"
    by (simp add: node0_def resubscribe0_def)
  from resubscription_locks_engine [OF this _ refl refl] show ?thesis by (fastforce simp: resubscribe0_def)
qed

end
