(* ===== verification/Service_Spec.thy ===== *)
theory Service_Spec
  imports Samples
begin

text \<open>
  Properties of the services behind the router, of the retention sweep, and of the elevation
  endpoints of the management API.
\<close>

section \<open>Memory queries\<close>

text \<open>The rows a query may serve.\<close>

definition servable :: "string \<Rightarrow> string \<Rightarrow> time \<Rightarrow> memory_row \<Rightarrow> bool" where
  "servable a n t r \<longleftrightarrow> mr_agent_id r = a \<and> mr_namespace r = n \<and> live t r"

lemma map_filter_length: "length (List.map_filter f xs) \<le> length xs"
  by (induction xs) (auto simp: List.map_filter_simps split: option.split)

lemma semantic_servable:
  assumes "keys_ok mr_id (memory_records s)"
  shows "set (query_memory_semantic kn q a n t l s) \<subseteq> {r \<in> set (memory_records s). servable a n t r}"
    and "length (query_memory_semantic kn q a n t l s) \<le> l"
proof -
  have "length (query_semantic_record_ids kn q a n t l s) \<le> l" by (simp add: query_semantic_record_ids_def Let_def)
  then show "length (query_memory_semantic kn q a n t l s) \<le> l"
    unfolding query_memory_semantic_def by (rule le_trans [OF map_filter_length])
  show "set (query_memory_semantic kn q a n t l s) \<subseteq> {r \<in> set (memory_records s). servable a n t r}"
  proof
    fix r assume "r \<in> set (query_memory_semantic kn q a n t l s)"
    then obtain i where i: "i \<in> set (query_semantic_record_ids kn q a n t l s)" and g: "get_memory_record i s = Some r"
      by (auto simp: query_memory_semantic_def List.map_filter_def)
    from i obtain r0 where r0: "r0 \<in> set (memory_records s)" "mr_id r0 = i" "servable a n t r0"
      by (auto simp: query_semantic_record_ids_def Let_def list_ex_iff servable_def dest!: in_set_takeD)
    have "lookup_row mr_id i (memory_records s) = Some r0" using lookup_row_in [OF assms r0(1)] r0(2) by simp
    with g r0 show "r \<in> {r \<in> set (memory_records s). servable a n t r}" by (simp add: get_memory_record_def)
  qed
qed

lemma rows_servable:
  "set (query_memory_by_key a n k t l s) \<subseteq> {r \<in> set (memory_records s). servable a n t r}"
  "set (list_memory_records a n t l s) \<subseteq> {r \<in> set (memory_records s). servable a n t r}"
  "length (query_memory_by_key a n k t l s) \<le> l" "length (list_memory_records a n t l s) \<le> l"
  by (auto simp: query_memory_by_key_def list_memory_records_def servable_def dest!: in_set_takeD)

lemma decrypt_row_id:
  assumes "decrypt_row e svc r = Inr r'"
  shows "mr_id r' = mr_id r \<and> mr_agent_id r' = mr_agent_id r \<and> mr_namespace r' = mr_namespace r \<and> mr_key r' = mr_key r"
  using assms by (auto simp: decrypt_row_def split: if_splits)

lemma mapE_Inr_in: "mapE f xs = Inr ys \<Longrightarrow> y \<in> set ys \<Longrightarrow> \<exists>x \<in> set xs. f x = Inr y"
  by (induction xs arbitrary: ys) auto

lemma finish_query_records:
  assumes "memory_finish_query e svc m p rows g s = (Inr x, s')"
  shows "length (mres_records x) = length rows \<and> (\<forall>r \<in> set (mres_records x). \<exists>r0 \<in> set rows. decrypt_row e svc r0 = Inr r)"
proof -
  from assms obtain rs where rs: "mapE (decrypt_row e svc) rows = Inr rs" "mres_records x = rs"
    by (auto simp: memory_finish_query_def mk_result_def elim!: bindA_InrE thenA_InrE)
  show ?thesis unfolding rs(2) using mapE_Inr_length [OF rs(1)] mapE_Inr_in [OF rs(1)] by blast
qed

lemma query_op_rows:
  assumes "memory_query_op e svc m g s = (Inr x, s')" and "mres_success x"
  obtains p rows where "parse_query m = Inr p" and "memory_finish_query e svc m p rows g s = (Inr x, s')"
    and "\<exists>kn q k. rows = query_memory_semantic kn q (mqy_target_agent_id p) (mqy_namespace p) (now e) (nat (mqy_limit p)) s
        \<or> rows = query_memory_by_key (mqy_target_agent_id p) (mqy_namespace p) k (now e) (nat (mqy_limit p)) s
        \<or> rows = list_memory_records (mqy_target_agent_id p) (mqy_namespace p) (now e) (nat (mqy_limit p)) s"
proof -
  from assms(1) obtain p where p: "parse_query m = Inr p" by (auto simp: memory_query_op_def elim!: bindA_InrE)
  let ?a = "mqy_target_agent_id p" and ?n = "mqy_namespace p" and ?l = "nat (mqy_limit p)"
  obtain r s1 where v: "validate_target_namespace e m ?a ?n ''query'' g s = (r, s1)"
    by (cases "validate_target_namespace e m ?a ?n ''query'' g s")
  have r: "r = Inr None" "s1 = s"
    using assms validate_target_namespace_blocks [OF v] v p
    by (auto simp: memory_query_op_def Let_def bindA_def split: sum.splits option.splits)
  have fail: "memory_failure e m t n opn cd rs g i s = (Inr x, s') \<Longrightarrow> False" for t n opn cd rs i
    using memory_failure_not_success assms(2) by blast
  show thesis
  proof (cases "mqy_query_type p = ''semantic''")
    case True
    with assms(1) p v r have "memory_finish_query e svc m p
        (query_memory_semantic (ms_knn svc) (embed_text e EMBEDDING_DIM (the (mqy_text p))) ?a ?n (now e) ?l s) g s = (Inr x, s')"
      by (auto simp: memory_query_op_def Let_def split: if_splits dest: fail)
    then show thesis by (intro that [OF p]) auto
  next
    case nosem: False
    show thesis
    proof (cases "mqy_query_type p = ''key''")
      case True
      with assms(1) p v r have "memory_finish_query e svc m p
          (query_memory_by_key ?a ?n (the (mqy_key p)) (now e) ?l s) g s = (Inr x, s')"
        by (auto simp: memory_query_op_def Let_def split: if_splits dest: fail)
      then show thesis by (intro that [OF p]) auto
    next
      case False
      with nosem assms(1) p v r have "memory_finish_query e svc m p (list_memory_records ?a ?n (now e) ?l s) g s = (Inr x, s')"
        by (simp add: memory_query_op_def Let_def)
      then show thesis by (intro that [OF p]) auto
    qed
  qed
qed

text \<open>C22: A query serves only what it may.  Every record of a successful query is a stored record of the
  target agent and the requested namespace that is neither deleted nor expired at that instant, under
  its own identifier and key, and there are at most as many as the requested limit, which is at most
  one hundred.\<close>

theorem query_serves_live:
  assumes "memory_query_op e svc m g s = (Inr x, s')" and "mres_success x" and "keys_ok mr_id (memory_records s)"
  shows "\<exists>p. parse_query m = Inr p \<and> int (length (mres_records x)) \<le> mqy_limit p \<and> mqy_limit p \<le> 100
     \<and> (\<forall>r \<in> set (mres_records x). \<exists>r0 \<in> set (memory_records s). servable (mqy_target_agent_id p) (mqy_namespace p) (now e) r0
          \<and> mr_id r = mr_id r0 \<and> mr_key r = mr_key r0 \<and> mr_agent_id r = mr_agent_id r0)"
proof -
  obtain p rows where p: "parse_query m = Inr p" and f: "memory_finish_query e svc m p rows g s = (Inr x, s')"
    and rows: "\<exists>kn q k. rows = query_memory_semantic kn q (mqy_target_agent_id p) (mqy_namespace p) (now e) (nat (mqy_limit p)) s
        \<or> rows = query_memory_by_key (mqy_target_agent_id p) (mqy_namespace p) k (now e) (nat (mqy_limit p)) s
        \<or> rows = list_memory_records (mqy_target_agent_id p) (mqy_namespace p) (now e) (nat (mqy_limit p)) s"
    using assms(1,2) by (rule query_op_rows)
  from rows have ok: "set rows \<subseteq> {r \<in> set (memory_records s). servable (mqy_target_agent_id p) (mqy_namespace p) (now e) r}"
      "length rows \<le> nat (mqy_limit p)"
    by (elim exE disjE; simp only: semantic_servable [OF assms(3)] rows_servable)+
  have "int (length (mres_records x)) \<le> mqy_limit p"
    using finish_query_records [OF f] ok(2) parse_query_limit [OF p] by linarith
  moreover have "\<exists>r0 \<in> set (memory_records s). servable (mqy_target_agent_id p) (mqy_namespace p) (now e) r0
      \<and> mr_id r = mr_id r0 \<and> mr_key r = mr_key r0 \<and> mr_agent_id r = mr_agent_id r0" if "r \<in> set (mres_records x)" for r
    using finish_query_records [OF f] that ok(1) decrypt_row_id by fastforce
  ultimately show ?thesis using p parse_query_limit [OF p] by blast
qed

definition served0 :: gateway_state where
  "served0 = (server0 [])\<lparr>memory_records := [\<lparr>mr_id = ''r1'', mr_agent_id = ''a1'', mr_namespace = ''private'', mr_key = Some ''k'',
     mr_content = ''v'', mr_metadata = [], mr_embedding_ref = None, mr_expires_at = None, mr_deleted_at = None,
     mr_version = 1, mr_created_at = 0, mr_updated_at = 0\<rparr>]\<rparr>"

theorem query_serves_live_witness:
  "\<exists>x s'. memory_query_op env0 memory0 query0 JNull served0 = (Inr x, s')
     \<and> (\<forall>r \<in> set (mres_records x). \<exists>r0 \<in> set (memory_records served0). mr_id r = mr_id r0)"
proof -
  have "case fst (memory_query_op env0 memory0 query0 JNull served0) of Inl _ \<Rightarrow> False | Inr x \<Rightarrow> mres_success x" by code_simp
  then obtain x s' where q: "memory_query_op env0 memory0 query0 JNull served0 = (Inr x, s')" "mres_success x"
    by (cases "memory_query_op env0 memory0 query0 JNull served0") (auto split: sum.splits)
  have "keys_ok mr_id (memory_records served0)" by (simp add: served0_def keys_ok_def)
  from query_serves_live [OF q this] q(1) show ?thesis by blast
qed

section \<open>Retention\<close>

text \<open>A retention sweep removes exactly the expired records and the deleted records whose retention is
  over, keeps all others in order, and reports how many of each it removed.\<close>

theorem sweep_is_exact:
  assumes "keys_ok mr_id (memory_records s)"
    and "cutoff = now e - hours (cfg_memory_soft_delete_retention_hours cfg)"
  shows "\<exists>s'. sweep_once e cfg s = (Inr (row_count (past_expiry (now e)) (memory_records s),
        row_count (past_retention cutoff) (memory_records s)), s')
     \<and> memory_records s' = filter (\<lambda>r. \<not> past_expiry (now e) r \<and> \<not> past_retention cutoff r) (memory_records s)"
  using assms by (rule sweep_once_eq)

theorem sweep_is_exact_witness:
  "\<exists>s'. sweep_once env0 cfg0 served0 = (Inr (0, 0), s') \<and> memory_records s' = memory_records served0"
  using sweep_is_exact [of served0 _ env0 cfg0, OF _ refl]
  by (simp add: served0_def keys_ok_def row_count_def past_expiry_def past_retention_def)

section \<open>Tools and models\<close>

text \<open>C23: A tool call is approved only on the strength of the launch manifest.  The sending agent is
  registered and lists the tool, and a skill is read or run only when the manifest lists that skill.\<close>

theorem tool_approval_rests_on_manifest:
  assumes "handle_call e m u rs s = (Inr x, s')" and "ap_approved x"
  shows "\<exists>p a tools. validate_tool_call (msg_payload m) = Inr p \<and> get_agent (m_agent m) s = Some a
     \<and> allowed_tools a = Inr tools \<and> JStr (tc_tool_name p) \<in> set tools \<and> ap_tool_name x = tc_tool_name p
     \<and> (tc_tool_name p \<in> {''skill_read'', ''skill_run''} \<longrightarrow>
          (\<exists>skills. py_set (py_or (oget (ag_manifest a) ''skills'') (JArr [])) = Inr skills
             \<and> JStr (strip (py_str (py_or (oget (tc_arguments p) ''skill'') (py_or (oget (tc_arguments p) ''name'') (JStr [])))))
                 \<in> set skills))"
proof -
  obtain p a tools where "validate_tool_call (msg_payload m) = Inr p" and "get_agent (m_agent m) s = Some a"
    and "allowed_tools a = Inr tools" and "JStr (tc_tool_name p) \<in> set tools"
    and gate: "skill_gate (ag_manifest a) (tc_tool_name p) (tc_arguments p) = Inr None" and "ap_tool_name x = tc_tool_name p"
    using assms by (rule handle_call_approved)
  moreover have "\<exists>skills. py_set (py_or (oget (ag_manifest a) ''skills'') (JArr [])) = Inr skills
      \<and> JStr (strip (py_str (py_or (oget (tc_arguments p) ''skill'') (py_or (oget (tc_arguments p) ''name'') (JStr []))))) \<in> set skills"
    if "tc_tool_name p \<in> {''skill_read'', ''skill_run''}"
    using skill_gate_None [OF gate that] by blast
  ultimately show ?thesis by blast
qed

definition echo0 :: framework_message where
  "echo0 = message0 ''tool_call'' REQUEST [(''tool_name'', JStr ''echo''), (''arguments'', JObj [])]"

theorem tool_approval_rests_on_manifest_witness:
  "\<exists>x s'. handle_call env0 echo0 JNull [] (server0 []) = (Inr x, s') \<and> ap_approved x
     \<and> (\<exists>a tools. get_agent ''a1'' (server0 []) = Some a \<and> allowed_tools a = Inr tools \<and> JStr ''echo'' \<in> set tools)"
proof -
  have "case fst (handle_call env0 echo0 JNull [] (server0 [])) of Inl _ \<Rightarrow> False | Inr x \<Rightarrow> ap_approved x \<and> ap_tool_name x = ''echo''"
    by code_simp
  then obtain x s' where x: "handle_call env0 echo0 JNull [] (server0 []) = (Inr x, s')" "ap_approved x" "ap_tool_name x = ''echo''"
    by (cases "handle_call env0 echo0 JNull [] (server0 [])") (auto split: sum.splits)
  from tool_approval_rests_on_manifest [OF x(1,2)] x show ?thesis by (auto simp: echo0_def message0_def)
qed





section \<open>Elevations\<close>


definition approver0 :: user_row where
  "approver0 = \<lparr>us_id = ''u1'', us_role = ''admin'', us_profile = []\<rparr>"

definition elevation0 :: "string \<Rightarrow> elevation_row" where
  "elevation0 st = \<lparr>el_id = ''e1'', el_status = st, el_message = [], el_context = [], el_expires_at = 2000000000,
     el_created_at = 0, el_updated_at = 0\<rparr>"

definition decision0 :: elevation_decision where
  "decision0 = \<lparr>ed_approver_user_id = ''u1'', ed_pin = None, ed_password = None, ed_create_grant = None\<rparr>"

definition pending0 :: "string \<Rightarrow> gateway_state" where
  "pending0 st = (server0 [])\<lparr>users := [approver0], elevations := [elevation0 st]\<rparr>"


text \<open>A denial overrules any earlier outcome.  Whatever the status of an elevation, also when it was
  already approved and its grant created, a denial by an approver sets it to denied; grants stay as
  they are.\<close>

theorem denial_overrules_approval:
  assumes "require_elevation_approver e body s = Inr (Inr user)" and "get_elevation i s = Some el"
  shows "\<exists>s'. deny_elevation e i body s = (Inr (Inr ()), s') \<and> grants s' = grants s
     \<and> elevations s' = update_rows (\<lambda>el. el_id el = i) (\<lambda>el. el\<lparr>el_status := ''denied'', el_updated_at := now e\<rparr>) (elevations s)"
proof -
  have "row_count (\<lambda>el. el_id el = i) (elevations s) \<noteq> 0"
    using assms(2) lookup_row_SomeD by (fastforce simp: get_elevation_def row_count_def filter_empty_conv)
  then show ?thesis
    using assms(1) by (simp add: deny_elevation_def update_elevation_status_def Let_def audit_events audit_insert_def)
qed

theorem denial_overrules_approval_witness:
  "\<exists>s'. deny_elevation env0 ''e1'' decision0 (pending0 ''approved'') = (Inr (Inr ()), s')
     \<and> elevations s' = [(elevation0 ''denied'')\<lparr>el_updated_at := now env0\<rparr>]"
proof -
  have "case require_elevation_approver env0 decision0 (pending0 ''approved'') of Inr (Inr u) \<Rightarrow> True | _ \<Rightarrow> False" by code_simp
  then obtain u where u: "require_elevation_approver env0 decision0 (pending0 ''approved'') = Inr (Inr u)"
    by (auto split: sum.splits)
  have g: "get_elevation ''e1'' (pending0 ''approved'') = Some (elevation0 ''approved'')"
    by (simp add: get_elevation_def pending0_def elevation0_def)
  from denial_overrules_approval [OF u g] show ?thesis by (auto simp: pending0_def elevation0_def update_rows_def)
qed

section \<open>Encrypted records\<close>

text \<open>A planted flag makes a record unreadable.  When no master key is configured, a live record whose
  metadata claims that it is encrypted, which any writer can claim, makes every query of its key
  raise, however many good records it also matches.\<close>

theorem planted_flag_breaks_queries:
  assumes "parse_query m = Inr q" and "mqy_query_type q = ''key''" and "mqy_key q = Some k" and "k \<noteq> []"
    and "target_namespace_error m (mqy_target_agent_id q) (mqy_namespace q) g s = Inr None"
    and "r \<in> set (query_memory_by_key (mqy_target_agent_id q) (mqy_namespace q) k (now e) (nat (mqy_limit q)) s)"
    and "truthy (oget (mr_metadata r) ''encrypted'')" and "ms_master_key svc = None"
  shows "memory_query_op e svc m g s = (Inl ValueError, s)"
proof -
  have bad: "decrypt_row e svc x = Inl ValueError" if "truthy (oget (mr_metadata x) ''encrypted'')" for x
    using that assms(8) by (simp add: decrypt_row_def opt_truthy_def)
  have good: "decrypt_row e svc x = Inr x" if "\<not> truthy (oget (mr_metadata x) ''encrypted'')" for x
    using that by (simp add: decrypt_row_def)
  have "mapE (decrypt_row e svc) xs = Inl ValueError" if "r \<in> set xs" for xs
    using that assms(7)
  proof (induction xs)
    case (Cons x xs)
    then show ?case by (cases "truthy (oget (mr_metadata x) ''encrypted'')") (auto simp: bad good)
  qed simp
  from this [OF assms(6)] show ?thesis
    unfolding query_op_by_key [OF assms(1-5)] memory_finish_query_def by simp
qed

definition planted0 :: gateway_state where
  "planted0 = (server0 [])\<lparr>memory_records := [\<lparr>mr_id = ''r1'', mr_agent_id = ''a1'', mr_namespace = ''private'', mr_key = Some ''k'',
     mr_content = ''v'', mr_metadata = [(''encrypted'', JBool True)], mr_embedding_ref = None, mr_expires_at = None,
     mr_deleted_at = None, mr_version = 1, mr_created_at = 0, mr_updated_at = 0\<rparr>]\<rparr>"

theorem planted_flag_breaks_queries_witness:
  "memory_query_op env0 (memory0\<lparr>ms_encryption_enabled := False, ms_master_key := None\<rparr>) query0 JNull planted0 = (Inl ValueError, planted0)"
proof (rule planted_flag_breaks_queries [OF parse_query0, where r = "hd (memory_records planted0)"])
  show "target_namespace_error query0 (mqy_target_agent_id \<lparr>mqy_target_agent_id = ''a1'', mqy_namespace = ''private'',
      mqy_query_type = ''key'', mqy_key = Some ''k'', mqy_text = None, mqy_limit = 10\<rparr>)
     (mqy_namespace \<lparr>mqy_target_agent_id = ''a1'', mqy_namespace = ''private'', mqy_query_type = ''key'',
        mqy_key = Some ''k'', mqy_text = None, mqy_limit = 10\<rparr>) JNull planted0 = Inr None"
    by code_simp
qed (simp_all add: planted0_def query_memory_by_key_def order_by_desc_def live_def oget_def)

section \<open>Streams\<close>

text \<open>The chunks a client sees, and the message that carries one.\<close>

definition visible_chunks :: "stream_chunk list \<Rightarrow> stream_chunk list" where
  "visible_chunks cs = filter (\<lambda>c. \<not> sc_is_terminal c \<and> sc_delta c \<noteq> []) cs"

definition chunk_message :: "env \<Rightarrow> framework_message \<Rightarrow> stream_chunk \<Rightarrow> framework_message" where
  "chunk_message e m c =
     llm_stream_chunk e (''chunk:'' @ int_str (sc_index c)) m [(''index'', JInt (sc_index c)), (''delta'', JStr (sc_delta c))]"

text \<open>The connection as the agent sees it.\<close>

definition link :: "framework_message \<Rightarrow> 'z conn_state_scheme \<Rightarrow> (int \<times> stream_writer) option" where
  "link m s = agent_writer (m_agent m) (m_vm m) s"

definition open_writer :: "stream_writer \<Rightarrow> bool" where
  "open_writer w \<longleftrightarrow> \<not> wr_closing w \<and> \<not> wr_broken w"

lemma deliver_open:
  assumes "link m s = Some (c, w)" and "open_writer w"
  shows "\<exists>s'. deliver (m_agent m) (m_vm m) x s = (Inr True, s') \<and> link m s' = Some (c, w\<lparr>wr_sent := wr_sent w @ [x]\<rparr>)"
  using assms agent_writer_after [of "m_agent m" "m_vm m" s c w]
  by (auto simp: link_def deliver_def open_writer_def)

text \<open>The completion of the last terminal chunk.\<close>

fun last_completion :: "provider_completion option \<Rightarrow> stream_chunk list \<Rightarrow> provider_completion option" where
  "last_completion cm [] = cm"
| "last_completion cm (c # cs) = last_completion (if sc_is_terminal c then sc_completion c else cm) cs"

lemma deliver_chunks_open:
  assumes "link m s = Some (c, w)" and "open_writer w"
  shows "\<exists>s'. deliver_chunks e m cs cm s = (Inr (Some (last_completion cm cs)), s')
     \<and> link m s' = Some (c, w\<lparr>wr_sent := wr_sent w @ map (chunk_message e m) (visible_chunks cs)\<rparr>)"
  using assms
proof (induction cs arbitrary: cm s w)
  case (Cons ch cs)
  show ?case
  proof (cases "sc_is_terminal ch \<or> sc_delta ch = []")
    case True
    with Cons.IH [OF Cons.prems] show ?thesis by (auto simp: visible_chunks_def)
  next
    case False
    obtain s1 where s1: "deliver (m_agent m) (m_vm m) (chunk_message e m ch) s = (Inr True, s1)"
      "link m s1 = Some (c, w\<lparr>wr_sent := wr_sent w @ [chunk_message e m ch]\<rparr>)"
      using deliver_open [OF Cons.prems] by blast
    from Cons.IH [OF s1(2)] Cons.prems(2) False s1(1) show ?thesis
      by (auto simp: visible_chunks_def open_writer_def chunk_message_def)
  qed
qed (simp add: visible_chunks_def)

text \<open>Accounting and auditing do not touch the connection and do not fail.\<close>

lemma counter_created:
  "\<exists>q s'. get_or_create_quota_counter e k l w s = (Inr q, s') \<and> get_quota_counter k s' \<noteq> None \<and> link m s' = link m s"
  using quota_create_table.lookup_upsert_same [of "\<lparr>qc_key = k, qc_limit = l, qc_used = 0, qc_window_type = w,
      qc_reset_at = None, qc_updated_at = now e\<rparr>" "quota_counters s"]
  by (auto simp: get_or_create_quota_counter_def get_quota_counter_def Let_def link_def agent_writer_def cong: option.case_cong)

lemma counter_incremented:
  assumes "get_quota_counter k s \<noteq> None"
  shows "\<exists>q s'. increment_quota_counter e k n s = (Inr (Some q), s') \<and> link m s' = link m s"
proof -
  from assms have "row_count (\<lambda>q. qc_key q = k) (quota_counters s) \<noteq> 0"
    by (auto simp: get_quota_counter_def row_count_def filter_empty_conv lookup_row_None_iff)
  with assms show ?thesis
    by (auto simp: increment_quota_counter_def Let_def get_quota_counter_def lookup_row_update link_def agent_writer_def
        cong: option.case_cong)
qed

lemma increment_llm_tokens_link: "\<exists>q s'. increment_llm_tokens e u n l s = (Inr q, s') \<and> link m s' = link m s"
proof -
  let ?k = "llm_tokens_key u" and ?l = "case l of None \<Rightarrow> 100000 | Some l \<Rightarrow> l"
  obtain q s1 where s1: "get_or_create_quota_counter e ?k ?l ''daily'' s = (Inr q, s1)" "get_quota_counter ?k s1 \<noteq> None"
    "link m s1 = link m s"
    using counter_created by blast
  obtain q' s2 where "increment_quota_counter e ?k n s1 = (Inr (Some q'), s2)" "link m s2 = link m s1"
    using counter_incremented [OF s1(2)] by blast
  with s1 show ?thesis
    by (cases "get_quota_counter ?k s") (auto simp: increment_llm_tokens_def Let_def)
qed

lemma finalize_stream_link:
  "\<exists>r s'. finalize_stream e p u c d why s = (Inr r, s') \<and> link m s' = link m s \<and> lr_success r \<and> lr_content r = cm_content c"
  by (auto simp: finalize_stream_def Let_def whenA_def audit_events audit_insert_def link_def agent_writer_def thenA_def bindA_def
      cong: option.case_cong)

text \<open>What a stream task sends: the visible chunks and one final response, which carries the content of the completion.\<close>

lemma run_stream_sends:
  assumes "link (st_message t) s = Some (c, w)" and "open_writer w"
    and "ls_stream (sv_llm sv) (st_prepared t) (build_provider_tool_entries (lp_provider_tool_names (st_prepared t))) = (chunks, fails)"
  shows "\<exists>s' payload. run_llm_stream e sv t s = (Inr (), s')
     \<and> link (st_message t) s' = Some (c, w\<lparr>wr_sent := wr_sent w @ map (chunk_message e (st_message t)) (visible_chunks chunks)
          @ [llm_response e (st_message t) payload]\<rparr>)
     \<and> (\<forall>k. \<not> fails \<and> last_completion None chunks = Some k \<longrightarrow> (\<exists>r. payload = llm_payload r \<and> lr_success r \<and> lr_content r = cm_content k))"
proof -
  let ?m = "st_message t" and ?p = "st_prepared t" and ?cm = "last_completion None chunks"
  obtain s1 where s1: "deliver_chunks e ?m chunks None s = (Inr (Some ?cm), s1)"
    "link ?m s1 = Some (c, w\<lparr>wr_sent := wr_sent w @ map (chunk_message e ?m) (visible_chunks chunks)\<rparr>)"
    using deliver_chunks_open [OF assms(1,2)] by blast
  have send: "\<exists>s'. thenA (deliver (m_agent ?m) (m_vm ?m) (llm_response e ?m payload)) (ret ()) s2 = (Inr (), s')
      \<and> link ?m s' = Some (c, w\<lparr>wr_sent := wr_sent w @ map (chunk_message e ?m) (visible_chunks chunks) @ [llm_response e ?m payload]\<rparr>)"
    if "link ?m s2 = link ?m s1" for s2 payload
    using deliver_open [of ?m s2 c "w\<lparr>wr_sent := wr_sent w @ map (chunk_message e ?m) (visible_chunks chunks)\<rparr>" "llm_response e ?m payload"]
      that s1(2) assms(2) by (auto simp: open_writer_def)
  have "\<exists>payload s2. run_llm_stream e sv t s = thenA (deliver (m_agent ?m) (m_vm ?m) (llm_response e ?m payload)) (ret ()) s2
      \<and> link ?m s2 = link ?m s1
      \<and> (\<forall>k. \<not> fails \<and> ?cm = Some k \<longrightarrow> (\<exists>r. payload = llm_payload r \<and> lr_success r \<and> lr_content r = cm_content k))"
  proof (cases "fails \<or> ?cm = None")
    case True
    then show ?thesis using s1(1) assms(3) by (cases fails) (auto simp: run_llm_stream_def Let_def)
  next
    case False
    then obtain k where k: "?cm = Some k" "\<not> fails" by auto
    obtain r s2 where r: "finalize_stream e ?p (st_user_id t) k (ls_duration_ms (sv_llm sv)) ''stream_completion'' s1 = (Inr r, s2)"
      "link ?m s2 = link ?m s1" "lr_success r" "lr_content r = cm_content k"
      using finalize_stream_link by blast
    obtain q s3 where q: "increment_llm_tokens e (user_opt (st_user_id t)) (total_tokens r)
        (Some (cfg_llm_tokens_daily_limit (sv_config sv))) s2 = (Inr q, s3)" "link ?m s3 = link ?m s2"
      using increment_llm_tokens_link by blast
    have "run_llm_stream e sv t s = thenA (deliver (m_agent ?m) (m_vm ?m) (llm_response e ?m (llm_payload r))) (ret ())
        (if lr_success r \<and> has_quotas (sv_wiring sv) then s3 else s2)"
      using s1(1) assms(3) k r(1) q(1) by (simp add: run_llm_stream_def Let_def whenA_def)
    with r(2-4) q(2) k show ?thesis
      by (intro exI [of _ "llm_payload r"] exI [of _ "if lr_success r \<and> has_quotas (sv_wiring sv) then s3 else s2"]) auto
  qed
  with send show ?thesis by metis
qed

text \<open>A stream arrives whole, in order and with an end.  While the agent's connection accepts writes, a stream
  task sends every non-empty chunk of the provider in the order they came, one message each, followed
  by exactly one final response, whether the provider completed, failed or stopped without an end.\<close>

theorem stream_delivers_in_order:
  assumes "link (st_message t) s = Some (c, w)" and "open_writer w"
    and "ls_stream (sv_llm sv) (st_prepared t) (build_provider_tool_entries (lp_provider_tool_names (st_prepared t))) = (chunks, fails)"
  shows "\<exists>s' final. run_llm_stream e sv t s = (Inr (), s')
     \<and> link (st_message t) s' = Some (c, w\<lparr>wr_sent := wr_sent w @ map (chunk_message e (st_message t)) (visible_chunks chunks) @ [final]\<rparr>)
     \<and> msg_type final = ''llm_response'' \<and> msg_correlation_id final = msg_correlation_id (st_message t)"
proof -
  have "msg_type (llm_response e (st_message t) payload) = ''llm_response''"
    "msg_correlation_id (llm_response e (st_message t) payload) = msg_correlation_id (st_message t)" for payload
    by (simp_all add: llm_response_def server_reply_def new_message_def)
  with run_stream_sends [OF assms] show ?thesis by blast
qed

definition task0 :: stream_task where
  "task0 = \<lparr>st_message = llm_message0, st_user_id = JNull, st_prepared = \<lparr>lp_message = llm_message0,
     lp_payload = \<lparr>lq_provider = None, lq_model = ''stub-model'', lq_messages = [], lq_max_tokens = None, lq_temperature = None,
        lq_stream = True, lq_tools_schema = None, lq_provider_tools_requested = None\<rparr>,
     lp_provider_id = ''stub'',
     lp_upstream_payload = \<lparr>lq_provider = None, lq_model = ''stub-model'', lq_messages = [], lq_max_tokens = None,
        lq_temperature = None, lq_stream = True, lq_tools_schema = None, lq_provider_tools_requested = None\<rparr>,
     lp_api_base_url = ''stub://local'', lp_api_key = None, lp_adapter = StubAdapter, lp_tool_mode = ''local'',
     lp_provider_tool_names = []\<rparr>\<rparr>"

theorem stream_delivers_in_order_witness:
  "\<exists>s' final. run_llm_stream env0 services0 task0 (server0 []) = (Inr (), s')
     \<and> link llm_message0 s' = Some (1, writer0\<lparr>wr_sent := [final]\<rparr>) \<and> msg_type final = ''llm_response''"
proof -
  have "link (st_message task0) (server0 []) = Some (1, writer0)"
    by (simp add: link_def agent_writer_def task0_def llm_message0_def message0_def server0_def db.defs)
  from stream_delivers_in_order [OF this, of services0 "[]" False env0] show ?thesis
    by (auto simp: open_writer_def writer0_def services0_def llm0_def visible_chunks_def task0_def)
qed

end
