(* ===== verification/Coordinator.thy ===== *)
theory Coordinator
  imports Codec
begin

text \<open>
  The turn coordinator of \<^verbatim>\<open>runtime/coordinator.py\<close>: a JSON object in a file that the processes of a VM
  share.  Every operation holds the file lock from its read to its write, so an operation is a function
  from the object before to the object after; \<open>None\<close> is a file that does not exist yet.  The file holds
  the text \<^verbatim>\<open>json.dumps\<close> prints, which \<^verbatim>\<open>json.loads\<close> reads back as the same object.
\<close>

section \<open>Phases\<close>

datatype turn_phase = INIT | RECEIVE | DISPATCH | COLLECT | RESPOND | DONE | ABORTED

fun phase_value :: "turn_phase \<Rightarrow> string" where
  "phase_value INIT = ''INIT''"
| "phase_value RECEIVE = ''RECEIVE''"
| "phase_value DISPATCH = ''DISPATCH''"
| "phase_value COLLECT = ''COLLECT''"
| "phase_value RESPOND = ''RESPOND''"
| "phase_value DONE = ''DONE''"
| "phase_value ABORTED = ''ABORTED''"

definition TERMINAL_PHASES :: "turn_phase list" where
  "TERMINAL_PHASES = [DONE, ABORTED]"

definition phase_of :: "json \<Rightarrow> turn_phase res" where
  "phase_of v = (case v of
     JStr s \<Rightarrow> enum_of phase_value [INIT, RECEIVE, DISPATCH, COLLECT, RESPOND, DONE, ABORTED] ValueError s
   | _ \<Rightarrow> Inl ValueError)"

lemma phase_of_value [simp]: "phase_of (JStr (phase_value p)) = Inr p"
  by (cases p) (simp_all add: phase_of_def enum_of_def)

lemma phase_value_inject [simp]: "phase_value p = phase_value q \<longleftrightarrow> p = q"
  by (cases p; cases q) simp_all

section \<open>Operations on the file\<close>

type_synonym coord_file = "obj option"

definition default_state :: obj where
  "default_state = [(''phase'', JStr (phase_value INIT)), (''ready'', JArr [])]"

definition osetdefault :: "string \<Rightarrow> json \<Rightarrow> obj \<Rightarrow> obj" where
  "osetdefault k v d = (if ohas d k then d else oset k v d)"

definition opop :: "string \<Rightarrow> obj \<Rightarrow> obj" where
  "opop k d = filter (\<lambda>(k', _). k' \<noteq> k) d"

text \<open>\<^verbatim>\<open>read\<close>, which is also the first half of \<^verbatim>\<open>_mutate\<close>.\<close>

definition coord_read :: "coord_file \<Rightarrow> obj" where
  "coord_read f = (case f of None \<Rightarrow> default_state | Some d \<Rightarrow> osetdefault ''ready'' (JArr []) d)"

definition mutate :: "(obj \<Rightarrow> obj) \<Rightarrow> coord_file \<Rightarrow> coord_file" where
  "mutate g f = Some (g (coord_read f))"

definition set_phase :: "turn_phase \<Rightarrow> obj \<Rightarrow> coord_file \<Rightarrow> coord_file" where
  "set_phase p extra = mutate (\<lambda>st. omerge (oset ''phase'' (JStr (phase_value p)) st) extra)"

definition merge_fields :: "obj \<Rightarrow> coord_file \<Rightarrow> coord_file" where
  "merge_fields extra = mutate (\<lambda>st. omerge st extra)"

definition get_phase :: "coord_file \<Rightarrow> turn_phase res" where
  "get_phase f = phase_of (oget_or (coord_read f) ''phase'' (JStr (phase_value INIT)))"

definition mark_ready :: "string \<Rightarrow> coord_file \<Rightarrow> coord_file res" where
  "mark_ready engine f =
     bindE (py_iter (oget_or (coord_read f) ''ready'' (JArr []))) (\<lambda>ready.
       Inr (mutate (oset ''ready'' (JArr (if JStr engine \<in> set ready then ready else ready @ [JStr engine]))) f))"

definition get_ready :: "coord_file \<Rightarrow> json list res" where
  "get_ready f = py_set (oget_or (coord_read f) ''ready'' (JArr []))"

definition missing_engines :: "string list \<Rightarrow> coord_file \<Rightarrow> string list res" where
  "missing_engines required f = bindE (get_ready f) (\<lambda>ready. Inr (filter (\<lambda>en. JStr en \<notin> set ready) required))"

definition is_terminal :: "coord_file \<Rightarrow> bool res" where
  "is_terminal f = bindE (get_phase f) (\<lambda>p. Inr (p \<in> set TERMINAL_PHASES))"

definition abort :: "string \<Rightarrow> obj \<Rightarrow> coord_file \<Rightarrow> coord_file" where
  "abort reason extra = mutate (\<lambda>st.
     if oget st ''phase'' \<in> {JStr (phase_value DONE), JStr (phase_value ABORTED)} then st
     else omerge (oset ''abort_reason'' (JStr reason) (oset ''phase'' (JStr (phase_value ABORTED)) st)) extra)"

definition publish_tool_batch :: "string \<Rightarrow> obj list \<Rightarrow> coord_file \<Rightarrow> coord_file" where
  "publish_tool_batch batch_id calls = mutate (\<lambda>st. opop ''tool_results''
     (oset ''tool_batch_status'' (JStr ''pending'') (oset ''pending_tool_calls'' (JArr (map JObj calls))
       (oset ''tool_batch_id'' (JStr batch_id) st))))"

definition complete_tool_batch :: "string \<Rightarrow> obj list \<Rightarrow> coord_file \<Rightarrow> bool \<times> coord_file" where
  "complete_tool_batch batch_id results f =
     (let st = coord_read f in
      if oget st ''tool_batch_id'' \<noteq> JStr batch_id then (False, mutate id f)
      else if oget st ''tool_batch_status'' \<noteq> JStr ''pending'' then (False, mutate id f)
      else (True, mutate (\<lambda>st. oset ''pending_tool_calls'' (JArr []) (oset ''tool_batch_status'' (JStr ''complete'')
                            (oset ''tool_results'' (JArr (map JObj results)) st))) f))"

text \<open>What one iteration of the two waiting loops on a batch decides: \<open>None\<close> is another round.\<close>

definition batch_complete_view :: "string \<Rightarrow> coord_file \<Rightarrow> json list option" where
  "batch_complete_view batch_id f =
     (let st = coord_read f in
      if oget st ''tool_batch_id'' \<noteq> JStr batch_id then None
      else if oget st ''tool_batch_status'' = JStr ''complete'' then
        (case oget st ''tool_results'' of JArr xs \<Rightarrow> Some xs | _ \<Rightarrow> Some [])
      else None)"

definition batch_pending_view :: "coord_file \<Rightarrow> (string \<times> json list) option" where
  "batch_pending_view f =
     (let st = coord_read f in
      if oget st ''tool_batch_status'' = JStr ''pending'' then
        (case oget st ''pending_tool_calls'' of
           JArr (c # cs) \<Rightarrow> if truthy (oget st ''tool_batch_id'') then Some (py_str (oget st ''tool_batch_id''), c # cs) else None
         | _ \<Rightarrow> None)
      else None)"

section \<open>Sequences of operations\<close>

text \<open>The processes interleave at these operations; the order is the order of the lock.\<close>

datatype coord_op = SetPhase turn_phase obj | Merge obj | Ready string | Abort string obj
  | Publish string "obj list" | Complete string "obj list"

fun coord_apply :: "coord_op \<Rightarrow> coord_file \<Rightarrow> coord_file" where
  "coord_apply (SetPhase p extra) f = set_phase p extra f"
| "coord_apply (Merge extra) f = merge_fields extra f"
| "coord_apply (Ready en) f = (case mark_ready en f of Inl _ \<Rightarrow> f | Inr f' \<Rightarrow> f')"
| "coord_apply (Abort reason extra) f = abort reason extra f"
| "coord_apply (Publish b calls) f = publish_tool_batch b calls f"
| "coord_apply (Complete b results) f = snd (complete_tool_batch b results f)"

text \<open>The fields of a batch, and that the free fields of an operation leave them and the phase alone.\<close>

definition reserved_keys :: "string list" where
  "reserved_keys = [''tool_batch_id'', ''tool_batch_status'', ''pending_tool_calls'', ''tool_results'', ''phase'', ''ready'']"

definition extra_ok :: "obj \<Rightarrow> bool" where
  "extra_ok extra \<longleftrightarrow> set (map fst extra) \<inter> set reserved_keys = {}"

fun op_ok :: "coord_op \<Rightarrow> bool" where
  "op_ok (SetPhase p extra) = extra_ok extra"
| "op_ok (Merge extra) = extra_ok extra"
| "op_ok (Abort reason extra) = extra_ok extra"
| "op_ok _ = True"

lemma oget_omerge_other: "k \<notin> set (map fst e) \<Longrightarrow> oget (omerge d e) k = oget d k"
proof (induction e arbitrary: d)
  case (Cons p e)
  then show ?case using Cons.IH [of "oset (fst p) (snd p) d"]
    by (cases p) (simp add: omerge_def)
qed (simp add: omerge_def)

lemma oget_opop: "oget (opop k d) k' = (if k' = k then JNull else oget d k')"
  by (induction d) (auto simp: oget_def opop_def)

lemma oget_osetdefault: "oget (osetdefault k v d) k' = (if k' = k \<and> \<not> ohas d k then v else oget d k')"
  by (auto simp: osetdefault_def)

lemma coord_read_mutate: "k \<noteq> ''ready'' \<Longrightarrow> oget (coord_read (mutate g f)) k = oget (g (coord_read f)) k"
  by (simp add: coord_read_def mutate_def oget_osetdefault)

lemma extra_ok_keys:
  assumes "extra_ok extra"
  shows "oget (omerge d extra) ''tool_batch_id'' = oget d ''tool_batch_id''"
    "oget (omerge d extra) ''tool_batch_status'' = oget d ''tool_batch_status''"
    "oget (omerge d extra) ''pending_tool_calls'' = oget d ''pending_tool_calls''"
    "oget (omerge d extra) ''tool_results'' = oget d ''tool_results''"
    "oget (omerge d extra) ''phase'' = oget d ''phase''"
  using assms by (auto simp: extra_ok_def reserved_keys_def intro!: oget_omerge_other)

lemmas coord_defs = set_phase_def merge_fields_def abort_def publish_tool_batch_def complete_tool_batch_def
  mark_ready_def coord_read_mutate oget_opop

section \<open>The batch as a single slot\<close>

datatype batch = NoBatch | PendingBatch string json | CompletedBatch string json

definition batch_of :: "coord_file \<Rightarrow> batch" where
  "batch_of f =
     (let st = coord_read f in
      case oget st ''tool_batch_id'' of
        JStr b \<Rightarrow>
          if oget st ''tool_batch_status'' = JStr ''pending'' then PendingBatch b (oget st ''pending_tool_calls'')
          else if oget st ''tool_batch_status'' = JStr ''complete'' then CompletedBatch b (oget st ''tool_results'')
          else NoBatch
      | _ \<Rightarrow> NoBatch)"

fun batch_step :: "coord_op \<Rightarrow> batch \<Rightarrow> batch" where
  "batch_step (Publish b calls) _ = PendingBatch b (JArr (map JObj calls))"
| "batch_step (Complete b results) (PendingBatch b' calls) =
     (if b' = b then CompletedBatch b (JArr (map JObj results)) else PendingBatch b' calls)"
| "batch_step _ x = x"

text \<open>The file implements the slot.\<close>

lemma batch_of_mutate:
  assumes "\<And>k. k \<in> {''tool_batch_id'', ''tool_batch_status'', ''pending_tool_calls'', ''tool_results''} \<Longrightarrow>
      oget (g (coord_read f)) k = oget (coord_read f) k"
  shows "batch_of (mutate g f) = batch_of f"
proof -
  have eqs: "oget (coord_read (mutate g f)) ''tool_batch_id'' = oget (coord_read f) ''tool_batch_id''"
    "oget (coord_read (mutate g f)) ''tool_batch_status'' = oget (coord_read f) ''tool_batch_status''"
    "oget (coord_read (mutate g f)) ''pending_tool_calls'' = oget (coord_read f) ''pending_tool_calls''"
    "oget (coord_read (mutate g f)) ''tool_results'' = oget (coord_read f) ''tool_results''"
    using assms by (simp_all add: coord_read_mutate)
  show ?thesis unfolding batch_of_def Let_def eqs ..
qed

lemma batch_refines: "op_ok x \<Longrightarrow> batch_of (coord_apply x f) = batch_step x (batch_of f)"
proof (cases x)
  case (Ready en)
  then show ?thesis
    by (auto simp: mark_ready_def split: sum.split intro!: batch_of_mutate)
next
  case (Publish b calls)
  then show ?thesis
    by (simp add: publish_tool_batch_def batch_of_def Let_def coord_read_mutate oget_opop)
next
  case (Complete b results)
  have "batch_of (mutate id f) = batch_of f" by (rule batch_of_mutate) simp
  with Complete show ?thesis
    by (auto simp: complete_tool_batch_def batch_of_def Let_def coord_read_mutate split: json.split)
next
  case (Abort reason extra)
  assume "op_ok x"
  with Abort extra_ok_keys [of extra] show ?thesis by (auto simp: abort_def intro!: batch_of_mutate)
qed (use extra_ok_keys in \<open>auto simp: set_phase_def merge_fields_def intro!: batch_of_mutate\<close>)

text \<open>A completion succeeds exactly on the pending batch it names.\<close>

lemma complete_succeeds: "fst (complete_tool_batch b results f) \<longleftrightarrow> (\<exists>calls. batch_of f = PendingBatch b calls)"
  by (auto simp: complete_tool_batch_def batch_of_def Let_def split: json.split)

text \<open>The waiting process sees exactly the results of the completion.\<close>

lemma complete_view: "batch_of f = CompletedBatch b (JArr xs) \<Longrightarrow> batch_complete_view b f = Some xs"
  by (auto simp: batch_complete_view_def batch_of_def Let_def split: json.splits if_split_asm)

lemma complete_view_only: "batch_complete_view b f = Some xs \<Longrightarrow> \<exists>v. batch_of f = CompletedBatch b v \<and> (v = JArr xs \<or> xs = [])"
  by (auto simp: batch_complete_view_def batch_of_def Let_def split: json.splits if_split_asm)

lemma pending_view: "batch_of f = PendingBatch b (JArr (c # cs)) \<Longrightarrow> b \<noteq> [] \<Longrightarrow> batch_pending_view f = Some (b, c # cs)"
  by (auto simp: batch_pending_view_def batch_of_def Let_def split: json.splits if_split_asm)

text \<open>How many completions of a batch have succeeded along a sequence.\<close>

fun completions :: "string \<Rightarrow> coord_op list \<Rightarrow> coord_file \<Rightarrow> nat" where
  "completions b [] f = 0"
| "completions b (x # xs) f =
     (case x of Complete b' results \<Rightarrow> if b' = b \<and> fst (complete_tool_batch b' results f) then 1 else 0 | _ \<Rightarrow> 0)
     + completions b xs (coord_apply x f)"

definition publications :: "string \<Rightarrow> coord_op list \<Rightarrow> nat" where
  "publications b xs = length (filter (\<lambda>x. \<exists>calls. x = Publish b calls) xs)"

lemma completed_at_most_once:
  assumes "\<And>x. x \<in> set xs \<Longrightarrow> op_ok x"
  shows "completions b xs f \<le> publications b xs + (if \<exists>calls. batch_of f = PendingBatch b calls then 1 else 0)"
  using assms
proof (induction xs arbitrary: f)
  case (Cons x xs)
  have ih: "completions b xs (coord_apply x f)
      \<le> publications b xs + (if \<exists>calls. batch_step x (batch_of f) = PendingBatch b calls then 1 else 0)"
    using Cons.IH [of "coord_apply x f"] Cons.prems batch_refines [of x f] by simp
  show ?case
  proof (cases x)
    case (Complete b' results)
    have p: "publications b (x # xs) = publications b xs" by (simp add: publications_def Complete)
    show ?thesis
    proof (cases "b' = b \<and> fst (complete_tool_batch b' results f)")
      case True
      then obtain calls where "batch_of f = PendingBatch b calls" using complete_succeeds by blast
      with True Complete p ih show ?thesis by (simp del: coord_apply.simps)
    next
      case False
      have "\<exists>calls. batch_of f = PendingBatch b calls" if "\<exists>calls. batch_step x (batch_of f) = PendingBatch b calls"
        using that Complete by (cases "batch_of f") (auto split: if_split_asm)
      moreover have "completions b (x # xs) f = completions b xs (coord_apply x f)"
        using False Complete by (simp del: coord_apply.simps)
      ultimately show ?thesis using p ih by (auto simp del: coord_apply.simps completions.simps split: if_split_asm)
    qed
  next
    case (Publish b' calls)
    then show ?thesis using ih by (auto simp: publications_def simp del: coord_apply.simps split: if_split_asm)
  qed (use ih in \<open>simp_all add: publications_def del: coord_apply.simps\<close>)
qed (simp add: publications_def)

section \<open>Finished turns\<close>

definition finished :: "coord_file \<Rightarrow> bool" where
  "finished f \<longleftrightarrow> is_terminal f = Inr True"

lemma get_phase_mutate:
  "get_phase (mutate g f) = phase_of (oget_or (g (coord_read f)) ''phase'' (JStr (phase_value INIT)))"
  by (simp add: get_phase_def coord_read_def mutate_def osetdefault_def oget_or_def split: option.split)

text \<open>Only \<^verbatim>\<open>set_phase\<close> moves a finished turn to another phase.\<close>

lemma oget_or_omerge_other: "k \<notin> set (map fst e) \<Longrightarrow> oget_or (omerge d e) k v = oget_or d k v"
proof (induction e arbitrary: d)
  case (Cons p e)
  then show ?case using Cons.IH [of "oset (fst p) (snd p) d"]
    by (cases p) (simp add: omerge_def oget_or_def)
qed (simp add: omerge_def)

lemma oget_or_oset [simp]: "oget_or (oset k v d) k' v0 = (if k' = k then v else oget_or d k' v0)"
  by (simp add: oget_or_def)

lemma oget_or_opop: "k' \<noteq> k \<Longrightarrow> oget_or (opop k d) k' v = oget_or d k' v"
  by (induction d) (auto simp: oget_or_def opop_def)

lemma phase_of_Inr: "phase_of v = Inr p \<Longrightarrow> v = JStr (phase_value p)"
proof (cases v)
  case (JStr s)
  assume "phase_of v = Inr p"
  with JStr have "List.find (\<lambda>m. phase_value m = s) [INIT, RECEIVE, DISPATCH, COLLECT, RESPOND, DONE, ABORTED] = Some p"
    by (simp add: phase_of_def enum_of_def del: List.find.simps split: option.split_asm)
  with JStr show ?thesis unfolding find_Some_iff by blast
qed (simp_all add: phase_of_def)

lemma finished_phase:
  assumes "finished f"
  shows "oget (coord_read f) ''phase'' \<in> {JStr (phase_value DONE), JStr (phase_value ABORTED)}"
proof -
  from assms obtain p where p: "get_phase f = Inr p" "p \<in> {DONE, ABORTED}"
    by (auto simp: finished_def is_terminal_def TERMINAL_PHASES_def)
  then have "oget_or (coord_read f) ''phase'' (JStr (phase_value INIT)) = JStr (phase_value p)"
    by (simp add: get_phase_def phase_of_Inr del: phase_value.simps)
  with p(2) show ?thesis by (auto simp: oget_or_def oget_def split: option.split_asm)
qed

lemma set_phase_phase: "extra_ok extra \<Longrightarrow> get_phase (set_phase p extra f) = Inr p"
  by (simp add: set_phase_def get_phase_mutate oget_or_omerge_other extra_ok_def reserved_keys_def)

lemma abort_finishes: "extra_ok extra \<Longrightarrow> finished (abort reason extra f)"
proof (cases "oget (coord_read f) ''phase'' \<in> {JStr (phase_value DONE), JStr (phase_value ABORTED)}")
  case True
  then have "phase_of (oget_or (coord_read f) ''phase'' (JStr (phase_value INIT))) \<in> {Inr DONE, Inr ABORTED}"
    by (auto simp: oget_or_def oget_def phase_of_def enum_of_def split: option.split_asm)
  with True show ?thesis
    by (auto simp: abort_def finished_def is_terminal_def get_phase_mutate TERMINAL_PHASES_def)
next
  case False
  assume "extra_ok extra"
  then have "''phase'' \<notin> set (map fst extra)" by (auto simp: extra_ok_def reserved_keys_def)
  with False show ?thesis
    by (simp add: abort_def finished_def is_terminal_def get_phase_mutate TERMINAL_PHASES_def oget_or_omerge_other
        phase_of_def enum_of_def)
qed

lemma finished_kept:
  assumes "finished f" and "op_ok x" and "\<And>p extra. x \<noteq> SetPhase p extra"
  shows "get_phase (coord_apply x f) = get_phase f"
proof (cases x)
  case (SetPhase p extra)
  then show ?thesis using assms by simp
next
  case (Merge extra)
  with assms(2) show ?thesis
    by (simp add: merge_fields_def get_phase_mutate get_phase_def [of f] oget_or_omerge_other extra_ok_def reserved_keys_def)
next
  case (Ready en)
  then show ?thesis by (auto simp: mark_ready_def get_phase_mutate get_phase_def [of f] split: sum.split)
next
  case (Abort reason extra)
  with finished_phase [OF assms(1)] show ?thesis by (simp add: abort_def get_phase_mutate get_phase_def [of f])
next
  case (Publish b calls)
  then show ?thesis by (simp add: publish_tool_batch_def get_phase_mutate get_phase_def [of f] oget_or_opop)
next
  case (Complete b results)
  then show ?thesis by (simp add: complete_tool_batch_def Let_def get_phase_mutate get_phase_def [of f])
qed

end
