(* ===== verification/Runtime_Clients.thy ===== *)
theory Runtime_Clients
  imports Codec Catalog
begin

text \<open>
  The messages the engines of an agent VM build and how they read the server's answers:
  \<^verbatim>\<open>runtime/llm_client.py\<close>, \<^verbatim>\<open>runtime/tool_client.py\<close>, \<^verbatim>\<open>runtime/memory_client.py\<close>,
  \<^verbatim>\<open>runtime/tool_schemas.py\<close> and the argument parser of \<^verbatim>\<open>llm/tool_policy.py\<close>.
\<close>

text \<open>\<^verbatim>\<open>str(v) if v is not None else None\<close>\<close>

definition none_or_str :: "json \<Rightarrow> string option" where
  "none_or_str v = (if v = JNull then None else Some (py_str v))"

text \<open>A dictionary entry written only when the value is not \<^verbatim>\<open>None\<close>.\<close>

definition entry_if :: "string \<Rightarrow> json option \<Rightarrow> obj" where
  "entry_if k v = (case v of None \<Rightarrow> [] | Some x \<Rightarrow> [(k, x)])"

definition engine_request ::
  "env \<Rightarrow> string \<Rightarrow> engine_id \<Rightarrow> string \<Rightarrow> string \<Rightarrow> uuid \<Rightarrow> string \<Rightarrow> obj \<Rightarrow> framework_message" where
  "engine_request e site engine agent_id vm_id turn_id ty payload =
     new_message e site
       \<lparr>src_agent_id = agent_id, src_engine = engine, src_vm_id = vm_id\<rparr>
       \<lparr>dst_type = CORVUS_SERVER, dst_target = ''corvus_server''\<rparr>
       REQUEST ty (uuid4 e (site @ ''_correlation'')) (mk_tags AGENT_INITIATED (Some turn_id)) payload"

section \<open>LLM\<close>

record llm_op_result =
  lo_ok :: bool
  lo_content :: json
  lo_model :: json
  lo_provider :: json
  lo_tool_calls :: "obj list option"
  lo_usage :: "(string \<times> int) list option"
  lo_finish_reason :: json
  lo_error :: json
  lo_error_code :: "string option"

definition llm_op_failure :: "json \<Rightarrow> json \<Rightarrow> json \<Rightarrow> string option \<Rightarrow> llm_op_result" where
  "llm_op_failure provider model error code =
     \<lparr>lo_ok = False, lo_content = JNull, lo_model = model, lo_provider = provider, lo_tool_calls = None, lo_usage = None,
      lo_finish_reason = JNull, lo_error = error, lo_error_code = code\<rparr>"

definition build_llm_request ::
  "env \<Rightarrow> string \<Rightarrow> string \<Rightarrow> uuid \<Rightarrow> string \<Rightarrow> string \<Rightarrow> obj list \<Rightarrow> int option \<Rightarrow> json option \<Rightarrow> bool
   \<Rightarrow> obj list option \<Rightarrow> int option \<Rightarrow> framework_message" where
  "build_llm_request e agent_id vm_id turn_id provider model messages max_tokens temperature streaming tools_schema estimated_tokens =
     engine_request e ''llm_request'' ENGINE3 agent_id vm_id turn_id ''llm_request''
       ([(''provider'', JStr provider), (''model'', JStr model), (''messages'', JArr (map JObj messages))]
        @ entry_if ''max_tokens'' (map_option JInt max_tokens)
        @ entry_if ''temperature'' temperature
        @ (if streaming then [(''stream'', JBool True)] else [])
        @ entry_if ''tools_schema'' (map_option (\<lambda>ts. JArr (map JObj ts)) tools_schema)
        @ entry_if ''estimated_tokens'' (map_option JInt estimated_tokens))"

text \<open>The dictionaries of a list.\<close>

definition objs_in :: "json list \<Rightarrow> obj list" where
  "objs_in xs = List.map_filter (\<lambda>x. case x of JObj d \<Rightarrow> Some d | _ \<Rightarrow> None) xs"

definition parse_llm_response :: "framework_message \<Rightarrow> llm_op_result res" where
  "parse_llm_response m =
     (if msg_class m = ERROR then Inr (llm_op_failure JNull JNull (pget m ''message'') (none_or_str (pget m ''code'')))
      else if pget m ''success'' \<noteq> JBool True then
        Inr (llm_op_failure (pget m ''provider'') (pget m ''model'')
               (JStr (py_str (py_or (pget m ''error'') (JStr ''LLM request failed'')))) (str_if (pget m ''error_code'')))
      else
        bindE (case pget m ''usage'' of
                 JObj u \<Rightarrow> bindE (mapE (\<lambda>(k, v). bindE (py_int v) (\<lambda>i. Inr (k, i))) u) (\<lambda>us. Inr (Some us))
               | _ \<Rightarrow> Inr None) (\<lambda>usage.
        Inr \<lparr>lo_ok = True,
             lo_content = (case pget m ''content'' of JNull \<Rightarrow> JNull | c \<Rightarrow> JStr (py_str c)),
             lo_model = pget m ''model'', lo_provider = pget m ''provider'',
             lo_tool_calls = (case pget m ''tool_calls'' of JArr xs \<Rightarrow> Some (objs_in xs) | _ \<Rightarrow> None),
             lo_usage = usage, lo_finish_reason = pget m ''finish_reason'', lo_error = JNull, lo_error_code = None\<rparr>))"

text \<open>\<^verbatim>\<open>parse_tool_call_arguments\<close>: a string that is JSON but no object gives the empty arguments.\<close>

definition parse_tool_call_arguments :: "(string \<Rightarrow> string) \<Rightarrow> json \<Rightarrow> obj" where
  "parse_tool_call_arguments frepr raw =
     (case raw of
        JObj d \<Rightarrow> d
      | JStr s \<Rightarrow> (case json_loads frepr s of
                   None \<Rightarrow> [(''text'', JStr s)]
                 | Some (JObj d) \<Rightarrow> d
                 | Some _ \<Rightarrow> [])
      | _ \<Rightarrow> [])"

section \<open>Tools\<close>

record approval_result =
  ar_ok :: bool
  ar_approved :: bool
  ar_tool_name :: json
  ar_error :: json
  ar_error_code :: "string option"

record tool_op_result =
  to_ok :: bool
  to_error :: json
  to_error_code :: "string option"

definition build_tool_call :: "env \<Rightarrow> string \<Rightarrow> string \<Rightarrow> uuid \<Rightarrow> string \<Rightarrow> obj \<Rightarrow> int option \<Rightarrow> framework_message" where
  "build_tool_call e agent_id vm_id turn_id tool_name args timeout_seconds =
     engine_request e ''tool_call'' ENGINE1 agent_id vm_id turn_id ''tool_call''
       ([(''tool_name'', JStr tool_name), (''arguments'', JObj args)]
        @ entry_if ''timeout_seconds'' (map_option JInt timeout_seconds))"

definition build_tool_result ::
  "env \<Rightarrow> string \<Rightarrow> string \<Rightarrow> uuid \<Rightarrow> string \<Rightarrow> uuid \<Rightarrow> bool \<Rightarrow> obj option \<Rightarrow> string option \<Rightarrow> int \<Rightarrow> framework_message" where
  "build_tool_result e agent_id vm_id turn_id tool_name request_correlation_id success result error duration_ms =
     new_message e ''tool_result''
       \<lparr>src_agent_id = agent_id, src_engine = ENGINE1, src_vm_id = vm_id\<rparr>
       \<lparr>dst_type = CORVUS_SERVER, dst_target = ''corvus_server''\<rparr>
       RESPONSE ''tool_result'' request_correlation_id (mk_tags TOOL_RESULT (Some turn_id))
       [(''tool_name'', JStr tool_name), (''success'', JBool success),
        (''result'', case result of None \<Rightarrow> JNull | Some d \<Rightarrow> JObj d), (''error'', jopt error),
        (''duration_ms'', JInt duration_ms)]"

definition parse_tool_call_response :: "framework_message \<Rightarrow> approval_result" where
  "parse_tool_call_response m =
     (if msg_class m = ERROR then
        \<lparr>ar_ok = False, ar_approved = False, ar_tool_name = JNull, ar_error = pget m ''message'', ar_error_code = none_or_str (pget m ''code'')\<rparr>
      else if msg_type m \<noteq> ''tool_call_response'' then
        \<lparr>ar_ok = False, ar_approved = False, ar_tool_name = JNull,
         ar_error = JStr (''expected tool_call_response, got '' @ msg_type m), ar_error_code = Some ''TOOL_UNEXPECTED_RESPONSE''\<rparr>
      else if \<not> (pget m ''approved'' = JBool True \<and> pget m ''success'' = JBool True) then
        \<lparr>ar_ok = False, ar_approved = False, ar_tool_name = pget m ''tool_name'',
         ar_error = JStr (py_str (py_or (pget m ''error'') (JStr ''tool call not approved''))),
         ar_error_code = str_if (pget m ''error_code'')\<rparr>
      else \<lparr>ar_ok = True, ar_approved = True, ar_tool_name = JStr (py_str (pget m ''tool_name'')), ar_error = JNull, ar_error_code = None\<rparr>)"

definition parse_tool_result_ack :: "framework_message \<Rightarrow> tool_op_result" where
  "parse_tool_result_ack m =
     (if msg_class m = ERROR then
        \<lparr>to_ok = False, to_error = pget m ''message'', to_error_code = none_or_str (pget m ''code'')\<rparr>
      else if pget m ''success'' \<noteq> JBool True then
        \<lparr>to_ok = False, to_error = JStr (py_str (py_or (pget m ''error'') (JStr ''tool result rejected''))),
         to_error_code = str_if (pget m ''error_code'')\<rparr>
      else \<lparr>to_ok = True, to_error = JNull, to_error_code = None\<rparr>)"

section \<open>Memory\<close>

record memory_op_result =
  mo_ok :: bool
  mo_record_id :: json
  mo_records :: "obj list option"
  mo_error :: json
  mo_error_code :: "string option"
  mo_elevation_id :: "string option"

abbreviation memory_message :: "env \<Rightarrow> string \<Rightarrow> string \<Rightarrow> string \<Rightarrow> uuid \<Rightarrow> obj \<Rightarrow> framework_message" where
  "memory_message e ty agent_id vm_id turn_id payload \<equiv> engine_request e ty ENGINE4 agent_id vm_id turn_id ty payload"

text \<open>\<^verbatim>\<open>target_agent_id or agent_id\<close>\<close>

definition memory_target :: "string \<Rightarrow> string option \<Rightarrow> json" where
  "memory_target agent_id target = JStr (if opt_truthy target then the target else agent_id)"

definition build_memory_write ::
  "env \<Rightarrow> string \<Rightarrow> string \<Rightarrow> uuid \<Rightarrow> string \<Rightarrow> string \<Rightarrow> string \<Rightarrow> string option \<Rightarrow> string option \<Rightarrow> framework_message" where
  "build_memory_write e agent_id vm_id turn_id namespace key content target grant_id =
     memory_message e ''memory:write'' agent_id vm_id turn_id
       ([(''target_agent_id'', memory_target agent_id target), (''namespace'', JStr namespace),
         (''record'', JObj [(''key'', JStr key), (''content'', JStr content)])]
        @ entry_if ''grant_id'' (map_option JStr grant_id))"

definition build_memory_query_key ::
  "env \<Rightarrow> string \<Rightarrow> string \<Rightarrow> uuid \<Rightarrow> string \<Rightarrow> string \<Rightarrow> string option \<Rightarrow> string option \<Rightarrow> framework_message" where
  "build_memory_query_key e agent_id vm_id turn_id namespace key target grant_id =
     memory_message e ''memory:query'' agent_id vm_id turn_id
       ([(''target_agent_id'', memory_target agent_id target), (''namespace'', JStr namespace),
         (''query_type'', JStr ''key''), (''query'', JObj [(''key'', JStr key)])]
        @ entry_if ''grant_id'' (map_option JStr grant_id))"

definition build_memory_delete ::
  "env \<Rightarrow> string \<Rightarrow> string \<Rightarrow> uuid \<Rightarrow> string \<Rightarrow> json \<Rightarrow> string option \<Rightarrow> string option \<Rightarrow> framework_message" where
  "build_memory_delete e agent_id vm_id turn_id namespace record_id target grant_id =
     memory_message e ''memory:delete'' agent_id vm_id turn_id
       ([(''target_agent_id'', memory_target agent_id target), (''namespace'', JStr namespace), (''record_id'', record_id)]
        @ entry_if ''grant_id'' (map_option JStr grant_id))"

text \<open>The message to replay is dumped by field name, not by alias.\<close>

definition build_memory_grant_request ::
  "env \<Rightarrow> string \<Rightarrow> string \<Rightarrow> uuid \<Rightarrow> string \<Rightarrow> string \<Rightarrow> string list \<Rightarrow> string \<Rightarrow> int \<Rightarrow> framework_message option \<Rightarrow> framework_message" where
  "build_memory_grant_request e agent_id vm_id turn_id target namespace permissions reason duration replayed =
     memory_message e ''memory:grant_request'' agent_id vm_id turn_id
       ([(''target_agent_id'', JStr target), (''namespace'', JStr namespace), (''permissions'', JArr (map JStr permissions)),
         (''reason'', JStr reason), (''requested_duration_seconds'', JInt duration)]
        @ entry_if ''pending_replay'' (map_option (\<lambda>m. JObj (dump_message e False m)) replayed))"

definition parse_memory_response :: "framework_message \<Rightarrow> memory_op_result res" where
  "parse_memory_response m =
     (if msg_class m = ERROR then
        bindE (jget (py_or (pget m ''details'') (JObj [])) ''elevation_id'' JNull) (\<lambda>elevation_id.
        Inr \<lparr>mo_ok = False, mo_record_id = JNull, mo_records = None, mo_error = pget m ''message'',
             mo_error_code = none_or_str (pget m ''code''), mo_elevation_id = none_or_str elevation_id\<rparr>)
      else
        let success = (pget m ''success'' = JBool True);
            error = pget m ''error'';
            error_code = (if \<not> success \<and> pget m ''error_code'' = JNull \<and> truthy error then JStr (py_str error)
                          else pget m ''error_code'')
        in Inr \<lparr>mo_ok = success, mo_record_id = pget m ''record_id'',
                mo_records = (case pget m ''records'' of JArr xs \<Rightarrow> Some (objs_in xs) | _ \<Rightarrow> None),
                mo_error = jopt (none_or_str error), mo_error_code = none_or_str error_code, mo_elevation_id = None\<rparr>)"

definition is_elevation_required :: "memory_op_result \<Rightarrow> bool" where
  "is_elevation_required r \<longleftrightarrow> mo_error_code r = Some (code_value SERVER_ELEVATION_REQUIRED)"

section \<open>Tool schemas\<close>

definition schema_property :: "string \<Rightarrow> string \<Rightarrow> json" where
  "schema_property ty description = JObj [(''type'', JStr ty), (''description'', JStr description)]"

definition object_schema :: "obj \<Rightarrow> string list \<Rightarrow> json" where
  "object_schema properties required = JObj [(''type'', JStr ''object''), (''properties'', JObj properties),
     (''required'', JArr (map JStr required))]"

definition TOOL_PARAMETERS :: obj where
  "TOOL_PARAMETERS =
     [(''echo'', object_schema [(''text'', schema_property ''string'' ''Text to echo back'')] [''text'']),
      (''terminal'', object_schema
         [(''argv'', JObj [(''type'', JStr ''array''), (''items'', JObj [(''type'', JStr ''string'')]),
                          (''description'', JStr ''Command argv (allowlisted commands only)'')])] [''argv'']),
      (''file_read'', object_schema
         [(''path'', schema_property ''string'' ''Path relative to CORVUS_TOOL_WORKSPACE_ROOT''),
          (''max_bytes'', schema_property ''integer'' ''Max bytes to return (capped at 65536)'')] [''path''])]"

definition build_tools_schema :: "string list \<Rightarrow> capability_catalog \<Rightarrow> obj list" where
  "build_tools_schema tool_names catalog =
     map (\<lambda>name. [(''type'', JStr ''function''),
       (''function'', JObj [(''name'', JStr name), (''description'', JStr (''Execute the '' @ name @ '' tool'')),
          (''parameters'', oget_or TOOL_PARAMETERS name (JObj [(''type'', JStr ''object''), (''properties'', JObj [])]))])])
       (filter (\<lambda>name. map_of (cat_tools catalog) name \<noteq> None) tool_names)"

end
