(* ===== verification/Local_Tools.thy ===== *)
theory Local_Tools
  imports Json_Text
begin

text \<open>
  The tools engine 1 runs inside the agent VM after the server's approval: \<^verbatim>\<open>tools/echo.py\<close>,
  \<^verbatim>\<open>tools/terminal.py\<close>, \<^verbatim>\<open>tools/file_read.py\<close> and the skill tools of \<^verbatim>\<open>skills/runner.py\<close>, with the registry
  and the runner that select them.

  What the tools see of the VM is the record \<open>vm_world\<close>: environment variables, the resolution of paths
  through links, the bytes of regular files, the entries of directories, the UTF-8 decoder and the outcome of
  a child process in its working directory.
\<close>

section \<open>Paths\<close>

text \<open>A POSIX path: whether it is absolute, and its components without empty ones and single dots.\<close>

datatype ppath = PPath (pp_absolute: bool) (pp_parts: "string list")

fun split_on :: "char \<Rightarrow> string \<Rightarrow> string list" where
  "split_on sep [] = [[]]"
| "split_on sep (c # cs) =
     (if c = sep then [] # split_on sep cs
      else case split_on sep cs of [] \<Rightarrow> [[c]] | p # ps \<Rightarrow> (c # p) # ps)"

definition path_of :: "string \<Rightarrow> ppath" where
  "path_of s = PPath (s \<noteq> [] \<and> hd s = CHR ''/'') (filter (\<lambda>p. p \<noteq> [] \<and> p \<noteq> ''.'') (split_on (CHR ''/'') s))"

text \<open>\<^verbatim>\<open>a / b\<close>: an absolute right operand replaces the left one.\<close>

definition path_join :: "ppath \<Rightarrow> ppath \<Rightarrow> ppath" where
  "path_join a b = (if pp_absolute b then b else PPath (pp_absolute a) (pp_parts a @ pp_parts b))"

definition path_str :: "ppath \<Rightarrow> string" where
  "path_str p = (if pp_absolute p then ''/'' @ join ''/'' (pp_parts p)
                 else if pp_parts p = [] then ''.'' else join ''/'' (pp_parts p))"

text \<open>\<^verbatim>\<open>p.relative_to(root)\<close>; it raises \<^verbatim>\<open>ValueError\<close> when \<open>p\<close> is not below the root.\<close>

definition relative_to :: "ppath \<Rightarrow> ppath \<Rightarrow> ppath res" where
  "relative_to p root_path =
     (if pp_absolute p = pp_absolute root_path \<and> prefix (pp_parts root_path) (pp_parts p)
      then Inr (PPath False (drop (length (pp_parts root_path)) (pp_parts p))) else Inl ValueError)"

record vm_world =
  vw_getenv :: "string \<Rightarrow> string option"
  vw_resolve :: "ppath \<Rightarrow> ppath"
  vw_file :: "ppath \<Rightarrow> string option"
  vw_entries :: "ppath \<Rightarrow> string list option"
  vw_utf8 :: "string \<Rightarrow> string option"
  vw_process :: "ppath option \<Rightarrow> string list \<Rightarrow> real \<Rightarrow> (string \<times> string \<times> int) res"

section \<open>echo\<close>

definition echo_run :: "obj \<Rightarrow> obj res" where
  "echo_run args = Inr [(''text'', JStr (py_str (oget_or args ''text'' (oget_or args ''message'' (JStr [])))))]"

section \<open>terminal\<close>

definition ALLOWED_COMMANDS :: "string list" where
  "ALLOWED_COMMANDS = [''echo'', ''pwd'', ''ls'', ''whoami'', ''date'', ''uname'']"

text \<open>\<^verbatim>\<open>shlex.split\<close> in its POSIX mode, as the state machine of the standard library: between words, inside a
  word, inside a quotation, or after a backslash in one of the latter two.  The flag records that the
  current word held a quotation, so that it counts even when empty.\<close>

datatype shlex_state = Between | InWord | Quoted char | Escaped shlex_state

definition shlex_space :: "char \<Rightarrow> bool" where
  "shlex_space c \<longleftrightarrow> (of_char c :: nat) \<in> {9, 10, 13, 32}"

definition emit :: "bool \<Rightarrow> string \<Rightarrow> string list res \<Rightarrow> string list res" where
  "emit quoted token rest = (if token \<noteq> [] \<or> quoted then bindE rest (\<lambda>ws. Inr (token # ws)) else rest)"

fun shlex_scan :: "shlex_state \<Rightarrow> bool \<Rightarrow> string \<Rightarrow> string \<Rightarrow> string list res" where
  "shlex_scan (Quoted q) quoted token [] = Inl ValueError"
| "shlex_scan (Escaped st) quoted token [] = Inl ValueError"
| "shlex_scan st quoted token [] = emit quoted token (Inr [])"
| "shlex_scan (Quoted q) quoted token (c # cs) =
     (if c = q then shlex_scan InWord True token cs
      else if c = backslash \<and> q = double_quote then shlex_scan (Escaped (Quoted q)) True token cs
      else shlex_scan (Quoted q) True (token @ [c]) cs)"
| "shlex_scan (Escaped st) quoted token (c # cs) =
     (case st of
        Quoted q \<Rightarrow> shlex_scan st quoted (if c \<noteq> backslash \<and> c \<noteq> q then token @ [backslash, c] else token @ [c]) cs
      | _ \<Rightarrow> shlex_scan st quoted (token @ [c]) cs)"
| "shlex_scan st quoted token (c # cs) =
     (if shlex_space c then emit quoted token (shlex_scan Between False [] cs)
      else if c = backslash then shlex_scan (Escaped InWord) quoted token cs
      else if c = single_quote \<or> c = double_quote then shlex_scan (Quoted c) quoted token cs
      else shlex_scan InWord quoted (token @ [c]) cs)"

definition shlex_split :: "string \<Rightarrow> string list res" where
  "shlex_split s = shlex_scan Between False [] s"

definition argv_from_arguments :: "obj \<Rightarrow> string list res" where
  "argv_from_arguments args =
     (case oget args ''argv'' of
        JArr (x # xs) \<Rightarrow> Inr (map py_str (x # xs))
      | _ \<Rightarrow>
        (case oget args ''command'' of
           JStr s \<Rightarrow> if strip s \<noteq> [] then shlex_split s else Inl TerminalToolError
         | _ \<Rightarrow> Inl TerminalToolError))"

definition terminal_run :: "vm_world \<Rightarrow> obj \<Rightarrow> obj res" where
  "terminal_run w args =
     bindE (argv_from_arguments args) (\<lambda>argv.
       if argv = [] then Inl TerminalToolError
       else if hd argv \<notin> set ALLOWED_COMMANDS then Inl TerminalToolError
       else bindE (py_float (oget_or args ''timeout_seconds'' (JInt 10))) (\<lambda>timeout.
         bindE (vw_process w None argv (min (max timeout 1) 30)) (\<lambda>(out, err, code).
           Inr [(''argv'', JArr (map JStr argv)), (''stdout'', JStr out), (''stderr'', JStr err), (''exit_code'', JInt code)])))"

section \<open>file\_read\<close>

definition DEFAULT_MAX_BYTES :: int where
  "DEFAULT_MAX_BYTES = 64 * 1024"

definition getenv_or :: "vm_world \<Rightarrow> string \<Rightarrow> string \<Rightarrow> string" where
  "getenv_or w k v = (case vw_getenv w k of None \<Rightarrow> v | Some x \<Rightarrow> x)"

definition workspace_root :: "vm_world \<Rightarrow> ppath" where
  "workspace_root w = vw_resolve w (path_of (getenv_or w ''CORVUS_TOOL_WORKSPACE_ROOT'' ''/workspace''))"

definition tool_error :: "string \<Rightarrow> string \<Rightarrow> obj" where
  "tool_error text code = [(''error'', JStr text), (''error_code'', JStr code)]"

definition file_read_run :: "vm_world \<Rightarrow> obj \<Rightarrow> obj res" where
  "file_read_run w args =
     (let raw_path = strip (py_str (oget_or args ''path'' (JStr []))) in
      if raw_path = [] then Inr (tool_error ''path is required'' ''FILE_READ_PATH_REQUIRED'')
      else
        let workspace = workspace_root w;
            candidate = (if \<not> pp_absolute (path_of raw_path) then vw_resolve w (path_join workspace (path_of raw_path))
                         else vw_resolve w (path_of raw_path))
        in case relative_to candidate workspace of
             Inl _ \<Rightarrow> Inr (tool_error ''path escapes workspace root'' ''FILE_READ_PATH_DENIED'')
           | Inr rel \<Rightarrow>
               (case vw_file w candidate of
                  None \<Rightarrow> Inr (tool_error ''file not found'' ''FILE_READ_NOT_FOUND'')
                | Some data \<Rightarrow>
                    bindE (py_int (oget_or args ''max_bytes'' (JInt DEFAULT_MAX_BYTES))) (\<lambda>requested.
                      let max_bytes = max 1 (min requested DEFAULT_MAX_BYTES);
                          truncated = (max_bytes < int (length data));
                          data' = (if truncated then take (nat max_bytes) data else data)
                      in case vw_utf8 w data' of
                           None \<Rightarrow> Inr (tool_error ''file is not valid UTF-8'' ''FILE_READ_NOT_TEXT'' @ [(''path'', JStr (path_str rel))])
                         | Some content \<Rightarrow>
                             Inr [(''path'', JStr (path_str rel)), (''content'', JStr content),
                                  (''truncated'', JBool truncated), (''bytes'', JInt (int (length data')))])))"

section \<open>Skills\<close>

text \<open>\<^verbatim>\<open>read_text\<close> translates line ends.\<close>

fun universal_newlines :: "string \<Rightarrow> string" where
  "universal_newlines [] = []"
| "universal_newlines (c # cs) =
     (if (of_char c :: nat) = 13
      then char_of (10 :: nat) # (case cs of d # ds \<Rightarrow> if (of_char d :: nat) = 10 then universal_newlines ds else universal_newlines cs | [] \<Rightarrow> [])
      else c # universal_newlines cs)"

definition path_add :: "ppath \<Rightarrow> string \<Rightarrow> ppath" where
  "path_add p s = path_join p (path_of s)"

definition path_parent :: "ppath \<Rightarrow> ppath" where
  "path_parent p = PPath (pp_absolute p) (butlast (pp_parts p))"

definition has_skill_md :: "vm_world \<Rightarrow> ppath \<Rightarrow> bool" where
  "has_skill_md w p \<longleftrightarrow> vw_file w (path_add p ''SKILL.md'') \<noteq> None"

definition nonempty_env :: "vm_world \<Rightarrow> string \<Rightarrow> string option" where
  "nonempty_env w k = (case vw_getenv w k of Some v \<Rightarrow> if v = [] then None else Some v | None \<Rightarrow> None)"

definition default_skill_store_dir :: "vm_world \<Rightarrow> ppath" where
  "default_skill_store_dir w =
     (case nonempty_env w ''CORVUS_SKILL_STORE_DIR'' of
        Some v \<Rightarrow> path_of v
      | None \<Rightarrow> path_add (path_parent (vw_resolve w (path_of (getenv_or w ''CORVUS_DB_PATH'' ''corvus.db'')))) ''skill-store'')"

definition store_root :: "vm_world \<Rightarrow> ppath" where
  "store_root w = vw_resolve w (default_skill_store_dir w)"

definition package_dir :: "ppath \<Rightarrow> string \<Rightarrow> string \<Rightarrow> string \<Rightarrow> ppath" where
  "package_dir store name version content_hash =
     path_add (path_add (path_add store name) version)
       (take 128 (map (\<lambda>c. if c = CHR '':'' then CHR ''_'' else c) content_hash))"

text \<open>The package of the builtin skill; \<^verbatim>\<open>ensure_builtin_base_runtime\<close> writes its text when the file is missing.\<close>

definition builtin_dir :: "vm_world \<Rightarrow> ppath" where
  "builtin_dir w = package_dir (store_root w) ''base-runtime'' ''1.0'' ''builtin:base-runtime:1.0''"

definition builtin_skill_md :: string where
  "builtin_skill_md = (let nl = [char_of (10 :: nat)]; q = [double_quote] in
     ''---'' @ nl @ ''name: base-runtime'' @ nl
     @ ''description: Builtin Corvus runtime skill for ping and instruction stub.'' @ nl
     @ ''metadata:'' @ nl @ ''  version: '' @ q @ ''1.0'' @ q @ nl @ ''---'' @ nl @ nl @ ''# Base runtime'' @ nl @ nl
     @ ''Use this skill to confirm skill mediation works. ''
     @ ''Call `skill_read` with skill=`base-runtime` to load these instructions. ''
     @ ''Scripts are disabled for this builtin.'' @ nl)"

definition hash_dirs :: "vm_world \<Rightarrow> ppath \<Rightarrow> ppath list" where
  "hash_dirs w skill_dir = concat (map (\<lambda>version.
     case vw_entries w (path_add skill_dir version) of
       None \<Rightarrow> []
     | Some hashes \<Rightarrow> map (path_add (path_add skill_dir version)) (rev (sort hashes)))
     (case vw_entries w skill_dir of None \<Rightarrow> [] | Some versions \<Rightarrow> rev (sort versions)))"

definition resolve_skill_root :: "vm_world \<Rightarrow> string \<Rightarrow> json \<Rightarrow> ppath res" where
  "resolve_skill_root w skill store_path =
     (case (case nonempty_env w ''CORVUS_SKILLS_DIR'' of
              None \<Rightarrow> None
            | Some bake \<Rightarrow> let c = path_add (path_of bake) skill in if has_skill_md w c then Some c else None) of
        Some c \<Rightarrow> Inr c
      | None \<Rightarrow>
          bindE (if \<not> truthy store_path then Inr None
                 else case store_path of
                   JStr sp \<Rightarrow> Inr (if has_skill_md w (path_of sp) then Some (path_of sp) else None)
                 | _ \<Rightarrow> Inl TypeError) (\<lambda>found.
          case found of
            Some p \<Rightarrow> Inr p
          | None \<Rightarrow>
              if skill = ''base-runtime'' then Inr (builtin_dir w)
              else case List.find (has_skill_md w) (hash_dirs w (path_add (store_root w) skill)) of
                     Some p \<Rightarrow> Inr p
                   | None \<Rightarrow> Inl RuntimeError))"

text \<open>The skill a call names.\<close>

definition skill_argument :: "obj \<Rightarrow> string" where
  "skill_argument args = strip (py_str (py_or (oget args ''skill'') (py_or (oget args ''name'') (JStr []))))"

definition read_skill_md :: "vm_world \<Rightarrow> ppath \<Rightarrow> string res" where
  "read_skill_md w p =
     (case vw_file w (path_add p ''SKILL.md'') of
        Some bytes \<Rightarrow> (case vw_utf8 w bytes of None \<Rightarrow> Inl ValueError | Some t \<Rightarrow> Inr (universal_newlines t))
      | None \<Rightarrow> if p = builtin_dir w then Inr builtin_skill_md else Inl FileNotFoundError)"

definition run_skill_read :: "vm_world \<Rightarrow> obj \<Rightarrow> obj res" where
  "run_skill_read w args =
     (let skill = skill_argument args in
      if skill = [] then Inl RuntimeError
      else bindE (resolve_skill_root w skill (oget args ''store_path'')) (\<lambda>p.
        bindE (read_skill_md w p) (\<lambda>content.
          Inr [(''skill'', JStr skill), (''path'', JStr (path_str (path_add p ''SKILL.md''))),
               (''content'', JStr content), (''bytes'', JInt (int (length content)))])))"

definition scripts_flag :: "vm_world \<Rightarrow> string \<Rightarrow> bool" where
  "scripts_flag w skill \<longleftrightarrow> lower (getenv_or w (''CORVUS_SKILL_ALLOW_SCRIPTS_'' @ skill) []) \<in> {''1'', ''true'', ''yes''}"

text \<open>The decision on \<^verbatim>\<open>allow_scripts\<close>: the argument of the call is read first, the flag of the launch package
  only when the argument does not say.\<close>

definition scripts_allowed :: "vm_world \<Rightarrow> string \<Rightarrow> json \<Rightarrow> bool" where
  "scripts_allowed w skill allow =
     (if allow = JBool False \<or> allow = JStr ''false'' then False
      else if allow \<noteq> JBool True \<and> allow \<noteq> JStr ''true'' then scripts_flag w skill
      else True)"

text \<open>\<^verbatim>\<open>s[-n:]\<close>\<close>

definition last_chars :: "nat \<Rightarrow> string \<Rightarrow> string" where
  "last_chars n s = drop (length s - n) s"

definition run_skill_run :: "vm_world \<Rightarrow> obj \<Rightarrow> obj res" where
  "run_skill_run w args =
     (let skill = skill_argument args;
          script = strip (py_str (py_or (oget args ''script'') (JStr []))) in
      if skill = [] \<or> script = [] then Inl RuntimeError
      else if pp_absolute (path_of script) \<or> ''..'' \<in> set (pp_parts (path_of script)) then Inl RuntimeError
      else if \<not> prefix ''scripts/'' script then Inl RuntimeError
      else if \<not> scripts_allowed w skill (oget args ''allow_scripts'') then Inl RuntimeError
      else bindE (resolve_skill_root w skill (oget args ''store_path'')) (\<lambda>p.
        let script_path = vw_resolve w (path_add p script) in
        if \<not> prefix (path_str (vw_resolve w p)) (path_str script_path) then Inl RuntimeError
        else if vw_file w script_path = None then Inl RuntimeError
        else bindE (py_float (py_or (oget args ''timeout_seconds'') (JInt 30))) (\<lambda>timeout.
          bindE (vw_process w (Some p) [''bash'', path_str script_path] timeout) (\<lambda>(out, err, code).
            Inr [(''skill'', JStr skill), (''script'', JStr script), (''exit_code'', JInt code),
                 (''stdout'', JStr (last_chars 65536 out)), (''stderr'', JStr (last_chars 65536 err))]))))"

section \<open>The registry\<close>

definition TOOL_REGISTRY :: "vm_world \<Rightarrow> (string \<times> (obj \<Rightarrow> obj res)) list" where
  "TOOL_REGISTRY w = [(''echo'', echo_run), (''terminal'', terminal_run w), (''file_read'', file_read_run w),
     (''skill_read'', run_skill_read w), (''skill_run'', run_skill_run w)]"

definition get_tool_runner :: "vm_world \<Rightarrow> string \<Rightarrow> (obj \<Rightarrow> obj res) option" where
  "get_tool_runner w tool_name = map_of (TOOL_REGISTRY w) tool_name"

definition run_tool :: "vm_world \<Rightarrow> string \<Rightarrow> obj \<Rightarrow> obj res" where
  "run_tool w tool_name args =
     (case get_tool_runner w tool_name of None \<Rightarrow> Inl ToolExecutionError | Some runner \<Rightarrow> runner args)"

section \<open>Confinement\<close>

text \<open>A successful read returns a decoded beginning, of at most 64 KiB, of a file below the workspace root.\<close>

lemma relative_to_Inr:
  "relative_to p r = Inr rel \<longleftrightarrow> pp_absolute p = pp_absolute r \<and> pp_parts p = pp_parts r @ pp_parts rel \<and> \<not> pp_absolute rel"
  by (cases rel) (auto simp: relative_to_def prefix_def)

lemma take_if: "(if m < int (length d) then take (nat m) d else d) = take (nat m) d"
  by simp

lemma file_read_confined:
  assumes "file_read_run w args = Inr d" and "oget d ''content'' = JStr content"
  shows "\<exists>p rel data n. relative_to p (workspace_root w) = Inr rel \<and> vw_file w p = Some data \<and> 1 \<le> n \<and> n \<le> 65536
     \<and> vw_utf8 w (take n data) = Some content \<and> oget d ''path'' = JStr (path_str rel)"
proof -
  let ?raw = "strip (py_str (oget_or args ''path'' (JStr [])))"
  let ?p = "if \<not> pp_absolute (path_of ?raw) then vw_resolve w (path_join (workspace_root w) (path_of ?raw))
            else vw_resolve w (path_of ?raw)"
  have err: "oget (tool_error t c @ x) ''content'' = oget x ''content''" "oget (tool_error t c) ''content'' = JNull" for t c x
    by (simp_all add: tool_error_def oget_def)
  from assms err have raw: "?raw \<noteq> []" by (auto simp: file_read_run_def Let_def)
  with assms(1) have d: "(case relative_to ?p (workspace_root w) of
             Inl _ \<Rightarrow> Inr (tool_error ''path escapes workspace root'' ''FILE_READ_PATH_DENIED'')
           | Inr rel \<Rightarrow>
               (case vw_file w ?p of
                  None \<Rightarrow> Inr (tool_error ''file not found'' ''FILE_READ_NOT_FOUND'')
                | Some data \<Rightarrow>
                    bindE (py_int (oget_or args ''max_bytes'' (JInt DEFAULT_MAX_BYTES))) (\<lambda>requested.
                      let max_bytes = max 1 (min requested DEFAULT_MAX_BYTES)
                      in case vw_utf8 w (take (nat max_bytes) data) of
                           None \<Rightarrow> Inr (tool_error ''file is not valid UTF-8'' ''FILE_READ_NOT_TEXT'' @ [(''path'', JStr (path_str rel))])
                         | Some content \<Rightarrow>
                             Inr [(''path'', JStr (path_str rel)), (''content'', JStr content),
                                  (''truncated'', JBool (max_bytes < int (length data))),
                                  (''bytes'', JInt (int (length (take (nat max_bytes) data))))]))) = Inr d"
    unfolding file_read_run_def Let_def take_if by simp
  then obtain rel data where rel: "relative_to ?p (workspace_root w) = Inr rel" and data: "vw_file w ?p = Some data"
    using assms(2) err by (auto split: sum.split_asm option.split_asm)
  with d obtain requested where
    "(case vw_utf8 w (take (nat (max 1 (min requested DEFAULT_MAX_BYTES))) data) of
        None \<Rightarrow> Inr (tool_error ''file is not valid UTF-8'' ''FILE_READ_NOT_TEXT'' @ [(''path'', JStr (path_str rel))])
      | Some content \<Rightarrow>
          Inr [(''path'', JStr (path_str rel)), (''content'', JStr content),
               (''truncated'', JBool (max 1 (min requested DEFAULT_MAX_BYTES) < int (length data))),
               (''bytes'', JInt (int (length (take (nat (max 1 (min requested DEFAULT_MAX_BYTES))) data))))]) = (Inr d :: obj res)"
    by (auto simp: Let_def)
  then have "vw_utf8 w (take (nat (max 1 (min requested DEFAULT_MAX_BYTES))) data) = Some content
      \<and> oget d ''path'' = JStr (path_str rel)"
    using assms(2) by (auto simp: oget_def tool_error_def split: option.split_asm)
  moreover have "1 \<le> nat (max 1 (min requested DEFAULT_MAX_BYTES))" "nat (max 1 (min requested DEFAULT_MAX_BYTES)) \<le> 65536"
    by (simp_all add: DEFAULT_MAX_BYTES_def)
  ultimately show ?thesis using rel data by blast
qed

text \<open>Only allow-listed commands run, with a time limit between one and thirty seconds: what the tool returns
  does not depend on what any other command would do.\<close>

lemma terminal_confined:
  assumes "\<And>argv t. argv \<noteq> [] \<Longrightarrow> hd argv \<in> set ALLOWED_COMMANDS \<Longrightarrow> 1 \<le> t \<Longrightarrow> t \<le> 30 \<Longrightarrow>
      vw_process w None argv t = vw_process w' None argv t"
  shows "terminal_run w args = terminal_run w' args"
  unfolding terminal_run_def using assms
  by (intro bindE_cong refl if_cong) simp_all

lemma terminal_success:
  assumes "terminal_run w args = Inr d"
  obtains argv t out err code where "argv_from_arguments args = Inr argv" and "argv \<noteq> []" and "hd argv \<in> set ALLOWED_COMMANDS"
    and "1 \<le> t" and "t \<le> 30" and "vw_process w None argv t = Inr (out, err, code)"
proof -
  from assms obtain argv timeout out err code where "argv_from_arguments args = Inr argv" "argv \<noteq> []" "hd argv \<in> set ALLOWED_COMMANDS"
    "vw_process w None argv (min (max timeout 1) 30) = Inr (out, err, code)"
    by (auto simp: terminal_run_def split: if_split_asm prod.split_asm)
  then show thesis by (intro that [of argv "min (max timeout 1) 30"]) simp_all
qed

text \<open>A call that carries \<^verbatim>\<open>allow_scripts\<close> runs its script whatever the launch package says.\<close>

lemma skill_run_ignores_flag:
  assumes "oget args ''allow_scripts'' = JBool True" and "skill_argument args \<noteq> []"
    and "script = strip (py_str (py_or (oget args ''script'') (JStr [])))" and "prefix ''scripts/'' script"
    and "\<not> pp_absolute (path_of script)" and "''..'' \<notin> set (pp_parts (path_of script))"
    and "resolve_skill_root w (skill_argument args) (oget args ''store_path'') = Inr p"
    and "prefix (path_str (vw_resolve w p)) (path_str (vw_resolve w (path_add p script)))"
    and "vw_file w (vw_resolve w (path_add p script)) \<noteq> None"
    and "py_float (py_or (oget args ''timeout_seconds'') (JInt 30)) = Inr t"
    and "vw_process w (Some p) [''bash'', path_str (vw_resolve w (path_add p script))] t = Inr (out, err, code)"
  shows "\<exists>d. run_skill_run w args = Inr d \<and> oget d ''exit_code'' = JInt code"
proof -
  have "script \<noteq> []" using assms(4) by auto
  with assms show ?thesis
    by (simp add: run_skill_run_def Let_def scripts_allowed_def oget_def)
qed

end
