(* ===== verification/Runtime_World.thy ===== *)
theory Runtime_World
  imports Coordinator Runtime_Clients Local_Tools
begin

text \<open>
  What a process of the agent runtime sees: the coordinator file it shares with the other processes, the
  node's socket through \<^verbatim>\<open>runtime/ipc_client.py\<close>, and the clock.

  The other processes are open: before each access of the file a batch of their operations takes effect,
  taken from \<open>w_others\<close> with the time that passes, at least a microsecond.  \<open>w_answers\<close> are the node's answers
  to requests in order; \<open>w_inbox\<close> are the messages the node pushes, with \<open>None\<close> where nothing arrives before
  a wait times out.  Both are consumed in order, as the two queues of the client are.  A request that is never
  answered waits until the process is cancelled.  \<open>w_trace\<close> is the history of what the process did.
\<close>

datatype event = Sent framework_message | Got framework_message | Ran string obj | Did coord_op

record world =
  w_env :: env
  w_drawn :: nat
  w_uuid_of :: "json \<Rightarrow> uuid res"
  w_clock :: int
  w_stop_at :: "int option"
  w_file :: coord_file
  w_others :: "(nat \<times> coord_op list) list"
  w_answers :: "obj list"
  w_inbox :: "framework_message option list"
  w_vm :: vm_world
  w_tool_ms :: int
  w_trace :: "event list"

text \<open>The surroundings of one message: the instant and identifiers nobody has drawn before.\<close>

definition draw :: "(world, env) act" where
  "draw = (\<lambda>w. (Inr ((w_env w)\<lparr>now := w_clock w, uuid4 := (\<lambda>site. uuid4 (w_env w) (site @ ''#'' @ nat_str (w_drawn w)))\<rparr>),
               w\<lparr>w_drawn := w_drawn w + 1\<rparr>))"

definition stopped :: "world \<Rightarrow> bool" where
  "stopped w \<longleftrightarrow> (case w_stop_at w of None \<Rightarrow> False | Some t \<Rightarrow> t \<le> w_clock w)"

definition note_event :: "event \<Rightarrow> world \<Rightarrow> world" where
  "note_event x w = w\<lparr>w_trace := w_trace w @ [x]\<rparr>"

section \<open>The coordinator file\<close>

definition others_act :: "world \<Rightarrow> world" where
  "others_act w =
     (case w_others w of
        [] \<Rightarrow> w\<lparr>w_clock := w_clock w + 1\<rparr>
      | (d, xs) # rest \<Rightarrow> w\<lparr>w_others := rest, w_clock := w_clock w + 1 + int d, w_file := fold coord_apply xs (w_file w)\<rparr>)"

definition read_coord :: "(world, obj) act" where
  "read_coord = (\<lambda>w. let w' = others_act w in (Inr (coord_read (w_file w')), w'))"

definition phase_now :: "(world, turn_phase) act" where
  "phase_now = (\<lambda>w. let w' = others_act w in (get_phase (w_file w'), w'))"

definition do_coord :: "coord_op \<Rightarrow> (world, unit) act" where
  "do_coord x = (\<lambda>w. let w' = others_act w in (Inr (), note_event (Did x) (w'\<lparr>w_file := coord_apply x (w_file w')\<rparr>)))"

definition do_complete :: "string \<Rightarrow> obj list \<Rightarrow> (world, bool) act" where
  "do_complete b results = (\<lambda>w. let w' = others_act w in
     (Inr (fst (complete_tool_batch b results (w_file w'))),
      note_event (Did (Complete b results)) (w'\<lparr>w_file := snd (complete_tool_batch b results (w_file w'))\<rparr>)))"

definition do_mark_ready :: "string \<Rightarrow> (world, unit) act" where
  "do_mark_ready engine = (\<lambda>w. let w' = others_act w in
     case mark_ready engine (w_file w') of
       Inl x \<Rightarrow> (Inl x, w')
     | Inr f \<Rightarrow> (Inr (), note_event (Did (Ready engine)) (w'\<lparr>w_file := f\<rparr>)))"

section \<open>Waiting on the file\<close>

lemma others_act_clock: "w_clock w < w_clock (others_act w)"
  by (simp add: others_act_def split: list.split prod.split)

definition poll_interval :: int where
  "poll_interval = 50000"

text \<open>The loop of every \<^verbatim>\<open>await_...\<close> method: read, decide, sleep, until the deadline.\<close>

function poll :: "int \<Rightarrow> (coord_file \<Rightarrow> 'a option res) \<Rightarrow> (world, 'a option) act" where
  "poll deadline view w =
     (if deadline \<le> w_clock w then (Inr None, w)
      else let w' = others_act w in
        case view (w_file w') of
          Inl x \<Rightarrow> (Inl x, w')
        | Inr (Some r) \<Rightarrow> (Inr (Some r), w')
        | Inr None \<Rightarrow> poll deadline view (w'\<lparr>w_clock := w_clock w' + poll_interval\<rparr>))"
  by pat_completeness auto

termination
proof (relation "measure (\<lambda>(deadline, _, w). nat (deadline - w_clock w))")
  fix deadline w w' assume "\<not> deadline \<le> w_clock w" and "w' = others_act w"
  then show "((deadline, view, w'\<lparr>w_clock := w_clock w' + poll_interval\<rparr>), deadline, view, w)
      \<in> measure (\<lambda>(deadline, _, w). nat (deadline - w_clock w))" for view :: "coord_file \<Rightarrow> 'a option res"
    using others_act_clock [of w] by (simp add: poll_interval_def)
qed simp

declare poll.simps [simp del]

definition await :: "int \<Rightarrow> (coord_file \<Rightarrow> 'a option res) \<Rightarrow> (world, 'a option) act" where
  "await timeout view = (\<lambda>w. poll (w_clock w + timeout) view w)"

definition phase_view :: "turn_phase list \<Rightarrow> coord_file \<Rightarrow> turn_phase option res" where
  "phase_view targets f = bindE (get_phase f) (\<lambda>p. Inr (if p \<in> set targets then Some p else None))"

definition await_phase :: "turn_phase \<Rightarrow> int \<Rightarrow> (world, bool) act" where
  "await_phase target timeout = bindA (await timeout (phase_view [target])) (\<lambda>r. ret (r \<noteq> None))"

definition await_phase_in :: "turn_phase list \<Rightarrow> int \<Rightarrow> (world, turn_phase option) act" where
  "await_phase_in targets timeout = await timeout (phase_view targets)"

definition engines_view :: "string list \<Rightarrow> coord_file \<Rightarrow> unit option res" where
  "engines_view required f = bindE (missing_engines required f) (\<lambda>missing. Inr (if missing = [] then Some () else None))"

definition await_engines_ready :: "string list \<Rightarrow> int \<Rightarrow> (world, bool \<times> string list) act" where
  "await_engines_ready required timeout = bindA (await timeout (engines_view required)) (\<lambda>r.
     case r of
       Some _ \<Rightarrow> ret (True, [])
     | None \<Rightarrow> (\<lambda>w. let w' = others_act w in
         case missing_engines required (w_file w') of Inl x \<Rightarrow> (Inl x, w') | Inr missing \<Rightarrow> (Inr (False, missing), w')))"

definition await_tool_batch_complete :: "string \<Rightarrow> int \<Rightarrow> (world, json list option) act" where
  "await_tool_batch_complete b timeout = await timeout (\<lambda>f. Inr (batch_complete_view b f))"

definition await_tool_batch_pending :: "int \<Rightarrow> (world, (string \<times> json list) option) act" where
  "await_tool_batch_pending timeout = await timeout (\<lambda>f. Inr (batch_pending_view f))"

section \<open>The node's socket\<close>

definition ipc_request :: "(world, obj) act" where
  "ipc_request = (\<lambda>w. case w_answers w of [] \<Rightarrow> (Inl CancelledError, w) | a # as \<Rightarrow> (Inr a, w\<lparr>w_answers := as\<rparr>))"

definition submit :: "framework_message \<Rightarrow> (world, obj) act" where
  "submit m = (\<lambda>w. ipc_request (note_event (Sent m) w))"

definition wait_inbound :: "(world, framework_message) act" where
  "wait_inbound = (\<lambda>w.
     case w_inbox w of
       [] \<Rightarrow> (Inl TimeoutError, w)
     | None # rest \<Rightarrow> (Inl TimeoutError, w\<lparr>w_inbox := rest\<rparr>)
     | Some m # rest \<Rightarrow> (Inr m, note_event (Got m) (w\<lparr>w_inbox := rest\<rparr>)))"

definition submit_and_wait :: "framework_message \<Rightarrow> (world, framework_message) act" where
  "submit_and_wait m = bindA (submit m) (\<lambda>resp.
     if \<not> truthy (oget resp ''accepted'') then raise RuntimeError else wait_inbound)"

definition ipc_subscribe :: "(world, unit) act" where
  "ipc_subscribe = bindA ipc_request (\<lambda>resp. if \<not> truthy (oget resp ''accepted'') then raise RuntimeError else ret ())"

text \<open>\<^verbatim>\<open>wait_handshake\<close>: ask for the health until the handshake is complete; the sleep is a tenth of a second.\<close>

function wait_handshake_until :: "int \<Rightarrow> (world, bool) act" where
  "wait_handshake_until deadline w =
     (if deadline \<le> w_clock w then (Inr False, w)
      else case w_answers w of
        [] \<Rightarrow> (Inl CancelledError, w)
      | a # as \<Rightarrow>
          if truthy (oget a ''handshake_complete'') then (Inr True, w\<lparr>w_answers := as\<rparr>)
          else wait_handshake_until deadline (w\<lparr>w_answers := as, w_clock := w_clock w + 100000\<rparr>))"
  by pat_completeness auto

termination
  by (relation "measure (\<lambda>(deadline, w). nat (deadline - w_clock w))") simp_all

declare wait_handshake_until.simps [simp del]

definition wait_handshake :: "(world, bool) act" where
  "wait_handshake = (\<lambda>w. wait_handshake_until (w_clock w + seconds 30) w)"

section \<open>A stream\<close>

definition join_chunks :: "llm_op_result \<Rightarrow> string list \<Rightarrow> llm_op_result" where
  "join_chunks result chunks =
     (if lo_ok result \<and> \<not> truthy (lo_content result) \<and> chunks \<noteq> [] then result\<lparr>lo_content := JStr (concat chunks)\<rparr> else result)"

definition delta_text :: "framework_message \<Rightarrow> string list" where
  "delta_text m = (case pget m ''delta'' of JStr s \<Rightarrow> if s = [] then [] else [s] | _ \<Rightarrow> [])"

text \<open>The loop of \<^verbatim>\<open>collect_llm_stream\<close> over the inbound messages.\<close>

function collect_chunks :: "string list \<Rightarrow> (world, llm_op_result) act" where
  "collect_chunks chunks w =
     (case wait_inbound w of
        (Inl x, w') \<Rightarrow> (Inl x, w')
      | (Inr m, w') \<Rightarrow>
          if msg_type m = ''llm_stream_chunk'' then collect_chunks (chunks @ delta_text m) w'
          else if msg_type m = ''llm_response'' then
            (case parse_llm_response m of Inl x \<Rightarrow> (Inl x, w') | Inr result \<Rightarrow> (Inr (join_chunks result chunks), w'))
          else if msg_class m = ERROR then (parse_llm_response m, w')
          else (Inr (llm_op_failure JNull JNull (JStr (''unexpected inbound type during stream: '' @ msg_type m)) None), w'))"
  by pat_completeness auto

termination
  by (relation "measure (\<lambda>(chunks, w). length (w_inbox w))")
     (auto simp: wait_inbound_def note_event_def split: list.splits option.splits)

declare collect_chunks.simps [simp del]

definition collect_llm_stream :: "framework_message \<Rightarrow> (world, llm_op_result) act" where
  "collect_llm_stream m = bindA (submit m) (\<lambda>resp.
     if \<not> truthy (oget resp ''accepted'') then raise RuntimeError
     else bindA wait_inbound (\<lambda>start.
       if msg_type start = ''llm_stream_start'' then
         if pget start ''success'' \<noteq> JBool True then
           ret (llm_op_failure (pget start ''provider'') (pget start ''model'')
                  (JStr (py_str (py_or (pget start ''error'') (JStr ''LLM stream start failed'')))) (str_if (pget start ''error_code'')))
         else collect_chunks []
       else if msg_type start = ''llm_response'' \<or> msg_class start = ERROR then liftR (parse_llm_response start)
       else ret (llm_op_failure JNull JNull (JStr (''unexpected first inbound type: '' @ msg_type start)) None)))"

end
