(* ===== verification/Runtime_Engines.thy ===== *)
theory Runtime_Engines
  imports Runtime_World
begin

text \<open>
  The processes of the agent runtime: the turn of \<^verbatim>\<open>runtime/loop.py\<close>, the life cycle of
  \<^verbatim>\<open>runtime/engines/base.py\<close> and the four engines.  Each is an action of its own world; an exception ends the
  process.  Of \<^verbatim>\<open>runtime/config.py\<close> the fields the processes read are kept, with two environment variables
  that engines 2 and 4 read themselves.
\<close>

record runtime_config =
  rc_agent_id :: string
  rc_vm_id :: string
  rc_llm_local_tools :: "string list"
  rc_llm_stream :: bool
  rc_turn_timeout :: int
  rc_chat_text :: "string option"
  rc_engine4_delete :: "string option"

text \<open>\<^verbatim>\<open>UUID(coord.read().get("correlation_id", str(uuid4())))\<close>\<close>

definition read_turn_id :: "(world, uuid) act" where
  "read_turn_id = bindA draw (\<lambda>e. bindA read_coord (\<lambda>st. (\<lambda>w.
     (w_uuid_of w (oget_or st ''correlation_id'' (JStr (uuid4 e ''turn''))), w))))"

abbreviation corr :: "uuid \<Rightarrow> obj" where
  "corr turn_id \<equiv> [(''correlation_id'', JStr turn_id)]"

section \<open>Engine 1: tools\<close>

definition run_local_tool :: "string \<Rightarrow> obj \<Rightarrow> (world, obj) act" where
  "run_local_tool tool_name args = (\<lambda>w. (run_tool (w_vm w) tool_name args, note_event (Ran tool_name args) w))"

text \<open>\<^verbatim>\<open>_run_tool\<close>: \<open>None\<close> unless the server approved, the tool ran and the result was accepted.  Only
  \<^verbatim>\<open>ToolExecutionError\<close> is caught.\<close>

definition engine1_run_tool :: "runtime_config \<Rightarrow> uuid \<Rightarrow> string \<Rightarrow> obj \<Rightarrow> (world, obj option) act" where
  "engine1_run_tool cfg turn_id tool_name args =
     bindA draw (\<lambda>e.
     let tool_call = build_tool_call e (rc_agent_id cfg) (rc_vm_id cfg) turn_id tool_name args None in
     bindA (submit_and_wait tool_call) (\<lambda>approval_msg.
     let approval = parse_tool_call_response approval_msg in
     if \<not> ar_ok approval \<or> \<not> ar_approved approval then ret None
     else (\<lambda>w.
       case run_local_tool tool_name args w of
         (Inl ToolExecutionError, w') \<Rightarrow> (Inr None, w')
       | (Inl x, w') \<Rightarrow> (Inl x, w')
       | (Inr output, w') \<Rightarrow>
           bindA draw (\<lambda>e'.
           bindA (submit_and_wait (build_tool_result e' (rc_agent_id cfg) (rc_vm_id cfg) turn_id tool_name
                    (msg_correlation_id tool_call) True (Some output) None (w_tool_ms w'))) (\<lambda>ack.
           ret (if to_ok (parse_tool_result_ack ack) then Some output else None))) w')))"

text \<open>\<^verbatim>\<open>dict(call.get("arguments") or {})\<close>; engine 3 writes an object there.\<close>

definition call_arguments :: "json \<Rightarrow> obj res" where
  "call_arguments v = (case v of JObj d \<Rightarrow> Inr d | _ \<Rightarrow> if truthy v then Inl TypeError else Inr [])"

definition result_entry :: "obj \<Rightarrow> obj option \<Rightarrow> obj" where
  "result_entry call output = [(''id'', oget call ''id''), (''name'', oget call ''name''), (''success'', JBool (output \<noteq> None)),
     (''result'', case output of None \<Rightarrow> JNull | Some d \<Rightarrow> JObj d)]"

definition result_fields :: "obj \<Rightarrow> obj option \<Rightarrow> obj" where
  "result_fields call output =
     (case output of
        None \<Rightarrow> []
      | Some d \<Rightarrow>
          (if oget call ''name'' = JStr ''echo'' then [(''tool_echo_text'', oget d ''text'')]
           else if oget call ''name'' = JStr ''terminal''
             then [(''tool_terminal_stdout'', oget d ''stdout''), (''tool_terminal_exit_code'', oget d ''exit_code'')]
           else []))"

fun engine1_calls :: "runtime_config \<Rightarrow> uuid \<Rightarrow> json list \<Rightarrow> obj list \<Rightarrow> obj \<Rightarrow> (world, obj list \<times> obj) act" where
  "engine1_calls cfg turn_id [] results merged = ret (results, merged)"
| "engine1_calls cfg turn_id (JObj call # calls) results merged =
     bindA (liftR (call_arguments (oget call ''arguments''))) (\<lambda>args.
     bindA (engine1_run_tool cfg turn_id (py_str (oget_or call ''name'' (JStr []))) args) (\<lambda>output.
     engine1_calls cfg turn_id calls (results @ [result_entry call output]) (omerge merged (result_fields call output))))"
| "engine1_calls cfg turn_id (_ # calls) results merged = raise AttributeError"

definition engine1_batch :: "runtime_config \<Rightarrow> uuid \<Rightarrow> string \<Rightarrow> json list \<Rightarrow> (world, unit) act" where
  "engine1_batch cfg turn_id batch_id calls =
     bindA (engine1_calls cfg turn_id calls [] []) (\<lambda>(results, merged).
     thenA (whenA (merged \<noteq> []) (do_coord (Merge merged)))
     (thenA (do_complete batch_id results) (ret ())))"

section \<open>Time passes\<close>

text \<open>No action turns the clock back.\<close>

abbreviation forward :: "(world, 'a) act \<Rightarrow> bool" where
  "forward m \<equiv> (\<forall>c. preserves (\<lambda>w. c \<le> w_clock w) m)"

lemma forwardD: "forward m \<Longrightarrow> w_clock w \<le> w_clock (snd (m w))"
  by (simp add: preserves_def)

lemma others_act_forward: "w_clock w \<le> w_clock (others_act w)"
  using others_act_clock [of w] by simp

lemma note_event_clock [simp]: "w_clock (note_event x w) = w_clock w"
  by (simp add: note_event_def)

lemma forward_access [pres_intro]:
  "preserves (\<lambda>w. c \<le> w_clock w) read_coord" "preserves (\<lambda>w. c \<le> w_clock w) phase_now"
  "preserves (\<lambda>w. c \<le> w_clock w) (do_coord x)" "preserves (\<lambda>w. c \<le> w_clock w) (do_complete b rs)"
  "preserves (\<lambda>w. c \<le> w_clock w) (do_mark_ready en)"
  using others_act_forward
  by (auto simp: preserves_def read_coord_def phase_now_def do_coord_def do_complete_def do_mark_ready_def Let_def
      split: sum.split intro: order_trans)

lemma forward_poll: "w_clock w \<le> w_clock (snd (poll deadline view w))"
proof (induction deadline view w rule: poll.induct)
  case (1 deadline view w)
  show ?case
  proof (cases "deadline \<le> w_clock w")
    case False
    note ih = 1 [OF False refl]
    let ?w = "others_act w"
    have "w_clock w \<le> w_clock ?w" by (rule others_act_forward)
    with False ih show ?thesis
      by (subst poll.simps) (auto simp: Let_def poll_interval_def split: sum.split option.split)
  qed (simp add: poll.simps)
qed

lemma forward_await [pres_intro]: "preserves (\<lambda>w. c \<le> w_clock w) (await timeout view)"
  using forward_poll by (auto simp: preserves_def await_def intro: order_trans)

lemma forward_ipc [pres_intro]:
  "preserves (\<lambda>w. c \<le> w_clock w) draw" "preserves (\<lambda>w. c \<le> w_clock w) ipc_request"
  "preserves (\<lambda>w. c \<le> w_clock w) (submit m)" "preserves (\<lambda>w. c \<le> w_clock w) wait_inbound"
  "preserves (\<lambda>w. c \<le> w_clock w) (run_local_tool t a)"
  by (auto simp: preserves_def draw_def ipc_request_def submit_def wait_inbound_def run_local_tool_def
      split: list.split option.split)

lemma forward_submit_and_wait [pres_intro]: "preserves (\<lambda>w. c \<le> w_clock w) (submit_and_wait m)"
  unfolding submit_and_wait_def by (intro pres_intro)

lemma preserves_run_tool_case:
  assumes "preserves P m" and "\<And>x w. preserves P (f x w)"
  shows "preserves P (\<lambda>w. case m w of (Inl ToolExecutionError, w') \<Rightarrow> (Inr None, w') | (Inl x, w') \<Rightarrow> (Inl x, w')
     | (Inr y, w') \<Rightarrow> f y w' w')"
  using assms by (fastforce simp: preserves_def split: prod.split sum.split exc.split)

lemma forward_engine1_run_tool [pres_intro]: "preserves (\<lambda>w. c \<le> w_clock w) (engine1_run_tool cfg t n a)"
  unfolding engine1_run_tool_def Let_def
  by (intro pres_intro preserves_run_tool_case)

lemma forward_engine1_calls [pres_intro]: "preserves (\<lambda>w. c \<le> w_clock w) (engine1_calls cfg t cs rs fs)"
proof (induction cs arbitrary: rs fs)
  case (Cons x cs)
  then show ?case by (cases x) (simp_all only: engine1_calls.simps preserves_raise, intro pres_intro)
qed (simp add: preserves_ret)

lemma forward_engine1_batch [pres_intro]: "preserves (\<lambda>w. c \<le> w_clock w) (engine1_batch cfg t b cs)"
  unfolding engine1_batch_def by (intro pres_intro)

section \<open>Engine 1: the loop\<close>

lemma phase_now_clock: "phase_now w = (r, w1) \<Longrightarrow> w_clock w < w_clock w1"
  using others_act_clock [of w] by (auto simp: phase_now_def Let_def)

lemma pending_clock: "await_tool_batch_pending t w = (r, w') \<Longrightarrow> w_clock w \<le> w_clock w'"
  unfolding await_tool_batch_pending_def
  using forwardD [OF allI, OF forward_await] by (metis snd_conv)

lemma engine1_batch_clock: "engine1_batch cfg t b cs w = (r, w') \<Longrightarrow> w_clock w \<le> w_clock w'"
  using forwardD [OF allI, OF forward_engine1_batch] by (metis snd_conv)

function engine1_loop :: "runtime_config \<Rightarrow> uuid \<Rightarrow> int \<Rightarrow> (world, unit) act" where
  "engine1_loop cfg turn_id deadline w =
     (case phase_now w of
        (Inl x, w1) \<Rightarrow> (Inl x, w1)
      | (Inr p, w1) \<Rightarrow>
          if p \<noteq> COLLECT \<or> stopped w1 \<or> deadline \<le> w_clock w1 then (Inr (), w1)
          else case await_tool_batch_pending (seconds 1) w1 of
                 (Inl x, w2) \<Rightarrow> (Inl x, w2)
               | (Inr None, w2) \<Rightarrow> engine1_loop cfg turn_id deadline w2
               | (Inr (Some (batch_id, calls)), w2) \<Rightarrow>
                   (case engine1_batch cfg turn_id batch_id calls w2 of
                      (Inl x, w3) \<Rightarrow> (Inl x, w3)
                    | (Inr _, w3) \<Rightarrow> engine1_loop cfg turn_id deadline w3))"
  by pat_completeness auto

termination
proof (relation "measure (\<lambda>(cfg, turn_id, deadline, w). nat (deadline - w_clock w))", goal_cases)
  case (2 cfg turn_id deadline w r1 w1 p r2 w2 o2)
  have "w_clock w < w_clock w1" "w_clock w1 \<le> w_clock w2"
    using phase_now_clock [OF 2(1) [symmetric]] pending_clock [OF 2(4) [symmetric]] by simp_all
  with 2(3) show ?case by simp
next
  case (3 cfg turn_id deadline w r1 w1 p r2 w2 o2 x b cs r3 w3 u)
  have "w_clock w < w_clock w1" "w_clock w1 \<le> w_clock w2" "w_clock w2 \<le> w_clock w3"
    using phase_now_clock [OF 3(1) [symmetric]] pending_clock [OF 3(4) [symmetric]]
      engine1_batch_clock [OF 3(8) [symmetric]] by simp_all
  with 3(3) show ?case by simp
qed simp

declare engine1_loop.simps [simp del]

definition engine1_serve :: "runtime_config \<Rightarrow> (world, unit) act" where
  "engine1_serve cfg = bindA (await_phase COLLECT (seconds 60)) (\<lambda>ok.
     if \<not> ok then ret ()
     else bindA read_turn_id (\<lambda>turn_id.
       thenA (\<lambda>w. engine1_loop cfg turn_id (w_clock w + rc_turn_timeout cfg) w)
         (bindA phase_now (\<lambda>_. ret ()))))"

section \<open>Engine 2: the gateway\<close>

definition gateway_message ::
  "env \<Rightarrow> string \<Rightarrow> runtime_config \<Rightarrow> string \<Rightarrow> uuid \<Rightarrow> triggered_by \<Rightarrow> uuid option \<Rightarrow> obj \<Rightarrow> framework_message" where
  "gateway_message e site cfg ty correlation trigger origin payload =
     (new_message e site
        \<lparr>src_agent_id = rc_agent_id cfg, src_engine = ENGINE2, src_vm_id = rc_vm_id cfg\<rparr>
        \<lparr>dst_type = CORVUS_SERVER, dst_target = ''corvus_server''\<rparr>
        REQUEST ty correlation ((mk_tags trigger origin)\<lparr>tag_scope := EXTERNAL\<rparr>) payload)
     \<lparr>msg_security := default_security\<lparr>sec_may_leave_vm := True\<rparr>\<rparr>"

definition chat_text :: "runtime_config \<Rightarrow> string" where
  "chat_text cfg = (let t = strip (case rc_chat_text cfg of None \<Rightarrow> [] | Some s \<Rightarrow> s) in
     if t = [] then ''Hello from gateway'' else t)"

definition user_query :: "env \<Rightarrow> runtime_config \<Rightarrow> uuid \<Rightarrow> framework_message" where
  "user_query e cfg turn_id = gateway_message e ''user_query'' cfg ''user_query'' turn_id USER_INPUT None
     [(''user_id'', JStr ''test-user''), (''platform'', JStr ''api''), (''channel_id'', JStr ''default''),
      (''content'', JObj [(''text'', JStr (chat_text cfg))])]"

definition agent_response :: "env \<Rightarrow> runtime_config \<Rightarrow> uuid \<Rightarrow> json \<Rightarrow> framework_message" where
  "agent_response e cfg turn_id response_text =
     gateway_message e ''agent_response'' cfg ''agent_response'' (uuid4 e ''agent_response_correlation'') AGENT_INITIATED (Some turn_id)
       [(''platform'', JStr ''api''), (''channel_id'', JStr ''default''), (''content'', JObj [(''text'', response_text)])]"

definition engine2_respond :: "runtime_config \<Rightarrow> uuid \<Rightarrow> (world, unit) act" where
  "engine2_respond cfg turn_id =
     bindA draw (\<lambda>e. bindA read_coord (\<lambda>st.
     bindA (submit_and_wait (agent_response e cfg turn_id (oget_or st ''response_text'' (JStr ''Acknowledged.'')))) (\<lambda>ack.
       if truthy (pget ack ''success'') then do_coord (SetPhase DONE (corr turn_id))
       else do_coord (Abort ''engine2_agent_response_failed'' (corr turn_id)))))"

definition engine2_serve :: "runtime_config \<Rightarrow> (world, unit) act" where
  "engine2_serve cfg = bindA (await_phase DISPATCH (seconds 60)) (\<lambda>ok.
     if \<not> ok then do_coord (Abort ''engine2_dispatch_timeout'' [])
     else bindA read_turn_id (\<lambda>turn_id.
       bindA draw (\<lambda>e.
       bindA (submit_and_wait (user_query e cfg turn_id)) (\<lambda>ack.
         if \<not> truthy (pget ack ''success'') then do_coord (Abort ''engine2_user_query_failed'' (corr turn_id))
         else thenA (do_coord (SetPhase COLLECT (corr turn_id @ [(''user_text'', JStr (chat_text cfg))])))
           (bindA (await_phase_in [RESPOND, ABORTED] (seconds 30)) (\<lambda>reached.
             if reached \<noteq> Some RESPOND then
               (if reached = Some ABORTED then thenA read_coord (ret ())
                else do_coord (Abort ''engine2_respond_timeout'' (corr turn_id)))
             else engine2_respond cfg turn_id))))))"

section \<open>Engine 3: inference\<close>

definition MAX_TOOL_ITERATIONS :: nat where
  "MAX_TOOL_ITERATIONS = 8"

text \<open>A tool call of the model as engine 1 will run it.\<close>

definition pending_call :: "env \<Rightarrow> obj \<Rightarrow> obj res" where
  "pending_call e call =
     bindE (jget (py_or (oget call ''function'') (JObj [])) ''name'' (JStr [])) (\<lambda>name.
     bindE (jget (py_or (oget call ''function'') (JObj [])) ''arguments'' JNull) (\<lambda>args.
     Inr [(''id'', JStr (py_str (oget_or call ''id'' (JStr (uuid4 e ''call''))))), (''name'', JStr (py_str name)),
          (''arguments'', JObj (parse_tool_call_arguments (float_repr e) args))]))"

text \<open>The results as messages of the conversation.\<close>

definition tool_message :: "json \<Rightarrow> obj res" where
  "tool_message entry =
     bindE (jget entry ''id'' JNull) (\<lambda>i. bindE (jget entry ''result'' JNull) (\<lambda>r.
     Inr [(''role'', JStr ''tool''), (''tool_call_id'', i), (''content'', JStr (json_dumps '', '' '': '' r))]))"

definition content_text :: "llm_op_result \<Rightarrow> string" where
  "content_text result = (if truthy (lo_content result) then py_str (lo_content result) else [])"

definition ask_llm :: "runtime_config \<Rightarrow> uuid \<Rightarrow> obj list option \<Rightarrow> obj list \<Rightarrow> (world, llm_op_result) act" where
  "ask_llm cfg turn_id schema messages = bindA draw (\<lambda>e.
     let req = build_llm_request e (rc_agent_id cfg) (rc_vm_id cfg) turn_id ''stub'' ''stub-v1'' messages None None
                 (rc_llm_stream cfg) schema None
     in if rc_llm_stream cfg then collect_llm_stream req
        else bindA (submit_and_wait req) (\<lambda>resp. liftR (parse_llm_response resp)))"

text \<open>The loop; \<open>None\<close> when the turn was aborted, the text of the answer otherwise.\<close>

fun engine3_loop :: "runtime_config \<Rightarrow> uuid \<Rightarrow> obj list option \<Rightarrow> nat \<Rightarrow> obj list \<Rightarrow> (world, string option) act" where
  "engine3_loop cfg turn_id schema 0 messages =
     thenA (do_coord (Abort ''engine3_max_tool_iterations'' (corr turn_id))) (ret None)"
| "engine3_loop cfg turn_id schema (Suc n) messages =
     bindA (ask_llm cfg turn_id schema messages) (\<lambda>result.
       if \<not> lo_ok result then thenA (do_coord (Abort ''engine3_llm_failed'' (corr turn_id))) (ret None)
       else let tool_calls = (case lo_tool_calls result of None \<Rightarrow> [] | Some cs \<Rightarrow> cs) in
         if tool_calls = [] then ret (Some (content_text result))
         else bindA draw (\<lambda>e.
           bindA (liftR (mapE (pending_call e) tool_calls)) (\<lambda>pending.
           let batch_id = uuid4 e ''batch'' in
           thenA (do_coord (Publish batch_id pending))
             (bindA (await_tool_batch_complete batch_id (seconds 60)) (\<lambda>tool_results.
               case tool_results of
                 None \<Rightarrow> thenA (do_coord (Abort ''engine3_tool_batch_timeout'' (corr turn_id))) (ret None)
               | Some entries \<Rightarrow>
                   bindA (liftR (mapE tool_message entries)) (\<lambda>results.
                   engine3_loop cfg turn_id schema n
                     (messages @ [[(''role'', JStr ''assistant''), (''content'', JStr (content_text result)),
                                   (''tool_calls'', JArr (map JObj tool_calls))]] @ results)))))))"

definition engine3_serve :: "runtime_config \<Rightarrow> (world, unit) act" where
  "engine3_serve cfg = bindA (await_phase COLLECT (seconds 60)) (\<lambda>ok.
     if \<not> ok then do_coord (Abort ''engine3_collect_timeout'' [])
     else bindA read_turn_id (\<lambda>turn_id.
       bindA read_coord (\<lambda>st.
       let user_text = oget_or st ''user_text'' (JStr ''Hello from gateway'');
           schema = (if rc_llm_local_tools cfg = [] then None
                     else Some (build_tools_schema (rc_llm_local_tools cfg) DEFAULT_CATALOG)) in
       bindA (engine3_loop cfg turn_id schema MAX_TOOL_ITERATIONS [[(''role'', JStr ''user''), (''content'', JStr (py_str user_text))]])
         (\<lambda>answer.
          case answer of
            None \<Rightarrow> ret ()
          | Some response_text \<Rightarrow>
              do_coord (SetPhase RESPOND (corr turn_id @ [(''response_text'', JStr response_text)]))))))"

section \<open>Engine 4: memory\<close>

definition is_grant_created :: "framework_message \<Rightarrow> bool" where
  "is_grant_created m \<longleftrightarrow> msg_type m = ''memory:grant_created''"

text \<open>The handler the socket client runs for every message that arrives.\<close>

definition engine4_on_inbound :: "framework_message \<Rightarrow> (world, unit) act" where
  "engine4_on_inbound m =
     (if is_grant_created m then
        do_coord (Merge [(''memory_grant_id'', pget m ''grant_id''), (''memory_elevation_id'', pget m ''elevation_id''),
                         (''memory_replay_delivered'', pget m ''replay_delivered'')])
      else if suffix ''_response'' (msg_type m) \<and> truthy (pget m ''success'') then
        bindA (liftR (parse_memory_response m)) (\<lambda>result.
          case mo_records result of
            Some (r # rs) \<Rightarrow>
              whenA (mo_ok result)
                (do_coord (Merge [(''memory_replay_hit'', JBool True), (''memory_replay_content'', oget r ''content''), (''memory_error'', JNull)]))
          | _ \<Rightarrow> ret ())
      else ret ())"

text \<open>A wait of engine 4.  The message is in the queue before the handler runs; when the handler raises, the
  reading task ends and nothing arrives any more.\<close>

definition engine4_wait :: "(world, framework_message) act" where
  "engine4_wait = bindA wait_inbound (\<lambda>m w.
     case engine4_on_inbound m w of
       (Inr _, w') \<Rightarrow> (Inr m, w')
     | (Inl _, w') \<Rightarrow> (Inr m, w'\<lparr>w_inbox := []\<rparr>))"

definition engine4_call :: "framework_message \<Rightarrow> (world, framework_message) act" where
  "engine4_call m = bindA (submit m) (\<lambda>resp.
     if \<not> truthy (oget resp ''accepted'') then raise RuntimeError else engine4_wait)"

definition emit_grant_request :: "runtime_config \<Rightarrow> uuid \<Rightarrow> string \<Rightarrow> string \<Rightarrow> framework_message option \<Rightarrow> (world, unit) act" where
  "emit_grant_request cfg turn_id target namespace replayed = bindA draw (\<lambda>e.
     thenA (engine4_call (build_memory_grant_request e (rc_agent_id cfg) (rc_vm_id cfg) turn_id target namespace [''read'']
              ''Engine 4 cross-agent memory access'' 3600 replayed)) (ret ()))"

definition handle_memory_failure ::
  "runtime_config \<Rightarrow> uuid \<Rightarrow> memory_op_result \<Rightarrow> string \<Rightarrow> string \<Rightarrow> framework_message option \<Rightarrow> (world, unit) act" where
  "handle_memory_failure cfg turn_id result target namespace replayed =
     (if is_elevation_required result then
        thenA (whenA (target \<noteq> rc_agent_id cfg) (emit_grant_request cfg turn_id target namespace replayed))
          (do_coord (Merge [(''memory_error'', JStr ''elevation_required''), (''memory_elevation_id'', jopt (mo_elevation_id result))]))
      else do_coord (Merge [(''memory_error'', py_or (mo_error result) (jopt (mo_error_code result)))]))"

definition engine4_delete :: "runtime_config \<Rightarrow> uuid \<Rightarrow> json \<Rightarrow> (world, unit) act" where
  "engine4_delete cfg turn_id record_id =
     whenA (rc_engine4_delete cfg = Some ''1'' \<and> truthy record_id)
       (bindA draw (\<lambda>e.
        bindA (engine4_call (build_memory_delete e (rc_agent_id cfg) (rc_vm_id cfg) turn_id ''private'' record_id None None)) (\<lambda>m.
        bindA (liftR (parse_memory_response m)) (\<lambda>_. ret ()))))"

definition engine4_query :: "runtime_config \<Rightarrow> uuid \<Rightarrow> string \<Rightarrow> memory_op_result \<Rightarrow> (world, unit) act" where
  "engine4_query cfg turn_id key write_result = bindA draw (\<lambda>e.
     let query_msg = build_memory_query_key e (rc_agent_id cfg) (rc_vm_id cfg) turn_id ''private'' key None None in
     bindA (engine4_call query_msg) (\<lambda>query_in.
     bindA (liftR (parse_memory_response query_in)) (\<lambda>query_result.
       if \<not> mo_ok query_result then
         handle_memory_failure cfg turn_id query_result (rc_agent_id cfg) ''private'' (Some query_msg)
       else
         let records = (case mo_records query_result of None \<Rightarrow> [] | Some rs \<Rightarrow> rs) in
         thenA (do_coord (Merge [(''memory_write_record_id'', mo_record_id write_result), (''memory_query_hit'', JBool (records \<noteq> [])),
             (''memory_query_content'', case records of [] \<Rightarrow> JNull | r # _ \<Rightarrow> oget r ''content''), (''memory_error'', JNull)]))
           (engine4_delete cfg turn_id (mo_record_id write_result)))))"

definition engine4_serve :: "runtime_config \<Rightarrow> (world, unit) act" where
  "engine4_serve cfg = bindA (await_phase COLLECT (seconds 60)) (\<lambda>ok.
     if \<not> ok then ret ()
     else bindA read_turn_id (\<lambda>turn_id.
       let key = ''turn-'' @ turn_id in
       bindA draw (\<lambda>e.
       bindA (engine4_call (build_memory_write e (rc_agent_id cfg) (rc_vm_id cfg) turn_id ''private'' key
                (''Engine4 memory snapshot for '' @ turn_id) None None)) (\<lambda>write_in.
       bindA (liftR (parse_memory_response write_in)) (\<lambda>write_result.
         if \<not> mo_ok write_result then handle_memory_failure cfg turn_id write_result (rc_agent_id cfg) ''private'' None
         else engine4_query cfg turn_id key write_result)))))"

section \<open>The life of an engine and the agent loop\<close>

text \<open>\<^verbatim>\<open>BaseEngine.run\<close>; in daemon mode the process then waits for its stop event.\<close>

definition engine_run :: "engine_id \<Rightarrow> (world, unit) act \<Rightarrow> (world, unit) act" where
  "engine_run engine serve =
     thenA ipc_subscribe
    (bindA wait_handshake (\<lambda>ok.
       if \<not> ok then ret () else thenA (do_mark_ready (engine_value engine)) serve))"

definition REQUIRED_ENGINES :: "string list" where
  "REQUIRED_ENGINES = [''engine2'', ''engine3'']"

definition loop_turn :: "runtime_config \<Rightarrow> uuid \<Rightarrow> (world, bool) act" where
  "loop_turn cfg turn_id =
     thenA (do_coord (SetPhase DISPATCH (corr turn_id)))
    (bindA (await_phase_in TERMINAL_PHASES (rc_turn_timeout cfg)) (\<lambda>terminal.
       case terminal of
         None \<Rightarrow> thenA (do_coord (Abort ''loop_turn_timeout'' (corr turn_id))) (ret False)
       | Some p \<Rightarrow> if p = ABORTED then thenA read_coord (ret False) else ret True))"

definition loop_run :: "runtime_config \<Rightarrow> (world, bool) act" where
  "loop_run cfg =
     thenA ipc_subscribe
    (thenA (do_coord (SetPhase INIT []))
    (bindA wait_handshake (\<lambda>ok.
       if \<not> ok then ret False
       else thenA (do_coord (SetPhase RECEIVE []))
         (bindA (await_engines_ready REQUIRED_ENGINES (seconds 30)) (\<lambda>(ready, missing).
            if \<not> ready then ret False
            else bindA draw (\<lambda>e. loop_turn cfg (uuid4 e ''turn'')))))))"

end
