(* ===== verification/Runtime_Facts.thy ===== *)
theory Runtime_Facts
  imports Runtime_Engines
begin

text \<open>
  Facts about the processes of the runtime: what they may write to the coordinator, in which order the events
  of a process happen, how often engine 3 asks the model, and how each process leaves the turn.  The other
  processes are arbitrary in all of them.
\<close>

section \<open>The interface between a process and a property of its history\<close>

text \<open>The operations a process may perform on the coordinator.\<close>

definition echo_fields :: "string list" where
  "echo_fields = [''tool_echo_text'', ''tool_terminal_stdout'', ''tool_terminal_exit_code'']"

definition memory_fields :: "string list" where
  "memory_fields = [''memory_grant_id'', ''memory_elevation_id'', ''memory_replay_delivered'', ''memory_replay_hit'',
     ''memory_replay_content'', ''memory_error'', ''memory_write_record_id'', ''memory_query_hit'', ''memory_query_content'']"

definition turn_fields :: "string list" where
  "turn_fields = [''correlation_id'', ''user_text'', ''response_text'']"

definition keys_in :: "string list \<Rightarrow> obj \<Rightarrow> bool" where
  "keys_in ks d \<longleftrightarrow> set (map fst d) \<subseteq> set ks"

fun engine_op :: "engine_id \<Rightarrow> coord_op \<Rightarrow> bool" where
  "engine_op ENGINE1 x = (case x of Merge d \<Rightarrow> keys_in echo_fields d | Complete b rs \<Rightarrow> True | _ \<Rightarrow> False)"
| "engine_op ENGINE2 x = (case x of Abort r d \<Rightarrow> keys_in turn_fields d | SetPhase p d \<Rightarrow> p \<in> {COLLECT, DONE} \<and> keys_in turn_fields d | _ \<Rightarrow> False)"
| "engine_op ENGINE3 x = (case x of Abort r d \<Rightarrow> keys_in turn_fields d | SetPhase p d \<Rightarrow> p = RESPOND \<and> keys_in turn_fields d
     | Publish b cs \<Rightarrow> True | _ \<Rightarrow> False)"
| "engine_op ENGINE4 x = (case x of Merge d \<Rightarrow> keys_in memory_fields d | _ \<Rightarrow> False)"
| "engine_op LOOP x = (case x of Abort r d \<Rightarrow> keys_in turn_fields d
     | SetPhase p d \<Rightarrow> p \<in> {INIT, RECEIVE, DISPATCH} \<and> keys_in turn_fields d | _ \<Rightarrow> False)"
| "engine_op CORVUS_NODE x = False"

text \<open>A call of the tool by this message, and an answer that approves a call.\<close>

definition calls_tool :: "framework_message \<Rightarrow> string \<Rightarrow> obj \<Rightarrow> bool" where
  "calls_tool m t args \<longleftrightarrow> msg_type m = ''tool_call'' \<and> pget m ''tool_name'' = JStr t \<and> pget m ''arguments'' = JObj args"

definition approves :: "framework_message \<Rightarrow> bool" where
  "approves r \<longleftrightarrow> ar_approved (parse_tool_call_response r)"

text \<open>A bind whose second part needs to know what the first returned.\<close>

lemma preserves_bindA_value:
  assumes "preserves P m" and "\<And>s x s'. m s = (Inr x, s') \<Longrightarrow> preserves P (f x)"
  shows "preserves P (bindA m f)"
proof (rule preservesI)
  fix s assume "P s"
  then have "P (snd (m s))" using assms(1) by (rule preservesD [rotated])
  then show "P (snd (bindA m f s))"
    using assms(2) by (auto simp: bindA_def preserves_def split: prod.split sum.split)
qed

locale process_history =
  fixes P :: "event list \<Rightarrow> bool" and engine :: engine_id
  assumes sent: "P tr \<Longrightarrow> P (tr @ [Sent m])"
    and got: "P tr \<Longrightarrow> P (tr @ [Got m])"
    and did: "engine_op engine x \<Longrightarrow> (\<And>d. x \<noteq> SetPhase DONE d) \<Longrightarrow> P tr \<Longrightarrow> P (tr @ [Did x])"
    and marked: "P tr \<Longrightarrow> P (tr @ [Did (Ready (engine_value engine))])"
    and ran: "P tr \<Longrightarrow> calls_tool m t args \<Longrightarrow> approves r \<Longrightarrow> P (tr @ [Sent m, Got r, Ran t args])"
    and ended: "P tr \<Longrightarrow> msg_type m = ''agent_response'' \<Longrightarrow> truthy (pget r ''success'') \<Longrightarrow> engine_op engine (SetPhase DONE d) \<Longrightarrow>
        P (tr @ [Sent m, Got r, Did (SetPhase DONE d)])"
begin

abbreviation keep :: "(world, 'a) act \<Rightarrow> bool" where
  "keep m \<equiv> preserves (\<lambda>w. P (w_trace w)) m"

lemma trace_simps [simp]: "w_trace (others_act w) = w_trace w" "w_trace (note_event x w) = w_trace w @ [x]"
  by (simp_all add: others_act_def note_event_def split: list.split prod.split)

lemma keep_read [pres_intro]: "keep draw" "keep read_coord" "keep phase_now" "keep ipc_request"
  by (auto simp: preserves_def draw_def read_coord_def phase_now_def ipc_request_def Let_def split: list.split)

lemma keep_do [pres_intro]: "engine_op engine x \<Longrightarrow> (\<And>d. x \<noteq> SetPhase DONE d) \<Longrightarrow> keep (do_coord x)"
  using did by (simp add: preserves_def do_coord_def Let_def)

lemma keep_complete: "engine = ENGINE1 \<Longrightarrow> keep (do_complete b rs)"
  using did [of "Complete b rs"] by (simp add: preserves_def do_complete_def Let_def)

lemma keep_ready: "keep (do_mark_ready (engine_value engine))"
  using marked by (auto simp: preserves_def do_mark_ready_def Let_def split: sum.split)

lemma poll_trace: "w_trace (snd (poll deadline view w)) = w_trace w"
proof (induction deadline view w rule: poll.induct)
  case (1 deadline view w)
  show ?case
  proof (cases "deadline \<le> w_clock w")
    case False
    with 1 [OF False refl] show ?thesis
      by (subst poll.simps) (auto simp: Let_def split: sum.split option.split)
  qed (simp add: poll.simps)
qed

lemma keep_await [pres_intro]: "keep (await t view)"
  by (simp add: preserves_def await_def poll_trace)

lemma keep_await_phase [pres_intro]: "keep (await_phase p t)" "keep (await_phase_in ps t)" "keep (await_tool_batch_complete b t)"
  "keep (await_tool_batch_pending t)"
  unfolding await_phase_def await_phase_in_def await_tool_batch_complete_def await_tool_batch_pending_def by (intro pres_intro)+

lemma keep_read_turn_id [pres_intro]: "keep read_turn_id"
proof -
  have "keep (\<lambda>w. (w_uuid_of w (f w), w))" for f by (simp add: preserves_def)
  then show ?thesis unfolding read_turn_id_def by (intro pres_intro)
qed

lemma keep_submit [pres_intro]: "keep (submit m)" "keep wait_inbound"
  using sent got by (auto simp: preserves_def submit_def ipc_request_def wait_inbound_def split: list.split option.split)

lemma keep_submit_and_wait [pres_intro]: "keep (submit_and_wait m)"
  unfolding submit_and_wait_def by (intro pres_intro)

lemma keep_collect: "P (w_trace w) \<Longrightarrow> P (w_trace (snd (collect_chunks chunks w)))"
proof (induction chunks w rule: collect_chunks.induct)
  case (1 chunks w)
  obtain r w' where r: "wait_inbound w = (r, w')" by fastforce
  with keep_submit(2) 1(2) have w': "P (w_trace w')" by (metis preservesD snd_conv)
  with 1(1) r show ?case
    by (subst collect_chunks.simps) (auto split: sum.split)
qed

lemma keep_stream [pres_intro]: "keep (collect_llm_stream m)"
  unfolding collect_llm_stream_def
  by (intro pres_intro preservesI keep_collect)

lemma submit_and_wait_events:
  "submit_and_wait m w = (Inr r, w') \<Longrightarrow> w_trace w' = w_trace w @ [Sent m, Got r]"
  by (auto simp: submit_and_wait_def submit_def ipc_request_def wait_inbound_def
      elim!: bindA_InrE split: list.split_asm option.split_asm if_split_asm)

lemma draw_trace: "draw w = (r, w') \<Longrightarrow> w_trace w' = w_trace w"
  by (auto simp: draw_def)

lemma calls_tool_build: "calls_tool (build_tool_call e a v t n args to) n args"
  by (simp add: calls_tool_def build_tool_call_def engine_request_def new_message_def oget_def)

lemma keep_engine1_run_tool: "keep (engine1_run_tool cfg t n args)"
proof (rule preservesI)
  fix w :: world assume p: "P (w_trace w)"
  obtain e w0 where d: "draw w = (Inr e, w0)" by (simp add: draw_def)
  let ?m = "build_tool_call e (rc_agent_id cfg) (rc_vm_id cfg) t n args None"
  obtain rr w1 where s: "submit_and_wait ?m w0 = (rr, w1)" by fastforce
  have p1: "P (w_trace w1)"
    using keep_submit_and_wait [of ?m] p d s draw_trace [OF d] by (metis preservesD snd_conv)
  show "P (w_trace (snd (engine1_run_tool cfg t n args w)))"
  proof (cases rr)
    case (Inl x)
    with d s p1 show ?thesis by (simp add: engine1_run_tool_def Let_def)
  next
    case (Inr r)
    show ?thesis
    proof (cases "ar_ok (parse_tool_call_response r) \<and> ar_approved (parse_tool_call_response r)")
      case True
      have "w_trace w1 = w_trace w @ [Sent ?m, Got r]" using submit_and_wait_events s Inr draw_trace [OF d] by simp
      then have p2: "P (w_trace w1 @ [Ran n args])"
        using ran [OF p calls_tool_build] True by (simp add: approves_def)
      let ?k = "\<lambda>output w'. bindA draw (\<lambda>e'. bindA (submit_and_wait (build_tool_result e' (rc_agent_id cfg) (rc_vm_id cfg) t n
          (msg_correlation_id ?m) True (Some output) None (w_tool_ms w'))) (\<lambda>ack.
          ret (if to_ok (parse_tool_result_ack ack) then Some output else None)))"
      have "keep (?k out w')" for out w' by (intro pres_intro)
      then have k: "P (w_trace (snd (?k out w' (note_event (Ran n args) w1))))" for out w'
        by (rule preservesD) (simp add: p2)
      have "engine1_run_tool cfg t n args w = (case run_tool (w_vm w1) n args of
          Inl ToolExecutionError \<Rightarrow> (Inr None, note_event (Ran n args) w1)
        | Inl x \<Rightarrow> (Inl x, note_event (Ran n args) w1)
        | Inr output \<Rightarrow> ?k output (note_event (Ran n args) w1) (note_event (Ran n args) w1))"
        using True d s Inr by (simp add: engine1_run_tool_def Let_def run_local_tool_def split: sum.split exc.split)
      then show ?thesis using k p2 by (auto split: sum.split exc.split)
    qed (use Inr d s p1 in \<open>simp add: engine1_run_tool_def Let_def\<close>)
  qed
qed

lemma keep_engine1_calls: "keep (engine1_calls cfg t cs rs d)"
proof (induction cs arbitrary: rs d)
  case (Cons x cs)
  then show ?case
    by (cases x) (simp_all only: engine1_calls.simps preserves_raise, intro pres_intro keep_engine1_run_tool)
qed (simp add: preserves_ret)

lemma result_fields_keys: "keys_in echo_fields (result_fields call out)"
  by (cases out) (auto simp: keys_in_def echo_fields_def result_fields_def)

lemma keys_in_omerge: "keys_in ks d \<Longrightarrow> keys_in ks e \<Longrightarrow> keys_in ks (omerge d e)"
proof (induction e arbitrary: d)
  case (Cons p e)
  have "keys_in ks (oset (fst p) (snd p) d)" using Cons.prems keys_oset [of "fst p" "snd p" d] by (auto simp: keys_in_def)
  with Cons show ?case by (cases p) (auto simp: omerge_def keys_in_def)
qed (simp add: omerge_def)

lemma engine1_calls_keys:
  "engine1_calls cfg t cs rs d w = (Inr (rs', d'), w') \<Longrightarrow> keys_in echo_fields d \<Longrightarrow> keys_in echo_fields d'"
proof (induction cs arbitrary: rs d w)
  case (Cons x cs)
  then show ?case
    by (cases x) (auto elim!: bindA_InrE dest!: Cons.IH simp: keys_in_omerge result_fields_keys)
qed simp

theorem engine1_keeps:
  assumes "engine = ENGINE1"
  shows "keep (engine1_serve cfg)"
proof -
  have batch: "keep (engine1_batch cfg t b cs)" for cfg t b cs
    unfolding engine1_batch_def
  proof (rule preserves_bindA_value [OF keep_engine1_calls], clarify)
    fix s rs d s' assume "engine1_calls cfg t cs [] [] s = (Inr (rs, d), s')"
    then have "keys_in echo_fields d" using engine1_calls_keys by (fastforce simp: keys_in_def)
    with assms show "keep (thenA (whenA (d \<noteq> []) (do_coord (Merge d))) (thenA (do_complete b rs) (ret ())))"
      by (intro pres_intro keep_complete) simp_all
  qed
  have loop: "P (w_trace (snd (engine1_loop cfg t dl w)))" if "P (w_trace w)" for t dl w
    using that
  proof (induction cfg t dl w rule: engine1_loop.induct)
    case (1 cfg t dl w)
    obtain r1 w1 where r1: "phase_now w = (r1, w1)" by fastforce
    with keep_read(3) 1(3) have p1: "P (w_trace w1)" by (metis preservesD snd_conv)
    obtain r2 w2 where r2: "await_tool_batch_pending (seconds 1) w1 = (r2, w2)" by fastforce
    with keep_await_phase(4) p1 have p2: "P (w_trace w2)" by (metis preservesD snd_conv)
    show ?case
    proof (cases r1)
      case (Inr p)
      show ?thesis
      proof (cases "p \<noteq> COLLECT \<or> stopped w1 \<or> dl \<le> w_clock w1")
        case False
        note go = r1 [symmetric] Inr False r2 [symmetric]
        show ?thesis
        proof (cases r2)
          case (Inl x)
          with r1 r2 \<open>r1 = Inr p\<close> False p2 show ?thesis by (subst engine1_loop.simps) simp
        next
          case (Inr found)
          show ?thesis
          proof (cases found)
            case None
            with 1(1) [OF go Inr None] p2 r1 r2 \<open>r1 = Inr p\<close> False Inr show ?thesis by (subst engine1_loop.simps) simp
          next
            case (Some bc)
            obtain b cs where bc: "bc = (b, cs)" by (cases bc)
            obtain r3 w3 where r3: "engine1_batch cfg t b cs w2 = (r3, w3)" by fastforce
            with batch p2 have p3: "P (w_trace w3)" by (metis preservesD snd_conv)
            have step: "engine1_loop cfg t dl w = (case r3 of Inl x \<Rightarrow> (Inl x, w3) | Inr _ \<Rightarrow> engine1_loop cfg t dl w3)"
              using r1 r2 r3 \<open>r1 = Inr p\<close> False Inr Some bc by (subst engine1_loop.simps) simp
            show ?thesis
            proof (cases r3)
              case (Inr u)
              with 1(2) [OF go \<open>r2 = Inr found\<close> Some bc [symmetric] r3 [symmetric] Inr p3] step show ?thesis by simp
            qed (use step p3 in simp)
          qed
        qed
      qed (use r1 Inr p1 in \<open>subst engine1_loop.simps, simp\<close>)
    qed (use r1 p1 in \<open>subst engine1_loop.simps, simp\<close>)
  qed
  then show ?thesis
    unfolding engine1_serve_def by (intro pres_intro preservesI) simp
qed

lemma keep_engine2_respond:
  assumes "engine = ENGINE2"
  shows "keep (engine2_respond cfg t)"
proof (rule preservesI)
  fix w :: world assume p: "P (w_trace w)"
  obtain e w0 where d: "draw w = (Inr e, w0)" by (simp add: draw_def)
  obtain st w1 where rd: "read_coord w0 = (Inr st, w1)" by (simp add: read_coord_def Let_def)
  have tr: "w_trace w1 = w_trace w" using rd draw_trace [OF d] by (auto simp: read_coord_def Let_def)
  let ?m = "agent_response e cfg t (oget_or st ''response_text'' (JStr ''Acknowledged.''))"
  obtain rr w2 where s: "submit_and_wait ?m w1 = (rr, w2)" by fastforce
  have p2: "P (w_trace w2)" using preservesD [OF keep_submit_and_wait, of w1 ?m] p tr s by simp
  have e2: "engine_op engine (SetPhase DONE (corr t))" using assms by (simp add: keys_in_def turn_fields_def)
  show "P (w_trace (snd (engine2_respond cfg t w)))"
  proof (cases rr)
    case (Inl x)
    with d rd s p2 show ?thesis by (simp add: engine2_respond_def)
  next
    case (Inr ack)
    have t2: "w_trace w2 = w_trace w @ [Sent ?m, Got ack]" using submit_and_wait_events s Inr tr by simp
    have ty: "msg_type ?m = ''agent_response''" by (simp add: agent_response_def gateway_message_def new_message_def)
    show ?thesis
    proof (cases "truthy (pget ack ''success'')")
      case True
      then have "engine2_respond cfg t w = do_coord (SetPhase DONE (corr t)) w2"
        using d rd s Inr by (simp add: engine2_respond_def)
      with ended [OF p ty True e2] t2 show ?thesis by (simp add: do_coord_def Let_def)
    next
      case False
      have "keep (do_coord (Abort ''engine2_agent_response_failed'' (corr t)))"
        using assms by (intro keep_do) (simp_all add: keys_in_def turn_fields_def)
      from preservesD [OF this p2] False d rd s Inr show ?thesis by (simp add: engine2_respond_def)
    qed
  qed
qed

lemmas op_simps = keys_in_def turn_fields_def memory_fields_def

theorem engine2_keeps:
  assumes "engine = ENGINE2"
  shows "keep (engine2_serve cfg)"
proof -
  have a: "keep (do_coord (Abort r (corr t)))" "keep (do_coord (Abort r []))" for r t
    using assms by (auto intro!: keep_do simp: op_simps)
  have c: "keep (do_coord (SetPhase COLLECT (corr t @ [(''user_text'', JStr u)])))" for t u
    using assms by (auto intro!: keep_do simp: op_simps)
  show ?thesis unfolding engine2_serve_def
    by (intro pres_intro a c keep_engine2_respond [OF assms])
qed

theorem engine3_keeps:
  assumes "engine = ENGINE3"
  shows "keep (engine3_serve cfg)"
proof -
  have a: "keep (do_coord (Abort r (corr t)))" "keep (do_coord (Abort r []))" for r t
    using assms by (auto intro!: keep_do simp: op_simps)
  have b: "keep (do_coord (Publish b cs))" for b cs using assms by (auto intro!: keep_do)
  have ask: "keep (ask_llm cfg t schema ms)" for t schema ms
    unfolding ask_llm_def Let_def by (intro pres_intro)
  have loop: "keep (engine3_loop cfg t schema n ms)" for t schema n ms
    by (induction n arbitrary: ms) (simp_all only: engine3_loop.simps Let_def, (intro pres_intro a b ask; assumption?)+)
  have r: "keep (do_coord (SetPhase RESPOND (corr t @ [(''response_text'', JStr u)])))" for t u
    using assms by (auto intro!: keep_do simp: op_simps)
  show ?thesis unfolding engine3_serve_def Let_def
    by (intro pres_intro a loop r)
qed

theorem engine4_keeps:
  assumes "engine = ENGINE4"
  shows "keep (engine4_serve cfg)"
proof -
  have m: "keep (do_coord (Merge d))" if "keys_in memory_fields d" for d
    using assms that by (auto intro!: keep_do)
  have h: "keep (engine4_on_inbound r)" for r
    unfolding engine4_on_inbound_def
    by (intro pres_intro m) (auto intro!: pres_intro m simp: op_simps split: option.split list.split)
  have handled: "keep (\<lambda>w. case engine4_on_inbound r w of (Inr _, w') \<Rightarrow> (Inr r, w') | (Inl _, w') \<Rightarrow> (Inr r, w'\<lparr>w_inbox := []\<rparr>))" for r
  proof (rule preservesI)
    fix w :: world assume "P (w_trace w)"
    moreover obtain x w' where "engine4_on_inbound r w = (x, w')" by fastforce
    ultimately show "P (w_trace (snd (case engine4_on_inbound r w of (Inr _, w') \<Rightarrow> (Inr r, w') | (Inl _, w') \<Rightarrow> (Inr r, w'\<lparr>w_inbox := []\<rparr>))))"
      using preservesD [OF h, of w r] by (cases x) simp_all
  qed
  have wt: "keep engine4_wait"
    unfolding engine4_wait_def by (intro pres_intro handled)
  have call: "keep (engine4_call r)" for r
    unfolding engine4_call_def by (intro pres_intro wt)
  have f: "keep (handle_memory_failure cfg t res tg ns rp)" for t res tg ns rp
    unfolding handle_memory_failure_def emit_grant_request_def
    by (intro pres_intro m call) (simp_all add: op_simps)
  have q: "keep (engine4_query cfg t key res)" for t key res
    unfolding engine4_query_def engine4_delete_def Let_def
    by (intro pres_intro m call f) (simp_all add: op_simps)
  show ?thesis unfolding engine4_serve_def Let_def by (intro pres_intro call f q)
qed

lemma keep_subscribe [pres_intro]: "keep ipc_subscribe"
  unfolding ipc_subscribe_def by (intro pres_intro)

lemma handshake_trace: "w_trace (snd (wait_handshake_until deadline w)) = w_trace w"
proof (induction deadline w rule: wait_handshake_until.induct)
  case (1 deadline w)
  then show ?case by (subst wait_handshake_until.simps) (auto split: list.split)
qed

lemma keep_handshake [pres_intro]: "keep wait_handshake"
  by (simp add: preserves_def wait_handshake_def handshake_trace)

theorem loop_keeps:
  assumes "engine = LOOP"
  shows "keep (loop_run cfg)"
proof -
  have a: "keep (do_coord (Abort r (corr t)))" for r t
    using assms by (auto intro!: keep_do simp: op_simps)
  have c: "keep (do_coord (SetPhase p []))" "keep (do_coord (SetPhase p (corr t)))" if "p \<in> {INIT, RECEIVE, DISPATCH}" for p t
    using assms that by (auto intro!: keep_do simp: op_simps)
  have rdy: "keep (await_engines_ready ks t)" for ks t
    unfolding await_engines_ready_def
    by (intro pres_intro preservesI) (auto simp: Let_def split: sum.split)
  show ?thesis unfolding loop_run_def loop_turn_def by (intro pres_intro a c rdy) simp_all
qed

theorem engine_run_keeps: "keep serve \<Longrightarrow> keep (engine_run engine serve)"
  unfolding engine_run_def by (intro pres_intro keep_ready)

end

section \<open>What a process writes to the coordinator\<close>

definition allowed_ops :: "engine_id \<Rightarrow> event list \<Rightarrow> bool" where
  "allowed_ops en tr \<longleftrightarrow> (\<forall>x. Did x \<in> set tr \<longrightarrow> engine_op en x \<or> x = Ready (engine_value en))"

interpretation ops: process_history "allowed_ops en" en for en
  by unfold_locales (auto simp: allowed_ops_def)

lemma engine_op_ok: "engine_op en x \<Longrightarrow> op_ok x"
proof -
  have k: "extra_ok d" if "keys_in echo_fields d \<or> keys_in memory_fields d \<or> keys_in turn_fields d" for d
    using that by (auto simp: keys_in_def extra_ok_def reserved_keys_def echo_fields_def memory_fields_def turn_fields_def)
  then show "engine_op en x \<Longrightarrow> op_ok x" by (cases en; cases x) auto
qed

text \<open>So the processes never write the fields of a batch, the phase or the ready list as free fields.\<close>

lemma allowed_ops_ok: "allowed_ops en tr \<Longrightarrow> Did x \<in> set tr \<Longrightarrow> op_ok x"
  by (auto simp: allowed_ops_def dest: engine_op_ok)

section \<open>Order of events\<close>

text \<open>Every event of a history happens after a past that permits it.\<close>

definition guarded :: "(event \<Rightarrow> event list \<Rightarrow> bool) \<Rightarrow> event list \<Rightarrow> bool" where
  "guarded G tr \<longleftrightarrow> (\<forall>xs x ys. tr = xs @ x # ys \<longrightarrow> G x xs)"

lemma guarded_Nil [simp]: "guarded G []"
  by (simp add: guarded_def)

lemma guarded_snoc [simp]: "guarded G (tr @ [x]) \<longleftrightarrow> guarded G tr \<and> G x tr"
proof
  assume g: "guarded G (tr @ [x])"
  have "G y xs" if "tr = xs @ y # ys" for y xs ys
  proof -
    have "tr @ [x] = xs @ y # (ys @ [x])" using that by simp
    with g show ?thesis unfolding guarded_def by blast
  qed
  moreover from g have "G x tr" unfolding guarded_def by blast
  ultimately show "guarded G tr \<and> G x tr" by (simp add: guarded_def)
next
  assume g: "guarded G tr \<and> G x tr"
  show "guarded G (tr @ [x])" unfolding guarded_def
  proof (intro allI impI)
    fix xs y ys assume eq: "tr @ [x] = xs @ y # ys"
    show "G y xs"
    proof (cases ys rule: rev_cases)
      case Nil
      with eq g show ?thesis by simp
    next
      case (snoc zs z)
      with eq have "tr @ [x] = (xs @ y # zs) @ [z]" by simp
      then have "tr = xs @ y # zs" by (simp only: append1_eq_conv)
      with g show ?thesis unfolding guarded_def by blast
    qed
  qed
qed

lemma guarded_three: "guarded G (tr @ [x, y, z]) \<longleftrightarrow> guarded G tr \<and> G x tr \<and> G y (tr @ [x]) \<and> G z (tr @ [x, y])"
  using guarded_snoc [of G "tr @ [x, y]" z] guarded_snoc [of G "tr @ [x]" y] by simp

text \<open>A tool runs only right after its call was sent and an approval came back.\<close>

definition run_permitted :: "event \<Rightarrow> event list \<Rightarrow> bool" where
  "run_permitted x past \<longleftrightarrow> (case x of
     Ran t args \<Rightarrow> \<exists>xs m r. past = xs @ [Sent m, Got r] \<and> calls_tool m t args \<and> approves r | _ \<Rightarrow> True)"

interpretation runs: process_history "guarded run_permitted" en for en
  by unfold_locales (auto simp: guarded_three run_permitted_def)

text \<open>The turn is done only right after the answer was sent and the server took it.\<close>

definition done_permitted :: "event \<Rightarrow> event list \<Rightarrow> bool" where
  "done_permitted x past \<longleftrightarrow> (case x of
     Did (SetPhase DONE d) \<Rightarrow> \<exists>xs m r. past = xs @ [Sent m, Got r] \<and> msg_type m = ''agent_response'' \<and> truthy (pget r ''success'')
   | _ \<Rightarrow> True)"

lemma done_permitted_other: "(\<And>d. x \<noteq> Did (SetPhase DONE d)) \<Longrightarrow> done_permitted x past"
  by (auto simp: done_permitted_def split: event.split coord_op.split turn_phase.split)

interpretation acks: process_history "guarded done_permitted" en for en
  by unfold_locales (auto simp: guarded_three done_permitted_other, simp add: done_permitted_def)

section \<open>How often engine 3 asks the model\<close>

text \<open>An action increases a measure of the history by at most \<open>k\<close>.\<close>

definition grows :: "(event list \<Rightarrow> nat) \<Rightarrow> nat \<Rightarrow> (world, 'a) act \<Rightarrow> bool" where
  "grows f k m \<longleftrightarrow> (\<forall>w. f (w_trace (snd (m w))) \<le> f (w_trace w) + k)"

named_theorems grow_intro \<open>bounds on how much an action adds to the history\<close>

lemma grows_keep: "(\<And>c. preserves (\<lambda>w. f (w_trace w) \<le> c) m) \<Longrightarrow> grows f 0 m"
  by (auto simp: grows_def preserves_def)

lemma grows_bind: "grows f j m \<Longrightarrow> (\<And>x. grows f k (g x)) \<Longrightarrow> j + k \<le> n \<Longrightarrow> grows f n (bindA m g)"
  unfolding grows_def bindA_def
proof (intro allI)
  fix w assume m: "\<forall>w. f (w_trace (snd (m w))) \<le> f (w_trace w) + j"
    and g: "\<And>x. \<forall>w. f (w_trace (snd (g x w))) \<le> f (w_trace w) + k" and n: "j + k \<le> n"
  obtain r w' where r: "m w = (r, w')" by fastforce
  with m have "f (w_trace w') \<le> f (w_trace w) + j" by (metis snd_conv)
  moreover have "f (w_trace (snd (g x w'))) \<le> f (w_trace w') + k" for x using g by blast
  ultimately have c: "f (w_trace w') \<le> f (w_trace w) + j" "\<And>x. f (w_trace (snd (g x w'))) \<le> f (w_trace w') + k" by blast+
  show "f (w_trace (snd (case m w of (r, s') \<Rightarrow> (case r of Inl e \<Rightarrow> (Inl e, s') | Inr x \<Rightarrow> g x s')))) \<le> f (w_trace w) + n"
  proof (cases r)
    case (Inr x)
    with r n c(1) c(2) [of x] show ?thesis by simp
  qed (use r n c(1) in simp)
qed

lemma grows_then: "grows f j m \<Longrightarrow> grows f k g \<Longrightarrow> j + k \<le> n \<Longrightarrow> grows f n (thenA m g)"
  unfolding thenA_def by (rule grows_bind)

lemma grows_ret [grow_intro]: "grows f k (ret x)" "grows f k (raise e)" "grows f k (liftR r)"
  by (simp_all add: grows_def)

lemma grows_weaken: "grows f j m \<Longrightarrow> j \<le> k \<Longrightarrow> grows f k m"
  unfolding grows_def by (meson add_left_mono order_trans)

definition llm_requests :: "event list \<Rightarrow> nat" where
  "llm_requests tr = length (filter (\<lambda>x. case x of Sent m \<Rightarrow> msg_type m = ''llm_request'' | _ \<Rightarrow> False) tr)"

lemma llm_requests_snoc: "llm_requests (tr @ [x]) = llm_requests tr
    + (case x of Sent m \<Rightarrow> if msg_type m = ''llm_request'' then 1 else 0 | _ \<Rightarrow> 0)"
  by (simp add: llm_requests_def split: event.split)

lemma trace_of_others [simp]: "w_trace (others_act w) = w_trace w" "w_trace (note_event x w) = w_trace w @ [x]"
  by (simp_all add: others_act_def note_event_def split: list.split prod.split)

lemma quiet_actions [grow_intro]:
  "grows llm_requests k draw" "grows llm_requests k read_coord" "grows llm_requests k phase_now"
  "grows llm_requests k (do_coord x)" "grows llm_requests k wait_inbound" "grows llm_requests k read_turn_id"
  "grows llm_requests k (await t view)" "grows llm_requests k (collect_chunks chunks)"
proof -
  have c: "llm_requests (w_trace (snd (collect_chunks chunks w))) \<le> llm_requests (w_trace w)" for w
  proof (induction chunks w rule: collect_chunks.induct)
    case (1 chunks w)
    obtain r w' where r: "wait_inbound w = (r, w')" by fastforce
    then have "llm_requests (w_trace w') = llm_requests (w_trace w)"
      by (auto simp: wait_inbound_def llm_requests_snoc split: list.split_asm option.split_asm)
    with 1 r show ?case by (subst collect_chunks.simps) (auto split: sum.split)
  qed
  then show "grows llm_requests k (collect_chunks chunks)" unfolding grows_def by (metis trans_le_add1)
  show "grows llm_requests k (await t view)" by (simp add: grows_def await_def ops.poll_trace)
qed (auto simp: grows_def draw_def read_coord_def phase_now_def do_coord_def wait_inbound_def read_turn_id_def Let_def
      llm_requests_snoc bindA_def split: list.split option.split)

lemma await_quiet [grow_intro]:
  "grows llm_requests k (await_phase p t)" "grows llm_requests k (await_phase_in ps t)"
  "grows llm_requests k (await_tool_batch_complete b t)"
  unfolding await_phase_def await_phase_in_def await_tool_batch_complete_def
  by (rule grows_bind [where j = 0 and k = 0] grow_intro | simp)+

lemma submit_grows: "grows llm_requests 1 (submit m)"
  by (auto simp: grows_def submit_def ipc_request_def llm_requests_snoc split: list.split)

lemma ask_llm_grows: "grows llm_requests 1 (ask_llm cfg t schema ms)"
proof -
  have w: "grows llm_requests 1 (submit_and_wait m)" for m
    unfolding submit_and_wait_def by (rule grows_bind [OF submit_grows, where k = 0]) (auto intro: grow_intro)
  have s: "grows llm_requests 1 (collect_llm_stream m)" for m
    unfolding collect_llm_stream_def
    by (rule grows_bind [OF submit_grows, where k = 0])
       (auto intro!: grow_intro grows_bind [where j = 0 and k = 0])
  show ?thesis unfolding ask_llm_def Let_def
    by (rule grows_bind [where j = 0 and k = 1]) (auto intro!: grow_intro s grows_bind [OF w, where k = 0] simp del: One_nat_def)
qed

lemma engine3_loop_grows: "grows llm_requests n (engine3_loop cfg t schema n ms)"
proof (induction n arbitrary: ms)
  case 0
  show ?case unfolding engine3_loop.simps by (rule grows_then [where j = 0 and k = 0]) (auto intro: grow_intro)
next
  case (Suc n)
  have a: "grows llm_requests n (thenA (do_coord x) (ret y))" for x y
    by (rule grows_then [where j = 0 and k = 0]) (auto intro: grow_intro)
  show ?case unfolding engine3_loop.simps Let_def
    by (rule grows_bind [OF ask_llm_grows, where k = n])
       (auto intro!: grow_intro a Suc grows_bind [where j = 0 and k = n] grows_then [where j = 0 and k = n] split: option.split)
qed

lemma engine3_serve_grows: "grows llm_requests 8 (engine3_serve cfg)"
proof -
  have l: "grows llm_requests 8 (engine3_loop cfg t schema MAX_TOOL_ITERATIONS ms)" for t schema ms
    using engine3_loop_grows [of 8] by (simp add: MAX_TOOL_ITERATIONS_def)
  show ?thesis unfolding engine3_serve_def Let_def
    by (rule grows_bind [where j = 0 and k = 8])
       (auto intro!: grow_intro grows_bind [where j = 0 and k = 8] grows_bind [OF l, where k = 0] split: option.split)
qed

section \<open>How a process leaves the turn\<close>

text \<open>When engine 3 returns it has resolved the turn: its last act moves the phase on or aborts.\<close>

definition resolves :: "event \<Rightarrow> bool" where
  "resolves x \<longleftrightarrow> (\<exists>r d. x = Did (Abort r d)) \<or> (\<exists>d. x = Did (SetPhase RESPOND d))"

lemma resolves_simps [simp]: "resolves (Did (Abort r d))" "resolves (Did (SetPhase RESPOND d))"
  by (simp_all add: resolves_def)

text \<open>What holds whenever an action returns normally.\<close>

definition ends :: "('a \<Rightarrow> world \<Rightarrow> bool) \<Rightarrow> (world, 'a) act \<Rightarrow> bool" where
  "ends Q m \<longleftrightarrow> (\<forall>w y w'. m w = (Inr y, w') \<longrightarrow> Q y w')"

lemma ends_bind: "(\<And>x. ends Q (g x)) \<Longrightarrow> ends Q (bindA m g)"
  by (auto simp: ends_def bindA_def split: prod.split sum.split)

lemma ends_bind_value: "ends R m \<Longrightarrow> (\<And>x w y w'. R x w \<Longrightarrow> g x w = (Inr y, w') \<Longrightarrow> Q y w') \<Longrightarrow> ends Q (bindA m g)"
  by (fastforce simp: ends_def bindA_def split: prod.split sum.split_asm)

lemma ends_then: "ends Q k \<Longrightarrow> ends Q (thenA m k)"
  unfolding thenA_def by (rule ends_bind)

lemma ends_if: "(b \<Longrightarrow> ends Q m) \<Longrightarrow> (\<not> b \<Longrightarrow> ends Q n) \<Longrightarrow> ends Q (if b then m else n)"
  by simp

lemma ends_case_option: "(x = None \<Longrightarrow> ends Q m) \<Longrightarrow> (\<And>y. x = Some y \<Longrightarrow> ends Q (f y)) \<Longrightarrow> ends Q (case x of None \<Rightarrow> m | Some y \<Rightarrow> f y)"
  by (cases x) simp_all

lemma ends_ret: "(\<And>w. Q y w) \<Longrightarrow> ends Q (ret y)"
  by (simp add: ends_def)

lemmas ends_intro = ends_bind ends_then ends_if ends_case_option

text \<open>The last event moved the turn on and the file shows it.\<close>

fun moved_on :: "coord_op \<Rightarrow> coord_file \<Rightarrow> bool" where
  "moved_on (SetPhase p d) f \<longleftrightarrow> get_phase f = Inr p"
| "moved_on (Abort r d) f \<longleftrightarrow> finished f"
| "moved_on _ f \<longleftrightarrow> True"

definition resolved :: "world \<Rightarrow> bool" where
  "resolved w \<longleftrightarrow> (\<exists>x. last (w_trace w) = Did x \<and> resolves (Did x) \<and> moved_on x (w_file w))"

lemma apply_moves_on: "op_ok x \<Longrightarrow> moved_on x (coord_apply x f)"
  by (cases x) (simp_all add: set_phase_phase abort_finishes)

lemma do_coord_resolved: "resolves (Did x) \<Longrightarrow> op_ok x \<Longrightarrow> do_coord x w = (Inr (), w') \<Longrightarrow> resolved w'"
  using apply_moves_on by (auto simp: do_coord_def Let_def resolved_def note_event_def)

lemma resolved_phase: "resolved w \<Longrightarrow> get_phase (w_file w) \<in> {Inr RESPOND, Inr DONE, Inr ABORTED}"
  by (auto simp: resolved_def resolves_def finished_def is_terminal_def TERMINAL_PHASES_def)

lemma ends_resolved: "resolves (Did x) \<Longrightarrow> op_ok x \<Longrightarrow> ends (\<lambda>_. resolved) (do_coord x)"
  using do_coord_resolved by (simp add: ends_def)

lemma ends_aborted: "extra_ok d \<Longrightarrow> ends (\<lambda>y w. y = None \<longrightarrow> resolved w) (thenA (do_coord (Abort r d)) (ret None))"
  unfolding thenA_def
  by (rule ends_bind_value [OF ends_resolved]) simp_all

lemma corr_ok [simp]: "extra_ok (corr t)" "extra_ok []" "extra_ok [(''correlation_id'', JStr t), (''response_text'', v)]"
  by (simp_all add: extra_ok_def reserved_keys_def)

lemma engine3_loop_aborts: "ends (\<lambda>y w. y = None \<longrightarrow> resolved w) (engine3_loop cfg t schema n ms)"
proof (induction n arbitrary: ms)
  case 0
  show ?case unfolding engine3_loop.simps by (rule ends_aborted) simp
next
  case (Suc n)
  have "ends (\<lambda>y w. y = None \<longrightarrow> resolved w) (thenA m (bindA m' (\<lambda>r. case r of
      None \<Rightarrow> thenA (do_coord (Abort x d)) (ret None) | Some entries \<Rightarrow> bindA (g entries) (\<lambda>rs. engine3_loop cfg t schema n (f rs)))))"
    if "extra_ok d" for m :: "(world, unit) act" and m' and x d and g :: "json list \<Rightarrow> (world, obj list) act" and f
    by (rule ends_then, rule ends_bind, rule ends_case_option, rule ends_aborted, rule that, rule ends_bind, rule Suc)
  then show ?case unfolding engine3_loop.simps Let_def
    by (intro ends_bind ends_if ends_aborted) (auto intro: ends_ret)
qed

lemma engine3_resolves: "ends (\<lambda>_. resolved) (engine3_serve cfg)"
proof -
  have answered: "ends (\<lambda>_. resolved) (bindA (engine3_loop cfg t schema n ms) (\<lambda>answer.
          case answer of None \<Rightarrow> ret () | Some u \<Rightarrow> do_coord (SetPhase RESPOND (corr t @ [(''response_text'', JStr u)]))))" for t schema n ms
    by (rule ends_bind_value [OF engine3_loop_aborts]) (auto intro: do_coord_resolved [rotated 2] split: option.split_asm)
  show ?thesis unfolding engine3_serve_def Let_def
    by (rule ends_bind, rule ends_if, rule ends_resolved, rule resolves_simps, simp, rule ends_bind, rule ends_bind, rule answered)
qed

lemma engine3_resolved: "engine3_serve cfg w = (Inr (), w') \<Longrightarrow> resolved w'"
  using engine3_resolves [of cfg] by (simp add: ends_def)

end
