(* ===== verification/Runtime_Spec.thy ===== *)
theory Runtime_Spec
  imports Samples Runtime_Facts
begin

text \<open>
  The properties of the agent runtime: the order of its events whatever the other processes do, the
  coordinator as a slot for one batch of tool calls, the bound on model requests, how a turn ends, what
  the local tools can reach, and the boundary behaviours the code has.
\<close>

section \<open>The processes\<close>

text \<open>The table \<^verbatim>\<open>ENGINES\<close> of \<^verbatim>\<open>runtime/engine_main.py\<close> with the loop the supervisor starts beside them.\<close>

fun runtime_process :: "engine_id \<Rightarrow> runtime_config \<Rightarrow> (world, unit) act" where
  "runtime_process ENGINE1 cfg = engine_run ENGINE1 (engine1_serve cfg)"
| "runtime_process ENGINE2 cfg = engine_run ENGINE2 (engine2_serve cfg)"
| "runtime_process ENGINE3 cfg = engine_run ENGINE3 (engine3_serve cfg)"
| "runtime_process ENGINE4 cfg = engine_run ENGINE4 (engine4_serve cfg)"
| "runtime_process LOOP cfg = bindA (loop_run cfg) (\<lambda>_. ret ())"
| "runtime_process CORVUS_NODE cfg = ret ()"

context process_history
begin

lemma runtime_process_keeps: "keep (runtime_process engine cfg)"
proof (cases engine)
  case ENGINE1
  show ?thesis using engine_run_keeps [OF engine1_keeps [OF ENGINE1]] ENGINE1 by simp
next
  case ENGINE2
  show ?thesis using engine_run_keeps [OF engine2_keeps [OF ENGINE2]] ENGINE2 by simp
next
  case ENGINE3
  show ?thesis using engine_run_keeps [OF engine3_keeps [OF ENGINE3]] ENGINE3 by simp
next
  case ENGINE4
  show ?thesis using engine_run_keeps [OF engine4_keeps [OF ENGINE4]] ENGINE4 by simp
next
  case LOOP
  show ?thesis using preserves_bindA [OF loop_keeps [OF LOOP] preserves_ret] LOOP by simp
qed (simp add: preserves_ret)

lemma runtime_process_history: "P (w_trace w) \<Longrightarrow> P (w_trace (snd (runtime_process engine cfg w)))"
  using preservesD [OF runtime_process_keeps] by blast

end

section \<open>Samples\<close>

definition vm0 :: vm_world where
  "vm0 = \<lparr>vw_getenv = (\<lambda>k. None), vw_resolve = (\<lambda>p. p),
     vw_file = (\<lambda>p. if p = PPath True [''workspace'', ''notes''] then Some ''hello'' else None),
     vw_entries = (\<lambda>p. None), vw_utf8 = (\<lambda>s. Some s), vw_process = (\<lambda>d argv t. Inr (''out'', [], 0))\<rparr>"

definition config0 :: runtime_config where
  "config0 = \<lparr>rc_agent_id = ''a1'', rc_vm_id = ''v1'', rc_llm_local_tools = [''echo''], rc_llm_stream = False,
     rc_turn_timeout = seconds 60, rc_chat_text = None, rc_engine4_delete = None\<rparr>"

definition world0 :: "coord_file \<Rightarrow> (nat \<times> coord_op list) list \<Rightarrow> obj list \<Rightarrow> framework_message option list \<Rightarrow> world" where
  "world0 f interference answers inbox = \<lparr>w_env = env0, w_drawn = 0,
     w_uuid_of = (\<lambda>v. case v of JStr s \<Rightarrow> Inr s | _ \<Rightarrow> Inl ValueError), w_clock = 0, w_stop_at = None, w_file = f,
     w_others = interference, w_answers = answers, w_inbox = inbox, w_vm = vm0, w_tool_ms = 3, w_trace = []\<rparr>"

abbreviation ipc_accepted :: obj where
  "ipc_accepted \<equiv> [(''accepted'', JBool True)]"

abbreviation handshaken :: obj where
  "handshaken \<equiv> [(''handshake_complete'', JBool True)]"

text \<open>What has to be true before engine 1 runs a tool, read off the history.\<close>

definition approved_before :: "event list \<Rightarrow> string \<Rightarrow> obj \<Rightarrow> bool" where
  "approved_before past t args \<longleftrightarrow> (\<exists>xs m r. past = xs @ [Sent m, Got r] \<and> calls_tool m t args \<and> approves r)"

definition tool_answer0 :: "string \<Rightarrow> obj \<Rightarrow> framework_message" where
  "tool_answer0 ty payload = message0 ty RESPONSE payload"

definition call0 :: obj where
  "call0 = [(''id'', JStr ''k1''), (''name'', JStr ''echo''), (''arguments'', JObj [(''text'', JStr ''hi'')])]"

definition result0 :: obj where
  "result0 = [(''id'', JStr ''k1''), (''name'', JStr ''echo''), (''success'', JBool True), (''result'', JObj [(''text'', JStr ''hi'')])]"

definition collecting :: coord_file where
  "collecting = set_phase COLLECT [(''correlation_id'', JStr ''c1'')] None"

definition tool_world0 :: world where
  "tool_world0 = world0 (publish_tool_batch ''batch#2'' [call0] collecting) [(0, []), (0, []), (0, []), (0, []), (0, []), (0, []), (0, [SetPhase DONE []])]
     [ipc_accepted, handshaken, ipc_accepted, ipc_accepted]
     [Some (tool_answer0 ''tool_call_response'' [(''success'', JBool True), (''approved'', JBool True), (''tool_name'', JStr ''echo'')]),
      Some (tool_answer0 ''tool_result_ack'' [(''success'', JBool True)])]"

definition llm_world0 :: "(nat \<times> coord_op list) list \<Rightarrow> world" where
  "llm_world0 interference = world0 collecting interference [ipc_accepted, handshaken, ipc_accepted, ipc_accepted]
     [Some (tool_answer0 ''llm_response'' [(''success'', JBool True), (''content'', JNull), (''tool_calls'', JArr [JObj
         [(''id'', JStr ''k1''), (''function'', JObj [(''name'', JStr ''echo''), (''arguments'', JObj [(''text'', JStr ''hi'')])])]])]),
      Some (tool_answer0 ''llm_response'' [(''success'', JBool True), (''content'', JStr ''done'')])]"

definition batch_served :: "(nat \<times> coord_op list) list" where
  "batch_served = [(0, []), (0, []), (0, []), (0, []), (0, []), (0, [Complete ''batch#2'' [result0]])]"

definition is_run :: "event \<Rightarrow> bool" where
  "is_run x = (case x of Ran _ _ \<Rightarrow> True | _ \<Rightarrow> False)"

section \<open>Order of events\<close>

text \<open>C26: A process of the runtime runs a tool only with the server's approval.  Whatever the node answers and
  whatever the other processes write to the coordinator, each run of a tool in the history of a process comes
  immediately after the call with that name and those arguments was sent and an answer that approves it arrived.\<close>

theorem tool_runs_only_on_approval:
  assumes "w_trace w = []" and "w_trace (snd (runtime_process en cfg w)) = past @ Ran t args # rest"
  shows "approved_before past t args"
proof -
  have "guarded run_permitted (w_trace (snd (runtime_process en cfg w)))"
    using runs.runtime_process_history [of w en cfg] assms(1) by simp
  with assms(2) have "run_permitted (Ran t args) past" unfolding guarded_def by blast
  then show ?thesis by (simp add: run_permitted_def approved_before_def)
qed

lemma tool_world0_run: "filter is_run (w_trace (snd (runtime_process ENGINE1 config0 tool_world0))) = [Ran ''echo'' [(''text'', JStr ''hi'')]]"
  by code_simp

lemma filter_split: "filter P xs = [x] \<Longrightarrow> \<exists>ys zs. xs = ys @ x # zs"
  by (metis filter_eq_ConsD)

theorem tool_runs_only_on_approval_witness:
  "\<exists>past rest. w_trace (snd (runtime_process ENGINE1 config0 tool_world0)) = past @ Ran ''echo'' [(''text'', JStr ''hi'')] # rest
     \<and> approved_before past ''echo'' [(''text'', JStr ''hi'')]"
proof -
  obtain past rest where tr: "w_trace (snd (runtime_process ENGINE1 config0 tool_world0)) = past @ Ran ''echo'' [(''text'', JStr ''hi'')] # rest"
    using filter_split [OF tool_world0_run] by blast
  from tool_runs_only_on_approval [OF _ tr] tr show ?thesis by (auto simp: tool_world0_def world0_def)
qed

text \<open>C27: A turn counts as done only when its answer was delivered.  Whenever a process of the runtime sets the
  phase to DONE, the event before is the receipt of a positive acknowledgement and the one before that the sending
  of an agent response.\<close>

theorem done_means_delivered:
  assumes "w_trace w = []" and "w_trace (snd (runtime_process en cfg w)) = past @ Did (SetPhase DONE d) # rest"
  shows "\<exists>xs m r. past = xs @ [Sent m, Got r] \<and> msg_type m = ''agent_response'' \<and> truthy (pget r ''success'')"
proof -
  have "guarded done_permitted (w_trace (snd (runtime_process en cfg w)))"
    using acks.runtime_process_history [of w en cfg] assms(1) by simp
  with assms(2) have "done_permitted (Did (SetPhase DONE d)) past" unfolding guarded_def by blast
  then show ?thesis by (simp add: done_permitted_def)
qed

definition gateway_world0 :: world where
  "gateway_world0 = world0 (set_phase DISPATCH [(''correlation_id'', JStr ''c1'')] None)
     [(0, []), (0, []), (0, []), (0, []), (0, [SetPhase RESPOND [(''response_text'', JStr ''hello'')]])]
     [ipc_accepted, handshaken, ipc_accepted, ipc_accepted]
     [Some (tool_answer0 ''user_query_response'' [(''success'', JBool True)]),
      Some (tool_answer0 ''agent_response_response'' [(''success'', JBool True)])]"

definition sets_done :: "event \<Rightarrow> bool" where
  "sets_done x = (case x of Did (SetPhase p _) \<Rightarrow> p = DONE | _ \<Rightarrow> False)"

lemma gateway_world0_run:
  "filter sets_done (w_trace (snd (runtime_process ENGINE2 config0 gateway_world0))) = [Did (SetPhase DONE (corr ''c1''))]"
  by code_simp

theorem done_means_delivered_witness:
  "\<exists>past rest. w_trace (snd (runtime_process ENGINE2 config0 gateway_world0)) = past @ Did (SetPhase DONE (corr ''c1'')) # rest
     \<and> (\<exists>xs m r. past = xs @ [Sent m, Got r] \<and> msg_type m = ''agent_response'' \<and> truthy (pget r ''success''))"
proof -
  obtain past rest where tr: "w_trace (snd (runtime_process ENGINE2 config0 gateway_world0)) = past @ Did (SetPhase DONE (corr ''c1'')) # rest"
    using filter_split [OF gateway_world0_run] by blast
  have "w_trace gateway_world0 = []" by (simp add: gateway_world0_def world0_def)
  from done_means_delivered [OF this tr] tr show ?thesis by blast
qed

section \<open>The coordinator under interleaving\<close>

text \<open>An operation some process of the runtime performs in some run.\<close>

definition runtime_op :: "coord_op \<Rightarrow> bool" where
  "runtime_op x \<longleftrightarrow> (\<exists>en cfg w. w_trace w = [] \<and> Did x \<in> set (w_trace (snd (runtime_process en cfg w))))"

lemma runtime_op_ok: "runtime_op x \<Longrightarrow> op_ok x"
proof -
  assume "runtime_op x"
  then obtain en cfg w where w: "w_trace w = []" "Did x \<in> set (w_trace (snd (runtime_process en cfg w)))"
    by (auto simp: runtime_op_def)
  then have "allowed_ops en (w_trace (snd (runtime_process en cfg w)))"
    using ops.runtime_process_history [of en w cfg] by (simp add: allowed_ops_def)
  with w(2) show ?thesis by (blast intro: allowed_ops_ok)
qed

text \<open>C28: The coordinator file implements a slot for one batch of tool calls.  Under every interleaving of
  operations that processes of the runtime perform, the batch the file shows is the one the abstract slot
  holds, and an attempt to complete a batch succeeds exactly when the slot holds that batch pending.\<close>

theorem coordinator_refines_slot:
  assumes "\<And>x. x \<in> set xs \<Longrightarrow> runtime_op x"
  shows "batch_of (fold coord_apply xs f) = fold batch_step xs (batch_of f)
     \<and> (fst (complete_tool_batch b rs (fold coord_apply xs f)) \<longleftrightarrow> (\<exists>calls. fold batch_step xs (batch_of f) = PendingBatch b calls))"
proof -
  have "batch_of (fold coord_apply xs f) = fold batch_step xs (batch_of f)"
    using assms
  proof (induction xs arbitrary: f)
    case (Cons x xs)
    then show ?case using batch_refines [OF runtime_op_ok, of x f] by simp
  qed simp
  then show ?thesis by (simp add: complete_succeeds)
qed

lemma did_in_filter: "filter P tr = [y] \<Longrightarrow> y \<in> set tr"
  by (metis filter_is_subset list.set_intros(1) subsetD)

lemma published_op: "runtime_op (Publish ''batch#2'' [call0])"
proof -
  have "filter (\<lambda>x. case x of Did (Publish _ _) \<Rightarrow> True | _ \<Rightarrow> False)
     (w_trace (snd (runtime_process ENGINE3 config0 (llm_world0 batch_served)))) = [Did (Publish ''batch#2'' [call0])]" by code_simp
  from did_in_filter [OF this] show ?thesis unfolding runtime_op_def
    by (intro exI [of _ ENGINE3] exI [of _ config0] exI [of _ "llm_world0 batch_served"]) (simp add: llm_world0_def world0_def)
qed

lemma completed_op: "runtime_op (Complete ''batch#2'' [result0])"
proof -
  have "filter (\<lambda>x. case x of Did (Complete _ _) \<Rightarrow> True | _ \<Rightarrow> False)
     (w_trace (snd (runtime_process ENGINE1 config0 tool_world0))) = [Did (Complete ''batch#2'' [result0])]" by code_simp
  from did_in_filter [OF this] show ?thesis unfolding runtime_op_def
    by (intro exI [of _ ENGINE1] exI [of _ config0] exI [of _ tool_world0]) (simp add: tool_world0_def world0_def)
qed

definition ops0 :: "coord_op list" where
  "ops0 = [Publish ''batch#2'' [call0], Complete ''batch#2'' [result0]]"

lemma ops0_runtime: "x \<in> set ops0 \<Longrightarrow> runtime_op x"
  using published_op completed_op by (auto simp: ops0_def)

theorem coordinator_refines_slot_witness:
  "batch_of (fold coord_apply ops0 collecting) = CompletedBatch ''batch#2'' (JArr [JObj result0])
     \<and> \<not> fst (complete_tool_batch ''batch#2'' [] (fold coord_apply ops0 collecting))"
  using coordinator_refines_slot [of ops0 collecting "''batch#2''" "[]", OF ops0_runtime] by (simp add: ops0_def)

text \<open>A batch of tool calls is completed at most as often as it was published.  So with fresh batch
  identifiers the results engine 3 reads are those of the one engine 1 that completed the batch, whatever the
  order of the processes.\<close>

theorem tool_batch_completed_once:
  assumes "\<And>x. x \<in> set xs \<Longrightarrow> runtime_op x"
  shows "completions b xs None \<le> publications b xs"
  using completed_at_most_once [OF runtime_op_ok [OF assms], of xs b None]
  by (simp add: batch_of_def coord_read_def default_state_def oget_def)

theorem tool_batch_completed_once_witness:
  "completions ''batch#2'' ops0 None \<le> publications ''batch#2'' ops0 \<and> publications ''batch#2'' ops0 = 1"
  using tool_batch_completed_once [of ops0 "''batch#2''", OF ops0_runtime] by (simp add: ops0_def publications_def)

section \<open>How a turn ends\<close>

text \<open>C29: Engine 3 asks the model at most eight times, whatever the model answers: a model that keeps asking for
  tools cannot keep the engine in its loop.\<close>

theorem llm_requests_bounded:
  assumes "w_trace w = []"
  shows "llm_requests (w_trace (snd (runtime_process ENGINE3 cfg w))) \<le> 8"
proof -
  have ready: "grows llm_requests 0 (do_mark_ready en)" for en
    by (auto simp: grows_def do_mark_ready_def Let_def llm_requests_snoc split: sum.split)
  have sub: "grows llm_requests 0 ipc_subscribe"
    by (auto simp: grows_def ipc_subscribe_def ipc_request_def bindA_def split: list.split)
  have hs: "grows llm_requests 0 wait_handshake"
    by (simp add: grows_def wait_handshake_def ops.handshake_trace)
  have "grows llm_requests 8 (runtime_process ENGINE3 cfg)"
    unfolding runtime_process.simps engine_run_def
    by (rule grows_then [OF sub, where k = 8], rule grows_bind [OF hs, where k = 8])
       (auto intro!: grows_then [OF ready, where k = 8] engine3_serve_grows grows_ret)
  then show ?thesis using assms unfolding grows_def by (metis add_0 list.size(3) filter.simps(1) llm_requests_def)
qed

theorem llm_requests_bounded_witness:
  "llm_requests (w_trace (snd (runtime_process ENGINE3 config0 (llm_world0 batch_served)))) \<le> 8"
  by (rule llm_requests_bounded) (simp add: llm_world0_def world0_def)

text \<open>Engine 3 never leaves a turn open.  When it returns without an exception its last act was to hand over
  an answer or to abort, and the coordinator then shows the phase RESPOND, DONE or ABORTED.\<close>

theorem engine3_leaves_no_turn_open:
  assumes "engine3_serve cfg w = (Inr (), w')"
  shows "resolves (last (w_trace w')) \<and> get_phase (w_file w') \<in> {Inr RESPOND, Inr DONE, Inr ABORTED}"
  using engine3_resolved [OF assms] resolved_phase [of w'] by (auto simp: resolved_def)

definition llm_start0 :: world where
  "llm_start0 = (llm_world0 (tl batch_served))\<lparr>w_answers := [ipc_accepted, ipc_accepted]\<rparr>"

definition llm_end0 :: world where
  "llm_end0 = snd (engine3_serve config0 llm_start0)"

lemma llm_end0_run: "engine3_serve config0 llm_start0 = (Inr (), llm_end0)"
  unfolding llm_end0_def by (rule prod_eqI) (simp_all, code_simp)

theorem engine3_leaves_no_turn_open_witness:
  "resolves (last (w_trace llm_end0)) \<and> get_phase (w_file llm_end0) \<in> {Inr RESPOND, Inr DONE, Inr ABORTED}"
  by (rule engine3_leaves_no_turn_open [OF llm_end0_run])

definition phase_readable :: "world \<Rightarrow> bool" where
  "phase_readable w \<longleftrightarrow> (\<exists>p. get_phase (w_file w) = Inr p) \<and> (\<forall>(d, xs) \<in> set (w_others w). \<forall>x \<in> set xs. op_ok x)"

lemma get_phase_apply: "op_ok x \<Longrightarrow> get_phase f = Inr p \<Longrightarrow> \<exists>q. get_phase (coord_apply x f) = Inr q"
proof (cases x)
  case (Abort r d)
  assume "op_ok x"
  with Abort abort_finishes [of d r f] show ?thesis by (auto simp: finished_def is_terminal_def)
next
  case (SetPhase q d)
  assume "op_ok x"
  with SetPhase set_phase_phase [of d q f] show ?thesis by simp
next
  case (Merge d)
  assume "op_ok x" "get_phase f = Inr p"
  with Merge show ?thesis
    by (simp add: merge_fields_def get_phase_mutate get_phase_def [of f] oget_or_omerge_other extra_ok_def reserved_keys_def)
next
  case (Ready en)
  assume "get_phase f = Inr p"
  with Ready show ?thesis by (auto simp: mark_ready_def get_phase_mutate get_phase_def [of f] split: sum.split)
next
  case (Publish b calls)
  assume "get_phase f = Inr p"
  with Publish show ?thesis by (simp add: publish_tool_batch_def get_phase_mutate get_phase_def [of f] oget_or_opop)
next
  case (Complete b results)
  assume "get_phase f = Inr p"
  with Complete show ?thesis by (simp add: complete_tool_batch_def Let_def get_phase_mutate get_phase_def [of f])
qed

lemma get_phase_fold: "(\<And>x. x \<in> set xs \<Longrightarrow> op_ok x) \<Longrightarrow> get_phase f = Inr p \<Longrightarrow> \<exists>q. get_phase (fold coord_apply xs f) = Inr q"
proof (induction xs arbitrary: f p)
  case (Cons x xs)
  obtain q where "get_phase (coord_apply x f) = Inr q" using get_phase_apply Cons.prems by force
  with Cons show ?case by simp
qed simp

lemma phase_readable_others: "phase_readable w \<Longrightarrow> phase_readable (others_act w)"
proof (cases "w_others w")
  case (Cons a rest)
  assume r: "phase_readable w"
  obtain d xs where a: "a = (d, xs)" by force
  from r Cons a obtain p where p: "get_phase (w_file w) = Inr p" and ok: "\<And>x. x \<in> set xs \<Longrightarrow> op_ok x"
    by (auto simp: phase_readable_def)
  obtain q where "get_phase (fold coord_apply xs (w_file w)) = Inr q" using get_phase_fold [OF ok p] by blast
  with r Cons a show ?thesis by (simp add: phase_readable_def others_act_def)
qed (simp add: phase_readable_def others_act_def)

lemma phase_readable_cong: "w_file w' = w_file w \<Longrightarrow> w_others w' = w_others w \<Longrightarrow> phase_readable w' = phase_readable w"
  by (simp add: phase_readable_def)

text \<open>A wait for a phase returns, and what it returns is what the file shows.\<close>

lemma poll_phase:
  "phase_readable w \<Longrightarrow> \<exists>r w'. poll deadline (phase_view ps) w = (Inr r, w') \<and> phase_readable w'
     \<and> (\<forall>p. r = Some p \<longrightarrow> p \<in> set ps \<and> get_phase (w_file w') = Inr p)"
proof (induction deadline "phase_view ps" w rule: poll.induct)
  case (1 deadline w)
  show ?case
  proof (cases "deadline \<le> w_clock w")
    case False
    let ?w = "others_act w"
    have r: "phase_readable ?w" by (rule phase_readable_others [OF 1(2)])
    then obtain p where p: "get_phase (w_file ?w) = Inr p" by (auto simp: phase_readable_def)
    show ?thesis
    proof (cases "p \<in> set ps")
      case True
      with False p r show ?thesis by (subst poll.simps) (simp add: phase_view_def)
    next
      case no: False
      have "phase_readable (?w\<lparr>w_clock := w_clock ?w + poll_interval\<rparr>)" using r by (simp add: phase_readable_def)
      from 1(1) [OF False refl _ _ this] no p False show ?thesis
        by (subst poll.simps) (simp add: phase_view_def Let_def)
    qed
  qed (use 1 in \<open>simp add: poll.simps\<close>)
qed

text \<open>C30: The loop always ends the turn.  When the phase in the file is readable and the other processes write only
  their own fields, the turn of the loop returns: with success only after it saw DONE, and when it ran into its
  time limit the turn is finished in the file it leaves.\<close>

theorem loop_always_ends_turn:
  assumes "phase_readable w"
  shows "\<exists>b w'. loop_turn cfg turn_id w = (Inr b, w') \<and> (b \<longrightarrow> get_phase (w_file w') = Inr DONE)
     \<and> (last (w_trace w') = Did (Abort ''loop_turn_timeout'' (corr turn_id)) \<longrightarrow> \<not> b \<and> finished (w_file w'))"
proof -
  define w1 where "w1 = snd (do_coord (SetPhase DISPATCH (corr turn_id)) w)"
  have w1: "phase_readable w1"
    using phase_readable_others [OF assms] set_phase_phase [of "corr turn_id" DISPATCH]
    by (auto simp: w1_def do_coord_def Let_def note_event_def phase_readable_def)
  obtain r w2 where r: "poll (w_clock w1 + rc_turn_timeout cfg) (phase_view TERMINAL_PHASES) w1 = (Inr r, w2)"
    and seen: "\<And>p. r = Some p \<Longrightarrow> p \<in> set TERMINAL_PHASES \<and> get_phase (w_file w2) = Inr p"
    using poll_phase [OF w1, of "w_clock w1 + rc_turn_timeout cfg" TERMINAL_PHASES] by blast
  have tr: "last (w_trace w2) = Did (SetPhase DISPATCH (corr turn_id))"
    using ops.poll_trace [of "w_clock w1 + rc_turn_timeout cfg" "phase_view TERMINAL_PHASES" w1] r
    by (simp add: w1_def do_coord_def Let_def)
  have start: "do_coord (SetPhase DISPATCH (corr turn_id)) w = (Inr (), w1)" by (simp add: w1_def do_coord_def Let_def)
  show ?thesis
  proof (cases r)
    case None
    have "finished (abort ''loop_turn_timeout'' (corr turn_id) (w_file (others_act w2)))" by (rule abort_finishes) simp
    moreover have "loop_turn cfg turn_id w = bindA (do_coord (Abort ''loop_turn_timeout'' (corr turn_id))) (\<lambda>_. ret False) w2"
      by (simp add: loop_turn_def start await_phase_in_def await_def r None thenA_def)
    ultimately show ?thesis
      by (intro exI [of _ False]) (simp add: do_coord_def Let_def note_event_def bindA_def)
  next
    case (Some p)
    have "loop_turn cfg turn_id w = (if p = ABORTED then thenA read_coord (ret False) else ret True) w2"
      by (simp add: loop_turn_def start await_phase_in_def await_def r Some)
    then show ?thesis using seen [OF Some] tr by (auto simp: read_coord_def Let_def TERMINAL_PHASES_def)
  qed
qed

theorem loop_always_ends_turn_witness:
  "\<exists>b w'. loop_turn config0 ''c1'' (world0 None [(0, []), (0, ops0)] [] []) = (Inr b, w') \<and> (b \<longrightarrow> get_phase (w_file w') = Inr DONE)
     \<and> (last (w_trace w') = Did (Abort ''loop_turn_timeout'' (corr ''c1'')) \<longrightarrow> \<not> b \<and> finished (w_file w'))"
  by (rule loop_always_ends_turn)
     (simp add: phase_readable_def world0_def ops0_def get_phase_def coord_read_def default_state_def oget_or_def phase_of_def enum_of_def)

section \<open>Boundary behaviours\<close>

text \<open>A late answer revives a turn that was given up.  The phase is set without looking at the phase in the
  file, so when engine 3 ends by handing over its answer the turn is at RESPOND, even if the loop aborted it in
  between; in the instance the loop's abort takes effect before the answer.\<close>

theorem late_answer_revives_turn:
  assumes "engine3_serve cfg w = (Inr (), w')" and "last (w_trace w') = Did (SetPhase RESPOND d)"
  shows "get_phase (w_file w') = Inr RESPOND"
  using engine3_resolved [OF assms(1)] assms(2) by (auto simp: resolved_def)

definition given_up :: world where
  "given_up = (world0 collecting [(0, []), (0, []), (0, []), (0, [Abort ''loop_turn_timeout'' (corr ''c1'')])] [ipc_accepted]
     [Some (tool_answer0 ''llm_response'' [(''success'', JBool True), (''content'', JStr ''late'')])])"

lemma given_up_run: "fst (engine3_serve config0 given_up) = Inr ()"
    "last (w_trace (snd (engine3_serve config0 given_up))) = Did (SetPhase RESPOND (corr ''c1'' @ [(''response_text'', JStr ''late'')]))"
  by code_simp+

theorem late_answer_revives_turn_witness:
  "finished (fold coord_apply (concat (map snd (w_others given_up))) (w_file given_up))
     \<and> get_phase (w_file (snd (engine3_serve config0 given_up))) = Inr RESPOND"
proof
  show "finished (fold coord_apply (concat (map snd (w_others given_up))) (w_file given_up))"
    by (simp add: given_up_def world0_def abort_finishes)
  have "engine3_serve config0 given_up = (Inr (), snd (engine3_serve config0 given_up))"
    using given_up_run(1) by (metis prod.collapse)
  from late_answer_revives_turn [OF this given_up_run(2)]
  show "get_phase (w_file (snd (engine3_serve config0 given_up))) = Inr RESPOND" .
qed

text \<open>A forbidden command ends engine 1 and leaves the batch pending.  The terminal tool refuses a command
  that is not on its list with an exception the engine does not catch, so after the server's approval the engine
  dies without completing the batch, which engine 3 then waits for until its time limit.\<close>

theorem forbidden_command_kills_engine1:
  assumes "oget call ''name'' = JStr ''terminal''" and "ohas call ''name''" and "oget call ''arguments'' = JObj [(''argv'', JArr (JStr c # argv))]"
    and "c \<notin> set ALLOWED_COMMANDS" and "w_answers w = ipc_accepted # answers" and "w_inbox w = Some r # inbox" and "approves r"
  shows "fst (engine1_batch cfg turn_id b (JObj call # calls) w) = Inl TerminalToolError
     \<and> w_file (snd (engine1_batch cfg turn_id b (JObj call # calls) w)) = w_file w"
proof -
  have refused: "run_tool v ''terminal'' [(''argv'', JArr (JStr c # argv))] = Inl TerminalToolError" for v
    using assms(4) by (simp add: run_tool_def get_tool_runner_def TOOL_REGISTRY_def terminal_run_def argv_from_arguments_def oget_def)
  have ok: "ar_ok (parse_tool_call_response r)" "ar_approved (parse_tool_call_response r)"
    using assms(7) by (auto simp: approves_def parse_tool_call_response_def split: if_split_asm)
  have nm: "oget_or call ''name'' v = JStr ''terminal''" for v
    using assms(1,2) by (auto simp: oget_or_def oget_def ohas_def split: option.split_asm)
  show ?thesis
    using refused ok assms(3,5,6)
    by (simp add: engine1_batch_def nm call_arguments_def engine1_run_tool_def draw_def Let_def submit_and_wait_def submit_def
        ipc_request_def wait_inbound_def note_event_def oget_def run_local_tool_def bindA_def)
qed

definition forbidden0 :: obj where
  "forbidden0 = [(''id'', JStr ''k1''), (''name'', JStr ''terminal''), (''arguments'', JObj [(''argv'', JArr [JStr ''rm'', JStr ''-rf''])])]"

theorem forbidden_command_kills_engine1_witness:
  "fst (engine1_batch config0 ''c1'' ''batch#2'' [JObj forbidden0]
       (world0 collecting [] [ipc_accepted] [Some (tool_answer0 ''tool_call_response'' [(''success'', JBool True), (''approved'', JBool True)])]))
     = Inl TerminalToolError"
proof -
  have "approves (tool_answer0 ''tool_call_response'' [(''success'', JBool True), (''approved'', JBool True)])"
    by (simp add: approves_def parse_tool_call_response_def tool_answer0_def message0_def oget_def)
  then show ?thesis
    by (intro conjunct1 [OF forbidden_command_kills_engine1 [where c = "''rm''" and argv = "[JStr ''-rf'']"]])
       (simp_all add: forbidden0_def oget_def ohas_def ALLOWED_COMMANDS_def world0_def)
qed

text \<open>A record the quota allows does not fit on the wire.  The default limit of a record is 65536 bytes, and
  so is the limit of the server's line reader: a write whose content has that size makes a longer line, on which
  the reader raises, and the server drops the connection without an answer.\<close>

theorem largest_record_drops_connection:
  assumes "int (length content) = mq_max_record_bytes default_limits"
  shows "handle_line e sv c (encode_message e (build_memory_write e' agent_id vm_id turn_id ns key content target grant_id)) s
     = snd (close_client c s)"
proof -
  let ?m = "build_memory_write e' agent_id vm_id turn_id ns key content target grant_id"
  let ?p = "json_dumps '','' '':'' (JObj (msg_payload ?m))"
  have "length (json_dumps '','' '':'' (JStr content)) \<le> length (json_dumps '','' '':'' (JObj [(''key'', JStr key), (''content'', JStr content)]))"
    by (rule dumps_obj_length [of "''content''"]) simp
  moreover have "length (json_dumps '','' '':'' (JObj [(''key'', JStr key), (''content'', JStr content)])) \<le> length ?p"
    by (rule dumps_obj_length [of "''record''"]) (simp add: build_memory_write_def engine_request_def new_message_def)
  moreover have "length content + 2 \<le> length (json_dumps '','' '':'' (JStr content))"
    using escaped_length [of content] by (simp add: json_string_def)
  ultimately have "stream_limit < length (encode_message e ?m)"
    using encode_length_payload [of ?m e] assms by (simp add: stream_limit_def default_limits_def)
  then show ?thesis by (simp add: handle_line_def serve_line_def readline_def)
qed

theorem largest_record_drops_connection_witness:
  "handle_line env0 services0 1 (encode_message env0
       (build_memory_write env0 ''a1'' ''v1'' ''c1'' ''private'' ''k'' (replicate 65536 CHR ''x'') None None)) (server0 [])
     = snd (close_client 1 (server0 []))"
  by (rule largest_record_drops_connection) (simp add: default_limits_def)

section \<open>The runtime and the server\<close>

lemma build_tool_call_agent [simp]: "m_agent (build_tool_call e agent_id vm_id turn_id tool_name args timeout) = agent_id"
  by (simp add: build_tool_call_def engine_request_def new_message_def)

text \<open>The runtime reads the verdict the server gave.  Engine 1 takes the server's answer to its call as an
  approval exactly when the gateway approved, and then the manifest of the agent lists the tool engine 1 is
  about to run.\<close>

theorem engine_sees_server_verdict:
  assumes "m = build_tool_call e agent_id vm_id turn_id tool_name args timeout"
    and "handle_call e' m user_id matched s = (Inr x, s')"
  shows "(approves (tool_call_response e' m (approval_payload x)) \<longleftrightarrow> ap_success x \<and> ap_approved x)
     \<and> (ap_approved x \<longrightarrow> (\<exists>a tools. get_agent agent_id s = Some a \<and> allowed_tools a = Inr tools \<and> JStr tool_name \<in> set tools))"
proof (intro conjI impI)
  show "approves (tool_call_response e' m (approval_payload x)) \<longleftrightarrow> ap_success x \<and> ap_approved x"
    by (simp add: approves_def parse_tool_call_response_def tool_call_response_def server_reply_def new_message_def
        with_original_type_def approval_payload_def oget_def)
next
  assume "ap_approved x"
  have v: "validate_tool_call (msg_payload m) = Inr \<lparr>tc_tool_name = tool_name, tc_arguments = args, tc_timeout_seconds = timeout\<rparr>"
    by (cases timeout) (simp_all add: assms(1) build_tool_call_def engine_request_def new_message_def validate_tool_call_def
        entry_if_def pyd_req_def pyd_def_def)
  from handle_call_approved [OF assms(2) \<open>ap_approved x\<close>] v
  show "\<exists>a tools. get_agent agent_id s = Some a \<and> allowed_tools a = Inr tools \<and> JStr tool_name \<in> set tools"
    by (metis Inr_inject tool_call_payload.select_convs(1) build_tool_call_agent assms(1))
qed

definition tool_call0 :: framework_message where
  "tool_call0 = build_tool_call env0 ''a1'' ''v1'' ''c1'' ''echo'' [(''text'', JStr ''hi'')] None"

theorem engine_sees_server_verdict_witness:
  "\<exists>x s'. handle_call env0 tool_call0 JNull [] (server0 []) = (Inr x, s') \<and> approves (tool_call_response env0 tool_call0 (approval_payload x))
     \<and> (\<exists>a tools. get_agent ''a1'' (server0 []) = Some a \<and> allowed_tools a = Inr tools \<and> JStr ''echo'' \<in> set tools)"
proof -
  have "case fst (handle_call env0 tool_call0 JNull [] (server0 [])) of Inl _ \<Rightarrow> False | Inr x \<Rightarrow> ap_approved x \<and> ap_success x"
    by code_simp
  then obtain x s' where x: "handle_call env0 tool_call0 JNull [] (server0 []) = (Inr x, s')" "ap_approved x" "ap_success x"
    by (cases "handle_call env0 tool_call0 JNull [] (server0 [])") (auto split: sum.splits)
  from engine_sees_server_verdict [OF tool_call0_def x(1)] x show ?thesis by blast
qed

section \<open>What the local tools reach\<close>

text \<open>A file read stays inside the workspace.  When the tool returns content, it is the decoded beginning, of
  between 1 and 65536 bytes, of a file whose resolved path lies below the resolved workspace root, and the path it
  reports is that path relative to the root.\<close>

theorem file_read_stays_in_workspace:
  assumes "run_tool w ''file_read'' args = Inr d" and "oget d ''content'' = JStr content"
  shows "\<exists>p rel data n. relative_to p (workspace_root w) = Inr rel \<and> vw_file w p = Some data \<and> 1 \<le> n \<and> n \<le> 65536
     \<and> vw_utf8 w (take n data) = Some content \<and> oget d ''path'' = JStr (path_str rel)"
  using assms by (intro file_read_confined) (simp_all add: run_tool_def get_tool_runner_def TOOL_REGISTRY_def)

theorem file_read_stays_in_workspace_witness:
  "\<exists>p rel data n. relative_to p (workspace_root vm0) = Inr rel \<and> vw_file vm0 p = Some data \<and> 1 \<le> n \<and> n \<le> 65536
     \<and> vw_utf8 vm0 (take n data) = Some ''hello'' \<and> JStr ''notes'' = JStr (path_str rel)"
proof -
  let ?d = "[(''path'', JStr ''notes''), (''content'', JStr ''hello''), (''truncated'', JBool False), (''bytes'', JInt 5)] :: obj"
  have "run_tool vm0 ''file_read'' [(''path'', JStr ''a/../notes'')] = Inr (tool_error ''file not found'' ''FILE_READ_NOT_FOUND'')"
    "run_tool vm0 ''file_read'' [(''path'', JStr ''./notes'')] = Inr ?d"
    by code_simp+
  from file_read_stays_in_workspace [OF this(2)] show ?thesis by (simp add: oget_def)
qed

text \<open>The terminal tool runs only commands of its list, for at most thirty seconds.  Two machines that agree on
  the processes started from a listed command with a time limit between one and thirty seconds give the same
  result for every call, so nothing else is ever started.\<close>

theorem terminal_runs_listed_commands:
  assumes "\<And>argv t. argv \<noteq> [] \<Longrightarrow> hd argv \<in> set ALLOWED_COMMANDS \<Longrightarrow> 1 \<le> t \<Longrightarrow> t \<le> 30 \<Longrightarrow>
      vw_process w None argv t = vw_process w' None argv t"
  shows "run_tool w ''terminal'' args = run_tool w' ''terminal'' args"
  using terminal_confined [of w w' args] assms by (simp add: run_tool_def get_tool_runner_def TOOL_REGISTRY_def)

theorem terminal_runs_listed_commands_witness:
  "run_tool vm0 ''terminal'' [(''command'', JStr ''rm -rf /'')]
     = run_tool (vm0\<lparr>vw_process := (\<lambda>d argv t. if argv \<noteq> [] \<and> hd argv = ''rm'' then Inl OSError else vw_process vm0 d argv t)\<rparr>)
         ''terminal'' [(''command'', JStr ''rm -rf /'')]"
  by (rule terminal_runs_listed_commands) (auto simp: ALLOWED_COMMANDS_def)

text \<open>A caller can lift the ban on scripts.  The tool reads \<^verbatim>\<open>allow_scripts\<close> from the arguments of the call before
  the flag of the launch package, so a call that carries it runs the script of a skill for which scripts are off.\<close>

theorem argument_lifts_script_ban:
  assumes "oget args ''allow_scripts'' = JBool True" and "skill_argument args \<noteq> []"
    and "script = strip (py_str (py_or (oget args ''script'') (JStr [])))" and "prefix ''scripts/'' script"
    and "\<not> pp_absolute (path_of script)" and "''..'' \<notin> set (pp_parts (path_of script))"
    and "resolve_skill_root w (skill_argument args) (oget args ''store_path'') = Inr p"
    and "prefix (path_str (vw_resolve w p)) (path_str (vw_resolve w (path_add p script)))"
    and "vw_file w (vw_resolve w (path_add p script)) \<noteq> None"
    and "py_float (py_or (oget args ''timeout_seconds'') (JInt 30)) = Inr t"
    and "vw_process w (Some p) [''bash'', path_str (vw_resolve w (path_add p script))] t = Inr (out, err, code)"
  shows "\<exists>d. run_tool w ''skill_run'' args = Inr d \<and> oget d ''exit_code'' = JInt code"
  using skill_run_ignores_flag [OF assms] by (simp add: run_tool_def get_tool_runner_def TOOL_REGISTRY_def)

definition skill_vm0 :: vm_world where
  "skill_vm0 = vm0\<lparr>vw_getenv := (\<lambda>k. if k = ''CORVUS_SKILLS_DIR'' then Some ''/skills''
       else if k = ''CORVUS_SKILL_ALLOW_SCRIPTS_demo'' then Some ''0'' else None),
     vw_file := (\<lambda>p. if p \<in> {PPath True [''skills'', ''demo'', ''SKILL.md''], PPath True [''skills'', ''demo'', ''scripts'', ''x.sh'']}
       then Some [] else None)\<rparr>"

definition skill_args0 :: obj where
  "skill_args0 = [(''skill'', JStr ''demo''), (''script'', JStr ''scripts/x.sh''), (''allow_scripts'', JBool True)]"

theorem argument_lifts_script_ban_witness:
  "\<not> scripts_allowed skill_vm0 ''demo'' JNull \<and> (\<exists>d. run_tool skill_vm0 ''skill_run'' skill_args0 = Inr d \<and> oget d ''exit_code'' = JInt 0)"
proof
  show "\<not> scripts_allowed skill_vm0 ''demo'' JNull" by code_simp
  have c: "oget skill_args0 ''allow_scripts'' = JBool True" "skill_argument skill_args0 \<noteq> []"
    "''scripts/x.sh'' = strip (py_str (py_or (oget skill_args0 ''script'') (JStr [])))" "prefix ''scripts/'' ''scripts/x.sh''"
    "\<not> pp_absolute (path_of ''scripts/x.sh'')" "''..'' \<notin> set (pp_parts (path_of ''scripts/x.sh''))"
    "resolve_skill_root skill_vm0 (skill_argument skill_args0) (oget skill_args0 ''store_path'') = Inr (PPath True [''skills'', ''demo''])"
    "prefix (path_str (vw_resolve skill_vm0 (PPath True [''skills'', ''demo''])))
       (path_str (vw_resolve skill_vm0 (path_add (PPath True [''skills'', ''demo'']) ''scripts/x.sh'')))"
    by code_simp+
  have f: "vw_file skill_vm0 (vw_resolve skill_vm0 (path_add (PPath True [''skills'', ''demo'']) ''scripts/x.sh'')) \<noteq> None"
    by code_simp
  have t: "py_float (py_or (oget skill_args0 ''timeout_seconds'') (JInt 30)) = Inr 30"
    by (simp add: skill_args0_def oget_def py_or_def)
  have p: "vw_process skill_vm0 (Some (PPath True [''skills'', ''demo'']))
      [''bash'', path_str (vw_resolve skill_vm0 (path_add (PPath True [''skills'', ''demo'']) ''scripts/x.sh''))] 30 = Inr (''out'', [], 0)"
    by (simp add: skill_vm0_def vm0_def)
  show "\<exists>d. run_tool skill_vm0 ''skill_run'' skill_args0 = Inr d \<and> oget d ''exit_code'' = JInt 0"
    by (rule argument_lifts_script_ban [OF c f t p])
qed

end
