(* ===== verification/Vm_Registry.thy ===== *)
theory Vm_Registry
  imports Database Local_Tools
begin

text \<open>
  The registry of micro VMs of \<^verbatim>\<open>vm/registry.py\<close>.  Every operation first reloads the index file and marks
  records whose process is gone, so the index is the state; it holds the records in insertion order under
  distinct instance identifiers, as the JSON text of the file does.  \<open>vh_procs\<close> are the processes alive on the
  host.
\<close>

record vm_record =
  vm_instance_id :: string
  vm_agent_id :: string
  vm_guest_cid :: int
  vm_api_socket :: string
  vm_pid :: "int option"
  vm_status :: string
  vm_manifest_hash :: string
  vm_vsock_uds :: string
  vm_launch_package_dir :: string
  vm_stdout_log :: string
  vm_stderr_log :: string
  vm_created_at :: string
  vm_updated_at :: string
  vm_last_heartbeat_at :: "string option"
  vm_last_error :: "string option"
  vm_stop_reason :: "string option"
  vm_graceful_stop :: "bool option"

record vm_host =
  vh_index :: "vm_record list"
  vh_procs :: "int list"

definition ACTIVE_STATES :: "string list" where
  "ACTIVE_STATES = [''launching'', ''booting'', ''handshaking'', ''running'', ''degraded'', ''stopping'']"

definition active :: "vm_record \<Rightarrow> bool" where
  "active r \<longleftrightarrow> vm_status r \<in> set ACTIVE_STATES"

definition pid_is_alive :: "'z vm_host_scheme \<Rightarrow> int option \<Rightarrow> bool" where
  "pid_is_alive h p = (case p of None \<Rightarrow> True | Some n \<Rightarrow> n \<in> set (vh_procs h))"

definition utc_now :: "env \<Rightarrow> string" where
  "utc_now e = isoformat (now e)"

section \<open>Operations\<close>

definition mark_failed :: "env \<Rightarrow> vm_record \<Rightarrow> vm_record" where
  "mark_failed e r = r\<lparr>vm_status := ''failed'', vm_last_error := Some ''Firecracker process is not running'',
     vm_updated_at := utc_now e\<rparr>"

definition refresh :: "env \<Rightarrow> ('z vm_host_scheme, unit) act" where
  "refresh e = modS (\<lambda>h. h\<lparr>vh_index := update_rows (\<lambda>r. active r \<and> \<not> pid_is_alive h (vm_pid r)) (mark_failed e) (vh_index h)\<rparr>)"

text \<open>\<^verbatim>\<open>register\<close> stamps the record it is given; the stamped record is returned.\<close>

definition vm_register :: "env \<Rightarrow> vm_record \<Rightarrow> ('z vm_host_scheme, vm_record) act" where
  "vm_register e r =
     thenA (refresh e)
       (let r' = r\<lparr>vm_created_at := (if vm_created_at r = [] then utc_now e else vm_created_at r), vm_updated_at := utc_now e\<rparr>
        in thenA (modS (\<lambda>h. h\<lparr>vh_index := upsert_row vm_instance_id (\<lambda>_ new. new) r' (vh_index h)\<rparr>)) (ret r'))"

definition vm_get :: "env \<Rightarrow> string \<Rightarrow> ('z vm_host_scheme, vm_record option) act" where
  "vm_get e i = thenA (refresh e) (getS (\<lambda>h. lookup_row vm_instance_id i (vh_index h)))"

definition get_by_agent :: "env \<Rightarrow> string \<Rightarrow> ('z vm_host_scheme, vm_record option) act" where
  "get_by_agent e a = thenA (refresh e) (getS (\<lambda>h. List.find (\<lambda>r. vm_agent_id r = a \<and> active r) (vh_index h)))"

definition list_by_agent :: "env \<Rightarrow> string \<Rightarrow> ('z vm_host_scheme, vm_record list) act" where
  "list_by_agent e a = thenA (refresh e) (getS (\<lambda>h. filter (\<lambda>r. vm_agent_id r = a) (vh_index h)))"

text \<open>\<^verbatim>\<open>max\<close> returns the first record with the largest key.\<close>

definition latest_key :: "vm_record \<Rightarrow> string" where
  "latest_key r = (if vm_updated_at r = [] then vm_created_at r else vm_updated_at r)"

definition latest_by_agent :: "env \<Rightarrow> string \<Rightarrow> ('z vm_host_scheme, vm_record option) act" where
  "latest_by_agent e a = bindA (list_by_agent e a) (\<lambda>rs. ret (case rs of
     [] \<Rightarrow> None | r # rest \<Rightarrow> Some (fold (\<lambda>x best. if latest_key best < latest_key x then x else best) rest r)))"

definition stamp_status ::
  "env \<Rightarrow> string \<Rightarrow> string option \<Rightarrow> string option \<Rightarrow> bool option \<Rightarrow> vm_record \<Rightarrow> vm_record" where
  "stamp_status e status err reason graceful r =
     r\<lparr>vm_status := status, vm_updated_at := utc_now e,
       vm_last_error := (if err \<noteq> None then err else vm_last_error r),
       vm_stop_reason := (if reason \<noteq> None then reason else vm_stop_reason r),
       vm_graceful_stop := (if graceful \<noteq> None then graceful else vm_graceful_stop r)\<rparr>"

definition update_status ::
  "env \<Rightarrow> string \<Rightarrow> string \<Rightarrow> string option \<Rightarrow> string option \<Rightarrow> bool option \<Rightarrow> ('z vm_host_scheme, unit) act" where
  "update_status e i status err reason graceful =
     thenA (refresh e)
       (modS (\<lambda>h. h\<lparr>vh_index := update_rows (\<lambda>r. vm_instance_id r = i) (stamp_status e status err reason graceful) (vh_index h)\<rparr>))"

definition vm_remove :: "env \<Rightarrow> string \<Rightarrow> ('z vm_host_scheme, unit) act" where
  "vm_remove e i = thenA (refresh e) (modS (\<lambda>h. h\<lparr>vh_index := delete_rows (\<lambda>r. vm_instance_id r = i) (vh_index h)\<rparr>))"

definition list_all_vms :: "env \<Rightarrow> ('z vm_host_scheme, vm_record list) act" where
  "list_all_vms e = thenA (refresh e) (getS vh_index)"

text \<open>The search for a context identifier ends because only finitely many are in use.\<close>

function first_free :: "int list \<Rightarrow> int \<Rightarrow> int" where
  "first_free used cid = (if cid \<in> set used then first_free used (cid + 1) else cid)"
  by pat_completeness auto

termination
proof (relation "measure (\<lambda>(used, cid). card {u \<in> set used. cid \<le> u})", simp)
  fix used :: "int list" and cid assume "cid \<in> set used"
  then have "{u \<in> set used. cid + 1 \<le> u} \<subset> {u \<in> set used. cid \<le> u}" by force
  then have "card {u \<in> set used. cid + 1 \<le> u} < card {u \<in> set used. cid \<le> u}"
    by (rule psubset_card_mono [rotated]) simp
  then show "((used, cid + 1), used, cid) \<in> measure (\<lambda>(used, cid). card {u \<in> set used. cid \<le> u})" by simp
qed

declare first_free.simps [simp del]

definition used_cids :: "vm_record list \<Rightarrow> int list" where
  "used_cids rs = map vm_guest_cid (filter active rs)"

definition next_guest_cid :: "env \<Rightarrow> int \<Rightarrow> ('z vm_host_scheme, int) act" where
  "next_guest_cid e start = thenA (refresh e) (getS (\<lambda>h. first_free (used_cids (vh_index h)) start))"

section \<open>Facts\<close>

text \<open>The search returns the least identifier from the start that is not in use.\<close>

lemma first_free_spec:
  "first_free used cid \<notin> set used \<and> cid \<le> first_free used cid \<and> (\<forall>c. cid \<le> c \<and> c < first_free used cid \<longrightarrow> c \<in> set used)"
proof (induction used cid rule: first_free.induct)
  case (1 used cid)
  show ?case
  proof (cases "cid \<in> set used")
    case True
    with 1 show ?thesis by (subst (1 2 3) first_free.simps) (auto dest: order_class.le_neq_trans)
  next
    case False
    then show ?thesis by (subst (1 2 3) first_free.simps) auto
  qed
qed

interpretation vms: keyed_table vm_instance_id "\<lambda>(_ :: vm_record) new. new"
  by unfold_locales simp

text \<open>The invariant of the registry: one record per instance, one active VM per agent, and no context identifier
  that two active VMs have.\<close>

definition registry_ok :: "'z vm_host_scheme \<Rightarrow> bool" where
  "registry_ok h \<longleftrightarrow> keys_ok vm_instance_id (vh_index h)
     \<and> distinct (map vm_agent_id (filter active (vh_index h)))
     \<and> distinct (map vm_guest_cid (filter active (vh_index h)))"

lemma distinct_shrink:
  assumes "\<And>x. x \<in> set xs \<Longrightarrow> g (f x) = g x \<and> (Q (f x) \<longrightarrow> P x)" and "distinct (map g (filter P xs))"
  shows "distinct (map g (filter Q (map f xs)))"
proof -
  have sub: "g y \<in> g ` set (filter P xs)" if "y \<in> set (filter Q (map f xs))" "set xs \<subseteq> set zs"
    "\<And>x. x \<in> set xs \<Longrightarrow> g (f x) = g x \<and> (Q (f x) \<longrightarrow> P x)" for y xs zs
    using that by force
  show ?thesis using assms
  proof (induction xs)
    case (Cons x xs)
    have "g z \<in> g ` set (filter P xs)" if "z \<in> set (filter Q (map f xs))" for z
      using sub [OF that] Cons.prems(1) by (meson list.set_intros(2) order_refl)
    with Cons show ?case by (auto split: if_split_asm)
  qed simp
qed

text \<open>A change of the records that keeps who they belong to and makes no VM active.\<close>

lemma registry_ok_map:
  assumes "registry_ok h" and "vh_index h' = map f (vh_index h)"
    and "\<And>r. r \<in> set (vh_index h) \<Longrightarrow> vm_instance_id (f r) = vm_instance_id r \<and> vm_agent_id (f r) = vm_agent_id r
        \<and> vm_guest_cid (f r) = vm_guest_cid r \<and> (active (f r) \<longrightarrow> active r)"
  shows "registry_ok h'"
proof -
  have "map vm_instance_id (vh_index h') = map vm_instance_id (vh_index h)" using assms(2,3) by simp
  moreover have "distinct (map vm_agent_id (filter active (vh_index h')))"
    unfolding assms(2) by (rule distinct_shrink [where P = active]) (use assms in \<open>auto simp: registry_ok_def\<close>)
  moreover have "distinct (map vm_guest_cid (filter active (vh_index h')))"
    unfolding assms(2) by (rule distinct_shrink [where P = active]) (use assms in \<open>auto simp: registry_ok_def\<close>)
  ultimately show ?thesis using assms(1) by (simp add: registry_ok_def keys_ok_def)
qed

lemma pid_is_alive_cong: "vh_procs h' = vh_procs h \<Longrightarrow> pid_is_alive h' p = pid_is_alive h p"
  by (simp add: pid_is_alive_def cong: option.case_cong)

lemma registry_ok_cong: "vh_index h' = vh_index h \<Longrightarrow> registry_ok h' = registry_ok h"
  by (simp add: registry_ok_def)

lemma not_active_failed [simp]: "\<not> active (mark_failed e r)"
  by (simp add: active_def mark_failed_def ACTIVE_STATES_def)

lemma mark_failed_keys [simp]: "vm_instance_id (mark_failed e r) = vm_instance_id r" "vm_agent_id (mark_failed e r) = vm_agent_id r"
  "vm_guest_cid (mark_failed e r) = vm_guest_cid r"
  by (simp_all add: mark_failed_def)

text \<open>After a refresh every active record has its process.\<close>

definition index_clean :: "'z vm_host_scheme \<Rightarrow> bool" where
  "index_clean h \<longleftrightarrow> (\<forall>r \<in> set (vh_index h). active r \<longrightarrow> pid_is_alive h (vm_pid r))"

definition refreshed :: "env \<Rightarrow> 'z vm_host_scheme \<Rightarrow> 'z vm_host_scheme" where
  "refreshed e h = snd (refresh e h)"

lemma refresh_apply: "refresh e h = (Inr (), refreshed e h)"
  by (simp add: refreshed_def refresh_def)

lemma refreshed_procs [simp]: "vh_procs (refreshed e h) = vh_procs h"
  by (simp add: refreshed_def refresh_def)

lemma refreshed_index: "vh_index (refreshed e h) = map (\<lambda>r. if active r \<and> \<not> pid_is_alive h (vm_pid r) then mark_failed e r else r) (vh_index h)"
  by (simp add: refreshed_def refresh_def update_rows_def)

lemma refreshed_index_clean: "index_clean (refreshed e h)"
  by (auto simp: index_clean_def refreshed_index pid_is_alive_cong [of "refreshed e h" h])

lemma refreshed_ok: "registry_ok h \<Longrightarrow> registry_ok (refreshed e h)"
  by (rule registry_ok_map [OF _ refreshed_index])
     auto

lemma refreshed_fixed: "index_clean h \<Longrightarrow> vh_index (refreshed e h) = vh_index h"
  by (auto simp: refreshed_index index_clean_def intro!: map_idI)

end
