(* ===== verification/Host_Files.thy ===== *)
theory Host_Files
  imports Local_Tools Protocol
begin

text \<open>
  Files of the host as the launcher and the skill store use them: regular files with their bytes and
  directories, both under absolute paths, without links.  The operations are those of \<^verbatim>\<open>pathlib\<close> and
  \<^verbatim>\<open>shutil\<close>; they raise \<^verbatim>\<open>FileNotFoundError\<close> and, for its siblings, \<^verbatim>\<open>OSError\<close> where those do.  Also the two printers of JSON text the host files use:
  sorted keys, and indentation by two.
\<close>

record host_fs =
  hf_files :: "(ppath \<times> string) list"
  hf_dirs :: "ppath list"

definition is_file :: "'z host_fs_scheme \<Rightarrow> ppath \<Rightarrow> bool" where
  "is_file s p \<longleftrightarrow> map_of (hf_files s) p \<noteq> None"

definition is_dir :: "'z host_fs_scheme \<Rightarrow> ppath \<Rightarrow> bool" where
  "is_dir s p \<longleftrightarrow> p \<in> set (hf_dirs s)"

definition path_exists :: "'z host_fs_scheme \<Rightarrow> ppath \<Rightarrow> bool" where
  "path_exists s p \<longleftrightarrow> is_file s p \<or> is_dir s p"

definition below :: "ppath \<Rightarrow> ppath \<Rightarrow> bool" where
  "below p q \<longleftrightarrow> pp_absolute p = pp_absolute q \<and> prefix (pp_parts p) (pp_parts q)"

text \<open>\<^verbatim>\<open>mkdir(parents=True, exist_ok=True)\<close>\<close>

definition mkdir_parents :: "ppath \<Rightarrow> ('z host_fs_scheme, unit) act" where
  "mkdir_parents p = (\<lambda>s.
     let ps = map (PPath (pp_absolute p)) (prefixes (pp_parts p)) in
     if list_ex (is_file s) ps then (Inl OSError, s)
     else (Inr (), s\<lparr>hf_dirs := hf_dirs s @ filter (\<lambda>q. \<not> is_dir s q) ps\<rparr>))"

definition put_file :: "ppath \<Rightarrow> string \<Rightarrow> (ppath \<times> string) list \<Rightarrow> (ppath \<times> string) list" where
  "put_file p c fs = (p, c) # filter (\<lambda>(q, _). q \<noteq> p) fs"

definition write_file :: "ppath \<Rightarrow> string \<Rightarrow> ('z host_fs_scheme, unit) act" where
  "write_file p c = (\<lambda>s.
     if is_dir s p \<or> is_file s (path_parent p) then (Inl OSError, s)
     else if \<not> is_dir s (path_parent p) then (Inl FileNotFoundError, s)
     else (Inr (), s\<lparr>hf_files := put_file p c (hf_files s)\<rparr>))"

definition read_file :: "ppath \<Rightarrow> ('z host_fs_scheme, string) act" where
  "read_file p = (\<lambda>s. case map_of (hf_files s) p of None \<Rightarrow> (Inl (if is_dir s p then OSError else FileNotFoundError), s) | Some c \<Rightarrow> (Inr c, s))"

text \<open>\<^verbatim>\<open>if path.exists(): path.unlink()\<close>\<close>

definition unlink_if_exists :: "ppath \<Rightarrow> ('z host_fs_scheme, unit) act" where
  "unlink_if_exists p = (\<lambda>s.
     if is_dir s p then (Inl OSError, s) else (Inr (), s\<lparr>hf_files := filter (\<lambda>(q, _). q \<noteq> p) (hf_files s)\<rparr>))"

text \<open>\<^verbatim>\<open>if path.exists(): shutil.rmtree(path)\<close>\<close>

definition rmtree_if_exists :: "ppath \<Rightarrow> ('z host_fs_scheme, unit) act" where
  "rmtree_if_exists p = (\<lambda>s.
     if is_file s p then (Inl OSError, s)
     else (Inr (), s\<lparr>hf_files := filter (\<lambda>(q, _). \<not> below p q) (hf_files s), hf_dirs := filter (\<lambda>q. \<not> below p q) (hf_dirs s)\<rparr>))"

text \<open>\<^verbatim>\<open>shutil.copytree(src, dest)\<close>, where \<open>dest\<close> does not exist.\<close>

definition rebase :: "ppath \<Rightarrow> ppath \<Rightarrow> ppath \<Rightarrow> ppath" where
  "rebase src dest p = PPath (pp_absolute dest) (pp_parts dest @ drop (length (pp_parts src)) (pp_parts p))"

definition copytree :: "ppath \<Rightarrow> ppath \<Rightarrow> ('z host_fs_scheme, unit) act" where
  "copytree src dest = (\<lambda>s.
     if \<not> path_exists s src then (Inl FileNotFoundError, s)
     else if \<not> is_dir s src \<or> path_exists s dest then (Inl OSError, s)
     else (Inr (), s\<lparr>hf_files := map (\<lambda>(p, c). (rebase src dest p, c)) (filter (\<lambda>(p, _). below src p) (hf_files s)) @ hf_files s,
                    hf_dirs := map (rebase src dest) (filter (below src) (hf_dirs s)) @ hf_dirs s\<rparr>))"

section \<open>JSON text\<close>

text \<open>\<^verbatim>\<open>sort_keys=True\<close>\<close>

fun json_sorted :: "json \<Rightarrow> json" where
  "json_sorted (JArr xs) = JArr (map json_sorted xs)"
| "json_sorted (JObj d) = JObj (sort_key fst (map (\<lambda>(k, v). (k, json_sorted v)) d))"
| "json_sorted v = v"

definition spaces :: "nat \<Rightarrow> string" where
  "spaces n = replicate n CHR '' ''"

definition line_break :: string where
  "line_break = [char_of (10 :: nat)]"

text \<open>\<^verbatim>\<open>json.dumps(v, indent=2)\<close>; the first argument is the current indentation.\<close>

fun json_indented :: "nat \<Rightarrow> json \<Rightarrow> string" where
  "json_indented n (JArr xs) =
     (if xs = [] then ''[]''
      else ''['' @ line_break @ join ('','' @ line_break) (map (\<lambda>v. spaces (n + 2) @ json_indented (n + 2) v) xs)
             @ line_break @ spaces n @ '']'')"
| "json_indented n (JObj d) =
     (if d = [] then ''{}''
      else ''{'' @ line_break
             @ join ('','' @ line_break) (map (\<lambda>(k, v). spaces (n + 2) @ json_string k @ '': '' @ json_indented (n + 2) v) d)
             @ line_break @ spaces n @ ''}'')"
| "json_indented n v = json_dumps '', '' '': '' v"

end
