(* ===== verification/Vm_Launcher.thy ===== *)
theory Vm_Launcher
  imports Vm_Registry Host_Files Manifest
begin

text \<open>
  The launcher of \<^verbatim>\<open>vm/launcher.py\<close> with \<^verbatim>\<open>vm/spec.py\<close>, the socket wait of \<^verbatim>\<open>vm/fc_client.py\<close>, \<^verbatim>\<open>skills/bake.py\<close> and
  the parts of \<^verbatim>\<open>skills/store.py\<close> baking uses.  A launch has two halves: up to the started process nothing is
  awaited, so the first half happens at one instant; the second half configures Firecracker over its socket
  and reports the outcome.  Firecracker is \<open>fc_world\<close>: the process that \<^verbatim>\<open>Popen\<close> starts, the time until its
  socket appears, in microseconds, and its answer to a request, \<open>Some\<close> being the exception and its text.  A
  killed process stays visible until the host reaps it.
\<close>

record vm_config =
  vc_artifacts_dir :: ppath
  vc_kernel_path :: ppath
  vc_rootfs_path :: ppath
  vc_firecracker_bin :: string
  vc_vsock_port :: int
  vc_guest_cid_start :: int
  vc_state_dir :: ppath

record launcher_state = vm_host +
  lh_fs :: host_fs
  lh_requests :: "(string \<times> string \<times> obj) list"
  lh_killed :: "int list"

record fc_world =
  fc_spawn :: "string list \<Rightarrow> (string \<times> string) list \<Rightarrow> int res"
  fc_appears :: "ppath \<Rightarrow> int option"
  fc_answer :: "ppath \<Rightarrow> string \<Rightarrow> obj \<Rightarrow> (exc \<times> string) option"
  fc_store :: ppath

text \<open>An action on the files of the host.\<close>

definition on_fs :: "(host_fs, 'a) act \<Rightarrow> ('z launcher_state_scheme, 'a) act" where
  "on_fs m = (\<lambda>h. case m (lh_fs h) of (r, fs) \<Rightarrow> (r, h\<lparr>lh_fs := fs\<rparr>))"

section \<open>Machine configuration\<close>

record vm_spec =
  sp_vm_instance_id :: string
  sp_agent_id :: string
  sp_guest_cid :: int
  sp_kernel_path :: ppath
  sp_rootfs_path :: ppath
  sp_vcpu_count :: int
  sp_mem_size_mib :: int
  sp_vsock_port :: int
  sp_api_socket :: ppath
  sp_vsock_uds :: ppath
  sp_boot_env :: "(string \<times> string) list"

definition build_machine_config :: "vm_spec \<Rightarrow> obj" where
  "build_machine_config sp = [(''vcpu_count'', JInt (sp_vcpu_count sp)), (''mem_size_mib'', JInt (sp_mem_size_mib sp)),
     (''smt'', JBool False), (''track_dirty_pages'', JBool False)]"

definition boot_env_arg :: "string \<times> string \<Rightarrow> string" where
  "boot_env_arg kv = ''systemd.setenv='' @ fst kv @ ''='' @ map (\<lambda>c. if c = CHR '' '' then CHR ''_'' else c) (snd kv)"

definition build_boot_source :: "vm_spec \<Rightarrow> obj" where
  "build_boot_source sp =
     (let env_args = join '' '' (map boot_env_arg (sort_key fst (sp_boot_env sp))) in
      [(''kernel_image_path'', JStr (path_str (sp_kernel_path sp))),
       (''boot_args'', JStr (''console=ttyS0 reboot=k panic=1 pci=off init=/sbin/init systemd.unified_cgroup_hierarchy=0''
          @ (if env_args = [] then [] else '' '' @ env_args)))])"

definition build_root_drive :: "vm_spec \<Rightarrow> obj" where
  "build_root_drive sp = [(''drive_id'', JStr ''rootfs''), (''path_on_host'', JStr (path_str (sp_rootfs_path sp))),
     (''is_root_device'', JBool True), (''is_read_only'', JBool True)]"

definition build_vsock :: "vm_spec \<Rightarrow> obj" where
  "build_vsock sp = [(''guest_cid'', JInt (sp_guest_cid sp)), (''uds_path'', JStr (path_str (sp_vsock_uds sp))),
     (''vsock_id'', JStr ''vsock0'')]"

section \<open>Skills in the launch package\<close>

definition ensure_builtin_base_runtime :: "ppath \<Rightarrow> ('z host_fs_scheme, ppath) act" where
  "ensure_builtin_base_runtime store =
     (let dest = package_dir store ''base-runtime'' ''1.0'' ''builtin:base-runtime:1.0'' in
      bindA (getS (\<lambda>s. is_file s (path_add dest ''SKILL.md''))) (\<lambda>present.
        if present then ret dest
        else thenA (mkdir_parents dest)
            (thenA (write_file (path_add dest ''SKILL.md'') builtin_skill_md)
            (thenA (write_file (path_add dest ''.corvus-skill.json'')
               (json_indented 0 (JObj [(''name'', JStr ''base-runtime''), (''version'', JStr ''1.0''),
                  (''content_hash'', JStr ''builtin:base-runtime:1.0''), (''files'', JArr [JStr ''SKILL.md''])]) @ line_break))
             (ret dest)))))"

definition resolve_source :: "ppath \<Rightarrow> skill_entry \<Rightarrow> ('z host_fs_scheme, ppath) act" where
  "resolve_source store entry = (\<lambda>s.
     if opt_truthy (sk_store_path entry) \<and> is_dir s (path_of (the (sk_store_path entry)))
     then (Inr (path_of (the (sk_store_path entry))), s)
     else if sk_format entry = ''builtin'' \<and> sk_name entry = ''base-runtime'' then ensure_builtin_base_runtime store s
     else if opt_truthy (sk_content_hash entry)
          \<and> is_dir s (package_dir store (sk_name entry) (sk_version entry) (the (sk_content_hash entry)))
     then (Inr (package_dir store (sk_name entry) (sk_version entry) (the (sk_content_hash entry))), s)
     else (Inl FileNotFoundError, s))"

definition skill_index_entry :: "string \<Rightarrow> skill_entry \<Rightarrow> json" where
  "skill_index_entry name entry = JObj [(''name'', JStr name), (''version'', JStr (sk_version entry)),
     (''content_hash'', jopt (sk_content_hash entry)), (''allow_scripts'', JBool (sk_allow_scripts entry)),
     (''format'', JStr (sk_format entry))]"

fun bake_each :: "ppath \<Rightarrow> ppath \<Rightarrow> capability_catalog \<Rightarrow> string list \<Rightarrow> json list \<Rightarrow> (string \<times> string) list
    \<Rightarrow> ('z host_fs_scheme, json list \<times> (string \<times> string) list) act" where
  "bake_each store skills_dir catalog [] idx envs = ret (idx, envs)"
| "bake_each store skills_dir catalog (name # names) idx envs =
     (case map_of (cat_skills catalog) name of
        None \<Rightarrow> bake_each store skills_dir catalog names idx envs
      | Some entry \<Rightarrow>
          bindA (resolve_source store entry) (\<lambda>src.
          let dest = path_add skills_dir name in
          thenA (rmtree_if_exists dest)
         (thenA (copytree src dest)
           (bake_each store skills_dir catalog names (idx @ [skill_index_entry name entry])
              (if sk_allow_scripts entry then oset (''CORVUS_SKILL_ALLOW_SCRIPTS_'' @ name) ''1'' envs else envs)))))"

definition bake_skills_into_launch_package ::
  "ppath \<Rightarrow> ppath \<Rightarrow> string list \<Rightarrow> capability_catalog \<Rightarrow> ('z host_fs_scheme, (string \<times> string) list) act" where
  "bake_skills_into_launch_package store launch_package_dir skill_names catalog =
     (let skills_dir = path_add launch_package_dir ''skills'' in
      thenA (mkdir_parents store)
     (thenA (rmtree_if_exists skills_dir)
     (thenA (mkdir_parents skills_dir)
     (bindA (bake_each store skills_dir catalog skill_names [] [(''CORVUS_SKILLS_DIR'', path_str skills_dir)]) (\<lambda>(idx, envs).
      thenA (write_file (path_add skills_dir ''index.json'') (json_indented 0 (JObj [(''skills'', JArr idx)]) @ line_break))
        (ret envs))))))"

section \<open>Launch\<close>

definition catch_missing :: "('s, 'a) act \<Rightarrow> ('s, 'a) act \<Rightarrow> ('s, 'a) act" where
  "catch_missing m k = (\<lambda>s. case m s of (Inl FileNotFoundError, s') \<Rightarrow> k s' | r \<Rightarrow> r)"

definition bake_skills :: "fc_world \<Rightarrow> capability_catalog \<Rightarrow> ppath \<Rightarrow> string list \<Rightarrow> ('z host_fs_scheme, (string \<times> string) list) act" where
  "bake_skills fc catalog dir skill_names =
     (if skill_names = [] then ret []
      else catch_missing (bake_skills_into_launch_package (fc_store fc) dir skill_names catalog)
        (thenA (mkdir_parents (fc_store fc))
        (thenA (ensure_builtin_base_runtime (fc_store fc))
          (bake_skills_into_launch_package (fc_store fc) dir skill_names catalog))))"

definition write_package_files :: "ppath \<Rightarrow> string \<Rightarrow> string \<Rightarrow> ('z host_fs_scheme, unit) act" where
  "write_package_files dir manifest_text env_text =
     thenA (mkdir_parents dir)
    (thenA (write_file (path_add dir ''manifest.json'') manifest_text)
      (write_file (path_add dir ''env'') env_text))"

definition write_launch_package :: "ppath \<Rightarrow> obj \<Rightarrow> (string \<times> string) list \<Rightarrow> ('z host_fs_scheme, unit) act" where
  "write_launch_package dir manifest envs =
     write_package_files dir (json_indented 0 (json_sorted (JObj manifest)) @ line_break)
       (concat (map (\<lambda>(k, v). k @ ''='' @ v @ line_break) (sort_key fst envs)))"

definition resolve_rootfs_path :: "vm_config \<Rightarrow> string \<Rightarrow> 'z host_fs_scheme \<Rightarrow> ppath" where
  "resolve_rootfs_path cfg rootfs_image s =
     (if rootfs_image = [] then vc_rootfs_path cfg
      else if pp_absolute (path_of rootfs_image) \<and> path_exists s (path_of rootfs_image) then path_of rootfs_image
      else if path_exists s (path_add (vc_artifacts_dir cfg) rootfs_image) then path_add (vc_artifacts_dir cfg) rootfs_image
      else vc_rootfs_path cfg)"

definition manifest_engines :: "obj \<Rightarrow> string list" where
  "manifest_engines manifest = (case oget manifest ''engines'' of JObj d \<Rightarrow> sort (map fst d) | _ \<Rightarrow> [])"

definition build_launch_env :: "vm_config \<Rightarrow> string \<Rightarrow> string \<Rightarrow> string \<Rightarrow> obj \<Rightarrow> (string \<times> string) list" where
  "build_launch_env cfg agent_id vm_id mh manifest =
     [(''CORVUS_AGENT_ID'', agent_id), (''CORVUS_VM_ID'', vm_id), (''CORVUS_MANIFEST_HASH'', mh), (''CORVUS_USE_TCP'', ''0''),
      (''CORVUS_VSOCK_HOST_CID'', ''2''), (''CORVUS_VSOCK_PORT'', int_str (vc_vsock_port cfg)),
      (''CORVUS_NODE_SOCK'', ''/run/corvus/node.sock''), (''CORVUS_COORDINATOR_PATH'', ''/run/corvus/coordinator.json''),
      (''CORVUS_REGISTERED_ENGINES'', join '','' (manifest_engines manifest))]"

text \<open>\<^verbatim>\<open>manifest_hash\<close> of \<^verbatim>\<open>server/manifest.py\<close> on a canonical manifest.\<close>

definition manifest_hash :: "env \<Rightarrow> obj \<Rightarrow> string" where
  "manifest_hash e manifest = hexdigest (sha256 e (json_dumps '','' '':'' (json_sorted (JObj manifest))))"

record launch_context =
  lc_record :: vm_record
  lc_spec :: vm_spec

definition new_record :: "vm_spec \<Rightarrow> string \<Rightarrow> ppath \<Rightarrow> ppath \<Rightarrow> ppath \<Rightarrow> vm_record" where
  "new_record sp mh dir out err =
     \<lparr>vm_instance_id = sp_vm_instance_id sp, vm_agent_id = sp_agent_id sp, vm_guest_cid = sp_guest_cid sp,
      vm_api_socket = path_str (sp_api_socket sp), vm_pid = None, vm_status = ''launching'', vm_manifest_hash = mh,
      vm_vsock_uds = path_str (sp_vsock_uds sp), vm_launch_package_dir = path_str dir, vm_stdout_log = path_str out,
      vm_stderr_log = path_str err, vm_created_at = [], vm_updated_at = [], vm_last_heartbeat_at = None,
      vm_last_error = None, vm_stop_reason = None, vm_graceful_stop = None\<rparr>"

text \<open>\<^verbatim>\<open>Popen\<close> between the opening and the closing of the two logs.\<close>

definition spawn_process :: "vm_config \<Rightarrow> fc_world \<Rightarrow> launch_context \<Rightarrow> ('z launcher_state_scheme, int) act" where
  "spawn_process cfg fc lc =
     thenA (on_fs (write_file (path_of (vm_stdout_log (lc_record lc))) []))
    (thenA (on_fs (write_file (path_of (vm_stderr_log (lc_record lc))) []))
    (bindA (liftR (fc_spawn fc [vc_firecracker_bin cfg, ''--api-sock'', path_str (sp_api_socket (lc_spec lc))]
              (omerge [(''CORVUS_VM_INSTANCE_ID'', sp_vm_instance_id (lc_spec lc))] (sp_boot_env (lc_spec lc))))) (\<lambda>pid.
     thenA (modS (\<lambda>h. h\<lparr>vh_procs := pid # vh_procs h\<rparr>)) (ret pid))))"

text \<open>The files of the launch: old ones removed, the package written, with the skills baked into it.\<close>

definition prepare_package ::
  "vm_config \<Rightarrow> fc_world \<Rightarrow> capability_catalog \<Rightarrow> ppath list \<Rightarrow> ppath \<Rightarrow> obj \<Rightarrow> string list \<Rightarrow> (string \<times> string) list
   \<Rightarrow> ('z host_fs_scheme, (string \<times> string) list) act" where
  "prepare_package cfg fc catalog old dir manifest skills envs =
     thenA (mkdir_parents (vc_state_dir cfg))
    (thenA (forA old unlink_if_exists)
    (thenA (write_launch_package dir manifest envs)
    (bindA (bake_skills fc catalog dir skills) (\<lambda>skill_env.
       if skill_env = [] then ret envs
       else thenA (write_launch_package dir manifest (omerge envs skill_env)) (ret (omerge envs skill_env))))))"

definition state_file :: "vm_config \<Rightarrow> string \<Rightarrow> string \<Rightarrow> string \<Rightarrow> ppath" where
  "state_file cfg pre vm_id post = path_add (vc_state_dir cfg) (pre @ vm_id @ post)"

definition launch_begin ::
  "env \<Rightarrow> vm_config \<Rightarrow> fc_world \<Rightarrow> capability_catalog \<Rightarrow> string \<Rightarrow> json \<Rightarrow> string option \<Rightarrow> string option
   \<Rightarrow> ('z launcher_state_scheme, launch_context) act" where
  "launch_begin e cfg fc catalog agent_id manifest vm_instance given_hash =
     bindA (get_by_agent e agent_id) (\<lambda>existing.
       if existing \<noteq> None then raise RuntimeError
       else bindA (liftR (resolve_manifest e DEFAULT_CATALOG manifest)) (\<lambda>resolved.
       let canonical = canonical_manifest e resolved;
           mh = (if opt_truthy given_hash then the given_hash else manifest_hash e canonical) in
       bindA (getS lh_fs) (\<lambda>fs.
       let rootfs = resolve_rootfs_path cfg (am_rootfs_image resolved) fs in
       if \<not> path_exists fs (vc_kernel_path cfg) then raise FileNotFoundError
       else if \<not> path_exists fs rootfs then raise FileNotFoundError
       else
         let vm_id = (if opt_truthy vm_instance then the vm_instance else uuid4 e ''vm'');
             api = state_file cfg ''fc-'' vm_id ''.sock''; uds = state_file cfg ''vsock-'' vm_id ''.sock'';
             out = state_file cfg ''fc-'' vm_id ''.stdout.log''; err = state_file cfg ''fc-'' vm_id ''.stderr.log'';
             dir = path_add (path_add (vc_state_dir cfg) ''launch-packages'') vm_id in
         bindA (next_guest_cid e (vc_guest_cid_start cfg)) (\<lambda>cid.
         bindA (on_fs (prepare_package cfg fc catalog [api, uds, out, err] dir canonical (am_skills resolved)
                  (build_launch_env cfg agent_id vm_id mh canonical))) (\<lambda>envs.
         let sp = \<lparr>sp_vm_instance_id = vm_id, sp_agent_id = agent_id, sp_guest_cid = cid, sp_kernel_path = vc_kernel_path cfg,
                   sp_rootfs_path = rootfs, sp_vcpu_count = rl_vcpu_count (am_resource_limits resolved),
                   sp_mem_size_mib = rl_memory_mb (am_resource_limits resolved), sp_vsock_port = vc_vsock_port cfg,
                   sp_api_socket = api, sp_vsock_uds = uds, sp_boot_env = envs\<rparr> in
         bindA (vm_register e (new_record sp mh dir out err)) (\<lambda>rec.
         bindA (spawn_process cfg fc \<lparr>lc_record = rec, lc_spec = sp\<rparr>) (\<lambda>pid.
         bindA (vm_register e (rec\<lparr>vm_pid := Some pid, vm_status := ''booting''\<rparr>)) (\<lambda>rec'.
           ret \<lparr>lc_record = rec', lc_spec = sp\<rparr>))))))))"

section \<open>Configuration over the socket\<close>

function wait_socket :: "int option \<Rightarrow> int \<Rightarrow> bool" where
  "wait_socket appears t =
     (if t < seconds 10 then
        (case appears of None \<Rightarrow> wait_socket appears (t + 50000)
         | Some d \<Rightarrow> if d \<le> t then True else wait_socket appears (t + 50000))
      else False)"
  by pat_completeness auto

termination
  by (relation "measure (\<lambda>(_, t). nat (seconds 10 - t))") simp_all

declare wait_socket.simps [simp del]

definition wait_for_api_socket :: "fc_world \<Rightarrow> ppath \<Rightarrow> bool" where
  "wait_for_api_socket fc p = wait_socket (fc_appears fc p) 0"

definition read_launch_logs :: "ppath \<Rightarrow> ppath \<Rightarrow> 'z host_fs_scheme \<Rightarrow> string" where
  "read_launch_logs out err s =
     (let parts = concat (map (\<lambda>(label, p). case map_of (hf_files s) p of None \<Rightarrow> []
            | Some c \<Rightarrow> if strip c = [] then [] else [label @ '': '' @ last_chars 1000 (strip c)]) [(''stdout'', out), (''stderr'', err)])
      in if parts = [] then [] else '' ('' @ join '' | '' parts @ '')'')"

text \<open>\<^verbatim>\<open>client.put\<close>; \<open>Some\<close> is the exception it raises.\<close>

definition fc_put :: "fc_world \<Rightarrow> ppath \<Rightarrow> string \<Rightarrow> obj \<Rightarrow> ('z launcher_state_scheme, (exc \<times> string) option) act" where
  "fc_put fc api p body = (\<lambda>h. (Inr (fc_answer fc api p body), h\<lparr>lh_requests := lh_requests h @ [(path_str api, p, body)]\<rparr>))"

fun fc_puts :: "fc_world \<Rightarrow> ppath \<Rightarrow> (string \<times> obj) list \<Rightarrow> ('z launcher_state_scheme, (exc \<times> string) option) act" where
  "fc_puts fc api [] = ret None"
| "fc_puts fc api ((p, body) # rest) = bindA (fc_put fc api p body) (\<lambda>r.
     case r of None \<Rightarrow> fc_puts fc api rest | Some x \<Rightarrow> ret (Some x))"

definition boot_requests :: "vm_spec \<Rightarrow> (string \<times> obj) list" where
  "boot_requests sp = [(''/machine-config'', build_machine_config sp), (''/boot-source'', build_boot_source sp),
     (''/drives/rootfs'', build_root_drive sp), (''/vsock'', build_vsock sp),
     (''/actions'', [(''action_type'', JStr ''InstanceStart'')])]"

definition configure_vm :: "fc_world \<Rightarrow> launch_context \<Rightarrow> ('z launcher_state_scheme, (exc \<times> string) option) act" where
  "configure_vm fc lc =
     (let sp = lc_spec lc in
      if \<not> wait_for_api_socket fc (sp_api_socket sp) then
        bindA (getS (\<lambda>h. read_launch_logs (path_of (vm_stdout_log (lc_record lc))) (path_of (vm_stderr_log (lc_record lc))) (lh_fs h)))
          (\<lambda>detail. ret (Some (RuntimeError, ''Firecracker API socket did not appear'' @ detail)))
      else fc_puts fc (sp_api_socket sp) (boot_requests sp))"

definition kill_process :: "int option \<Rightarrow> ('z launcher_state_scheme, unit) act" where
  "kill_process p = modS (\<lambda>h. case p of None \<Rightarrow> h | Some n \<Rightarrow> if n \<in> set (vh_procs h) then h\<lparr>lh_killed := lh_killed h @ [n]\<rparr> else h)"

definition cleanup_failed_launch :: "launch_context \<Rightarrow> ('z launcher_state_scheme, unit) act" where
  "cleanup_failed_launch lc =
     thenA (kill_process (vm_pid (lc_record lc)))
       (on_fs (thenA (unlink_if_exists (sp_api_socket (lc_spec lc))) (unlink_if_exists (sp_vsock_uds (lc_spec lc)))))"

definition launch_finish :: "env \<Rightarrow> fc_world \<Rightarrow> launch_context \<Rightarrow> ('z launcher_state_scheme, vm_record) act" where
  "launch_finish e fc lc = bindA (configure_vm fc lc) (\<lambda>failure.
     case failure of
       Some (x, detail) \<Rightarrow>
         thenA (update_status e (vm_instance_id (lc_record lc)) ''failed'' (Some detail) None None)
        (thenA (cleanup_failed_launch lc) (raise x))
     | None \<Rightarrow> vm_register e ((lc_record lc)\<lparr>vm_status := ''running''\<rparr>))"

definition launch ::
  "env \<Rightarrow> vm_config \<Rightarrow> fc_world \<Rightarrow> capability_catalog \<Rightarrow> string \<Rightarrow> json \<Rightarrow> string option \<Rightarrow> string option
   \<Rightarrow> ('z launcher_state_scheme, vm_record) act" where
  "launch e cfg fc catalog agent_id manifest vm_instance given_hash =
     bindA (launch_begin e cfg fc catalog agent_id manifest vm_instance given_hash) (launch_finish e fc)"

section \<open>Stop\<close>

definition stop_gracefully :: "fc_world \<Rightarrow> ppath \<Rightarrow> ('z launcher_state_scheme, bool \<times> string option) act" where
  "stop_gracefully fc api =
     bindA (getS (\<lambda>h. path_exists (lh_fs h) api)) (\<lambda>present.
       if \<not> present then ret (False, None)
       else bindA (fc_put fc api ''/actions'' [(''action_type'', JStr ''SendCtrlAltDel'')]) (\<lambda>r.
         ret (case r of None \<Rightarrow> (True, None) | Some _ \<Rightarrow> (False, Some ''Firecracker graceful stop request failed''))))"

definition vm_stop :: "env \<Rightarrow> fc_world \<Rightarrow> string \<Rightarrow> ('z launcher_state_scheme, unit) act" where
  "vm_stop e fc i = bindA (vm_get e i) (\<lambda>found.
     case found of
       None \<Rightarrow> raise KeyError
     | Some r \<Rightarrow>
         let api = path_of (vm_api_socket r) in
         thenA (update_status e i ''stopping'' None None None)
        (bindA (stop_gracefully fc api) (\<lambda>(graceful, err).
         thenA (whenA (vm_pid r \<noteq> Some 0) (kill_process (vm_pid r)))
        (thenA (on_fs (thenA (unlink_if_exists api) (unlink_if_exists (path_add (path_parent api) (''vsock-'' @ i @ ''.sock'')))))
           (update_status e i ''stopped'' err (Some ''api_stop'') (Some graceful))))))"

text \<open>The stop endpoint of the management API stops the active VM of an agent.\<close>

definition stop_agent_vm :: "env \<Rightarrow> fc_world \<Rightarrow> string \<Rightarrow> ('z launcher_state_scheme, vm_record) act" where
  "stop_agent_vm e fc a = bindA (get_by_agent e a) (\<lambda>found.
     case found of
       None \<Rightarrow> raise KeyError
     | Some r \<Rightarrow> thenA (vm_stop e fc (vm_instance_id r))
         (bindA (vm_get e (vm_instance_id r)) (\<lambda>r'. ret (case r' of None \<Rightarrow> r | Some x \<Rightarrow> x))))"

end
