(* ===== verification/Vm_Facts.thy ===== *)
theory Vm_Facts
  imports Vm_Launcher
begin

text \<open>
  The launcher keeps the invariant of the registry, and the behaviour of a launch that fails.
\<close>

section \<open>Before and after an action\<close>

text \<open>From a state with \<open>P\<close> the action returns with \<open>Q\<close> or raises with \<open>E\<close>.\<close>

definition triple :: "('s \<Rightarrow> bool) \<Rightarrow> ('s, 'a) act \<Rightarrow> ('a \<Rightarrow> 's \<Rightarrow> bool) \<Rightarrow> ('s \<Rightarrow> bool) \<Rightarrow> bool" where
  "triple P m Q E \<longleftrightarrow> (\<forall>s. P s \<longrightarrow> (case m s of (Inr x, s') \<Rightarrow> Q x s' | (Inl _, s') \<Rightarrow> E s'))"

lemma triple_bind: "triple P m R E \<Longrightarrow> (\<And>x. triple (R x) (f x) Q E) \<Longrightarrow> triple P (bindA m f) Q E"
  by (fastforce simp: triple_def bindA_def split: prod.splits sum.splits)

lemma triple_then: "triple P m (\<lambda>_. R) E \<Longrightarrow> triple R k Q E \<Longrightarrow> triple P (thenA m k) Q E"
  unfolding thenA_def by (rule triple_bind)

lemma triple_if: "(b \<Longrightarrow> triple P m Q E) \<Longrightarrow> (\<not> b \<Longrightarrow> triple P n Q E) \<Longrightarrow> triple P (if b then m else n) Q E"
  by simp

lemma triple_ret: "(\<And>s. P s \<Longrightarrow> Q x s) \<Longrightarrow> triple P (ret x) Q E"
  by (simp add: triple_def)

lemma triple_raise: "(\<And>s. P s \<Longrightarrow> E s) \<Longrightarrow> triple P (raise x) Q E"
  by (simp add: triple_def)

lemma triple_liftR: "(\<And>s. P s \<Longrightarrow> E s) \<Longrightarrow> triple P (liftR r) (\<lambda>x s. P s \<and> r = Inr x) E"
  by (cases r) (simp_all add: triple_def)

lemma triple_getS: "triple P (getS f) (\<lambda>x s. P s \<and> x = f s) E"
  by (simp add: triple_def)

lemma triple_preserves: "preserves P m \<Longrightarrow> (\<And>s. P s \<Longrightarrow> E s) \<Longrightarrow> triple P m (\<lambda>_. P) E"
  by (fastforce simp: triple_def preserves_def split: prod.split sum.split)

lemma triple_total: "(\<And>s. P s \<Longrightarrow> \<exists>x s'. m s = (Inr x, s') \<and> Q x s') \<Longrightarrow> triple P m Q E"
  by (force simp: triple_def)

lemma triple_pre: "triple P m Q E \<Longrightarrow> (\<And>s. P' s \<Longrightarrow> P s) \<Longrightarrow> triple P' m Q E"
  by (simp add: triple_def)

lemma triple_post: "triple P m Q E \<Longrightarrow> (\<And>x s. Q x s \<Longrightarrow> Q' x s) \<Longrightarrow> (\<And>s. E s \<Longrightarrow> E' s) \<Longrightarrow> triple P m Q' E'"
  by (fastforce simp: triple_def split: prod.split sum.split)

lemma tripleD: "triple P m (\<lambda>_. E) E \<Longrightarrow> P s \<Longrightarrow> E (snd (m s))"
  by (cases "m s"; cases "fst (m s)") (force simp: triple_def)+

section \<open>Actions that leave the registry alone\<close>

abbreviation registry_view :: "'z vm_host_scheme \<Rightarrow> vm_record list \<times> int list" where
  "registry_view h \<equiv> (vh_index h, vh_procs h)"

lemma keeps_preserves:
  assumes "keeps registry_view m" and "\<And>h h'. registry_view h = registry_view h' \<Longrightarrow> P h \<Longrightarrow> P h'"
  shows "preserves P m"
  using assms(2) keepsD [OF assms(1)] by (metis preservesI)

lemma keeps_bind: "keeps f m \<Longrightarrow> (\<And>x. keeps f (g x)) \<Longrightarrow> keeps f (bindA m g)"
  unfolding keeps_def by (blast intro: preserves_bindA)

lemma keeps_then: "keeps f m \<Longrightarrow> keeps f k \<Longrightarrow> keeps f (thenA m k)"
  unfolding thenA_def by (rule keeps_bind)

lemma keeps_basic: "keeps f (ret x)" "keeps f (raise e)" "keeps f (liftR r)" "keeps f (getS g)"
  by (simp_all add: keeps_def preserves_def)

lemma on_fs_keeps: "keeps registry_view (on_fs m :: ('z launcher_state_scheme, 'a) act)"
  by (auto simp: keeps_def preserves_def on_fs_def split: prod.split)

lemma fc_put_keeps: "keeps registry_view (fc_put fc api p body :: ('z launcher_state_scheme, _) act)"
  by (simp add: keeps_def preserves_def fc_put_def)

lemma fc_puts_keeps: "keeps registry_view (fc_puts fc api rs :: ('z launcher_state_scheme, _) act)"
proof (induction rs)
  case (Cons r rs)
  obtain p body where r: "r = (p, body)" by force
  show ?case unfolding r fc_puts.simps
    by (rule keeps_bind [OF fc_put_keeps]) (auto intro: Cons keeps_basic split: option.split)
qed (simp only: fc_puts.simps keeps_basic)

lemma kill_keeps: "keeps registry_view (kill_process p :: ('z launcher_state_scheme, _) act)"
  by (simp add: keeps_def preserves_def kill_process_def split: option.split)

lemma configure_keeps: "keeps registry_view (configure_vm fc lc :: ('z launcher_state_scheme, _) act)"
  unfolding configure_vm_def Let_def by (auto intro: keeps_bind keeps_basic fc_puts_keeps)

lemma cleanup_keeps: "keeps registry_view (cleanup_failed_launch lc :: ('z launcher_state_scheme, _) act)"
  unfolding cleanup_failed_launch_def by (intro keeps_then kill_keeps on_fs_keeps)

lemma refreshed_launcher [simp]: "lh_fs (refreshed e h) = lh_fs h" "lh_requests (refreshed e h) = lh_requests h"
  by (simp_all add: refreshed_def refresh_def)

section \<open>Registration\<close>

definition stamped :: "env \<Rightarrow> vm_record \<Rightarrow> vm_record" where
  "stamped e r = r\<lparr>vm_created_at := (if vm_created_at r = [] then utc_now e else vm_created_at r), vm_updated_at := utc_now e\<rparr>"

lemma stamped_sel [simp]: "vm_instance_id (stamped e r) = vm_instance_id r" "vm_agent_id (stamped e r) = vm_agent_id r"
  "vm_guest_cid (stamped e r) = vm_guest_cid r" "vm_pid (stamped e r) = vm_pid r" "vm_status (stamped e r) = vm_status r"
  by (simp_all add: stamped_def)

lemma vm_register_eq: "vm_register e r h =
    (Inr (stamped e r), (refreshed e h)\<lparr>vh_index := upsert_row vm_instance_id (\<lambda>_ new. new) (stamped e r) (vh_index (refreshed e h))\<rparr>)"
  by (simp add: vm_register_def refresh_apply stamped_def Let_def)

text \<open>A new record may hold an agent and an identifier nobody holds.\<close>

lemma register_new:
  assumes "registry_ok h" and "index_clean h" and "\<not> has_row vm_instance_id (vm_instance_id r) (vh_index h)"
    and "\<And>x. x \<in> set (vh_index h) \<Longrightarrow> active x \<Longrightarrow> vm_agent_id x \<noteq> vm_agent_id r \<and> vm_guest_cid x \<noteq> vm_guest_cid r"
  shows "registry_ok (snd (vm_register e r h)) \<and> vh_index (snd (vm_register e r h)) = vh_index h @ [stamped e r]"
proof -
  let ?h = "snd (vm_register e r h)"
  have idx: "vh_index ?h = vh_index h @ [stamped e r]"
    using assms(3) by (simp add: vm_register_eq refreshed_fixed [OF assms(2)] upsert_row_def)
  have "keys_ok vm_instance_id (vh_index h @ [stamped e r])"
    using assms(1,3) by (simp add: registry_ok_def keys_ok_snoc has_row_iff)
  moreover have "vm_agent_id x \<noteq> vm_agent_id r" "vm_guest_cid x \<noteq> vm_guest_cid r" if "x \<in> set (filter active (vh_index h))" for x
    using that assms(4) by auto
  then have "vm_agent_id r \<notin> vm_agent_id ` set (filter active (vh_index h))"
    "vm_guest_cid r \<notin> vm_guest_cid ` set (filter active (vh_index h))" by fastforce+
  ultimately show ?thesis using assms(1) idx unfolding registry_ok_def idx by simp
qed

text \<open>A record may replace an active one of the same agent with the same identifier.\<close>

lemma register_same:
  assumes "registry_ok h" and "x \<in> set (vh_index h)" and "active x" and "vm_instance_id x = vm_instance_id r"
    and "vm_agent_id x = vm_agent_id r" and "vm_guest_cid x = vm_guest_cid r"
  shows "registry_ok (snd (vm_register e r h)) \<and> stamped e r \<in> set (vh_index (snd (vm_register e r h)))"
proof -
  let ?h' = "snd (vm_register e r h)"
  define g where "g y = (if active y \<and> \<not> pid_is_alive h (vm_pid y) then mark_failed e y else y)" for y
  define f where "f y = (if vm_instance_id y = vm_instance_id r then stamped e r else g y)" for y
  have id: "vm_instance_id (g y) = vm_instance_id y" for y by (simp add: g_def)
  have ids: "vm_instance_id r \<in> vm_instance_id ` set (vh_index h)" using assms(2,4) by (metis image_eqI)
  then have "has_row vm_instance_id (vm_instance_id r) (vh_index (refreshed e h))"
    using id unfolding has_row_iff refreshed_index g_def [symmetric] by (force simp: image_iff)
  then have idx: "vh_index ?h' = map f (vh_index h)"
    using id by (simp add: vm_register_eq upsert_row_def refreshed_index g_def [symmetric] f_def)
  have same: "y = x" if "y \<in> set (vh_index h)" "vm_instance_id y = vm_instance_id r" for y
    using keys_ok_unique [of vm_instance_id "vh_index h" y x] that assms(1,2,4) by (simp add: registry_ok_def)
  have "registry_ok ?h'"
    by (rule registry_ok_map [OF assms(1) idx]) (use same assms(3-6) in \<open>auto simp: f_def g_def\<close>)
  moreover have "stamped e r \<in> set (vh_index ?h')" using assms(2,4) by (force simp: idx f_def)
  ultimately show ?thesis ..
qed

section \<open>A launch keeps the invariant\<close>

text \<open>What the host gives a launch: an instance identifier nobody has.\<close>

definition fresh_launch :: "env \<Rightarrow> string option \<Rightarrow> 'z vm_host_scheme \<Rightarrow> bool" where
  "fresh_launch e given h \<longleftrightarrow>
     \<not> has_row vm_instance_id (if opt_truthy given then the given else uuid4 e ''vm'') (vh_index h)"

lemma has_row_refreshed [simp]: "has_row vm_instance_id i (vh_index (refreshed e h)) = has_row vm_instance_id i (vh_index h)"
proof -
  have "map vm_instance_id (vh_index (refreshed e h)) = map vm_instance_id (vh_index h)" by (simp add: refreshed_index)
  then show ?thesis unfolding has_row_iff by (metis set_map)
qed

lemma fresh_launch_refreshed [simp]: "fresh_launch e given (refreshed e' h) = fresh_launch e given h"
  by (simp add: fresh_launch_def)

lemma fresh_launch_cong: "registry_view h = registry_view h' \<Longrightarrow> fresh_launch e given h = fresh_launch e given h'"
  by (simp add: fresh_launch_def)

text \<open>Before the registration: nobody active has the agent.\<close>

definition unclaimed :: "env \<Rightarrow> string option \<Rightarrow> string \<Rightarrow> 'z vm_host_scheme \<Rightarrow> bool" where
  "unclaimed e given a h \<longleftrightarrow> registry_ok h \<and> index_clean h \<and> fresh_launch e given h
     \<and> (\<forall>x \<in> set (vh_index h). active x \<longrightarrow> vm_agent_id x \<noteq> a)"

text \<open>After it: the record is in the index and holds what it names.\<close>

definition holds :: "vm_record \<Rightarrow> 'z vm_host_scheme \<Rightarrow> bool" where
  "holds r h \<longleftrightarrow> registry_ok h \<and> r \<in> set (vh_index h) \<and> active r"

lemma view_cong:
  assumes "registry_view h = registry_view h'"
  shows "registry_ok h = registry_ok h'" "index_clean h = index_clean h'" "unclaimed e given a h = unclaimed e given a h'" "holds r h = holds r h'"
proof -
  show 1: "registry_ok h = registry_ok h'" using assms by (intro registry_ok_cong) simp_all
  show 2: "index_clean h = index_clean h'" using assms by (simp add: index_clean_def pid_is_alive_cong [of h h'])
  from 1 2 assms show "unclaimed e given a h = unclaimed e given a h'"
    using fresh_launch_cong [of h h'] by (simp add: unclaimed_def)
  from 1 assms show "holds r h = holds r h'" by (simp add: holds_def)
qed

lemma on_fs_triple:
  assumes "\<And>h h'. registry_view h = registry_view h' \<Longrightarrow> P h \<Longrightarrow> P h'" and "\<And>h. P h \<Longrightarrow> E h"
  shows "triple P (on_fs m) (\<lambda>_. P) E"
  by (rule triple_preserves [OF keeps_preserves [OF on_fs_keeps assms(1)] assms(2)])

lemma get_by_agent_triple:
  "triple (\<lambda>h. registry_ok h \<and> fresh_launch e given h) (get_by_agent e' a) (\<lambda>found h. registry_ok h \<and> (found = None \<longrightarrow> unclaimed e given a h)) registry_ok"
  using refreshed_ok refreshed_index_clean
  by (fastforce simp: triple_def get_by_agent_def refresh_apply unclaimed_def find_None_iff)

lemma next_guest_cid_triple:
  "triple (unclaimed e given a) (next_guest_cid e' start) (\<lambda>cid h. unclaimed e given a h \<and> cid \<notin> set (used_cids (vh_index h))) registry_ok"
  using refreshed_ok refreshed_index_clean first_free_spec
  by (auto simp: triple_def next_guest_cid_def refresh_apply unclaimed_def refreshed_fixed)

lemma triple_register:
  assumes "\<And>h. P h \<Longrightarrow> Q (stamped e r) (snd (vm_register e r h))"
  shows "triple P (vm_register e r) Q E"
  using assms by (intro triple_total) (simp add: vm_register_eq)

lemma register_new_triple:
  assumes "vm_instance_id r = (if opt_truthy given then the given else uuid4 e ''vm'')" and "vm_agent_id r = a" and "vm_guest_cid r = cid"
    and "vm_status r = ''launching''"
  shows "triple (\<lambda>h. unclaimed e given a h \<and> cid \<notin> set (used_cids (vh_index h))) (vm_register e' r :: ('z vm_host_scheme, vm_record) act)
     (\<lambda>r' h. r' = stamped e' r \<and> holds r' h) registry_ok"
proof -
  have new: "registry_ok (snd (vm_register e' r h)) \<and> vh_index (snd (vm_register e' r h)) = vh_index h @ [stamped e' r]"
    if "unclaimed e given a h" "cid \<notin> set (used_cids (vh_index h))" for h :: "'z vm_host_scheme"
  proof (rule register_new)
    show "registry_ok h" "index_clean h" using that(1) by (simp_all add: unclaimed_def)
    show "\<not> has_row vm_instance_id (vm_instance_id r) (vh_index h)"
      using that(1) unfolding unclaimed_def fresh_launch_def assms(1) by blast
    fix x assume x: "x \<in> set (vh_index h)" "active x"
    then have "vm_agent_id x \<noteq> a" using that(1) by (simp add: unclaimed_def)
    moreover have "vm_guest_cid x \<noteq> cid" using that(2) x by (auto simp: used_cids_def)
    ultimately show "vm_agent_id x \<noteq> vm_agent_id r \<and> vm_guest_cid x \<noteq> vm_guest_cid r" using assms(2,3) by simp
  qed
  have "active (stamped e' r)" using assms(4) by (simp add: active_def ACTIVE_STATES_def)
  with new show ?thesis by (intro triple_register) (auto simp: holds_def)
qed

lemma register_same_triple:
  assumes "vm_instance_id r = vm_instance_id x" and "vm_agent_id r = vm_agent_id x" and "vm_guest_cid r = vm_guest_cid x"
    and "vm_status r \<in> set ACTIVE_STATES"
  shows "triple (holds x) (vm_register e r :: ('z vm_host_scheme, vm_record) act) (\<lambda>r' h. r' = stamped e r \<and> holds r' h) registry_ok"
proof -
  have "registry_ok (snd (vm_register e r h)) \<and> stamped e r \<in> set (vh_index (snd (vm_register e r h)))"
    if "holds x h" for h :: "'z vm_host_scheme"
    using that assms(1-3) by (intro register_same) (auto simp: holds_def)
  with assms(4) show ?thesis by (intro triple_register) (auto simp: holds_def active_def)
qed

lemma spawn_triple: "triple (holds r) (spawn_process cfg fc lc) (\<lambda>_. holds r) registry_ok"
proof -
  have fs: "triple (holds r) (on_fs m) (\<lambda>_. holds r) registry_ok" for m :: "(host_fs, unit) act"
  proof (rule on_fs_triple)
    fix h h' assume v: "registry_view h = registry_view h'" and "holds r h"
    then show "holds r h'" using view_cong(4) [OF v] by simp
  qed (simp add: holds_def)
  have add: "triple (\<lambda>h. holds r h \<and> fc_spawn fc argv envs = Inr pid)
      (thenA (modS (\<lambda>h. h\<lparr>vh_procs := pid # vh_procs h\<rparr>)) (ret pid)) (\<lambda>_. holds r) registry_ok" for argv envs pid
    by (auto simp: triple_def holds_def registry_ok_def)
  show ?thesis unfolding spawn_process_def
    by (intro triple_then [OF fs] triple_bind [OF triple_liftR] add) (simp add: holds_def)
qed

lemma new_record_sel [simp]:
  "vm_instance_id (new_record sp mh dir out err) = sp_vm_instance_id sp" "vm_agent_id (new_record sp mh dir out err) = sp_agent_id sp"
  "vm_guest_cid (new_record sp mh dir out err) = sp_guest_cid sp" "vm_status (new_record sp mh dir out err) = ''launching''"
  "vm_pid (new_record sp mh dir out err) = None"
  by (simp_all add: new_record_def)

lemma launch_begin_triple:
  "triple (\<lambda>h. registry_ok h \<and> fresh_launch e given h) 
     (launch_begin e cfg fc catalog a manifest given given_hash :: ('z launcher_state_scheme, launch_context) act)
     (\<lambda>lc. holds (lc_record lc)) registry_ok"
proof -
  have fs: "triple (\<lambda>h. unclaimed e given a h \<and> cid \<notin> set (used_cids (vh_index h))) (on_fs m)
      (\<lambda>_ h. unclaimed e given a h \<and> cid \<notin> set (used_cids (vh_index h))) registry_ok"
    for m :: "(host_fs, 'x) act" and cid
  proof (rule on_fs_triple)
    fix h h' assume v: "registry_view h = registry_view h'"
      and "unclaimed e given a h \<and> cid \<notin> set (used_cids (vh_index h))"
    then show "unclaimed e given a h' \<and> cid \<notin> set (used_cids (vh_index h'))" using view_cong(3) [OF v] by simp
  qed (simp add: unclaimed_def)
  have boot: "triple (\<lambda>h. r' = stamped e r \<and> holds r' h)
      (bindA (spawn_process cfg fc \<lparr>lc_record = r', lc_spec = sp\<rparr>) (\<lambda>pid.
         bindA (vm_register e (r'\<lparr>vm_pid := Some pid, vm_status := ''booting''\<rparr>)) (\<lambda>rec'. ret \<lparr>lc_record = rec', lc_spec = sp\<rparr>)))
      (\<lambda>lc. holds (lc_record lc)) registry_ok" for r r' sp
    by (rule triple_bind [OF triple_pre [OF spawn_triple [of r']]], blast,
        rule triple_bind [OF triple_pre [OF register_same_triple [of _ r']]])
       (auto simp: ACTIVE_STATES_def intro: triple_ret)
  have reg: "triple (\<lambda>h. unclaimed e given a h \<and> cid \<notin> set (used_cids (vh_index h)))
      (bindA (vm_register e (new_record sp mh dir out err)) (\<lambda>rec.
         bindA (spawn_process cfg fc \<lparr>lc_record = rec, lc_spec = sp\<rparr>) (\<lambda>pid.
         bindA (vm_register e (rec\<lparr>vm_pid := Some pid, vm_status := ''booting''\<rparr>)) (\<lambda>rec'. ret \<lparr>lc_record = rec', lc_spec = sp\<rparr>))))
      (\<lambda>lc. holds (lc_record lc)) registry_ok"
    if "sp_vm_instance_id sp = (if opt_truthy given then the given else uuid4 e ''vm'')" "sp_agent_id sp = a" "sp_guest_cid sp = cid"
    for sp mh dir out err cid
    by (rule triple_bind [OF register_new_triple boot]) (use that in simp_all)
  show ?thesis unfolding launch_begin_def Let_def
    apply (rule triple_bind [OF get_by_agent_triple], rule triple_if)
     apply (rule triple_raise, blast)
    apply (rule triple_bind [OF triple_pre [OF triple_liftR [where P = "unclaimed e given a"]]])
      apply (simp add: unclaimed_def, simp)
    apply (rule triple_bind [OF triple_pre [OF triple_getS [where P = "unclaimed e given a"]]], blast)
    apply (rule triple_if, rule triple_raise, simp add: unclaimed_def)
    apply (rule triple_if, rule triple_raise, simp add: unclaimed_def)
    apply (rule triple_bind [OF triple_pre [OF next_guest_cid_triple]], blast)
    apply (rule triple_bind [OF fs], rule reg)
      apply simp_all
    done
qed

lemma update_status_eq: "update_status e i st err reason graceful h =
    (Inr (), (refreshed e h)\<lparr>vh_index := update_rows (\<lambda>r. vm_instance_id r = i) (stamp_status e st err reason graceful) (vh_index (refreshed e h))\<rparr>)"
  by (simp add: update_status_def refresh_apply)

lemma stamp_status_sel [simp]: "vm_instance_id (stamp_status e st err reason graceful r) = vm_instance_id r"
  "vm_agent_id (stamp_status e st err reason graceful r) = vm_agent_id r" "vm_guest_cid (stamp_status e st err reason graceful r) = vm_guest_cid r"
  "vm_status (stamp_status e st err reason graceful r) = st"
  by (simp_all add: stamp_status_def)

lemma active_stamp [simp]: "active (stamp_status e st err reason graceful r) \<longleftrightarrow> st \<in> set ACTIVE_STATES"
  by (simp add: active_def)

text \<open>A status may be written on a record that is active, or when the status is not an active one.\<close>

lemma update_status_ok:
  assumes "registry_ok h" and "\<And>r. r \<in> set (vh_index h) \<Longrightarrow> vm_instance_id r = i \<Longrightarrow> st \<in> set ACTIVE_STATES \<Longrightarrow> active r"
  shows "registry_ok (snd (update_status e i st err reason graceful h))"
proof -
  define g where "g y = (if active y \<and> \<not> pid_is_alive h (vm_pid y) then mark_failed e y else y)" for y
  define f where "f y = (if vm_instance_id y = i then stamp_status e st err reason graceful (g y) else g y)" for y
  have idx: "vh_index (snd (update_status e i st err reason graceful h)) = map f (vh_index h)"
    by (simp add: update_status_eq update_rows_def refreshed_index g_def f_def)
  have act: "active (f r) \<longrightarrow> active r" if "r \<in> set (vh_index h)" for r
    using assms(2) [OF that] by (simp add: f_def g_def)
  have "vm_instance_id (f r) = vm_instance_id r \<and> vm_agent_id (f r) = vm_agent_id r \<and> vm_guest_cid (f r) = vm_guest_cid r" for r
    by (simp add: f_def g_def)
  with act show ?thesis by (intro registry_ok_map [OF assms(1) idx]) blast
qed

lemma update_status_inactive: "st \<notin> set ACTIVE_STATES \<Longrightarrow> preserves registry_ok (update_status e i st err reason graceful)"
  by (auto intro!: preservesI update_status_ok)

lemma registry_ok_keeps: "keeps registry_view m \<Longrightarrow> preserves registry_ok m"
  by (rule keeps_preserves) (use view_cong(1) in blast)+

lemma launch_finish_triple: "triple (holds (lc_record lc)) (launch_finish e fc lc) (\<lambda>_. registry_ok) registry_ok"
proof -
  have conf: "triple (holds (lc_record lc)) (configure_vm fc lc) (\<lambda>_. holds (lc_record lc)) registry_ok"
    by (rule triple_preserves [OF keeps_preserves [OF configure_keeps]]) (use view_cong(4) in \<open>blast, simp add: holds_def\<close>)
  have fail: "triple registry_ok (thenA (update_status e i ''failed'' d None None) (thenA (cleanup_failed_launch lc) (raise x))) (\<lambda>_. registry_ok) registry_ok"
    for i d x
    by (intro triple_preserves pres_intro update_status_inactive registry_ok_keeps cleanup_keeps) (simp_all add: ACTIVE_STATES_def)
  have run: "triple (holds (lc_record lc)) (vm_register e ((lc_record lc)\<lparr>vm_status := ''running''\<rparr>)) (\<lambda>_. registry_ok) registry_ok"
    by (rule triple_post [OF register_same_triple]) (auto simp: ACTIVE_STATES_def holds_def)
  show ?thesis unfolding launch_finish_def
    by (rule triple_bind [OF conf])
       (auto split: option.split prod.split intro!: run triple_pre [OF fail] simp: holds_def)
qed

lemma launch_keeps_registry:
  assumes "registry_ok h" and "fresh_launch e given h"
  shows "registry_ok (snd (launch e cfg fc catalog a manifest given given_hash h))"
proof -
  have "triple (\<lambda>h. registry_ok h \<and> fresh_launch e given h) (launch e cfg fc catalog a manifest given given_hash) (\<lambda>_. registry_ok) registry_ok"
    unfolding launch_def by (rule triple_bind [OF launch_begin_triple launch_finish_triple])
  from tripleD [OF this] assms show ?thesis by blast
qed

text \<open>The active VM of an agent, seen by a refreshed registry.\<close>

definition stoppable :: "string \<Rightarrow> 'z vm_host_scheme \<Rightarrow> bool" where
  "stoppable i h \<longleftrightarrow> registry_ok h \<and> index_clean h \<and> (\<forall>r \<in> set (vh_index h). vm_instance_id r = i \<longrightarrow> active r)"

lemma stoppable_refreshed: "stoppable i h \<Longrightarrow> stoppable i (refreshed e h)"
  using refreshed_ok refreshed_index_clean by (auto simp: stoppable_def refreshed_fixed)

lemma vm_stop_triple: "triple (stoppable i) (vm_stop e fc i :: ('z launcher_state_scheme, unit) act) (\<lambda>_. registry_ok) registry_ok"
proof -
  have get: "triple (stoppable i) (vm_get e i) (\<lambda>_. stoppable i) registry_ok"
    using stoppable_refreshed by (auto simp: triple_def vm_get_def refresh_apply)
  have stopping: "triple (stoppable i) (update_status e i ''stopping'' None None None :: ('z launcher_state_scheme, unit) act) (\<lambda>_. registry_ok) registry_ok"
  proof (rule triple_total)
    fix h :: "'z launcher_state_scheme" assume "stoppable i h"
    then have "registry_ok (snd (update_status e i ''stopping'' None None None h))"
      by (intro update_status_ok) (auto simp: stoppable_def)
    then show "\<exists>x h'. update_status e i ''stopping'' None None None h = (Inr x, h') \<and> registry_ok h'"
      by (simp add: update_status_eq)
  qed
  have ask: "keeps registry_view (stop_gracefully fc api :: ('z launcher_state_scheme, _) act)" for api
    unfolding stop_gracefully_def by (auto intro!: keeps_bind keeps_basic fc_put_keeps)
  have rest: "triple registry_ok (bindA (stop_gracefully fc api :: ('z launcher_state_scheme, _) act) (\<lambda>(graceful, err).
         thenA (whenA b (kill_process p)) (thenA (on_fs m) (update_status e i ''stopped'' err (Some ''api_stop'') (Some graceful)))))
       (\<lambda>_. registry_ok) registry_ok" for api b p and m :: "(host_fs, unit) act"
    by (intro triple_preserves pres_intro update_status_inactive registry_ok_keeps ask kill_keeps on_fs_keeps) (simp_all add: ACTIVE_STATES_def)
  show ?thesis unfolding vm_stop_def Let_def
    by (rule triple_bind [OF get])
       (auto split: option.split intro!: triple_raise triple_then [OF stopping rest] simp: stoppable_def)
qed

lemma find_unique: "List.find P xs = Some x \<Longrightarrow> P x \<and> x \<in> set xs"
  by (auto simp: find_Some_iff)

lemma get_active_triple:
  "triple registry_ok (get_by_agent e a :: ('a launcher_state_scheme, _) act)
     (\<lambda>found h. registry_ok h \<and> (\<forall>r. found = Some r \<longrightarrow> stoppable (vm_instance_id r) h)) registry_ok"
  unfolding triple_def
proof (intro allI impI)
  fix h :: "'a launcher_state_scheme" assume ok: "registry_ok h"
  have "stoppable (vm_instance_id r) (refreshed e h)"
    if "List.find (\<lambda>r. vm_agent_id r = a \<and> active r) (vh_index (refreshed e h)) = Some r" for r
    using refreshed_ok [OF ok, of e] refreshed_index_clean [of e h] find_unique [OF that]
      keys_ok_unique [of vm_instance_id "vh_index (refreshed e h)"]
    unfolding stoppable_def registry_ok_def by metis
  then show "case get_by_agent e a h of (Inr found, h) \<Rightarrow> registry_ok h \<and> (\<forall>r. found = Some r \<longrightarrow> stoppable (vm_instance_id r) h) | (Inl _, h) \<Rightarrow> registry_ok h"
    using refreshed_ok [OF ok, of e] by (simp add: get_by_agent_def refresh_apply)
qed

lemma look_registry: "preserves registry_ok (vm_get e i)" "preserves registry_ok (get_by_agent e a)" "preserves registry_ok (list_all_vms e)"
  "preserves registry_ok (list_by_agent e a)"
  by (simp_all add: preserves_def vm_get_def get_by_agent_def list_all_vms_def list_by_agent_def refresh_apply refreshed_ok)

lemma stop_agent_keeps_registry: "preserves registry_ok (stop_agent_vm e fc a :: ('a launcher_state_scheme, _) act)"
proof -
  have "triple registry_ok (stop_agent_vm e fc a :: ('a launcher_state_scheme, _) act) (\<lambda>_. registry_ok) registry_ok"
    unfolding stop_agent_vm_def
    by (rule triple_bind [OF get_active_triple])
       (auto split: option.split intro!: triple_raise triple_then [OF triple_pre [OF vm_stop_triple]] triple_preserves pres_intro look_registry)
  then show ?thesis using tripleD preservesI by metis
qed

section \<open>The launcher over time\<close>

inductive vm_step :: "vm_config \<Rightarrow> 'z launcher_state_scheme \<Rightarrow> 'z launcher_state_scheme \<Rightarrow> bool" for cfg where
  Launch: "fresh_launch e given h \<Longrightarrow> vm_step cfg h (snd (launch e cfg fc catalog a manifest given given_hash h))"
| Stop: "vm_step cfg h (snd (stop_agent_vm e fc a h))"
| Look: "vm_step cfg h (snd (refresh e h))"
| Processes: "vm_step cfg h (h\<lparr>vh_procs := ps\<rparr>)"

inductive vm_reachable :: "vm_config \<Rightarrow> 'z launcher_state_scheme \<Rightarrow> bool" for cfg where
  Start: "vh_index h = [] \<Longrightarrow> vm_reachable cfg h"
| Step: "vm_reachable cfg h \<Longrightarrow> vm_step cfg h h' \<Longrightarrow> vm_reachable cfg h'"

lemma vm_step_ok: "vm_step cfg h h' \<Longrightarrow> registry_ok h \<Longrightarrow> registry_ok h'"
proof (induction rule: vm_step.induct)
  case (Launch e given h fc catalog a manifest given_hash)
  then show ?case by (intro launch_keeps_registry)
next
  case (Stop h e fc a)
  then show ?case by (rule preservesD [OF stop_agent_keeps_registry])
next
  case (Look h e)
  then show ?case using refreshed_ok by (simp add: refreshed_def)
qed (simp add: registry_ok_def)

lemma vm_reachable_ok: "vm_reachable cfg h \<Longrightarrow> registry_ok h"
proof (induction rule: vm_reachable.induct)
  case (Start h)
  then show ?case by (simp add: registry_ok_def)
qed (rule vm_step_ok)

section \<open>What a launch asks Firecracker for\<close>

lemma keeps_modS: "(\<And>s. f (g s) = f s) \<Longrightarrow> keeps f (modS g)"
  by (simp add: keeps_def preserves_def)

lemma requests_kept:
  "keeps lh_requests (refresh e :: ('z launcher_state_scheme, _) act)" "keeps lh_requests (on_fs m :: ('z launcher_state_scheme, 'a) act)"
  "keeps lh_requests (get_by_agent e a :: ('z launcher_state_scheme, _) act)" "keeps lh_requests (next_guest_cid e start :: ('z launcher_state_scheme, _) act)"
  "keeps lh_requests (vm_register e r :: ('z launcher_state_scheme, _) act)"
proof -
  show 1: "keeps lh_requests (refresh e :: ('z launcher_state_scheme, _) act)" unfolding refresh_def by (simp add: keeps_modS)
  show "keeps lh_requests (on_fs m :: ('z launcher_state_scheme, 'a) act)"
    by (auto simp: keeps_def preserves_def on_fs_def split: prod.split)
  show "keeps lh_requests (get_by_agent e a :: ('z launcher_state_scheme, _) act)" "keeps lh_requests (next_guest_cid e start :: ('z launcher_state_scheme, _) act)"
    "keeps lh_requests (vm_register e r :: ('z launcher_state_scheme, _) act)"
    unfolding get_by_agent_def next_guest_cid_def vm_register_def Let_def by (intro keeps_then 1 keeps_basic keeps_modS; simp)+
qed

lemma spawn_keeps_requests: "keeps lh_requests (spawn_process cfg fc lc :: ('z launcher_state_scheme, _) act)"
  unfolding spawn_process_def by (intro keeps_then keeps_bind requests_kept keeps_basic keeps_modS) simp

lemma launch_begin_keeps_requests:
  "keeps lh_requests (launch_begin e cfg fc catalog a manifest given given_hash :: ('z launcher_state_scheme, _) act)"
proof -
  have branch: "keeps f (if b then m else n)" if "keeps f m" "keeps f n" for f b and m n :: "('s, 'b) act" using that by simp
  show ?thesis unfolding launch_begin_def Let_def
    by (intro keeps_bind branch requests_kept spawn_keeps_requests keeps_basic)
qed

text \<open>The machine a begun launch is for.\<close>

definition spec_of :: "env \<Rightarrow> vm_config \<Rightarrow> string \<Rightarrow> json \<Rightarrow> launch_context \<Rightarrow> bool" where
  "spec_of e cfg a manifest lc \<longleftrightarrow>
     (\<exists>m. resolve_manifest e DEFAULT_CATALOG manifest = Inr m
        \<and> sp_mem_size_mib (lc_spec lc) = rl_memory_mb (am_resource_limits m) \<and> sp_vcpu_count (lc_spec lc) = rl_vcpu_count (am_resource_limits m))
     \<and> sp_agent_id (lc_spec lc) = a \<and> sp_kernel_path (lc_spec lc) = vc_kernel_path cfg
     \<and> vm_agent_id (lc_record lc) = a \<and> vm_guest_cid (lc_record lc) = sp_guest_cid (lc_spec lc)
     \<and> vm_api_socket (lc_record lc) = path_str (sp_api_socket (lc_spec lc))"

lemma launch_begin_spec:
  assumes "launch_begin e cfg fc catalog a manifest given given_hash h = (Inr lc, h')"
  shows "spec_of e cfg a manifest lc"
  using assms unfolding launch_begin_def Let_def
  by (auto elim!: bindA_InrE split: if_split_asm simp: spec_of_def vm_register_eq new_record_def stamped_def liftR_def split: sum.split_asm)

lemma fc_puts_accepted: "fc_puts fc api rs h = (Inr None, h') \<Longrightarrow> lh_requests h' = lh_requests h @ map (\<lambda>(p, body). (path_str api, p, body)) rs"
proof (induction rs arbitrary: h)
  case (Cons r rs)
  obtain p body where r: "r = (p, body)" by force
  from Cons.prems have "fc_puts fc api rs (h\<lparr>lh_requests := lh_requests h @ [(path_str api, p, body)]\<rparr>) = (Inr None, h')"
    by (auto simp: r fc_put_def bindA_def split: option.split_asm)
  from Cons.IH [OF this] show ?case by (simp add: r)
qed simp

lemma launch_inv:
  fixes h :: "'z launcher_state_scheme"
  assumes "launch e cfg fc catalog a manifest given given_hash h = (Inr r, h')"
  shows "\<exists>lc. spec_of e cfg a manifest lc \<and> r = stamped e ((lc_record lc)\<lparr>vm_status := ''running''\<rparr>)
     \<and> lh_requests h' = lh_requests h @ map (\<lambda>(p, body). (vm_api_socket r, p, body)) (boot_requests (lc_spec lc))"
proof -
  obtain lc h1 where b: "launch_begin e cfg fc catalog a manifest given given_hash h = (Inr lc, h1)" and f: "launch_finish e fc lc h1 = (Inr r, h')"
    using assms unfolding launch_def by (elim bindA_InrE)
  from f obtain h2 where c: "configure_vm fc lc h1 = (Inr None, h2)" and v: "vm_register e ((lc_record lc)\<lparr>vm_status := ''running''\<rparr>) h2 = (Inr r, h')"
    unfolding launch_finish_def by (auto elim!: bindA_InrE thenA_InrE split: option.split_asm)
  from c have "lh_requests h2 = lh_requests h1 @ map (\<lambda>(p, body). (path_str (sp_api_socket (lc_spec lc)), p, body)) (boot_requests (lc_spec lc))"
    unfolding configure_vm_def Let_def by (auto dest!: fc_puts_accepted elim!: bindA_InrE split: if_split_asm)
  moreover have "lh_requests h1 = lh_requests h" using keepsD [OF launch_begin_keeps_requests, of _ _ _ _ _ _ _ _ h] b by (metis snd_conv)
  moreover have "lh_requests h' = lh_requests h2" using keepsD [OF requests_kept(5), of _ _ h2] v by (metis snd_conv)
  moreover have "r = stamped e ((lc_record lc)\<lparr>vm_status := ''running''\<rparr>)" using v by (simp add: vm_register_eq)
  ultimately show ?thesis using launch_begin_spec [OF b] by (auto simp: spec_of_def stamped_def)
qed

section \<open>Launches that fail\<close>

text \<open>An active record without a process stays active whatever the host does, and takes its agent.\<close>

definition stuck :: "string \<Rightarrow> 'z vm_host_scheme \<Rightarrow> bool" where
  "stuck a h \<longleftrightarrow> (\<exists>r \<in> set (vh_index h). vm_agent_id r = a \<and> active r \<and> vm_pid r = None)"

lemma stuck_refreshed: "stuck a h \<Longrightarrow> stuck a (refreshed e h)"
  by (force simp: stuck_def refreshed_index pid_is_alive_def)

lemma stuck_found: "stuck a h \<Longrightarrow> \<exists>r. get_by_agent e a h = (Inr (Some r), refreshed e h)"
  using stuck_refreshed [of a h e]
  by (cases "List.find (\<lambda>r. vm_agent_id r = a \<and> active r) (vh_index (refreshed e h))")
     (auto simp: get_by_agent_def refresh_apply find_None_iff stuck_def)

lemma stuck_refuses: "stuck a h \<Longrightarrow> launch e cfg fc catalog a manifest given given_hash h = (Inl RuntimeError, refreshed e h)"
  using stuck_found [of a h e] by (auto simp: launch_def launch_begin_def)

text \<open>Where one action returns, the other raises \<open>x\<close> in a state with \<open>Q\<close>; actions with a common beginning are
  compared after it.\<close>

definition raises_instead :: "exc \<Rightarrow> ('s \<Rightarrow> bool) \<Rightarrow> ('s, 'a) act \<Rightarrow> ('s, 'b) act \<Rightarrow> 's \<Rightarrow> bool" where
  "raises_instead x Q m n s \<longleftrightarrow> (\<forall>y s'. m s = (Inr y, s') \<longrightarrow> (\<exists>s''. n s = (Inl x, s'') \<and> Q s''))"

lemma raises_instead_bind:
  "(\<And>y s'. p s = (Inr y, s') \<Longrightarrow> raises_instead x Q (f y) (g y) s') \<Longrightarrow> raises_instead x Q (bindA p f) (bindA p g) s"
  by (auto simp: raises_instead_def elim!: bindA_InrE)

lemma raises_instead_if:
  "(\<not> b \<Longrightarrow> raises_instead x Q m n s) \<Longrightarrow> raises_instead x Q (if b then raise z else m) (if b then raise z else n) s"
  by (simp add: raises_instead_def)

lemma failed_spawn:
  assumes "\<And>argv envs. fc_spawn fc' argv envs = Inl x" and "stuck a s"
  shows "raises_instead x (stuck a) (bindA (spawn_process cfg fc l) f) (bindA (spawn_process cfg fc' l) g) (s :: 'z launcher_state_scheme)"
proof -
  have "\<exists>s'. spawn_process cfg fc' l s = (Inl x, s') \<and> vh_index s' = vh_index s" if "spawn_process cfg fc l s = (Inr pid, s2)" for pid s2
    using that by (auto simp: spawn_process_def thenA_def bindA_def on_fs_def liftR_def assms(1) split: prod.splits sum.splits)
  then show ?thesis using assms(2) unfolding raises_instead_def by (fastforce simp: stuck_def elim!: bindA_InrE)
qed

lemma registered_stuck:
  assumes "vm_register e r h = (Inr y, h')" and "vm_agent_id r = a" "vm_status r = ''launching''" "vm_pid r = None"
  shows "stuck a h'"
proof -
  have "stamped e r \<in> set (vh_index h')" using assms(1) by (auto simp: vm_register_eq upsert_row_def has_row_iff)
  with assms(2-4) show ?thesis unfolding stuck_def by (intro bexI [of _ "stamped e r"]) (simp_all add: active_def ACTIVE_STATES_def)
qed

lemma prepare_package_cong: "fc_store fc' = fc_store fc \<Longrightarrow> prepare_package cfg fc' = prepare_package cfg fc"
  by (intro ext) (simp add: prepare_package_def bake_skills_def)

lemma launch_begin_cong:
  assumes "fc_store fc' = fc_store fc" and "fc_spawn fc' = fc_spawn fc"
  shows "launch_begin e cfg fc' = launch_begin e cfg fc"
  unfolding launch_begin_def prepare_package_cong [OF assms(1)] spawn_process_def assms(2) ..

lemma failed_spawn_stuck:
  fixes h :: "'z launcher_state_scheme"
  assumes "launch_begin e cfg fc catalog a manifest given given_hash h = (Inr lc, h1)" and "\<And>argv envs. fc_spawn fc' argv envs = Inl x"
    and "fc_store fc' = fc_store fc"
  shows "\<exists>h2. launch e cfg fc' catalog a manifest given given_hash h = (Inl x, h2) \<and> stuck a h2"
proof -
  have "raises_instead x (stuck a) (launch_begin e cfg fc catalog a manifest given given_hash) (launch_begin e cfg fc' catalog a manifest given given_hash) h"
    unfolding launch_begin_def Let_def prepare_package_cong [OF assms(3)]
    by (intro raises_instead_bind raises_instead_if failed_spawn [OF assms(2)]) (erule registered_stuck; simp)
  then show ?thesis using assms(1) by (auto simp: raises_instead_def launch_def)
qed

lemma configure_total: "\<exists>r h'. configure_vm fc lc h = (Inr r, h')"
proof -
  have "\<exists>r h'. fc_puts fc api rs h = (Inr r, h')" for api rs and h :: "'z launcher_state_scheme"
    by (induction rs arbitrary: h) (auto simp: fc_put_def bindA_def split: option.split)
  then show ?thesis by (auto simp: configure_vm_def Let_def)
qed

lemma failed_boot_free:
  fixes h :: "'z launcher_state_scheme"
  assumes "holds (lc_record lc) h" and "launch_finish e fc lc h = (Inl x, h')"
  shows "\<forall>r \<in> set (vh_index h'). active r \<longrightarrow> vm_agent_id r \<noteq> vm_agent_id (lc_record lc)"
proof -
  let ?i = "vm_instance_id (lc_record lc)"
  obtain f h1 where c: "configure_vm fc lc h = (Inr f, h1)" using configure_total by blast
  then have v: "registry_view h1 = registry_view h" using keepsD [OF configure_keeps, of fc lc h] by simp
  obtain y d where u: "thenA (update_status e ?i ''failed'' (Some d) None None) (thenA (cleanup_failed_launch lc) (raise y :: (_, vm_record) act)) h1 = (Inl x, h')"
  proof (cases f)
    case (Some p)
    then show ?thesis using c assms(2) that [of "snd p" "fst p"] by (simp add: launch_finish_def split: prod.split_asm)
  qed (use c assms(2) in \<open>simp add: launch_finish_def vm_register_eq\<close>)
  have "registry_view (snd (thenA (cleanup_failed_launch lc) (raise y :: (_, vm_record) act) h2)) = registry_view h2" for h2 :: "'z launcher_state_scheme"
    by (intro keepsD keeps_then cleanup_keeps keeps_basic)
  from this [of "snd (update_status e ?i ''failed'' (Some d) None None h1)"] u
  have "vh_index h' = vh_index (snd (update_status e ?i ''failed'' (Some d) None None h1))"
    by (simp add: thenA_Inr [OF update_status_eq] update_status_eq)
  moreover have "inj_on vm_agent_id (set (filter active (vh_index h)))" using assms(1) by (simp add: holds_def registry_ok_def distinct_map)
  then have "y = lc_record lc" if "y \<in> set (vh_index h)" "active y" "vm_agent_id y = vm_agent_id (lc_record lc)" for y
    using that assms(1) by (auto simp: holds_def dest: inj_onD)
  ultimately show ?thesis
    using v by (auto simp: update_status_eq update_rows_def refreshed_index ACTIVE_STATES_def split: if_split_asm)
qed

end
