(* ===== verification/Host_Spec.thy ===== *)
theory Host_Spec
  imports Samples Vm_Facts
begin

text \<open>
  The properties of the host side: the registry and the launcher of micro VMs.
\<close>

section \<open>Micro VMs\<close>

text \<open>C31: An agent never has two active VMs, and no two active VMs share a context identifier.  This holds in every
  state the launcher reaches from an empty registry by launches, stops and looks, whatever processes come and go
  on the host in between and whether or not each launch succeeds.\<close>

theorem vm_slots_exclusive:
  assumes "vm_reachable cfg h" and "r \<in> set (vh_index h)" and "r' \<in> set (vh_index h)" and "active r" and "active r'"
    and "vm_agent_id r = vm_agent_id r' \<or> vm_guest_cid r = vm_guest_cid r'"
  shows "r = r'"
proof -
  from vm_reachable_ok [OF assms(1)] have "inj_on vm_agent_id (set (filter active (vh_index h)))"
    "inj_on vm_guest_cid (set (filter active (vh_index h)))"
    by (auto simp: registry_ok_def distinct_map)
  with assms(2-6) show ?thesis by (auto dest: inj_onD)
qed

text \<open>C32: A launch that returns has sent Firecracker exactly the five boot requests of one machine, in order: the
  machine has the memory and the processors of the resolved manifest, within the bounds of the manifest, and
  the context identifier of the record that the launch returns as running.\<close>

theorem launched_vm_is_configured:
  assumes "launch e cfg fc catalog a manifest given given_hash h = (Inr r, h')"
  shows "\<exists>sp m. lh_requests h' = lh_requests h @ map (\<lambda>(p, body). (vm_api_socket r, p, body)) (boot_requests sp)
     \<and> resolve_manifest e DEFAULT_CATALOG manifest = Inr m
     \<and> sp_mem_size_mib sp = rl_memory_mb (am_resource_limits m) \<and> 128 \<le> sp_mem_size_mib sp \<and> sp_mem_size_mib sp \<le> 65536
     \<and> sp_vcpu_count sp = rl_vcpu_count (am_resource_limits m) \<and> 1 \<le> sp_vcpu_count sp \<and> sp_vcpu_count sp \<le> 64
     \<and> sp_kernel_path sp = vc_kernel_path cfg \<and> sp_guest_cid sp = vm_guest_cid r \<and> vm_agent_id r = a \<and> vm_status r = ''running''"
proof -
  from launch_inv [OF assms] obtain lc where lc: "spec_of e cfg a manifest lc" "r = stamped e ((lc_record lc)\<lparr>vm_status := ''running''\<rparr>)"
    "lh_requests h' = lh_requests h @ map (\<lambda>(p, body). (vm_api_socket r, p, body)) (boot_requests (lc_spec lc))" by blast
  then obtain m where m: "resolve_manifest e DEFAULT_CATALOG manifest = Inr m"
    "sp_mem_size_mib (lc_spec lc) = rl_memory_mb (am_resource_limits m)" "sp_vcpu_count (lc_spec lc) = rl_vcpu_count (am_resource_limits m)"
    by (auto simp: spec_of_def)
  show ?thesis
    by (rule exI [of _ "lc_spec lc"], rule exI [of _ m])
       (use lc m resolve_manifest_limits [OF m(1)] in \<open>simp add: spec_of_def\<close>)
qed


text \<open>A boot that fails frees the agent: where the process had started and Firecracker did not accept the
  configuration, the agent has no active VM afterwards, so that the next launch is not refused for it.\<close>

theorem failed_boot_frees_agent:
  assumes "vm_reachable cfg h" and "fresh_launch e given h"
    and "launch_begin e cfg fc catalog a manifest given given_hash h = (Inr lc, h1)" and "launch_finish e fc lc h1 = (Inl x, h2)"
  shows "snd (launch e cfg fc catalog a manifest given given_hash h) = h2
     \<and> fst (get_by_agent e' a h2) = Inr None"
proof -
  have "holds (lc_record lc) h1" using launch_begin_triple [unfolded triple_def, rule_format, of h e given cfg fc catalog a manifest given_hash]
    vm_reachable_ok [OF assms(1)] assms(2,3) by simp
  from failed_boot_free [OF this assms(4)] launch_begin_spec [OF assms(3)]
  have "\<forall>r \<in> set (vh_index h2). active r \<longrightarrow> vm_agent_id r \<noteq> a" by (simp add: spec_of_def)
  then have "\<forall>r \<in> set (vh_index (refreshed e' h2)). \<not> (vm_agent_id r = a \<and> active r)" by (auto simp: refreshed_index)
  then show ?thesis using assms(3,4) by (simp add: launch_def get_by_agent_def refresh_apply find_None_iff)
qed

section \<open>A host\<close>

definition vm_config0 :: vm_config where
  "vm_config0 = \<lparr>vc_artifacts_dir = path_of ''/art'', vc_kernel_path = path_of ''/art/vmlinux'', vc_rootfs_path = path_of ''/art/rootfs.ext4'',
     vc_firecracker_bin = ''firecracker'', vc_vsock_port = 4040, vc_guest_cid_start = 3, vc_state_dir = path_of ''/vms''\<rparr>"

definition fc0 :: fc_world where
  "fc0 = \<lparr>fc_spawn = (\<lambda>_ _. Inr 100), fc_appears = (\<lambda>_. Some 0), fc_answer = (\<lambda>_ _ _. None), fc_store = path_of ''/store''\<rparr>"

definition host0 :: launcher_state where
  "host0 = \<lparr>vh_index = [], vh_procs = [], lh_fs = \<lparr>hf_files = [(path_of ''/art/vmlinux'', []), (path_of ''/art/rootfs.ext4'', [])],
     hf_dirs = [path_of ''/'', path_of ''/art'']\<rparr>, lh_requests = [], lh_killed = []\<rparr>"

definition fc_refusing :: fc_world where
  "fc_refusing = fc0\<lparr>fc_answer := (\<lambda>_ p _. if p = ''/vsock'' then Some (RuntimeError, ''refused'') else None)\<rparr>"

definition chat_manifest0 :: json where
  "chat_manifest0 = JObj [(''skills'', JArr [])]"

definition resolved0 :: agent_manifest where
  "resolved0 = (case resolve_manifest env0 DEFAULT_CATALOG chat_manifest0 of Inr m \<Rightarrow> m | Inl _ \<Rightarrow> undefined)"

lemma resolved0: "resolve_manifest env0 DEFAULT_CATALOG chat_manifest0 = Inr resolved0"
proof -
  have "\<not> isl (resolve_manifest env0 DEFAULT_CATALOG chat_manifest0)" by code_simp
  then show ?thesis by (auto simp: resolved0_def split: sum.split)
qed

lemma skills0: "am_skills resolved0 = []"
  by code_simp

lemma files0: "case thenA (mkdir_parents (path_of ''/vms'')) (thenA (forA (map (\<lambda>(p, q). state_file vm_config0 p ''vm'' q)
        [(''fc-'', ''.sock''), (''vsock-'', ''.sock''), (''fc-'', ''.stdout.log''), (''fc-'', ''.stderr.log'')]) unlink_if_exists)
      (thenA (write_package_files (path_add (path_add (path_of ''/vms'') ''launch-packages'') ''vm'') mt et)
      (thenA (write_file (path_of ''/vms/fc-vm.stdout.log'') []) (write_file (path_of ''/vms/fc-vm.stderr.log'') [])))) (lh_fs host0)
    of (Inr _, fs) \<Rightarrow> True | _ \<Rightarrow> False"
  by code_simp

lemma paths0:
  "path_exists (lh_fs host0) (vc_kernel_path vm_config0)"
  "resolve_rootfs_path vm_config0 (am_rootfs_image resolved0) (lh_fs host0) = path_of ''/art/rootfs.ext4''"
  "path_exists (lh_fs host0) (path_of ''/art/rootfs.ext4'')"
  "path_of (path_str (state_file vm_config0 ''fc-'' ''vm'' ''.stdout.log'')) = path_of ''/vms/fc-vm.stdout.log''"
  "path_of (path_str (state_file vm_config0 ''fc-'' ''vm'' ''.stderr.log'')) = path_of ''/vms/fc-vm.stderr.log''"
  by code_simp+

definition begin0 :: "fc_world \<Rightarrow> launch_context res \<times> launcher_state" where
  "begin0 fc = launch_begin env0 vm_config0 fc DEFAULT_CATALOG ''a1'' chat_manifest0 None (Some ''h1'') host0"

text \<open>The host of the samples begins a launch.\<close>

lemma package0:
  "\<exists>fs fs' fs''. prepare_package vm_config0 fc0 DEFAULT_CATALOG
      [state_file vm_config0 ''fc-'' ''vm'' ''.sock'', state_file vm_config0 ''vsock-'' ''vm'' ''.sock'',
       state_file vm_config0 ''fc-'' ''vm'' ''.stdout.log'', state_file vm_config0 ''fc-'' ''vm'' ''.stderr.log'']
      (path_add (path_add (vc_state_dir vm_config0) ''launch-packages'') ''vm'') m (am_skills resolved0) envs (lh_fs host0) = (Inr envs, fs)
    \<and> write_file (path_of ''/vms/fc-vm.stdout.log'') [] fs = (Inr (), fs') \<and> write_file (path_of ''/vms/fc-vm.stderr.log'') [] fs' = (Inr (), fs'')"
proof -
  have dir: "vc_state_dir vm_config0 = path_of ''/vms''" by (simp add: vm_config0_def)
  define mt et where "mt = json_indented 0 (json_sorted (JObj m)) @ line_break"
    and "et = concat (map (\<lambda>(k, v). k @ ''='' @ v @ line_break) (sort_key fst envs))"
  show ?thesis
    using files0 [of mt et]
    unfolding prepare_package_def skills0 bake_skills_def write_launch_package_def dir mt_def [symmetric] et_def [symmetric]
    by (auto simp: thenA_def bindA_def split: prod.splits sum.splits)
qed

lemma begin0: "\<exists>lc h1. begin0 fc0 = (Inr lc, h1) \<and> lh_requests h1 = [] \<and> vh_procs h1 = [100] \<and> vh_index h1 = [lc_record lc]
     \<and> vm_agent_id (lc_record lc) = ''a1'' \<and> vm_pid (lc_record lc) = Some 100 \<and> active (lc_record lc)"
proof -
  have host: "vh_index host0 = []" "vh_procs host0 = []" "lh_requests host0 = []" by (simp_all add: host0_def)
  have same: "refreshed env0 host0 = host0" by (simp add: refreshed_def refresh_def host0_def update_rows_def)
  have free: "get_by_agent env0 ''a1'' host0 = (Inr None, host0)" by (simp add: get_by_agent_def refresh_apply same host)
  have cid: "next_guest_cid env0 (vc_guest_cid_start vm_config0) host0 = (Inr 3, host0)"
    by (simp add: next_guest_cid_def refresh_apply same host used_cids_def first_free.simps vm_config0_def)
  have hash: "(if opt_truthy (Some ''h1'') then the (Some ''h1'') else manifest_hash env0 (canonical_manifest env0 resolved0)) = ''h1''"
    "(if opt_truthy None then the None else uuid4 env0 ''vm'') = ''vm''"
    by (simp_all add: opt_truthy_def env0_def)
  define envs where "envs = build_launch_env vm_config0 ''a1'' ''vm'' ''h1'' (canonical_manifest env0 resolved0)"
  obtain fs fs' fs'' where fs: "prepare_package vm_config0 fc0 DEFAULT_CATALOG
      [state_file vm_config0 ''fc-'' ''vm'' ''.sock'', state_file vm_config0 ''vsock-'' ''vm'' ''.sock'',
       state_file vm_config0 ''fc-'' ''vm'' ''.stdout.log'', state_file vm_config0 ''fc-'' ''vm'' ''.stderr.log'']
      (path_add (path_add (vc_state_dir vm_config0) ''launch-packages'') ''vm'') (canonical_manifest env0 resolved0) (am_skills resolved0) envs (lh_fs host0) = (Inr envs, fs)"
    "write_file (path_of ''/vms/fc-vm.stdout.log'') [] fs = (Inr (), fs')" "write_file (path_of ''/vms/fc-vm.stderr.log'') [] fs' = (Inr (), fs'')"
    using package0 [of "canonical_manifest env0 resolved0" envs] by blast
  have spawn: "spawn_process vm_config0 fc0 l h = (Inr 100, h\<lparr>lh_fs := fs'', vh_procs := 100 # vh_procs h\<rparr>)"
    if "path_of (vm_stdout_log (lc_record l)) = path_of ''/vms/fc-vm.stdout.log''" "path_of (vm_stderr_log (lc_record l)) = path_of ''/vms/fc-vm.stderr.log''" "lh_fs h = fs"
    for l and h :: launcher_state
    using that fs(2,3) by (simp add: spawn_process_def on_fs_def thenA_def bindA_def liftR_def fc0_def)
  show ?thesis
    unfolding begin0_def launch_begin_def Let_def
    apply (subst bindA_Inr [of "get_by_agent env0 ''a1''" host0, OF free])
    apply (simp only: simp_thms if_False option.simps)
    apply (subst bindA_Inr [where x = resolved0 and s' = host0], simp only: resolved0 liftR_def sum.case ret_def)
    apply (subst bindA_Inr, rule getS_apply)
    apply (simp only: paths0 hash simp_thms if_False envs_def [symmetric])
    apply (subst bindA_Inr [of "next_guest_cid env0 (vc_guest_cid_start vm_config0)" host0, OF cid])
    apply (subst bindA_Inr [where x = envs and s' = "host0\<lparr>lh_fs := fs\<rparr>"], simp only: on_fs_def fs(1) prod.case)
    apply (subst bindA_Inr, rule vm_register_eq)
    apply (subst bindA_Inr, rule spawn)
    apply (simp_all add: new_record_def stamped_def paths0)
    apply (simp add: vm_register_eq refreshed_index upsert_row_def has_row_def pid_is_alive_def host active_def ACTIVE_STATES_def stamped_def)
    done
qed

lemma launched0:
  "\<exists>r h. launch env0 vm_config0 fc0 DEFAULT_CATALOG ''a1'' chat_manifest0 None (Some ''h1'') host0 = (Inr r, h)
     \<and> vh_index h = [r] \<and> active r \<and> vm_agent_id r = ''a1'' \<and> length (lh_requests h) = 5"
proof -
  obtain lc h1 where b: "begin0 fc0 = (Inr lc, h1)" "lh_requests h1 = []" "vh_procs h1 = [100]" "vh_index h1 = [lc_record lc]"
    "vm_agent_id (lc_record lc) = ''a1''" "vm_pid (lc_record lc) = Some 100" "active (lc_record lc)" using begin0 by blast
  have ok: "fc_answer fc0 p q r = None" "wait_for_api_socket fc0 p" for p q r
    by (simp_all add: fc0_def wait_for_api_socket_def wait_socket.simps)
  have "\<exists>h2. configure_vm fc0 lc h1 = (Inr None, h2) \<and> registry_view h2 = registry_view h1 \<and> length (lh_requests h2) = 5"
    by (simp add: configure_vm_def Let_def ok boot_requests_def fc_put_def bindA_def b(2))
  then obtain h2 where c: "configure_vm fc0 lc h1 = (Inr None, h2)" "vh_index h2 = [lc_record lc]" "vh_procs h2 = [100]" "length (lh_requests h2) = 5"
    using b(3,4) by auto
  then have "launch_finish env0 fc0 lc h1 = vm_register env0 ((lc_record lc)\<lparr>vm_status := ''running''\<rparr>) h2"
    by (simp add: launch_finish_def)
  moreover have "vh_index (refreshed env0 h2) = [lc_record lc]" using c b(6) by (simp add: refreshed_index pid_is_alive_def)
  ultimately show ?thesis using b c keepsD [OF requests_kept(1), of env0 h2]
    by (simp add: launch_def begin0_def [symmetric] vm_register_eq upsert_row_def has_row_def refreshed_def active_def ACTIVE_STATES_def)
qed

theorem vm_slots_exclusive_witness:
  "\<exists>(h :: launcher_state) r. vm_reachable vm_config0 h \<and> r \<in> set (vh_index h) \<and> active r
     \<and> (\<forall>r' \<in> set (vh_index h). active r' \<and> vm_agent_id r = vm_agent_id r' \<longrightarrow> r = r')"
proof -
  obtain r h where l: "launch env0 vm_config0 fc0 DEFAULT_CATALOG ''a1'' chat_manifest0 None (Some ''h1'') host0 = (Inr r, h)"
    "vh_index h = [r]" "active r" using launched0 by blast
  have "vm_reachable vm_config0 host0" by (rule vm_reachable.Start) (simp add: host0_def)
  moreover have "fresh_launch env0 None host0" by (simp add: fresh_launch_def host0_def has_row_def)
  ultimately have "vm_reachable vm_config0 h" using vm_reachable.Step vm_step.Launch l(1) by (metis snd_conv)
  with l vm_slots_exclusive [OF this] show ?thesis by (intro exI [of _ h] exI [of _ r]) simp
qed

theorem launched_vm_is_configured_witness:
  "\<exists>r h. launch env0 vm_config0 fc0 DEFAULT_CATALOG ''a1'' chat_manifest0 None (Some ''h1'') host0 = (Inr r, h)
     \<and> (\<exists>sp. lh_requests h = map (\<lambda>(p, body). (vm_api_socket r, p, body)) (boot_requests sp) \<and> 128 \<le> sp_mem_size_mib sp)"
proof -
  obtain r h where l: "launch env0 vm_config0 fc0 DEFAULT_CATALOG ''a1'' chat_manifest0 None (Some ''h1'') host0 = (Inr r, h)" using launched0 by blast
  from launched_vm_is_configured [OF l] show ?thesis using l by (intro exI [of _ r] exI [of _ h]) (auto simp: host0_def)
qed


theorem failed_boot_frees_agent_witness:
  "\<exists>x h2. launch env0 vm_config0 fc_refusing DEFAULT_CATALOG ''a1'' chat_manifest0 None (Some ''h1'') host0 = (Inl x, h2)
     \<and> fst (get_by_agent env0 ''a1'' h2) = Inr None"
proof -
  obtain lc h1 where b: "begin0 fc_refusing = (Inr lc, h1)"
    using begin0 unfolding begin0_def launch_begin_cong [of fc_refusing fc0, simplified fc_refusing_def, simplified, folded fc_refusing_def] by blast
  have "wait_for_api_socket fc_refusing p" for p
    by (simp add: fc_refusing_def fc0_def wait_for_api_socket_def wait_socket.simps)
  then have "\<exists>d h2. configure_vm fc_refusing lc h1 = (Inr (Some d), h2)"
    by (simp add: configure_vm_def Let_def boot_requests_def fc_put_def bindA_def fc_refusing_def fc0_def)
  then have "isl (fst (launch_finish env0 fc_refusing lc h1))"
    by (auto simp: launch_finish_def update_status_eq thenA_def bindA_def split: prod.split sum.split)
  then obtain x h2 where f: "launch_finish env0 fc_refusing lc h1 = (Inl x, h2)"
    by (cases "launch_finish env0 fc_refusing lc h1") (auto elim: isl_def [THEN iffD1, elim_format])
  have r: "vm_reachable vm_config0 host0" by (rule vm_reachable.Start) (simp add: host0_def)
  have "fresh_launch env0 None host0" by (simp add: fresh_launch_def host0_def has_row_def)
  with failed_boot_frees_agent [OF r this b [unfolded begin0_def] f] b f show ?thesis
    by (simp add: launch_def begin0_def)
qed

end
