(* ===== verification/Operator_Chat.thy ===== *)
theory Operator_Chat
  imports Elevations
begin

text \<open>
  Operator chat of \<^verbatim>\<open>management/chat.py\<close>: one completion for an operator through the LLM gateway, under the manifest
  of an agent and without a session or a policy decision.  An \<^verbatim>\<open>OperatorChatError\<close> is a value, its status and its
  code.
\<close>

section \<open>The request\<close>

definition OPERATOR_CHAT_VM_ID :: string where
  "OPERATOR_CHAT_VM_ID = ''operator-console''"

definition chat_message :: "json \<Rightarrow> http_error + obj" where
  "chat_message item = (case item of
     JObj d \<Rightarrow>
       let role = strip (py_str (oget_or d ''role'' (JStr []))); content = oget d ''content''; txt = py_str content in
       if role \<notin> {''system'', ''user'', ''assistant''} then Inl (422, ''CHAT_MESSAGE_INVALID'')
       else if content = JNull then Inl (422, ''CHAT_MESSAGE_INVALID'')
       else if strip txt = [] \<and> role = ''user'' then Inl (422, ''CHAT_MESSAGE_INVALID'')
       else Inr [(''role'', JStr role), (''content'', JStr txt)]
   | _ \<Rightarrow> Inl (422, ''CHAT_MESSAGE_INVALID''))"

fun chat_messages :: "json list \<Rightarrow> http_error + obj list" where
  "chat_messages [] = Inr []"
| "chat_messages (item # items) = (case chat_message item of
     Inl err \<Rightarrow> Inl err
   | Inr m \<Rightarrow> (case chat_messages items of Inl err \<Rightarrow> Inl err | Inr ms \<Rightarrow> Inr (m # ms)))"

definition normalize_messages :: "json \<Rightarrow> http_error + obj list" where
  "normalize_messages raw = (case raw of
     JArr (item # items) \<Rightarrow>
       (case chat_messages (item # items) of
          Inl err \<Rightarrow> Inl err
        | Inr messages \<Rightarrow>
            if \<not> list_ex (\<lambda>m. oget m ''role'' = JStr ''user'') messages then Inl (422, ''CHAT_MESSAGES_REQUIRED'')
            else if oget (last messages) ''role'' \<noteq> JStr ''user'' then Inl (422, ''CHAT_MESSAGE_INVALID'')
            else Inr messages)
   | _ \<Rightarrow> Inl (422, ''CHAT_MESSAGES_REQUIRED''))"

text \<open>\<^verbatim>\<open>[str(item) for item in engine3.get(key) or [default]]\<close>\<close>

definition allowed_texts :: "json \<Rightarrow> string \<Rightarrow> string \<Rightarrow> string list res" where
  "allowed_texts engine3 key d = bindE (jget engine3 key JNull) (\<lambda>v.
     bindE (py_iter (py_or v (JArr [JStr d]))) (\<lambda>xs. Inr (map py_str xs)))"

definition given_text :: "string option \<Rightarrow> string" where
  "given_text x = strip (case x of None \<Rightarrow> [] | Some t \<Rightarrow> t)"

definition resolve_provider_model ::
  "agent_row \<Rightarrow> string option \<Rightarrow> string option \<Rightarrow> string \<Rightarrow> (string \<times> string) res" where
  "resolve_provider_model agent requested_provider requested_model default_provider =
     bindE (jget (oget_or (ag_manifest agent) ''engines'' (JObj [])) ''engine3'' (JObj [])) (\<lambda>engine3.
     bindE (allowed_texts engine3 ''allowed_providers'' ''stub'') (\<lambda>providers.
     bindE (allowed_texts engine3 ''allowed_models'' ''stub-v1'') (\<lambda>models.
       Inr (if given_text requested_provider \<noteq> [] then given_text requested_provider
            else if default_provider \<in> set providers then default_provider else hd providers,
            if given_text requested_model \<noteq> [] then given_text requested_model else hd models))))"

definition status_for_llm_error :: "string option \<Rightarrow> nat" where
  "status_for_llm_error error_code =
     (if error_code = Some ''LLM_AGENT_NOT_FOUND'' then 404
      else if error_code \<in> {Some ''LLM_PROVIDER_NOT_ALLOWED'', Some ''LLM_MODEL_NOT_ALLOWED''} then 403
      else if prefix ''LLM_PROVIDER'' (case error_code of None \<Rightarrow> [] | Some c \<Rightarrow> c) then 502 else 422)"

definition chat_request_message :: "env \<Rightarrow> string \<Rightarrow> string \<Rightarrow> string \<Rightarrow> obj list \<Rightarrow> framework_message" where
  "chat_request_message e agent_id provider_id model_name messages =
     new_message e ''operator_chat'' \<lparr>src_agent_id = agent_id, src_engine = ENGINE3, src_vm_id = OPERATOR_CHAT_VM_ID\<rparr>
       \<lparr>dst_type = CORVUS_SERVER, dst_target = ''corvus_server''\<rparr> REQUEST ''llm_request'' (uuid4 e ''operator_chat_correlation'')
       (mk_tags AGENT_INITIATED None)
       [(''provider'', JStr provider_id), (''model'', JStr model_name), (''messages'', JArr (map JObj messages))]"

section \<open>The completion\<close>

record chat_reply =
  cr_reply :: string
  cr_provider :: string
  cr_model :: string
  cr_usage :: "(string \<times> int) list"
  cr_finish_reason :: "string option"
  cr_correlation_id :: uuid
  cr_tool_calls :: "obj list"

definition reply_text :: "llm_result \<Rightarrow> string" where
  "reply_text r =
     (let reply = (case lr_content r of None \<Rightarrow> [] | Some c \<Rightarrow> c) in
      if strip reply = [] \<and> lr_tool_calls r \<noteq> [] then ''(LLM returned tool calls; operator chat is text-only.)'' else reply)"

definition chat_outcome :: "uuid \<Rightarrow> llm_result \<Rightarrow> http_error + chat_reply" where
  "chat_outcome corr r =
     (if \<not> lr_success r then
        Inl (status_for_llm_error (lr_error_code r), if opt_truthy (lr_error_code r) then the (lr_error_code r) else ''LLM_REQUEST_FAILED'')
      else Inr \<lparr>cr_reply = reply_text r, cr_provider = lr_provider r, cr_model = lr_model r, cr_usage = lr_usage r,
             cr_finish_reason = lr_finish_reason r, cr_correlation_id = corr, cr_tool_calls = lr_tool_calls r\<rparr>)"

definition complete_chat :: "env \<Rightarrow> services \<Rightarrow> string \<Rightarrow> string option \<Rightarrow> framework_message \<Rightarrow> ('z db_scheme, http_error + chat_reply) act" where
  "complete_chat e sv agent_id user_id message =
     bindA (llm_handle e (sv_llm sv) message (jopt user_id)) (\<lambda>result.
     thenA (whenA (lr_success result)
              (thenA (increment_llm_tokens e user_id (total_tokens result) (Some (cfg_llm_tokens_daily_limit (sv_config sv)))) (ret ())))
    (thenA (log_api_mutation e (''POST /v1/agents/'' @ agent_id @ ''/chat'')
              [(''agent_id'', JStr agent_id), (''provider'', JStr (lr_provider result)), (''model'', JStr (lr_model result)),
               (''user_id'', jopt user_id), (''correlation_id'', JStr (msg_correlation_id message)),
               (''success'', JBool (lr_success result)), (''error_code'', jopt (lr_error_code result))])
       (ret (chat_outcome (msg_correlation_id message) result))))"

definition run_operator_chat ::
  "env \<Rightarrow> services \<Rightarrow> string \<Rightarrow> json \<Rightarrow> string option \<Rightarrow> string option \<Rightarrow> string option
   \<Rightarrow> ('z db_scheme, http_error + chat_reply) act" where
  "run_operator_chat e sv agent_id messages provider model user_id =
     bindA (getS (get_agent agent_id)) (\<lambda>found.
       case found of
         None \<Rightarrow> ret (Inl (404, ''AGENT_NOT_FOUND''))
       | Some agent \<Rightarrow>
           (case normalize_messages messages of
              Inl err \<Rightarrow> ret (Inl err)
            | Inr normalized \<Rightarrow>
                bindA (liftR (resolve_provider_model agent provider model (cfg_llm_default_provider (sv_config sv)))) (\<lambda>(provider_id, model_name).
                complete_chat e sv agent_id user_id (chat_request_message e agent_id provider_id model_name normalized))))"

end
