(* ===== verification/Rate_Window.thy ===== *)
theory Rate_Window
  imports Sessions
begin

text \<open>
  The sliding-window rate limiter of \<^verbatim>\<open>management/rate_limit.py\<close>.  The monotonic clock an operation reads is its
  argument, in microseconds.  The limit is a live setting, so it is a JSON value, and comparing it can raise.
\<close>

section \<open>The limiter\<close>

record window_limiter =
  wl_limit :: json
  wl_window :: time
  wl_hits :: "(string \<times> time list) list"

definition hits_of :: "string \<Rightarrow> window_limiter \<Rightarrow> time list" where
  "hits_of key l = (case map_of (wl_hits l) key of None \<Rightarrow> [] | Some w \<Rightarrow> w)"

definition window_allow :: "time \<Rightarrow> string \<Rightarrow> (window_limiter, bool) act" where
  "window_allow t key = (\<lambda>l.
     case json_num (wl_limit l) of
       None \<Rightarrow> (Inl TypeError, l)
     | Some n \<Rightarrow>
         if n \<le> 0 then (Inr True, l)
         else let w = dropWhile (\<lambda>h. h < t - wl_window l) (hits_of key l) in
              if n \<le> of_nat (length w) then (Inr False, l\<lparr>wl_hits := dput key w (wl_hits l)\<rparr>)
              else (Inr True, l\<lparr>wl_hits := dput key (w @ [t]) (wl_hits l)\<rparr>))"

text \<open>\<^verbatim>\<open>int(remaining + 0.999)\<close>; below one the two roundings of \<^verbatim>\<open>int\<close> and \<open>div\<close> differ, but \<^verbatim>\<open>max\<close> hides it.\<close>

definition retry_after_seconds :: "time \<Rightarrow> string \<Rightarrow> window_limiter \<Rightarrow> int res" where
  "retry_after_seconds t key l =
     (case json_num (wl_limit l) of
        None \<Rightarrow> Inl TypeError
      | Some n \<Rightarrow>
          if n \<le> 0 then Inr 0
          else (case hits_of key l of
                  [] \<Rightarrow> Inr 0
                | oldest # _ \<Rightarrow> Inr (max 1 ((wl_window l - (t - oldest) + 999000) div 1000000))))"

text \<open>A sequence of calls, with those that are let through.\<close>

fun let_through :: "(time \<times> string) list \<Rightarrow> window_limiter \<Rightarrow> (time \<times> string) list" where
  "let_through [] l = []"
| "let_through ((t, key) # calls) l =
     (case window_allow t key l of (r, l') \<Rightarrow> (if r = Inr True then [(t, key)] else []) @ let_through calls l')"

section \<open>The window bound\<close>

definition times_of :: "string \<Rightarrow> (time \<times> string) list \<Rightarrow> time list" where
  "times_of key calls = map fst (filter (\<lambda>c. snd c = key) calls)"

lemma times_of_simps [simp]: "times_of key [] = []" "times_of key (xs @ ys) = times_of key xs @ times_of key ys"
  "times_of key [c] = (if snd c = key then [fst c] else [])"
  by (simp_all add: times_of_def)

definition in_window :: "time \<Rightarrow> time \<Rightarrow> time list \<Rightarrow> nat" where
  "in_window a w ts = length (filter (\<lambda>t. a \<le> t \<and> t \<le> a + w) ts)"

text \<open>The hits kept for a key are those of the calls let through so far that a later call can still count.\<close>

definition remembers :: "int \<Rightarrow> time \<Rightarrow> (time \<times> string) list \<Rightarrow> time \<Rightarrow> window_limiter \<Rightarrow> bool" where
  "remembers n w past T l \<longleftrightarrow> wl_limit l = JInt n \<and> wl_window l = w
     \<and> sorted (map fst past) \<and> (\<forall>c \<in> set past. fst c \<le> T)
     \<and> (\<forall>key. \<exists>c \<le> T - w. hits_of key l = filter (\<lambda>t. c \<le> t) (times_of key past))
     \<and> (\<forall>key a. in_window a w (times_of key past) \<le> nat n)"

lemma sorted_times: "sorted (map fst past) \<Longrightarrow> sorted (times_of key past)"
  by (induction past) (auto simp: times_of_def)

lemma dropWhile_filter_sorted:
  "sorted ts \<Longrightarrow> c \<le> d \<Longrightarrow> dropWhile (\<lambda>h. h < d) (filter (\<lambda>t. c \<le> t) ts) = filter (\<lambda>t. d \<le> t) (ts :: int list)"
proof (induction ts)
  case (Cons t ts)
  have "filter (\<lambda>t. c \<le> t) ts = ts" if "d \<le> t" using Cons.prems that by (auto intro!: filter_True)
  moreover have "filter (\<lambda>t. d \<le> t) ts = ts" if "d \<le> t" using Cons.prems that by (auto intro!: filter_True)
  ultimately show ?case using Cons by auto
qed simp

lemma hits_of_dput [simp]: "hits_of k (l\<lparr>wl_hits := dput key w (wl_hits l)\<rparr>) = (if k = key then w else hits_of k l)"
  by (simp add: hits_of_def)

lemma in_window_snoc:
  assumes "t \<in> {a..a + w}" and "\<forall>x \<in> set ts. x \<le> t" and "0 \<le> w"
  shows "in_window a w ts \<le> length (filter (\<lambda>x. t - w \<le> x) ts)"
proof -
  have "filter (\<lambda>x. a \<le> x \<and> x \<le> a + w) ts = filter (\<lambda>x. a \<le> x) (filter (\<lambda>x. t - w \<le> x) ts)"
    unfolding filter_filter by (rule filter_cong) (use assms in auto)
  then show ?thesis unfolding in_window_def by (metis length_filter_le)
qed

lemma in_window_append: "in_window a w (ts @ [t]) = in_window a w ts + (if t \<in> {a..a + w} then 1 else 0)"
  by (simp add: in_window_def)

text \<open>The step: what a call does to the hits, and what it is let through for.\<close>

lemma allow_remembers:
  assumes inv: "remembers n w past T l" and "0 < n" "0 \<le> w" "T \<le> t" and step: "window_allow t key l = (r, l')"
  shows "remembers n w (past @ (if r = Inr True then [(t, key)] else [])) t l'"
proof -
  let ?w = "filter (\<lambda>x. t - w \<le> x) (times_of key past)"
  from inv have lim: "wl_limit l = JInt n" "wl_window l = w" and srt: "sorted (map fst past)" and le: "\<forall>c \<in> set past. fst c \<le> t"
    and bound: "in_window a w (times_of k past) \<le> nat n" for k a
    using assms(4) by (force simp: remembers_def)+
  have kept: "\<exists>c \<le> t - w. hits_of k l = filter (\<lambda>x. c \<le> x) (times_of k past)" for k
    using inv assms(4) unfolding remembers_def by (metis add_le_cancel_left diff_add_cancel diff_right_mono order_trans)
  then obtain c where c: "c \<le> t - w" "hits_of key l = filter (\<lambda>x. c \<le> x) (times_of key past)" by blast
  have drop: "dropWhile (\<lambda>h. h < t - w) (hits_of key l) = ?w"
    unfolding c(2) by (rule dropWhile_filter_sorted [OF sorted_times [OF srt] c(1)])
  have before: "\<forall>x \<in> set (times_of k past). x \<le> t" for k using le by (auto simp: times_of_def)
  show ?thesis
  proof (cases "n \<le> int (length ?w)")
    case True
    then have "real_of_int n \<le> of_nat (length ?w)" by linarith
    with step lim drop assms(2) have "r = Inr False" "l' = l\<lparr>wl_hits := dput key ?w (wl_hits l)\<rparr>"
      by (auto simp: window_allow_def)
    then show ?thesis using lim srt le bound kept by (auto simp: remembers_def)
  next
    case False
    then have "\<not> real_of_int n \<le> of_nat (length ?w)" by linarith
    with step lim drop assms(2) have r: "r = Inr True" "l' = l\<lparr>wl_hits := dput key (?w @ [t]) (wl_hits l)\<rparr>"
      by (auto simp: window_allow_def)
    have new: "in_window a w (times_of key past @ [t]) \<le> nat n" for a
      using in_window_snoc [of t a w "times_of key past"] before [of key] assms(3) bound [of a key] False
      by (auto simp: in_window_append)
    have "\<exists>c \<le> t - w. hits_of k l' = filter (\<lambda>x. c \<le> x) (times_of k (past @ [(t, key)]))" for k
      using kept [of k] assms(3) by (auto simp: r(2))
    moreover have "sorted (map fst (past @ [(t, key)]))" using srt le by (auto simp: sorted_append)
    ultimately show ?thesis using lim le bound new r by (auto simp: remembers_def)
  qed
qed

lemma let_through_remembers:
  assumes "remembers n w past T l" and "0 < n" "0 \<le> w" and "sorted (map fst calls)" and "\<forall>c \<in> set calls. T \<le> fst c"
  shows "in_window a w (times_of key (past @ let_through calls l)) \<le> nat n"
  using assms
proof (induction calls arbitrary: past T l)
  case Nil
  then show ?case by (simp add: remembers_def)
next
  case (Cons c calls)
  obtain t k where c: "c = (t, k)" by force
  obtain r l' where s: "window_allow t k l = (r, l')" by force
  have "remembers n w (past @ (if r = Inr True then [(t, k)] else [])) t l'"
    by (rule allow_remembers [OF Cons.prems(1) _ _ _ s]) (use Cons.prems c in auto)
  from Cons.IH [OF this] Cons.prems show ?case by (simp add: c s)
qed

lemma window_bound:
  assumes "wl_hits l = []" and "wl_limit l = JInt n" and "0 < n" and "0 \<le> wl_window l" and "sorted (map fst calls)"
  shows "in_window a (wl_window l) (times_of key (let_through calls l)) \<le> nat n"
proof (cases calls)
  case Nil
  then show ?thesis by (simp add: in_window_def)
next
  case (Cons c cs)
  have "remembers n (wl_window l) [] (fst c) l"
    using assms(1-3) by (auto simp: remembers_def hits_of_def in_window_def intro: exI [of _ "fst c - wl_window l"])
  from let_through_remembers [OF this assms(3,4,5)] assms(5) Cons show ?thesis by force
qed

text \<open>A refused call may be tried again after the seconds it is told and one more millisecond.\<close>

lemma retry_after_enough:
  assumes "window_allow t key l = (Inr False, l')" and "retry_after_seconds t key l' = Inr q"
    and "wl_limit l = JInt n" and "int (length (hits_of key l)) \<le> n" and "t + seconds q + 1000 \<le> t'"
  shows "fst (window_allow t' key l') = Inr True"
proof -
  let ?w = "dropWhile (\<lambda>h. h < t - wl_window l) (hits_of key l)"
  from assms(1,3) have n: "0 < n" "real_of_int n \<le> of_nat (length ?w)" and l': "l' = l\<lparr>wl_hits := dput key ?w (wl_hits l)\<rparr>"
    by (auto simp: window_allow_def Let_def split: if_split_asm)
  then obtain oldest rest where w: "?w = oldest # rest" by (cases ?w) auto
  have kept: "hits_of key l' = oldest # rest" by (simp add: l' w)
  with assms(2,3) n(1) have q: "q = max 1 ((wl_window l - (t - oldest) + 999000) div 1000000)"
    by (simp add: retry_after_seconds_def l')
  have "wl_window l - (t - oldest) < seconds q + 1000" unfolding q by linarith
  with assms(5) have gone: "oldest < t' - wl_window l" by linarith
  have "length (oldest # rest) \<le> length (hits_of key l)" unfolding w [symmetric] by (rule length_dropWhile_le)
  moreover have "length (dropWhile (\<lambda>h. h < t' - wl_window l) rest) \<le> length rest" by (rule length_dropWhile_le)
  ultimately have "int (length (dropWhile (\<lambda>h. h < t' - wl_window l) rest)) < n" using assms(4) by simp
  then have "\<not> real_of_int n \<le> of_nat (length (dropWhile (\<lambda>h. h < t' - wl_window l) rest))" by linarith
  with gone n(1) assms(3) show ?thesis by (simp add: window_allow_def kept Let_def) (simp add: l' w)
qed

end
