(* ===== verification/Settings.thy ===== *)
theory Settings
  imports Gateway Rate_Window
begin

text \<open>
  The runtime settings of \<^verbatim>\<open>server/settings_store.py\<close>: what is seeded into the database, what of the database
  goes into the configuration at the start and on a change, and what a reader sees.  The configuration is the
  dictionary of its attributes; a setting that was written by an administrator is any JSON value, so using one
  can raise.  \<open>env_set\<close> says which environment variables are set.
\<close>

section \<open>The settings\<close>

record setting_meta =
  sm_attr :: string
  sm_secret :: bool
  sm_restart :: bool
  sm_group :: string
  sm_env :: "string option"

definition spec_row :: "string \<times> bool \<times> bool \<times> string \<times> string \<Rightarrow> string \<times> setting_meta" where
  "spec_row = (\<lambda>(key, secret, restart, grp, var).
     (key, \<lparr>sm_attr = key, sm_secret = secret, sm_restart = restart, sm_group = grp, sm_env = Some var\<rparr>))"

definition SETTINGS_SPEC :: "(string \<times> setting_meta) list" where
  "SETTINGS_SPEC = map spec_row [
     (''mgmt_host'', False, True, ''system'', ''CORVUS_MGMT_HOST''),
     (''mgmt_port'', False, True, ''system'', ''CORVUS_MGMT_PORT''),
     (''use_tcp'', False, True, ''system'', ''CORVUS_USE_TCP''),
     (''api_rate_limit_per_minute'', False, False, ''system'', ''CORVUS_API_RATE_LIMIT_PER_MINUTE''),
     (''ui_enabled'', False, False, ''system'', ''CORVUS_UI_ENABLED''),
     (''ui_path_prefix'', False, False, ''system'', ''CORVUS_UI_PATH_PREFIX''),
     (''ui_session_secret'', True, False, ''system'', ''CORVUS_UI_SESSION_SECRET''),
     (''api_key'', True, False, ''system'', ''CORVUS_API_KEY''),
     (''llm_default_provider'', False, False, ''inference'', ''CORVUS_LLM_DEFAULT_PROVIDER''),
     (''llm_request_timeout_seconds'', False, False, ''inference'', ''CORVUS_LLM_REQUEST_TIMEOUT_SECONDS''),
     (''llm_tokens_daily_limit'', False, False, ''inference'', ''CORVUS_LLM_TOKENS_DAILY_LIMIT''),
     (''memory_encryption_enabled'', False, False, ''memory'', ''CORVUS_MEMORY_ENCRYPTION''),
     (''memory_master_key'', True, False, ''memory'', ''CORVUS_MASTER_KEY''),
     (''memory_sweep_interval_seconds'', False, False, ''memory'', ''CORVUS_MEMORY_SWEEP_INTERVAL_SECONDS''),
     (''memory_soft_delete_retention_hours'', False, False, ''memory'', ''CORVUS_MEMORY_SOFT_DELETE_RETENTION_HOURS''),
     (''memory_writes_daily_limit'', False, False, ''memory'', ''CORVUS_MEMORY_WRITES_DAILY_LIMIT''),
     (''elevation_webhook_url'', False, False, ''security'', ''CORVUS_ELEVATION_WEBHOOK_URL''),
     (''elevation_webhook_secret'', True, False, ''security'', ''CORVUS_ELEVATION_WEBHOOK_SECRET''),
     (''behavioral_grant_denial_window_minutes'', False, False, ''security'', ''CORVUS_BEHAVIORAL_GRANT_DENIAL_WINDOW_MINUTES''),
     (''behavioral_grant_denial_threshold'', False, False, ''security'', ''CORVUS_BEHAVIORAL_GRANT_DENIAL_THRESHOLD''),
     (''behavioral_cross_agent_window_minutes'', False, False, ''security'', ''CORVUS_BEHAVIORAL_CROSS_AGENT_WINDOW_MINUTES''),
     (''behavioral_cross_agent_threshold'', False, False, ''security'', ''CORVUS_BEHAVIORAL_CROSS_AGENT_THRESHOLD''),
     (''behavioral_rate_baseline_minutes'', False, False, ''security'', ''CORVUS_BEHAVIORAL_RATE_BASELINE_MINUTES''),
     (''behavioral_rate_zscore_threshold'', False, False, ''security'', ''CORVUS_BEHAVIORAL_RATE_ZSCORE_THRESHOLD''),
     (''behavioral_tool_zscore_threshold'', False, False, ''security'', ''CORVUS_BEHAVIORAL_TOOL_ZSCORE_THRESHOLD''),
     (''behavioral_counter_retention_hours'', False, False, ''security'', ''CORVUS_BEHAVIORAL_COUNTER_RETENTION_HOURS'')]"

definition env_is_set :: "(string \<Rightarrow> bool) \<Rightarrow> string option \<Rightarrow> bool" where
  "env_is_set env_set env_name \<longleftrightarrow> opt_truthy env_name \<and> env_set (the env_name)"

definition ensure_settings_seeded :: "env \<Rightarrow> obj \<Rightarrow> ('z db_scheme, unit) act" where
  "ensure_settings_seeded e config =
     bindA (getS (\<lambda>s. map ss_key (list_settings s))) (\<lambda>existing.
       forA SETTINGS_SPEC (\<lambda>(key, meta).
         whenA (key \<notin> set existing)
           (upsert_setting e key (oget config (sm_attr meta)) (sm_secret meta) (sm_restart meta))))"

section \<open>From the database into the configuration\<close>

text \<open>Texts and numbers stand for truth values in three settings.\<close>

definition flag_text :: "json \<Rightarrow> bool" where
  "flag_text v \<longleftrightarrow> v \<in> {JStr ''1'', JStr ''true'', JStr ''True''}"

definition coerce_setting :: "string \<Rightarrow> json \<Rightarrow> json" where
  "coerce_setting attr v =
     (if attr = ''use_tcp'' then (case v of JStr _ \<Rightarrow> JBool (flag_text v) | _ \<Rightarrow> v)
      else if attr = ''memory_encryption_enabled'' \<or> attr = ''ui_enabled'' then
        (case v of JStr _ \<Rightarrow> JBool (flag_text v) | JInt i \<Rightarrow> JBool (i = 1) | JBool b \<Rightarrow> JBool b | _ \<Rightarrow> v)
      else v)"

fun setting_updates :: "(string \<Rightarrow> bool) \<Rightarrow> setting_row list \<Rightarrow> obj \<Rightarrow> obj" where
  "setting_updates env_set [] acc = acc"
| "setting_updates env_set (row # rows) acc =
     setting_updates env_set rows
       (case map_of SETTINGS_SPEC (ss_key row) of
          None \<Rightarrow> acc
        | Some meta \<Rightarrow>
            if env_is_set env_set (sm_env meta) then acc
            else oset (sm_attr meta) (coerce_setting (sm_attr meta) (ss_value row)) acc)"

definition load_settings_into_config :: "(string \<Rightarrow> bool) \<Rightarrow> obj \<Rightarrow> 'z db_scheme \<Rightarrow> obj" where
  "load_settings_into_config env_set config s = omerge config (setting_updates env_set (list_settings s) [])"

section \<open>Into the running services\<close>

record live_services =
  lv_config :: obj
  lv_behavioral_config :: obj
  lv_default_provider :: json
  lv_request_timeout :: json
  lv_encryption_enabled :: json
  lv_master_key :: json
  lv_memory_writes_limit :: json
  lv_tokens_limit :: json
  lv_webhook_url :: json
  lv_webhook_secret :: json
  lv_sweep_interval :: json
  lv_soft_delete_retention :: time

text \<open>\<^verbatim>\<open>round\<close> to the even neighbour, and \<^verbatim>\<open>timedelta(hours=v)\<close> in microseconds.\<close>

definition round_even :: "real \<Rightarrow> int" where
  "round_even r = (if r - of_int \<lfloor>r\<rfloor> = 1 / 2 then (if even \<lfloor>r\<rfloor> then \<lfloor>r\<rfloor> else \<lfloor>r\<rfloor> + 1) else round r)"

definition timedelta_hours :: "json \<Rightarrow> time res" where
  "timedelta_hours v = (case json_num v of
     None \<Rightarrow> Inl TypeError
   | Some h \<Rightarrow>
       let us = round_even (h * 3600000000) in
       if \<bar>us div 86400000000\<bar> \<le> 999999999 then Inr us else Inl OverflowError)"

definition apply_settings_to_context :: "obj \<Rightarrow> (live_services, unit) act" where
  "apply_settings_to_context config = (\<lambda>lv.
     let lv' = lv\<lparr>lv_config := config, lv_behavioral_config := config,
           lv_default_provider := oget config ''llm_default_provider'', lv_request_timeout := oget config ''llm_request_timeout_seconds'',
           lv_encryption_enabled := oget config ''memory_encryption_enabled'', lv_master_key := oget config ''memory_master_key'',
           lv_memory_writes_limit := oget config ''memory_writes_daily_limit'', lv_tokens_limit := oget config ''llm_tokens_daily_limit'',
           lv_webhook_url := oget config ''elevation_webhook_url'', lv_webhook_secret := oget config ''elevation_webhook_secret'',
           lv_sweep_interval := oget config ''memory_sweep_interval_seconds''\<rparr>
     in case timedelta_hours (oget config ''memory_soft_delete_retention_hours'') of
          Inl x \<Rightarrow> (Inl x, lv')
        | Inr d \<Rightarrow> (Inr (), lv'\<lparr>lv_soft_delete_retention := d\<rparr>))"

section \<open>What a reader sees\<close>

record setting_view =
  vw_key :: string
  vw_value :: json
  vw_secret :: bool
  vw_restart_required :: bool
  vw_updated_at :: time

definition MASK :: json where
  "MASK = JStr ''********''"

definition view_of :: "setting_row \<Rightarrow> setting_view" where
  "view_of row = \<lparr>vw_key = ss_key row, vw_value = (if ss_secret row then MASK else ss_value row), vw_secret = ss_secret row,
     vw_restart_required = ss_restart_required row, vw_updated_at = ss_updated_at row\<rparr>"

definition group_of :: "setting_row \<Rightarrow> string" where
  "group_of row = (case map_of SETTINGS_SPEC (ss_key row) of None \<Rightarrow> ''other'' | Some meta \<Rightarrow> sm_group meta)"

fun group_views :: "setting_row list \<Rightarrow> (string \<times> setting_view list) list \<Rightarrow> (string \<times> setting_view list) list" where
  "group_views [] acc = acc"
| "group_views (row # rows) acc =
     group_views rows (dput (group_of row) ((case map_of acc (group_of row) of None \<Rightarrow> [] | Some vs \<Rightarrow> vs) @ [view_of row]) acc)"

definition settings_public_view :: "setting_row list \<Rightarrow> (string \<times> setting_view list) list" where
  "settings_public_view rows = group_views rows []"

end
