(* ===== verification/Skill_Packages.thy ===== *)
theory Skill_Packages
  imports Host_Files Catalog
begin

text \<open>
  Skill packages on the control plane: the guard of \<^verbatim>\<open>skills/netguard.py\<close>, the download and extraction of
  \<^verbatim>\<open>skills/fetch.py\<close>, the checks of \<^verbatim>\<open>skills/validate.py\<close>, the front matter of \<^verbatim>\<open>skills/parse.py\<close>, the store of
  \<^verbatim>\<open>skills/store.py\<close> and the installation of \<^verbatim>\<open>skills/install.py\<close>, over the files of the host.

  The network, the registry of addresses, the archive formats and the YAML parser are the record
  \<open>package_world\<close>.  The host has no links, and extraction makes none.
\<close>

section \<open>Sources\<close>

record url_parts =
  u_scheme :: string
  u_hostname :: "string option"
  u_path :: string

datatype tar_kind = TarRegular | TarLink | TarOther

record package_world =
  pw_allowlist :: string  \<comment> \<open>\<^verbatim>\<open>CORVUS_SKILL_SOURCE_ALLOWLIST\<close>, empty when unset\<close>
  pw_address :: "string \<Rightarrow> bool option"  \<comment> \<open>whether an address is blocked; \<open>None\<close> when the text is none\<close>
  pw_dns :: "string \<Rightarrow> string list option"
  pw_fetch :: "string \<Rightarrow> string res"
  pw_zip :: "string \<Rightarrow> (string \<times> string) list option"
  pw_tar :: "string \<Rightarrow> (tar_kind \<times> string \<times> string) list option"
  pw_yaml :: "string \<Rightarrow> json res"
  pw_utf8 :: "string \<Rightarrow> string option"
  pw_refusal :: string  \<comment> \<open>the text of the error that ends an installation\<close>
  pw_stage :: ppath  \<comment> \<open>the new directory of \<^verbatim>\<open>mkdtemp\<close>\<close>

definition scheme_char :: "char \<Rightarrow> bool" where
  "scheme_char c \<longleftrightarrow> (let n = (of_char c :: nat) in
     (97 \<le> n \<and> n \<le> 122) \<or> (65 \<le> n \<and> n \<le> 90) \<or> (48 \<le> n \<and> n \<le> 57) \<or> c \<in> {CHR ''+'', CHR ''-'', CHR ''.''})"

definition letter :: "char \<Rightarrow> bool" where
  "letter c \<longleftrightarrow> (let n = (of_char c :: nat) in (97 \<le> n \<and> n \<le> 122) \<or> (65 \<le> n \<and> n \<le> 90))"

text \<open>\<^verbatim>\<open>urlparse\<close>: leading control characters and blanks and all line ends and tabs are dropped; then scheme, network
  location and path are split off.  Unbalanced brackets raise \<^verbatim>\<open>ValueError\<close>.\<close>

definition url_scheme :: "string \<Rightarrow> string \<times> string" where
  "url_scheme url = (case split_once (CHR '':'') url of (a, b) \<Rightarrow>
     if CHR '':'' \<in> set url \<and> a \<noteq> [] \<and> letter (hd a) \<and> list_all scheme_char a then (lower a, b) else ([], url))"

definition url_netloc :: "string \<Rightarrow> string \<times> string" where
  "url_netloc url = (if prefix ''//'' url
     then (takeWhile (\<lambda>c. c \<notin> {CHR ''/'', CHR ''?'', CHR ''#''}) (drop 2 url), dropWhile (\<lambda>c. c \<notin> {CHR ''/'', CHR ''?'', CHR ''#''}) (drop 2 url))
     else ([], url))"

definition url_hostname :: "string \<Rightarrow> string option" where
  "url_hostname netloc =
     (let hostinfo = rev (takeWhile (\<lambda>c. c \<noteq> CHR ''@'') (rev netloc));
          host = (if CHR ''['' \<in> set hostinfo then fst (split_once (CHR '']'') (snd (split_once (CHR ''['') hostinfo)))
                  else fst (split_once (CHR '':'') hostinfo));
          zone = dropWhile (\<lambda>c. c \<noteq> CHR ''%'') host
      in if host = [] then None else Some (lower (takeWhile (\<lambda>c. c \<noteq> CHR ''%'') host) @ zone))"

definition urlparse :: "string \<Rightarrow> url_parts res" where
  "urlparse url0 =
     (let url = filter (\<lambda>c. (of_char c :: nat) \<notin> {9, 10, 13}) (dropWhile (\<lambda>c. (of_char c :: nat) \<le> 32) url0);
          (scheme, rest) = url_scheme url; (netloc, rest') = url_netloc rest
      in if (CHR ''['' \<in> set netloc) \<noteq> (CHR '']'' \<in> set netloc) then Inl ValueError
         else Inr \<lparr>u_scheme = scheme, u_hostname = url_hostname netloc,
                u_path = fst (split_once (CHR ''?'') (fst (split_once (CHR ''#'') rest')))\<rparr>)"

definition parse_allowlist :: "string \<Rightarrow> string list" where
  "parse_allowlist raw = filter (\<lambda>p. p \<noteq> []) (map strip (split_on (CHR '','') raw))"

definition assert_prefix_allowed :: "string \<Rightarrow> string list \<Rightarrow> unit res" where
  "assert_prefix_allowed url allowlist =
     (if allowlist = [] then Inl ValueError else if \<not> list_ex (\<lambda>p. prefix p url) allowlist then Inl ValueError else Inr ())"

definition strip_brackets :: "string \<Rightarrow> string" where
  "strip_brackets s = (let b = (\<lambda>c. c \<in> {CHR ''['', CHR '']''}) in rev (dropWhile b (rev (dropWhile b s))))"

definition assert_host_not_private :: "package_world \<Rightarrow> string \<Rightarrow> unit res" where
  "assert_host_not_private w hostname =
     (let host = strip_brackets (strip hostname) in
      if host = [] then Inl ValueError
      else case pw_address w host of
             Some blocked \<Rightarrow> if blocked then Inl ValueError else Inr ()
           | None \<Rightarrow>
               (case pw_dns w host of
                  None \<Rightarrow> Inl ValueError
                | Some infos \<Rightarrow> if infos = [] then Inl ValueError
                    else if list_ex (\<lambda>a. pw_address w a = Some True) infos then Inl ValueError else Inr ()))"

definition assert_safe_http_url :: "package_world \<Rightarrow> string \<Rightarrow> string list \<Rightarrow> unit res" where
  "assert_safe_http_url w url allowlist =
     bindE (assert_prefix_allowed url allowlist) (\<lambda>_.
     bindE (urlparse url) (\<lambda>parsed.
       if u_scheme parsed \<notin> {''http'', ''https''} then Inl ValueError
       else case u_hostname parsed of None \<Rightarrow> Inl ValueError | Some h \<Rightarrow> assert_host_not_private w h))"

definition assert_source_allowed :: "package_world \<Rightarrow> string \<Rightarrow> unit res" where
  "assert_source_allowed w source =
     (if prefix ''file:'' source then Inr () else assert_safe_http_url w source (parse_allowlist (pw_allowlist w)))"

definition download_bytes :: "package_world \<Rightarrow> string \<Rightarrow> ('z host_fs_scheme, string) act" where
  "download_bytes w source =
     thenA (liftR (assert_source_allowed w source))
    (bindA (liftR (urlparse source)) (\<lambda>parsed.
       if u_scheme parsed = ''file'' then
         bindA (getS (\<lambda>s. map_of (hf_files s) (path_of (u_path parsed)))) (\<lambda>data.
           case data of None \<Rightarrow> raise ValueError | Some bytes \<Rightarrow> ret bytes)
       else if u_scheme parsed \<in> {''http'', ''https''} then liftR (pw_fetch w source)
       else raise ValueError))"

section \<open>Extraction\<close>

text \<open>\<^verbatim>\<open>Path.resolve\<close> where there are no links.\<close>

fun resolve_parts :: "string list \<Rightarrow> string list \<Rightarrow> string list" where
  "resolve_parts acc [] = acc"
| "resolve_parts acc (p # ps) = resolve_parts (if p = ''..'' then butlast acc else acc @ [p]) ps"

definition path_resolve :: "ppath \<Rightarrow> ppath" where
  "path_resolve p = PPath (pp_absolute p) (resolve_parts [] (pp_parts p))"

definition extract_member :: "ppath \<Rightarrow> string \<times> string \<Rightarrow> ('z host_fs_scheme, unit) act" where
  "extract_member dest = (\<lambda>(name, content).
     let target = path_resolve (path_add dest name) in
     if \<not> prefix (path_str (path_resolve dest)) (path_str target) then raise ValueError
     else thenA (mkdir_parents (path_parent target)) (write_file target content))"

definition safe_extract_zip :: "ppath \<Rightarrow> (string \<times> string) list \<Rightarrow> ('z host_fs_scheme, unit) act" where
  "safe_extract_zip dest members = forA members (\<lambda>(name, content).
     if suffix ''/'' name then ret () else extract_member dest (name, content))"

definition safe_extract_tar :: "ppath \<Rightarrow> (tar_kind \<times> string \<times> string) list \<Rightarrow> ('z host_fs_scheme, unit) act" where
  "safe_extract_tar dest members = forA members (\<lambda>(kind, m).
     case kind of TarRegular \<Rightarrow> extract_member dest m | TarLink \<Rightarrow> raise ValueError | TarOther \<Rightarrow> ret ())"

definition path_name :: "ppath \<Rightarrow> string" where
  "path_name p = (if pp_parts p = [] then [] else last (pp_parts p))"

definition find_skill_root :: "'z host_fs_scheme \<Rightarrow> ppath \<Rightarrow> string option \<Rightarrow> ppath res" where
  "find_skill_root s extract_root skill_id =
     (if opt_truthy skill_id then
        (case filter (\<lambda>d. path_name d = the skill_id)
                (map path_parent (filter (\<lambda>p. below extract_root p \<and> path_name p = ''SKILL.md'') (map fst (hf_files s)))) of
           [d] \<Rightarrow> Inr d | _ \<Rightarrow> Inl ValueError)
      else if is_file s (path_add extract_root ''SKILL.md'') then Inr extract_root
      else (case List.find (\<lambda>d. path_parent d = extract_root \<and> d \<noteq> extract_root \<and> is_file s (path_add d ''SKILL.md'')) (hf_dirs s) of
              None \<Rightarrow> Inl ValueError | Some d \<Rightarrow> Inr d))"

definition fetch_and_extract ::
  "env \<Rightarrow> package_world \<Rightarrow> string \<Rightarrow> string \<Rightarrow> string \<Rightarrow> ppath \<Rightarrow> string option \<Rightarrow> ('z host_fs_scheme, ppath) act" where
  "fetch_and_extract e w source pin sha dest skill_id =
     (if pin = [] \<or> lower pin = ''latest'' then raise ValueError
      else if sha = [] \<or> length sha < 32 then raise ValueError
      else bindA (download_bytes w source) (\<lambda>blob.
        if lower (hexdigest (sha256 e blob)) \<noteq> lower sha then raise ValueError
        else
          let extract_root = path_add dest ''extract'' in
          thenA (mkdir_parents dest)
         (thenA (rmtree_if_exists extract_root)
         (thenA (mkdir_parents extract_root)
         (thenA (case pw_zip w blob of
                   Some members \<Rightarrow> safe_extract_zip extract_root members
                 | None \<Rightarrow> (case pw_tar w blob of None \<Rightarrow> raise ValueError | Some members \<Rightarrow> safe_extract_tar extract_root members))
         (bindA (getS (\<lambda>s. find_skill_root s extract_root skill_id)) liftR))))))"

section \<open>Checks\<close>

definition MAX_PACKAGE_BYTES :: int where
  "MAX_PACKAGE_BYTES = 2 * 1024 * 1024"

definition MAX_FILES :: int where
  "MAX_FILES = 200"

text \<open>A tree is refused whatever the order in which its files are found.\<close>

definition tree_files :: "'z host_fs_scheme \<Rightarrow> ppath \<Rightarrow> (ppath \<times> string) list" where
  "tree_files s tree = filter (\<lambda>(p, _). below tree p) (hf_files s)"

definition rel_text :: "ppath \<Rightarrow> ppath \<Rightarrow> string" where
  "rel_text tree p = path_str (PPath False (drop (length (pp_parts tree)) (pp_parts p)))"

definition validate_skill_tree :: "'z host_fs_scheme \<Rightarrow> ppath \<Rightarrow> string list res" where
  "validate_skill_tree s tree =
     (if \<not> is_dir s tree then Inl ValueError
      else if \<not> is_file s (path_add tree ''SKILL.md'') then Inl ValueError
      else if MAX_PACKAGE_BYTES < sum_list (map (\<lambda>(_, c). int (length c)) (tree_files s tree)) then Inl ValueError
      else if MAX_FILES < int (length (tree_files s tree)) then Inl ValueError
      else Inr (sort (map (\<lambda>(p, _). rel_text tree p) (tree_files s tree))))"

section \<open>Front matter\<close>

record parsed_skill =
  ps_name :: string
  ps_description :: string
  ps_body :: string
  ps_license :: "string option"
  ps_compatibility :: "string option"
  ps_metadata :: "(string \<times> string) list"
  ps_allowed_tools :: "string list"
  ps_raw_frontmatter :: obj

text \<open>The text up to and after the first \<open>mark\<close>.\<close>

fun cut_at :: "string \<Rightarrow> string \<Rightarrow> (string \<times> string) option" where
  "cut_at mark [] = (if mark = [] then Some ([], []) else None)"
| "cut_at mark (c # cs) =
     (if prefix mark (c # cs) then Some ([], drop (length mark) (c # cs))
      else map_option (\<lambda>(a, b). (c # a, b)) (cut_at mark cs))"

text \<open>The expression \<^verbatim>\<open>---\s*\n(.*?)\n---\s*\n?(.*)\<close> over the whole text: the blanks after the first mark are taken as
  far as they end with a line end after which the second mark follows.\<close>

fun front_starts :: "string \<Rightarrow> string list" where
  "front_starts [] = []"
| "front_starts (c # cs) = (if py_space c then front_starts cs @ (if [c] = line_break then [cs] else []) else [])"

definition frontmatter :: "string \<Rightarrow> (string \<times> string) option" where
  "frontmatter txt =
     (if prefix ''---'' txt then
        (case List.find (\<lambda>rest. cut_at (line_break @ ''---'') rest \<noteq> None) (front_starts (drop 3 txt)) of
           None \<Rightarrow> None | Some rest \<Rightarrow> cut_at (line_break @ ''---'') rest)
      else None)"

definition name_char :: "char \<Rightarrow> bool" where
  "name_char c \<longleftrightarrow> (let n = (of_char c :: nat) in (97 \<le> n \<and> n \<le> 122) \<or> (48 \<le> n \<and> n \<le> 57))"

definition skill_name_ok :: "string \<Rightarrow> bool" where
  "skill_name_ok name \<longleftrightarrow> name \<noteq> [] \<and> length name \<le> 64 \<and> list_all (\<lambda>p. p \<noteq> [] \<and> list_all name_char p) (split_on (CHR ''-'') name)"

fun split_space :: "string \<Rightarrow> string list" where
  "split_space [] = []"
| "split_space (c # cs) =
     (if py_space c then split_space cs
      else case cs of
        [] \<Rightarrow> [[c]]
      | d # _ \<Rightarrow> if py_space d then [c] # split_space cs else (case split_space cs of [] \<Rightarrow> [[c]] | t # ts \<Rightarrow> (c # t) # ts))"

definition allowed_tools_of :: "json \<Rightarrow> string list" where
  "allowed_tools_of v = (case v of JStr t \<Rightarrow> split_space t | JArr xs \<Rightarrow> map py_str xs | _ \<Rightarrow> [])"

definition text_field :: "obj \<Rightarrow> string \<Rightarrow> string" where
  "text_field d k = strip (py_str (py_or (oget d k) (JStr [])))"

definition opt_field :: "obj \<Rightarrow> string \<Rightarrow> string option" where
  "opt_field d k = (if truthy (oget d k) then Some (py_str (oget d k)) else None)"

definition metadata_of :: "obj \<Rightarrow> (string \<times> string) list res" where
  "metadata_of d = (case py_or (oget d ''metadata'') (JObj []) of JObj m \<Rightarrow> Inr (map (\<lambda>(k, v). (k, py_str v)) m) | _ \<Rightarrow> Inl AttributeError)"

definition parse_skill_md :: "package_world \<Rightarrow> string \<Rightarrow> string option \<Rightarrow> parsed_skill res" where
  "parse_skill_md w txt expect_dir_name =
     (case frontmatter txt of
        None \<Rightarrow> Inl ValueError
      | Some (front, body) \<Rightarrow>
          bindE (pw_yaml w front) (\<lambda>loaded.
            case py_or loaded (JObj []) of
              JObj d \<Rightarrow>
                let name = text_field d ''name''; description = text_field d ''description'' in
                if \<not> skill_name_ok name then Inl ValueError
                else if expect_dir_name \<noteq> None \<and> expect_dir_name \<noteq> Some name then Inl ValueError
                else if description = [] \<or> 1024 < int (length description) then Inl ValueError
                else bindE (metadata_of d) (\<lambda>metadata.
                  Inr \<lparr>ps_name = name, ps_description = description, ps_body = strip body, ps_license = opt_field d ''license'',
                       ps_compatibility = opt_field d ''compatibility'', ps_metadata = metadata,
                       ps_allowed_tools = allowed_tools_of (py_or (oget d ''allowed-tools'') (oget d ''allowed_tools'')),
                       ps_raw_frontmatter = d\<rparr>)
            | _ \<Rightarrow> Inl ValueError))"

definition read_package_md :: "package_world \<Rightarrow> ppath \<Rightarrow> ('z host_fs_scheme, string) act" where
  "read_package_md w p = bindA (read_file p) (\<lambda>bytes.
     case pw_utf8 w bytes of None \<Rightarrow> raise ValueError | Some t \<Rightarrow> ret (universal_newlines t))"

section \<open>The store\<close>

text \<open>What the digest of a package is taken of: each name, a zero byte and the content.\<close>

definition package_bytes :: "'z host_fs_scheme \<Rightarrow> ppath \<Rightarrow> string list \<Rightarrow> string" where
  "package_bytes s tree files = concat (map (\<lambda>rel. rel @ [char_of (0 :: nat)] @ (case map_of (hf_files s) (path_add tree rel) of None \<Rightarrow> [] | Some c \<Rightarrow> c)) files)"

definition package_digest :: "env \<Rightarrow> 'z host_fs_scheme \<Rightarrow> ppath \<Rightarrow> string list \<Rightarrow> string" where
  "package_digest e s tree files = hexdigest (sha256 e (package_bytes s tree files))"

definition copy_file :: "ppath \<Rightarrow> ppath \<Rightarrow> ('z host_fs_scheme, unit) act" where
  "copy_file src dest = bindA (read_file src) (\<lambda>c. write_file dest c)"

definition copy_files :: "ppath \<Rightarrow> ppath \<Rightarrow> string list \<Rightarrow> ('z host_fs_scheme, unit) act" where
  "copy_files src dest files = forA files (\<lambda>rel.
     thenA (mkdir_parents (path_parent (path_add dest rel))) (copy_file (path_add src rel) (path_add dest rel)))"

definition write_tree ::
  "env \<Rightarrow> package_world \<Rightarrow> ppath \<Rightarrow> ppath \<Rightarrow> string \<Rightarrow> string \<Rightarrow> ('z host_fs_scheme, string \<times> ppath \<times> parsed_skill) act" where
  "write_tree e w store src name version =
     bindA (getS (\<lambda>s. validate_skill_tree s src)) (\<lambda>checked. bindA (liftR checked) (\<lambda>files.
     bindA (getS (\<lambda>s. package_digest e s src files)) (\<lambda>content_hash.
     let dest = package_dir store name version content_hash in
     thenA (rmtree_if_exists dest)
    (thenA (mkdir_parents dest)
    (thenA (copy_files src dest files)
    (bindA (read_package_md w (path_add dest ''SKILL.md'')) (\<lambda>txt.
     bindA (liftR (parse_skill_md w txt (Some name))) (\<lambda>parsed.
     thenA (write_file (path_add dest ''.corvus-skill.json'')
              (json_indented 0 (JObj [(''name'', JStr name), (''version'', JStr version), (''content_hash'', JStr content_hash),
                 (''files'', jstrs files)]) @ line_break))
       (ret (content_hash, dest, parsed))))))))))"

section \<open>Installation\<close>

record install_request =
  ir_source :: string
  ir_pin :: string
  ir_sha256 :: string
  ir_allow_scripts :: bool
  ir_dry_run :: bool
  ir_version :: "string option"
  ir_skill_id :: "string option"

record install_result =
  is_dry_run :: bool
  is_name :: string
  is_version :: string
  is_description :: string
  is_content_hash :: string
  is_files :: "string list"
  is_allow_scripts :: bool
  is_source_uri :: string
  is_source_pin :: string
  is_store_path :: "string option"
  is_entry :: obj

definition parsed_name_hint :: "ppath \<Rightarrow> string option" where
  "parsed_name_hint skill_root = (if path_name skill_root \<in> {''extract'', ''tmp'', ''tmp0''} then None else Some (path_name skill_root))"

definition version_of :: "install_request \<Rightarrow> parsed_skill \<Rightarrow> string" where
  "version_of req parsed =
     (if opt_truthy (ir_version req) then the (ir_version req)
      else case map_of (ps_metadata parsed) ''version'' of None \<Rightarrow> ir_pin req | Some v \<Rightarrow> if v = [] then ir_pin req else v)"

definition install_entry :: "install_request \<Rightarrow> parsed_skill \<Rightarrow> string \<Rightarrow> string \<Rightarrow> string \<Rightarrow> ppath \<Rightarrow> skill_entry" where
  "install_entry req parsed name version content_hash dest =
     \<lparr>sk_name = name, sk_version = version, sk_runtime_dependencies = [], sk_exposed_tool_schemas = [''skill_read'', ''skill_run''],
      sk_package_source = ''agentskills'', sk_format = ''agentskills'', sk_content_hash = Some content_hash,
      sk_source_uri = Some (ir_source req), sk_source_pin = Some (ir_pin req), sk_allow_scripts = ir_allow_scripts req,
      sk_install_status = ''approved'', sk_description = ps_description parsed, sk_store_path = Some (path_str dest)\<rparr>"

definition install_fetched :: "env \<Rightarrow> package_world \<Rightarrow> ppath \<Rightarrow> install_request \<Rightarrow> ppath \<Rightarrow> ('z host_fs_scheme, install_result) act" where
  "install_fetched e w store req skill_root =
     bindA (getS (\<lambda>s. validate_skill_tree s skill_root)) (\<lambda>checked. bindA (liftR checked) (\<lambda>files.
     bindA (read_package_md w (path_add skill_root ''SKILL.md'')) (\<lambda>txt.
     bindA (liftR (parse_skill_md w txt (parsed_name_hint skill_root))) (\<lambda>parsed.
     bindA (getS (\<lambda>s. is_file s (path_add skill_root ''SKILL.md''))) (\<lambda>has_md.
     let name = ps_name parsed; version = version_of req parsed in
     if path_name skill_root \<notin> {name, ''extract''} \<and> has_md then raise ValueError
     else if ir_dry_run req then
       bindA (getS (\<lambda>s. package_digest e s skill_root files)) (\<lambda>content_hash.
         ret \<lparr>is_dry_run = True, is_name = name, is_version = version, is_description = ps_description parsed,
              is_content_hash = content_hash, is_files = files, is_allow_scripts = ir_allow_scripts req,
              is_source_uri = ir_source req, is_source_pin = ir_pin req, is_store_path = None, is_entry = []\<rparr>)
     else
       bindA (write_tree e w store skill_root name version) (\<lambda>(content_hash, dest, parsed').
         ret \<lparr>is_dry_run = False, is_name = name, is_version = version, is_description = ps_description parsed',
              is_content_hash = content_hash, is_files = files, is_allow_scripts = ir_allow_scripts req,
              is_source_uri = ir_source req, is_source_pin = ir_pin req, is_store_path = Some (path_str dest),
              is_entry = dump_skill_entry (install_entry req parsed' name version content_hash dest)\<rparr>))))))"

text \<open>\<^verbatim>\<open>mkdtemp\<close> makes the staging directory, and the \<^verbatim>\<open>finally\<close> clause removes it whatever happened.\<close>

definition finally_remove :: "ppath \<Rightarrow> ('z host_fs_scheme, 'a) act \<Rightarrow> ('z host_fs_scheme, 'a) act" where
  "finally_remove stage m = (\<lambda>s. case m s of (r, s') \<Rightarrow> (r, snd (rmtree_if_exists stage s')))"

definition install_skill :: "env \<Rightarrow> package_world \<Rightarrow> ppath \<Rightarrow> install_request \<Rightarrow> ('z host_fs_scheme, install_result) act" where
  "install_skill e w store req =
     thenA (mkdir_parents (pw_stage w))
       (finally_remove (pw_stage w)
         (bindA (fetch_and_extract e w (ir_source req) (ir_pin req) (ir_sha256 req) (pw_stage w) (ir_skill_id req))
            (install_fetched e w store req)))"

end
