(* ===== verification/Management_Api.thy ===== *)
theory Management_Api
  imports Operator_Chat Vm_Launcher Settings Skill_Packages
begin

text \<open>
  The management API of \<^verbatim>\<open>management/api.py\<close>: the rate limit and the key in front of every endpoint, and the
  endpoints over the database, the catalog, the rules, the launcher and the live settings.  The body of a
  request is taken as the model FastAPI has parsed it into.  An HTTP error is a value, its status and its
  code; an exception no handler catches ends a request with status 500 and leaves what was written.  A row of
  a table stands for the dictionary the database makes of it.
\<close>

record api_state = gateway_state +
  api_limiter :: window_limiter
  api_live :: live_services
  api_vms :: launcher_state
  api_vm_catalog :: capability_catalog  \<comment> \<open>\<^verbatim>\<open>vm_launcher.catalog\<close>\<close>
  api_memory_catalog :: capability_catalog  \<comment> \<open>\<^verbatim>\<open>ctx.memory\<close>\<close>
  api_registry :: "(string \<times> provider_config) list"  \<comment> \<open>\<^verbatim>\<open>ctx.llm_registry\<close> and \<^verbatim>\<open>ctx.llm.registry\<close>\<close>

text \<open>What an app is created with and what surrounds it.\<close>

record api_world =
  aw_services :: services
  aw_memory_sweeping :: bool  \<comment> \<open>\<^verbatim>\<open>ctx.memory_sweeper.is_running\<close>\<close>
  aw_elevation_sweeping :: bool
  aw_env_set :: "string \<Rightarrow> bool"
  aw_vm_config :: vm_config
  aw_fc :: fc_world
  aw_packages :: package_world

type_synonym 'a http = "http_error + 'a"

definition on_limiter :: "(window_limiter, 'a) act \<Rightarrow> ('z api_state_scheme, 'a) act" where
  "on_limiter m = (\<lambda>s. case m (api_limiter s) of (r, l) \<Rightarrow> (r, s\<lparr>api_limiter := l\<rparr>))"

definition on_live :: "(live_services, 'a) act \<Rightarrow> ('z api_state_scheme, 'a) act" where
  "on_live m = (\<lambda>s. case m (api_live s) of (r, l) \<Rightarrow> (r, s\<lparr>api_live := l\<rparr>))"

definition on_vms :: "(launcher_state, 'a) act \<Rightarrow> ('z api_state_scheme, 'a) act" where
  "on_vms m = (\<lambda>s. case m (api_vms s) of (r, h) \<Rightarrow> (r, s\<lparr>api_vms := h\<rparr>))"

text \<open>\<^verbatim>\<open>raise HTTPException(status, _error(code, ...))\<close>\<close>

definition http_fail :: "nat \<Rightarrow> string \<Rightarrow> ('s, 'a http) act" where
  "http_fail status code = ret (Inl (status, code))"

definition http_ok :: "'a \<Rightarrow> ('s, 'a http) act" where
  "http_ok x = ret (Inr x)"

text \<open>The body of a handler after a step that may have ended the request.\<close>

definition bindH :: "('s, 'a http) act \<Rightarrow> ('a \<Rightarrow> ('s, 'b http) act) \<Rightarrow> ('s, 'b http) act" where
  "bindH m f = bindA m (\<lambda>r. case r of Inl err \<Rightarrow> ret (Inl err) | Inr x \<Rightarrow> f x)"

text \<open>\<^verbatim>\<open>except ValueError\<close>; the validation error of a model is one.\<close>

definition catch_value :: "nat \<Rightarrow> string \<Rightarrow> ('s, 'a) act \<Rightarrow> ('s, 'a http) act" where
  "catch_value status code m = (\<lambda>s. case m s of
     (Inr x, s') \<Rightarrow> (Inr (Inr x), s')
   | (Inl x, s') \<Rightarrow> if x = ValueError \<or> x = ValidationError then (Inr (Inl (status, code)), s') else (Inl x, s'))"

section \<open>In front of every endpoint\<close>

record api_request =
  rq_path :: string
  rq_internal :: string  \<comment> \<open>\<^verbatim>\<open>x-corvus-internal\<close>\<close>
  rq_api_key :: string  \<comment> \<open>\<^verbatim>\<open>x-api-key\<close>, empty when absent\<close>
  rq_client :: "string option"

definition require_api_key :: "api_request \<Rightarrow> ('z api_state_scheme, unit http) act" where
  "require_api_key rq = bindA (getS (\<lambda>s. oget (lv_config (api_live s)) ''api_key'')) (\<lambda>key.
     if JStr (rq_api_key rq) \<noteq> key then http_fail 401 ''Invalid API key'' else http_ok ())"

definition client_key :: "api_request \<Rightarrow> string" where
  "client_key rq = (if rq_api_key rq \<noteq> [] then ''key:'' @ rq_api_key rq
     else ''ip:'' @ (case rq_client rq of None \<Rightarrow> ''unknown'' | Some c \<Rightarrow> c))"

definition rate_limit_dispatch :: "time \<Rightarrow> api_request \<Rightarrow> ('z api_state_scheme, 'a http) act \<Rightarrow> ('z api_state_scheme, 'a http) act" where
  "rate_limit_dispatch t rq call_next =
     (if \<not> prefix ''/v1'' (rq_path rq) then call_next
      else if rq_internal rq = ''ui'' then call_next
      else bindA (on_limiter (window_allow t (client_key rq))) (\<lambda>allowed.
        if \<not> allowed then
          bindA (getS (\<lambda>s. retry_after_seconds t (client_key rq) (api_limiter s))) (\<lambda>retry_after.
          thenA (liftR retry_after) (http_fail 429 ''API_RATE_LIMITED''))
        else call_next))"

definition api_call :: "time \<Rightarrow> api_request \<Rightarrow> ('z api_state_scheme, 'a http) act \<Rightarrow> ('z api_state_scheme, 'a http) act" where
  "api_call t rq handler = rate_limit_dispatch t rq (bindH (require_api_key rq) (\<lambda>_. handler))"

section \<open>Catalog\<close>

definition normalize_catalog_kind :: "string \<Rightarrow> string" where
  "normalize_catalog_kind kind =
     (if kind = ''memory-namespaces'' then ''memory_namespaces'' else if kind = ''llm-providers'' then ''llm_providers'' else kind)"

definition after_catalog_write :: "string \<Rightarrow> ('z api_state_scheme, unit) act" where
  "after_catalog_write kind = modS (\<lambda>s.
     let s' = s\<lparr>api_memory_catalog := live_catalog s, api_vm_catalog := live_catalog s\<rparr> in
     if kind = ''llm_providers'' then
       (case rebuild_llm_registry (live_catalog s) of None \<Rightarrow> s' | Some r \<Rightarrow> s'\<lparr>api_registry := r\<rparr>)
     else s')"

definition catalog_create :: "env \<Rightarrow> string \<Rightarrow> obj \<Rightarrow> ('z api_state_scheme, obj http) act" where
  "catalog_create e kind0 body =
     (let kind = normalize_catalog_kind kind0 in
      bindH (catch_value 422 ''CATALOG_INVALID'' (catalog_upsert e kind body)) (\<lambda>entry.
      thenA (after_catalog_write kind)
     (thenA (log_api_mutation e (''POST /v1/catalog/'' @ kind) [(''kind'', JStr kind), (''entry'', JObj entry)])
        (http_ok [(''entry'', JObj entry)]))))"

definition catalog_id_field :: "string \<Rightarrow> string option" where
  "catalog_id_field kind = map_of [(''tools'', ''name''), (''skills'', ''name''), (''workspaces'', ''id''),
     (''memory_namespaces'', ''name''), (''llm_providers'', ''provider_id'')] kind"

definition catalog_put :: "env \<Rightarrow> string \<Rightarrow> string \<Rightarrow> obj \<Rightarrow> ('z api_state_scheme, obj http) act" where
  "catalog_put e kind0 entry_id body =
     (let kind = normalize_catalog_kind kind0 in
      case catalog_id_field kind of
        None \<Rightarrow> http_fail 404 ''CATALOG_KIND_UNKNOWN''
      | Some id_field \<Rightarrow>
          bindH (catch_value 422 ''CATALOG_INVALID'' (catalog_upsert e kind (oset id_field (JStr entry_id) body))) (\<lambda>entry.
          thenA (after_catalog_write kind)
         (thenA (log_api_mutation e (''PUT /v1/catalog/'' @ kind @ ''/'' @ entry_id) [(''kind'', JStr kind), (''entry_id'', JStr entry_id)])
            (http_ok [(''entry'', JObj entry)]))))"

definition catalog_remove :: "env \<Rightarrow> string \<Rightarrow> string \<Rightarrow> ('z api_state_scheme, obj http) act" where
  "catalog_remove e kind0 entry_id =
     (let kind = normalize_catalog_kind kind0 in
      bindH (catch_value 422 ''CATALOG_INVALID'' (catalog_delete kind entry_id)) (\<lambda>found.
      if \<not> found then http_fail 404 ''CATALOG_ENTRY_NOT_FOUND''
      else thenA (after_catalog_write kind)
          (thenA (log_api_mutation e (''DELETE /v1/catalog/'' @ kind @ ''/'' @ entry_id) [(''kind'', JStr kind), (''entry_id'', JStr entry_id)])
             (http_ok [(''deleted'', JBool True), (''kind'', JStr kind), (''entry_id'', JStr entry_id)]))))"

text \<open>\<^verbatim>\<open>install_skill(InstallRequest(...), store=SkillStore())\<close>; the store is that of the launcher.\<close>

definition install_body :: "obj \<Rightarrow> install_request" where
  "install_body body =
     \<lparr>ir_source = text_field body ''source'', ir_pin = text_field body ''pin'', ir_sha256 = text_field body ''sha256'',
      ir_allow_scripts = truthy (oget body ''allow_scripts''), ir_dry_run = truthy (oget body ''dry_run''),
      ir_version = opt_field body ''version'', ir_skill_id = None\<rparr>"

definition run_install :: "env \<Rightarrow> api_world \<Rightarrow> install_request \<Rightarrow> ('z api_state_scheme, install_result) act" where
  "run_install e aw req = on_vms (on_fs
     (thenA (mkdir_parents (fc_store (aw_fc aw))) (install_skill e (aw_packages aw) (fc_store (aw_fc aw)) req)))"

definition install_reply :: "install_result \<Rightarrow> obj" where
  "install_reply r =
     [(''dry_run'', JBool (is_dry_run r)), (''name'', JStr (is_name r)), (''version'', JStr (is_version r)),
      (''description'', JStr (is_description r)), (''content_hash'', JStr (is_content_hash r)), (''files'', jstrs (is_files r)),
      (''allow_scripts'', JBool (is_allow_scripts r)), (''source_uri'', JStr (is_source_uri r)), (''source_pin'', JStr (is_source_pin r)),
      (''store_path'', jopt (is_store_path r)), (''entry'', if is_entry r = [] then JNull else JObj (is_entry r))]"

definition record_install :: "env \<Rightarrow> install_request \<Rightarrow> install_result \<Rightarrow> ('z api_state_scheme, unit) act" where
  "record_install e req result =
     thenA (catalog_upsert e ''skills'' (is_entry result))
    (thenA (after_catalog_write ''skills'')
       (log_api_mutation e ''POST /v1/catalog/skills/install''
          [(''event'', JStr ''skill_install''), (''name'', JStr (is_name result)), (''source'', JStr (ir_source req)), (''pin'', JStr (ir_pin req)),
           (''content_hash'', JStr (is_content_hash result)), (''allow_scripts'', JBool (ir_allow_scripts req))]))"

definition catalog_skills_install :: "env \<Rightarrow> api_world \<Rightarrow> obj \<Rightarrow> ('z api_state_scheme, obj http) act" where
  "catalog_skills_install e aw body =
     (let req = install_body body in
      if ir_source req = [] \<or> ir_pin req = [] \<or> ir_sha256 req = [] then http_fail 422 ''SKILL_INSTALL_INVALID''
      else bindA (catch_value 400 ''SKILL_INSTALL_DENIED'' (run_install e aw req)) (\<lambda>installed.
        case installed of
          Inl denied \<Rightarrow>
            thenA (log_api_mutation e ''POST /v1/catalog/skills/install'' [(''event'', JStr ''skill_deny''), (''source'', JStr (ir_source req)), (''pin'', JStr (ir_pin req)),
                     (''reason'', JStr (pw_refusal (aw_packages aw)))])
              (ret (Inl denied))
        | Inr result \<Rightarrow>
            thenA (whenA (\<not> ir_dry_run req \<and> is_entry result \<noteq> []) (record_install e req result))
              (http_ok (install_reply result))))"

definition catalog_part :: "string \<Rightarrow> 'z api_state_scheme \<Rightarrow> json" where
  "catalog_part name s = (case map_of (api_payload (live_catalog s)) name of None \<Rightarrow> JNull | Some es \<Rightarrow> JArr (map JObj es))"

definition catalog_tools :: "('z api_state_scheme, obj http) act" where
  "catalog_tools = bindA (getS (catalog_part ''tools'')) (\<lambda>v. http_ok [(''tools'', v)])"

definition catalog_skills :: "('z api_state_scheme, obj http) act" where
  "catalog_skills = bindA (getS (catalog_part ''skills'')) (\<lambda>v. http_ok [(''skills'', v)])"

definition catalog_llm_providers :: "('z api_state_scheme, obj http) act" where
  "catalog_llm_providers = bindA (getS api_registry) (\<lambda>ps. http_ok [(''llm_providers'', JArr (map (JObj \<circ> public_payload \<circ> snd) ps))])"

definition catalog_workspaces :: "('z api_state_scheme, obj http) act" where
  "catalog_workspaces = bindA (getS (\<lambda>s. (catalog_part ''workspaces'' s, catalog_part ''memory_namespaces'' s))) (\<lambda>(w, m).
     http_ok [(''workspaces'', w), (''memory_namespaces'', m)])"

section \<open>Agents\<close>

definition agent_obj :: "agent_row \<Rightarrow> obj" where
  "agent_obj a = [(''id'', JStr (ag_id a)), (''manifest_hash'', JStr (ag_manifest_hash a)), (''manifest'', JObj (ag_manifest a)),
     (''created_at'', JStr (isoformat (ag_created_at a)))]"

definition agent_with_vm_status :: "env \<Rightarrow> agent_row \<Rightarrow> ('z api_state_scheme, obj) act" where
  "agent_with_vm_status e a = bindA (on_vms (latest_by_agent e (ag_id a))) (\<lambda>vm.
     ret (omerge (agent_obj a) (case vm of
       None \<Rightarrow> [(''status'', JStr ''stopped''), (''vm_instance_id'', JNull), (''guest_cid'', JNull), (''last_error'', JNull)]
     | Some r \<Rightarrow> [(''status'', JStr (vm_status r)), (''vm_instance_id'', JStr (vm_instance_id r)),
                  (''guest_cid'', JInt (vm_guest_cid r)), (''last_error'', jopt (vm_last_error r))])))"

fun each :: "('a \<Rightarrow> ('s, 'b) act) \<Rightarrow> 'a list \<Rightarrow> ('s, 'b list) act" where
  "each f [] = ret []"
| "each f (x # xs) = bindA (f x) (\<lambda>y. bindA (each f xs) (\<lambda>ys. ret (y # ys)))"

definition list_agents_endpoint :: "env \<Rightarrow> ('z api_state_scheme, obj list http) act" where
  "list_agents_endpoint e = bindA (getS list_agents) (\<lambda>agents. bindA (each (agent_with_vm_status e) agents) http_ok)"

text \<open>\<^verbatim>\<open>canonical_manifest(resolve_manifest(body.manifest, catalog=...))\<close>\<close>

definition resolve_body :: "env \<Rightarrow> agent_manifest \<Rightarrow> ('z api_state_scheme, agent_manifest http) act" where
  "resolve_body e m = catch_value 422 ''MANIFEST_CATALOG_INVALID''
     (bindA (getS live_catalog) (\<lambda>c. liftR (resolve_model e c m)))"

text \<open>The expiry of a launch grant is a datetime with an offset.\<close>

definition create_launch_grant :: "env \<Rightarrow> string \<Rightarrow> launch_grant \<Rightarrow> ('z db_scheme, unit) act" where
  "create_launch_grant e agent_id g = thenA (create_grant e agent_id (lg_target_agent g) (lg_namespace g)
     (map JStr (lg_permissions g)) ''launch_manifest'' (map_option IsoAware (lg_expires_at g)) None ''active'') (ret ())"

text \<open>Every grant gets an identifier of its own: \<open>envs\<close> are the environments of the grants.\<close>

definition create_agent :: "env \<Rightarrow> (nat \<Rightarrow> env) \<Rightarrow> string \<Rightarrow> agent_manifest \<Rightarrow> ('z api_state_scheme, obj http) act" where
  "create_agent e envs agent_id body = bindH (resolve_body e body) (\<lambda>resolved.
     let manifest = canonical_manifest e resolved; mh = manifest_hash e manifest in
     thenA (upsert_agent e agent_id mh manifest)
    (thenA (forA (enumerate 0 (am_launch_grants resolved)) (\<lambda>(i, g). create_launch_grant (envs i) agent_id g))
    (thenA (log_api_mutation e ''POST /v1/agents'' [(''agent_id'', JStr agent_id), (''manifest_hash'', JStr mh)])
       (http_ok [(''id'', JStr agent_id), (''manifest_hash'', JStr mh)]))))"

definition find_agent :: "string \<Rightarrow> ('z api_state_scheme, agent_row http) act" where
  "find_agent agent_id = bindA (getS (get_agent agent_id)) (\<lambda>a.
     case a of None \<Rightarrow> http_fail 404 ''AGENT_NOT_FOUND'' | Some row \<Rightarrow> http_ok row)"

definition UNSAFE_KEYS :: "string list" where
  "UNSAFE_KEYS = [''engines'', ''workspaces'', ''rootfs_image'', ''skills'']"

text \<open>Two values of a JSON text are equal whatever the order of their keys.\<close>

definition needs_stop :: "env \<Rightarrow> agent_row \<Rightarrow> vm_record option \<Rightarrow> agent_manifest \<Rightarrow> bool" where
  "needs_stop e agent vm body \<longleftrightarrow>
     (\<exists>r. vm = Some r \<and> vm_status r \<in> set [''running'', ''starting'', ''degraded''])
     \<and> list_ex (\<lambda>key. json_sorted (oget (ag_manifest agent) key) \<noteq> json_sorted (oget (canonical_manifest e body) key)) UNSAFE_KEYS"

definition patch_agent :: "env \<Rightarrow> string \<Rightarrow> agent_manifest \<Rightarrow> ('z api_state_scheme, obj http) act" where
  "patch_agent e agent_id body = bindH (find_agent agent_id) (\<lambda>agent.
     bindA (on_vms (get_by_agent e agent_id)) (\<lambda>active_vm.
     if needs_stop e agent active_vm body then http_fail 409 ''AGENT_PATCH_REQUIRES_STOP''
     else bindH (resolve_body e body) (\<lambda>resolved.
       let manifest = canonical_manifest e resolved; mh = manifest_hash e manifest in
       thenA (upsert_agent e agent_id mh manifest)
      (thenA (log_api_mutation e (''PATCH /v1/agents/'' @ agent_id) [(''agent_id'', JStr agent_id), (''manifest_hash'', JStr mh)])
         (http_ok [(''id'', JStr agent_id), (''manifest_hash'', JStr mh), (''manifest'', JObj manifest)])))))"

definition get_agent_manifest :: "string \<Rightarrow> ('z api_state_scheme, obj http) act" where
  "get_agent_manifest agent_id = bindH (find_agent agent_id) (\<lambda>a.
     http_ok [(''agent_id'', JStr agent_id), (''manifest_hash'', JStr (ag_manifest_hash a)), (''manifest'', JObj (ag_manifest a))])"

section \<open>Memory namespaces of an agent\<close>

definition manifest_namespaces :: "agent_row \<Rightarrow> json list res" where
  "manifest_namespaces a =
     bindE (jget (oget_or (ag_manifest a) ''engines'' (JObj [])) ''engine4'' (JObj [])) (\<lambda>engine4.
     bindE (jget engine4 ''namespaces'' (JArr [JStr ''private''])) py_iter)"

definition require_agent_namespace :: "string \<Rightarrow> string \<Rightarrow> ('z api_state_scheme, agent_row http) act" where
  "require_agent_namespace agent_id namespace = bindH (find_agent agent_id) (\<lambda>agent.
     bindA (getS (\<lambda>s. map_of (cat_memory_namespaces (live_catalog s)) namespace)) (\<lambda>template.
     if template = None then http_fail 422 ''NAMESPACE_TEMPLATE_INVALID''
     else bindA (liftR (manifest_namespaces agent)) (\<lambda>assigned.
       if JStr namespace \<notin> set assigned then http_fail 404 ''NAMESPACE_NOT_ASSIGNED'' else http_ok agent)))"

definition namespace_payload :: "string \<Rightarrow> string \<Rightarrow> namespace_template \<Rightarrow> namespace_quota_row option \<Rightarrow> obj" where
  "namespace_payload agent_id namespace template override =
     (let quota = (case oget (dump_namespace_template template) ''quota'' of JObj d \<Rightarrow> d | _ \<Rightarrow> []);
          quota' = (case override of None \<Rightarrow> quota
            | Some q \<Rightarrow> omerge quota [(''max_records'', JInt (nq_max_records q)), (''max_record_bytes'', JInt (nq_max_record_bytes q)),
                (''default_ttl_seconds'', jopt_int (nq_default_ttl_seconds q))])
      in [(''agent_id'', JStr agent_id), (''namespace'', JStr namespace), (''retention_policy'', JStr (mt_retention_policy template)),
          (''quota'', JObj quota'), (''source'', JStr (case override of None \<Rightarrow> ''catalog_default'' | Some _ \<Rightarrow> ''agent_override''))])"

text \<open>A namespace that is no text is in no catalog; one that cannot be a key raises.\<close>

fun namespace_payloads :: "string \<Rightarrow> capability_catalog \<Rightarrow> namespace_quota_row list \<Rightarrow> json list \<Rightarrow> obj list res" where
  "namespace_payloads agent_id c overrides [] = Inr []"
| "namespace_payloads agent_id c overrides (n # ns) =
     (if \<not> hashable n then Inl TypeError
      else bindE (namespace_payloads agent_id c overrides ns) (\<lambda>rest.
        case n of
          JStr namespace \<Rightarrow>
            (case map_of (cat_memory_namespaces c) namespace of
               None \<Rightarrow> Inr rest
             | Some template \<Rightarrow> Inr (namespace_payload agent_id namespace template (lookup_row nq_namespace namespace overrides) # rest))
        | _ \<Rightarrow> Inr rest))"

definition get_agent_namespaces :: "string \<Rightarrow> ('z api_state_scheme, obj list http) act" where
  "get_agent_namespaces agent_id = bindH (find_agent agent_id) (\<lambda>agent.
     bindA (getS (list_namespace_quotas agent_id)) (\<lambda>overrides.
     bindA (getS live_catalog) (\<lambda>c.
     bindA (liftR (bindE (manifest_namespaces agent) (namespace_payloads agent_id c overrides))) http_ok)))"

record namespace_quota_patch =
  np_max_records :: int
  np_max_record_bytes :: int
  np_default_ttl_seconds :: "int option"

definition patch_agent_namespace :: "env \<Rightarrow> string \<Rightarrow> string \<Rightarrow> namespace_quota_patch \<Rightarrow> ('z api_state_scheme, obj http) act" where
  "patch_agent_namespace e agent_id namespace body = bindH (require_agent_namespace agent_id namespace) (\<lambda>_.
     bindA (upsert_namespace_quota e agent_id namespace (np_max_records body) (np_max_record_bytes body) (np_default_ttl_seconds body)) (\<lambda>quota.
     thenA (log_security_event e ''namespace_quota_updated''
              [(''agent_id'', JStr agent_id), (''namespace'', JStr namespace), (''max_records'', JInt (np_max_records body)),
               (''max_record_bytes'', JInt (np_max_record_bytes body)), (''default_ttl_seconds'', jopt_int (np_default_ttl_seconds body))]
              None None None None None [])
    (bindA (getS (\<lambda>s. map_of (cat_memory_namespaces (live_catalog s)) namespace)) (\<lambda>template.
       case template of None \<Rightarrow> raise KeyError | Some t \<Rightarrow> http_ok (namespace_payload agent_id namespace t (Some quota))))))"

section \<open>Virtual machines\<close>

definition vm_payload :: "vm_record \<Rightarrow> launcher_state \<Rightarrow> obj" where
  "vm_payload vm h =
     [(''vm_instance_id'', JStr (vm_instance_id vm)), (''agent_id'', JStr (vm_agent_id vm)), (''guest_cid'', JInt (vm_guest_cid vm)),
      (''status'', JStr (vm_status vm)), (''manifest_hash'', JStr (vm_manifest_hash vm)), (''api_socket'', JStr (vm_api_socket vm)),
      (''vsock_uds'', JStr (vm_vsock_uds vm)), (''pid'', jopt_int (vm_pid vm)), (''pid_alive'', JBool (pid_is_alive h (vm_pid vm))),
      (''launch_package_dir'', JStr (vm_launch_package_dir vm)), (''stdout_log'', JStr (vm_stdout_log vm)),
      (''stderr_log'', JStr (vm_stderr_log vm)), (''created_at'', JStr (vm_created_at vm)), (''updated_at'', JStr (vm_updated_at vm)),
      (''last_heartbeat_at'', jopt (vm_last_heartbeat_at vm)), (''last_error'', jopt (vm_last_error vm)),
      (''stop_reason'', jopt (vm_stop_reason vm)),
      (''graceful_stop'', case vm_graceful_stop vm of None \<Rightarrow> JNull | Some b \<Rightarrow> JBool b)]"

definition vm_reply :: "vm_record \<Rightarrow> ('z api_state_scheme, obj http) act" where
  "vm_reply r = bindA (getS (\<lambda>s. vm_payload r (api_vms s))) http_ok"

definition get_agent_vms :: "env \<Rightarrow> string \<Rightarrow> ('z api_state_scheme, obj list http) act" where
  "get_agent_vms e agent_id = bindH (find_agent agent_id) (\<lambda>_.
     bindA (on_vms (list_by_agent e agent_id)) (\<lambda>rs.
     bindA (getS (\<lambda>s. map (\<lambda>r. vm_payload r (api_vms s)) rs)) http_ok))"

text \<open>The two exceptions the handler answers; any other ends the request.\<close>

definition catch_launch :: "('s, 'a) act \<Rightarrow> ('s, 'a http) act" where
  "catch_launch m = (\<lambda>s. case m s of
     (Inr x, s') \<Rightarrow> (Inr (Inr x), s')
   | (Inl x, s') \<Rightarrow>
       if x = FileNotFoundError then (Inr (Inl (503, ''VM_ARTIFACT_MISSING'')), s')
       else if x = RuntimeError then (Inr (Inl (409, ''VM_LAUNCH_FAILED'')), s')
       else (Inl x, s'))"

definition launch_agent :: "env \<Rightarrow> api_world \<Rightarrow> string \<Rightarrow> ('z api_state_scheme, obj http) act" where
  "launch_agent e aw agent_id = bindH (find_agent agent_id) (\<lambda>agent.
     bindA (getS api_vm_catalog) (\<lambda>catalog.
     bindH (catch_launch (on_vms (launch e (aw_vm_config aw) (aw_fc aw) catalog agent_id (JObj (ag_manifest agent)) None
              (Some (ag_manifest_hash agent))))) (\<lambda>rec.
     thenA (log_api_mutation e (''POST /v1/agents/'' @ agent_id @ ''/launch'')
              [(''agent_id'', JStr agent_id), (''vm_instance_id'', JStr (vm_instance_id rec)), (''guest_cid'', JInt (vm_guest_cid rec))])
       (vm_reply rec))))"

definition stop_agent :: "env \<Rightarrow> api_world \<Rightarrow> string \<Rightarrow> ('z api_state_scheme, obj http) act" where
  "stop_agent e aw agent_id = bindA (on_vms (get_by_agent e agent_id)) (\<lambda>found.
     case found of
       None \<Rightarrow> http_fail 404 ''VM_NOT_RUNNING''
     | Some r \<Rightarrow>
         thenA (on_vms (vm_stop e (aw_fc aw) (vm_instance_id r)))
        (bindA (on_vms (vm_get e (vm_instance_id r))) (\<lambda>stopped.
         thenA (log_api_mutation e (''POST /v1/agents/'' @ agent_id @ ''/stop'')
                  [(''agent_id'', JStr agent_id), (''vm_instance_id'', JStr (vm_instance_id r))])
           (vm_reply (case stopped of None \<Rightarrow> r | Some x \<Rightarrow> x)))))"

record health_view =
  hv_status :: string
  hv_active_sessions :: nat
  hv_memory_sweeper_running :: bool
  hv_elevation_sweeper_running :: bool
  hv_pending_replay_depth :: nat
  hv_counters_latest_at :: "time option"
  hv_vm_total :: nat
  hv_vm_active :: nat
  hv_vm_failed :: nat
  hv_vms :: "obj list"

definition health :: "env \<Rightarrow> api_world \<Rightarrow> ('z api_state_scheme, health_view http) act" where
  "health e aw = bindA (on_vms (list_all_vms e)) (\<lambda>rs.
     bindA (getS (\<lambda>s.
       let degraded = filter (\<lambda>r. vm_status r \<in> set [''degraded'', ''failed'']) rs in
       \<lparr>hv_status = (if degraded \<noteq> [] then ''degraded'' else ''ok''), hv_active_sessions = active_connection_count s,
        hv_memory_sweeper_running = aw_memory_sweeping aw, hv_elevation_sweeper_running = aw_elevation_sweeping aw,
        hv_pending_replay_depth = count_pending_replays None None s, hv_counters_latest_at = get_latest_behavioral_counter_activity s,
        hv_vm_total = length rs,
        hv_vm_active = length (filter (\<lambda>r. vm_status r \<in> set [''launching'', ''booting'', ''handshaking'', ''running'', ''degraded'']) rs),
        hv_vm_failed = length degraded, hv_vms = map (\<lambda>r. vm_payload r (api_vms s)) rs\<rparr>)) http_ok)"

text \<open>The gauges of \<^verbatim>\<open>server/metrics.py\<close>.\<close>

definition flag :: "bool \<Rightarrow> int" where
  "flag b = (if b then 1 else 0)"

definition collect_metric_values :: "env \<Rightarrow> api_world \<Rightarrow> ('z api_state_scheme, (string \<times> int) list) act" where
  "collect_metric_values e aw = bindA (on_vms (list_all_vms e)) (\<lambda>rs.
     getS (\<lambda>s.
       let degraded = filter (\<lambda>r. vm_status r \<in> set [''degraded'', ''failed'']) rs in
       [(''corvus_server_degraded'', flag (degraded \<noteq> [])), (''corvus_active_sessions'', int (active_connection_count s)),
        (''corvus_pending_replay_depth'', int (count_pending_replays None None s)),
        (''corvus_memory_sweeper_running'', flag (aw_memory_sweeping aw)),
        (''corvus_elevation_sweeper_running'', flag (aw_elevation_sweeping aw)),
        (''corvus_vm_registry_total'', int (length rs)),
        (''corvus_vm_registry_active'',
           int (length (filter (\<lambda>r. vm_status r \<in> set [''launching'', ''booting'', ''handshaking'', ''running'', ''degraded'']) rs))),
        (''corvus_vm_registry_failed'', int (length degraded))]))"

definition metric_help :: "(string \<times> string) list" where
  "metric_help =
     [(''corvus_server_degraded'', ''1 when any VM is degraded or failed''),
      (''corvus_active_sessions'', ''Active agent transport sessions''),
      (''corvus_pending_replay_depth'', ''Undelivered pending replay messages''),
      (''corvus_memory_sweeper_running'', ''1 when memory retention sweeper task is running''),
      (''corvus_elevation_sweeper_running'', ''1 when elevation expiry sweeper task is running''),
      (''corvus_vm_registry_total'', ''Total VM records in registry''),
      (''corvus_vm_registry_active'', ''VMs in launching through degraded states''),
      (''corvus_vm_registry_failed'', ''VMs in degraded or failed state'')]"

definition gauge :: "string \<Rightarrow> string \<Rightarrow> int \<Rightarrow> string list" where
  "gauge name help_text v = [''# HELP '' @ name @ '' '' @ help_text, ''# TYPE '' @ name @ '' gauge'', name @ '' '' @ int_str v]"

fun metric_lines :: "(string \<times> int) list \<Rightarrow> string list res" where
  "metric_lines [] = Inr []"
| "metric_lines ((name, v) # vs) = (case map_of metric_help name of
     None \<Rightarrow> Inl KeyError
   | Some h \<Rightarrow> bindE (metric_lines vs) (\<lambda>rest. Inr (gauge name h v @ rest)))"

definition render_prometheus_metrics :: "(string \<times> int) list \<Rightarrow> string res" where
  "render_prometheus_metrics vs = bindE (metric_lines vs) (\<lambda>ls. Inr (join line_break ls @ line_break))"

definition metrics_endpoint :: "env \<Rightarrow> api_world \<Rightarrow> ('z api_state_scheme, string http) act" where
  "metrics_endpoint e aw = bindA (collect_metric_values e aw) (\<lambda>vs. bindA (liftR (render_prometheus_metrics vs)) http_ok)"

section \<open>Operator chat\<close>

record agent_chat_request =
  ac_messages :: "(string \<times> string) list"  \<comment> \<open>role and content\<close>
  ac_provider :: "string option"
  ac_model :: "string option"
  ac_user_id :: "string option"

definition agent_chat :: "env \<Rightarrow> api_world \<Rightarrow> string \<Rightarrow> agent_chat_request \<Rightarrow> ('z api_state_scheme, chat_reply http) act" where
  "agent_chat e aw agent_id body = run_operator_chat e (aw_services aw) agent_id
     (JArr (map (\<lambda>(role, content). JObj [(''role'', JStr role), (''content'', JStr content)]) (ac_messages body)))
     (ac_provider body) (ac_model body) (ac_user_id body)"

section \<open>Rules\<close>

definition rule_event :: "env \<Rightarrow> api_world \<Rightarrow> string \<Rightarrow> string \<Rightarrow> ('z api_state_scheme, unit) act" where
  "rule_event e aw event rule_id = bindA (getS (\<lambda>s. sv_ruleset_hash (aw_services aw) (cached_rules s))) (\<lambda>h.
     log_security_event e event [(''rule_id'', JStr rule_id), (''rule_hash'', JStr h)] None None None None None [])"

definition list_rules_endpoint :: "('z api_state_scheme, policy_rule list http) act" where
  "list_rules_endpoint = bindA (getS cached_rules) http_ok"

definition create_rule :: "env \<Rightarrow> api_world \<Rightarrow> policy_rule \<Rightarrow> ('z api_state_scheme, obj http) act" where
  "create_rule e aw body = bindH (catch_value 422 ''RULE_INVALID'' (liftR (validate_rule body))) (\<lambda>rule.
     thenA (add_rule e rule) (thenA (rule_event e aw ''rule_created'' (ru_id body)) (http_ok [(''id'', JStr (ru_id body))])))"

definition update_rule :: "env \<Rightarrow> api_world \<Rightarrow> string \<Rightarrow> policy_rule \<Rightarrow> ('z api_state_scheme, obj http) act" where
  "update_rule e aw rule_id body = bindH (catch_value 422 ''RULE_INVALID'' (liftR (validate_rule (body\<lparr>ru_id := rule_id\<rparr>)))) (\<lambda>rule.
     thenA (add_rule e rule) (thenA (rule_event e aw ''rule_updated'' rule_id) (http_ok [(''id'', JStr rule_id)])))"

definition delete_rule_endpoint :: "env \<Rightarrow> api_world \<Rightarrow> string \<Rightarrow> ('z api_state_scheme, obj http) act" where
  "delete_rule_endpoint e aw rule_id = bindA (remove_rule rule_id) (\<lambda>deleted.
     if \<not> deleted then http_fail 404 ''RULE_NOT_FOUND''
     else thenA (rule_event e aw ''rule_deleted'' rule_id) (http_ok [(''id'', JStr rule_id), (''deleted'', JBool True)]))"

record simulate_request =
  sq_source :: obj
  sq_type :: string
  sq_tags :: obj
  sq_payload :: obj
  sq_context :: obj

text \<open>\<^verbatim>\<open>EngineId(v)\<close> and its like on a value of any type.\<close>

definition enum_call :: "(string \<Rightarrow> 'e res) \<Rightarrow> json \<Rightarrow> 'e res" where
  "enum_call conv v = (case v of JStr t \<Rightarrow> conv t | _ \<Rightarrow> Inl ValueError)"

definition simulated_message :: "env \<Rightarrow> simulate_request \<Rightarrow> framework_message res" where
  "simulated_message e q =
     bindE (enum_call engine_of (oget_or (sq_source q) ''engine'' (JStr ''engine1''))) (\<lambda>en.
     bindE (pyd_str (oget_or (sq_source q) ''agent_id'' (JStr ''unknown''))) (\<lambda>a.
     bindE (pyd_str (oget_or (sq_source q) ''vm_id'' (JStr ''test''))) (\<lambda>vm.
     bindE (enum_call (enum_of trigger_value [USER_INPUT, AGENT_INITIATED, TOOL_RESULT, TOOL_APPROVAL, MEMORY_RESULT, LLM_RESULT, BY_SYSTEM] ValueError)
              (oget_or (sq_tags q) ''triggered_by'' (JStr ''agent_initiated''))) (\<lambda>t.
     bindE (pyd_enum scope_value [LOCAL, CROSS_AGENT, EXTERNAL] (oget_or (sq_tags q) ''scope'' (JStr ''local''))) (\<lambda>sc.
     Inr (new_message e ''simulate'' \<lparr>src_agent_id = a, src_engine = en, src_vm_id = vm\<rparr>
            \<lparr>dst_type = CORVUS_SERVER, dst_target = ''corvus_server''\<rparr> REQUEST (sq_type q) (uuid4 e ''simulate_correlation'')
            ((mk_tags t None)\<lparr>tag_scope := sc\<rparr>) (sq_payload q)))))))"

record simulate_reply =
  sr_decision :: policy_decision
  sr_grant_checked :: bool
  sr_grant_valid :: json
  sr_grant_id :: json
  sr_would_consume_tokens :: json
  sr_remaining_after :: json
  sr_would_exceed :: bool

definition simulate_rules :: "env \<Rightarrow> api_world \<Rightarrow> simulate_request \<Rightarrow> ('z api_state_scheme, simulate_reply http) act" where
  "simulate_rules e aw q = bindA (liftR (simulated_message e q)) (\<lambda>m.
     bindA (simulate e (sv_config (aw_services aw)) (sv_wiring (aw_services aw)) m (sq_context q)) (\<lambda>d.
     let ctx = sq_context q; md = pd_metadata d in
     http_ok \<lparr>sr_decision = d, sr_grant_checked = (ohas ctx ''has_valid_grant'' \<or> truthy (oget md ''grant_reason'')),
       sr_grant_valid = (if ohas ctx ''has_valid_grant'' then oget ctx ''has_valid_grant'' else JBool (truthy (oget md ''grant_id''))),
       sr_grant_id = py_or (oget ctx ''grant_id'') (oget md ''grant_id''),
       sr_would_consume_tokens = oget md ''quota_would_consume_tokens'', sr_remaining_after = oget md ''quota_remaining_after'',
       sr_would_exceed = truthy (oget md ''quota_failed'')\<rparr>))"

definition audit_logs :: "audit_query \<Rightarrow> ('z api_state_scheme, audit_row list http) act" where
  "audit_logs q = bindA (getS (query_logs q)) (\<lambda>r. bindA (liftR r) http_ok)"

section \<open>Users and groups\<close>

record user_create =
  uc_id :: string
  uc_role :: string
  uc_groups :: "string list"
  uc_privileges :: "string list"
  uc_allowed_agents :: "string list"
  uc_aliases :: "obj list"  \<comment> \<open>as dumped without their absent fields\<close>
  uc_pin :: "string option"
  uc_password :: "string option"

definition given_secret :: "string option \<Rightarrow> string option \<Rightarrow> string option" where
  "given_secret pin password = (if opt_truthy pin then pin else password)"

definition security_event :: "env \<Rightarrow> string \<Rightarrow> obj \<Rightarrow> ('z db_scheme, unit) act" where
  "security_event e event details = log_security_event e event details None None None None None []"

definition user_profile :: "env \<Rightarrow> user_create \<Rightarrow> obj option \<Rightarrow> obj" where
  "user_profile e body existing =
     (let profile = [(''groups'', jstrs (uc_groups body)), (''privileges'', jstrs (uc_privileges body)),
            (''allowed_agents'', jstrs (uc_allowed_agents body)), (''aliases'', JArr (map JObj (uc_aliases body)))];
          secret = given_secret (uc_pin body) (uc_password body);
          profile' = (if opt_truthy secret then oset ''credential_hash'' (JStr (hash_secret e (the secret))) profile
            else (case existing of
                None \<Rightarrow> profile
              | Some u \<Rightarrow> if u \<noteq> [] \<and> truthy (oget u ''credential_hash'')
                  then oset ''credential_hash'' (oget u ''credential_hash'') profile else profile))
      in (case existing of
            None \<Rightarrow> profile'
          | Some u \<Rightarrow> if u \<noteq> [] \<and> oget u ''active'' = JBool False then oset ''active'' (JBool False) profile' else profile'))"

definition create_user :: "env \<Rightarrow> user_create \<Rightarrow> ('z api_state_scheme, obj http) act" where
  "create_user e body = bindA (getS (get_user (uc_id body))) (\<lambda>existing.
     thenA (upsert_user (uc_id body) (uc_role body) (user_profile e body existing))
    (thenA (security_event e ''user_upserted'' [(''user_id'', JStr (uc_id body)), (''alias_count'', JInt (int (length (uc_aliases body))))])
       (http_ok [(''id'', JStr (uc_id body))])))"

definition list_users_endpoint :: "('z api_state_scheme, obj list http) act" where
  "list_users_endpoint = bindA (getS list_users) http_ok"

definition get_user_endpoint :: "string \<Rightarrow> ('z api_state_scheme, obj http) act" where
  "get_user_endpoint user_id = bindA (getS (get_user user_id)) (\<lambda>u.
     case u of None \<Rightarrow> http_fail 404 ''USER_NOT_FOUND'' | Some user \<Rightarrow> http_ok [(''user'', JObj user)])"

text \<open>The fields of a patch that the request has set, with their values, and the two secrets.\<close>

record user_patch =
  up_set :: obj
  up_pin :: "string option"
  up_password :: "string option"

definition patch_updates :: "env \<Rightarrow> user_patch \<Rightarrow> obj" where
  "patch_updates e body =
     (let fields = (if ohas (up_set body) ''role'' then [''role''] else [])
            @ filter (ohas (up_set body)) [''groups'', ''privileges'', ''allowed_agents'', ''active'']
            @ (if ohas (up_set body) ''aliases'' \<and> oget (up_set body) ''aliases'' \<noteq> JNull then [''aliases''] else []);
          secret = given_secret (up_pin body) (up_password body)
      in map (\<lambda>k. (k, oget (up_set body) k)) fields
           @ (if opt_truthy secret then [(''credential_hash'', JStr (hash_secret e (the secret)))] else []))"

text \<open>The store takes the role out of the dictionary it is given, so the event does not name it.\<close>

definition patch_user_endpoint :: "env \<Rightarrow> string \<Rightarrow> user_patch \<Rightarrow> ('z api_state_scheme, obj http) act" where
  "patch_user_endpoint e user_id body =
     (let updates = patch_updates e body in
      bindA (patch_user user_id updates) (\<lambda>user.
        case user of
          None \<Rightarrow> http_fail 404 ''USER_NOT_FOUND''
        | Some u \<Rightarrow>
            thenA (security_event e ''user_patched'' [(''user_id'', JStr user_id), (''fields'', jstrs (sort (map fst (odel ''role'' updates))))])
              (http_ok [(''user'', JObj u)])))"

definition delete_user_endpoint :: "env \<Rightarrow> string \<Rightarrow> ('z api_state_scheme, obj http) act" where
  "delete_user_endpoint e user_id = bindA (deactivate_user user_id) (\<lambda>found.
     if \<not> found then http_fail 404 ''USER_NOT_FOUND''
     else thenA (security_event e ''user_deactivated'' [(''user_id'', JStr user_id)])
       (http_ok [(''id'', JStr user_id), (''active'', JBool False)]))"

record group_create =
  gc_id :: string
  gc_parent_group :: "string option"
  gc_inherited_rules :: bool
  gc_rule_ids :: "string list"
  gc_members :: "string list"

text \<open>A patch has, for each field, whether the request set it and to what.\<close>

record group_patch =
  gx_parent_group :: "string option option"
  gx_inherited_rules :: "bool option option"
  gx_rule_ids :: "string list option option"
  gx_members :: "string list option option"

definition list_groups_endpoint :: "('z api_state_scheme, group_row list http) act" where
  "list_groups_endpoint = bindA (getS list_groups) http_ok"

definition create_group :: "env \<Rightarrow> group_create \<Rightarrow> ('z api_state_scheme, group_row http) act" where
  "create_group e body =
     bindA (upsert_group e (gc_id body) (gc_parent_group body) (gc_inherited_rules body) (Some (gc_rule_ids body)) (Some (gc_members body))) (\<lambda>g.
     thenA (security_event e ''group_upserted'' [(''group_id'', JStr (gc_id body))]) (http_ok g))"

definition find_group :: "string \<Rightarrow> ('z api_state_scheme, group_row http) act" where
  "find_group group_id = bindA (getS (get_group group_id)) (\<lambda>g.
     case g of None \<Rightarrow> http_fail 404 ''GROUP_NOT_FOUND'' | Some row \<Rightarrow> http_ok row)"

definition patched :: "'a option \<Rightarrow> 'a \<Rightarrow> 'a" where
  "patched given old = (case given of None \<Rightarrow> old | Some x \<Rightarrow> x)"

definition patch_group :: "env \<Rightarrow> string \<Rightarrow> group_patch \<Rightarrow> ('z api_state_scheme, group_row http) act" where
  "patch_group e group_id body = bindH (find_group group_id) (\<lambda>existing.
     bindA (upsert_group e group_id (patched (gx_parent_group body) (gp_parent_group existing))
              (patched (gx_inherited_rules body) (Some (gp_inherited_rules existing)) = Some True)
              (patched (gx_rule_ids body) (Some (gp_rule_ids existing))) (patched (gx_members body) (Some (gp_members existing)))) (\<lambda>g.
     thenA (security_event e ''group_upserted'' [(''group_id'', JStr group_id)]) (http_ok g)))"

definition delete_group_endpoint :: "env \<Rightarrow> string \<Rightarrow> ('z api_state_scheme, obj http) act" where
  "delete_group_endpoint e group_id = bindA (delete_group group_id) (\<lambda>found.
     if \<not> found then http_fail 404 ''GROUP_NOT_FOUND''
     else thenA (security_event e ''group_deleted'' [(''group_id'', JStr group_id)])
       (http_ok [(''id'', JStr group_id), (''deleted'', JBool True)]))"

definition add_group_member :: "env \<Rightarrow> string \<Rightarrow> string \<Rightarrow> ('z api_state_scheme, group_row http) act" where
  "add_group_member e group_id user_id = bindH (find_group group_id) (\<lambda>existing.
     let members = (if user_id \<in> set (gp_members existing) then gp_members existing else gp_members existing @ [user_id]) in
     bindA (upsert_group e group_id (gp_parent_group existing) (gp_inherited_rules existing) (Some (gp_rule_ids existing)) (Some members)) http_ok)"

section \<open>Grants, quotas, elevations\<close>

record grant_create =
  gt_subject_agent :: string
  gt_target_agent :: string
  gt_namespace :: string
  gt_permissions :: "string list"
  gt_expires_at :: "iso_text option"
  gt_created_by :: string

definition list_grants_endpoint :: "string option \<Rightarrow> string option \<Rightarrow> ('z api_state_scheme, grant_row list http) act" where
  "list_grants_endpoint agent_id namespace = bindA (getS (list_grants agent_id namespace)) http_ok"

definition create_grant_endpoint :: "env \<Rightarrow> grant_create \<Rightarrow> ('z api_state_scheme, obj http) act" where
  "create_grant_endpoint e body =
     bindA (create_grant e (gt_subject_agent body) (gt_target_agent body) (gt_namespace body) (map JStr (gt_permissions body))
              (gt_created_by body) (gt_expires_at body) None ''active'') (\<lambda>grant_id.
     thenA (security_event e ''grant_created'' [(''grant_id'', JStr grant_id), (''subject_agent'', JStr (gt_subject_agent body)),
              (''target_agent'', JStr (gt_target_agent body)), (''namespace'', JStr (gt_namespace body))])
       (http_ok [(''id'', JStr grant_id)]))"

definition revoke_grant_endpoint :: "env \<Rightarrow> string \<Rightarrow> ('z api_state_scheme, obj http) act" where
  "revoke_grant_endpoint e grant_id = bindA (revoke_grant grant_id) (\<lambda>revoked.
     if \<not> revoked then http_fail 404 ''GRANT_NOT_FOUND''
     else thenA (security_event e ''grant_revoked'' [(''grant_id'', JStr grant_id)])
       (http_ok [(''id'', JStr grant_id), (''revoked'', JBool True)]))"

definition list_quotas_endpoint :: "('z api_state_scheme, quota_row list http) act" where
  "list_quotas_endpoint = bindA (getS list_quota_counters) http_ok"

record quota_patch =
  qp_limit :: int
  qp_used :: int
  qp_window_type :: string

definition patch_quota :: "env \<Rightarrow> string \<Rightarrow> quota_patch \<Rightarrow> ('z api_state_scheme, obj http) act" where
  "patch_quota e key body =
     thenA (upsert_quota_counter e key (qp_limit body) (qp_used body) (qp_window_type body))
    (thenA (security_event e ''quota_updated'' [(''quota_key'', JStr key), (''limit'', JInt (qp_limit body))])
       (http_ok [(''key'', JStr key)]))"

definition list_elevations_endpoint :: "string option \<Rightarrow> string option \<Rightarrow> ('z api_state_scheme, elevation_row list http) act" where
  "list_elevations_endpoint status agent_id = bindA (getS (list_elevations status agent_id)) http_ok"

section \<open>Settings\<close>

definition get_settings :: "('z api_state_scheme, (string \<times> setting_view list) list http) act" where
  "get_settings = bindA (getS list_settings) (\<lambda>rows. http_ok (settings_public_view rows))"

definition settings_body :: "obj \<Rightarrow> obj" where
  "settings_body body = (case oget body ''settings'' of JObj d \<Rightarrow> d | _ \<Rightarrow> body)"

definition keeps_secret :: "setting_meta \<Rightarrow> json \<Rightarrow> bool" where
  "keeps_secret meta v \<longleftrightarrow> sm_secret meta \<and> v \<in> {JNull, JStr [], MASK}"

fun write_settings :: "env \<Rightarrow> obj \<Rightarrow> string list \<Rightarrow> ('z api_state_scheme, string list http) act" where
  "write_settings e [] restart_keys = http_ok restart_keys"
| "write_settings e ((key, v) # updates) restart_keys =
     (case map_of SETTINGS_SPEC key of
        None \<Rightarrow> http_fail 422 ''SETTINGS_UNKNOWN_KEY''
      | Some meta \<Rightarrow>
          if keeps_secret meta v then write_settings e updates restart_keys
          else thenA (upsert_setting e key v (sm_secret meta) (sm_restart meta))
                 (write_settings e updates (if sm_restart meta then restart_keys @ [key] else restart_keys)))"

definition patch_settings :: "env \<Rightarrow> api_world \<Rightarrow> obj \<Rightarrow> ('z api_state_scheme, ((string \<times> setting_view list) list \<times> string list) http) act" where
  "patch_settings e aw body =
     (let updates = settings_body body in
      bindH (write_settings e updates []) (\<lambda>restart_keys.
      bindA (getS (\<lambda>s. load_settings_into_config (aw_env_set aw) (lv_config (api_live s)) s)) (\<lambda>merged.
      thenA (on_live (apply_settings_to_context merged))
     (thenA (modS (\<lambda>s. s\<lparr>api_limiter := (api_limiter s)\<lparr>wl_limit := oget (lv_config (api_live s)) ''api_rate_limit_per_minute''\<rparr>\<rparr>))
     (thenA (log_api_mutation e ''PATCH /v1/settings'' [(''keys'', jstrs (sort (map fst updates))), (''restart_required'', jstrs restart_keys)])
     (bindA (getS list_settings) (\<lambda>rows. http_ok (settings_public_view rows, restart_keys))))))))"

section \<open>The operations that change something\<close>

datatype api_op =
  CatalogCreate string obj
| CatalogPut string string obj
| CatalogRemove string string
| InstallSkill obj
| CreateAgent string agent_manifest
| PatchAgent string agent_manifest
| PatchNamespace string string namespace_quota_patch
| LaunchAgent string
| StopAgent string
| AgentChat string agent_chat_request
| CreateRule policy_rule
| UpdateRule string policy_rule
| DeleteRule string
| CreateUser user_create
| PatchUser string user_patch
| DeleteUser string
| CreateGroup group_create
| PatchGroup string group_patch
| DeleteGroup string
| AddMember string string
| CreateGrant grant_create
| RevokeGrant string
| PatchQuota string quota_patch
| ApproveElevation string elevation_decision
| DenyElevation string elevation_decision
| PatchSettings obj

definition quiet :: "('s, 'a http) act \<Rightarrow> ('s, unit http) act" where
  "quiet m = bindH m (\<lambda>_. http_ok ())"

text \<open>\<open>envs\<close> are the environments of the grants one request creates.\<close>

fun api_effect :: "env \<Rightarrow> (nat \<Rightarrow> env) \<Rightarrow> api_world \<Rightarrow> api_op \<Rightarrow> ('z api_state_scheme, unit http) act" where
  "api_effect e envs aw (CatalogCreate kind body) = quiet (catalog_create e kind body)"
| "api_effect e envs aw (CatalogPut kind entry_id body) = quiet (catalog_put e kind entry_id body)"
| "api_effect e envs aw (CatalogRemove kind entry_id) = quiet (catalog_remove e kind entry_id)"
| "api_effect e envs aw (InstallSkill body) = quiet (catalog_skills_install e aw body)"
| "api_effect e envs aw (CreateAgent agent_id m) = quiet (create_agent e envs agent_id m)"
| "api_effect e envs aw (PatchAgent agent_id m) = quiet (patch_agent e agent_id m)"
| "api_effect e envs aw (PatchNamespace agent_id namespace q) = quiet (patch_agent_namespace e agent_id namespace q)"
| "api_effect e envs aw (LaunchAgent agent_id) = quiet (launch_agent e aw agent_id)"
| "api_effect e envs aw (StopAgent agent_id) = quiet (stop_agent e aw agent_id)"
| "api_effect e envs aw (AgentChat agent_id body) = quiet (agent_chat e aw agent_id body)"
| "api_effect e envs aw (CreateRule r) = quiet (create_rule e aw r)"
| "api_effect e envs aw (UpdateRule rule_id r) = quiet (update_rule e aw rule_id r)"
| "api_effect e envs aw (DeleteRule rule_id) = quiet (delete_rule_endpoint e aw rule_id)"
| "api_effect e envs aw (CreateUser u) = quiet (create_user e u)"
| "api_effect e envs aw (PatchUser user_id u) = quiet (patch_user_endpoint e user_id u)"
| "api_effect e envs aw (DeleteUser user_id) = quiet (delete_user_endpoint e user_id)"
| "api_effect e envs aw (CreateGroup g) = quiet (create_group e g)"
| "api_effect e envs aw (PatchGroup group_id g) = quiet (patch_group e group_id g)"
| "api_effect e envs aw (DeleteGroup group_id) = quiet (delete_group_endpoint e group_id)"
| "api_effect e envs aw (AddMember group_id user_id) = quiet (add_group_member e group_id user_id)"
| "api_effect e envs aw (CreateGrant g) = quiet (create_grant_endpoint e g)"
| "api_effect e envs aw (RevokeGrant grant_id) = quiet (revoke_grant_endpoint e grant_id)"
| "api_effect e envs aw (PatchQuota key q) = quiet (patch_quota e key q)"
| "api_effect e envs aw (ApproveElevation i body) = quiet (approve_elevation e (aw_services aw) i body)"
| "api_effect e envs aw (DenyElevation i body) = quiet (deny_elevation e i body)"
| "api_effect e envs aw (PatchSettings body) = quiet (patch_settings e aw body)"

end
