(* ===== verification/Management_Interface.thy ===== *)
theory Management_Interface
  imports Management_Api
begin

text \<open>
  The interface between the endpoints of the management API and the stores they write to, as two locales.  A
  predicate that the writes of the data tables keep is kept by the endpoints over agents, users, groups, grants,
  quotas and elevations; one that the writes of the catalog, the rules, the settings and the launcher keep as
  well is kept by every operation.  The invariants of the server are the interpretations.
\<close>

section \<open>The combinators\<close>

lemma bindH_pres [pres_intro]: "preserves P m \<Longrightarrow> (\<And>x. preserves P (f x)) \<Longrightarrow> preserves P (bindH m f)"
  unfolding bindH_def by (intro pres_intro)

lemma http_pres [pres_intro]: "preserves P (http_fail c k)" "preserves P (http_ok x)" "preserves P m \<Longrightarrow> preserves P (quiet m)"
  unfolding http_fail_def http_ok_def quiet_def by (intro pres_intro)+ (simp add: preserves_def)

lemma catch_pres [pres_intro]: "preserves P m \<Longrightarrow> preserves P (catch_value c k m)" "preserves P m \<Longrightarrow> preserves P (catch_launch m)"
  by (force simp: preserves_def catch_value_def catch_launch_def split: prod.split sum.split)+

lemma each_pres [pres_intro]: "(\<And>x. preserves P (f x)) \<Longrightarrow> preserves P (each f xs)"
  by (induction xs) (auto intro: pres_intro)

lemma look_pres [pres_intro]:
  "preserves P (resolve_body e m)" "preserves P (find_agent a)" "preserves P (find_group g)" "preserves P (require_agent_namespace a n)"
  "preserves P (vm_reply r)" "preserves P (require_api_key rq)"
  unfolding resolve_body_def find_agent_def find_group_def require_agent_namespace_def vm_reply_def require_api_key_def
  by (intro pres_intro)+

section \<open>In front of the endpoints\<close>

lemma require_key: "bindH (require_api_key rq) (\<lambda>_. m) s =
    (if JStr (rq_api_key rq) \<noteq> oget (lv_config (api_live s)) ''api_key'' then (Inr (Inl (401, ''Invalid API key'')), s) else m s)"
  by (simp add: bindH_def require_api_key_def http_fail_def http_ok_def bindA_def)

definition metered :: "api_request \<Rightarrow> bool" where
  "metered rq \<longleftrightarrow> prefix ''/v1'' (rq_path rq) \<and> rq_internal rq \<noteq> ''ui''"

lemma api_call_open: "\<not> metered rq \<Longrightarrow> api_call t rq m s = bindH (require_api_key rq) (\<lambda>_. m) s"
  by (auto simp: api_call_def rate_limit_dispatch_def metered_def)

lemma api_call_limited:
  assumes "metered rq" and "window_allow t (client_key rq) (api_limiter s) = (a, l)"
  shows "api_call t rq m s = (case a of
      Inl x \<Rightarrow> (Inl x, s\<lparr>api_limiter := l\<rparr>)
    | Inr allowed \<Rightarrow>
        if allowed then bindH (require_api_key rq) (\<lambda>_. m) (s\<lparr>api_limiter := l\<rparr>)
        else (map_sum id (\<lambda>_. Inl (429, ''API_RATE_LIMITED'')) (retry_after_seconds t (client_key rq) l), s\<lparr>api_limiter := l\<rparr>))"
  using assms by (auto simp: api_call_def rate_limit_dispatch_def metered_def on_limiter_def bindA_def thenA_def http_fail_def split: sum.split)

section \<open>The data tables\<close>

locale data_invariant = memory_invariant P + stream_invariant P for P :: "'z api_state_scheme \<Rightarrow> bool" +
  assumes inv_replay: "\<And>e a v i ct md ty. preserves P (enqueue_pending_replay e a v i ct md ty)"
    and inv_grant: "\<And>e a v ct ps i io k ty. preserves P (create_grant e a v ct ps i io k ty)"
    and inv_agent: "\<And>e a hh mf. preserves P (upsert_agent e a hh mf)"
    and inv_namespace: "\<And>e a nn mr mb ttl. preserves P (upsert_namespace_quota e a nn mr mb ttl)"
    and inv_user: "\<And>u ro p. preserves P (upsert_user u ro p)"
    and inv_group: "\<And>e g pg ir ri ms. preserves P (upsert_group e g pg ir ri ms)"
    and inv_group_delete: "\<And>g. preserves P (delete_group g)"
    and inv_revoke: "\<And>g. preserves P (revoke_grant g)"
    and inv_quota: "\<And>e qk l us w. preserves P (upsert_quota_counter e qk l us w)"
    and inv_status: "\<And>e ei st. preserves P (update_elevation_status e ei st)"
begin

lemmas data_prims = memory_prims stream_prims inv_replay inv_grant inv_agent inv_namespace inv_user inv_group inv_group_delete
  inv_revoke inv_quota inv_status

lemma events:
  "preserves P (log_api_mutation e ep d)" "preserves P (log_security_event e ty d c oc ag mi de rs)" "preserves P (security_event e ty d)"
  unfolding log_api_mutation_def log_security_event_def security_event_def by (intro data_prims)+

lemma user_writes: "preserves P (deactivate_user u)" "preserves P (patch_user u d)"
  unfolding deactivate_user_def patch_user_def by (intro pres_intro data_prims)+

lemma data_ops:
  "preserves P (create_agent e envs a m)" "preserves P (patch_agent_namespace e a n q)"
  "preserves P (create_user e u)" "preserves P (patch_user_endpoint e ui up)" "preserves P (delete_user_endpoint e ui)"
  "preserves P (create_group e gc)" "preserves P (patch_group e gi gx)" "preserves P (delete_group_endpoint e gi)"
  "preserves P (add_group_member e gi ui)" "preserves P (create_grant_endpoint e gt)" "preserves P (revoke_grant_endpoint e gri)"
  "preserves P (patch_quota e k qp)"
  unfolding create_agent_def create_launch_grant_def patch_agent_namespace_def create_user_def patch_user_endpoint_def
    delete_user_endpoint_def create_group_def patch_group_def delete_group_endpoint_def add_group_member_def
    create_grant_endpoint_def revoke_grant_endpoint_def patch_quota_def
  by (intro pres_intro data_prims user_writes events)+

lemma queue_message: "preserves P (queue_message e w a v i g m st)"
  unfolding queue_message_def enqueue_replay_def by (intro pres_intro data_prims events)

lemma notify_grant_created: "preserves P (notify_grant_created e w el g rd t n tu)"
  unfolding notify_grant_created_def Let_def by (intro pres_intro data_prims events queue_message)

lemma grant_request: "preserves P (grant_id_from_grant_request e el ap)"
  unfolding grant_id_from_grant_request_def Let_def by (intro pres_intro data_prims events)

lemma replay_after_approval: "preserves P (replay_after_approval e sv i g ap)"
  unfolding replay_after_approval_def replay_memory_def Let_def
  by (intro pres_intro data_prims events queue_message notify_grant_created grant_request memory_handle)

lemma elevation_ops: "preserves P (approve_elevation e sv i body)" "preserves P (deny_elevation e i body)"
  unfolding approve_elevation_def deny_elevation_def complete_approval_def Let_def
  by (intro pres_intro data_prims events replay_after_approval)+

lemma agent_chat: "preserves P (agent_chat e aw a body)"
  unfolding agent_chat_def run_operator_chat_def complete_chat_def
  by (intro pres_intro events llm_handle increment_llm_tokens)

end

section \<open>Every store\<close>

locale management_invariant = data_invariant +
  assumes inv_rule: "\<And>e i p r. preserves P (upsert_rule e i p r)"
    and inv_rule_delete: "\<And>i. preserves P (delete_rule i)"
    and inv_rules_reload: "preserves P rules_reload"
    and inv_entry: "\<And>e k i x. preserves P (upsert_catalog_entry e k i x)"
    and inv_entry_delete: "\<And>k i. preserves P (delete_catalog_entry k i)"
    and inv_catalog_reload: "preserves P catalog_reload"
    and inv_after_write: "\<And>k. preserves P (after_catalog_write k)"
    and inv_setting: "\<And>e k v x r. preserves P (upsert_setting e k v x r)"
    and inv_live: "\<And>m :: (live_services, unit) act. preserves P (on_live m)"
    and inv_limit: "\<And>f. preserves P (modS (\<lambda>s. s\<lparr>api_limiter := f s\<rparr>))"
    and inv_host: "\<And>f. preserves P (modS (\<lambda>s. s\<lparr>api_vms := f s\<rparr>))"
begin

lemmas prims = data_prims inv_rule inv_rule_delete inv_rules_reload inv_entry inv_entry_delete inv_catalog_reload inv_after_write
  inv_setting inv_live inv_limit inv_host

lemma vms: "preserves P (on_vms m)"
  using preservesD [OF inv_host] by (auto simp: preserves_def on_vms_def split: prod.split)

lemma limiter: "preserves P (on_limiter m)"
  using preservesD [OF inv_limit] by (auto simp: preserves_def on_limiter_def split: prod.split)

lemma rule_ops: "preserves P (create_rule e aw r)" "preserves P (update_rule e aw i r)" "preserves P (delete_rule_endpoint e aw i)"
  unfolding create_rule_def update_rule_def delete_rule_endpoint_def rule_event_def add_rule_def remove_rule_def
  by (intro pres_intro prims events)+

lemma catalog_ops: "preserves P (catalog_create e k b)" "preserves P (catalog_put e k i b)" "preserves P (catalog_remove e k i)"
  unfolding catalog_create_def catalog_put_def catalog_remove_def catalog_upsert_def catalog_delete_def Let_def
  by (intro pres_intro prims events)+

lemma install_op: "preserves P (catalog_skills_install e aw body)"
  unfolding catalog_skills_install_def run_install_def record_install_def catalog_upsert_def Let_def by (intro pres_intro prims events vms)

lemma write_settings: "preserves P (write_settings e us ks)"
  by (induction us arbitrary: ks) (auto split: option.split intro!: pres_intro prims)

lemma patch_settings: "preserves P (patch_settings e aw body)"
  unfolding patch_settings_def Let_def by (intro pres_intro prims events write_settings)

lemma vm_ops: "preserves P (patch_agent e a m)" "preserves P (launch_agent e aw a)" "preserves P (stop_agent e aw a)"
  unfolding patch_agent_def launch_agent_def stop_agent_def Let_def by (intro pres_intro prims events vms)+

theorem effect: "preserves P (api_effect e envs aw op)"
  by (cases op) (auto intro!: pres_intro data_ops elevation_ops agent_chat rule_ops catalog_ops install_op patch_settings vm_ops)

theorem call: "preserves P m \<Longrightarrow> preserves P (api_call t rq m)"
  unfolding api_call_def rate_limit_dispatch_def by (intro pres_intro limiter)

end

end
