(* ===== verification/Management_Facts.thy ===== *)
theory Management_Facts
  imports Management_Interface Vm_Facts
begin

text \<open>
  The endpoints keep the invariants of the server: the tables, the cache of the rules, the live catalog with its
  copies, the registry of the VMs and the flags of the settings.
\<close>

section \<open>What the control plane holds\<close>

abbreviation control :: "'z api_state_scheme \<Rightarrow> _" where
  "control s \<equiv> (rules s, cached_rules s, catalog_entries s, live_catalog s, server_settings s, api_vms s, api_vm_catalog s, api_memory_catalog s)"

definition flags_ok :: "setting_row list \<Rightarrow> bool" where
  "flags_ok rows \<longleftrightarrow> (\<forall>row \<in> set rows. \<forall>meta. map_of SETTINGS_SPEC (ss_key row) = Some meta \<longrightarrow> ss_secret row = sm_secret meta)"

definition control_ok :: "'z api_state_scheme \<Rightarrow> bool" where
  "control_ok s \<longleftrightarrow> cache_ok s \<and> catalog_fresh s \<and> registry_ok (api_vms s)
     \<and> api_vm_catalog s = live_catalog s \<and> api_memory_catalog s = live_catalog s \<and> flags_ok (server_settings s)"

definition api_ok :: "'z api_state_scheme \<Rightarrow> bool" where
  "api_ok s \<longleftrightarrow> db_ok s \<and> control_ok s"

lemma control_cong: "control s = control s' \<Longrightarrow> control_ok s = control_ok s'"
  by (auto simp: control_ok_def cache_ok_def list_rules_def catalog_fresh_def load_catalog_def list_catalog_entries_def)

lemma control_frame:
  fixes m :: "('z api_state_scheme, 'a) act"
  assumes "\<And>x. preserves (\<lambda>s. control s = x) m"
  shows "preserves control_ok m"
proof (rule preservesI)
  fix s :: "'z api_state_scheme" assume "control_ok s"
  moreover have "control (snd (m s)) = control s" using preservesD [OF assms] by blast
  ultimately show "control_ok (snd (m s))" using control_cong by blast
qed

text \<open>The statements of the data tables touch none of it.\<close>

interpretation control_data: data_invariant "\<lambda>s :: 'z api_state_scheme. control s = x" for x
  by unfold_locales
     (auto simp: preserves_def prim_defs enqueue_pending_replay_def create_grant_def upsert_agent_def upsert_namespace_quota_def
      upsert_user_def upsert_group_def delete_group_def revoke_grant_def upsert_quota_counter_def update_elevation_status_def
      Let_def bindA_def thenA_def split: sum.splits option.splits prod.splits)

lemma host_frame:
  "preserves (\<lambda>s :: 'z api_state_scheme. control s = x) (on_live ml)" "preserves (\<lambda>s :: 'z api_state_scheme. control s = x) (on_limiter mw)"
  by (auto simp: preserves_def on_live_def on_limiter_def split: prod.splits)

section \<open>Catalog writes\<close>

definition entry_ok :: "string \<Rightarrow> obj \<Rightarrow> bool" where
  "entry_ok kind d \<longleftrightarrow> (\<forall>field. catalog_id_field kind = Some field \<longrightarrow> map_of d field \<noteq> None) \<and> (\<exists>x. parse_entry kind d = Inr x)"

definition entries_ok :: "catalog_row list \<Rightarrow> bool" where
  "entries_ok rows \<longleftrightarrow> (\<forall>r \<in> set rows. ce_kind r \<in> set catalog_kinds \<longrightarrow> entry_ok (ce_kind r) (ce_entry r))"

lemma load_kind_succeeds:
  "(\<exists>c. load_kind field validate acc ds = Inr c) \<longleftrightarrow> (\<forall>d \<in> set ds. map_of d field \<noteq> None \<and> (\<exists>x. validate d = Inr x))"
proof (induction ds arbitrary: acc)
  case (Cons d ds)
  then show ?case by (cases "map_of d field"; cases "validate d") auto
qed simp

lemma listed_entries: "set (list_catalog_entries kind s) = ce_entry ` {r \<in> set (catalog_entries s). ce_kind r = kind}"
  by (simp add: list_catalog_entries_def)

lemma load_catalog_succeeds: "(\<exists>c. load_catalog s = Inr c) \<longleftrightarrow> entries_ok (catalog_entries s)"
proof -
  have kind: "(\<forall>d \<in> set (list_catalog_entries kind s). map_of d field \<noteq> None \<and> (\<exists>x. validate d = Inr x))
      \<longleftrightarrow> (\<forall>r \<in> set (catalog_entries s). ce_kind r = kind \<longrightarrow> entry_ok kind (ce_entry r))"
    if "catalog_id_field kind = Some field" "\<And>d. (\<exists>x. parse_entry kind d = Inr x) \<longleftrightarrow> (\<exists>x. validate d = Inr x)"
    for kind field and validate :: "obj \<Rightarrow> 'x res"
    using that by (auto simp: listed_entries entry_ok_def)
  have "(\<exists>c. load_catalog s = Inr c) \<longleftrightarrow>
      (\<exists>c. load_kind ''name'' validate_tool_entry [] (list_catalog_entries ''tools'' s) = Inr c)
      \<and> (\<exists>c. load_kind ''name'' validate_skill_entry [] (list_catalog_entries ''skills'' s) = Inr c)
      \<and> (\<exists>c. load_kind ''id'' validate_workspace_entry [] (list_catalog_entries ''workspaces'' s) = Inr c)
      \<and> (\<exists>c. load_kind ''name'' validate_namespace_template [] (list_catalog_entries ''memory_namespaces'' s) = Inr c)
      \<and> (\<exists>c. load_kind ''provider_id'' validate_provider_entry [] (list_catalog_entries ''llm_providers'' s) = Inr c)"
    unfolding load_catalog_def bindE_eq_Inr by blast
  also have "\<dots> \<longleftrightarrow> (\<forall>kind \<in> set catalog_kinds. \<forall>r \<in> set (catalog_entries s). ce_kind r = kind \<longrightarrow> entry_ok kind (ce_entry r))"
    unfolding load_kind_succeeds
    by (subst (1 2 3 4 5) kind)
       (auto simp: catalog_id_field_def catalog_kinds_def parse_entry_def)
  finally show ?thesis by (auto simp: entries_ok_def)
qed

lemma parsed_entry_ok:
  assumes "parse_entry kind entry = Inr (i, payload)"
  shows "entry_ok kind payload"
proof -
  have tool: "te_risk_level x \<in> {''low'', ''medium'', ''high''}" if "validate_tool_entry d = Inr x" for d x
    using that by (auto simp: validate_tool_entry_def dest!: pyd_def_cases pyd_literal_Inr)
  have skill: "sk_format x \<in> {''builtin'', ''agentskills''} \<and> sk_install_status x \<in> {''approved'', ''pending'', ''rejected''}"
    if "validate_skill_entry d = Inr x" for d x
    using that by (auto simp: validate_skill_entry_def dest!: pyd_def_cases [of "pyd_literal _"] pyd_literal_Inr)
  have workspace: "wk_mount_mode x \<in> {''ro'', ''rw''}" if "validate_workspace_entry d = Inr x" for d x
    using that by (auto simp: validate_workspace_entry_def dest!: pyd_def_cases [of "pyd_literal _"] pyd_literal_Inr)
  have named: "map_of (dump_tool_entry t) ''name'' \<noteq> None" "map_of (dump_skill_entry k) ''name'' \<noteq> None" "map_of (dump_workspace_entry w) ''id'' \<noteq> None"
    "map_of (dump_namespace_template n) ''name'' \<noteq> None" "map_of (dump_provider_entry p) ''provider_id'' \<noteq> None" for t k w n p
    by (simp_all add: dump_tool_entry_def dump_skill_entry_def dump_workspace_entry_def dump_namespace_template_def dump_provider_entry_def)
  show ?thesis using assms named skill
    by (auto simp: parse_entry_def entry_ok_def catalog_id_field_def validate_dump_tool [OF tool] validate_dump_skill
        validate_dump_workspace [OF workspace] validate_dump_namespace validate_dump_provider split: if_split_asm)
qed

lemma upserted_entries_ok:
  "entries_ok rows \<Longrightarrow> (ce_kind r \<in> set catalog_kinds \<Longrightarrow> entry_ok (ce_kind r) (ce_entry r)) \<Longrightarrow> entries_ok (upsert_row ce_key catalog_merge r rows)"
  by (auto simp: entries_ok_def upsert_row_def catalog_merge_def ce_key_def)

lemma reload_control:
  assumes "entries_ok (catalog_entries s)"
  shows "\<exists>c. catalog_reload s = (Inr c, s\<lparr>live_catalog := c\<rparr>) \<and> load_catalog s = Inr c"
  using assms load_catalog_succeeds [of s] by (auto simp: catalog_reload_def)

lemma catalog_upsert_control:
  fixes s :: "'z api_state_scheme"
  assumes "control_ok s" and "catalog_upsert e kind body s = (r, s')"
  shows "control_ok (s'\<lparr>api_memory_catalog := live_catalog s', api_vm_catalog := live_catalog s'\<rparr>) \<and> (isl r \<longrightarrow> s' = s)"
proof (cases "parse_entry kind body")
  case (Inl x)
  with assms show ?thesis by (auto simp: catalog_upsert_def control_ok_def cache_ok_def list_rules_def catalog_fresh_def load_catalog_def list_catalog_entries_def)
next
  case (Inr p)
  obtain i payload where p: "p = (i, payload)" by force
  define t where "t = snd (upsert_catalog_entry e kind i payload s)"
  have t: "upsert_catalog_entry e kind i payload s = (Inr (), t)" by (simp add: t_def upsert_catalog_entry_def)
  have "entries_ok (catalog_entries s)"
    using assms(1) load_catalog_succeeds [of s] by (auto simp: control_ok_def catalog_fresh_def)
  then have "entries_ok (catalog_entries t)"
    using parsed_entry_ok Inr p by (auto simp: t_def upsert_catalog_entry_def intro: upserted_entries_ok)
  from reload_control [OF this] obtain c where c: "catalog_reload t = (Inr c, t\<lparr>live_catalog := c\<rparr>)" "load_catalog t = Inr c" by blast
  have "r = Inr payload" "s' = t\<lparr>live_catalog := c\<rparr>"
    using assms(2) Inr p t c(1) by (auto simp: catalog_upsert_def thenA_def bindA_def liftR_def)
  moreover have "load_catalog (t\<lparr>live_catalog := c, api_memory_catalog := c, api_vm_catalog := c\<rparr>) = Inr c"
    using c(2) by (simp add: load_catalog_def list_catalog_entries_def)
  ultimately show ?thesis using assms(1)
    by (simp add: control_ok_def catalog_fresh_def t_def upsert_catalog_entry_def cache_ok_def list_rules_def)
qed

lemma catalog_delete_control:
  fixes s :: "'z api_state_scheme"
  assumes "control_ok s" and "catalog_delete kind i s = (r, s')"
  shows "control_ok (s'\<lparr>api_memory_catalog := live_catalog s', api_vm_catalog := live_catalog s'\<rparr>) \<and> (r \<noteq> Inr True \<longrightarrow> control s' = control s)"
proof (cases "kind \<in> set catalog_kinds")
  case False
  with assms show ?thesis by (auto simp: catalog_delete_def control_ok_def cache_ok_def list_rules_def catalog_fresh_def load_catalog_def list_catalog_entries_def)
next
  case True
  define t where "t = snd (delete_catalog_entry kind i s)"
  obtain b where t: "delete_catalog_entry kind i s = (Inr b, t)" "b \<longleftrightarrow> (\<exists>r \<in> set (catalog_entries s). ce_kind r = kind \<and> ce_entry_id r = i)"
    by (auto simp: t_def delete_catalog_entry_def row_count_def filter_empty_conv)
  have "entries_ok (catalog_entries s)"
    using assms(1) load_catalog_succeeds [of s] by (auto simp: control_ok_def catalog_fresh_def)
  then have "entries_ok (catalog_entries t)" by (auto simp: t_def delete_catalog_entry_def delete_rows_def entries_ok_def)
  from reload_control [OF this] obtain c where c: "catalog_reload t = (Inr c, t\<lparr>live_catalog := c\<rparr>)" "load_catalog t = Inr c" by blast
  show ?thesis
  proof (cases b)
    case True
    then have "r = Inr True" "s' = t\<lparr>live_catalog := c\<rparr>"
      using assms(2) \<open>kind \<in> set catalog_kinds\<close> t(1) c(1) by (auto simp: catalog_delete_def thenA_def bindA_def)
    moreover have "load_catalog (t\<lparr>live_catalog := c, api_memory_catalog := c, api_vm_catalog := c\<rparr>) = Inr c"
      using c(2) by (simp add: load_catalog_def list_catalog_entries_def)
    ultimately show ?thesis using assms(1)
      by (simp add: control_ok_def catalog_fresh_def t_def delete_catalog_entry_def cache_ok_def list_rules_def)
  next
    case False
    then have "s' = t" using assms(2) \<open>kind \<in> set catalog_kinds\<close> t(1) by (auto simp: catalog_delete_def bindA_def)
    moreover have "catalog_entries t = catalog_entries s" using False t(2) by (auto simp: t_def delete_catalog_entry_def delete_rows_def intro!: filter_True)
    then have "t = s" by (simp add: t_def delete_catalog_entry_def)
    ultimately show ?thesis using assms(1)
      by (auto simp: control_ok_def cache_ok_def list_rules_def catalog_fresh_def load_catalog_def list_catalog_entries_def)
  qed
qed

section \<open>Every endpoint keeps the control plane\<close>

text \<open>The catalog with its copies taken from it.\<close>

abbreviation recopied :: "'z api_state_scheme \<Rightarrow> 'z api_state_scheme" where
  "recopied s \<equiv> s\<lparr>api_memory_catalog := live_catalog s, api_vm_catalog := live_catalog s\<rparr>"

lemma after_write_control: "control_ok (recopied s) \<Longrightarrow> control_ok (snd (after_catalog_write kind s))"
  by (erule control_cong [THEN iffD1, rotated]) (simp add: after_catalog_write_def Let_def split: option.split)

lemma upsert_triple:
  "triple control_ok (catalog_upsert e kind body) (\<lambda>_ s. control_ok (recopied s)) (control_ok :: 'z api_state_scheme \<Rightarrow> bool)"
  unfolding triple_def
proof (intro allI impI)
  fix s :: "'z api_state_scheme" assume "control_ok s"
  obtain r s' where r: "catalog_upsert e kind body s = (r, s')" by force
  from catalog_upsert_control [OF \<open>control_ok s\<close> r] \<open>control_ok s\<close>
  show "case catalog_upsert e kind body s of (Inr _, s') \<Rightarrow> control_ok (recopied s') | (Inl _, s') \<Rightarrow> control_ok s'"
    by (cases r) (auto simp: r)
qed

lemma after_write_triple:
  "preserves control_ok k \<Longrightarrow> triple (\<lambda>s. control_ok (recopied s)) (thenA (after_catalog_write kind) k) (\<lambda>_. control_ok) (control_ok :: 'z api_state_scheme \<Rightarrow> bool)"
proof -
  assume k: "preserves control_ok k"
  have "triple (\<lambda>s. control_ok (recopied s)) (after_catalog_write kind) (\<lambda>_. control_ok) (control_ok :: 'z api_state_scheme \<Rightarrow> bool)"
    using after_write_control by (intro triple_total) (auto simp: after_catalog_write_def)
  then show ?thesis by (rule triple_then) (rule triple_preserves [OF k])
qed

lemma catch_triple:
  "triple P m Q E \<Longrightarrow> triple P (catch_value c code m) (\<lambda>r s. case r of Inl _ \<Rightarrow> E s | Inr x \<Rightarrow> Q x s) E"
proof -
  assume t: "triple P m Q E"
  have "case catch_value c code m s of (Inr r, s') \<Rightarrow> (case r of Inl _ \<Rightarrow> E s' | Inr x \<Rightarrow> Q x s') | (Inl _, s') \<Rightarrow> E s'" if "P s" for s
    using t [unfolded triple_def, rule_format, OF that] by (cases "m s"; cases "fst (m s)") (auto simp: catch_value_def)
  then show ?thesis by (simp add: triple_def)
qed

lemma write_triple:
  assumes "\<And>x. preserves control_ok (k x)"
  shows "triple control_ok (bindH (catch_value c code (catalog_upsert e kind body)) (\<lambda>x. thenA (after_catalog_write kind') (k x)))
     (\<lambda>_. control_ok) (control_ok :: 'z api_state_scheme \<Rightarrow> bool)"
  unfolding bindH_def
  by (rule triple_bind [OF catch_triple [OF upsert_triple]]) (auto split: sum.split intro: triple_ret after_write_triple [OF assms])

lemma triple_pres: "triple P m (\<lambda>_. P) P \<Longrightarrow> preserves P m"
  using tripleD preservesI by metis

lemma frame_control:
  "preserves control_ok (log_api_mutation e ep d :: ('z api_state_scheme, _) act)"
  "preserves control_ok (log_security_event e ty d c oc ag mi de rs :: ('z api_state_scheme, _) act)"
  "preserves control_ok (on_live ml :: ('z api_state_scheme, 'a) act)"
  "preserves control_ok (on_limiter mw :: ('z api_state_scheme, 'b) act)"
  "preserves control_ok (upsert_agent e a hh mf :: ('z api_state_scheme, _) act)"
  by (intro control_frame control_data.events control_data.data_prims host_frame)+

lemma catalog_create_control: "preserves control_ok (catalog_create e kind body :: ('z api_state_scheme, _) act)"
  unfolding catalog_create_def Let_def by (rule triple_pres, rule write_triple) (intro pres_intro frame_control)

lemma catalog_put_control: "preserves control_ok (catalog_put e kind i body :: ('z api_state_scheme, _) act)"
proof -
  have "preserves control_ok (bindH (catch_value c code (catalog_upsert e k b)) (\<lambda>x. thenA (after_catalog_write k)
      (thenA (log_api_mutation e ep d) (http_ok (f x)))) :: ('z api_state_scheme, _) act)" for c code k b ep d f
    by (rule triple_pres, rule write_triple) (intro pres_intro frame_control)
  then show ?thesis unfolding catalog_put_def Let_def by (intro preserves_case_option http_pres)
qed

lemma catalog_remove_control: "preserves control_ok (catalog_remove e kind i :: ('z api_state_scheme, _) act)"
proof (rule preservesI)
  fix s :: "'z api_state_scheme" assume ok: "control_ok s"
  let ?kind = "normalize_catalog_kind kind"
  obtain r s' where r: "catalog_delete ?kind i s = (r, s')" by force
  note d = catalog_delete_control [OF ok r]
  have keep: "preserves control_ok (thenA (log_api_mutation e ep x) (http_ok y) :: ('z api_state_scheme, _) act)" for ep x and y :: obj
    by (intro pres_intro frame_control)
  show "control_ok (snd (catalog_remove e kind i s))"
  proof (cases "r = Inr True")
    case True
    with d after_write_control [of s'] have "control_ok (snd (after_catalog_write ?kind s'))" by blast
    from preservesD [OF keep this] show ?thesis
      by (simp add: catalog_remove_def Let_def bindH_def catch_value_def r True thenA_def bindA_def after_catalog_write_def)
  next
    case False
    with d ok have "control_ok s'" using control_cong by blast
    with False show ?thesis
      by (cases r) (auto simp: catalog_remove_def Let_def bindH_def catch_value_def r http_fail_def bindA_def)
  qed
qed

lemma rule_control:
  "preserves control_ok (add_rule e r :: ('z api_state_scheme, _) act)"
  "preserves control_ok (remove_rule i :: ('z api_state_scheme, _) act)"
  "preserves control_ok (rule_event e aw ev i :: ('z api_state_scheme, _) act)"
proof -
  have other: "control_ok (s\<lparr>rules := rs, cached_rules := cs\<rparr>) \<longleftrightarrow> control_ok (s\<lparr>rules := rs, cached_rules := list_rules (s\<lparr>rules := rs\<rparr>)\<rparr>) \<and> cs = list_rules (s\<lparr>rules := rs\<rparr>)"
    for s :: "'z api_state_scheme" and rs cs
    by (auto simp: control_ok_def cache_ok_def list_rules_def catalog_fresh_def load_catalog_def list_catalog_entries_def)
  have new: "control_ok (s\<lparr>rules := rs, cached_rules := list_rules (s\<lparr>rules := rs\<rparr>)\<rparr>)" if "control_ok s" for s :: "'z api_state_scheme" and rs
    using that by (auto simp: control_ok_def cache_ok_def list_rules_def catalog_fresh_def load_catalog_def list_catalog_entries_def)
  show "preserves control_ok (add_rule e r :: ('z api_state_scheme, _) act)"
    unfolding add_rule_def by (intro preserves_liftR_bind) (use new in \<open>auto simp: preserves_def upsert_rule_def rules_reload_def\<close>)
  show "preserves control_ok (remove_rule i :: ('z api_state_scheme, _) act)"
    using new by (auto simp: preserves_def remove_rule_def delete_rule_def rules_reload_def bindA_def)
  show "preserves control_ok (rule_event e aw ev i :: ('z api_state_scheme, _) act)"
    unfolding rule_event_def by (intro pres_intro frame_control)
qed

lemma rule_op_control:
  "preserves control_ok (create_rule e aw r :: ('z api_state_scheme, _) act)"
  "preserves control_ok (update_rule e aw i r :: ('z api_state_scheme, _) act)"
  "preserves control_ok (delete_rule_endpoint e aw i :: ('z api_state_scheme, _) act)"
  unfolding create_rule_def update_rule_def delete_rule_endpoint_def by (intro pres_intro rule_control)+

lemma setting_control:
  "map_of SETTINGS_SPEC key = Some meta \<Longrightarrow> preserves control_ok (upsert_setting e key v (sm_secret meta) restart :: ('z api_state_scheme, _) act)"
  by (auto simp: preserves_def upsert_setting_def control_ok_def cache_ok_def list_rules_def catalog_fresh_def load_catalog_def
      list_catalog_entries_def flags_ok_def upsert_row_def setting_merge_def)

lemma write_settings_control: "preserves control_ok (write_settings e updates ks :: ('z api_state_scheme, _) act)"
proof (induction updates arbitrary: ks)
  case (Cons u updates)
  obtain key v where u: "u = (key, v)" by force
  show ?case unfolding u write_settings.simps
    by (auto split: option.split intro!: pres_intro setting_control Cons)
qed (simp add: pres_intro)

lemma patch_settings_control: "preserves control_ok (patch_settings e aw body :: ('z api_state_scheme, _) act)"
proof -
  have "preserves control_ok (modS (\<lambda>s. s\<lparr>api_limiter := f s\<rparr>) :: ('z api_state_scheme, _) act)" for f
    by (intro control_frame) (simp add: preserves_def)
  then show ?thesis unfolding patch_settings_def Let_def
    by (intro pres_intro write_settings_control frame_control)
qed

section \<open>The endpoints of the VMs\<close>

text \<open>Everything of \<open>control_ok\<close> but the registry.\<close>

definition stores_ok :: "'z api_state_scheme \<Rightarrow> bool" where
  "stores_ok s \<longleftrightarrow> cache_ok s \<and> catalog_fresh s \<and> api_vm_catalog s = live_catalog s \<and> api_memory_catalog s = live_catalog s
     \<and> flags_ok (server_settings s)"

lemma control_ok_iff: "control_ok s \<longleftrightarrow> stores_ok s \<and> registry_ok (api_vms s)"
  by (auto simp: control_ok_def stores_ok_def)

lemma stores_ok_vms [simp]: "stores_ok (s\<lparr>api_vms := h\<rparr>) = stores_ok s"
  by (simp add: stores_ok_def cache_ok_def list_rules_def catalog_fresh_def load_catalog_def list_catalog_entries_def)

lemma on_vms_triple:
  "triple P m Q E \<Longrightarrow> triple (\<lambda>s. stores_ok s \<and> P (api_vms s)) (on_vms m) (\<lambda>x s. stores_ok s \<and> Q x (api_vms s)) (\<lambda>s. stores_ok s \<and> E (api_vms s))"
  unfolding triple_def on_vms_def by (fastforce split: prod.splits sum.splits)

lemma on_vms_control: "preserves registry_ok m \<Longrightarrow> preserves control_ok (on_vms m)"
  by (force simp: preserves_def on_vms_def control_ok_iff split: prod.split)

lemma install_control: "preserves control_ok (catalog_skills_install e aw body :: ('z api_state_scheme, _) act)"
proof -
  have files: "preserves registry_ok (on_fs m :: (launcher_state, _) act)" for m :: "(host_fs, 'a) act"
    by (simp add: preserves_def on_fs_def registry_ok_def split: prod.split)
  have "preserves control_ok (record_install e req r :: ('z api_state_scheme, _) act)" for req r
    unfolding record_install_def by (rule triple_pres, rule triple_then [OF upsert_triple]) (intro after_write_triple frame_control)
  then show ?thesis unfolding catalog_skills_install_def run_install_def Let_def
    by (intro pres_intro on_vms_control files frame_control)
qed

lemma patch_agent_control: "preserves control_ok (patch_agent e a m :: ('z api_state_scheme, _) act)"
  unfolding patch_agent_def Let_def by (intro pres_intro on_vms_control look_registry frame_control)

lemma stop_agent_control: "preserves control_ok (stop_agent e aw a :: ('z api_state_scheme, _) act)"
proof -
  have rest: "preserves control_ok (bindA (on_vms (vm_get e i)) (\<lambda>stopped. thenA (log_api_mutation e ep d) (vm_reply (f stopped)))
      :: ('z api_state_scheme, _) act)" for i ep d f
    by (intro pres_intro on_vms_control look_registry frame_control)
  have stop: "triple (\<lambda>s. stores_ok s \<and> stoppable i (api_vms s)) (thenA (on_vms (vm_stop e (aw_fc aw) i)) (bindA (on_vms (vm_get e i))
      (\<lambda>stopped. thenA (log_api_mutation e ep d) (vm_reply (f stopped))))) (\<lambda>_. control_ok) (control_ok :: 'z api_state_scheme \<Rightarrow> bool)" for i ep d f
    using triple_preserves [OF rest] on_vms_triple [OF vm_stop_triple [of i e "aw_fc aw"]]
    unfolding control_ok_iff by (intro triple_then) auto
  have "triple control_ok (stop_agent e aw a) (\<lambda>_. control_ok) (control_ok :: 'z api_state_scheme \<Rightarrow> bool)"
    unfolding stop_agent_def
  proof (rule triple_bind [where R = "\<lambda>found s. stores_ok s \<and> registry_ok (api_vms s) \<and> (\<forall>r. found = Some r \<longrightarrow> stoppable (vm_instance_id r) (api_vms s))"])
    show "triple control_ok (on_vms (get_by_agent e a)) (\<lambda>found s. stores_ok s \<and> registry_ok (api_vms s)
        \<and> (\<forall>r. found = Some r \<longrightarrow> stoppable (vm_instance_id r) (api_vms s))) (control_ok :: 'z api_state_scheme \<Rightarrow> bool)"
      using on_vms_triple [OF get_active_triple [of e a]] unfolding control_ok_iff by simp
    show "triple (\<lambda>s. stores_ok s \<and> registry_ok (api_vms s) \<and> (\<forall>r. found = Some r \<longrightarrow> stoppable (vm_instance_id r) (api_vms s)))
        (case found of None \<Rightarrow> http_fail 404 ''VM_NOT_RUNNING'' | Some r \<Rightarrow>
           thenA (on_vms (vm_stop e (aw_fc aw) (vm_instance_id r))) (bindA (on_vms (vm_get e (vm_instance_id r))) (\<lambda>stopped.
             thenA (log_api_mutation e (''POST /v1/agents/'' @ a @ ''/stop'') [(''agent_id'', JStr a), (''vm_instance_id'', JStr (vm_instance_id r))])
               (vm_reply (case stopped of None \<Rightarrow> r | Some x \<Rightarrow> x))))) (\<lambda>_. control_ok) (control_ok :: 'z api_state_scheme \<Rightarrow> bool)" for found
    proof (cases found)
      case None
      then show ?thesis by (auto simp: http_fail_def control_ok_iff intro!: triple_ret)
    next
      case (Some r)
      then show ?thesis by (simp only: option.case) (rule triple_pre [OF stop], simp)
    qed
  qed
  then show ?thesis by (rule triple_pres)
qed

lemma catch_launch_triple:
  "triple P m Q E \<Longrightarrow>
     triple P (catch_launch m) (\<lambda>r s. case r of Inl _ \<Rightarrow> E s | Inr x \<Rightarrow> Q x s) E"
proof -
  assume t: "triple P m Q E"
  have "case catch_launch m s of (Inr r, s') \<Rightarrow> (case r of Inl _ \<Rightarrow> E s' | Inr x \<Rightarrow> Q x s') | (Inl _, s') \<Rightarrow> E s'" if "P s" for s
    using t [unfolded triple_def, rule_format, OF that] by (cases "m s"; cases "fst (m s)") (auto simp: catch_launch_def)
  then show ?thesis by (simp add: triple_def)
qed

lemma launch_agent_triple:
  "triple (\<lambda>s. control_ok s \<and> fresh_launch e None (api_vms s)) (launch_agent e aw a) (\<lambda>_. control_ok) (control_ok :: 'z api_state_scheme \<Rightarrow> bool)"
proof -
  let ?P = "\<lambda>s :: 'z api_state_scheme. stores_ok s \<and> registry_ok (api_vms s) \<and> fresh_launch e None (api_vms s)"
  have l: "triple (\<lambda>h. registry_ok h \<and> fresh_launch e None h) (launch e cfg fc c a mf None gh :: (launcher_state, _) act) (\<lambda>_. registry_ok) registry_ok"
    for cfg fc c mf gh
    unfolding launch_def by (rule triple_bind [OF launch_begin_triple launch_finish_triple])
  have start: "triple ?P (catch_launch (on_vms (launch e cfg fc c a mf None gh))) (\<lambda>_. control_ok) control_ok" for cfg fc c mf gh
    by (rule triple_post [OF triple_pre [OF catch_launch_triple [OF on_vms_triple [OF l]]]]) (auto simp: control_ok_iff split: sum.splits)
  have finish: "preserves control_ok (thenA (log_api_mutation e ep d) (vm_reply r) :: ('z api_state_scheme, _) act)" for ep d r
    by (intro pres_intro frame_control)
  have find: "triple ?P (find_agent a) (\<lambda>_. ?P) control_ok"
    by (rule triple_preserves [OF look_pres(2)]) (simp add: control_ok_iff)
  have "triple ?P (launch_agent e aw a) (\<lambda>_. control_ok) control_ok"
    unfolding launch_agent_def bindH_def
    apply (rule triple_bind [OF find], split sum.split, intro conjI allI impI)
     apply (rule triple_ret, simp add: control_ok_iff)
    apply (rule triple_bind [OF triple_preserves [OF preserves_getS]], simp add: control_ok_iff)
    apply (rule triple_bind [OF start], split sum.split, intro conjI allI impI)
     apply (rule triple_ret, simp)
    apply (rule triple_preserves [OF finish], simp)
    done
  then show ?thesis by (rule triple_pre) (simp add: control_ok_iff)
qed

section \<open>Every operation\<close>

interpretation keys_managed: management_invariant "db_ok :: 'z api_state_scheme \<Rightarrow> bool"
  by unfold_locales (intro pres_intro | simp add: preserves_def after_catalog_write_def on_live_def Let_def db_ok_def split: prod.split option.split)+

lemmas store_defs = prim_defs enqueue_pending_replay_def create_grant_def upsert_agent_def upsert_namespace_quota_def
  upsert_user_def upsert_group_def delete_group_def revoke_grant_def upsert_quota_counter_def update_elevation_status_def
  upsert_rule_def delete_rule_def rules_reload_def upsert_catalog_entry_def delete_catalog_entry_def catalog_reload_def
  after_catalog_write_def upsert_setting_def on_live_def

text \<open>What the memory operations keep of the log is known of the router.\<close>

interpretation log_managed: management_invariant "\<lambda>s :: 'z api_state_scheme. log_extends l (audit_log s)" for l
  by unfold_locales (auto simp: preserves_def store_defs Let_def bindA_def thenA_def split: sum.splits option.splits prod.splits)

interpretation ids_managed: management_invariant "\<lambda>s :: 'z api_state_scheme. audit_ok (audit_log s)"
  by unfold_locales (auto simp: preserves_def store_defs Let_def bindA_def thenA_def split: sum.splits option.splits prod.splits)

text \<open>What a launch needs: an identifier no VM has.\<close>

definition fresh_for :: "env \<Rightarrow> api_op \<Rightarrow> 'z api_state_scheme \<Rightarrow> bool" where
  "fresh_for e op s \<longleftrightarrow> (case op of LaunchAgent _ \<Rightarrow> fresh_launch e None (api_vms s) | _ \<Rightarrow> True)"

lemma effect_control:
  fixes s :: "'z api_state_scheme"
  assumes "control_ok s" and "fresh_for e op s"
  shows "control_ok (snd (api_effect e envs aw op s))"
proof (cases "\<exists>a. op = LaunchAgent a")
  case True
  then obtain a where op: "op = LaunchAgent a" by blast
  have "triple (\<lambda>s. control_ok s \<and> fresh_launch e None (api_vms s)) (quiet (launch_agent e aw a)) (\<lambda>_. control_ok) (control_ok :: 'z api_state_scheme \<Rightarrow> bool)"
    unfolding quiet_def bindH_def by (rule triple_bind [OF launch_agent_triple]) (auto simp: http_ok_def intro!: triple_ret split: sum.split)
  with assms show ?thesis using tripleD by (fastforce simp: op fresh_for_def)
next
  case False
  have "preserves control_ok (api_effect e envs aw op :: ('z api_state_scheme, _) act)"
    using False by (cases op) (auto intro!: http_pres control_data.data_ops [THEN control_frame] control_data.elevation_ops [THEN control_frame] control_data.agent_chat [THEN control_frame]
        catalog_create_control
        catalog_put_control catalog_remove_control install_control rule_op_control patch_settings_control patch_agent_control stop_agent_control)
  with assms(1) show ?thesis by (rule preservesD [rotated])
qed

lemma effect_api_ok:
  fixes s :: "'z api_state_scheme"
  assumes "api_ok s" and "fresh_for e op s"
  shows "api_ok (snd (api_effect e envs aw op s))"
  using assms effect_control preservesD [OF keys_managed.effect] by (auto simp: api_ok_def)

end
