(* ===== verification/Whole_Server.thy ===== *)
theory Whole_Server
  imports Management_Facts
begin

text \<open>
  The whole server: the gateway serves the VMs while the management API serves its clients, over one state, and
  the host's processes come and go.  The services of the gateway may differ from step to step, since settings
  are live.  The invariants of the parts are combined into one of every run.
\<close>

section \<open>The gateway leaves the control plane alone\<close>

interpretation control_routed: routing_invariant "\<lambda>s :: 'z api_state_scheme. control s = x" cfg conn for x cfg conn
  by unfold_locales
     (auto simp: preserves_def prim_defs turn_defs Let_def bindA_def thenA_def split: sum.splits option.splits prod.splits)

interpretation control_step: server_invariant "\<lambda>s :: 'z api_state_scheme. control s = x" sv for x sv
proof unfold_locales
  show "control (snd (router_handle e sv m c s)) = x" if "control s = x" for e m c and s :: "'z api_state_scheme"
    using preservesD [OF control_routed.router_handle [OF refl]] that .
qed (rule control_data.run_llm_stream sweep_frame | simp add: gateway_defs preserves_def split: option.splits)+

section \<open>Runs\<close>

inductive system_step :: "'z api_state_scheme \<Rightarrow> 'z api_state_scheme \<Rightarrow> bool" where
  gateway: "server_step sv s t \<Longrightarrow> system_step s t"
| request: "fresh_for e op s \<Longrightarrow> system_step s (snd (api_call t rq (api_effect e envs aw op) s))"
| processes: "system_step s (s\<lparr>api_vms := (api_vms s)\<lparr>vh_procs := ps\<rparr>\<rparr>)"

inductive system_run :: "'z api_state_scheme \<Rightarrow> 'z api_state_scheme \<Rightarrow> bool" for s0 where
  system_start: "system_run s0 s0"
| system_next: "system_run s0 s \<Longrightarrow> system_step s t \<Longrightarrow> system_run s0 t"

inductive_cases system_stepE: "system_step s t"

text \<open>The limiter and the key stand in front of a request: the state is that of the handler, or only the limiter
  has changed.\<close>

lemma api_call_cases:
  "\<exists>l. api_call t rq m s = m (s\<lparr>api_limiter := l\<rparr>) \<or> snd (api_call t rq m s) = s\<lparr>api_limiter := l\<rparr>"
proof (cases "metered rq")
  case False
  then show ?thesis by (auto simp: api_call_open require_key intro!: exI [of _ "api_limiter s"])
next
  case True
  obtain r l where l: "window_allow t (client_key rq) (api_limiter s) = (r, l)" by force
  then show ?thesis by (cases r) (auto simp: api_call_limited [OF True l] require_key intro!: exI [of _ l])
qed

lemma limiter_frame [simp]:
  "api_ok (s\<lparr>api_limiter := l\<rparr>) = api_ok s" "fresh_for e op (s\<lparr>api_limiter := l\<rparr>) = fresh_for e op s"
  by (simp_all add: api_ok_def db_ok_def control_ok_def cache_ok_def list_rules_def catalog_fresh_def load_catalog_def
      list_catalog_entries_def fresh_for_def split: api_op.split)

lemma processes_frame [simp]: "api_ok (s\<lparr>api_vms := (api_vms s)\<lparr>vh_procs := ps\<rparr>\<rparr>) = api_ok s"
  by (simp add: api_ok_def db_ok_def control_ok_iff registry_ok_def)

lemma call_api_ok:
  assumes "api_ok s" and "fresh_for e op s"
  shows "api_ok (snd (api_call t rq (api_effect e envs aw op) s))"
proof -
  from api_call_cases obtain l where "api_call t rq (api_effect e envs aw op) s = api_effect e envs aw op (s\<lparr>api_limiter := l\<rparr>)
      \<or> snd (api_call t rq (api_effect e envs aw op) s) = s\<lparr>api_limiter := l\<rparr>" by blast
  then show ?thesis using effect_api_ok [of "s\<lparr>api_limiter := l\<rparr>" e op envs aw] assms by auto
qed

lemma gateway_api_ok:
  fixes s :: "'z api_state_scheme"
  assumes "server_step sv s t" and "api_ok s"
  shows "api_ok t"
proof -
  have "db_ok t" using keys_step.step_keeps [OF assms(1)] assms(2) by (simp add: api_ok_def)
  moreover have "control t = control s" using control_step.step_keeps [OF assms(1), of "control s"] by simp
  ultimately show ?thesis using assms(2) control_cong by (auto simp: api_ok_def)
qed

lemma step_api_ok: "system_step s t \<Longrightarrow> api_ok s \<Longrightarrow> api_ok t"
  by (induction rule: system_step.induct) (simp_all add: gateway_api_ok call_api_ok)

lemma run_api_ok: "system_run s0 s \<Longrightarrow> api_ok s0 \<Longrightarrow> api_ok s"
  by (induction rule: system_run.induct) (auto intro: step_api_ok)

lemma step_log:
  fixes s :: "'z api_state_scheme"
  shows "system_step s t \<Longrightarrow> log_extends l (audit_log s) \<Longrightarrow> log_extends l (audit_log t)"
proof (induction rule: system_step.induct)
  case (request e op s t rq envs aw)
  from preservesD [OF log_managed.call [OF log_managed.effect] this(2)] show ?case .
qed (auto dest: log_step.step_keeps)

lemma step_ids:
  fixes s :: "'z api_state_scheme"
  shows "system_step s t \<Longrightarrow> audit_ok (audit_log s) \<Longrightarrow> audit_ok (audit_log t)"
proof (induction rule: system_step.induct)
  case (request e op s t rq envs aw)
  have "preserves (\<lambda>s :: 'z api_state_scheme. audit_ok (audit_log s)) (api_call t rq (api_effect e envs aw op))"
    by (rule ids_managed.call [OF ids_managed.effect])
  from preservesD [OF this request(2)] show ?case .
qed (auto dest: ids_step.step_keeps)

lemma run_log:
  fixes s :: "'z api_state_scheme"
  assumes "system_run s0 s" and "audit_ok (audit_log s0)"
  shows "log_extends (audit_log s0) (audit_log s) \<and> audit_ok (audit_log s)"
  using assms by (induction rule: system_run.induct) (auto intro: step_log step_ids)

section \<open>Which requests leave a trace\<close>

text \<open>A handler that answers successfully has added to the log.\<close>

definition traced :: "('z api_state_scheme, 'a http) act \<Rightarrow> bool" where
  "traced m \<longleftrightarrow> (\<forall>s x s'. m s = (Inr (Inr x), s') \<longrightarrow> length (audit_log s) < length (audit_log s'))"

definition longer :: "nat \<Rightarrow> 'z api_state_scheme \<Rightarrow> bool" where
  "longer n s \<longleftrightarrow> n \<le> length (audit_log s)"

interpretation longer_managed: management_invariant "longer n :: 'z api_state_scheme \<Rightarrow> bool" for n
  by unfold_locales (auto simp: preserves_def longer_def store_defs Let_def bindA_def thenA_def split: sum.splits option.splits prod.splits)

lemma longer_mono: "preserves (longer (length (audit_log s))) m \<Longrightarrow> m s = (r, s') \<Longrightarrow> length (audit_log s) \<le> length (audit_log s')"
  by (force simp: preserves_def longer_def dest: spec [of _ s])

lemma traced_bindA: "(\<And>n. preserves (longer n) m) \<Longrightarrow> (\<And>x. traced (f x)) \<Longrightarrow> traced (bindA m f)"
  unfolding traced_def by (blast elim: bindA_InrE intro: order_le_less_trans longer_mono)

lemma traced_thenA: "(\<And>n. preserves (longer n) m) \<Longrightarrow> traced k \<Longrightarrow> traced (thenA m k)"
  unfolding thenA_def by (rule traced_bindA)

lemma traced_bindH: "(\<And>n. preserves (longer n) m) \<Longrightarrow> (\<And>x. traced (f x)) \<Longrightarrow> traced (bindH m f)"
  unfolding bindH_def by (rule traced_bindA) (auto simp: traced_def split: sum.split)

lemma traced_fail: "traced (http_fail c k)"
  by (simp add: traced_def http_fail_def)

lemma traced_if: "traced m \<Longrightarrow> traced k \<Longrightarrow> traced (if b then m else k)"
  by simp

lemma traced_option: "traced m \<Longrightarrow> (\<And>y. traced (f y)) \<Longrightarrow> traced (case x of None \<Rightarrow> m | Some y \<Rightarrow> f y)"
  by (cases x) auto

text \<open>An action that adds to the log whenever it returns.\<close>

definition logs :: "('z api_state_scheme, 'a) act \<Rightarrow> bool" where
  "logs m \<longleftrightarrow> (\<forall>s x s'. m s = (Inr x, s') \<longrightarrow> length (audit_log s) < length (audit_log s'))"

lemma logs_event: "logs (log_api_mutation e ep d)" "logs (log_security_event e ty d c oc ag mi de rs)"
  by (simp_all add: logs_def audit_events audit_insert_def)

lemma logs_bindA: "(\<And>n. preserves (longer n) m) \<Longrightarrow> (\<And>x. logs (f x)) \<Longrightarrow> logs (bindA m f)"
  unfolding logs_def by (blast elim: bindA_InrE intro: order_le_less_trans longer_mono)

lemma logs_thenA: "logs m \<Longrightarrow> (\<And>n. preserves (longer n) k) \<Longrightarrow> logs (thenA m k)"
  unfolding logs_def by (blast elim: thenA_InrE intro: order_less_le_trans longer_mono)

lemma traced_logs: "logs m \<Longrightarrow> (\<And>x n. preserves (longer n) (f x)) \<Longrightarrow> traced (bindA m f)"
  unfolding logs_def traced_def by (blast elim: bindA_InrE intro: order_less_le_trans longer_mono)

lemma traced_event: "logs m \<Longrightarrow> (\<And>n. preserves (longer n) k) \<Longrightarrow> traced (thenA m k)"
  unfolding thenA_def by (rule traced_logs)

lemma logs_rule_event: "logs (rule_event e aw ev i :: ('z api_state_scheme, _) act)"
  unfolding rule_event_def by (intro logs_bindA pres_intro logs_event)

lemmas traced_intro = traced_event [OF logs_event(1)] traced_event [OF logs_event(2)] traced_event [OF logs_rule_event]
  traced_bindA traced_thenA traced_bindH traced_if traced_option traced_fail

lemma traced_quiet: "traced m \<Longrightarrow> traced (quiet m)"
  by (auto simp: traced_def quiet_def bindH_def http_ok_def elim!: bindA_InrE split: sum.splits)

lemma traced_data:
  "traced (create_agent e envs a m :: ('z api_state_scheme, _) act)" "traced (patch_agent_namespace e a n q :: ('z api_state_scheme, _) act)"
  "traced (create_user e u :: ('z api_state_scheme, _) act)" "traced (patch_user_endpoint e ui up :: ('z api_state_scheme, _) act)"
  "traced (delete_user_endpoint e ui :: ('z api_state_scheme, _) act)" "traced (create_group e gc :: ('z api_state_scheme, _) act)"
  "traced (patch_group e gi gx :: ('z api_state_scheme, _) act)" "traced (delete_group_endpoint e gi :: ('z api_state_scheme, _) act)"
  "traced (create_grant_endpoint e gt :: ('z api_state_scheme, _) act)" "traced (revoke_grant_endpoint e gri :: ('z api_state_scheme, _) act)"
  "traced (patch_quota e k qp :: ('z api_state_scheme, _) act)"
  unfolding create_agent_def create_launch_grant_def patch_agent_namespace_def create_user_def patch_user_endpoint_def
    delete_user_endpoint_def create_group_def patch_group_def delete_group_endpoint_def
    create_grant_endpoint_def revoke_grant_endpoint_def patch_quota_def security_event_def Let_def
  by (intro traced_intro pres_intro longer_managed.prims longer_managed.user_writes)+

lemma traced_control:
  "traced (catalog_create e k b :: ('z api_state_scheme, _) act)" "traced (catalog_put e k i b :: ('z api_state_scheme, _) act)"
  "traced (catalog_remove e k i :: ('z api_state_scheme, _) act)" "traced (create_rule e aw r :: ('z api_state_scheme, _) act)"
  "traced (update_rule e aw i r :: ('z api_state_scheme, _) act)" "traced (delete_rule_endpoint e aw i :: ('z api_state_scheme, _) act)"
  "traced (patch_settings e aw body :: ('z api_state_scheme, _) act)" "traced (patch_agent e a m :: ('z api_state_scheme, _) act)"
  "traced (launch_agent e aw a :: ('z api_state_scheme, _) act)" "traced (stop_agent e aw a :: ('z api_state_scheme, _) act)"
  unfolding catalog_create_def catalog_put_def catalog_remove_def create_rule_def update_rule_def delete_rule_endpoint_def
    patch_settings_def patch_agent_def launch_agent_def stop_agent_def catalog_upsert_def catalog_delete_def add_rule_def remove_rule_def Let_def
  by (intro traced_intro pres_intro longer_managed.prims longer_managed.vms longer_managed.write_settings)+

lemma logs_approval: "logs (complete_approval e sv i ap g :: ('z api_state_scheme, _) act)"
  unfolding complete_approval_def Let_def
  by (intro logs_bindA logs_thenA logs_event pres_intro longer_managed.prims longer_managed.replay_after_approval)

lemma traced_ret: "traced (ret (Inl err))"
  by (simp add: traced_def)

lemma traced_sum: "(\<And>y. traced (f y)) \<Longrightarrow> (\<And>y. traced (g y)) \<Longrightarrow> traced (case x of Inl y \<Rightarrow> f y | Inr y \<Rightarrow> g y)"
  by (cases x) auto

lemma traced_prod: "(\<And>y z. traced (f y z)) \<Longrightarrow> traced (case x of (y, z) \<Rightarrow> f y z)"
  by (cases x) auto

lemma traced_elevation:
  "traced (approve_elevation e sv i body :: ('z api_state_scheme, _) act)" "traced (deny_elevation e i body :: ('z api_state_scheme, _) act)"
  unfolding approve_elevation_def deny_elevation_def
  by (intro traced_logs [OF logs_approval] traced_intro traced_ret traced_sum pres_intro longer_managed.prims)+

lemma traced_chat: "traced (agent_chat e aw a body :: ('z api_state_scheme, _) act)"
  unfolding agent_chat_def run_operator_chat_def complete_chat_def
  by (intro traced_intro traced_ret traced_sum traced_prod pres_intro longer_managed.llm_handle longer_managed.increment_llm_tokens)

text \<open>The operations that may leave no trace: a member is added to a group, or an installation is only tried.\<close>

fun untraced :: "api_op \<Rightarrow> bool" where
  "untraced (AddMember _ _) = True"
| "untraced (InstallSkill body) = truthy (oget body ''dry_run'')"
| "untraced _ = False"

lemma installed_entry:
  fixes s :: "'z host_fs_scheme"
  assumes "install_skill e w store req s = (Inr r, s')" and "\<not> ir_dry_run req"
  shows "is_entry r \<noteq> []"
proof -
  from assms(1) obtain skill_root and t t' :: "'z host_fs_scheme" where "install_fetched e w store req skill_root t = (Inr r, t')"
    unfolding install_skill_def finally_remove_def by (auto elim!: thenA_InrE bindA_InrE split: prod.splits)
  with assms(2) show ?thesis
    unfolding install_fetched_def Let_def by (auto elim!: bindA_InrE simp: dump_skill_entry_def split: if_splits prod.splits)
qed

lemma run_install_entry:
  assumes "run_install e aw req s = (Inr r, s')" and "\<not> ir_dry_run req"
  shows "is_entry r \<noteq> []"
  using assms unfolding run_install_def on_vms_def on_fs_def by (auto elim!: thenA_InrE dest: installed_entry split: prod.splits)

lemma traced_install:
  assumes "\<not> truthy (oget body ''dry_run'')"
  shows "traced (catalog_skills_install e aw body :: ('z api_state_scheme, _) act)"
  unfolding traced_def
proof (intro allI impI)
  fix s s' :: "'z api_state_scheme" and x
  assume ran: "catalog_skills_install e aw body s = (Inr (Inr x), s')"
  let ?req = "install_body body"
  have dry: "\<not> ir_dry_run ?req" using assms by (simp add: install_body_def)
  have event: "logs (log_api_mutation e ep d :: ('z api_state_scheme, _) act)" for ep d by (rule logs_event)
  have store: "logs (record_install e req r :: ('z api_state_scheme, _) act)" for req r
    unfolding record_install_def thenA_def catalog_upsert_def by (intro logs_bindA event pres_intro longer_managed.prims)
  from ran obtain c s1 where c: "catch_value 400 ''SKILL_INSTALL_DENIED'' (run_install e aw ?req) s = (Inr c, s1)"
    by (auto simp: catalog_skills_install_def Let_def http_fail_def elim!: bindA_InrE split: if_splits)
  with ran obtain r where r: "c = Inr r" by (cases c) (auto simp: catalog_skills_install_def Let_def http_fail_def elim!: thenA_InrE split: if_splits)
  with c have "run_install e aw ?req s = (Inr r, s1)" by (auto simp: catch_value_def split: prod.splits sum.splits if_splits)
  note entry = run_install_entry [OF this dry]
  have "length (audit_log s) \<le> length (audit_log s1)"
  proof (rule longer_mono [where m = "catch_value 400 ''SKILL_INSTALL_DENIED'' (run_install e aw ?req)"])
    show "catch_value 400 ''SKILL_INSTALL_DENIED'' (run_install e aw ?req) s = (Inr c, s1)" by (rule c)
  qed (auto simp: run_install_def intro!: pres_intro longer_managed.vms)
  moreover have "length (audit_log s1) < length (audit_log s')"
    using ran c entry dry store unfolding r logs_def
    by (auto simp: catalog_skills_install_def Let_def http_fail_def http_ok_def whenA_def elim!: thenA_InrE split: if_splits)
  ultimately show "length (audit_log s) < length (audit_log s')" by simp
qed

lemma effect_traced:
  assumes "\<not> untraced op"
  shows "traced (api_effect e envs aw op :: ('z api_state_scheme, _) act)"
  using assms by (cases op) (auto intro!: traced_quiet traced_data traced_control traced_elevation traced_chat traced_install)

lemma call_traced: "traced m \<Longrightarrow> traced (api_call t rq m)"
  unfolding api_call_def rate_limit_dispatch_def
  by (intro traced_intro traced_if pres_intro longer_managed.limiter)

end
