(* ===== verification/Skill_Facts.thy ===== *)
theory Skill_Facts
  imports Skill_Packages
begin

text \<open>
  Facts about skill packages: paths and their texts, which files an action leaves alone, where the members of
  an archive go, and what copying a tree leaves in the store.
\<close>

section \<open>Paths and texts\<close>

definition plain :: "string \<Rightarrow> bool" where
  "plain p \<longleftrightarrow> p \<noteq> [] \<and> p \<noteq> ''.'' \<and> CHR ''/'' \<notin> set p"

lemma split_on_none: "sep \<notin> set s \<Longrightarrow> split_on sep s = [s]"
  by (induction s) auto

lemma split_on_append: "sep \<notin> set a \<Longrightarrow> split_on sep (a @ sep # b) = a # split_on sep b"
  by (induction a) auto

lemma split_on_sep: "p \<in> set (split_on sep s) \<Longrightarrow> sep \<notin> set p"
  by (induction s arbitrary: p) (auto split: list.splits if_splits)

lemma split_on_join: "ps \<noteq> [] \<Longrightarrow> (\<And>p. p \<in> set ps \<Longrightarrow> sep \<notin> set p) \<Longrightarrow> split_on sep (join [sep] ps) = ps"
proof (induction "[sep]" ps rule: join.induct)
  case (3 x y xs)
  then have "sep \<notin> set x" and "split_on sep (join [sep] (y # xs)) = y # xs" by auto
  then show ?case by (simp add: split_on_append)
qed (auto simp: split_on_none)

lemma path_of_str:
  assumes "list_all plain ps"
  shows "path_of (path_str (PPath b ps)) = PPath b ps"
proof -
  have keep: "filter (\<lambda>p. p \<noteq> [] \<and> p \<noteq> ''.'') ps = ps" using assms by (auto simp: plain_def list_all_iff intro!: filter_True)
  have sep: "CHR ''/'' \<notin> set p" if "p \<in> set ps" for p using assms that by (auto simp: plain_def list_all_iff)
  show ?thesis
  proof (cases "ps = []")
    case True
    then show ?thesis by (cases b) (simp_all add: path_of_def path_str_def)
  next
    case False
    have sp: "split_on (CHR ''/'') (join ''/'' ps) = ps" using split_on_join [OF False, of "CHR ''/''"] sep by simp
    have hd: "join ''/'' ps \<noteq> [] \<and> hd (join ''/'' ps) \<noteq> CHR ''/''"
    proof -
      obtain x xs where ps: "ps = x # xs" using False by (cases ps) auto
      then have "x \<noteq> []" "CHR ''/'' \<notin> set x" using assms by (auto simp: plain_def)
      moreover have "\<exists>rest. join ''/'' ps = x @ rest" by (cases xs) (auto simp: ps)
      ultimately show ?thesis by (cases x) auto
    qed
    show ?thesis using False sp keep hd by (cases b) (auto simp: path_of_def path_str_def)
  qed
qed

lemma path_of_plain: "list_all plain (pp_parts (path_of s))"
  by (auto simp: path_of_def plain_def list_all_iff dest: split_on_sep)

text \<open>Where the text of a path begins with the text of a directory, all but the last component of the directory are
  the first components of the path: the last may only begin the same.\<close>

lemma prefix_segments:
  "c \<notin> set a \<Longrightarrow> c \<notin> set a' \<Longrightarrow> prefix (a @ c # b) (a' @ c # b') \<Longrightarrow> a = a' \<and> prefix b b'"
proof (induction a arbitrary: a')
  case Nil
  then show ?case by (cases a') auto
next
  case (Cons x a)
  then show ?case by (cases a') auto
qed

lemma join_prefix:
  "prefix (join ''/'' ps) (join ''/'' qs) \<Longrightarrow> list_all plain ps \<Longrightarrow> list_all plain qs \<Longrightarrow> prefix (butlast ps) qs"
proof (induction ps arbitrary: qs)
  case (Cons x ps)
  show ?case
  proof (cases ps)
    case (Cons y ys)
    then have jp: "join ''/'' (x # ps) = x @ CHR ''/'' # join ''/'' ps" by simp
    have x: "CHR ''/'' \<notin> set x" using Cons.prems(2) by (simp add: plain_def)
    have "CHR ''/'' \<in> set (join ''/'' qs)" using set_mono_prefix [OF Cons.prems(1)] jp by auto
    then obtain z w zs where qs: "qs = z # w # zs" using Cons.prems(3)
      by (cases qs; cases "tl qs") (auto simp: plain_def)
    then have z: "CHR ''/'' \<notin> set z" using Cons.prems(3) by (simp add: plain_def)
    have "prefix (x @ CHR ''/'' # join ''/'' ps) (z @ CHR ''/'' # join ''/'' (w # zs))"
      using Cons.prems(1) unfolding jp by (simp add: qs)
    from prefix_segments [OF x z this] have "x = z" "prefix (join ''/'' ps) (join ''/'' (w # zs))" by blast+
    with Cons.IH [of "w # zs"] Cons.prems Cons qs show ?thesis by simp
  qed simp
qed simp

lemma path_str_prefix:
  assumes "prefix (path_str (PPath True (ps @ [d]))) (path_str (PPath True qs))" and "list_all plain (ps @ [d])" and "list_all plain qs"
  shows "below (PPath True ps) (PPath True qs)"
  using join_prefix [of "ps @ [d]" qs] assms by (simp add: path_str_def below_def)

section \<open>Files an action leaves alone\<close>

definition file_is :: "ppath \<Rightarrow> string option \<Rightarrow> 'z host_fs_scheme \<Rightarrow> bool" where
  "file_is p x s \<longleftrightarrow> map_of (hf_files s) p = x"

abbreviation leaves :: "ppath \<Rightarrow> ('z host_fs_scheme, 'a) act \<Rightarrow> bool" where
  "leaves p m \<equiv> (\<forall>x. preserves (file_is p x) m)"

lemma leavesI: "(\<And>s. map_of (hf_files (snd (m s))) p = map_of (hf_files s) p) \<Longrightarrow> preserves (file_is p x) m"
  by (simp add: preserves_def file_is_def)

lemma leavesD: "leaves p m \<Longrightarrow> map_of (hf_files (snd (m s))) p = map_of (hf_files s) p"
  by (simp add: preserves_def file_is_def)

lemma map_of_filter_key: "Q p \<Longrightarrow> map_of (filter (\<lambda>(q, _). Q q) fs) p = map_of fs p"
  by (induction fs) auto

lemma map_of_put_file: "map_of (put_file q c fs) p = (if p = q then Some c else map_of fs p)"
  by (simp add: put_file_def map_of_filter_key [of "\<lambda>r. r \<noteq> q"])

lemma leaves_mkdir: "preserves (file_is p x) (mkdir_parents d)"
  by (rule leavesI) (simp add: mkdir_parents_def Let_def)

lemma leaves_write: "p \<noteq> q \<Longrightarrow> preserves (file_is p x) (write_file q c)"
  by (rule leavesI) (simp add: write_file_def map_of_put_file)

lemma leaves_rmtree: "\<not> below d p \<Longrightarrow> preserves (file_is p x) (rmtree_if_exists d)"
  by (rule leavesI) (simp add: rmtree_if_exists_def map_of_filter_key [of "\<lambda>q. \<not> below d q"])

lemma leaves_read: "preserves (file_is p x) (read_file q)" "preserves (file_is p x) (read_package_md w q)" "preserves (file_is p x) (download_bytes w src)"
  by (rule leavesI; auto simp: read_file_def read_package_md_def download_bytes_def bindA_def thenA_def split: option.split sum.split)+

section \<open>Extraction stays in the staging directory\<close>

text \<open>The staging directory is an absolute path in normal form.\<close>

definition normal_dir :: "ppath \<Rightarrow> bool" where
  "normal_dir d \<longleftrightarrow> pp_absolute d \<and> list_all plain (pp_parts d) \<and> ''..'' \<notin> set (pp_parts d)"

lemma resolve_parts_plain: "list_all plain acc \<Longrightarrow> list_all plain ps \<Longrightarrow> list_all plain (resolve_parts acc ps)"
proof (induction acc ps rule: resolve_parts.induct)
  case (2 acc p ps)
  have "list_all plain (butlast acc)" using 2(2) in_set_butlastD [of _ acc] by (simp add: list_all_iff)
  then show ?case using 2 by simp
qed simp

lemma resolve_parts_normal: "''..'' \<notin> set ps \<Longrightarrow> resolve_parts acc ps = acc @ ps"
  by (induction acc ps rule: resolve_parts.induct) auto

lemma path_add_rel: "\<not> pp_absolute (path_of t) \<Longrightarrow> path_add d t = PPath (pp_absolute d) (pp_parts d @ pp_parts (path_of t))"
  by (simp add: path_add_def path_join_def)

lemma path_add_name: "plain t \<Longrightarrow> path_add d t = PPath (pp_absolute d) (pp_parts d @ [t])"
proof -
  assume "plain t"
  then have "path_of t = PPath False [t]" by (cases t) (auto simp: path_of_def plain_def split_on_none)
  then show ?thesis by (simp add: path_add_def path_join_def)
qed

lemma leaves_extract:
  assumes "normal_dir stage" and "\<not> below stage p"
  shows "preserves (file_is p x) (extract_member (path_add stage ''extract'') m)"
proof -
  obtain st where stage: "stage = PPath True st" "list_all plain st" "''..'' \<notin> set st" using assms(1) by (cases stage) (auto simp: normal_dir_def)
  obtain name content where m: "m = (name, content)" by force
  let ?d = "path_add stage ''extract''"
  have d: "?d = PPath True (st @ [''extract''])" by (subst path_add_name) (auto simp: plain_def stage)
  define target where "target = path_resolve (path_add ?d name)"
  have "below stage target" if "prefix (path_str (path_resolve ?d)) (path_str target)"
  proof -
    have "list_all plain (pp_parts (path_add ?d name))"
      using stage(2) path_of_plain [of name] unfolding d by (simp add: path_add_def path_join_def plain_def)
    then have tp: "list_all plain (pp_parts target)" by (simp add: target_def path_resolve_def resolve_parts_plain)
    have "pp_absolute target" unfolding target_def d by (simp add: path_resolve_def path_add_def path_join_def)
    then obtain qs where t: "target = PPath True qs" by (cases target) auto
    have "path_resolve ?d = PPath True (st @ [''extract''])" using stage(3) by (simp add: d path_resolve_def resolve_parts_normal)
    with that path_str_prefix [of st "''extract''" qs] stage tp show ?thesis by (auto simp: t plain_def)
  qed
  then have other: "prefix (path_str (path_resolve ?d)) (path_str target) \<Longrightarrow> p \<noteq> target" using assms(2) by blast
  show ?thesis unfolding extract_member_def m Let_def prod.case target_def [symmetric]
    by (cases "prefix (path_str (path_resolve ?d)) (path_str target)")
       (auto intro!: pres_intro leaves_mkdir leaves_write other)
qed

lemma leaves_fetch:
  assumes "normal_dir stage" and "\<not> below stage p"
  shows "preserves (file_is p x) (fetch_and_extract e w source pin sha stage skill_id)"
proof -
  have ext: "\<not> below (path_add stage ''extract'') p"
  proof -
    have "path_add stage ''extract'' = PPath (pp_absolute stage) (pp_parts stage @ [''extract''])" by (rule path_add_name) (simp add: plain_def)
    with assms(2) show ?thesis by (auto simp: below_def dest: append_prefixD)
  qed
  have tar: "preserves (file_is p x) (case kind of TarRegular \<Rightarrow> extract_member (path_add stage ''extract'') mm
      | TarLink \<Rightarrow> raise ValueError | TarOther \<Rightarrow> ret ())" for kind mm x
    by (cases kind) (auto intro!: pres_intro leaves_extract [OF assms])
  show ?thesis unfolding fetch_and_extract_def safe_extract_zip_def safe_extract_tar_def Let_def
    by (intro pres_intro tar leaves_extract [OF assms] leaves_read leaves_mkdir leaves_rmtree ext)
qed

section \<open>Plain file names\<close>

definition plain_path :: "ppath \<Rightarrow> bool" where
  "plain_path p \<longleftrightarrow> list_all plain (pp_parts p)"

definition files_plain :: "'z host_fs_scheme \<Rightarrow> bool" where
  "files_plain s \<longleftrightarrow> (\<forall>p \<in> fst ` set (hf_files s). plain_path p)"

lemma plain_add: "plain_path d \<Longrightarrow> plain_path (path_add d t)"
  using path_of_plain [of t] by (simp add: plain_path_def path_add_def path_join_def)

lemma plain_normal: "normal_dir d \<Longrightarrow> plain_path d"
  by (simp add: normal_dir_def plain_path_def)

lemma plain_resolve: "plain_path p \<Longrightarrow> plain_path (path_resolve p)"
  by (simp add: plain_path_def path_resolve_def resolve_parts_plain)

lemma plain_write: "plain_path q \<Longrightarrow> preserves files_plain (write_file q c)"
  by (auto simp: preserves_def write_file_def files_plain_def put_file_def)

lemma plain_dirs: "preserves files_plain (mkdir_parents d)" "preserves files_plain (rmtree_if_exists d)"
  "preserves files_plain (read_file q)" "preserves files_plain (read_package_md w q)" "preserves files_plain (download_bytes w src)"
  by (auto simp: preserves_def mkdir_parents_def rmtree_if_exists_def files_plain_def read_file_def read_package_md_def download_bytes_def
      bindA_def thenA_def Let_def split: option.split sum.split)

lemma plain_fetch: "plain_path stage \<Longrightarrow> preserves files_plain (fetch_and_extract e w source pin sha stage skill_id)"
proof -
  assume "plain_path stage"
  then have ext: "preserves files_plain (extract_member (path_add stage ''extract'') m)" for m
    unfolding extract_member_def Let_def by (cases m) (auto intro!: pres_intro plain_dirs plain_write plain_resolve plain_add)
  have tar: "preserves files_plain (case kind of TarRegular \<Rightarrow> extract_member (path_add stage ''extract'') mm
      | TarLink \<Rightarrow> raise ValueError | TarOther \<Rightarrow> ret ())" for kind mm
    by (cases kind) (auto intro!: pres_intro ext)
  show ?thesis unfolding fetch_and_extract_def safe_extract_zip_def safe_extract_tar_def Let_def
    by (intro pres_intro tar ext plain_dirs)
qed

text \<open>The names a check of a tree returns are relative.\<close>

lemma checked_relative:
  assumes "files_plain s" and "validate_skill_tree s tree = Inr files" and "rel \<in> set files"
  shows "\<exists>ps. rel = path_str (PPath False ps) \<and> list_all plain ps \<and> path_of rel = PPath False ps"
proof -
  from assms(2,3) obtain q c where q: "(q, c) \<in> set (hf_files s)" "rel = rel_text tree q"
    by (auto simp: validate_skill_tree_def tree_files_def split: if_splits)
  with assms(1) have "list_all plain (drop (length (pp_parts tree)) (pp_parts q))"
    by (force simp: files_plain_def plain_path_def list_all_iff dest: in_set_dropD)
  with q(2) path_of_str show ?thesis by (auto simp: rel_text_def)
qed

section \<open>Copying a tree\<close>

lemma below_add: "\<not> pp_absolute (path_of rel) \<Longrightarrow> below d (path_add d rel)"
  by (simp add: path_add_rel below_def)

lemma below_trans: "below a b \<Longrightarrow> below b c \<Longrightarrow> below a c"
  by (auto simp: below_def)

lemma below_linear: "below a p \<Longrightarrow> below b p \<Longrightarrow> below a b \<or> below b a"
  unfolding below_def by (metis prefix_same_cases)

lemma copy_leaves:
  assumes "p \<notin> path_add dest ` set files"
  shows "preserves (file_is p x) (copy_files src dest files)"
proof -
  have "preserves (file_is p x) (thenA (mkdir_parents (path_parent (path_add dest rel))) (copy_file (path_add src rel) (path_add dest rel)))"
    if "rel \<in> set files" for rel
    unfolding copy_file_def using assms that by (intro pres_intro leaves_mkdir leaves_read leaves_write) auto
  then show ?thesis unfolding copy_files_def by (rule preserves_forA)
qed

lemma copy_plain: "plain_path dest \<Longrightarrow> preserves files_plain (copy_files src dest files)"
  unfolding copy_files_def copy_file_def by (intro pres_intro plain_dirs plain_write plain_add)

lemma copy_contents:
  assumes "copy_files src dest files s = (Inr (), s')" and "\<And>rel. rel \<in> set files \<Longrightarrow> \<not> pp_absolute (path_of rel)"
    and "\<And>rel rel'. rel \<in> set files \<Longrightarrow> rel' \<in> set files \<Longrightarrow> path_add src rel \<noteq> path_add dest rel'"
  shows "\<forall>rel \<in> set files. map_of (hf_files s') (path_add dest rel) = map_of (hf_files s) (path_add src rel)"
  using assms
proof (induction files arbitrary: s)
  case (Cons rel files)
  from Cons.prems(1) obtain s0 s1 where s0: "mkdir_parents (path_parent (path_add dest rel)) s = (Inr (), s0)"
    and s1: "copy_file (path_add src rel) (path_add dest rel) s0 = (Inr (), s1)" and rest: "copy_files src dest files s1 = (Inr (), s')"
    by (auto simp: copy_files_def elim!: thenA_InrE)
  have f0: "hf_files s0 = hf_files s" using s0 by (auto simp: mkdir_parents_def Let_def split: if_splits)
  from s1 obtain c where c: "map_of (hf_files s) (path_add src rel) = Some c" and f1: "hf_files s1 = put_file (path_add dest rel) c (hf_files s)"
    by (auto simp: copy_file_def read_file_def write_file_def f0 bindA_def split: option.splits if_splits)
  have src: "map_of (hf_files s1) (path_add src rel') = map_of (hf_files s) (path_add src rel')" if "rel' \<in> set (rel # files)" for rel'
    using Cons.prems(3) [OF that, of rel] by (simp add: f1 map_of_put_file)
  have later: "\<forall>rel' \<in> set files. map_of (hf_files s') (path_add dest rel') = map_of (hf_files s) (path_add src rel')"
    using Cons.IH [OF rest] Cons.prems(2,3) src by auto
  moreover have "map_of (hf_files s') (path_add dest rel) = map_of (hf_files s) (path_add src rel)"
  proof (cases "path_add dest rel \<in> path_add dest ` set files")
    case True
    then obtain rel' where rel': "rel' \<in> set files" "path_add dest rel = path_add dest rel'" by auto
    with Cons.prems(2) have "pp_parts (path_of rel) = pp_parts (path_of rel')" by (auto simp: path_add_rel)
    with Cons.prems(2) rel'(1) have "path_add src rel = path_add src rel'" by (auto simp: path_add_rel)
    with rel' later show ?thesis by auto
  next
    case False
    have "map_of (hf_files (snd (copy_files src dest files s1))) (path_add dest rel) = map_of (hf_files s1) (path_add dest rel)"
      using copy_leaves [OF False] by (intro leavesD) blast
    with rest show ?thesis by (simp add: f1 map_of_put_file c)
  qed
  ultimately show ?case by auto
qed (simp add: copy_files_def)

section \<open>The store\<close>

lemma write_tree_leaves:
  assumes "\<And>t. \<not> below (package_dir store name version (hexdigest (sha256 e t))) p" and "plain_path store"
  shows "preserves (\<lambda>s. file_is p x s \<and> files_plain s) (write_tree e w store src name version)"
proof (rule preservesI)
  fix s :: "'z host_fs_scheme" assume s: "file_is p x s \<and> files_plain s"
  show "file_is p x (snd (write_tree e w store src name version s)) \<and> files_plain (snd (write_tree e w store src name version s))"
  proof (cases "validate_skill_tree s src")
    case (Inl err)
    with s show ?thesis by (simp add: write_tree_def)
  next
    case (Inr files)
    let ?d = "package_dir store name version (package_digest e s src files)"
    have d: "plain_path ?d" using assms(2) by (simp add: package_dir_def plain_add)
    have nd: "\<not> below ?d p" using assms(1) by (simp add: package_digest_def)
    have rel: "\<not> pp_absolute (path_of r)" if "r \<in> set files" for r using checked_relative [OF _ Inr that] s by auto
    have other: "p \<notin> path_add ?d ` set files" "p \<noteq> path_add ?d ''.corvus-skill.json''"
      using nd below_add [OF rel] below_add [of "''.corvus-skill.json''" ?d] by (auto simp: path_of_def)
    let ?m = "thenA (rmtree_if_exists ?d) (thenA (mkdir_parents ?d) (thenA (copy_files src ?d files)
        (bindA (read_package_md w (path_add ?d ''SKILL.md'')) (\<lambda>txt. bindA (liftR (parse_skill_md w txt (Some name))) (\<lambda>parsed.
         thenA (write_file (path_add ?d ''.corvus-skill.json'')
              (json_indented 0 (JObj [(''name'', JStr name), (''version'', JStr version), (''content_hash'', JStr (package_digest e s src files)),
                 (''files'', jstrs files)]) @ line_break)) (ret (package_digest e s src files, ?d, parsed)))))))"
    have "preserves (file_is p x) ?m" "preserves files_plain ?m"
      by (intro pres_intro leaves_rmtree leaves_mkdir leaves_read leaves_write copy_leaves nd other
          plain_dirs plain_write plain_add d copy_plain)+
    with s have "file_is p x (snd (?m s)) \<and> files_plain (snd (?m s))" by (blast dest: preservesD)
    with Inr show ?thesis by (simp add: write_tree_def Let_def)
  qed
qed

lemma read_md_same: "read_package_md w q s = (r, s') \<Longrightarrow> s' = s"
  by (auto simp: read_package_md_def read_file_def bindA_def split: option.splits)

lemma digest_cong:
  "(\<And>r. r \<in> set files \<Longrightarrow> map_of (hf_files s) (path_add d r) = map_of (hf_files s') (path_add d' r)) \<Longrightarrow>
   package_digest e s d files = package_digest e s' d' files"
  by (simp add: package_digest_def package_bytes_def cong: map_cong)

lemma written_dest:
  fixes s :: "'z host_fs_scheme"
  assumes "write_tree e w store src name version s = (Inr (h, dest, parsed), s')"
  shows "\<exists>files. h = package_digest e s src files \<and> dest = package_dir store name version h"
  using assms unfolding write_tree_def Let_def by (elim bindA_InrE thenA_InrE) (auto simp del: json_indented.simps)

lemma write_tree_contents:
  fixes s :: "'z host_fs_scheme"
  assumes "write_tree e w store src name version s = (Inr (h, dest, parsed), s')" and "files_plain s"
    and "\<And>p. below dest p \<Longrightarrow> \<not> below src p"
  shows "\<exists>files. validate_skill_tree s src = Inr files \<and> dest = package_dir store name version h \<and> h = package_digest e s src files
     \<and> (''.corvus-skill.json'' \<notin> set files \<longrightarrow> package_digest e s' dest files = h)"
proof -
  obtain files where files: "validate_skill_tree s src = Inr files" using assms(1) by (cases "validate_skill_tree s src") (auto simp: write_tree_def)
  let ?h = "package_digest e s src files"
  let ?d = "package_dir store name version ?h"
  define meta where "meta = json_indented 0 (JObj [(''name'', JStr name), (''version'', JStr version), (''content_hash'', JStr ?h),
      (''files'', jstrs files)]) @ line_break"
  define tail :: "('z host_fs_scheme, _) act" where "tail = bindA (read_package_md w (path_add ?d ''SKILL.md'')) (\<lambda>txt. bindA (liftR (parse_skill_md w txt (Some name))) (\<lambda>parsed.
      thenA (write_file (path_add ?d ''.corvus-skill.json'') meta) (ret (?h, ?d, parsed))))"
  have "thenA (rmtree_if_exists ?d) (thenA (mkdir_parents ?d) (thenA (copy_files src ?d files) tail)) s = (Inr (h, dest, parsed), s')"
    using assms(1) by (simp add: write_tree_def Let_def files tail_def meta_def)
  then obtain u1 s1 where s1: "rmtree_if_exists ?d s = (Inr u1, s1)" and e1: "thenA (mkdir_parents ?d) (thenA (copy_files src ?d files) tail) s1 = (Inr (h, dest, parsed), s')"
    by (rule thenA_InrE)
  from e1 obtain u2 s2 where s2: "mkdir_parents ?d s1 = (Inr u2, s2)" and e2: "thenA (copy_files src ?d files) tail s2 = (Inr (h, dest, parsed), s')"
    by (rule thenA_InrE)
  from e2 obtain s3 where s3: "copy_files src ?d files s2 = (Inr (), s3)" and e3: "tail s3 = (Inr (h, dest, parsed), s')"
    by (rule thenA_InrE) auto
  from e3 have h: "h = ?h" "dest = ?d" and w: "write_file (path_add ?d ''.corvus-skill.json'') meta s3 = (Inr (), s')"
    unfolding tail_def by (auto elim!: thenA_InrE bindA_InrE dest!: read_md_same)
  have rel: "\<exists>ps. r = path_str (PPath False ps) \<and> list_all plain ps \<and> path_of r = PPath False ps" if "r \<in> set files" for r
    using checked_relative [OF assms(2) files that] .
  then have relative: "\<not> pp_absolute (path_of r)" if "r \<in> set files" for r using that by fastforce
  have apart: "path_add src r \<noteq> path_add ?d r'" if "r \<in> set files" "r' \<in> set files" for r r'
    using assms(3) [unfolded h(2)] below_add [OF relative [OF that(1)], of src] below_add [OF relative [OF that(2)], of ?d] by auto
  have unchanged: "map_of (hf_files s2) (path_add src r) = map_of (hf_files s) (path_add src r)" if "r \<in> set files" for r
  proof -
    have "\<not> below ?d (path_add src r)" using assms(3) [unfolded h(2)] below_add [OF relative [OF that], of src] by blast
    then have "map_of (hf_files (snd (rmtree_if_exists ?d s))) (path_add src r) = map_of (hf_files s) (path_add src r)"
      by (intro leavesD allI leaves_rmtree)
    moreover have "map_of (hf_files (snd (mkdir_parents ?d s1))) (path_add src r) = map_of (hf_files s1) (path_add src r)"
      by (intro leavesD allI leaves_mkdir)
    ultimately show ?thesis using s1 s2 by simp
  qed
  have stored: "map_of (hf_files s') (path_add ?d r) = map_of (hf_files s) (path_add src r)"
    if r: "r \<in> set files" and no: "''.corvus-skill.json'' \<notin> set files" for r
  proof -
    obtain ps where ps: "r = path_str (PPath False ps)" "path_of r = PPath False ps" using rel [OF r] by blast
    have "ps \<noteq> [''.corvus-skill.json'']" using r no ps(1) by (auto simp: path_str_def)
    moreover have "path_of ''.corvus-skill.json'' = PPath False [''.corvus-skill.json'']" by (simp add: path_of_def)
    ultimately have "path_add ?d r \<noteq> path_add ?d ''.corvus-skill.json''" using ps(2) by (simp add: path_add_def path_join_def)
    then have "map_of (hf_files (snd (write_file (path_add ?d ''.corvus-skill.json'') meta s3))) (path_add ?d r) = map_of (hf_files s3) (path_add ?d r)"
      by (intro leavesD allI leaves_write)
    then have "map_of (hf_files s') (path_add ?d r) = map_of (hf_files s3) (path_add ?d r)" by (simp add: w)
    also have "\<dots> = map_of (hf_files s) (path_add src r)"
      using copy_contents [OF s3 relative apart] r unchanged by simp
    finally show ?thesis .
  qed
  have "package_digest e s' ?d files = ?h" if "''.corvus-skill.json'' \<notin> set files"
    using stored [OF _ that] by (rule digest_cong)
  with files h show ?thesis by blast
qed

section \<open>The package found in an archive\<close>

lemma found_below:
  assumes "find_skill_root s d skill_id = Inr r" and "path_name d \<noteq> ''SKILL.md''" and "pp_parts d \<noteq> []"
  shows "below d r"
proof -
  have parent: "below d (path_parent p)" if "below d p" "path_name p = ''SKILL.md''" for p
  proof -
    have "pp_parts p \<noteq> pp_parts d" using that(2) assms(2) by (auto simp: path_name_def split: if_splits)
    with that(1) show ?thesis by (auto simp: below_def path_parent_def prefix_def butlast_append)
  qed
  have child: "below d q" if "path_parent q = d" for q
  proof -
    have "pp_parts q \<noteq> []" using that assms(3) by (auto simp: path_parent_def)
    then show ?thesis using that by (auto simp: path_parent_def below_def intro: prefixeq_butlast)
  qed
  let ?found = "filter (\<lambda>q. path_name q = the skill_id)
      (map path_parent (filter (\<lambda>p. below d p \<and> path_name p = ''SKILL.md'') (map fst (hf_files s))))"
  show ?thesis
  proof (cases "opt_truthy skill_id")
    case True
    with assms(1) have "?found = [r]" by (auto simp: find_skill_root_def split: list.splits)
    then have "r \<in> set ?found" by simp
    with parent show ?thesis by auto
  next
    case False
    have "below d d" by (simp add: below_def)
    with False assms(1) child show ?thesis by (auto simp: find_skill_root_def find_Some_iff split: if_splits option.splits)
  qed
qed

section \<open>Installation\<close>

definition sha256_bytes :: "env \<Rightarrow> bool" where
  "sha256_bytes e \<longleftrightarrow> (\<forall>t. list_all (\<lambda>b. b < 256) (sha256 e t))"

text \<open>A path that, joined to a directory, stays below it.\<close>

definition relative_text :: "string \<Rightarrow> bool" where
  "relative_text t \<longleftrightarrow> \<not> pp_absolute (path_of t) \<and> ''..'' \<notin> set (pp_parts (path_of t))"

lemma relative_simple:
  assumes "CHR ''/'' \<notin> set t" and "CHR ''.'' \<notin> set t"
  shows "relative_text t"
proof -
  have "t \<noteq> ''..''" using assms(2) by auto
  then show ?thesis using assms(1) by (cases t) (auto simp: relative_text_def path_of_def split_on_none)
qed

lemma hexdigest_simple:
  assumes "c \<notin> set ''0123456789abcdef''"
  shows "list_all (\<lambda>b. b < 256) bs \<Longrightarrow> c \<notin> set (hexdigest bs)"
proof -
  assume bs: "list_all (\<lambda>b. b < 256) bs"
  have hex: "hex_digit n \<in> set ''0123456789abcdef''" if "n < 16" for n
    unfolding hex_digit_def by (rule nth_mem) (use that in simp)
  have "hex_digit n \<noteq> c" if "n < 16" for n using hex [OF that] assms by blast
  moreover have "b div 16 < 16" "b mod 16 < 16" if "b \<in> set bs" for b
    using bs that by (auto simp: list_all_iff)
  ultimately have "c \<noteq> hex_digit (b div 16)" "c \<noteq> hex_digit (b mod 16)" if "b \<in> set bs" for b
    using that by metis+
  then show ?thesis by (auto simp: hexdigest_def)
qed

lemma name_relative:
  assumes "skill_name_ok name"
  shows "relative_text name"
proof -
  have absent: "c \<notin> set name" if "\<not> name_char c" "c \<noteq> CHR ''-''" for c
  proof -
    have "c \<notin> set p" if "list_all name_char p" for p using that \<open>\<not> name_char c\<close> by (auto simp: list_all_iff)
    then have "\<forall>p \<in> set (split_on (CHR ''-'') name). c \<notin> set p" using assms by (auto simp: skill_name_ok_def list_all_iff)
    moreover have "c \<notin> set t" if "\<forall>p \<in> set (split_on (CHR ''-'') t). c \<notin> set p" for t
      using that \<open>c \<noteq> CHR ''-''\<close> by (induction t) (auto split: if_splits list.splits)
    ultimately show ?thesis by blast
  qed
  show ?thesis by (rule relative_simple) (rule absent; simp add: name_char_def)+
qed

lemma parsed_name_ok:
  assumes "parse_skill_md w md hint = Inr parsed"
  shows "skill_name_ok (ps_name parsed)"
proof -
  from assms obtain front body loaded where "frontmatter md = Some (front, body)" "pw_yaml w front = Inr loaded"
    by (auto simp: parse_skill_md_def split: option.splits)
  with assms show ?thesis
    by (cases "py_or loaded (JObj [])") (auto simp: parse_skill_md_def Let_def split: if_splits)
qed

lemma digest_relative:
  "sha256_bytes e \<Longrightarrow> relative_text (take 128 (map (\<lambda>c. if c = CHR '':'' then CHR ''_'' else c) (hexdigest (sha256 e t))))"
proof -
  assume "sha256_bytes e"
  then have "c \<notin> set (hexdigest (sha256 e t))" if "c \<notin> set ''0123456789abcdef''" for c
    using hexdigest_simple [OF that] by (auto simp: sha256_bytes_def)
  then have "CHR ''/'' \<notin> set (hexdigest (sha256 e t))" "CHR ''.'' \<notin> set (hexdigest (sha256 e t))" by simp_all
  then show ?thesis by (intro relative_simple) (auto dest!: in_set_takeD split: if_splits)
qed

lemma package_below:
  assumes "sha256_bytes e" and "relative_text name" and "relative_text version"
  shows "below store (package_dir store name version (hexdigest (sha256 e t)))"
proof -
  from digest_relative [OF assms(1)] assms(2,3) show ?thesis
    unfolding package_dir_def relative_text_def by (meson below_add below_trans)
qed

lemma digest_below_absolute:
  assumes "sha256_bytes e" and "pp_absolute (path_of version)"
  shows "below (path_of version) (package_dir store name version (hexdigest (sha256 e t)))"
proof -
  have "path_add (path_add store name) version = path_of version" using assms(2) by (simp add: path_add_def path_join_def)
  with digest_relative [OF assms(1)] show ?thesis
    unfolding package_dir_def relative_text_def by (metis below_add)
qed

lemma preserves_conj: "preserves P m \<Longrightarrow> preserves Q m \<Longrightarrow> preserves (\<lambda>s. P s \<and> Q s) m"
  by (simp add: preserves_def)

lemma preserves_checked: "(\<And>y. r = Inr y \<Longrightarrow> preserves P (f y)) \<Longrightarrow> preserves P (bindA (liftR r) f)"
  by (cases r) (auto simp: preserves_def)

lemma install_fetched_leaves:
  assumes "sha256_bytes e" and "plain_path store" and "\<not> below store p"
    and "opt_truthy (ir_version req)" and "relative_text (the (ir_version req))"
  shows "preserves (\<lambda>s. file_is p x s \<and> files_plain s) (install_fetched e w store req skill_root)"
proof -
  let ?P = "\<lambda>s. file_is p x s \<and> files_plain s"
  have read: "preserves ?P (read_package_md w q)" for q by (intro preserves_conj leaves_read plain_dirs)
  have stored: "preserves ?P (write_tree e w store skill_root (ps_name parsed) (version_of req parsed))"
    if "parse_skill_md w md hint = Inr parsed" for md hint parsed
  proof (rule write_tree_leaves [OF _ assms(2)])
    fix t
    have "below store (package_dir store (ps_name parsed) (version_of req parsed) (hexdigest (sha256 e t)))"
      using assms(1,4,5) name_relative [OF parsed_name_ok [OF that]] by (intro package_below) (simp_all add: version_of_def)
    with assms(3) show "\<not> below (package_dir store (ps_name parsed) (version_of req parsed) (hexdigest (sha256 e t))) p"
      by (blast intro: below_trans)
  qed
  show ?thesis unfolding install_fetched_def Let_def
    by (intro preserves_bindA preserves_getS preserves_checked read preserves_if preserves_raise preserves_ret preserves_case_prod stored)
qed

text \<open>Whatever an installation does, files that lie neither in its staging directory nor in the store are as before.\<close>

lemma install_leaves:
  fixes s :: "'z host_fs_scheme"
  assumes "sha256_bytes e" and "normal_dir (pw_stage w)" and "plain_path store" and "files_plain s"
    and "\<not> below (pw_stage w) p" and "\<not> below store p" and "opt_truthy (ir_version req)" and "relative_text (the (ir_version req))"
  shows "map_of (hf_files (snd (install_skill e w store req s))) p = map_of (hf_files s) p"
proof -
  define P :: "'z host_fs_scheme \<Rightarrow> bool" where "P = (\<lambda>u. file_is p (map_of (hf_files s) p) u \<and> files_plain u)"
  let ?m = "bindA (fetch_and_extract e w (ir_source req) (ir_pin req) (ir_sha256 req) (pw_stage w) (ir_skill_id req)) (install_fetched e w store req)"
  have m: "preserves P ?m" unfolding P_def
    by (intro preserves_bindA preserves_conj leaves_fetch plain_fetch plain_normal install_fetched_leaves assms)
  have rm: "preserves P (rmtree_if_exists (pw_stage w))" unfolding P_def
    by (intro preserves_conj leaves_rmtree plain_dirs assms)
  have "preserves P (finally_remove (pw_stage w) ?m)"
    using m rm by (auto simp: preserves_def finally_remove_def split: prod.split)
  then have "preserves P (install_skill e w store req)" unfolding install_skill_def
    by (intro preserves_thenA) (auto simp: P_def intro!: preserves_conj leaves_mkdir plain_dirs)
  moreover have "P s" using assms(4) by (simp add: P_def file_is_def)
  ultimately have "P (snd (install_skill e w store req s))" by (rule preservesD)
  then show ?thesis by (simp add: P_def file_is_def)
qed

text \<open>A package that was fetched came from an allowed source, under a pin, with the digest asked for.\<close>

lemma fetched_pinned:
  assumes "fetch_and_extract e w source pin sha stage skill_id s = (Inr skill_root, s')"
  shows "pin \<noteq> [] \<and> lower pin \<noteq> ''latest'' \<and> 32 \<le> length sha \<and> assert_source_allowed w source = Inr ()
    \<and> (\<exists>blob. fst (download_bytes w source s) = Inr blob \<and> lower (hexdigest (sha256 e blob)) = lower sha)
    \<and> find_skill_root s' (path_add stage ''extract'') skill_id = Inr skill_root"
proof -
  from assms have pin: "pin \<noteq> [] \<and> lower pin \<noteq> ''latest''" "32 \<le> length sha"
    by (auto simp: fetch_and_extract_def split: if_splits)
  with assms obtain blob s1 where blob: "download_bytes w source s = (Inr blob, s1)" "lower (hexdigest (sha256 e blob)) = lower sha"
    by (auto simp: fetch_and_extract_def elim!: bindA_InrE split: if_splits)
  have "assert_source_allowed w source = Inr ()"
    using blob(1) by (cases "assert_source_allowed w source") (auto simp: download_bytes_def thenA_def)
  moreover have "find_skill_root s' (path_add stage ''extract'') skill_id = Inr skill_root"
    using assms pin blob by (auto simp: fetch_and_extract_def Let_def elim!: bindA_InrE thenA_InrE split: if_splits)
  ultimately show ?thesis using pin blob by auto
qed

lemma download_after_mkdir:
  "mkdir_parents d s = (Inr (), s0) \<Longrightarrow> fst (download_bytes w source s0) = fst (download_bytes w source s)"
  by (auto simp: mkdir_parents_def Let_def download_bytes_def bindA_def thenA_def getS_def liftR_def raise_def ret_def
      split: if_splits sum.split option.split)

lemma install_steps:
  assumes "install_skill e w store req s = (Inr r, s')"
  obtains skill_root s0 s1 s2 where "mkdir_parents (pw_stage w) s = (Inr (), s0)"
    and "fetch_and_extract e w (ir_source req) (ir_pin req) (ir_sha256 req) (pw_stage w) (ir_skill_id req) s0 = (Inr skill_root, s1)"
    and "install_fetched e w store req skill_root s1 = (Inr r, s2)" and "s' = snd (rmtree_if_exists (pw_stage w) s2)"
  using assms unfolding install_skill_def finally_remove_def
  by (auto elim!: thenA_InrE bindA_InrE split: prod.splits)

lemma install_fetched_steps:
  assumes "install_fetched e w store req skill_root s = (Inr r, s')" and "\<not> is_dry_run r"
  obtains parsed parsed' md dest where "validate_skill_tree s skill_root = Inr (is_files r)"
    and "parse_skill_md w md (parsed_name_hint skill_root) = Inr parsed"
    and "write_tree e w store skill_root (is_name r) (is_version r) s = (Inr (is_content_hash r, dest, parsed'), s')"
    and "is_name r = ps_name parsed" and "is_version r = version_of req parsed" and "is_store_path r = Some (path_str dest)"
  using assms unfolding install_fetched_def Let_def
  by (auto elim!: bindA_InrE dest!: read_md_same split: if_splits prod.splits)

lemma install_contents:
  fixes s :: "'z host_fs_scheme"
  assumes ran: "install_skill e w store req s = (Inr r, s')" "\<not> is_dry_run r"
    and paths: "sha256_bytes e" "normal_dir (pw_stage w)" "files_plain s" "\<not> below (pw_stage w) store" "\<not> below store (pw_stage w)"
    and version: "opt_truthy (ir_version req)" "relative_text (the (ir_version req))"
  shows "\<exists>dest. is_store_path r = Some (path_str dest) \<and> below store dest
    \<and> dest = package_dir store (is_name r) (is_version r) (is_content_hash r)
    \<and> (''.corvus-skill.json'' \<notin> set (is_files r) \<longrightarrow> package_digest e s' dest (is_files r) = is_content_hash r)"
proof -
  let ?stage = "pw_stage w" and ?out = "path_add (pw_stage w) ''extract''"
  from ran(1) obtain skill_root s0 s1 s2 where s0: "mkdir_parents ?stage s = (Inr (), s0)"
    and fetched: "fetch_and_extract e w (ir_source req) (ir_pin req) (ir_sha256 req) ?stage (ir_skill_id req) s0 = (Inr skill_root, s1)"
    and inst: "install_fetched e w store req skill_root s1 = (Inr r, s2)" and s': "s' = snd (rmtree_if_exists ?stage s2)"
    by (rule install_steps)
  from inst ran(2) obtain parsed parsed' md dest where files: "validate_skill_tree s1 skill_root = Inr (is_files r)"
    and parsed: "parse_skill_md w md (parsed_name_hint skill_root) = Inr parsed"
    and tree: "write_tree e w store skill_root (is_name r) (is_version r) s1 = (Inr (is_content_hash r, dest, parsed'), s2)"
    and names: "is_name r = ps_name parsed" "is_version r = version_of req parsed" "is_store_path r = Some (path_str dest)"
    by (rule install_fetched_steps)
  have ext: "?out = PPath (pp_absolute ?stage) (pp_parts ?stage @ [''extract''])" by (rule path_add_name) (simp add: plain_def)
  have "below ?out skill_root"
    by (rule found_below [of s1 _ "ir_skill_id req"]) (use fetched_pinned [OF fetched] in \<open>auto simp: ext path_name_def\<close>)
  then have root: "below ?stage skill_root" by (auto simp: ext below_def dest: append_prefixD)
  have plain: "files_plain s1"
    using preservesD [OF plain_dirs(1) paths(3), of ?stage] preservesD [OF plain_fetch [OF plain_normal [OF paths(2)]], of s0] s0 fetched
    by (metis snd_conv)
  have rel: "relative_text (is_name r)" "relative_text (is_version r)"
    using name_relative [OF parsed_name_ok [OF parsed]] version by (simp_all add: names version_of_def)
  have in_store: "below store (package_dir store (is_name r) (is_version r) (package_digest e s1 skill_root fs))" for fs
    unfolding package_digest_def by (intro package_below paths rel)
  have apart: "\<not> below ?stage q" if "below store q" for q
    using below_linear [OF that, of ?stage] paths(4,5) by blast
  have "dest = package_dir store (is_name r) (is_version r) (is_content_hash r)
     \<and> is_content_hash r = package_digest e s1 skill_root (is_files r)
     \<and> (''.corvus-skill.json'' \<notin> set (is_files r) \<longrightarrow> package_digest e s2 dest (is_files r) = is_content_hash r)"
  proof -
    have "below store dest" using written_dest [OF tree] in_store by auto
    then have "\<not> below skill_root p" if "below dest p" for p
      using apart [of p] root that below_trans by blast
    from write_tree_contents [OF tree plain this] files show ?thesis by auto
  qed
  note h = this
  then have below: "below store dest" using in_store by metis
  have "package_digest e s' dest (is_files r) = package_digest e s2 dest (is_files r)"
  proof (rule digest_cong)
    fix f assume "f \<in> set (is_files r)"
    then have "\<not> pp_absolute (path_of f)" using checked_relative [OF plain files] by fastforce
    then have "\<not> below ?stage (path_add dest f)" using apart below below_add below_trans by blast
    then show "map_of (hf_files s') (path_add dest f) = map_of (hf_files s2) (path_add dest f)"
      unfolding s' by (intro leavesD allI leaves_rmtree)
  qed
  with h below names(3) show ?thesis by auto
qed

end
