(* ===== verification/Skill_Spec.thy ===== *)
theory Skill_Spec
  imports Samples Skill_Facts
begin

text \<open>
  The promises of the skill installer: where it may write, what the store holds after it, from where a package may
  come, and the version that leads it out of the store.
\<close>

section \<open>A package\<close>

definition package_md0 :: string where
  "package_md0 = ''---'' @ line_break @ ''name: demo'' @ line_break @ ''---'' @ line_break @ ''Say hello.''"

definition package_blob0 :: string where
  "package_blob0 = ''corvus-demo-skill''"

definition package_world0 :: package_world where
  "package_world0 = \<lparr>pw_allowlist = [], pw_address = (\<lambda>_. None), pw_dns = (\<lambda>_. None), pw_fetch = (\<lambda>_. Inl ValueError),
     pw_zip = (\<lambda>b. if b = package_blob0 then Some [(''demo/SKILL.md'', package_md0), (''demo/a.txt'', ''a'')] else None),
     pw_tar = (\<lambda>_. None), pw_yaml = (\<lambda>_. Inr (JObj [(''name'', JStr ''demo''), (''description'', JStr ''greets'')])),
     pw_utf8 = Some, pw_refusal = ''refused'', pw_stage = path_of ''/tmp/corvus-skill-0''\<rparr>"

definition package_fs0 :: host_fs where
  "package_fs0 = \<lparr>hf_files = [(path_of ''/srv/demo.zip'', package_blob0)], hf_dirs = [path_of ''/'']\<rparr>"

definition env_head :: env where
  "env_head = env0\<lparr>sha256 := (\<lambda>t. take 16 (map of_char t))\<rparr>"

definition package_req0 :: "string \<Rightarrow> install_request" where
  "package_req0 v = \<lparr>ir_source = ''file:///srv/demo.zip'', ir_pin = ''v1'', ir_sha256 = hexdigest (sha256 env_head package_blob0),
     ir_allow_scripts = False, ir_dry_run = False, ir_version = Some v, ir_skill_id = None\<rparr>"

definition package_store0 :: ppath where
  "package_store0 = path_of ''/var/skills''"

lemma package_sample:
  "sha256_bytes env_head" "normal_dir (pw_stage package_world0)" "normal_dir package_store0" "files_plain package_fs0"
  "\<not> below (pw_stage package_world0) package_store0" "\<not> below package_store0 (pw_stage package_world0)"
  "\<not> below (pw_stage package_world0) (path_of ''/srv/demo.zip'')" "\<not> below package_store0 (path_of ''/srv/demo.zip'')"
proof -
  show "sha256_bytes env_head" by (auto simp: sha256_bytes_def env_head_def list_all_iff dest!: in_set_takeD)
qed (code_simp, code_simp, simp add: files_plain_def package_fs0_def plain_path_def path_of_plain, code_simp+)


















section \<open>Where an installation writes\<close>

text \<open>C38: 
  Whatever becomes of an installation, and whatever the names of the members of the archive are, a file that lies
  neither in the staging directory nor in the store is as it was before, provided the version asked for is a relative
  path without parent references.
\<close>

theorem install_stays_in_store:
  fixes s :: "'z host_fs_scheme"
  assumes "sha256_bytes e" and "normal_dir (pw_stage w)" and "normal_dir store" and "files_plain s"
    and "opt_truthy (ir_version req)" and "relative_text (the (ir_version req))"
    and "\<not> below (pw_stage w) p" and "\<not> below store p"
  shows "map_of (hf_files (snd (install_skill e w store req s))) p = map_of (hf_files s) p"
  by (intro install_leaves plain_normal assms)

theorem install_stays_in_store_witness:
  "map_of (hf_files (snd (install_skill env_head package_world0 package_store0 (package_req0 ''1.0'') package_fs0))) (path_of ''/srv/demo.zip'')
     = Some package_blob0"
proof -
  have "opt_truthy (ir_version (package_req0 ''1.0''))" "relative_text (the (ir_version (package_req0 ''1.0'')))" by code_simp+
  note install_stays_in_store [OF package_sample(1-4) this package_sample(7,8)]
  moreover have "map_of (hf_files package_fs0) (path_of ''/srv/demo.zip'') = Some package_blob0" by code_simp
  ultimately show ?thesis by simp
qed

section \<open>What is installed\<close>



section \<open>Versions\<close>



end
