(* ===== verification/Management_Spec.thy ===== *)
theory Management_Spec
  imports Host_Spec Whole_Server Skill_Spec
begin

text \<open>
  The properties of the management API and of the server as a whole.
\<close>

section \<open>Facts about settings and users\<close>

lemma upsert_keeps_values:
  assumes "\<And>row. row \<in> set rows \<Longrightarrow> key row = key r \<Longrightarrow> val (merge row r) = val row \<and> key (merge row r) = key row"
    and "\<exists>row \<in> set rows. key row = key r"
  shows "map (\<lambda>row. (key row, val row)) (upsert_row key merge r rows) = map (\<lambda>row. (key row, val row)) rows"
  using assms by (auto simp: upsert_row_def has_row_def list_ex_iff)

definition setting_values :: "'z db_scheme \<Rightarrow> (string \<times> json) list" where
  "setting_values s = map (\<lambda>r. (ss_key r, ss_value r)) (server_settings s)"

lemma write_settings_same:
  fixes s :: "'z api_state_scheme"
  assumes "\<And>k v. (k, v) \<in> set updates \<Longrightarrow> \<exists>meta. map_of SETTINGS_SPEC k = Some meta \<and> (keeps_secret meta v \<or> map_of (setting_values s) k = Some v)"
    and "distinct (map fst (setting_values s))"
  shows "\<exists>out s'. write_settings e updates ks s = (Inr (Inr out), s') \<and> setting_values s' = setting_values s"
  using assms
proof (induction updates arbitrary: ks s)
  case Nil
  then show ?case by (simp add: http_ok_def)
next
  case (Cons u updates)
  obtain k v where u: "u = (k, v)" by force
  with Cons.prems(1) [of k v] obtain meta where meta: "map_of SETTINGS_SPEC k = Some meta"
    and v: "keeps_secret meta v \<or> map_of (setting_values s) k = Some v" by auto
  show ?case
  proof (cases "keeps_secret meta v")
    case True
    then show ?thesis using Cons by (simp add: u meta)
  next
    case False
    with v have "map_of (setting_values s) k = Some v" by blast
    let ?r = "\<lparr>ss_key = k, ss_value = v, ss_secret = sm_secret meta, ss_restart_required = sm_restart meta, ss_updated_at = now e\<rparr>"
    define t where "t = s\<lparr>server_settings := upsert_row ss_key setting_merge ?r (server_settings s)\<rparr>"
    have row: "ss_value row = v" if "row \<in> set (server_settings s)" "ss_key row = k" for row
      using that \<open>map_of (setting_values s) k = Some v\<close> Cons.prems(2) map_of_is_SomeI [of "setting_values s" k "ss_value row"]
      by (force simp: setting_values_def)
    have "\<exists>row \<in> set (server_settings s). ss_key row = k"
      using map_of_SomeD [OF \<open>map_of (setting_values s) k = Some v\<close>] by (auto simp: setting_values_def)
    with row have same: "setting_values t = setting_values s"
      unfolding setting_values_def t_def by (auto intro!: upsert_keeps_values simp: setting_merge_def)
    have step: "write_settings e ((k, v) # updates) ks s = write_settings e updates (if sm_restart meta then ks @ [k] else ks) t"
      using False by (simp add: meta upsert_setting_def t_def)
    show ?thesis unfolding u step same [symmetric]
      by (rule Cons.IH) (use Cons.prems same in auto)
  qed
qed

definition shown :: "('g \<times> 'v list) list \<Rightarrow> 'v set" where
  "shown groups = (\<Union>(g, vs) \<in> set groups. set vs)"

lemma shown_dput: "shown (dput k v d) \<subseteq> set v \<union> shown d"
  unfolding shown_def dput_def by (induction d) auto

lemma shown_lookup: "map_of d k = Some v \<Longrightarrow> set v \<subseteq> shown d"
  by (force simp: shown_def dest: map_of_SomeD)

lemma shown_group_views: "shown (group_views rows acc) \<subseteq> view_of ` set rows \<union> shown acc"
proof (induction rows arbitrary: acc)
  case (Cons row rows)
  define old where "old = (case map_of acc (group_of row) of None \<Rightarrow> [] | Some vs \<Rightarrow> vs)"
  have "set old \<subseteq> shown acc" unfolding old_def by (cases "map_of acc (group_of row)") (simp_all add: shown_lookup)
  then have "shown (dput (group_of row) (old @ [view_of row]) acc) \<subseteq> insert (view_of row) (shown acc)"
    using shown_dput [of "group_of row" "old @ [view_of row]" acc] by auto
  with Cons [of "dput (group_of row) (old @ [view_of row]) acc"] show ?case unfolding group_views.simps old_def [symmetric] by auto
qed simp

lemma public_views: "shown (settings_public_view rows) \<subseteq> view_of ` set rows"
  using shown_group_views [of rows "[]"] by (simp add: settings_public_view_def shown_def)

lemma patch_settings_values:
  fixes s :: "'z api_state_scheme"
  assumes "write_settings e (settings_body body) [] s = (Inr (Inr ks), t)"
  shows "setting_values (snd (patch_settings e aw body s)) = setting_values t"
proof -
  have keep: "preserves (\<lambda>s :: 'z api_state_scheme. setting_values s = x) (thenA (on_live ml) (thenA (modS (\<lambda>s. s\<lparr>api_limiter := f s\<rparr>))
      (thenA (log_api_mutation e ep d) (bindA (getS list_settings) (\<lambda>rows. http_ok (g rows))))))" for x ml f ep d g
    by (intro preserves_thenA preserves_getS_bind http_pres)
       (auto simp: preserves_def on_live_def setting_values_def audit_events audit_insert_def split: prod.split)
  show ?thesis using preservesD [OF keep refl] assms by (simp add: patch_settings_def bindH_def Let_def)
qed

lemma patch_settings_limit:
  fixes s :: "'z api_state_scheme"
  assumes "write_settings e (settings_body body) [] s = (Inr (Inr ks), u)" and "patch_settings e aw body s = (Inr (Inr out), s')"
  shows "wl_limit (api_limiter s') = oget (load_settings_into_config (aw_env_set aw) (lv_config (api_live u)) u) ''api_rate_limit_per_minute''"
proof -
  let ?c = "load_settings_into_config (aw_env_set aw) (lv_config (api_live u)) u"
  obtain r lv where lv: "apply_settings_to_context ?c (api_live u) = (r, lv)" by force
  then have "lv_config lv = ?c" by (auto simp: apply_settings_to_context_def Let_def split: sum.splits)
  with assms lv show ?thesis
    by (cases r) (auto simp: patch_settings_def bindH_def Let_def on_live_def bindA_def thenA_def audit_events audit_insert_def http_ok_def)
qed

text \<open>A setting in the tables goes into the configuration under its own name.\<close>

lemma spec_attr: "map_of SETTINGS_SPEC k = Some meta \<Longrightarrow> sm_attr meta = k"
  by (drule map_of_SomeD) (auto simp: SETTINGS_SPEC_def spec_row_def)

lemma setting_updates_keys: "distinct (map fst acc) \<Longrightarrow> distinct (map fst (setting_updates ev rows acc))"
  by (induction rows arbitrary: acc) (auto simp: distinct_oset split: option.split)

lemma setting_updates_other: "k \<notin> ss_key ` set rows \<Longrightarrow> map_of (setting_updates ev rows acc) k = map_of acc k"
  by (induction rows arbitrary: acc) (auto simp: spec_attr split: option.split)

lemma setting_updates_lookup:
  assumes "distinct (map ss_key rows)" and "row \<in> set rows" and "map_of SETTINGS_SPEC (ss_key row) = Some meta" and "\<not> env_is_set ev (sm_env meta)"
  shows "map_of (setting_updates ev rows acc) (ss_key row) = Some (coerce_setting (ss_key row) (ss_value row))"
  using assms
proof (induction rows arbitrary: acc)
  case (Cons r rows)
  show ?case
  proof (cases "r = row")
    case True
    with Cons.prems have "ss_key row \<notin> ss_key ` set rows" by auto
    with True Cons.prems(3,4) show ?thesis by (simp add: setting_updates_other spec_attr)
  next
    case False
    with Cons show ?thesis by simp
  qed
qed simp

lemma loaded_setting:
  assumes "keys_ok ss_key (server_settings s)" and "row \<in> set (server_settings s)" and "map_of SETTINGS_SPEC (ss_key row) = Some meta"
    and "\<not> env_is_set ev (sm_env meta)"
  shows "oget (load_settings_into_config ev cfg s) (ss_key row) = coerce_setting (ss_key row) (ss_value row)"
proof -
  have "distinct (map ss_key (list_settings s))" using assms(1) by (simp add: list_settings_def order_by_def keys_ok_def distinct_map)
  from setting_updates_lookup [OF this _ assms(3,4), of "[]"] assms(2) setting_updates_keys [of "[]" ev "list_settings s"]
  show ?thesis by (simp add: load_settings_into_config_def oget_def map_of_omerge list_settings_def map_add_def)
qed

lemma upserted_setting: "\<exists>row \<in> set (server_settings (snd (upsert_setting e k v x r s))). ss_key row = k \<and> ss_value row = v"
proof (cases "has_row ss_key k (server_settings s)")
  case True
  then obtain row where "row \<in> set (server_settings s)" "ss_key row = k" by (auto simp: has_row_def list_ex_iff)
  with True show ?thesis by (auto simp: upsert_setting_def upsert_row_def setting_merge_def intro!: bexI [of _ "setting_merge row \<lparr>ss_key = k, ss_value = v, ss_secret = x, ss_restart_required = r, ss_updated_at = now e\<rparr>"])
next
  case False
  then show ?thesis by (simp add: upsert_setting_def upsert_row_def)
qed

text \<open>What is shown depends on the shown part of the rows.\<close>

lemma group_views_cong: "map view_of rows = map view_of rows' \<Longrightarrow> group_views rows acc = group_views rows' acc"
proof (induction rows arbitrary: rows' acc)
  case (Cons r rows)
  then obtain r' rest where r': "rows' = r' # rest" "view_of r = view_of r'" "map view_of rows = map view_of rest" by (cases rows') auto
  then have "ss_key r = ss_key r'" by (simp add: view_of_def)
  then have "group_of r = group_of r'" by (simp add: group_of_def)
  with r' Cons.IH [OF r'(3)] show ?case by simp
qed simp

lemma order_by_map:
  assumes "\<And>x. k (f x) = k x"
  shows "order_by k (map f xs) = map f (order_by k xs)"
proof -
  have "insort_key k (f x) (map f ys) = map f (insort_key k x ys)" for x ys by (induction ys) (auto simp: assms)
  then show ?thesis unfolding order_by_def by (induction xs) auto
qed

lemma omerge_nonempty: "d \<noteq> [] \<Longrightarrow> omerge d e \<noteq> []"
proof (induction e arbitrary: d)
  case (Cons p e)
  obtain k v where p: "p = (k, v)" by force
  have "oset k v d \<noteq> []" using keys_oset [of k v d] by auto
  from Cons.IH [OF this] show ?case by (simp add: omerge_def p)
qed (simp add: omerge_def)

section \<open>The rate limiter\<close>

lemma window_allow_total: "fst (window_allow t k l) = Inl TypeError \<or> (\<exists>b. fst (window_allow t k l) = Inr b)"
  by (auto simp: window_allow_def Let_def split: option.split)

lemma retry_after_total: "retry_after_seconds t k l = Inl TypeError \<or> (\<exists>q. retry_after_seconds t k l = Inr q)"
  by (auto simp: retry_after_seconds_def split: option.split list.split)

text \<open>A sequence of requests, each with its handler: the answers, and the requests that were not refused for their
  rate.\<close>

type_synonym ('s, 'a) calls = "(time \<times> api_request \<times> ('s, 'a http) act) list"

fun answers :: "('z api_state_scheme, 'a) calls \<Rightarrow> 'z api_state_scheme \<Rightarrow> 'a http res list" where
  "answers [] s = []"
| "answers ((t, rq, m) # calls) s = (case api_call t rq m s of (r, s') \<Rightarrow> r # answers calls s')"





section \<open>The whole server\<close>

text \<open>C4: The parts of the server agree in every run.  Whatever the virtual machines send, whatever the management API
  is asked and whatever processes come and go on the host, in any order and whether each step succeeds or
  raises: the keys of every table are unique, the rules the policy decides with are those of the database, the
  live catalog is what the database loads to, the copies of the launcher and of the memory service are that
  catalog, and no agent has two active machines.\<close>

theorem server_parts_agree:
  assumes "system_run s0 s" and "api_ok s0"
  shows "db_ok s \<and> cached_rules s = list_rules s \<and> load_catalog s = Inr (live_catalog s)
     \<and> api_vm_catalog s = live_catalog s \<and> api_memory_catalog s = live_catalog s
     \<and> distinct (map vm_agent_id (filter active (vh_index (api_vms s))))
     \<and> distinct (map vm_guest_cid (filter active (vh_index (api_vms s))))"
  using run_api_ok [OF assms] by (simp add: api_ok_def control_ok_def cache_ok_def catalog_fresh_def registry_ok_def)


text \<open>C9: A successful management operation leaves a trace: every request that changes something and is answered
  successfully adds to the audit log, except adding a member to a group and trying an installation.\<close>

theorem mutations_are_traced:
  fixes s :: "'z api_state_scheme"
  assumes "\<not> untraced op" and "api_call t rq (api_effect e envs aw op) s = (Inr (Inr ()), s')"
  shows "length (audit_log s) < length (audit_log s')"
  using call_traced [OF effect_traced [OF assms(1)]] assms(2) unfolding traced_def by blast

section \<open>Access\<close>

text \<open>C5: A request without the configured key changes nothing but the rate limiter, and its handler does not answer
  it: the answer is one of the two refusals, or an exception of a limit that is no number.\<close>

theorem wrong_key_changes_nothing:
  assumes "JStr (rq_api_key rq) \<noteq> oget (lv_config (api_live s)) ''api_key''" and "api_call t rq m s = (r, s')"
  shows "(\<exists>l. s' = s\<lparr>api_limiter := l\<rparr>)
     \<and> (r = Inr (Inl (401, ''Invalid API key'')) \<or> r = Inr (Inl (429, ''API_RATE_LIMITED'')) \<or> r = Inl TypeError)"
proof (cases "metered rq")
  case False
  with assms show ?thesis by (auto simp: api_call_open require_key intro: exI [of _ "api_limiter s"])
next
  case True
  obtain a l where l: "window_allow t (client_key rq) (api_limiter s) = (a, l)" by force
  have "api_live (s\<lparr>api_limiter := l\<rparr>) = api_live s" by simp
  with assms window_allow_total [of t "client_key rq" "api_limiter s"] retry_after_total [of t "client_key rq" l]
  show ?thesis by (auto simp: api_call_limited [OF True l] require_key l split: if_splits)
qed

text \<open>Guessing keys is not limited: the limiter counts by the key that a request claims, so that requests with
  pairwise different wrong keys are all answered as such and none of them is refused for its rate.\<close>

theorem key_guesses_not_limited:
  assumes "json_num (wl_limit (api_limiter s)) = Some n" and "distinct (map (\<lambda>(t, rq, m). rq_api_key rq) rqs)"
    and "\<And>t rq m. (t, rq, m) \<in> set rqs \<Longrightarrow> rq_api_key rq \<noteq> [] \<and> hits_of (client_key rq) (api_limiter s) = []
      \<and> JStr (rq_api_key rq) \<noteq> oget (lv_config (api_live s)) ''api_key''"
  shows "answers rqs s = replicate (length rqs) (Inr (Inl (401, ''Invalid API key'')))"
  using assms
proof (induction rqs arbitrary: s)
  case (Cons c rqs)
  obtain t rq m where c: "c = (t, rq, m)" by (cases c) auto
  have rq: "rq_api_key rq \<noteq> []" "hits_of (client_key rq) (api_limiter s) = []" "JStr (rq_api_key rq) \<noteq> oget (lv_config (api_live s)) ''api_key''"
    using Cons.prems(3) [of t rq m] by (simp_all add: c)
  obtain l where step: "api_call t rq m s = (Inr (Inl (401, ''Invalid API key'')), s\<lparr>api_limiter := l\<rparr>)"
    and l: "wl_limit l = wl_limit (api_limiter s)" "\<And>k. k \<noteq> client_key rq \<Longrightarrow> hits_of k l = hits_of k (api_limiter s)"
  proof (cases "metered rq")
    case False
    then show ?thesis using that [of "api_limiter s"] rq(3) by (simp add: api_call_open require_key)
  next
    case True
    obtain a l where a: "window_allow t (client_key rq) (api_limiter s) = (a, l)" by force
    have "a = Inr True" "wl_limit l = wl_limit (api_limiter s)" "\<And>k. k \<noteq> client_key rq \<Longrightarrow> hits_of k l = hits_of k (api_limiter s)"
      using a rq(2) Cons.prems(1) by (auto simp: window_allow_def Let_def split: if_splits)
    then show ?thesis using that [of l] rq(3) by (simp add: api_call_limited [OF True a] require_key)
  qed
  have "answers rqs (s\<lparr>api_limiter := l\<rparr>) = replicate (length rqs) (Inr (Inl (401, ''Invalid API key'')))"
  proof (rule Cons.IH)
    fix t' rq' m' assume other: "(t', rq', m') \<in> set rqs"
    then have "client_key rq' \<noteq> client_key rq" using Cons.prems(2,3) rq(1) by (force simp: c client_key_def)
    with other Cons.prems(3) [of t' rq' m'] l(2) show "rq_api_key rq' \<noteq> [] \<and> hits_of (client_key rq') (api_limiter (s\<lparr>api_limiter := l\<rparr>)) = []
        \<and> JStr (rq_api_key rq') \<noteq> oget (lv_config (api_live (s\<lparr>api_limiter := l\<rparr>))) ''api_key''" by simp
  qed (use Cons.prems(1,2) l(1) in auto)
  with step show ?case by (simp add: c)
qed simp


text \<open>A refused client gets through later: a call after the seconds of the refusal and one millisecond more is let
  through.\<close>

theorem retry_after_suffices:
  assumes "window_allow t key l = (Inr False, l')" and "retry_after_seconds t key l' = Inr q" and "wl_limit l = JInt n"
    and "int (length (hits_of key l)) \<le> n" and "t + seconds q + 1000 \<le> t'"
  shows "fst (window_allow t' key l') = Inr True"
  using retry_after_enough [OF assms] .

section \<open>Settings\<close>

text \<open>C35: Secrets are not shown: in every run, what a reader of the settings gets does not depend on the value of a
  secret setting.\<close>

theorem secrets_not_shown:
  fixes s :: "'z api_state_scheme"
  assumes "system_run s0 s" and "api_ok s0" and "map_of SETTINGS_SPEC key = Some meta" and "sm_secret meta"
  shows "fst (get_settings (s\<lparr>server_settings := map (\<lambda>r. if ss_key r = key then r\<lparr>ss_value := v\<rparr> else r) (server_settings s)\<rparr>))
     = fst (get_settings s)"
proof -
  let ?f = "\<lambda>r. if ss_key r = key then r\<lparr>ss_value := v\<rparr> else r"
  have flags: "flags_ok (server_settings s)" using run_api_ok [OF assms(1,2)] by (simp add: api_ok_def control_ok_def)
  have "map view_of (map ?f (order_by ss_key (server_settings s))) = map view_of (order_by ss_key (server_settings s))"
    using flags assms(3,4) by (auto simp: view_of_def flags_ok_def)
  then have "map view_of (order_by ss_key (map ?f (server_settings s))) = map view_of (order_by ss_key (server_settings s))"
    by (subst order_by_map) auto
  from group_views_cong [OF this] show ?thesis
    by (simp add: get_settings_def http_ok_def list_settings_def settings_public_view_def)
qed

text \<open>C36: Writing back what was read changes nothing: a client that sends any part of the values it has read, masked
  secrets included, leaves every stored value as it is.\<close>

theorem settings_read_write:
  fixes s :: "'z api_state_scheme"
  assumes "api_ok s" and "\<And>k v. (k, v) \<in> set (settings_body body) \<Longrightarrow> map_of SETTINGS_SPEC k \<noteq> None
      \<and> (\<exists>w \<in> shown (settings_public_view (list_settings s)). vw_key w = k \<and> vw_value w = v)"
  shows "setting_values (snd (patch_settings e aw body s)) = setting_values s"
proof -
  have keys: "distinct (map fst (setting_values s))" using assms(1) by (auto simp: api_ok_def db_ok_def keys_ok_def setting_values_def comp_def)
  have flags: "flags_ok (server_settings s)" using assms(1) by (simp add: api_ok_def control_ok_def)
  have "\<exists>meta. map_of SETTINGS_SPEC k = Some meta \<and> (keeps_secret meta v \<or> map_of (setting_values s) k = Some v)"
    if kv: "(k, v) \<in> set (settings_body body)" for k v
  proof -
    from assms(2) [OF kv] obtain meta w where meta: "map_of SETTINGS_SPEC k = Some meta"
      and w: "w \<in> shown (settings_public_view (list_settings s))" "vw_key w = k" "vw_value w = v" by auto
    from w(1) public_views [of "list_settings s"] obtain row where row: "row \<in> set (server_settings s)" "w = view_of row"
      by (auto simp: list_settings_def)
    show ?thesis
    proof (cases "ss_secret row")
      case True
      with flags row meta w show ?thesis by (auto simp: view_of_def flags_ok_def keeps_secret_def)
    next
      case False
      with row w have "(k, v) \<in> set (setting_values s)" by (auto simp: view_of_def setting_values_def)
      with keys meta show ?thesis by (auto simp: map_of_eq_Some_iff)
    qed
  qed
  from write_settings_same [OF this keys] obtain out t where "write_settings e (settings_body body) [] s = (Inr (Inr out), t)"
    "setting_values t = setting_values s" by blast
  with patch_settings_values show ?thesis by metis
qed

text \<open>A limit that is no number locks the API: a text as the rate limit is accepted, and from then on every
  request that the limiter sees ends with an exception, the one that would set the limit right included.\<close>

theorem bad_limit_locks_api:
  fixes s :: "'z api_state_scheme"
  assumes "api_ok s" and "settings_body body = [(''api_rate_limit_per_minute'', JStr x)]"
    and "\<not> aw_env_set aw ''CORVUS_API_RATE_LIMIT_PER_MINUTE''" and "patch_settings e aw body s = (Inr (Inr out), s')" and "metered rq"
  shows "api_call t rq m s' = (Inl TypeError, s')"
proof -
  let ?k = "''api_rate_limit_per_minute''"
  have meta: "map_of SETTINGS_SPEC ?k = Some \<lparr>sm_attr = ?k, sm_secret = False, sm_restart = False, sm_group = ''system'',
      sm_env = Some ''CORVUS_API_RATE_LIMIT_PER_MINUTE''\<rparr>" by (simp add: SETTINGS_SPEC_def spec_row_def)
  define u where "u = snd (upsert_setting e ?k (JStr x) False False s)"
  have w: "write_settings e (settings_body body) [] s = (Inr (Inr []), u)"
    by (simp add: assms(2) meta keeps_secret_def upsert_setting_def u_def http_ok_def)
  have keys: "keys_ok ss_key (server_settings u)" using assms(1)
    by (simp add: u_def upsert_setting_def api_ok_def db_ok_def setting_table.keys_ok_upsert)
  obtain row where row: "row \<in> set (server_settings u)" "ss_key row = ?k" "ss_value row = JStr x"
    using upserted_setting [of e ?k "JStr x" False False s] by (auto simp: u_def)
  have "oget (load_settings_into_config (aw_env_set aw) cfg u) ?k = JStr x" for cfg
    using loaded_setting [OF keys row(1), of _ "aw_env_set aw" cfg] meta row assms(3) by (simp add: env_is_set_def coerce_setting_def)
  with patch_settings_limit [OF w assms(4)] have "wl_limit (api_limiter s') = JStr x" by simp
  then have a: "window_allow t (client_key rq) (api_limiter s') = (Inl TypeError, api_limiter s')" by (simp add: window_allow_def)
  show ?thesis by (simp add: api_call_limited [OF assms(5) a])
qed

section \<open>Users\<close>

text \<open>An update of a user without a new secret keeps the login: the role and the groups are those of the request, the
  stored credential stays, and a deactivated user stays deactivated.\<close>

theorem user_update_keeps_login:
  fixes s :: "'z api_state_scheme"
  assumes "get_user (uc_id body) s = Some u" and "\<not> opt_truthy (given_secret (uc_pin body) (uc_password body))"
    and "create_user e body s = (Inr (Inr out), s')"
  shows "\<exists>u'. get_user (uc_id body) s' = Some u' \<and> oget u' ''role'' = JStr (uc_role body) \<and> oget u' ''groups'' = jstrs (uc_groups body)
     \<and> (truthy (oget u ''credential_hash'') \<longrightarrow> oget u' ''credential_hash'' = oget u ''credential_hash'')
     \<and> (oget u ''active'' = JBool False \<longrightarrow> oget u' ''active'' = JBool False)"
proof -
  let ?p = "user_profile e body (Some u)"
  have "distinct (map fst ?p)" by (simp add: user_profile_def Let_def distinct_oset)
  then have get: "oget (omerge [(''id'', JStr (uc_id body)), (''role'', JStr (uc_role body))] ?p) k
      = (case map_of ?p k of None \<Rightarrow> oget [(''id'', JStr (uc_id body)), (''role'', JStr (uc_role body))] k | Some v \<Rightarrow> v)" for k
    by (simp add: oget_def map_of_omerge map_add_def split: option.split)
  have "u \<noteq> []" using assms(1) omerge_nonempty by (auto simp: get_user_def user_of_row_def)
  obtain old where "lookup_row us_id (uc_id body) (users s) = Some old" using assms(1) by (auto simp: get_user_def)
  then have "us_id old = uc_id body" by (auto dest: lookup_row_SomeD)
  have "users s' = upsert_row us_id user_merge \<lparr>us_id = uc_id body, us_role = uc_role body, us_profile = ?p\<rparr> (users s)"
    using assms(1,3) by (auto simp: create_user_def upsert_user_def security_event_def audit_events audit_insert_def http_ok_def)
  then have "get_user (uc_id body) s' = Some (omerge [(''id'', JStr (uc_id body)), (''role'', JStr (uc_role body))] ?p)"
    using user_table.lookup_upsert_same [of "\<lparr>us_id = uc_id body, us_role = uc_role body, us_profile = ?p\<rparr>" "users s"]
    by (simp add: get_user_def \<open>lookup_row us_id (uc_id body) (users s) = Some old\<close> user_merge_def user_of_row_def \<open>us_id old = uc_id body\<close>)
  moreover have "map_of ?p ''role'' = None" "map_of ?p ''groups'' = Some (jstrs (uc_groups body))"
    "truthy (oget u ''credential_hash'') \<Longrightarrow> map_of ?p ''credential_hash'' = Some (oget u ''credential_hash'')"
    "oget u ''active'' = JBool False \<Longrightarrow> map_of ?p ''active'' = Some (JBool False)"
    using \<open>u \<noteq> []\<close> assms(2) by (simp_all add: user_profile_def Let_def)
  ultimately show ?thesis by (auto simp: get) (simp add: oget_def)
qed

section \<open>A server with its management API\<close>

definition key0 :: "string \<Rightarrow> api_request" where
  "key0 k = \<lparr>rq_path = ''/v1/rules'', rq_internal = [], rq_api_key = k, rq_client = None\<rparr>"

definition setting0 :: "string \<Rightarrow> json \<Rightarrow> bool \<Rightarrow> setting_row" where
  "setting0 k v x = \<lparr>ss_key = k, ss_value = v, ss_secret = x, ss_restart_required = False, ss_updated_at = 0\<rparr>"

definition config0 :: obj where
  "config0 = [(''api_key'', JStr ''k1''), (''api_rate_limit_per_minute'', JInt 2), (''memory_soft_delete_retention_hours'', JInt 24)]"

definition live0 :: live_services where
  "live0 = \<lparr>lv_config = config0, lv_behavioral_config = config0, lv_default_provider = JNull, lv_request_timeout = JNull,
     lv_encryption_enabled = JNull, lv_master_key = JNull, lv_memory_writes_limit = JNull, lv_tokens_limit = JNull,
     lv_webhook_url = JNull, lv_webhook_secret = JNull, lv_sweep_interval = JNull, lv_soft_delete_retention = 0\<rparr>"

definition no_catalog :: capability_catalog where
  "no_catalog = \<lparr>cat_tools = [], cat_skills = [], cat_llm_providers = [], cat_workspaces = [], cat_memory_namespaces = []\<rparr>"

definition api0 :: api_state where
  "api0 = gateway_state.extend ((server0 [])\<lparr>live_catalog := no_catalog,
       users := [\<lparr>us_id = ''u1'', us_role = ''viewer'', us_profile = [(''credential_hash'', JStr ''hash''), (''active'', JBool False)]\<rparr>],
       server_settings := [setting0 ''api_key'' (JStr ''k1'') True, setting0 ''api_rate_limit_per_minute'' (JInt 2) False]\<rparr>)
     \<lparr>api_limiter = \<lparr>wl_limit = JInt 2, wl_window = 60000000, wl_hits = []\<rparr>, api_live = live0, api_vms = host0,
      api_vm_catalog = no_catalog, api_memory_catalog = no_catalog, api_registry = []\<rparr>"

definition api_world0 :: api_world where
  "api_world0 = \<lparr>aw_services = services0, aw_memory_sweeping = True, aw_elevation_sweeping = True, aw_env_set = (\<lambda>_. False), aw_vm_config = vm_config0, aw_fc = fc0, aw_packages = package_world0\<rparr>"

lemma api0_sel [simp]:
  "rules api0 = []" "cached_rules api0 = []" "catalog_entries api0 = []" "live_catalog api0 = no_catalog" "audit_log api0 = []"
  "api_vm_catalog api0 = no_catalog" "api_memory_catalog api0 = no_catalog" "api_vms api0 = host0" "api_live api0 = live0"
  "api_limiter api0 = \<lparr>wl_limit = JInt 2, wl_window = 60000000, wl_hits = []\<rparr>"
  "server_settings api0 = [setting0 ''api_key'' (JStr ''k1'') True, setting0 ''api_rate_limit_per_minute'' (JInt 2) False]"
  "users api0 = [\<lparr>us_id = ''u1'', us_role = ''viewer'', us_profile = [(''credential_hash'', JStr ''hash''), (''active'', JBool False)]\<rparr>]"
  by (simp_all add: api0_def gateway_state.defs server0_def db.defs db0_def)

lemma api0_tables: "db_ok api0"
  by (simp add: db_ok_def api0_def gateway_state.defs server0_def db.defs db0_def keys_ok_def agent0_def session0_def setting0_def)

lemma api0_ok: "api_ok api0"
proof -
  have "load_catalog api0 = Inr no_catalog" by (simp add: load_catalog_def list_catalog_entries_def order_by_def no_catalog_def)
  moreover have "flags_ok (server_settings api0)"
    by (simp add: flags_ok_def setting0_def SETTINGS_SPEC_def spec_row_def)
  ultimately show ?thesis using api0_tables
    by (simp add: api_ok_def control_ok_def cache_ok_def list_rules_def order_by_def order_by_desc_def catalog_fresh_def registry_ok_def host0_def)
qed

lemma config0 [simp]: "oget (lv_config live0) ''api_key'' = JStr ''k1''" "oget (lv_config live0) ''api_rate_limit_per_minute'' = JInt 2"
  "oget (lv_config live0) ''memory_soft_delete_retention_hours'' = JInt 24"
  by (simp_all add: live0_def config0_def oget_def)

lemma key0 [simp]: "rq_api_key (key0 k) = k" "metered (key0 k)" "k \<noteq> [] \<Longrightarrow> client_key (key0 k) = ''key:'' @ k"
  by (simp_all add: key0_def metered_def client_key_def)

text \<open>A request with the key.\<close>

lemma call0: "k \<noteq> [] \<Longrightarrow> api_call t (key0 k) m api0 =
    (if k = ''k1'' then m else (\<lambda>s. (Inr (Inl (401, ''Invalid API key'')), s)))
      (api0\<lparr>api_limiter := \<lparr>wl_limit = JInt 2, wl_window = 60000000, wl_hits = [(''key:'' @ k, [t])]\<rparr>\<rparr>)"
  by (subst api_call_limited [OF key0(2)])
     (auto simp: window_allow_def hits_of_def dput_def require_key)

definition quota_op0 :: api_op where
  "quota_op0 = PatchQuota ''q'' \<lparr>qp_limit = 5, qp_used = 0, qp_window_type = ''daily''\<rparr>"

definition asked0 :: "unit http res \<times> api_state" where
  "asked0 = api_call 5 (key0 ''k1'') (api_effect env0 (\<lambda>_. env0) api_world0 quota_op0) api0"

lemma run0: "system_run api0 (snd asked0)"
  unfolding asked0_def
  by (rule system_next [OF system_start system_step.request]) (simp add: fresh_for_def quota_op0_def)

theorem server_parts_agree_witness:
  "db_ok (snd asked0) \<and> cached_rules (snd asked0) = list_rules (snd asked0) \<and> load_catalog (snd asked0) = Inr (live_catalog (snd asked0))
     \<and> api_vm_catalog (snd asked0) = live_catalog (snd asked0) \<and> api_memory_catalog (snd asked0) = live_catalog (snd asked0)
     \<and> distinct (map vm_agent_id (filter active (vh_index (api_vms (snd asked0)))))
     \<and> distinct (map vm_guest_cid (filter active (vh_index (api_vms (snd asked0)))))"
  by (rule server_parts_agree [OF run0 api0_ok])


theorem mutations_are_traced_witness:
  "length (audit_log api0) < length (audit_log (snd asked0))"
proof -
  have "fst asked0 = Inr (Inr ())"
    by (simp add: asked0_def call0 quota_op0_def quiet_def patch_quota_def bindH_def security_event_def audit_events audit_insert_def
        upsert_quota_counter_def http_ok_def thenA_def bindA_def)
  then have "api_call 5 (key0 ''k1'') (api_effect env0 (\<lambda>_. env0) api_world0 quota_op0) api0 = (Inr (Inr ()), snd asked0)"
    unfolding asked0_def by (metis prod.collapse)
  then show ?thesis by (rule mutations_are_traced [rotated]) (simp add: quota_op0_def)
qed

definition guess0 :: "unit http res \<times> api_state" where
  "guess0 = api_call 5 (key0 ''x'') (api_effect env0 (\<lambda>_. env0) api_world0 quota_op0) api0"

theorem wrong_key_changes_nothing_witness:
  "(\<exists>l. snd guess0 = api0\<lparr>api_limiter := l\<rparr>)
     \<and> (fst guess0 = Inr (Inl (401, ''Invalid API key'')) \<or> fst guess0 = Inr (Inl (429, ''API_RATE_LIMITED'')) \<or> fst guess0 = Inl TypeError)"
  by (rule wrong_key_changes_nothing [of "key0 ''x''"]) (simp_all add: guess0_def)

definition guesses0 :: "(api_state, unit) calls" where
  "guesses0 = map (\<lambda>k. (5, key0 k, ret (Inr ()))) [''x'', ''y'', ''z'']"

theorem key_guesses_not_limited_witness:
  "answers guesses0 api0 = replicate (length guesses0) (Inr (Inl (401, ''Invalid API key'')))"
  by (rule key_guesses_not_limited [of _ 2]) (auto simp: guesses0_def hits_of_def)



theorem retry_after_suffices_witness:
  "fst (window_allow 60001002 ''k'' \<lparr>wl_limit = JInt 2, wl_window = 60000000, wl_hits = [(''k'', [0, 1])]\<rparr>) = Inr True"
  by (rule retry_after_suffices [of 2 _ "\<lparr>wl_limit = JInt 2, wl_window = 60000000, wl_hits = [(''k'', [0, 1])]\<rparr>" _ 60 2])
     (simp_all add: window_allow_def hits_of_def dput_def retry_after_seconds_def)

theorem secrets_not_shown_witness:
  "fst (get_settings (api0\<lparr>server_settings := map (\<lambda>r. if ss_key r = ''api_key'' then r\<lparr>ss_value := JStr ''other''\<rparr> else r) (server_settings api0)\<rparr>))
     = fst (get_settings api0)"
proof -
  have "map_of SETTINGS_SPEC ''api_key'' = Some \<lparr>sm_attr = ''api_key'', sm_secret = True, sm_restart = False, sm_group = ''system'',
      sm_env = Some ''CORVUS_API_KEY''\<rparr>" by (simp add: SETTINGS_SPEC_def spec_row_def)
  from secrets_not_shown [OF system_start api0_ok this] show ?thesis by (simp only: setting_meta.select_convs)
qed

definition read_back0 :: obj where
  "read_back0 = [(''settings'', JObj [(''api_key'', MASK), (''api_rate_limit_per_minute'', JInt 2)])]"

theorem settings_read_write_witness: "setting_values (snd (patch_settings env0 api_world0 read_back0 api0)) = setting_values api0"
proof (rule settings_read_write [OF api0_ok])
  fix k v assume "(k, v) \<in> set (settings_body read_back0)"
  then have "(k, v) = (''api_key'', MASK) \<or> (k, v) = (''api_rate_limit_per_minute'', JInt 2)" by (auto simp: read_back0_def settings_body_def oget_def)
  moreover have "settings_public_view (list_settings api0) = [(''system'', map view_of (server_settings api0))]"
    by (simp add: settings_public_view_def list_settings_def order_by_def setting0_def group_of_def SETTINGS_SPEC_def spec_row_def dput_def)
  ultimately show "map_of SETTINGS_SPEC k \<noteq> None \<and> (\<exists>w \<in> shown (settings_public_view (list_settings api0)). vw_key w = k \<and> vw_value w = v)"
    by (auto simp: shown_def view_of_def setting0_def SETTINGS_SPEC_def spec_row_def)
qed

definition locked0 :: "((string \<times> setting_view list) list \<times> string list) http res \<times> api_state" where
  "locked0 = patch_settings env0 api_world0 [(''api_rate_limit_per_minute'', JStr ''many'')] api0"

theorem bad_limit_locks_api_witness:
  "api_call 9 (key0 ''k1'') (api_effect env0 (\<lambda>_. env0) api_world0 quota_op0) (snd locked0) = (Inl TypeError, snd locked0)"
proof -
  have "case fst locked0 of Inr (Inr _) \<Rightarrow> True | _ \<Rightarrow> False" by code_simp
  then obtain out where "fst locked0 = Inr (Inr out)" by (auto split: sum.splits)
  then have "patch_settings env0 api_world0 [(''api_rate_limit_per_minute'', JStr ''many'')] api0 = (Inr (Inr out), snd locked0)"
    unfolding locked0_def by (metis prod.collapse)
  then show ?thesis
    by (rule bad_limit_locks_api [OF api0_ok, of _ "''many''", rotated 2]) (simp_all add: settings_body_def oget_def api_world0_def)
qed

definition update0 :: user_create where
  "update0 = \<lparr>uc_id = ''u1'', uc_role = ''operator'', uc_groups = [''g''], uc_privileges = [], uc_allowed_agents = [], uc_aliases = [],
     uc_pin = None, uc_password = None\<rparr>"

theorem user_update_keeps_login_witness:
  "\<exists>u'. get_user ''u1'' (snd (create_user env0 update0 api0)) = Some u' \<and> oget u' ''role'' = JStr ''operator'' \<and> oget u' ''groups'' = jstrs [''g'']
     \<and> oget u' ''credential_hash'' = JStr ''hash'' \<and> oget u' ''active'' = JBool False"
proof -
  have u: "get_user (uc_id update0) api0 = Some [(''id'', JStr ''u1''), (''role'', JStr ''viewer''), (''credential_hash'', JStr ''hash''), (''active'', JBool False)]"
    by (simp add: get_user_def update0_def user_of_row_def omerge_def)
  have "create_user env0 update0 api0 = (Inr (Inr [(''id'', JStr ''u1'')]), snd (create_user env0 update0 api0))"
    by (simp add: create_user_def upsert_user_def security_event_def audit_events audit_insert_def http_ok_def update0_def)
  from user_update_keeps_login [OF u _ this] show ?thesis
    by (simp add: update0_def given_secret_def opt_truthy_def oget_def)
qed

end
