(* ===== verification/Chat_Spec.thy ===== *)
theory Chat_Spec
  imports Samples Operator_Chat
begin










section \<open>An agent in hybrid mode\<close>







end
