(* ===== verification/Providers.thy ===== *)
theory Providers
  imports Llm_Gateway Codec
begin

text \<open>
  The two provider adapters of \<^verbatim>\<open>llm/providers/\<close>: the deterministic stub and the client of an OpenAI-compatible
  server.  What that server answers is the record \<open>provider_net\<close>: the outcome of a request, and for a stream the
  lines that arrive and whether an error follows them.  An adapter's stream is the chunks it yields and whether it
  ends with an exception.
\<close>

section \<open>The stub\<close>

definition used_types :: "obj list \<Rightarrow> string list" where
  "used_types entries = map (\<lambda>d. py_str (oget d ''type'')) (filter (\<lambda>d. truthy (oget d ''type'')) entries)"

text \<open>\<^verbatim>\<open>str(m.get("content", ""))\<close>\<close>

definition content_text :: "obj \<Rightarrow> string" where
  "content_text d = (case map_of d ''content'' of None \<Rightarrow> [] | Some v \<Rightarrow> py_str v)"

definition role_is :: "string \<Rightarrow> obj \<Rightarrow> bool" where
  "role_is r d \<longleftrightarrow> py_str (oget d ''role'') = r"

definition text_completion :: "string \<Rightarrow> int \<Rightarrow> int \<Rightarrow> provider_completion" where
  "text_completion t prompt completed =
     \<lparr>cm_content = Some t, cm_tool_calls = [], cm_usage = [(''prompt_tokens'', prompt), (''completion_tokens'', completed)],
      cm_finish_reason = Some ''stop'', cm_provider_tools_used = None\<rparr>"

definition hosted_completion :: "obj list \<Rightarrow> provider_completion" where
  "hosted_completion entries =
     (let t = ''Stub provider-hosted tool result'' in
      (text_completion t 1 (int (length t)))\<lparr>cm_provider_tools_used := Some (used_types entries)\<rparr>)"

definition stub_args :: "string \<Rightarrow> obj" where
  "stub_args tool_name =
     (if tool_name = ''echo'' then [(''text'', JStr ''Hello from tool gateway'')]
      else if tool_name = ''terminal'' then [(''argv'', jstrs [''echo'', ''agentvm terminal ok''])]
      else [])"

text \<open>An entry whose \<^verbatim>\<open>function\<close> is neither falsy nor a dictionary raises.\<close>

definition stub_tool_call :: "nat \<Rightarrow> obj \<Rightarrow> obj res" where
  "stub_tool_call index entry =
     (case py_or (oget entry ''function'') (JObj []) of
        JObj fn \<Rightarrow>
          let tool_name = (case map_of fn ''name'' of None \<Rightarrow> ''echo'' | Some v \<Rightarrow> py_str v) in
          Inr [(''id'', JStr (''call_stub_'' @ int_str (int index + 1))), (''type'', JStr ''function''),
               (''function'', JObj [(''name'', JStr tool_name), (''arguments'', JStr (json_dumps '', '' '': '' (JObj (stub_args tool_name))))])]
      | _ \<Rightarrow> Inl AttributeError)"

definition build_tool_calls :: "obj list \<Rightarrow> obj list res" where
  "build_tool_calls tools_schema = mapE (\<lambda>(index, entry). stub_tool_call index entry) (enumerate 0 tools_schema)"

definition last_user :: "obj list \<Rightarrow> string" where
  "last_user messages = (case List.find (role_is ''user'') (rev messages) of None \<Rightarrow> [] | Some m \<Rightarrow> content_text m)"

definition prompt_length :: "obj list \<Rightarrow> int" where
  "prompt_length messages = sum_list (map (\<lambda>m. int (length (content_text m))) messages)"

definition plain_text :: "llm_request \<Rightarrow> bool \<Rightarrow> string \<times> int" where
  "plain_text request stream_prefix =
     (let u = last_user (lq_messages request) in
      (if u \<noteq> [] then (if stream_prefix then ''Stub LLM stream: '' else ''Stub LLM response: '') @ u
       else if stream_prefix then ''Stub LLM stream for turn.'' else ''Stub LLM response for turn.'',
       prompt_length (lq_messages request)))"

definition tool_messages :: "llm_request \<Rightarrow> obj list" where
  "tool_messages request = filter (role_is ''tool'') (lq_messages request)"

definition after_tools :: "llm_request \<Rightarrow> string" where
  "after_tools request = join ''; '' (map content_text (tool_messages request))"

definition tools_completion :: "obj list \<Rightarrow> provider_completion" where
  "tools_completion calls =
     \<lparr>cm_content = Some [], cm_tool_calls = calls, cm_usage = [(''prompt_tokens'', 1), (''completion_tokens'', int (length calls))],
      cm_finish_reason = Some ''tool_calls'', cm_provider_tools_used = None\<rparr>"

definition stub_complete :: "llm_request \<Rightarrow> obj list \<Rightarrow> provider_outcome" where
  "stub_complete request entries =
     (if entries \<noteq> [] then Completed (hosted_completion entries)
      else if tool_messages request \<noteq> [] then
        let combined = after_tools request; t = ''Stub LLM after tools: '' @ combined in
        Completed (text_completion t (max (int (length combined)) 1) (int (length t)))
      else
        let tools_schema = normalize_tools_schema (schema_json (lq_tools_schema request)) in
        if tools_schema \<noteq> [] then (case build_tool_calls tools_schema of Inl x \<Rightarrow> Raised x | Inr calls \<Rightarrow> Completed (tools_completion calls))
        else
          let (t, prompt_tokens) = plain_text request False in
          Completed (text_completion t (max prompt_tokens 1) (max (int (length t)) 1)))"

definition text_chunk :: "nat \<Rightarrow> string \<Rightarrow> stream_chunk" where
  "text_chunk index delta = \<lparr>sc_index = int index, sc_delta = delta, sc_is_terminal = False, sc_completion = None\<rparr>"

definition end_chunk :: "nat \<Rightarrow> provider_completion \<Rightarrow> stream_chunk" where
  "end_chunk index c = \<lparr>sc_index = int index, sc_delta = [], sc_is_terminal = True, sc_completion = Some c\<rparr>"

definition text_chunks :: "string list \<Rightarrow> stream_chunk list" where
  "text_chunks ds = map (\<lambda>(i, d). text_chunk i d) (enumerate 0 ds)"

fun slices :: "nat \<Rightarrow> string \<Rightarrow> string list" where
  "slices n [] = []"
| "slices n (c # cs) = (c # take n cs) # slices n (drop n cs)"

text \<open>The slices have eight characters.\<close>

definition stub_stream :: "llm_request \<Rightarrow> obj list \<Rightarrow> stream_chunk list \<times> bool" where
  "stub_stream request entries =
     (let tools_schema = normalize_tools_schema (schema_json (lq_tools_schema request)) in
      if entries \<noteq> [] then ([end_chunk 0 (hosted_completion entries)], False)
      else if tools_schema \<noteq> [] \<and> tool_messages request = [] then
        (case build_tool_calls tools_schema of Inl _ \<Rightarrow> ([], True) | Inr calls \<Rightarrow> ([end_chunk 0 (tools_completion calls)], False))
      else
        let (t, prompt_tokens) =
              (if tool_messages request \<noteq> [] then (''Stub LLM after tools: '' @ after_tools request, max (int (length (after_tools request))) 1)
               else plain_text request True);
            ds = slices 7 t
        in (text_chunks ds
              @ [end_chunk (length ds) (text_completion t (max prompt_tokens 1) (max (int (length t)) 1))], False))"

section \<open>The client of an OpenAI-compatible server\<close>

text \<open>The answer to a request: the text of a successful one, the status of another, or the text of a transport error.\<close>

datatype net_answer = Answered string | AnsweredStatus int | NetError string

record provider_net =
  pn_post :: "string \<Rightarrow> obj \<Rightarrow> obj \<Rightarrow> net_answer"
  pn_lines :: "string \<Rightarrow> obj \<Rightarrow> obj \<Rightarrow> string list \<times> bool"
  pn_float_text :: "real \<Rightarrow> string"
  pn_float_repr :: "string \<Rightarrow> string"

definition request_headers :: "string option \<Rightarrow> obj" where
  "request_headers api_key = (''Content-Type'', JStr ''application/json'')
     # (if opt_truthy api_key then [(''Authorization'', JStr (''Bearer '' @ the api_key))] else [])"

definition build_body :: "provider_net \<Rightarrow> llm_request \<Rightarrow> obj list \<Rightarrow> bool \<Rightarrow> obj" where
  "build_body net request entries stream =
     (let tools = (case lq_tools_schema request of None \<Rightarrow> [] | Some ts \<Rightarrow> ts) @ entries in
      [(''model'', JStr (lq_model request)), (''messages'', JArr (map JObj (lq_messages request)))]
      @ (case lq_max_tokens request of None \<Rightarrow> [] | Some n \<Rightarrow> [(''max_tokens'', JInt n)])
      @ (case lq_temperature request of None \<Rightarrow> [] | Some r \<Rightarrow> [(''temperature'', JFloat r (pn_float_text net r))])
      @ (if stream then [(''stream'', JBool True)] else [])
      @ (if tools \<noteq> [] then [(''tools'', JArr (map JObj tools))] else []))"

definition completions_url :: "string \<Rightarrow> string" where
  "completions_url base = rev (dropWhile (\<lambda>c. c = CHR ''/'') (rev base)) @ ''/chat/completions''"

text \<open>\<^verbatim>\<open>v or {}\<close> and \<^verbatim>\<open>v or []\<close> where the fields or items are read next.\<close>

definition as_dict :: "json \<Rightarrow> obj res" where
  "as_dict v = (case py_or v (JObj []) of JObj d \<Rightarrow> Inr d | _ \<Rightarrow> Inl AttributeError)"

definition as_items :: "json \<Rightarrow> json list res" where
  "as_items v = (case py_or v (JArr []) of JArr xs \<Rightarrow> Inr xs | JInt _ \<Rightarrow> Inl TypeError | JFloat _ _ \<Rightarrow> Inl TypeError | JBool _ \<Rightarrow> Inl TypeError
     | _ \<Rightarrow> Inl AttributeError)"

definition usage_of :: "obj \<Rightarrow> (string \<times> int) list res" where
  "usage_of u = bindE (py_int (oget_or u ''prompt_tokens'' (JInt 0))) (\<lambda>p.
     bindE (py_int (oget_or u ''completion_tokens'' (JInt 0))) (\<lambda>c. Inr [(''prompt_tokens'', p), (''completion_tokens'', c)]))"

definition hosted_used :: "obj list \<Rightarrow> string list option" where
  "hosted_used entries = (if used_types entries = [] then None else Some (used_types entries))"

subsection \<open>Streams\<close>

record tool_delta =
  td_id :: "string option"
  td_type :: string
  td_name :: string
  td_arguments :: string

record stream_acc =
  ac_parts :: "string list"
  ac_usage :: "(string \<times> int) list"
  ac_finish :: "string option"
  ac_calls :: "(int \<times> tool_delta) list"

definition empty_delta :: tool_delta where
  "empty_delta = \<lparr>td_id = None, td_type = ''function'', td_name = [], td_arguments = []\<rparr>"

definition set_text :: "json \<Rightarrow> string \<Rightarrow> string" where
  "set_text v old = (if truthy v then py_str v else old)"

definition merge_delta :: "obj \<Rightarrow> obj \<Rightarrow> tool_delta \<Rightarrow> tool_delta" where
  "merge_delta delta fn t =
     t\<lparr>td_id := (if truthy (oget delta ''id'') then Some (py_str (oget delta ''id'')) else td_id t),
       td_type := set_text (oget delta ''type'') (td_type t),
       td_name := td_name t @ set_text (oget fn ''name'') [],
       td_arguments := td_arguments t @ set_text (oget fn ''arguments'') []\<rparr>"

text \<open>Where a later field is no dictionary, identifier and type have been set before the exception; they are lost with it.\<close>

definition merge_tool_call_delta :: "(int \<times> tool_delta) list \<Rightarrow> json \<Rightarrow> (int \<times> tool_delta) list res" where
  "merge_tool_call_delta calls tc =
     (case tc of
        JObj delta \<Rightarrow>
          bindE (py_int (oget_or delta ''index'' (JInt 0))) (\<lambda>idx.
          bindE (as_dict (oget delta ''function'')) (\<lambda>fn.
            let old = (case map_of calls idx of None \<Rightarrow> empty_delta | Some t \<Rightarrow> t) in
            Inr ((idx, merge_delta delta fn old) # filter (\<lambda>(i, _). i \<noteq> idx) calls)))
      | _ \<Rightarrow> Inl AttributeError)"

fun merge_all :: "(int \<times> tool_delta) list \<Rightarrow> json list \<Rightarrow> (int \<times> tool_delta) list res" where
  "merge_all calls [] = Inr calls"
| "merge_all calls (tc # tcs) = bindE (merge_tool_call_delta calls tc) (\<lambda>calls'. merge_all calls' tcs)"

text \<open>One choice of a payload.  The text it adds has been yielded when a later part of it raises, which is why the
  texts are kept beside the result.\<close>

definition read_choice :: "stream_acc \<Rightarrow> json \<Rightarrow> stream_acc \<times> bool" where
  "read_choice a choice =
     (case choice of
        JObj ch \<Rightarrow>
          let a1 = (if truthy (oget ch ''finish_reason'') then a\<lparr>ac_finish := Some (py_str (oget ch ''finish_reason''))\<rparr> else a) in
          (case as_dict (oget ch ''delta'') of
             Inl _ \<Rightarrow> (a1, True)
           | Inr delta \<Rightarrow>
               let a2 = (if truthy (oget delta ''content'') then a1\<lparr>ac_parts := ac_parts a1 @ [py_str (oget delta ''content'')]\<rparr> else a1) in
               (case bindE (as_items (oget delta ''tool_calls'')) (merge_all (ac_calls a2)) of
                  Inl _ \<Rightarrow> (a2, True) | Inr calls \<Rightarrow> (a2\<lparr>ac_calls := calls\<rparr>, False)))
      | _ \<Rightarrow> (a, True))"

fun read_choices :: "stream_acc \<Rightarrow> json list \<Rightarrow> stream_acc \<times> bool" where
  "read_choices a [] = (a, False)"
| "read_choices a (c # cs) = (case read_choice a c of (a', failed) \<Rightarrow> if failed then (a', True) else read_choices a' cs)"

definition read_payload :: "stream_acc \<Rightarrow> json \<Rightarrow> stream_acc \<times> bool" where
  "read_payload a payload =
     (case payload of
        JObj p \<Rightarrow>
          (case (case oget p ''usage'' of JObj u \<Rightarrow> usage_of u | _ \<Rightarrow> Inr (ac_usage a)) of
             Inl _ \<Rightarrow> (a, True)
           | Inr u \<Rightarrow>
               (case as_items (oget p ''choices'') of
                  Inl _ \<Rightarrow> (a\<lparr>ac_usage := u\<rparr>, True) | Inr cs \<Rightarrow> read_choices (a\<lparr>ac_usage := u\<rparr>) cs))
      | _ \<Rightarrow> (a, True))"

text \<open>The lines up to the end mark, and whether reading failed; an error after the last line counts only when no end
  mark came.\<close>

fun read_lines :: "(string \<Rightarrow> string) \<Rightarrow> bool \<Rightarrow> stream_acc \<Rightarrow> string list \<Rightarrow> stream_acc \<times> bool" where
  "read_lines fr broken a [] = (a, broken)"
| "read_lines fr broken a (line # ls) =
     (if \<not> prefix ''data: '' line then read_lines fr broken a ls
      else
        let data = strip (drop 6 line) in
        if data = ''[DONE]'' then (a, False)
        else (case json_loads fr data of
                None \<Rightarrow> read_lines fr broken a ls
              | Some payload \<Rightarrow> (case read_payload a payload of (a', failed) \<Rightarrow> if failed then (a', True) else read_lines fr broken a' ls)))"

definition call_obj :: "tool_delta \<Rightarrow> obj" where
  "call_obj t = [(''id'', jopt (td_id t)), (''type'', JStr (td_type t)),
     (''function'', JObj [(''name'', JStr (td_name t)), (''arguments'', JStr (td_arguments t))])]"

definition stream_usage :: "llm_request \<Rightarrow> stream_acc \<Rightarrow> (string \<times> int) list" where
  "stream_usage request a =
     (if usage_get (ac_usage a) ''prompt_tokens'' = 0 \<and> usage_get (ac_usage a) ''completion_tokens'' = 0
      then [(''prompt_tokens'', max (prompt_length (lq_messages request)) 1), (''completion_tokens'', max (int (length (concat (ac_parts a)))) 1)]
      else ac_usage a)"

definition stream_end :: "llm_request \<Rightarrow> obj list \<Rightarrow> stream_acc \<Rightarrow> provider_completion" where
  "stream_end request entries a =
     (let calls = map (call_obj \<circ> snd) (sort_key fst (ac_calls a)); full = concat (ac_parts a) in
      \<lparr>cm_content = (if full \<noteq> [] then Some full else if calls \<noteq> [] then Some [] else None), cm_tool_calls = calls,
       cm_usage = stream_usage request a,
       cm_finish_reason = Some (if opt_truthy (ac_finish a) then the (ac_finish a) else if calls \<noteq> [] then ''tool_calls'' else ''stop''),
       cm_provider_tools_used = hosted_used entries\<rparr>)"

definition openai_stream :: "provider_net \<Rightarrow> llm_prepared \<Rightarrow> obj list \<Rightarrow> stream_chunk list \<times> bool" where
  "openai_stream net p entries =
     (let request = lp_upstream_payload p in
      if prefix ''stub://'' (lp_api_base_url p) then ([], True)
      else
        let (ls, broken) = pn_lines net (completions_url (lp_api_base_url p)) (build_body net request entries True) (request_headers (lp_api_key p));
            (a, failed) = read_lines (pn_float_repr net) broken
              \<lparr>ac_parts = [], ac_usage = [(''prompt_tokens'', 0), (''completion_tokens'', 0)], ac_finish = None, ac_calls = []\<rparr> ls
        in if failed then (text_chunks (ac_parts a), True)
           else (text_chunks (ac_parts a) @ [end_chunk (length (ac_parts a)) (stream_end request entries a)], False))"

subsection \<open>Completions\<close>

text \<open>\<^verbatim>\<open>(payload.get("choices") or [{}])[0]\<close>\<close>

definition first_choice :: "json \<Rightarrow> obj res" where
  "first_choice v =
     (if \<not> truthy v then Inr []
      else case v of
        JArr xs \<Rightarrow> (case hd xs of JObj d \<Rightarrow> Inr d | _ \<Rightarrow> Inl AttributeError)
      | JStr _ \<Rightarrow> Inl AttributeError
      | JObj _ \<Rightarrow> Inl KeyError
      | _ \<Rightarrow> Inl TypeError)"

text \<open>\<^verbatim>\<open>list(tool_calls)\<close>\<close>

definition listed_calls :: "json \<Rightarrow> json list res" where
  "listed_calls v =
     (case py_or v (JArr []) of
        JArr xs \<Rightarrow> Inr xs | JStr t \<Rightarrow> Inr (map (\<lambda>c. JStr [c]) t) | JObj d \<Rightarrow> Inr (map (JStr \<circ> fst) d) | _ \<Rightarrow> Inl TypeError)"

text \<open>Tool calls that are no dictionaries and a finish reason that is no text are refused by the model of the result; here
  they already end the parsing.\<close>

definition checked_calls :: "json list \<Rightarrow> obj list res" where
  "checked_calls xs = (if length (dict_items xs) = length xs then Inr (dict_items xs) else Inl ValidationError)"

definition reason_text :: "json \<Rightarrow> string option res" where
  "reason_text v = (case v of JNull \<Rightarrow> Inr None | JStr t \<Rightarrow> Inr (Some t) | _ \<Rightarrow> Inl ValidationError)"

definition parse_completion :: "json \<Rightarrow> obj list \<Rightarrow> provider_completion res" where
  "parse_completion payload entries =
     (case payload of
        JObj p \<Rightarrow>
          bindE (first_choice (oget p ''choices'')) (\<lambda>choice.
          bindE (as_dict (oget choice ''message'')) (\<lambda>message.
          bindE (listed_calls (oget message ''tool_calls'')) (\<lambda>listed.
          bindE (bindE (as_dict (oget p ''usage'')) usage_of) (\<lambda>u.
          bindE (checked_calls listed) (\<lambda>calls.
          bindE (reason_text (oget choice ''finish_reason'')) (\<lambda>finish.
            Inr \<lparr>cm_content = (case oget message ''content'' of JNull \<Rightarrow> if calls \<noteq> [] then Some [] else None | v \<Rightarrow> Some (py_str v)),
                 cm_tool_calls = calls, cm_usage = u, cm_finish_reason = finish, cm_provider_tools_used = hosted_used entries\<rparr>))))))
      | _ \<Rightarrow> Inl AttributeError)"

definition openai_complete :: "provider_net \<Rightarrow> llm_prepared \<Rightarrow> obj list \<Rightarrow> provider_outcome" where
  "openai_complete net p entries =
     (let request = lp_upstream_payload p in
      if prefix ''stub://'' (lp_api_base_url p) then Raised ValueError
      else case pn_post net (completions_url (lp_api_base_url p)) (build_body net request entries False) (request_headers (lp_api_key p)) of
             AnsweredStatus n \<Rightarrow> HttpStatusError n
           | NetError t \<Rightarrow> HttpError t
           | Answered body \<Rightarrow>
               (case json_loads (pn_float_repr net) body of
                  None \<Rightarrow> Raised ValueError
                | Some payload \<Rightarrow> (case parse_completion payload entries of Inl x \<Rightarrow> Raised x | Inr c \<Rightarrow> Completed c)))"

section \<open>The adapters in the gateway\<close>

definition adapter_complete :: "provider_net \<Rightarrow> llm_prepared \<Rightarrow> obj list \<Rightarrow> provider_outcome" where
  "adapter_complete net p entries =
     (case lp_adapter p of StubAdapter \<Rightarrow> stub_complete (lp_upstream_payload p) entries | OpenAiCompatAdapter \<Rightarrow> openai_complete net p entries)"

definition adapter_stream :: "provider_net \<Rightarrow> llm_prepared \<Rightarrow> obj list \<Rightarrow> stream_chunk list \<times> bool" where
  "adapter_stream net p entries =
     (case lp_adapter p of StubAdapter \<Rightarrow> stub_stream (lp_upstream_payload p) entries | OpenAiCompatAdapter \<Rightarrow> openai_stream net p entries)"

definition with_adapters :: "provider_net \<Rightarrow> llm_service \<Rightarrow> llm_service" where
  "with_adapters net svc = svc\<lparr>ls_complete := adapter_complete net, ls_stream := adapter_stream net\<rparr>"

section \<open>What a stream yields\<close>

lemma enumerate_text: "map sc_delta (text_chunks ds) = ds" "list_all (\<lambda>c. \<not> sc_is_terminal c) (text_chunks ds)"
  "map sc_index (text_chunks ds) = map int [0..<length ds]" "length (text_chunks ds) = length ds"
  by (auto simp: text_chunks_def text_chunk_def list_all_iff enumerate_eq_zip o_def case_prod_unfold intro!: nth_equalityI)

lemma concat_slices: "concat (slices n t) = t"
  by (induction n t rule: slices.induct) auto

text \<open>The text an agent sees and the completion it is told in the end.\<close>

definition streams_text :: "stream_chunk list \<Rightarrow> provider_completion \<Rightarrow> bool" where
  "streams_text chunks c \<longleftrightarrow> (\<exists>ds. chunks = text_chunks ds @ [end_chunk (length ds) c]
     \<and> concat ds = (case cm_content c of None \<Rightarrow> [] | Some t \<Rightarrow> t))"

lemma stub_streams_text:
  assumes "stub_stream request [] = (chunks, False)"
  shows "\<exists>c. streams_text chunks c"
proof -
  have plain: "\<exists>c. streams_text (text_chunks (slices 7 t) @ [end_chunk (length (slices 7 t)) (text_completion t n k)]) c" for t n k
    using concat_slices [of 7 t] unfolding streams_text_def
    by (intro exI [of _ "text_completion t n k"] exI [of _ "slices 7 t"]) (auto simp: text_completion_def)
  have calls: "\<exists>c. streams_text [end_chunk 0 (tools_completion cs)] c" for cs
    unfolding streams_text_def by (intro exI [of _ "tools_completion cs"] exI [of _ "[]"]) (simp add: tools_completion_def text_chunks_def)
  show ?thesis using assms plain calls
    by (auto simp: stub_stream_def Let_def simp del: slices.simps split: if_splits sum.splits prod.splits)
qed

lemma openai_streams_text:
  assumes "openai_stream net p entries = (chunks, False)"
  shows "\<exists>c. streams_text chunks c"
proof -
  from assms obtain a where chunks: "chunks = text_chunks (ac_parts a) @ [end_chunk (length (ac_parts a)) (stream_end (lp_upstream_payload p) entries a)]"
    by (auto simp: openai_stream_def Let_def split: if_splits prod.splits)
  then show ?thesis unfolding streams_text_def
    by (intro exI [of _ "stream_end (lp_upstream_payload p) entries a"] exI [of _ "ac_parts a"]) (simp add: stream_end_def Let_def)
qed

lemma adapter_streams_text:
  assumes "adapter_stream net p entries = (chunks, False)" and "lp_adapter p = StubAdapter \<Longrightarrow> entries = []"
  shows "\<exists>c. streams_text chunks c"
  using assms stub_streams_text openai_streams_text by (cases "lp_adapter p") (auto simp: adapter_stream_def)

end
