(* ===== verification/Provider_Spec.thy ===== *)
theory Provider_Spec
  imports Service_Spec Providers
begin

text \<open>
  The property of the adapters in the server: what an agent reads of a stream is what it is told in the end.
\<close>

definition shown_delta :: "framework_message \<Rightarrow> string" where
  "shown_delta m = py_str (oget (msg_payload m) ''delta'')"

definition answer_text :: "llm_result \<Rightarrow> string" where
  "answer_text r = (case lr_content r of None \<Rightarrow> [] | Some t \<Rightarrow> t)"

lemma last_completion_text: "last_completion cm (text_chunks ds @ cs) = last_completion cm cs"
proof -
  have "last_completion cm (xs @ cs) = last_completion cm cs" if "list_all (\<lambda>c. \<not> sc_is_terminal c) xs" for xs
    using that by (induction xs) auto
  with enumerate_text(2) show ?thesis by blast
qed

lemma visible_text:
  assumes "streams_text chunks k"
  shows "last_completion None chunks = Some k"
    and "concat (map shown_delta (map (chunk_message e m) (visible_chunks chunks))) = (case cm_content k of None \<Rightarrow> [] | Some t \<Rightarrow> t)"
proof -
  from assms obtain ds where ds: "chunks = text_chunks ds @ [end_chunk (length ds) k]"
    and full: "concat ds = (case cm_content k of None \<Rightarrow> [] | Some t \<Rightarrow> t)" by (auto simp: streams_text_def)
  show "last_completion None chunks = Some k" by (simp add: ds last_completion_text end_chunk_def)
  have delta: "shown_delta (chunk_message e m c) = sc_delta c" for c
    by (simp add: shown_delta_def chunk_message_def llm_stream_chunk_def server_reply_def new_message_def oget_def with_original_type_def)
  have "concat (map sc_delta (filter (\<lambda>c. \<not> sc_is_terminal c \<and> sc_delta c \<noteq> []) xs)) = concat (map sc_delta xs)"
    if "list_all (\<lambda>c. \<not> sc_is_terminal c) xs" for xs
    using that by (induction xs) auto
  from this [OF enumerate_text(2) [of ds]] enumerate_text(1) [of ds] full
  show "concat (map shown_delta (map (chunk_message e m) (visible_chunks chunks))) = (case cm_content k of None \<Rightarrow> [] | Some t \<Rightarrow> t)"
    by (simp add: ds visible_chunks_def end_chunk_def delta o_def)
qed

text \<open>C12: The streamed text is the answer.  With the two adapters of the source in place, and while the agent's connection
  accepts writes, a stream that the provider does not break off is delivered as messages whose texts, put together
  in the order of their arrival, are the content of the successful final response.  The stub leaves out the text
  only where hosted tools are passed to it.\<close>

theorem streamed_text_is_answer:
  assumes "link (st_message t) s = Some (c, w)" and "open_writer w" and "sv_llm sv = with_adapters net svc"
    and "adapter_stream net (st_prepared t) (build_provider_tool_entries (lp_provider_tool_names (st_prepared t))) = (chunks, False)"
    and "lp_adapter (st_prepared t) = StubAdapter \<Longrightarrow> lp_provider_tool_names (st_prepared t) = []"
  shows "\<exists>s' ms r. run_llm_stream e sv t s = (Inr (), s')
     \<and> link (st_message t) s' = Some (c, w\<lparr>wr_sent := wr_sent w @ ms @ [llm_response e (st_message t) (llm_payload r)]\<rparr>)
     \<and> lr_success r \<and> concat (map shown_delta ms) = answer_text r"
proof -
  have "ls_stream (sv_llm sv) (st_prepared t) (build_provider_tool_entries (lp_provider_tool_names (st_prepared t))) = (chunks, False)"
    using assms(3,4) by (simp add: with_adapters_def)
  note sent = run_stream_sends [OF assms(1,2) this, of e]
  have "build_provider_tool_entries [] = []" by (simp add: build_provider_tool_entries_def)
  with adapter_streams_text [OF assms(4)] assms(5) obtain k where k: "streams_text chunks k" by auto
  from sent obtain s' payload where run: "run_llm_stream e sv t s = (Inr (), s')"
    and l: "link (st_message t) s' = Some (c, w\<lparr>wr_sent := wr_sent w @ map (chunk_message e (st_message t)) (visible_chunks chunks)
        @ [llm_response e (st_message t) payload]\<rparr>)"
    and p: "\<forall>k. last_completion None chunks = Some k \<longrightarrow> (\<exists>r. payload = llm_payload r \<and> lr_success r \<and> lr_content r = cm_content k)" by auto
  from p visible_text(1) [OF k] obtain r where r: "payload = llm_payload r" "lr_success r" "lr_content r = cm_content k" by blast
  have "concat (map shown_delta (map (chunk_message e (st_message t)) (visible_chunks chunks))) = answer_text r"
    unfolding answer_text_def r(3) by (rule visible_text(2) [OF k])
  with run l r(1,2) show ?thesis by blast
qed

definition net0 :: provider_net where
  "net0 = \<lparr>pn_post = (\<lambda>_ _ _. AnsweredStatus 503), pn_lines = (\<lambda>_ _ _. ([], True)), pn_float_text = (\<lambda>_. ''1.0''), pn_float_repr = (\<lambda>t. t)\<rparr>"

theorem streamed_text_is_answer_witness:
  "\<exists>s' ms r. run_llm_stream env0 (services0\<lparr>sv_llm := with_adapters net0 llm0\<rparr>) task0 (server0 []) = (Inr (), s')
     \<and> link llm_message0 s' = Some (1, writer0\<lparr>wr_sent := ms @ [llm_response env0 llm_message0 (llm_payload r)]\<rparr>)
     \<and> lr_success r \<and> concat (map shown_delta ms) = answer_text r"
proof -
  have "link (st_message task0) (server0 []) = Some (1, writer0)"
    by (simp add: link_def agent_writer_def task0_def llm_message0_def message0_def server0_def db.defs)
  moreover have "open_writer writer0" by (simp add: open_writer_def writer0_def)
  moreover obtain chunks where
    "adapter_stream net0 (st_prepared task0) (build_provider_tool_entries (lp_provider_tool_names (st_prepared task0))) = (chunks, False)"
    by (simp add: adapter_stream_def task0_def build_provider_tool_entries_def stub_stream_def Let_def tool_messages_def schema_json_def
        plain_text_def last_user_def)
  ultimately show ?thesis
    using streamed_text_is_answer [of task0 "server0 []" 1 writer0 "services0\<lparr>sv_llm := with_adapters net0 llm0\<rparr>" net0 llm0 chunks env0]
    by (simp add: task0_def writer0_def)
qed

end
