(* ===== verification/Spec2Isabelle.thy ===== *)
theory Spec2Isabelle
  imports Node_Spec Service_Spec Runtime_Spec Host_Spec Management_Spec Chat_Spec Skill_Spec Provider_Spec
begin

text \<open>
  Corvus Hypervisor: a verification development.

  \<^bold>\<open>The program.\<close>  Corvus runs LLM agents in virtual machines and mediates everything they do.  Inside a VM
  four engines (tools, gateway, inference, memory) and a loop are processes that share a coordinator file;
  they talk to a node daemon over a local socket.  The node forces its own identity on every message, checks
  and rate-limits it and forwards it over one connection to the server.  The server checks the session,
  gathers facts, decides by the stored rules and only then dispatches to its services: memory, LLM gateway,
  tool approval, elevations, offline queue.  The host launches the VMs from the manifests of the agents.  A
  management API behind a key and a rate limit changes rules, catalog, agents, users, grants and settings,
  launches and stops VMs, installs skill packages, approves elevations and lets an operator chat.

  \<^bold>\<open>Theories and sources\<close> (paths below \<^verbatim>\<open>src/src/corvus/\<close>).
  \<^item> \<open>Corvus_Prelude\<close>, \<open>Tables\<close>, \<open>Py_Values\<close>, \<open>Json_Text\<close>: results and state actions with the \<open>preserves\<close> calculus,
    keyed tables, Python values and dictionaries, \<^verbatim>\<open>json.dumps\<close> and \<^verbatim>\<open>json.loads\<close>.
  \<^item> \<open>Protocol\<close>, \<open>Codec\<close>: \<^verbatim>\<open>protocol/\<close>.  \<open>Policy_Models\<close>, \<open>Fnmatch\<close>, \<open>Rules\<close>, \<open>Combiner\<close>, \<open>Identity\<close>, \<open>Grants_Quota\<close>,
    \<open>Policy_Engine\<close>: \<^verbatim>\<open>policy/\<close>.
  \<^item> \<open>Database\<close>, \<open>Audit_Log\<close>, \<open>Sessions\<close>, \<open>Handshake\<close>, \<open>Catalog\<close>, \<open>Manifest\<close>, \<open>Router\<close>, \<open>Gateway\<close>: \<^verbatim>\<open>server/\<close> and \<^verbatim>\<open>audit/\<close>;
    \<open>Settings\<close>: \<^verbatim>\<open>server/settings_store.py\<close>.
  \<^item> \<open>Embeddings\<close>, \<open>Memory\<close>, \<open>Memory_Facts\<close>, \<open>Elevations\<close>: \<^verbatim>\<open>memory/\<close> and the two elevation endpoints of
    \<^verbatim>\<open>management/api.py\<close>.  \<open>Tools_Gateway\<close>, \<open>Llm_Gateway\<close>, \<open>Providers\<close>: \<^verbatim>\<open>tools/service.py\<close>, \<^verbatim>\<open>llm/\<close> and
    \<^verbatim>\<open>llm/providers/\<close>.
  \<^item> \<open>Host_Files\<close>, \<open>Vm_Registry\<close>, \<open>Vm_Launcher\<close>, \<open>Vm_Facts\<close>: the files of the host, \<^verbatim>\<open>vm/\<close> and \<^verbatim>\<open>skills/bake.py\<close>.
    \<open>Skill_Packages\<close>, \<open>Skill_Facts\<close>: \<^verbatim>\<open>skills/\<close>.
  \<^item> \<open>Rate_Window\<close>, \<open>Operator_Chat\<close>, \<open>Management_Api\<close>: \<^verbatim>\<open>management/rate_limit.py\<close>, \<^verbatim>\<open>chat.py\<close> and \<^verbatim>\<open>api.py\<close> with
    \<^verbatim>\<open>server/metrics.py\<close>; \<open>Management_Interface\<close>, \<open>Management_Facts\<close>: what the endpoints keep; \<open>Whole_Server\<close>: server and
    management API as one step relation.
  \<^item> \<open>Node_Validator\<close>, \<open>Node_Link\<close>, \<open>Node\<close>: \<^verbatim>\<open>node/\<close>.
  \<^item> \<open>Local_Tools\<close>: \<^verbatim>\<open>tools/\<close> and \<^verbatim>\<open>skills/runner.py\<close>.  \<open>Coordinator\<close>, \<open>Runtime_Clients\<close>, \<open>Runtime_World\<close>,
    \<open>Runtime_Engines\<close>: \<^verbatim>\<open>runtime/\<close>.
  \<^item> \<open>Routing_Invariant\<close>, \<open>Router_Facts\<close>, \<open>End_To_End\<close>, \<open>Runtime_Facts\<close>: lemmas about the compositions; \<open>Samples\<close>: the
    concrete inputs of the witnesses; \<open>Node_Spec\<close>, \<open>Service_Spec\<close>, \<open>Runtime_Spec\<close>, \<open>Host_Spec\<close>, \<open>Management_Spec\<close>,
    \<open>Chat_Spec\<close>, \<open>Skill_Spec\<close>, \<open>Provider_Spec\<close> and this theory: the properties.

  \<^bold>\<open>How code becomes definitions.\<close>  A dataclass is a record, an enumeration a datatype, a function or method a
  definition of the same name.  The database is a record of tables; a method that changes state is an action
  \<open>'s \<Rightarrow> (exc + 'a) \<times> 's\<close>, where \<open>Inl\<close> is the exception raised, and the state of a component extends the state
  of the components it uses (\<open>db\<close>, \<open>conn_state\<close>, \<open>server_state\<close>, \<open>gateway_state\<close>, \<open>api_state\<close>).  An HTTP error is a value of
  a handler.  Sockets carry text:
  messages are encoded, cut into lines and decoded.  The server and the node are step relations
  (\<open>server_step\<close>, the node's events) with reachable states; a runtime process is an action of its own
  \<open>world\<close>, in which the operations of the other processes take effect before each access of the coordinator.

  \<^bold>\<open>What is shown.\<close>  The policy section: an allow is justified by a rule, and the loop of the combiner computes
  the declared verdict.  The mediation section: no effect without a live session and an allow rule; the
  policy tables never change by routing; keys, turn depths and the append-only log are invariants of all reachable
  states.  The service properties: isolation of memory, limits, read-back, retention, approvals; the
  text of a stream is the answer.  The node
  properties: own identity, rate bound, FIFO queue, session until expiry.  The runtime properties: a tool runs
  only on approval, DONE only after delivery, the coordinator refines a slot for one batch, the model is asked at
  most eight times, the loop ends every turn.  The host properties: one active VM per agent, boot requests
  of the manifest.  The management properties, over all runs of server and API together: caches, copies and
  tables agree, the log only grows, changes are traced, no access without the key, bounded rates, secrets stay
  hidden.  The skill properties: an installation writes only to its stage and to the store, and the store holds
  what was asked for.  Some properties state boundary behaviours of the code as it is.

  \<^bold>\<open>Interfaces.\<close>  \<open>process_history\<close> (\<open>Runtime_Facts\<close>) is the contract between a process and a property of its
  history; it is interpreted for the operations a process may perform, for runs of tools and for the end of a turn.
  \<open>keyed_table\<close> is the contract of a table with a primary key, interpreted on every table of the database;
  \<open>rate_limiter\<close> that of a token bucket; \<open>routing_guard\<close>, \<open>memory_invariant\<close>, \<open>stream_invariant\<close> and their extension
  \<open>routing_invariant\<close> carry an invariant of the services through the router, and \<open>server_invariant\<close> through the steps
  of the server.  \<open>data_invariant\<close> and its extension \<open>management_invariant\<close> carry an invariant of the stores through every
  endpoint; they are interpreted for the keys of the tables, the audit log, its identifiers and its length, and
  \<open>data_invariant\<close> also for what caches and copies agree on.

  \<^bold>\<open>Bounds and fuel.\<close>  \<^verbatim>\<open>json.loads\<close> has the fuel \<open>json_fuel\<close>, twice the length of the text and more, and
  \<open>json_loads_fuel\<close> shows that more never changes the result.  The waiting loops end because the clock moves at each
  access; engine 3 has eight rounds.  Integers are unbounded as in Python; times are microseconds.

  \<^bold>\<open>Assumptions of the model.\<close>  One instant per operation; a handler runs without interruption; strings are
  sequences of 8-bit characters; floats are reals with their printed text, without infinities; a coordinator
  access takes at least a microsecond.  Parameters: ciphers and digests, nearest-neighbour search, provider
  calls, the rule-set digest, the texts of validation errors, identifiers and times
  of pydantic, the machine a tool runs on (\<open>vm_world\<close>), the processes and the Firecracker socket of the host
  (\<open>fc_world\<close>), network, archives and YAML of skill packages (\<open>package_world\<close>), the answers of a provider (\<open>provider_net\<close>).  Host paths are absolute, without links.

  \<^bold>\<open>Not modelled.\<close>  The supervisor and command lines (scheduling and signals), the browser of the public skill
  registry and its three endpoints (scraping of web pages), the management pages, start-up and logging, the test servers and the polling
  scripts of the host.
\<close>

section \<open>The policy decision point\<close>

text \<open>C1: Every allowed request is justified.  When the decision point allows, the sender's agent passed
  the allowed-agents precheck, some stored allow rule matches the facts with its conditions passed,
  and no deny rule of the same or a higher priority fires.\<close>

theorem allow_is_justified:
  assumes "decide rs f = Inr d" and "pd_decision d = Allow"
  shows "\<not> agent_not_allowed f \<and> (\<exists>r \<in> set rs. ru_effect r = Allow \<and> rule_fires r f
     \<and> (\<forall>r' \<in> set rs. ru_effect r' = Deny \<and> ru_priority r \<le> ru_priority r' \<longrightarrow> \<not> rule_fires r' f))"
  using assms by (rule decide_allow)

lemma decide_sample:
  "decide [rule0 ''r1'' 5 Allow] facts0 = Inr d \<Longrightarrow> pd_decision d = Allow"
  by (auto simp: decide_def rules_evaluate_def order_by_desc_def Let_def combine_def
      combine_groups_verdict priority_groups_def group_matches_def group_verdict_def passed_def)

theorem allow_is_justified_witness:
  "\<exists>d. decide [rule0 ''r1'' 5 Allow] facts0 = Inr d \<and> pd_decision d = Allow
     \<and> (\<exists>r \<in> set [rule0 ''r1'' 5 Allow]. ru_effect r = Allow \<and> rule_fires r facts0)"
proof -
  obtain d where d: "decide [rule0 ''r1'' 5 Allow] facts0 = Inr d"
    by (simp add: decide_def rules_evaluate_def order_by_desc_def Let_def)
  from allow_is_justified [OF d decide_sample [OF d]] d decide_sample [OF d] show ?thesis by blast
qed

text \<open>C2: The combiner computes the declared verdict.  Whatever order the matches come in, the loop over
  priority groups returns the verdict of the highest priority that decides: deny over allow over
  elevate inside a priority, and deny when no priority decides.\<close>

theorem combine_is_declared_verdict: "pd_decision (combine ms) = combine_verdict ms"
  by (rule combine_decision)

text \<open>The verdict does not depend on the order in which the rules are stored, nor on duplicates.\<close>

theorem decision_order_irrelevant:
  assumes "set rs = set rs'" and "decide rs f = Inr d" and "decide rs' f = Inr d'"
  shows "pd_decision d = pd_decision d'"
proof (cases "agent_not_allowed f")
  case True
  with assms show ?thesis by (simp add: decide_precheck)
next
  case False
  obtain ms where ms: "rules_evaluate rs f = Inr ms" "pd_decision d = combine_verdict ms"
    using decide_combine [OF assms(2) False] by blast
  obtain ms' where ms': "rules_evaluate rs' f = Inr ms'" "pd_decision d' = combine_verdict ms'"
    using decide_combine [OF assms(3) False] by blast
  have "set ms = set ms'" using assms(1) by (auto simp: rules_evaluate_set [OF ms(1)] rules_evaluate_set [OF ms'(1)])
  from combine_verdict_cong [OF this] ms ms' show ?thesis by simp
qed

theorem decision_order_irrelevant_witness:
  "\<exists>d d'. decide [rule0 ''r1'' 5 Allow, rule0 ''r2'' 7 Deny] facts0 = Inr d
     \<and> decide [rule0 ''r2'' 7 Deny, rule0 ''r1'' 5 Allow] facts0 = Inr d' \<and> pd_decision d = pd_decision d'"
proof -
  have set: "set [rule0 ''r1'' 5 Allow, rule0 ''r2'' 7 Deny] = set [rule0 ''r2'' 7 Deny, rule0 ''r1'' 5 Allow]" by auto
  obtain d d' where "decide [rule0 ''r1'' 5 Allow, rule0 ''r2'' 7 Deny] facts0 = Inr d"
    "decide [rule0 ''r2'' 7 Deny, rule0 ''r1'' 5 Allow] facts0 = Inr d'"
    by (simp add: decide_def rules_evaluate_def order_by_desc_def Let_def)
  with decision_order_irrelevant [OF set] show ?thesis by blast
qed

text \<open>Default deny.  When no stored rule matches the subject, object and action of the request, the
  decision is deny.\<close>

theorem no_rule_denies:
  assumes "decide rs f = Inr d" and "\<forall>r \<in> set rs. \<not> rule_applies r f"
  shows "pd_decision d = Deny"
proof (cases "agent_not_allowed f")
  case True
  with assms show ?thesis by (auto simp: decide_precheck precheck_denial_def)
next
  case False
  obtain ms where ms: "rules_evaluate rs f = Inr ms" "pd_decision d = combine_verdict ms"
    using decide_combine [OF assms(1) False] by blast
  have "set ms = {}" using assms(2) by (auto simp: rules_evaluate_set [OF ms(1)])
  with ms show ?thesis by (simp add: combine_verdict_def decisive_def)
qed

theorem no_rule_denies_witness: "\<exists>d. decide [] facts0 = Inr d \<and> pd_decision d = Deny"
proof -
  obtain d where d: "decide [] facts0 = Inr d"
    by (simp add: decide_def rules_evaluate_def order_by_desc_def Let_def)
  with no_rule_denies [OF d] show ?thesis by simp
qed

text \<open>The daily limits are not enforced on routed messages.  The facts gathered for a message that
  comes through the router, which passes no override context, never say that a quota would be
  exceeded: the limit is read from that context only.\<close>

theorem routed_quota_never_exceeded:
  assumes "gather e cfg w m v [] s = (Inr f, s')"
  shows "\<not> pf_quota_would_exceed f \<and> s' = s"
  using gather_routed_quota [OF assms] gather_routed [OF assms] by simp

theorem routed_quota_never_exceeded_witness:
  "\<exists>f s'. gather env0 cfg0 (wiring0\<lparr>has_behavioral := False\<rparr>) llm_message0 True [] (server0 []) = (Inr f, s')
     \<and> \<not> pf_quota_would_exceed f"
proof -
  have "\<not> isl (fst (gather env0 cfg0 (wiring0\<lparr>has_behavioral := False\<rparr>) llm_message0 True [] (server0 [])))"
    by code_simp
  then obtain f s' where g: "gather env0 cfg0 (wiring0\<lparr>has_behavioral := False\<rparr>) llm_message0 True [] (server0 []) = (Inr f, s')"
    by (cases "gather env0 cfg0 (wiring0\<lparr>has_behavioral := False\<rparr>) llm_message0 True [] (server0 [])")
       (auto simp: isl_def split: sum.splits; metis sum.exhaust)
  from routed_quota_never_exceeded [OF g] g show ?thesis by blast
qed

section \<open>The router\<close>



text \<open>C6: No message changes the policy.  Agents, rules, users, groups, grants, namespace quotas, catalog
  and settings are the same after any message as before it, whatever the router answers.\<close>

theorem routing_keeps_policy: "policy_tables (snd (router_handle e sv m c s)) = policy_tables s"
  using preservesD [OF tables.router_handle [OF refl], of s "policy_tables s" e sv m c] by simp

text \<open>C7: Without a session nothing happens.  A message that is not a handshake and has no live session of
  its own agent and VM is answered with \<^verbatim>\<open>SERVER_SESSION_INVALID\<close>, and the only trace is the hop in
  the audit log.\<close>

theorem no_session_no_effect:
  assumes "\<not> (msg_type m = ''handshake'' \<and> (msg_class m = SYSTEM \<or> msg_class m = RESPONSE))"
    and "\<nexists>row. session_for e m c s = Some row \<and> se_agent_id row = m_agent m \<and> se_vm_id row = m_vm m"
  shows "\<exists>r. router_handle e sv m c s = (Inr (Some r), snd (log_message_hop e m c s))
     \<and> error_code_of r = JStr ''SERVER_SESSION_INVALID'' \<and> msg_correlation_id r = msg_correlation_id m"
proof -
  obtain why where "session_error m (session_for e m c s) = Some why"
    using assms(2) session_error_None [of m e c s] by (cases "session_error m (session_for e m c s)") auto
  from router_no_session [OF assms(1) this] show ?thesis by (simp add: refuse_def)
qed

theorem no_session_no_effect_witness:
  "\<exists>r. router_handle env0 services0 llm_message0 9 (server0 [])
       = (Inr (Some r), snd (log_message_hop env0 llm_message0 9 (server0 [])))
     \<and> error_code_of r = JStr ''SERVER_SESSION_INVALID''"
proof -
  have "session_for env0 llm_message0 9 (server0 []) = None" by code_simp
  with no_session_no_effect [of llm_message0 env0 9 "server0 []" services0] show ?thesis
    by (auto simp: llm_message0_def message0_def)
qed

section \<open>The running server\<close>

text \<open>The audit log of a running server is append-only.  Along every interleaving of connections, lines,
  stream tasks and sweeps the rows already written stay in place, the new ones come after them with
  larger identifiers, and none of them carries a secret.\<close>

theorem audit_is_append_only:
  assumes "reachable sv s0 s" and "audit_ok (audit_log s0)"
  shows "log_extends (audit_log s0) (audit_log s) \<and> audit_ok (audit_log s)"
  using log_step.reachable_keeps [OF assms(1)] ids_step.reachable_keeps [OF assms(1)] assms(2) by simp

theorem audit_is_append_only_witness:
  "log_extends (audit_log (server0 [])) (audit_log (snd (open_client (server0 []))))
     \<and> audit_ok (audit_log (snd (open_client (server0 []))))"
  by (rule audit_is_append_only [OF server0_run]) simp

text \<open>Every reachable state has unique primary keys in every table: sessions, agents, rules, users,
  grants, records, embeddings, elevations, turns, queued replays and counters.\<close>

theorem reachable_keys_unique:
  assumes "reachable sv s0 s" and "db_ok s0"
  shows "db_ok s"
  using keys_step.reachable_keeps [OF assms] .

theorem reachable_keys_unique_witness: "db_ok (snd (open_client (server0 [])))"
  by (rule reachable_keys_unique [OF server0_run]) simp

text \<open>Connections stay separated.  In every reachable state a new client gets a number that no open
  connection, session binding or agent binding uses, so it starts without a session and receives
  nothing that is addressed to an agent.\<close>

theorem fresh_connection_unauthenticated:
  assumes "reachable sv s0 s" and "conns_ok s0" and "open_client s = (Inr c, s')"
  shows "\<not> connected s c \<and> connected s' c \<and> get_connection_token c s' = None \<and> c \<notin> snd ` set (agent_connections s')"
proof -
  have ok: "conns_ok s" using conns_step.reachable_keeps [OF assms(1,2)] .
  from assms(3) have c: "c = next_connection_id s" and s': "connected s' c"
    "connection_tokens s' = connection_tokens s" "agent_connections s' = agent_connections s"
    by (auto simp: open_client_eq connected_def)
  have "c \<notin> open_conns s" using ok by (auto simp: conns_ok_def c)
  with ok s' show ?thesis
    by (auto simp: conns_ok_def open_conns_def connected_def get_connection_token_def domIff subset_iff)
qed

theorem fresh_connection_unauthenticated_witness:
  "\<exists>c s'. open_client (server0 []) = (Inr c, s') \<and> connected s' c \<and> get_connection_token c s' = None"
  using fresh_connection_unauthenticated [OF reachable.start, of "server0 []"] by (auto simp: open_client_eq)

text \<open>The depth of every turn stays between zero and the configured maximum in every reachable state.\<close>

theorem reachable_turn_depths:
  assumes "reachable sv s0 s" and "0 \<le> cfg_max_chain_depth (sv_config sv)" and "turn_depths_ok (sv_config sv) s0"
  shows "turn_depths_ok (sv_config sv) s"
  using depths_step.reachable_keeps [OF assms(1)] assms(2,3) by blast

theorem reachable_turn_depths_witness: "turn_depths_ok (sv_config services0) (snd (open_client (server0 [])))"
  by (rule reachable_turn_depths [OF server0_run]) (simp_all add: cfg0_def [THEN arg_cong [of _ _ cfg_max_chain_depth]])

section \<open>Sessions and turns\<close>

text \<open>A session token is accepted exactly from its creation until its expiry: the token a handshake
  draws identifies its agent and VM at every instant before now plus the session lifetime, and
  nothing afterwards.\<close>

theorem session_valid_until_expiry:
  assumes "open_session e cfg a v s = (Inr (token, xp), s')" and "token \<noteq> []"
  shows "validate_token e' (Some token) s' =
     (if now e' < now e + hours (cfg_session_ttl_hours cfg)
      then Some \<lparr>se_token = token, se_agent_id = a, se_vm_id = v, se_expires_at = xp, se_created_at = now e\<rparr> else None)"
  using open_session_get [OF assms(1)] assms(2) by (auto simp: validate_token_def opt_truthy_def)

theorem session_valid_until_expiry_witness:
  "\<exists>token xp s'. open_session env0 cfg0 ''a1'' ''v1'' db0 = (Inr (token, xp), s')
     \<and> (\<exists>row. validate_token env0 (Some token) s' = Some row \<and> se_agent_id row = ''a1'')"
proof -
  obtain token xp s' where o: "open_session env0 cfg0 ''a1'' ''v1'' db0 = (Inr (token, xp), s')"
    by (auto simp: open_session_def create_session_def insert_row_def has_row_def db0_def Let_def)
  have "token \<noteq> []" using open_session_get(1) [OF o] by (simp add: env0_def)
  from session_valid_until_expiry [OF o this, of env0] o show ?thesis by (auto simp: env0_def cfg0_def)
qed

text \<open>C10: A turn pays for a bounded number of messages.  Of any sequence of messages of one turn that are
  neither user queries nor system messages, in any order and at any instants, the turn store accepts
  at most what is left of the chain depth.\<close>

theorem turn_budget_bounds_messages:
  assumes "db_ok s" and "\<And>e m. (e, m) \<in> set ms \<Longrightarrow> chained m \<and> origin_id m = r"
  shows "accepted cfg ms s \<le> turn_budget cfg r s"
  using assms by (rule accepted_budget)

theorem turn_budget_bounds_messages_witness:
  "accepted cfg0 [(env0, llm_message0), (env0, llm_message0)] (server0 []) \<le> turn_budget cfg0 ''c1'' (server0 [])"
  by (rule turn_budget_bounds_messages)
     (auto simp: chained_def origin_id_def llm_message0_def message0_def mk_tags_def)

text \<open>A turn belongs to the agent that opened it.  A message of the chained kind is accepted only when
  its turn exists, belongs to the sending agent, was active within the turn timeout and has depth
  left; its depth then grows by one.\<close>

theorem turn_owner_checked:
  assumes "validate_correlation e cfg m s = (Inr (True, er), s')" and "chained m"
  shows "\<exists>t. get_turn_state (origin_id m) s = Some t \<and> tu_agent_id t = m_agent m
     \<and> now e - seconds (cfg_turn_timeout_seconds cfg) \<le> tu_last_activity t \<and> tu_depth t < cfg_max_chain_depth cfg
     \<and> turn_state s' = delete_rows (\<lambda>t. tu_last_activity t < now e - seconds (cfg_turn_timeout_seconds cfg))
         (update_rows (\<lambda>t. tu_root_correlation_id t = origin_id m)
           (\<lambda>r. r\<lparr>tu_last_activity := now e, tu_depth := tu_depth t + 1\<rparr>) (turn_state s))"
  using assms by (rule validate_accepts) auto

theorem turn_owner_checked_witness:
  "\<exists>er s'. validate_correlation env0 cfg0 llm_message0 (server0 []) = (Inr (True, er), s')
     \<and> (\<exists>t. get_turn_state ''c1'' (server0 []) = Some t \<and> tu_agent_id t = ''a1'')"
proof -
  have ch: "chained llm_message0" and o: "origin_id llm_message0 = ''c1''" and a: "m_agent llm_message0 = ''a1''"
    by (auto simp: chained_def origin_id_def llm_message0_def message0_def mk_tags_def)
  have "fst (validate_correlation env0 cfg0 llm_message0 (server0 [])) = Inr (True, None)" by code_simp
  then obtain s' where v: "validate_correlation env0 cfg0 llm_message0 (server0 []) = (Inr (True, None), s')"
    by (metis prod.collapse)
  from turn_owner_checked [OF v ch] v show ?thesis by (auto simp: o a)
qed

text \<open>C11: Only a node that runs the registered manifest is admitted.  If a handshake changes the state at
  all, the claimed agent is registered, the claimed manifest hash is the registered one and is not
  empty, and every engine the node registers is an engine of that manifest.\<close>

theorem handshake_admits_registered:
  assumes "snd (handshake_handle e cfg rh tr m c s) \<noteq> s"
  shows "\<exists>key a registered names. sql_text (hs_agent_id m) = Inr (Some key) \<and> get_agent key s = Some a
     \<and> pget m ''manifest_hash'' = JStr (ag_manifest_hash a) \<and> ag_manifest_hash a \<noteq> []
     \<and> py_set (py_or (pget m ''registered_engines'') (JArr [])) = Inr registered
     \<and> obj_keys (py_or (oget (ag_manifest a) ''engines'') (JObj [])) = Inr names \<and> set registered \<subseteq> JStr ` set names"
proof (rule handshake_handle_cases [of m s e cfg rh tr c])
  fix a assume "admissible m a s"
  then show ?thesis unfolding admissible_def using unknown_engines_Nil by metis
qed (use assms in simp)

theorem handshake_admits_registered_witness:
  "\<exists>a. get_agent ''a1'' (server0 []) = Some a \<and> pget handshake0 ''manifest_hash'' = JStr (ag_manifest_hash a)
     \<and> sessions (snd (handshake_handle env0 cfg0 ''rh'' True handshake0 2 (server0 []))) \<noteq> sessions (server0 [])"
proof -
  have ses: "sessions (snd (handshake_handle env0 cfg0 ''rh'' True handshake0 2 (server0 []))) \<noteq> sessions (server0 [])"
    by code_simp
  then have ne: "snd (handshake_handle env0 cfg0 ''rh'' True handshake0 2 (server0 [])) \<noteq> server0 []" by metis
  have "sql_text (hs_agent_id handshake0) = Inr (Some ''a1'')" by code_simp
  with handshake_admits_registered [OF ne] ses show ?thesis by auto
qed

text \<open>The offline queue is delivered whole and in order.  When the agent's connection accepts writes and
  the queued messages still validate, a flush sends every pending message of that agent and VM in
  queue order, appended to what was sent before, and leaves none pending.\<close>

theorem flush_delivers_queue:
  assumes "agent_writer a v s = Some (c, w)" and "\<not> wr_closing w" and "\<not> wr_broken w"
    and "\<And>r. r \<in> set (list_pending_replays a v s) \<Longrightarrow> validate_message e (pr_message r) = Inr (f r)"
  shows "\<exists>s'. flush_for_vm e a v s = (Inr (length (list_pending_replays a v s)), s')
     \<and> agent_writer a v s' = Some (c, w\<lparr>wr_sent := wr_sent w @ map f (list_pending_replays a v s)\<rparr>)
     \<and> list_pending_replays a v s' = []"
  using assms by (rule flush_drains)

definition queued0 :: gateway_state where
  "queued0 = (server0 [])\<lparr>pending_replay := [\<lparr>pr_id = ''q1'', pr_agent_id = ''a1'', pr_vm_id = ''v1'',
     pr_elevation_id = ''e1'', pr_grant_id = ''g1'', pr_message = dump_message env0 False llm_message0,
     pr_created_at = 1, pr_delivered_at = None\<rparr>]\<rparr>"

theorem flush_delivers_queue_witness:
  "\<exists>s' w. flush_for_vm env0 ''a1'' ''v1'' queued0 = (Inr 1, s') \<and> agent_writer ''a1'' ''v1'' s' = Some (1, w)
     \<and> wr_sent w = [llm_message0] \<and> list_pending_replays ''a1'' ''v1'' s' = []"
proof -
  have w: "agent_writer ''a1'' ''v1'' queued0 = Some (1, writer0)"
    by (simp add: agent_writer_def queued0_def server0_def db.defs)
  obtain row where l: "list_pending_replays ''a1'' ''v1'' queued0 = [row]"
    and row: "pr_message row = dump_message env0 False llm_message0"
    by (simp add: list_pending_replays_def queued0_def order_by_def)
  have v: "validate_message env0 (dump_message env0 False llm_message0) = Inr llm_message0"
    by (rule validate_dump_message) (simp_all add: message_ok_def llm_message0_def message0_def)
  from flush_delivers_queue [OF w, of env0 "\<lambda>_. llm_message0"] show ?thesis
    unfolding l by (auto simp: row v writer0_def)
qed

text \<open>A message survives the queue and the wire.  Validating the dump of a message whose risk score is
  in its declared range gives the message back, with the class under its alias or its field name.\<close>

theorem message_roundtrip:
  assumes "pydantic_ok e" and "message_ok m"
  shows "validate_message e (dump_message e by_alias m) = Inr m"
  using assms by (rule validate_dump_message)

theorem message_roundtrip_witness: "validate_message env0 (dump_message env0 True llm_message0) = Inr llm_message0"
  by (rule message_roundtrip) (simp_all add: message_ok_def llm_message0_def message0_def)





section \<open>Launch manifests and the catalog\<close>

text \<open>The canonical manifest is a normal form.  Every manifest that validation accepts is within its
  declared ranges, and its canonical dump, which is what the hash is taken of, validates to the same
  manifest again.\<close>

theorem manifest_canonical_roundtrip:
  assumes "validate_manifest e v = Inr m" and "datetime_ok e"
  shows "manifest_ok e m \<and> validate_manifest e (JObj (canonical_manifest e m)) = Inr m"
  using validate_manifest_ok [OF assms] validate_canonical by blast

theorem manifest_canonical_roundtrip_witness:
  "\<exists>m. validate_manifest env0 (JObj []) = Inr m \<and> validate_manifest env0 (JObj (canonical_manifest env0 m)) = Inr m"
proof -
  have "\<not> isl (validate_manifest env0 (JObj []))" by code_simp
  then obtain m where m: "validate_manifest env0 (JObj []) = Inr m" by (metis isl_def sum.exhaust)
  have "datetime_ok env0" by (simp add: datetime_ok_def env0_def parse_int_str)
  with manifest_canonical_roundtrip [OF m] m show ?thesis by blast
qed

text \<open>After a successful reload the catalog the services read is the catalog the table holds, and
  seeding never overwrites a kind that already has entries.\<close>

theorem catalog_reload_is_fresh:
  assumes "catalog_reload s = (Inr c, s')" and "\<not> catalog_kind_empty k s"
  shows "load_catalog s' = Inr (live_catalog s') \<and> live_catalog s' = c \<and> seed_kind e k xs s = (Inr (), s)"
  using catalog_reload_fresh [OF assms(1)] seed_kind_keeps [OF assms(2)] by (simp add: catalog_fresh_def)

theorem catalog_reload_is_fresh_witness:
  "\<exists>c s'. catalog_reload (snd (ensure_seeded env0 (server0 []))) = (Inr c, s') \<and> load_catalog s' = Inr c"
proof -
  let ?s = "snd (ensure_seeded env0 (server0 []))"
  have "\<not> isl (fst (catalog_reload ?s))" and k: "\<not> catalog_kind_empty ''tools'' ?s" by code_simp+
  then obtain c s' where c: "catalog_reload ?s = (Inr c, s')" by (metis isl_def prod.collapse sum.exhaust)
  from catalog_reload_is_fresh [OF c k] c show ?thesis by metis
qed

section \<open>Memory\<close>

text \<open>C15: Memory is isolated.  Whatever a memory message asks for, the records of every agent other than
  the one it names as its target are unchanged.\<close>

theorem memory_isolation:
  "filter (\<lambda>r. mr_agent_id r \<noteq> payload_target m) (memory_records (snd (memory_handle e svc m g s)))
     = filter (\<lambda>r. mr_agent_id r \<noteq> payload_target m) (memory_records s)"
proof -
  have "preserves (\<lambda>t. others (payload_target m) t = others (payload_target m) s) (memory_handle e svc m g)"
    by (rule memory_handle_others)
  from preservesD [OF this, of s] show ?thesis by (simp add: others_def)
qed

text \<open>C16: No cross-agent access without a grant.  A memory message whose target is another agent and that
  comes with no grant id reads and changes nothing: the records are the same afterwards and the
  result, if there is one, is a failure.\<close>

theorem cross_agent_needs_grant:
  assumes "payload_target m \<noteq> m_agent m" and "\<not> truthy g"
  shows "memory_records (snd (memory_handle e svc m g s)) = memory_records s
     \<and> (\<forall>x. fst (memory_handle e svc m g s) = Inr x \<longrightarrow> \<not> mres_success x)"
proof -
  obtain r s' where "memory_handle e svc m g s = (r, s')" by (cases "memory_handle e svc m g s")
  with memory_handle_blocked [OF this assms] show ?thesis by simp
qed

theorem cross_agent_needs_grant_witness:
  "payload_target (write0 ''a2'') \<noteq> m_agent (write0 ''a2'')
     \<and> memory_records (snd (memory_handle env0 memory0 (write0 ''a2'') JNull (server0 []))) = memory_records (server0 [])"
proof -
  have "payload_target (write0 ''a2'') \<noteq> m_agent (write0 ''a2'')" by code_simp
  with cross_agent_needs_grant [OF this, of JNull env0 memory0 "server0 []"] show ?thesis by simp
qed



text \<open>C18: What is written can be read back.  After a successful write under a key that was free, a query for
  that key by a message that passes the target check returns exactly the written content under the
  record id of the write, at every instant before the record expires, with encryption on or off.
  With encryption off the written metadata must not itself claim that the content is encrypted.\<close>

theorem written_is_read_back:
  assumes "memory_write_op e svc m g s = (Inr x, s')" and "mres_success x"
    and "parse_write m = Inr p" and "mw_key p = Some k" and "k \<noteq> []"
    and "\<not> key_taken (mw_target_agent_id p) (mw_namespace p) k s"
    and "parse_query mq = Inr q" and "mqy_target_agent_id q = mw_target_agent_id p"
    and "mqy_namespace q = mw_namespace p" and "mqy_query_type q = ''key''" and "mqy_key q = Some k"
    and "target_namespace_error mq (mw_target_agent_id p) (mw_namespace p) g' s' = Inr None"
    and "pyd_opt pyd_str g' = Inr gg"
    and "\<And>quota. namespace_quota (mw_target_agent_id p) (mw_namespace p) s = Inr quota \<Longrightarrow> visible_at e e' p quota"
    and "ms_encryption_enabled svc \<longrightarrow> crypto_ok (ms_crypto svc)"
    and "\<not> ms_encryption_enabled svc \<longrightarrow> \<not> truthy (oget (mw_metadata p) ''encrypted'')"
    and "sha256 e' = sha256 e"
  shows "\<exists>y s''. memory_query_op e' svc mq g' s' = (Inr y, s'') \<and> mres_success y
     \<and> map mr_content (mres_records y) = [mw_content p]
     \<and> map (Some \<circ> mr_id) (mres_records y) = [mres_record_id x]"
  using write_then_query [OF assms] .

theorem written_is_read_back_witness:
  "\<exists>x s' y s''. memory_write_op env0 memory0 (write0 ''a1'') JNull (server0 []) = (Inr x, s')
     \<and> memory_query_op env0 memory0 query0 JNull s' = (Inr y, s'') \<and> map mr_content (mres_records y) = [''secret'']"
proof -
  obtain x s' where w: "memory_write_op env0 memory0 (write0 ''a1'') JNull (server0 []) = (Inr x, s')" "mres_success x"
    using write0_success by blast
  have ag: "agents s' = agents (server0 [])" "live_catalog s' = live_catalog (server0 [])"
    using w by (auto elim: memory_write_success)
  have "target_namespace_error query0 ''a1'' ''private'' JNull (server0 []) = Inr None" by code_simp
  then have t: "target_namespace_error query0 ''a1'' ''private'' JNull s' = Inr None"
    by (simp only: target_namespace_error_def get_agent_def ag)
  have v: "visible_at env0 env0 (pw0 ''a1'') quota" if "namespace_quota ''a1'' ''private'' (server0 []) = Inr quota" for quota
    using quota0 [of "[]"] that by (simp add: visible_at_def ttl_expiry_def pw0_def)
  have k: "\<not> key_taken ''a1'' ''private'' ''k'' (server0 [])" by (simp add: key_taken_def server0_def db.defs db0_def)
  have "\<exists>y s''. memory_query_op env0 memory0 query0 JNull s' = (Inr y, s'') \<and> mres_success y
     \<and> map mr_content (mres_records y) = [mw_content (pw0 ''a1'')] \<and> map (Some \<circ> mr_id) (mres_records y) = [mres_record_id x]"
    by (rule written_is_read_back [OF w parse_write0 _ _ _ parse_query0, of "''k''" JNull None env0])
       (use t v k in \<open>simp_all add: pw0_def memory0_def\<close>)
  with w show ?thesis by (auto simp: pw0_def)
qed

end
